(* ===== verification/Prelude.thy ===== *)
theory Prelude
  imports Main
    "HOL-Library.AList"
    "HOL-Library.Sublist"
    "HOL-Library.Char_ord"
    "HOL-Library.List_Lexorder"
    "HOL-Library.Multiset"
begin

text \<open>
  The part of the Go language and standard library that the operator uses, and the generic
  facts the component theories share.

  Go strings are byte sequences: a \<open>string\<close> is a list of 8-bit characters.
  \<open>strings.ToLower\<close>, \<open>ToUpper\<close>, \<open>TrimSpace\<close> and \<open>EqualFold\<close> are modelled on
  bytes with the ASCII tables; bytes above 127 are left alone, so for text outside ASCII the
  Unicode tables of the library are not modelled.

  A Go map is an association list with distinct keys. The order of the list is the
  iteration order of one \<open>range\<close> loop, which Go leaves unspecified, so a statement about every
  list is a statement about every iteration order.
\<close>

named_theorems go_string_simps "rewrite rules on the string functions of the Go library"
named_theorems go_map_simps "rewrite rules on association lists used as Go maps"
named_theorems mq_defs "operation definitions that a proof about a whole handler unfolds"

section \<open>Characters and case mapping\<close>

definition go_lower_char :: "char \<Rightarrow> char" where
  "go_lower_char c =
     (if 65 \<le> (of_char c :: nat) \<and> (of_char c :: nat) \<le> 90
      then char_of ((of_char c :: nat) + 32) else c)"

definition go_upper_char :: "char \<Rightarrow> char" where
  "go_upper_char c =
     (if 97 \<le> (of_char c :: nat) \<and> (of_char c :: nat) \<le> 122
      then char_of ((of_char c :: nat) - 32) else c)"

definition ToLower :: "string \<Rightarrow> string" where
  "ToLower s = map go_lower_char s"

definition ToUpper :: "string \<Rightarrow> string" where
  "ToUpper s = map go_upper_char s"

definition EqualFold :: "string \<Rightarrow> string \<Rightarrow> bool" where
  "EqualFold s t \<longleftrightarrow> ToLower s = ToLower t"

definition go_is_space :: "char \<Rightarrow> bool" where
  "go_is_space c \<longleftrightarrow> (of_char c :: nat) \<in> {9, 10, 11, 12, 13, 32}"

definition TrimSpace :: "string \<Rightarrow> string" where
  "TrimSpace s = rev (dropWhile go_is_space (rev (dropWhile go_is_space s)))"

lemma of_char_nat_less [simp]: "(of_char c :: nat) < 256"
  using of_char_mod_256 [of c, where ?'a = nat] by (metis mod_less_divisor zero_less_numeral)

lemma of_char_of_nat: "n < 256 \<Longrightarrow> (of_char (char_of (n :: nat)) :: nat) = n"
  by simp

lemma of_char_minus_mod [simp]: "((of_char c :: nat) - k) mod 256 = of_char c - k"
  by (rule mod_less) (metis less_imp_diff_less of_char_nat_less)

lemma go_lower_char_idem [simp]: "go_lower_char (go_lower_char c) = go_lower_char c"
  by (simp add: go_lower_char_def of_char_of_nat)

lemma go_upper_char_idem [simp]: "go_upper_char (go_upper_char c) = go_upper_char c"
  by (auto simp: go_upper_char_def)

lemma go_lower_upper_char [simp]: "go_lower_char (go_upper_char c) = go_lower_char c"
  by (auto simp: go_lower_char_def go_upper_char_def)

lemma go_upper_lower_char [simp]: "go_upper_char (go_lower_char c) = go_upper_char c"
  by (simp add: go_lower_char_def go_upper_char_def of_char_of_nat)

lemma ToLower_idem [simp]: "ToLower (ToLower s) = ToLower s"
  by (simp add: ToLower_def)

lemma ToUpper_idem [simp]: "ToUpper (ToUpper s) = ToUpper s"
  by (simp add: ToUpper_def)

lemma ToLower_ToUpper [simp]: "ToLower (ToUpper s) = ToLower s"
  by (simp add: ToLower_def ToUpper_def)

lemma ToUpper_ToLower [simp]: "ToUpper (ToLower s) = ToUpper s"
  by (simp add: ToLower_def ToUpper_def)

lemma ToLower_Nil_iff [simp]: "ToLower s = [] \<longleftrightarrow> s = []" "ToLower [] = []"
  by (simp_all add: ToLower_def)

lemma ToUpper_Nil_iff [simp]: "ToUpper s = [] \<longleftrightarrow> s = []" "ToUpper [] = []"
  by (simp_all add: ToUpper_def)

lemma EqualFold_refl [simp]: "EqualFold s s"
  by (simp add: EqualFold_def)

lemma EqualFold_sym: "EqualFold s t \<Longrightarrow> EqualFold t s"
  by (simp add: EqualFold_def)

lemma EqualFold_trans: "EqualFold s t \<Longrightarrow> EqualFold t u \<Longrightarrow> EqualFold s u"
  by (simp add: EqualFold_def)

lemma EqualFold_ToUpper: "EqualFold s t \<longleftrightarrow> ToUpper s = ToUpper t"
  unfolding EqualFold_def by (metis ToLower_ToUpper ToUpper_ToLower)

lemma go_is_space_lower [simp]: "go_is_space (go_lower_char c) = go_is_space c"
  by (auto simp: go_is_space_def go_lower_char_def of_char_of_nat)

lemma go_is_space_upper [simp]: "go_is_space (go_upper_char c) = go_is_space c"
  by (auto simp: go_is_space_def go_upper_char_def of_char_of_nat)

lemma TrimSpace_Nil [simp]: "TrimSpace [] = []"
  by (simp add: TrimSpace_def)

lemma dropWhile_rev_dropWhile_rev:
  "dropWhile P t = t \<Longrightarrow> dropWhile P (rev (dropWhile P (rev t))) = rev (dropWhile P (rev t))"
proof (cases "rev (dropWhile P (rev t))")
  case Nil
  show ?thesis unfolding Nil by simp
next
  case (Cons a as)
  assume fixed: "dropWhile P t = t"
  have "t = rev (dropWhile P (rev t)) @ rev (takeWhile P (rev t))"
    by (metis rev_append rev_rev_ident takeWhile_dropWhile_id)
  with Cons have "t = a # as @ rev (takeWhile P (rev t))" by simp
  with fixed have "\<not> P a" by (metis hd_dropWhile list.discI list.sel(1))
  with Cons show ?thesis by simp
qed

lemma TrimSpace_idem [simp]: "TrimSpace (TrimSpace s) = TrimSpace s"
  unfolding TrimSpace_def
  by (subst dropWhile_rev_dropWhile_rev) simp_all

lemma ToUpper_TrimSpace: "ToUpper (TrimSpace s) = TrimSpace (ToUpper s)"
  by (simp add: ToUpper_def TrimSpace_def dropWhile_map rev_map o_def)

lemma ToLower_TrimSpace: "ToLower (TrimSpace s) = TrimSpace (ToLower s)"
  by (simp add: ToLower_def TrimSpace_def dropWhile_map rev_map o_def)

section \<open>Searching, joining, splitting\<close>

fun HasPrefix :: "string \<Rightarrow> string \<Rightarrow> bool" where
  "HasPrefix s [] \<longleftrightarrow> True"
| "HasPrefix [] (p # ps) \<longleftrightarrow> False"
| "HasPrefix (c # cs) (p # ps) \<longleftrightarrow> c = p \<and> HasPrefix cs ps"

fun go_index :: "string \<Rightarrow> string \<Rightarrow> nat option" where
  "go_index [] sub = (if sub = [] then Some 0 else None)"
| "go_index (c # cs) sub =
     (if HasPrefix (c # cs) sub then Some 0 else map_option Suc (go_index cs sub))"

definition Contains :: "string \<Rightarrow> string \<Rightarrow> bool" where
  "Contains s sub \<longleftrightarrow> go_index s sub \<noteq> None"

fun go_join :: "string list \<Rightarrow> string \<Rightarrow> string" where
  "go_join [] sep = []"
| "go_join [x] sep = x"
| "go_join (x # y # ys) sep = x @ sep @ go_join (y # ys) sep"

fun go_split_char :: "char \<Rightarrow> string \<Rightarrow> string list" where
  "go_split_char d [] = [[]]"
| "go_split_char d (c # cs) =
     (if c = d then [] # go_split_char d cs
      else (case go_split_char d cs of
              [] \<Rightarrow> [[c]]
            | p # ps \<Rightarrow> (c # p) # ps))"

definition TrimSuffix1 :: "char \<Rightarrow> string \<Rightarrow> string" where
  "TrimSuffix1 c s = (if s \<noteq> [] \<and> last s = c then butlast s else s)"

definition go_trim_char :: "char \<Rightarrow> string \<Rightarrow> string" where
  "go_trim_char c s = rev (dropWhile ((=) c) (rev (dropWhile ((=) c) s)))"

abbreviation squote :: char where "squote \<equiv> CHR 0x27"
abbreviation dquote :: char where "dquote \<equiv> CHR 0x22"

lemma HasPrefix_iff_prefix: "HasPrefix s p \<longleftrightarrow> prefix p s"
  by (induction s p rule: HasPrefix.induct) auto

lemma go_index_Some_append:
  "go_index s sub = Some i \<Longrightarrow> \<exists>pre post. s = pre @ sub @ post \<and> length pre = i"
proof (induction s arbitrary: i)
  case Nil
  then show ?case by (auto split: if_splits)
next
  case (Cons c cs)
  show ?case
  proof (cases "HasPrefix (c # cs) sub")
    case True
    with Cons.prems show ?thesis by (auto simp: HasPrefix_iff_prefix prefix_def)
  next
    case False
    with Cons.prems obtain j where "go_index cs sub = Some j" "i = Suc j" by auto
    with Cons.IH obtain pre post where "cs = pre @ sub @ post" "length pre = j" by blast
    with \<open>i = Suc j\<close> have "c # cs = (c # pre) @ sub @ post \<and> length (c # pre) = i" by simp
    then show ?thesis by blast
  qed
qed

lemma go_index_append: "go_index (pre @ sub @ post) sub \<noteq> None"
proof (induction pre)
  case Nil
  have "prefix sub (sub @ post)" by simp
  then show ?case by (cases "sub @ post") (simp_all add: HasPrefix_iff_prefix)
next
  case (Cons c pre)
  then show ?case by auto
qed

lemma Contains_iff: "Contains s sub \<longleftrightarrow> (\<exists>pre post. s = pre @ sub @ post)"
  unfolding Contains_def using go_index_append go_index_Some_append by (metis not_None_eq)

lemma Contains_append_left: "Contains s sub \<Longrightarrow> Contains (t @ s) sub"
  unfolding Contains_iff by (metis append_assoc)

lemma Contains_append_right: "Contains s sub \<Longrightarrow> Contains (s @ t) sub"
  unfolding Contains_iff by (metis append_assoc)

lemma go_split_char_not_Nil [simp]: "go_split_char d s \<noteq> []"
  by (induction s) (auto split: list.splits)

lemma go_split_char_free: "d \<notin> set s \<Longrightarrow> go_split_char d s = [s]"
  by (induction s) auto

lemma go_split_char_append:
  "d \<notin> set s \<Longrightarrow> go_split_char d (s @ d # t) = s # go_split_char d t"
  by (induction s) auto

lemma go_split_join:
  "xs \<noteq> [] \<Longrightarrow> \<forall>x \<in> set xs. d \<notin> set x \<Longrightarrow> go_split_char d (go_join xs [d]) = xs"
  by (induction xs "[d]" rule: go_join.induct)
     (auto simp: go_split_char_free go_split_char_append)

section \<open>Decimal integers: \<open>strconv\<close>\<close>

definition go_is_digit :: "char \<Rightarrow> bool" where
  "go_is_digit c \<longleftrightarrow> 48 \<le> (of_char c :: nat) \<and> (of_char c :: nat) \<le> 57"

definition go_digit_val :: "char \<Rightarrow> nat" where
  "go_digit_val c = of_char c - 48"

definition go_digit_char :: "nat \<Rightarrow> char" where
  "go_digit_char n = char_of (n + 48)"

fun go_digits_val :: "nat \<Rightarrow> string \<Rightarrow> nat option" where
  "go_digits_val acc [] = Some acc"
| "go_digits_val acc (c # cs) =
     (if go_is_digit c then go_digits_val (10 * acc + go_digit_val c) cs else None)"

definition go_parse_uint :: "string \<Rightarrow> nat option" where
  "go_parse_uint s = (if s = [] then None else go_digits_val 0 s)"

text \<open>\<open>strconv.ParseInt(s, 10, bits)\<close>: an optional sign, at least one digit, and the range
  of a \<open>bits\<close>-bit two's-complement integer; \<open>None\<close> is the error.\<close>

definition ParseInt :: "nat \<Rightarrow> string \<Rightarrow> int option" where
  "ParseInt bits s =
     (case s of
        [] \<Rightarrow> None
      | c # cs \<Rightarrow>
          (let v = (if c = CHR ''-'' then map_option (\<lambda>n. - int n) (go_parse_uint cs)
                    else if c = CHR ''+'' then map_option int (go_parse_uint cs)
                    else map_option int (go_parse_uint s))
           in case v of
                None \<Rightarrow> None
              | Some n \<Rightarrow> if - (2 ^ (bits - 1)) \<le> n \<and> n < 2 ^ (bits - 1) then Some n else None))"

abbreviation Atoi :: "string \<Rightarrow> int option" where
  "Atoi \<equiv> ParseInt 64"

fun go_nat_dec :: "nat \<Rightarrow> string" where
  "go_nat_dec n =
     (if n < 10 then [go_digit_char n] else go_nat_dec (n div 10) @ [go_digit_char (n mod 10)])"

declare go_nat_dec.simps [simp del]

definition Itoa :: "int \<Rightarrow> string" where
  "Itoa n = (if n < 0 then CHR ''-'' # go_nat_dec (nat (- n)) else go_nat_dec (nat n))"

lemma go_digits_val_append:
  "go_digits_val acc (s @ t) = Option.bind (go_digits_val acc s) (\<lambda>a. go_digits_val a t)"
  by (induction s arbitrary: acc) auto

lemma go_digit_char_val [simp]:
  "n < 10 \<Longrightarrow> go_is_digit (go_digit_char n)" "n < 10 \<Longrightarrow> go_digit_val (go_digit_char n) = n"
  by (simp_all add: go_is_digit_def go_digit_char_def go_digit_val_def)

lemma go_nat_dec_not_Nil [simp]: "go_nat_dec n \<noteq> []"
  by (subst go_nat_dec.simps) simp

lemma go_nat_dec_digits: "c \<in> set (go_nat_dec n) \<Longrightarrow> go_is_digit c"
proof (induction n rule: go_nat_dec.induct)
  case (1 n)
  show ?case
  proof (cases "n < 10")
    case True
    with "1.prems" show ?thesis by (simp add: go_nat_dec.simps [of n])
  next
    case False
    with "1.prems" "1.IH" show ?thesis by (auto simp: go_nat_dec.simps [of n])
  qed
qed

lemma go_digits_val_nat_dec: "go_digits_val 0 (go_nat_dec n) = Some n"
proof (induction n rule: go_nat_dec.induct)
  case (1 n)
  show ?case
  proof (cases "n < 10")
    case True
    then show ?thesis by (simp add: go_nat_dec.simps [of n])
  next
    case False
    with 1 show ?thesis by (simp add: go_nat_dec.simps [of n] go_digits_val_append)
  qed
qed

lemma go_digit_not_sign: "go_is_digit c \<Longrightarrow> c \<noteq> CHR ''-'' \<and> c \<noteq> CHR ''+''"
  by (auto simp: go_is_digit_def)

text \<open>Rendering an integer of the width and reading it back gives the same integer.\<close>

lemma ParseInt_Itoa:
  "- (2 ^ (bits - 1)) \<le> n \<Longrightarrow> n < 2 ^ (bits - 1) \<Longrightarrow> ParseInt bits (Itoa n) = Some n"
proof (cases "n < 0")
  case True
  assume "- (2 ^ (bits - 1)) \<le> n" "n < 2 ^ (bits - 1)"
  with True show ?thesis
    by (simp add: ParseInt_def Itoa_def go_parse_uint_def go_digits_val_nat_dec)
next
  case False
  assume b: "- (2 ^ (bits - 1)) \<le> n" "n < 2 ^ (bits - 1)"
  obtain c cs where cs: "go_nat_dec (nat n) = c # cs"
    by (metis go_nat_dec_not_Nil list.exhaust)
  then have "go_is_digit c" using go_nat_dec_digits [of c "nat n"] by simp
  with cs False b go_digits_val_nat_dec [of "nat n"] show ?thesis
    by (auto simp: ParseInt_def Itoa_def go_parse_uint_def dest: go_digit_not_sign)
qed

lemma ParseInt_range:
  "ParseInt bits s = Some n \<Longrightarrow> - (2 ^ (bits - 1)) \<le> n \<and> n < 2 ^ (bits - 1)"
  by (auto simp: ParseInt_def Let_def split: list.splits option.splits if_splits)

lemma ParseInt_Nil [simp]: "ParseInt bits [] = None"
  by (simp add: ParseInt_def)

lemma go_is_digit_not_space: "go_is_digit c \<Longrightarrow> \<not> go_is_space c"
  by (auto simp: go_is_digit_def go_is_space_def)

lemma TrimSpace_no_space: "\<forall>c \<in> set s. \<not> go_is_space c \<Longrightarrow> TrimSpace s = s"
proof -
  assume a: "\<forall>c \<in> set s. \<not> go_is_space c"
  then have "dropWhile go_is_space s = s" by (cases s) auto
  moreover from a have "dropWhile go_is_space (rev s) = rev s"
    by (cases "rev s") (auto simp: rev_eq_Cons_iff)
  ultimately show ?thesis by (simp add: TrimSpace_def)
qed

lemma go_digits_val_digits: "go_digits_val acc s = Some n \<Longrightarrow> c \<in> set s \<Longrightarrow> go_is_digit c"
  by (induction acc s rule: go_digits_val.induct) (auto split: if_splits)

lemma ParseInt_no_space:
  assumes "ParseInt bits s = Some n"
  shows "TrimSpace s = s"
proof (rule TrimSpace_no_space, rule)
  fix c assume "c \<in> set s"
  moreover obtain d ds where s: "s = d # ds" using assms by (cases s) auto
  ultimately have "go_is_digit c \<or> c = CHR ''-'' \<or> c = CHR ''+''"
    using assms by (auto simp: ParseInt_def go_parse_uint_def dest: go_digits_val_digits
        split: if_splits option.splits)
  then show "\<not> go_is_space c" by (auto dest: go_is_digit_not_space simp: go_is_space_def)
qed

lemma TrimSpace_Itoa [simp]: "TrimSpace (Itoa n) = Itoa n"
proof (rule TrimSpace_no_space)
  have m: "\<not> go_is_space (CHR ''-'')" by (simp add: go_is_space_def)
  have "\<forall>c \<in> set (go_nat_dec k). \<not> go_is_space c" for k
    using go_nat_dec_digits go_is_digit_not_space by blast
  with m show "\<forall>c \<in> set (Itoa n). \<not> go_is_space c"
    by (auto simp: Itoa_def)
qed

lemma Itoa_not_Nil [simp]: "Itoa n \<noteq> []"
  by (simp add: Itoa_def)

text \<open>The 64-bit two's-complement value that Go arithmetic on \<open>int\<close> and \<open>time.Duration\<close>
  keeps of a mathematical result.\<close>

definition wrap64 :: "int \<Rightarrow> int" where
  "wrap64 n = (n + 2 ^ 63) mod 2 ^ 64 - 2 ^ 63"

lemma wrap64_id: "- (2 ^ 63) \<le> n \<Longrightarrow> n < 2 ^ 63 \<Longrightarrow> wrap64 n = n"
  by (simp add: wrap64_def)

text \<open>\<open>strconv.ParseBool\<close>.\<close>

definition ParseBool :: "string \<Rightarrow> bool option" where
  "ParseBool s =
     (if s \<in> set [''1'', ''t'', ''T'', ''TRUE'', ''true'', ''True''] then Some True
      else if s \<in> set [''0'', ''f'', ''F'', ''FALSE'', ''false'', ''False''] then Some False
      else None)"

section \<open>Quoting: the \<open>%q\<close> verb\<close>

definition go_hex_digit :: "nat \<Rightarrow> char" where
  "go_hex_digit n = (if n < 10 then char_of (n + 48) else char_of (n + 87))"

definition go_quote_char :: "char \<Rightarrow> string" where
  "go_quote_char c =
     (let n = (of_char c :: nat) in
      if c = dquote then [CHR 0x5C, dquote]
      else if c = CHR 0x5C then [CHR 0x5C, CHR 0x5C]
      else if 32 \<le> n \<and> n < 127 then [c]
      else if n = 7 then [CHR 0x5C, CHR ''a'']
      else if n = 8 then [CHR 0x5C, CHR ''b'']
      else if n = 12 then [CHR 0x5C, CHR ''f'']
      else if n = 10 then [CHR 0x5C, CHR ''n'']
      else if n = 13 then [CHR 0x5C, CHR ''r'']
      else if n = 9 then [CHR 0x5C, CHR ''t'']
      else if n = 11 then [CHR 0x5C, CHR ''v'']
      else [CHR 0x5C, CHR ''x'', go_hex_digit (n div 16), go_hex_digit (n mod 16)])"

definition Quote :: "string \<Rightarrow> string" where
  "Quote s = dquote # concat (map go_quote_char s) @ [dquote]"

lemma Quote_not_Nil [simp]: "Quote s \<noteq> []"
  by (simp add: Quote_def)

section \<open>Go maps as association lists\<close>

type_synonym ('k, 'v) gomap = "('k \<times> 'v) list"
type_synonym attrs = "(string, string) gomap"

definition wf_gomap :: "('k, 'v) gomap \<Rightarrow> bool" where
  "wf_gomap m \<longleftrightarrow> distinct (map fst m)"

text \<open>Reading a missing key of a \<open>map[string]string\<close> gives the zero value.\<close>

definition getz :: "attrs \<Rightarrow> string \<Rightarrow> string" where
  "getz m k = (case map_of m k of None \<Rightarrow> [] | Some v \<Rightarrow> v)"

lemma map_of_AList_update [simp, go_map_simps]:
  "map_of (AList.update k v m) = (map_of m)(k \<mapsto> v)"
  by (simp add: update_conv')

lemma map_of_AList_delete [simp, go_map_simps]:
  "map_of (AList.delete k m) = (map_of m)(k := None)"
  by (simp add: delete_conv')

lemma wf_gomap_Nil [simp]: "wf_gomap []"
  by (simp add: wf_gomap_def)

lemma wf_gomap_update [simp]: "wf_gomap m \<Longrightarrow> wf_gomap (AList.update k v m)"
  by (simp add: wf_gomap_def distinct_update)

lemma wf_gomap_delete [simp]: "wf_gomap m \<Longrightarrow> wf_gomap (AList.delete k m)"
  by (simp add: wf_gomap_def distinct_delete)

lemma wf_gomap_map_of: "wf_gomap m \<Longrightarrow> (k, v) \<in> set m \<longleftrightarrow> map_of m k = Some v"
  by (simp add: wf_gomap_def)

lemma getz_update [simp, go_map_simps]:
  "getz (AList.update k v m) k' = (if k' = k then v else getz m k')"
  by (simp add: getz_def)

section \<open>The result type\<close>

text \<open>A Go function that returns \<open>(T, error)\<close> returns \<open>Inl err\<close> or \<open>Inr value\<close>.\<close>

fun is_err :: "'e + 'a \<Rightarrow> bool" where
  "is_err (Inl e) = True"
| "is_err (Inr v) = False"

lemma is_err_iff: "is_err r \<longleftrightarrow> (\<exists>e. r = Inl e)"
  by (cases r) auto

end
