(* ===== verification/MQ_Errors.thy ===== *)
theory MQ_Errors
  imports Prelude
begin

text \<open>
  The error taxonomy of \<open>internal/mqadmin/admin.go\<close>: the sentinel errors, the five error
  structs with their \<open>Error\<close>, \<open>Unwrap\<close> and \<open>Is\<close> methods, and the parts of Go's
  \<open>errors\<close> package (\<open>Is\<close>, \<open>As\<close>) with which the callers classify them. Errors of
  other packages appear as opaque constructors: \<open>WrapError\<close> is \<open>fmt.Errorf\<close> with one
  trailing \<open>%w\<close>, \<open>K8sError\<close> an API-server status error, \<open>NetError\<close> an error of
  \<open>net/http\<close>, \<open>CtxError\<close> the error of an expired or cancelled context.
\<close>

datatype sentinel =
    ErrNotFound
  | ErrTerminal
  | ErrTransient
  | ErrConnectionNotFound
  | ErrSecretNotFound

datatype k8s_reason = K8sNotFound | K8sConflict | K8sInvalid | K8sNotRegistered | K8sOther

datatype mq_error =
    Sentinel sentinel
  | TerminalError string string "mq_error option"
  | TransientError string "mq_error option"
  | NotFoundError string
  | ConnectionNotFoundError string "mq_error option"
  | SecretNotFoundError string string "mq_error option"
  | AdoptionBlockedError string string
  | WrapError string mq_error
  | PlainError string
  | K8sError k8s_reason string
  | NetError string
  | CtxError string

type_synonym 'a result = "mq_error + 'a"

fun sentinel_text :: "sentinel \<Rightarrow> string" where
  "sentinel_text ErrNotFound = ''mq object not found''"
| "sentinel_text ErrTerminal = ''mq terminal error''"
| "sentinel_text ErrTransient = ''mq transient error''"
| "sentinel_text ErrConnectionNotFound = ''queuemanagerconnection not found''"
| "sentinel_text ErrSecretNotFound = ''kubernetes secret not found''"

text \<open>The \<open>Error()\<close> methods; the verb \<open>%v\<close> prints a nil error as \<open><nil>\<close>.\<close>

fun Error :: "mq_error \<Rightarrow> string" where
  "Error (Sentinel s) = sentinel_text s"
| "Error (TerminalError r m c) =
     (case c of None \<Rightarrow> m | Some e \<Rightarrow> m @ '': '' @ Error e)"
| "Error (TransientError m c) =
     (case c of None \<Rightarrow> m | Some e \<Rightarrow> m @ '': '' @ Error e)"
| "Error (NotFoundError obj) = ''mq object '' @ Quote obj @ '' not found''"
| "Error (ConnectionNotFoundError n c) =
     ''get connection '' @ Quote n @ '': '' @
     (case c of None \<Rightarrow> ''<nil>'' | Some e \<Rightarrow> Error e)"
| "Error (SecretNotFoundError n role c) =
     (if role \<noteq> [] then ''get '' @ role @ '' secret '' @ Quote n else ''get secret '' @ Quote n)
     @ '': '' @ (case c of None \<Rightarrow> ''<nil>'' | Some e \<Rightarrow> Error e)"
| "Error (AdoptionBlockedError r m) = m"
| "Error (WrapError p e) = p @ '': '' @ Error e"
| "Error (PlainError m) = m"
| "Error (K8sError k m) = m"
| "Error (NetError m) = m"
| "Error (CtxError m) = m"

fun Unwrap :: "mq_error \<Rightarrow> mq_error option" where
  "Unwrap (TerminalError r m c) = c"
| "Unwrap (TransientError m c) = c"
| "Unwrap (ConnectionNotFoundError n c) = c"
| "Unwrap (SecretNotFoundError n role c) = c"
| "Unwrap (WrapError p e) = Some e"
| "Unwrap e = None"

text \<open>The \<open>Is(target)\<close> methods; the sentinels and the other errors have none.\<close>

fun Is_method :: "mq_error \<Rightarrow> sentinel \<Rightarrow> bool" where
  "Is_method (TerminalError r m c) t \<longleftrightarrow> t = ErrTerminal"
| "Is_method (TransientError m c) t \<longleftrightarrow> t = ErrTransient"
| "Is_method (NotFoundError obj) t \<longleftrightarrow> t = ErrNotFound"
| "Is_method (ConnectionNotFoundError n c) t \<longleftrightarrow> t = ErrConnectionNotFound"
| "Is_method (SecretNotFoundError n role c) t \<longleftrightarrow> t = ErrSecretNotFound"
| "Is_method e t \<longleftrightarrow> False"

text \<open>\<open>errors.Is\<close> and \<open>errors.As\<close> walk the chain of \<open>Unwrap\<close>.\<close>

fun err_chain :: "mq_error \<Rightarrow> mq_error list" where
  "err_chain (TerminalError r m c) =
     TerminalError r m c # (case c of None \<Rightarrow> [] | Some e \<Rightarrow> err_chain e)"
| "err_chain (TransientError m c) =
     TransientError m c # (case c of None \<Rightarrow> [] | Some e \<Rightarrow> err_chain e)"
| "err_chain (ConnectionNotFoundError n c) =
     ConnectionNotFoundError n c # (case c of None \<Rightarrow> [] | Some e \<Rightarrow> err_chain e)"
| "err_chain (SecretNotFoundError n role c) =
     SecretNotFoundError n role c # (case c of None \<Rightarrow> [] | Some e \<Rightarrow> err_chain e)"
| "err_chain (WrapError p e) = WrapError p e # err_chain e"
| "err_chain e = [e]"

definition errors_Is :: "mq_error \<Rightarrow> sentinel \<Rightarrow> bool" where
  "errors_Is err t \<longleftrightarrow> list_ex (\<lambda>e. e = Sentinel t \<or> Is_method e t) (err_chain err)"

fun is_TerminalError :: "mq_error \<Rightarrow> bool" where
  "is_TerminalError (TerminalError r m c) \<longleftrightarrow> True"
| "is_TerminalError e \<longleftrightarrow> False"

fun is_NotFoundError :: "mq_error \<Rightarrow> bool" where
  "is_NotFoundError (NotFoundError obj) \<longleftrightarrow> True"
| "is_NotFoundError e \<longleftrightarrow> False"

fun is_ConnectionNotFoundError :: "mq_error \<Rightarrow> bool" where
  "is_ConnectionNotFoundError (ConnectionNotFoundError n c) \<longleftrightarrow> True"
| "is_ConnectionNotFoundError e \<longleftrightarrow> False"

fun is_SecretNotFoundError :: "mq_error \<Rightarrow> bool" where
  "is_SecretNotFoundError (SecretNotFoundError n role c) \<longleftrightarrow> True"
| "is_SecretNotFoundError e \<longleftrightarrow> False"

fun is_AdoptionBlockedError :: "mq_error \<Rightarrow> bool" where
  "is_AdoptionBlockedError (AdoptionBlockedError r m) \<longleftrightarrow> True"
| "is_AdoptionBlockedError e \<longleftrightarrow> False"

definition errors_As :: "(mq_error \<Rightarrow> bool) \<Rightarrow> mq_error \<Rightarrow> mq_error option" where
  "errors_As p err = find p (err_chain err)"

text \<open>\<open>apierrors.IsNotFound\<close> and \<open>runtime.IsNotRegisteredError\<close> of apimachinery: an error of
  the API-server client anywhere in the chain, and the bare scheme error.\<close>

fun is_k8s_reason :: "k8s_reason \<Rightarrow> mq_error \<Rightarrow> bool" where
  "is_k8s_reason k (K8sError k' m) \<longleftrightarrow> k' = k"
| "is_k8s_reason k e \<longleftrightarrow> False"

definition k8s_IsNotFound :: "mq_error \<Rightarrow> bool" where
  "k8s_IsNotFound err \<longleftrightarrow> list_ex (is_k8s_reason K8sNotFound) (err_chain err)"

definition k8s_IsNotRegistered :: "mq_error \<Rightarrow> bool" where
  "k8s_IsNotRegistered err \<longleftrightarrow> is_k8s_reason K8sNotRegistered err"

section \<open>Classification of wrapped errors\<close>

lemma err_chain_not_Nil [simp]: "err_chain e \<noteq> []"
  by (cases e) auto

lemma err_chain_unwrap:
  "err_chain e = e # (case Unwrap e of None \<Rightarrow> [] | Some e' \<Rightarrow> err_chain e')"
  by (cases e) auto

lemma errors_Is_unwrap:
  "errors_Is e t \<longleftrightarrow>
     e = Sentinel t \<or> Is_method e t \<or> (\<exists>e'. Unwrap e = Some e' \<and> errors_Is e' t)"
  by (subst errors_Is_def, subst err_chain_unwrap)
     (auto simp: errors_Is_def split: option.splits)

lemma errors_Is_simps [simp]:
  "errors_Is (Sentinel s) t \<longleftrightarrow> s = t"
  "errors_Is (TerminalError r m None) t \<longleftrightarrow> t = ErrTerminal"
  "errors_Is (TerminalError r m (Some e)) t \<longleftrightarrow> t = ErrTerminal \<or> errors_Is e t"
  "errors_Is (TransientError m None) t \<longleftrightarrow> t = ErrTransient"
  "errors_Is (TransientError m (Some e)) t \<longleftrightarrow> t = ErrTransient \<or> errors_Is e t"
  "errors_Is (NotFoundError obj) t \<longleftrightarrow> t = ErrNotFound"
  "errors_Is (ConnectionNotFoundError n None) t \<longleftrightarrow> t = ErrConnectionNotFound"
  "errors_Is (ConnectionNotFoundError n (Some e)) t \<longleftrightarrow> t = ErrConnectionNotFound \<or> errors_Is e t"
  "errors_Is (SecretNotFoundError n role None) t \<longleftrightarrow> t = ErrSecretNotFound"
  "errors_Is (SecretNotFoundError n role (Some e)) t \<longleftrightarrow> t = ErrSecretNotFound \<or> errors_Is e t"
  "errors_Is (AdoptionBlockedError r m) t \<longleftrightarrow> False"
  "errors_Is (WrapError p e) t \<longleftrightarrow> errors_Is e t"
  "errors_Is (PlainError m) t \<longleftrightarrow> False"
  "errors_Is (K8sError k m) t \<longleftrightarrow> False"
  "errors_Is (NetError m) t \<longleftrightarrow> False"
  "errors_Is (CtxError m) t \<longleftrightarrow> False"
  by (auto simp: errors_Is_def)

lemma errors_As_simps [simp]:
  "errors_As p (WrapError x e) = (if p (WrapError x e) then Some (WrapError x e) else errors_As p e)"
  "errors_As p (TerminalError r m c) =
     (if p (TerminalError r m c) then Some (TerminalError r m c)
      else (case c of None \<Rightarrow> None | Some e \<Rightarrow> errors_As p e))"
  "errors_As p (TransientError m c) =
     (if p (TransientError m c) then Some (TransientError m c)
      else (case c of None \<Rightarrow> None | Some e \<Rightarrow> errors_As p e))"
  "errors_As p (NotFoundError obj) = (if p (NotFoundError obj) then Some (NotFoundError obj) else None)"
  "errors_As p (ConnectionNotFoundError n c) =
     (if p (ConnectionNotFoundError n c) then Some (ConnectionNotFoundError n c)
      else (case c of None \<Rightarrow> None | Some e \<Rightarrow> errors_As p e))"
  "errors_As p (SecretNotFoundError n role c) =
     (if p (SecretNotFoundError n role c) then Some (SecretNotFoundError n role c)
      else (case c of None \<Rightarrow> None | Some e \<Rightarrow> errors_As p e))"
  "errors_As p (AdoptionBlockedError r m) =
     (if p (AdoptionBlockedError r m) then Some (AdoptionBlockedError r m) else None)"
  "errors_As p (PlainError m) = (if p (PlainError m) then Some (PlainError m) else None)"
  "errors_As p (K8sError k m) = (if p (K8sError k m) then Some (K8sError k m) else None)"
  "errors_As p (NetError m) = (if p (NetError m) then Some (NetError m) else None)"
  "errors_As p (CtxError m) = (if p (CtxError m) then Some (CtxError m) else None)"
  "errors_As p (Sentinel s) = (if p (Sentinel s) then Some (Sentinel s) else None)"
  by (auto simp: errors_As_def split: option.splits)

lemma errors_As_pred: "errors_As p e = Some x \<Longrightarrow> p x"
  unfolding errors_As_def by (auto simp: find_Some_iff)

lemma is_TerminalError_iff: "is_TerminalError e \<longleftrightarrow> (\<exists>r m c. e = TerminalError r m c)"
  by (cases e) auto

lemma is_NotFoundError_iff: "is_NotFoundError e \<longleftrightarrow> (\<exists>obj. e = NotFoundError obj)"
  by (cases e) auto

lemma is_AdoptionBlockedError_iff: "is_AdoptionBlockedError e \<longleftrightarrow> (\<exists>r m. e = AdoptionBlockedError r m)"
  by (cases e) auto

lemma errors_As_Terminal_Is:
  "errors_As is_TerminalError e = Some x \<Longrightarrow> errors_Is e ErrTerminal"
  by (induction e rule: err_chain.induct)
     (auto simp: errors_Is_def split: option.splits if_splits)

text \<open>An error classified as not-found contains the bare sentinel or a \<open>NotFoundError\<close>.\<close>

lemma errors_Is_NotFound_cases:
  "errors_Is e ErrNotFound \<longleftrightarrow>
     Sentinel ErrNotFound \<in> set (err_chain e) \<or> (\<exists>obj. NotFoundError obj \<in> set (err_chain e))"
proof -
  have "Is_method x ErrNotFound \<longleftrightarrow> (\<exists>obj. x = NotFoundError obj)" for x
    by (cases x) auto
  then show ?thesis by (auto simp: errors_Is_def list_ex_iff)
qed

end
