(* ===== verification/Circuit_Breaker.thy ===== *)
theory Circuit_Breaker
  imports MQ_Errors
begin

text \<open>
  The per-connection circuit breaker, \<open>internal/adapter/mqrest/circuit_breaker.go\<close>. Each
  method runs under the mutex, so a method is one atomic step; the instant that
  \<open>cfg.now()\<close> returns is the argument \<open>t\<close> (nanoseconds), and the calls of
  \<open>onTransition\<close> are collected in \<open>cb_transitions\<close>, newest first.

  Three layers: the operations as the code has them; a specification of three phases
  (\<open>phase\<close>) that the operations refine; and a step relation in which any number of requests
  run concurrently, each beginning with \<open>beforeRequest\<close> and ending with \<open>recordSuccess\<close>,
  \<open>recordFailure\<close> or, when the caller returns early, with neither.
\<close>

section \<open>Configuration and state\<close>

abbreviation "breakerStateClosed \<equiv> ''closed''"
abbreviation "breakerStateOpen \<equiv> ''open''"
abbreviation "breakerStateHalfOpen \<equiv> ''half_open''"

definition Millisecond :: int where "Millisecond = 1000000"
definition Second :: int where "Second = 1000000000"
definition Minute :: int where "Minute = 60000000000"

definition defaultFailureThreshold :: int where "defaultFailureThreshold = 5"
definition defaultOpenTimeout :: int where "defaultOpenTimeout = 30 * Second"

record ResilienceConfig =
  rc_MaxAttempts :: int
  rc_InitialBackoff :: int
  rc_MaxBackoff :: int
  rc_FailureThreshold :: int
  rc_OpenTimeout :: int

record circuitBreakerConfig =
  failureThreshold :: int
  openTimeout :: int

record circuitBreaker =
  cb_cfg :: circuitBreakerConfig
  cb_state :: string
  consecutiveFails :: int
  openedAt :: int
  probeInFlight :: bool
  cb_transitions :: "(string \<times> string) list"

definition defaultCircuitBreakerConfig :: circuitBreakerConfig where
  "defaultCircuitBreakerConfig =
     \<lparr>failureThreshold = defaultFailureThreshold, openTimeout = defaultOpenTimeout\<rparr>"

definition circuitBreakerConfigFromResilience :: "ResilienceConfig \<Rightarrow> circuitBreakerConfig" where
  "circuitBreakerConfigFromResilience cfg =
     (let c = defaultCircuitBreakerConfig;
          c = (if rc_FailureThreshold cfg > 0
               then c\<lparr>failureThreshold := rc_FailureThreshold cfg\<rparr> else c)
      in if rc_OpenTimeout cfg > 0 then c\<lparr>openTimeout := rc_OpenTimeout cfg\<rparr> else c)"

definition newCircuitBreaker :: "circuitBreakerConfig \<Rightarrow> circuitBreaker" where
  "newCircuitBreaker cfg =
     (let c = (if failureThreshold cfg \<le> 0
               then cfg\<lparr>failureThreshold := defaultFailureThreshold\<rparr> else cfg);
          c = (if openTimeout c \<le> 0 then c\<lparr>openTimeout := defaultOpenTimeout\<rparr> else c)
      in \<lparr>cb_cfg = c, cb_state = breakerStateClosed, consecutiveFails = 0, openedAt = 0,
          probeInFlight = False, cb_transitions = []\<rparr>)"

section \<open>Operations\<close>

definition circuitOpenError :: mq_error where
  "circuitOpenError = TransientError ''mqweb circuit breaker open'' None"

definition transitionLocked :: "string \<Rightarrow> circuitBreaker \<Rightarrow> circuitBreaker" where
  "transitionLocked to b =
     (if cb_state b = to then b
      else b\<lparr>cb_state := to, cb_transitions := (cb_state b, to) # cb_transitions b\<rparr>)"

definition beforeRequest :: "int \<Rightarrow> circuitBreaker \<Rightarrow> unit result \<times> circuitBreaker" where
  "beforeRequest t b =
     (if cb_state b = breakerStateClosed then (Inr (), b)
      else if cb_state b = breakerStateOpen then
        (if t - openedAt b < openTimeout (cb_cfg b) then (Inl circuitOpenError, b)
         else (Inr (), (transitionLocked breakerStateHalfOpen b)\<lparr>probeInFlight := True\<rparr>))
      else if cb_state b = breakerStateHalfOpen then
        (if probeInFlight b then (Inl circuitOpenError, b)
         else (Inr (), b\<lparr>probeInFlight := True\<rparr>))
      else (Inl circuitOpenError, b))"

definition recordSuccess :: "circuitBreaker \<Rightarrow> circuitBreaker" where
  "recordSuccess b =
     (let b = b\<lparr>consecutiveFails := 0, probeInFlight := False\<rparr> in
      if cb_state b \<noteq> breakerStateClosed then transitionLocked breakerStateClosed b else b)"

definition recordFailure :: "int \<Rightarrow> circuitBreaker \<Rightarrow> circuitBreaker" where
  "recordFailure t b =
     (let b = b\<lparr>probeInFlight := False\<rparr> in
      if cb_state b = breakerStateHalfOpen
      then (transitionLocked breakerStateOpen b)\<lparr>openedAt := t\<rparr>
      else let b = b\<lparr>consecutiveFails := consecutiveFails b + 1\<rparr> in
           if consecutiveFails b \<ge> failureThreshold (cb_cfg b)
           then (transitionLocked breakerStateOpen b)\<lparr>openedAt := t\<rparr>
           else b)"

lemmas breaker_op_defs =
  beforeRequest_def recordSuccess_def recordFailure_def transitionLocked_def Let_def

section \<open>The contract of a breaker\<close>

text \<open>
  What a caller of a breaker relies on. \<open>good\<close> is the breaker's invariant and \<open>admits t b\<close>
  says that a request starting at \<open>t\<close> is let through.
\<close>

locale breaker_contract =
  fixes before :: "int \<Rightarrow> 'b \<Rightarrow> unit result \<times> 'b"
    and success :: "'b \<Rightarrow> 'b"
    and failure :: "int \<Rightarrow> 'b \<Rightarrow> 'b"
    and good :: "'b \<Rightarrow> bool"
  assumes before_good: "good b \<Longrightarrow> good (snd (before t b))"
    and success_good: "good b \<Longrightarrow> good (success b)"
    and failure_good: "good b \<Longrightarrow> good (failure t b)"
    and reject_transient: "good b \<Longrightarrow> fst (before t b) = Inl e \<Longrightarrow> errors_Is e ErrTransient"
    and reject_frame: "good b \<Longrightarrow> fst (before t b) = Inl e \<Longrightarrow> snd (before t b) = b"
    and success_admits: "good b \<Longrightarrow> fst (before t (success b)) = Inr ()"
begin

text \<open>Any sequence of outcomes of a caller: a call of \<open>before\<close> and at most one record.\<close>

definition call :: "int \<Rightarrow> (bool \<times> int) option \<Rightarrow> 'b \<Rightarrow> 'b" where
  "call t outcome b =
     (case before t b of
        (Inl e, b') \<Rightarrow> b'
      | (Inr u, b') \<Rightarrow> (case outcome of
                          None \<Rightarrow> b'
                        | Some (True, t') \<Rightarrow> success b'
                        | Some (False, t') \<Rightarrow> failure t' b'))"

lemma call_good: "good b \<Longrightarrow> good (call t outcome b)"
  using before_good [of b t] success_good failure_good
  by (cases "before t b"; cases "fst (before t b)"; cases outcome)
     (simp_all add: call_def split: bool.split prod.split)

lemma calls_good: "good b \<Longrightarrow> good (fold (\<lambda>(t, oc). call t oc) cs b)"
  by (induction cs arbitrary: b) (auto simp: call_good)

lemma call_rejected: "good b \<Longrightarrow> fst (before t b) = Inl e \<Longrightarrow> call t oc b = b"
  using reject_frame [of b t e] by (auto simp: call_def split: prod.splits sum.splits)

lemma rejected_forever:
  assumes "good b" "\<forall>(t, oc) \<in> set cs. is_err (fst (before t b))"
  shows "fold (\<lambda>(t, oc). call t oc) cs b = b"
  using assms by (induction cs) (auto simp: is_err_iff call_rejected)

end

section \<open>Invariant\<close>

definition breaker_inv :: "circuitBreaker \<Rightarrow> bool" where
  "breaker_inv b \<longleftrightarrow>
     cb_state b \<in> {breakerStateClosed, breakerStateOpen, breakerStateHalfOpen} \<and>
     0 < failureThreshold (cb_cfg b) \<and> 0 < openTimeout (cb_cfg b) \<and>
     (probeInFlight b \<longleftrightarrow> cb_state b = breakerStateHalfOpen) \<and>
     (cb_state b = breakerStateClosed \<longrightarrow>
        0 \<le> consecutiveFails b \<and> consecutiveFails b < failureThreshold (cb_cfg b)) \<and>
     (cb_state b \<noteq> breakerStateClosed \<longrightarrow> failureThreshold (cb_cfg b) \<le> consecutiveFails b)"

lemma newCircuitBreaker_inv: "breaker_inv (newCircuitBreaker cfg)"
  by (auto simp: newCircuitBreaker_def breaker_inv_def Let_def defaultFailureThreshold_def
      defaultOpenTimeout_def Second_def)

lemma beforeRequest_inv: "breaker_inv b \<Longrightarrow> breaker_inv (snd (beforeRequest t b))"
  by (auto simp: breaker_inv_def breaker_op_defs)

lemma recordSuccess_inv: "breaker_inv b \<Longrightarrow> breaker_inv (recordSuccess b)"
  by (auto simp: breaker_inv_def breaker_op_defs)

lemma recordFailure_inv: "breaker_inv b \<Longrightarrow> breaker_inv (recordFailure t b)"
  by (auto simp: breaker_inv_def breaker_op_defs)

interpretation mqweb_breaker: breaker_contract beforeRequest recordSuccess recordFailure breaker_inv
proof unfold_locales
  fix b t e
  show "breaker_inv b \<Longrightarrow> breaker_inv (snd (beforeRequest t b))" by (rule beforeRequest_inv)
  show "breaker_inv b \<Longrightarrow> breaker_inv (recordSuccess b)" by (rule recordSuccess_inv)
  show "breaker_inv b \<Longrightarrow> breaker_inv (recordFailure t b)" by (rule recordFailure_inv)
  show "breaker_inv b \<Longrightarrow> fst (beforeRequest t b) = Inl e \<Longrightarrow> errors_Is e ErrTransient"
    by (auto simp: beforeRequest_def circuitOpenError_def split: if_splits)
  show "breaker_inv b \<Longrightarrow> fst (beforeRequest t b) = Inl e \<Longrightarrow> snd (beforeRequest t b) = b"
    by (auto simp: beforeRequest_def split: if_splits)
  show "breaker_inv b \<Longrightarrow> fst (beforeRequest t (recordSuccess b)) = Inr ()"
    by (auto simp: breaker_op_defs)
qed

section \<open>Specification and refinement\<close>

text \<open>The three phases, with the failures counted while closed and the start of the open
  window; \<open>spec_*\<close> are the operations the documentation describes.\<close>

datatype phase = Closed int | Open int | HalfOpen

definition phase_of :: "circuitBreaker \<Rightarrow> phase" where
  "phase_of b =
     (if cb_state b = breakerStateClosed then Closed (consecutiveFails b)
      else if cb_state b = breakerStateOpen then Open (openedAt b) else HalfOpen)"

fun spec_before :: "circuitBreakerConfig \<Rightarrow> int \<Rightarrow> phase \<Rightarrow> bool \<times> phase" where
  "spec_before c t (Closed n) = (True, Closed n)"
| "spec_before c t (Open t0) = (if t - t0 < openTimeout c then (False, Open t0) else (True, HalfOpen))"
| "spec_before c t HalfOpen = (False, HalfOpen)"

fun spec_failure :: "circuitBreakerConfig \<Rightarrow> int \<Rightarrow> phase \<Rightarrow> phase" where
  "spec_failure c t (Closed n) = (if n + 1 \<ge> failureThreshold c then Open t else Closed (n + 1))"
| "spec_failure c t (Open t0) = Open t"
| "spec_failure c t HalfOpen = Open t"

lemma cb_cfg_ops [simp]:
  "cb_cfg (snd (beforeRequest t b)) = cb_cfg b"
  "cb_cfg (recordSuccess b) = cb_cfg b"
  "cb_cfg (recordFailure t b) = cb_cfg b"
  by (simp_all add: breaker_op_defs)

lemma phase_beforeRequest:
  "breaker_inv b \<Longrightarrow>
     spec_before (cb_cfg b) t (phase_of b)
       = (\<not> is_err (fst (beforeRequest t b)), phase_of (snd (beforeRequest t b)))"
  by (auto simp: breaker_inv_def phase_of_def breaker_op_defs)

lemma phase_recordSuccess: "phase_of (recordSuccess b) = Closed 0"
  by (simp add: phase_of_def breaker_op_defs)

lemma phase_recordFailure:
  "breaker_inv b \<Longrightarrow> phase_of (recordFailure t b) = spec_failure (cb_cfg b) t (phase_of b)"
  by (auto simp: breaker_inv_def phase_of_def breaker_op_defs)

text \<open>C29: The breaker refines its three-phase specification. From every state that satisfies
  the invariant (which the constructor establishes and every operation keeps), admission and
  the next phase of each operation are those of the specification: closed admits and counts
  failures up to the threshold, open rejects until the timeout has passed and then becomes
  half-open, half-open rejects everything until the probe is recorded.\<close>

theorem circuit_breaker_refines:
  "breaker_inv (newCircuitBreaker cfg) \<and>
   (breaker_inv b \<longrightarrow>
      spec_before (cb_cfg b) t (phase_of b)
        = (\<not> is_err (fst (beforeRequest t b)), phase_of (snd (beforeRequest t b))) \<and>
      phase_of (recordSuccess b) = Closed 0 \<and>
      phase_of (recordFailure t b) = spec_failure (cb_cfg b) t (phase_of b) \<and>
      breaker_inv (snd (beforeRequest t b)) \<and> breaker_inv (recordSuccess b) \<and>
      breaker_inv (recordFailure t b))"
  using newCircuitBreaker_inv phase_beforeRequest phase_recordSuccess phase_recordFailure
    beforeRequest_inv recordSuccess_inv recordFailure_inv by blast

theorem circuit_breaker_refines_witness:
  "phase_of (recordFailure 7 (newCircuitBreaker \<lparr>failureThreshold = 1, openTimeout = 0\<rparr>)) = Open 7"
proof -
  let ?b = "newCircuitBreaker \<lparr>failureThreshold = 1, openTimeout = 0\<rparr>"
  have "breaker_inv ?b" by (rule newCircuitBreaker_inv)
  then have "phase_of (recordFailure 7 ?b) = spec_failure (cb_cfg ?b) 7 (phase_of ?b)"
    using circuit_breaker_refines [where b = ?b and t = 7] by blast
  then show ?thesis by (simp add: newCircuitBreaker_def phase_of_def)
qed

text \<open>A closed breaker opens on exactly the configured number of consecutive failures: after
  fewer it still admits, after that many it rejects every request for the whole open window,
  and the first request after the window is admitted as the only probe.\<close>

fun record_failures :: "int list \<Rightarrow> circuitBreaker \<Rightarrow> circuitBreaker" where
  "record_failures [] b = b"
| "record_failures (t # ts) b = record_failures ts (recordFailure t b)"

lemma record_failures_closed:
  assumes "breaker_inv b" "phase_of b = Closed n" "n + int (length ts) < failureThreshold (cb_cfg b)"
  shows "phase_of (record_failures ts b) = Closed (n + int (length ts)) \<and>
         breaker_inv (record_failures ts b) \<and> cb_cfg (record_failures ts b) = cb_cfg b"
  using assms
proof (induction ts arbitrary: b n)
  case Nil
  then show ?case by simp
next
  case (Cons t ts)
  have "phase_of (recordFailure t b) = Closed (n + 1)"
    using Cons.prems by (simp add: phase_recordFailure)
  with Cons.prems Cons.IH [of "recordFailure t b" "n + 1"] show ?case
    by (simp add: recordFailure_inv add.commute add.left_commute)
qed

lemma record_failures_snoc: "record_failures (ts @ [t]) b = recordFailure t (record_failures ts b)"
  by (induction ts arbitrary: b) auto

lemma record_failures_open:
  assumes "breaker_inv b" "phase_of b = Closed 0" "int (length ts) + 1 = failureThreshold (cb_cfg b)"
  shows "phase_of (record_failures (ts @ [t]) b) = Open t"
  using record_failures_closed [of b 0 ts] assms
  by (simp add: record_failures_snoc phase_recordFailure)

lemma record_failures_inv:
  "breaker_inv b \<Longrightarrow> breaker_inv (record_failures ts b) \<and> cb_cfg (record_failures ts b) = cb_cfg b"
  by (induction ts arbitrary: b) (auto simp: recordFailure_inv)

lemma phase_admission:
  assumes "breaker_inv b"
  shows "phase_of b = Closed n \<Longrightarrow> fst (beforeRequest t b) = Inr ()"
    and "phase_of b = Open t0 \<Longrightarrow> t - t0 < openTimeout (cb_cfg b) \<Longrightarrow>
           beforeRequest t b = (Inl circuitOpenError, b)"
    and "phase_of b = Open t0 \<Longrightarrow> openTimeout (cb_cfg b) \<le> t - t0 \<Longrightarrow>
           fst (beforeRequest t b) = Inr () \<and> phase_of (snd (beforeRequest t b)) = HalfOpen"
    and "phase_of b = HalfOpen \<Longrightarrow> beforeRequest t b = (Inl circuitOpenError, b)"
  using assms by (auto simp: phase_of_def breaker_inv_def breaker_op_defs split: if_splits)

theorem circuit_breaker_trips:
  assumes "phase_of b = Closed 0" and "breaker_inv b"
    and "int (length ts) + 1 = failureThreshold (cb_cfg b)"
  shows "fst (beforeRequest t' (record_failures ts b)) = Inr () \<and>
         (t' - t < openTimeout (cb_cfg b) \<longrightarrow>
            beforeRequest t' (record_failures (ts @ [t]) b)
              = (Inl circuitOpenError, record_failures (ts @ [t]) b)) \<and>
         (openTimeout (cb_cfg b) \<le> t' - t \<longrightarrow>
            fst (beforeRequest t' (record_failures (ts @ [t]) b)) = Inr () \<and>
            is_err (fst (beforeRequest t'' (snd (beforeRequest t' (record_failures (ts @ [t]) b))))))"
proof -
  let ?o = "record_failures (ts @ [t]) b"
  have closed: "phase_of (record_failures ts b) = Closed (int (length ts))"
    using record_failures_closed [of b 0 ts] assms by simp
  have opn: "phase_of ?o = Open t" using assms by (blast intro: record_failures_open)
  have inv: "breaker_inv (record_failures ts b)" "breaker_inv ?o" "cb_cfg ?o = cb_cfg b"
    using record_failures_inv [OF assms(2)] by auto
  have "is_err (fst (beforeRequest t'' (snd (beforeRequest t' ?o))))"
    if "openTimeout (cb_cfg b) \<le> t' - t"
    using phase_admission(3) [OF inv(2) opn] that inv beforeRequest_inv [OF inv(2)]
    by (simp add: phase_admission(4))
  then show ?thesis
    using phase_admission(1) [OF inv(1) closed] phase_admission(2,3) [OF inv(2) opn] inv(3) by simp
qed

theorem circuit_breaker_trips_witness:
  "is_err (fst (beforeRequest 20 (record_failures [1, 2, 3]
      (newCircuitBreaker \<lparr>failureThreshold = 3, openTimeout = 100\<rparr>))))"
proof -
  let ?b = "newCircuitBreaker \<lparr>failureThreshold = 3, openTimeout = 100\<rparr>"
  have "phase_of ?b = Closed 0" by code_simp
  moreover have "int (length [1, 2 :: int]) + 1 = failureThreshold (cb_cfg ?b)" by code_simp
  ultimately have "20 - 3 < openTimeout (cb_cfg ?b) \<longrightarrow>
      beforeRequest 20 (record_failures ([1, 2] @ [3]) ?b)
        = (Inl circuitOpenError, record_failures ([1, 2] @ [3]) ?b)"
    using circuit_breaker_trips [where b = ?b and ts = "[1, 2]" and t = 3 and t' = 20]
      newCircuitBreaker_inv by blast
  moreover have "20 - 3 < openTimeout (cb_cfg ?b)" by code_simp
  ultimately show ?thesis by simp
qed

section \<open>Concurrent requests\<close>

text \<open>
  A configuration is the breaker, the number of admitted requests still running, and the clock.
  A running request ends by recording its outcome or, when its context is aborted or the
  request cannot be built, by returning without a record (\<open>abandon\<close>).
\<close>

record world =
  w_breaker :: circuitBreaker
  w_running :: nat
  w_now :: int

datatype req_event = Tick | Admit | Reject | Succeed | Fail | Abandon

inductive request_step :: "req_event \<Rightarrow> world \<Rightarrow> world \<Rightarrow> bool" where
  tick: "t \<ge> w_now w \<Longrightarrow> request_step Tick w (w\<lparr>w_now := t\<rparr>)"
| admit: "beforeRequest (w_now w) (w_breaker w) = (Inr (), b) \<Longrightarrow>
    request_step Admit w (w\<lparr>w_breaker := b, w_running := Suc (w_running w)\<rparr>)"
| reject: "beforeRequest (w_now w) (w_breaker w) = (Inl e, b) \<Longrightarrow>
    request_step Reject w (w\<lparr>w_breaker := b\<rparr>)"
| succeed: "w_running w = Suc n \<Longrightarrow>
    request_step Succeed w (w\<lparr>w_breaker := recordSuccess (w_breaker w), w_running := n\<rparr>)"
| fail: "w_running w = Suc n \<Longrightarrow>
    request_step Fail w (w\<lparr>w_breaker := recordFailure (w_now w) (w_breaker w), w_running := n\<rparr>)"
| abandon: "w_running w = Suc n \<Longrightarrow> request_step Abandon w (w\<lparr>w_running := n\<rparr>)"

inductive_cases request_stepE: "request_step e w w'"

text \<open>Runs whose events come from a set \<open>A\<close>.\<close>

inductive request_run :: "req_event set \<Rightarrow> world \<Rightarrow> world \<Rightarrow> bool" for A where
  run_refl: "request_run A w w"
| run_step: "request_run A w w' \<Longrightarrow> e \<in> A \<Longrightarrow> request_step e w' w'' \<Longrightarrow> request_run A w w''"

lemma beforeRequest_inv': "beforeRequest t b = (r, b') \<Longrightarrow> breaker_inv b \<Longrightarrow> breaker_inv b'"
  using beforeRequest_inv [of b t] by simp

lemma request_step_inv:
  "request_step e w w' \<Longrightarrow> breaker_inv (w_breaker w) \<Longrightarrow> breaker_inv (w_breaker w')"
  by (erule request_stepE) (auto simp: recordSuccess_inv recordFailure_inv dest: beforeRequest_inv')

lemma request_run_inv:
  "request_run A w w' \<Longrightarrow> breaker_inv (w_breaker w) \<Longrightarrow> breaker_inv (w_breaker w')"
  by (induction rule: request_run.induct) (auto simp: request_step_inv)

text \<open>A half-open breaker with no running request stays so.\<close>

definition wedged :: "world \<Rightarrow> bool" where
  "wedged w \<longleftrightarrow> breaker_inv (w_breaker w) \<and> phase_of (w_breaker w) = HalfOpen \<and> w_running w = 0"

lemma wedged_rejects: "wedged w \<Longrightarrow> beforeRequest t (w_breaker w) = (Inl circuitOpenError, w_breaker w)"
  by (simp add: wedged_def phase_admission(4))

lemma wedged_step: "request_step e w w' \<Longrightarrow> wedged w \<Longrightarrow> wedged w'"
  by (erule request_stepE) (auto simp: wedged_rejects, auto simp: wedged_def)

lemma wedged_run: "request_run A w w' \<Longrightarrow> wedged w \<Longrightarrow> wedged w'"
  by (induction rule: request_run.induct) (auto intro: wedged_step)

text \<open>As long as every request records its outcome, a half-open breaker has a running request
  whose record will leave the phase.\<close>

definition probe_running :: "world \<Rightarrow> bool" where
  "probe_running w \<longleftrightarrow> breaker_inv (w_breaker w) \<and>
     (phase_of (w_breaker w) = HalfOpen \<longrightarrow> 0 < w_running w)"

lemma probe_running_step:
  assumes "request_step e w w'" "e \<noteq> Abandon" "probe_running w"
  shows "probe_running w'"
proof -
  have inv: "breaker_inv (w_breaker w)" using assms(3) by (simp add: probe_running_def)
  then have inv': "breaker_inv (w_breaker w')" using assms(1) request_step_inv by blast
  have fail: "phase_of (recordFailure t (w_breaker w)) \<noteq> HalfOpen" for t
    using inv by (cases "phase_of (w_breaker w)") (simp_all add: phase_recordFailure)
  from assms(1) show ?thesis
  proof cases
    case (reject e b)
    then have "b = w_breaker w" using mqweb_breaker.reject_frame [OF inv, of "w_now w" e] by simp
    with reject assms(3) show ?thesis by simp
  qed (use assms(2,3) inv' fail in \<open>auto simp: probe_running_def phase_recordSuccess\<close>)
qed

lemma probe_running_run:
  "request_run (- {Abandon}) w w' \<Longrightarrow> probe_running w \<Longrightarrow> probe_running w'"
  by (induction rule: request_run.induct) (auto intro: probe_running_step)

text \<open>C30: Concurrent use keeps the breaker consistent, and an abandoned probe wedges it. In
  every interleaving the invariant holds, so the half-open phase has one outstanding probe. As
  long as every admitted request records an outcome, a half-open breaker has a request running
  whose outcome leaves the phase. But a probe that returns without recording an outcome leaves
  the half-open breaker with nothing running, and from there every later request, at any later
  time, is rejected and the breaker never leaves the phase.\<close>

theorem abandoned_probe_wedges_breaker:
  assumes "breaker_inv (w_breaker w)"
  shows "(request_run UNIV w w' \<longrightarrow> breaker_inv (w_breaker w')) \<and>
         (phase_of (w_breaker w) \<noteq> HalfOpen \<and> request_run (- {Abandon}) w w' \<and>
            phase_of (w_breaker w') = HalfOpen \<longrightarrow> 0 < w_running w') \<and>
         (phase_of (w_breaker w) = HalfOpen \<and> w_running w = Suc 0 \<longrightarrow>
            (\<exists>w\<^sub>1. request_step Abandon w w\<^sub>1 \<and>
               (\<forall>w\<^sub>2 t. request_run UNIV w\<^sub>1 w\<^sub>2 \<longrightarrow>
                  phase_of (w_breaker w\<^sub>2) = HalfOpen \<and>
                  beforeRequest t (w_breaker w\<^sub>2) = (Inl circuitOpenError, w_breaker w\<^sub>2))))"
proof (intro conjI impI)
  assume "request_run UNIV w w'"
  then show "breaker_inv (w_breaker w')" using assms by (rule request_run_inv)
next
  assume a: "phase_of (w_breaker w) \<noteq> HalfOpen \<and> request_run (- {Abandon}) w w' \<and>
            phase_of (w_breaker w') = HalfOpen"
  then have "probe_running w" using assms by (simp add: probe_running_def)
  with a have "probe_running w'" by (blast intro: probe_running_run)
  with a show "0 < w_running w'" by (simp add: probe_running_def)
next
  assume a: "phase_of (w_breaker w) = HalfOpen \<and> w_running w = Suc 0"
  let ?w = "w\<lparr>w_running := 0\<rparr>"
  have "request_step Abandon w ?w" using a by (blast intro: request_step.abandon)
  moreover have "wedged ?w" using a assms by (simp add: wedged_def)
  then have "wedged w\<^sub>2" if "request_run UNIV ?w w\<^sub>2" for w\<^sub>2 using that by (rule wedged_run [rotated])
  ultimately show "\<exists>w\<^sub>1. request_step Abandon w w\<^sub>1 \<and>
               (\<forall>w\<^sub>2 t. request_run UNIV w\<^sub>1 w\<^sub>2 \<longrightarrow>
                  phase_of (w_breaker w\<^sub>2) = HalfOpen \<and>
                  beforeRequest t (w_breaker w\<^sub>2) = (Inl circuitOpenError, w_breaker w\<^sub>2))"
    using wedged_rejects unfolding wedged_def by blast
qed

definition opened_once :: world where
  "opened_once =
     \<lparr>w_breaker = snd (beforeRequest 200 (recordFailure 1
        (newCircuitBreaker \<lparr>failureThreshold = 1, openTimeout = 100\<rparr>))),
      w_running = 1, w_now = 200\<rparr>"

theorem abandoned_probe_wedges_breaker_witness:
  "\<exists>w\<^sub>1. request_step Abandon opened_once w\<^sub>1 \<and>
     (\<forall>w\<^sub>2 t. request_run UNIV w\<^sub>1 w\<^sub>2 \<longrightarrow> is_err (fst (beforeRequest t (w_breaker w\<^sub>2))))"
proof -
  have "breaker_inv (w_breaker opened_once)"
    by (simp add: opened_once_def beforeRequest_inv recordFailure_inv newCircuitBreaker_inv)
  moreover have "phase_of (w_breaker opened_once) = HalfOpen" by code_simp
  moreover have "w_running opened_once = Suc 0" by code_simp
  ultimately show ?thesis
    using abandoned_probe_wedges_breaker [of opened_once opened_once] by (metis fst_conv is_err.simps(1))
qed

end
