(* ===== verification/Mqweb_Wire.thy ===== *)
theory Mqweb_Wire
  imports Circuit_Breaker "HOL-Library.Word"
begin

text \<open>
  What crosses the boundary between the adapter and mqweb: the request and response structs of
  \<open>internal/adapter/mqrest/mqsc_types.go\<close>, the parts of \<open>net/http\<close> messages the client
  reads and writes, and the environment of a client.

  The environment record \<open>http_env\<close> holds what is outside the program: the transport, the clock,
  the request's context, and the decoding of response bytes. Its state is the type variable
  \<open>'w\<close>, so every theorem holds for every server, clock and context. A request body is kept as
  the Go value that \<open>json.Marshal\<close> serialises (marshalling of these structs, which hold
  strings, string lists and integers, does not fail).
\<close>

section \<open>MQSC requests and responses\<close>

text \<open>A value of Go type \<open>any\<close>. A decoded JSON number is a \<open>float64\<close>; the model keeps the text
  that \<open>fmt\<close> prints for it.\<close>

datatype go_any =
    AnyString string
  | AnyInt int
  | AnyFloat string
  | AnyBool bool
  | AnyNil
  | AnyOther string

fun Sprint :: "go_any \<Rightarrow> string" where
  "Sprint (AnyString s) = s"
| "Sprint (AnyInt n) = Itoa n"
| "Sprint (AnyFloat s) = s"
| "Sprint (AnyBool b) = (if b then ''true'' else ''false'')"
| "Sprint AnyNil = ''<nil>''"
| "Sprint (AnyOther s) = s"

record runCommandJSONRequest =
  rj_Type :: string
  rj_Command :: string
  rj_Qualifier :: string
  rj_Name :: string
  rj_ResponseParameters :: "string list"
  rj_Parameters :: "(string, go_any) gomap"

datatype payload =
    NoBody
  | LoginBody string string
  | RunCommand string
  | RunCommandJSON runCommandJSONRequest

record commandResponseItem =
  cr_CompletionCode :: int
  cr_ReasonCode :: int
  cr_Message :: "string list"
  cr_Text :: "string list"
  cr_Parameters :: "(string, go_any) gomap"

record restErrorItem =
  re_Message :: string
  re_Explanation :: string
  re_ReasonCode :: int
  re_CompletionCode :: int

record mqscResponse =
  mr_CommandResponse :: "commandResponseItem list"
  mr_OverallCompletionCode :: int
  mr_OverallReasonCode :: int
  mr_Error :: "restErrorItem list"

section \<open>HTTP messages\<close>

record http_request =
  rq_Method :: string
  rq_URL :: string
  rq_Header :: "(string \<times> string) list"
  rq_Body :: payload

text \<open>\<open>rs_Body\<close> is what \<open>io.ReadAll\<close> of the body returns.\<close>

record http_response =
  rs_StatusCode :: int
  rs_Body :: "string result"
  rs_Cookies :: "(string \<times> string) list"

abbreviation "StatusOK \<equiv> 200 :: int"
abbreviation "StatusNoContent \<equiv> 204 :: int"
abbreviation "StatusUnauthorized \<equiv> 401 :: int"
abbreviation "StatusForbidden \<equiv> 403 :: int"
abbreviation "StatusTooManyRequests \<equiv> 429 :: int"
abbreviation "StatusInternalServerError \<equiv> 500 :: int"

section \<open>The environment of a client\<close>

text \<open>
  \<open>he_do\<close> is \<open>httpClient.Do\<close>; \<open>he_ctxErr\<close> is \<open>ctx.Err()\<close>; \<open>he_sleep d\<close> is the
  \<open>select\<close> of \<open>sleepWithContext\<close>, which yields the context's error when the context is done
  first; \<open>he_now\<close> is the clock; \<open>he_newRequest\<close> is the failure of
  \<open>http.NewRequestWithContext\<close> on a URL; the other two decode response bytes.
\<close>

record 'w http_env =
  he_do :: "http_request \<Rightarrow> 'w \<Rightarrow> http_response result \<times> 'w"
  he_ctxErr :: "'w \<Rightarrow> mq_error option"
  he_sleep :: "int \<Rightarrow> 'w \<Rightarrow> mq_error option \<times> 'w"
  he_now :: "'w \<Rightarrow> int"
  he_newRequest :: "string \<Rightarrow> mq_error option"
  he_unmarshalMQSC :: "string \<Rightarrow> mqscResponse result"
  he_unmarshalMsgIDs :: "string \<Rightarrow> string list result"

definition reasonUnauthorized :: string where "reasonUnauthorized = ''Unauthorized''"

end
