(* ===== verification/LTPA.thy ===== *)
theory LTPA
  imports Mqweb_Wire
begin

text \<open>
  LTPA-token authentication, \<open>internal/adapter/mqrest/ltpa.go\<close>: the one-shot login, the cached
  session cookies and the generation counter that lets concurrent requests share one login.
  \<open>reauthenticate\<close> holds the mutex across the login, so it is one atomic step;
  \<open>ensureLoggedIn\<close> takes the lock three times, and its parts are the separate definitions
  \<open>sessionSnapshot\<close>, \<open>reauthenticate\<close> and \<open>currentToken\<close>.
\<close>

definition ltpaClassifierReauth :: string where "ltpaClassifierReauth = ''MQWB0112E''"

record ltpaAuthenticator =
  la_loginURL :: string
  la_username :: string
  la_password :: string
  la_cookies :: "(string \<times> string) list"
  la_gen :: "64 word"

definition newLTPAAuthenticator :: "string \<Rightarrow> string \<Rightarrow> string \<Rightarrow> ltpaAuthenticator" where
  "newLTPAAuthenticator loginURL username password =
     \<lparr>la_loginURL = loginURL, la_username = username, la_password = password,
      la_cookies = [], la_gen = 0\<rparr>"

text \<open>\<open>authenticate\<close> adds the cached cookies, which \<open>AddCookie\<close> joins in one header, and
  never an Authorization header.\<close>

definition ltpaAuthenticate :: "ltpaAuthenticator \<Rightarrow> http_request \<Rightarrow> http_request" where
  "ltpaAuthenticate a req =
     (if la_cookies a = [] then req
      else req\<lparr>rq_Header := rq_Header req @
                 [(''Cookie'', go_join (map (\<lambda>(n, v). n @ ''='' @ v) (la_cookies a)) ''; '')]\<rparr>)"

definition bodyHasClassifier :: "'w http_env \<Rightarrow> string \<Rightarrow> string \<Rightarrow> bool" where
  "bodyHasClassifier env body classifier =
     (case he_unmarshalMsgIDs env body of
        Inl e \<Rightarrow> False
      | Inr ids \<Rightarrow> list_ex (\<lambda>i. i = classifier) ids)"

definition shouldReauthenticate :: "'w http_env \<Rightarrow> int \<Rightarrow> string \<Rightarrow> bool" where
  "shouldReauthenticate env status body =
     (if status \<noteq> StatusUnauthorized then False
      else bodyHasClassifier env body ltpaClassifierReauth)"

definition loginRequest :: "ltpaAuthenticator \<Rightarrow> http_request" where
  "loginRequest a =
     \<lparr>rq_Method = ''POST'', rq_URL = la_loginURL a,
      rq_Header = [(''Content-Type'', ''application/json'')],
      rq_Body = LoginBody (la_username a) (la_password a)\<rparr>"

definition loginOutcome :: "http_response \<Rightarrow> (string \<times> string) list result" where
  "loginOutcome res =
     (let code = rs_StatusCode res in
      if code = StatusOK \<or> code = StatusNoContent then
        (if rs_Cookies res = []
         then Inl (TerminalError reasonUnauthorized
                     ''ltpa login succeeded but returned no session cookie'' None)
         else Inr (rs_Cookies res))
      else if code = StatusUnauthorized \<or> code = StatusForbidden then
        Inl (TerminalError reasonUnauthorized
               (''ltpa login rejected credentials (HTTP '' @ Itoa code @ '')'') None)
      else if code \<ge> 500 then
        Inl (TransientError (''ltpa login returned HTTP '' @ Itoa code) None)
      else
        Inl (TerminalError reasonUnauthorized
               (''ltpa login returned unexpected HTTP '' @ Itoa code) None))"

definition doLogin ::
  "'w http_env \<Rightarrow> ltpaAuthenticator \<Rightarrow> 'w \<Rightarrow> (string \<times> string) list result \<times> 'w" where
  "doLogin env a w =
     (case he_newRequest env (la_loginURL a) of
        Some e \<Rightarrow> (Inl (WrapError ''build ltpa login request'' e), w)
      | None \<Rightarrow>
          (case he_do env (loginRequest a) w of
             (Inl e, w') \<Rightarrow>
               (case he_ctxErr env w' of
                  Some c \<Rightarrow> (Inl (TransientError ''ltpa login aborted'' (Some c)), w')
                | None \<Rightarrow> (Inl (TransientError ''ltpa login request failed'' (Some e)), w'))
           | (Inr res, w') \<Rightarrow> (loginOutcome res, w')))"

definition reauthenticate ::
  "'w http_env \<Rightarrow> 64 word \<Rightarrow> ltpaAuthenticator \<times> 'w \<Rightarrow> unit result \<times> ltpaAuthenticator \<times> 'w" where
  "reauthenticate env seenToken s =
     (case s of (a, w) \<Rightarrow>
        if la_gen a \<noteq> seenToken then (Inr (), a, w)
        else (case doLogin env a w of
                (Inl e, w') \<Rightarrow> (Inl e, a, w')
              | (Inr cookies, w') \<Rightarrow> (Inr (), a\<lparr>la_cookies := cookies, la_gen := la_gen a + 1\<rparr>, w')))"

definition currentToken :: "ltpaAuthenticator \<Rightarrow> 64 word" where
  "currentToken a = la_gen a"

text \<open>The first critical section of \<open>ensureLoggedIn\<close>: whether a session is cached, and the
  generation read under the same lock.\<close>

definition sessionSnapshot :: "ltpaAuthenticator \<Rightarrow> bool \<times> 64 word" where
  "sessionSnapshot a = (la_cookies a \<noteq> [], la_gen a)"

definition ensureLoggedIn ::
  "'w http_env \<Rightarrow> ltpaAuthenticator \<times> 'w \<Rightarrow> 64 word result \<times> ltpaAuthenticator \<times> 'w" where
  "ensureLoggedIn env s =
     (let (cached, seen) = sessionSnapshot (fst s) in
      if cached then (Inr seen, s)
      else (case reauthenticate env seen s of
              (Inl e, s') \<Rightarrow> (Inl e, s')
            | (Inr u, s') \<Rightarrow> (Inr (currentToken (fst s')), s')))"

section \<open>The session contract\<close>

text \<open>What the request path relies on: refreshing with a token that is no longer current does
  nothing, a successful refresh with the current token makes it stale, and a failed one keeps
  the session.\<close>

locale session_contract =
  fixes refresh :: "'t \<Rightarrow> 's \<Rightarrow> unit result \<times> 's"
    and token :: "'s \<Rightarrow> 't"
  assumes stale: "token s \<noteq> t \<Longrightarrow> refresh t s = (Inr (), s)"
    and fresh: "token s = t \<Longrightarrow> refresh t s = (Inr (), s') \<Longrightarrow> token s' \<noteq> t"
    and failed: "refresh t s = (Inl e, s') \<Longrightarrow> token s' = token s"
begin

text \<open>\<open>n\<close> requests that observed the same token refresh one after the other, as the mutex
  orders them.\<close>

fun refresh_all :: "'t \<Rightarrow> nat \<Rightarrow> 's \<Rightarrow> unit result list \<times> 's" where
  "refresh_all t 0 s = ([], s)"
| "refresh_all t (Suc n) s =
     (let (r, s') = refresh t s; (rs, s'') = refresh_all t n s' in (r # rs, s''))"

lemma refresh_all_stale: "token s \<noteq> t \<Longrightarrow> refresh_all t n s = (replicate n (Inr ()), s)"
  by (induction n) (auto simp: stale)

lemma refresh_all_single:
  assumes "token s = t" "refresh t s = (Inr (), s')"
  shows "refresh_all t (Suc n) s = (replicate (Suc n) (Inr ()), s')"
  using assms by (simp add: refresh_all_stale fresh [OF assms])

end

lemma word_succ_neq: "x + 1 \<noteq> (x :: 64 word)"
  by simp

interpretation ltpa_session: session_contract "reauthenticate env" "\<lambda>s. la_gen (fst s)" for env
proof unfold_locales
  fix s t s' e
  show "la_gen (fst s) \<noteq> t \<Longrightarrow> reauthenticate env t s = (Inr (), s)"
    by (cases s) (simp add: reauthenticate_def)
  show "la_gen (fst s) = t \<Longrightarrow> reauthenticate env t s = (Inr (), s') \<Longrightarrow> la_gen (fst s') \<noteq> t"
    by (cases s) (auto simp: reauthenticate_def word_succ_neq split: prod.splits sum.splits)
  show "reauthenticate env t s = (Inl e, s') \<Longrightarrow> la_gen (fst s') = la_gen (fst s)"
    by (cases s) (auto simp: reauthenticate_def split: prod.splits sum.splits if_splits)
qed

section \<open>Properties\<close>

lemma loginOutcome_Inr: "loginOutcome res = Inr cs \<Longrightarrow> cs \<noteq> []"
  by (auto simp: loginOutcome_def Let_def split: if_splits)

lemma doLogin_Inr: "doLogin env a w = (Inr cs, w') \<Longrightarrow> cs \<noteq> []"
  by (auto simp: doLogin_def dest: loginOutcome_Inr split: option.splits prod.splits sum.splits)

lemma doLogin_error_class:
  assumes "doLogin env a w = (Inl e, w')" "he_newRequest env (la_loginURL a) = None"
  shows "errors_Is e ErrTransient \<or> (\<exists>m. e = TerminalError reasonUnauthorized m None)"
  using assms
  by (auto simp: doLogin_def loginOutcome_def Let_def split: option.splits prod.splits sum.splits if_splits)

text \<open>A session is cached exactly when a login has succeeded.\<close>

definition ltpa_inv :: "ltpaAuthenticator \<Rightarrow> bool" where
  "ltpa_inv a \<longleftrightarrow> (la_gen a \<noteq> 0 \<longrightarrow> la_cookies a \<noteq> [])"

lemma reauthenticate_inv:
  "reauthenticate env t (a, w) = (r, a', w') \<Longrightarrow> ltpa_inv a \<Longrightarrow> ltpa_inv a'"
  by (auto simp: reauthenticate_def ltpa_inv_def dest: doLogin_Inr
      split: prod.splits sum.splits if_splits)

lemma ensureLoggedIn_cookies:
  assumes "ensureLoggedIn env (a, w) = (Inr g, a', w')"
  shows "la_cookies a' \<noteq> [] \<and> g = la_gen a'"
  using assms
  by (auto simp: ensureLoggedIn_def sessionSnapshot_def currentToken_def reauthenticate_def
      dest: doLogin_Inr split: prod.splits sum.splits if_splits)

text \<open>C31: Single flight. When the login succeeds, any number of requests that saw the same
  session token and then refresh it cause exactly one login: the final state is the state after
  the first login and all of them succeed. A failed login keeps cookies and token, and after a
  successful \<open>ensureLoggedIn\<close> a session cookie is cached and the returned token is its
  generation.\<close>

theorem ltpa_single_flight:
  "(la_gen a = t \<and> doLogin env a w = (Inr cookies, w') \<longrightarrow>
      ltpa_session.refresh_all env t (Suc n) (a, w)
        = (replicate (Suc n) (Inr ()), a\<lparr>la_cookies := cookies, la_gen := t + 1\<rparr>, w')) \<and>
   (reauthenticate env t (a, w) = (Inl e, a', w') \<longrightarrow> a' = a) \<and>
   (ensureLoggedIn env (a, w) = (Inr g, a', w') \<longrightarrow> la_cookies a' \<noteq> [] \<and> g = la_gen a')"
proof (intro conjI impI)
  assume a: "la_gen a = t \<and> doLogin env a w = (Inr cookies, w')"
  then have "reauthenticate env t (a, w) = (Inr (), a\<lparr>la_cookies := cookies, la_gen := t + 1\<rparr>, w')"
    by (simp add: reauthenticate_def)
  with a show "ltpa_session.refresh_all env t (Suc n) (a, w)
        = (replicate (Suc n) (Inr ()), a\<lparr>la_cookies := cookies, la_gen := t + 1\<rparr>, w')"
    by (intro ltpa_session.refresh_all_single) simp_all
next
  assume "reauthenticate env t (a, w) = (Inl e, a', w')"
  then show "a' = a" by (auto simp: reauthenticate_def split: prod.splits sum.splits if_splits)
next
  assume "ensureLoggedIn env (a, w) = (Inr g, a', w')"
  from ensureLoggedIn_cookies [OF this] show "la_cookies a' \<noteq> []" by simp
next
  assume "ensureLoggedIn env (a, w) = (Inr g, a', w')"
  from ensureLoggedIn_cookies [OF this] show "g = la_gen a'" by simp
qed

text \<open>An environment for concrete runs: a server that answers every request with one response,
  whose state counts the requests.\<close>

definition const_env :: "http_response \<Rightarrow> nat http_env" where
  "const_env res =
     \<lparr>he_do = (\<lambda>rq w. (Inr res, Suc w)), he_ctxErr = (\<lambda>w. None), he_sleep = (\<lambda>d w. (None, w)),
      he_now = int, he_newRequest = (\<lambda>u. None), he_unmarshalMQSC = (\<lambda>b. Inl (PlainError ''json'')),
      he_unmarshalMsgIDs = (\<lambda>b. Inr [b])\<rparr>"

definition login_response :: http_response where
  "login_response = \<lparr>rs_StatusCode = 204, rs_Body = Inr [], rs_Cookies = [(''LtpaToken2'', ''x'')]\<rparr>"

theorem ltpa_single_flight_witness:
  "ltpa_session.refresh_all (const_env login_response) 0 3
      (newLTPAAuthenticator ''https://mq/login'' ''u'' ''p'', 0)
   = ([Inr (), Inr (), Inr ()],
      (newLTPAAuthenticator ''https://mq/login'' ''u'' ''p'')
        \<lparr>la_cookies := [(''LtpaToken2'', ''x'')], la_gen := 1\<rparr>, 1)"
proof -
  let ?a = "newLTPAAuthenticator ''https://mq/login'' ''u'' ''p''"
  have "la_gen ?a = 0" by (simp add: newLTPAAuthenticator_def)
  moreover have "doLogin (const_env login_response) ?a 0 = (Inr [(''LtpaToken2'', ''x'')], 1)"
    by (simp add: doLogin_def const_env_def login_response_def loginOutcome_def)
  ultimately have "ltpa_session.refresh_all (const_env login_response) 0 (Suc 2) (?a, 0)
      = (replicate (Suc 2) (Inr ()),
         ?a\<lparr>la_cookies := [(''LtpaToken2'', ''x'')], la_gen := 0 + 1\<rparr>, 1)"
    using ltpa_single_flight [where env = "const_env login_response" and a = ?a and t = 0 and w = 0
        and n = 2] by blast
  then show ?thesis by (simp add: numeral_3_eq_3 numeral_2_eq_2)
qed

end
