(* ===== verification/Resilience.thy ===== *)
theory Resilience
  imports LTPA
begin

text \<open>
  Retry, backoff and re-authentication around one mqweb request:
  \<open>internal/adapter/mqrest/resilience.go\<close>, with the transport part of \<open>clientcert.go\<close> that the
  retry loop consults.

  \<open>Client\<close> holds the immutable fields of the Go client; its mutable parts (breaker, LTPA session,
  display-probe cache) and the outside world are the record \<open>cstate\<close> that every operation
  threads.
\<close>

section \<open>Retry policy\<close>

definition defaultMaxAttempts :: int where "defaultMaxAttempts = 4"
definition defaultInitialBackoff :: int where "defaultInitialBackoff = 200 * Millisecond"
definition defaultMaxBackoff :: int where "defaultMaxBackoff = 5 * Second"

record retryPolicy =
  rp_maxAttempts :: int
  rp_initialBackoff :: int
  rp_maxBackoff :: int

definition retryPolicyFromResilience :: "ResilienceConfig \<Rightarrow> retryPolicy" where
  "retryPolicyFromResilience cfg =
     \<lparr>rp_maxAttempts = (if rc_MaxAttempts cfg > 0 then rc_MaxAttempts cfg else defaultMaxAttempts),
      rp_initialBackoff =
        (if rc_InitialBackoff cfg > 0 then rc_InitialBackoff cfg else defaultInitialBackoff),
      rp_maxBackoff = (if rc_MaxBackoff cfg > 0 then rc_MaxBackoff cfg else defaultMaxBackoff)\<rparr>"

text \<open>The loop of \<open>backoff\<close>: \<open>n\<close> iterations are left; \<open>d *= 2\<close> wraps at 64 bits.\<close>

fun backoffLoop :: "int \<Rightarrow> nat \<Rightarrow> int \<Rightarrow> int" where
  "backoffLoop mx 0 d = d"
| "backoffLoop mx (Suc n) d =
     (let d = wrap64 (d * 2) in if d \<ge> mx then mx else backoffLoop mx n d)"

definition backoff :: "retryPolicy \<Rightarrow> int \<Rightarrow> int" where
  "backoff p attempt =
     (if attempt \<le> 0 then rp_initialBackoff p
      else backoffLoop (rp_maxBackoff p) (nat (attempt - 1)) (rp_initialBackoff p))"

definition isRetryableHTTPStatus :: "int \<Rightarrow> bool" where
  "isRetryableHTTPStatus code \<longleftrightarrow> code = StatusTooManyRequests \<or> code \<ge> StatusInternalServerError"

section \<open>Client and state\<close>

datatype requestAuthenticator = BasicAuth string string | LTPAAuth | NoopAuth

record Client =
  c_mqscURL :: string
  c_adminQMURL :: string
  c_queueManager :: string
  c_authenticator :: requestAuthenticator
  c_reauth :: bool
  c_retry :: retryPolicy
  c_clientCertMode :: bool

record 'w cstate =
  cs_breaker :: circuitBreaker
  cs_ltpa :: ltpaAuthenticator
  cs_probe :: "(string, bool) gomap"
  cs_world :: 'w

type_synonym 'w requestBuilder = "'w cstate \<Rightarrow> http_request result"

section \<open>Client-certificate failures\<close>

definition dnMappingPrereq :: string where
  "dnMappingPrereq =
     ''mqweb rejected the client certificate: verify the certificate is '' @
     ''trusted by mqweb and that its DN is mapped to an mqweb user in the queue manager'' @ [squote] @
     ''s user registry '' @ [CHR 0xE2, CHR 0x80, CHR 0x94] @
     '' this DN-to-user registry mapping is a deployment prerequisite MKurator does not configure''"

definition isClientCertRejection :: "mq_error \<Rightarrow> bool" where
  "isClientCertRejection err \<longleftrightarrow> Contains (Error err) ''remote error: tls''"

definition clientCertRejectionError :: mq_error where
  "clientCertRejectionError = TerminalError reasonUnauthorized dnMappingPrereq None"

definition unauthorizedMessage :: "Client \<Rightarrow> string \<Rightarrow> string" where
  "unauthorizedMessage c base =
     (if c_clientCertMode c
      then base @ '' '' @ [CHR 0xE2, CHR 0x80, CHR 0x94] @ '' '' @ dnMappingPrereq else base)"

section \<open>Round trips\<close>

definition sleepWithContext :: "'w http_env \<Rightarrow> int \<Rightarrow> 'w cstate \<Rightarrow> unit result \<times> 'w cstate" where
  "sleepWithContext env d s =
     (case he_sleep env d (cs_world s) of
        (Some e, w) \<Rightarrow> (Inl (TransientError ''mqweb retry backoff aborted'' (Some e)), s\<lparr>cs_world := w\<rparr>)
      | (None, w) \<Rightarrow> (Inr (), s\<lparr>cs_world := w\<rparr>))"

definition recordFailureAt :: "'w http_env \<Rightarrow> 'w cstate \<Rightarrow> 'w cstate" where
  "recordFailureAt env s =
     s\<lparr>cs_breaker := recordFailure (he_now env (cs_world s)) (cs_breaker s)\<rparr>"

definition recordSuccessAt :: "'w cstate \<Rightarrow> 'w cstate" where
  "recordSuccessAt s = s\<lparr>cs_breaker := recordSuccess (cs_breaker s)\<rparr>"

text \<open>One pass through the body of the retry loop: it either leaves the function or goes on
  with a new \<open>lastNetErr\<close>.\<close>

datatype 'a loop_exit = Return "'a" | Continue "mq_error option"

definition attemptOnce ::
  "'w http_env \<Rightarrow> Client \<Rightarrow> 'w requestBuilder \<Rightarrow> int \<Rightarrow> mq_error option \<Rightarrow> 'w cstate \<Rightarrow>
     http_response result loop_exit \<times> 'w cstate" where
  "attemptOnce env c build attempt lastNetErr s =
     (case build s of
        Inl e \<Rightarrow> (Return (Inl (WrapError ''build mqweb request'' e)), s)
      | Inr req \<Rightarrow>
          (case he_do env req (cs_world s) of
             (Inl err, w) \<Rightarrow>
               (let s = s\<lparr>cs_world := w\<rparr> in
                case he_ctxErr env w of
                  Some ce \<Rightarrow> (Return (Inl (TransientError ''mqweb request aborted'' (Some ce))), s)
                | None \<Rightarrow>
                    if c_clientCertMode c \<and> isClientCertRejection err
                    then (Return (Inl clientCertRejectionError), recordFailureAt env s)
                    else (Continue (Some err), s))
           | (Inr res, w) \<Rightarrow>
               (let s = s\<lparr>cs_world := w\<rparr> in
                if isRetryableHTTPStatus (rs_StatusCode res) then
                  (if attempt + 1 < rp_maxAttempts (c_retry c) then (Continue lastNetErr, s)
                   else (Return (Inl (TransientError
                           (''mqweb returned HTTP '' @ Itoa (rs_StatusCode res)) None)),
                         recordFailureAt env s))
                else (Return (Inr res), recordSuccessAt s))))"

function roundTripLoop ::
  "'w http_env \<Rightarrow> Client \<Rightarrow> 'w requestBuilder \<Rightarrow> int \<Rightarrow> mq_error option \<Rightarrow> 'w cstate \<Rightarrow>
     http_response result \<times> 'w cstate" where
  "roundTripLoop env c build attempt lastNetErr s =
     (if \<not> attempt < rp_maxAttempts (c_retry c) then
        (Inl (case lastNetErr of
                Some e \<Rightarrow> TransientError ''mqweb request failed'' (Some e)
              | None \<Rightarrow> TransientError ''mqweb request failed after retries'' None),
         recordFailureAt env s)
      else
        (case (if attempt > 0 then sleepWithContext env (backoff (c_retry c) attempt) s else (Inr (), s)) of
           (Inl e, s) \<Rightarrow> (Inl e, s)
         | (Inr u, s) \<Rightarrow>
             (case attemptOnce env c build attempt lastNetErr s of
                (Return r, s) \<Rightarrow> (r, s)
              | (Continue le, s) \<Rightarrow> roundTripLoop env c build (attempt + 1) le s)))"
  by pat_completeness auto
termination
  by (relation "measure (\<lambda>(env, c, build, attempt, le, s). nat (rp_maxAttempts (c_retry c) - attempt))")
     auto

declare roundTripLoop.simps [simp del]

definition roundTrip ::
  "'w http_env \<Rightarrow> Client \<Rightarrow> 'w requestBuilder \<Rightarrow> 'w cstate \<Rightarrow> http_response result \<times> 'w cstate" where
  "roundTrip env c build s =
     (case beforeRequest (he_now env (cs_world s)) (cs_breaker s) of
        (Inl e, b) \<Rightarrow> (Inl e, s\<lparr>cs_breaker := b\<rparr>)
      | (Inr u, b) \<Rightarrow> roundTripLoop env c build 0 None (s\<lparr>cs_breaker := b\<rparr>))"

definition roundTripWithReauth ::
  "'w http_env \<Rightarrow> Client \<Rightarrow> 'w requestBuilder \<Rightarrow> 'w cstate \<Rightarrow> http_response result \<times> 'w cstate" where
  "roundTripWithReauth env c build s =
     (if \<not> c_reauth c then roundTrip env c build s
      else
        (case ensureLoggedIn env (cs_ltpa s, cs_world s) of
           (Inl e, a, w) \<Rightarrow> (Inl e, s\<lparr>cs_ltpa := a, cs_world := w\<rparr>)
         | (Inr seen, a, w) \<Rightarrow>
             (case roundTrip env c build (s\<lparr>cs_ltpa := a, cs_world := w\<rparr>) of
                (Inl e, s) \<Rightarrow> (Inl e, s)
              | (Inr res, s) \<Rightarrow>
                  if rs_StatusCode res \<noteq> StatusUnauthorized then (Inr res, s)
                  else
                    (case rs_Body res of
                       Inl e \<Rightarrow> (Inr (res\<lparr>rs_Body := Inr []\<rparr>), s)
                     | Inr body \<Rightarrow>
                         if \<not> shouldReauthenticate env (rs_StatusCode res) body then (Inr res, s)
                         else
                           (case reauthenticate env seen (cs_ltpa s, cs_world s) of
                              (Inl e, a, w) \<Rightarrow> (Inl e, s\<lparr>cs_ltpa := a, cs_world := w\<rparr>)
                            | (Inr u, a, w) \<Rightarrow> roundTrip env c build (s\<lparr>cs_ltpa := a, cs_world := w\<rparr>))))))"

section \<open>Backoff\<close>

lemma backoffLoop_closed_form:
  assumes "0 < d" "d \<le> mx" "mx < 2 ^ 62"
  shows "backoffLoop mx n d = min (d * 2 ^ n) mx"
  using assms
proof (induction n arbitrary: d)
  case 0
  then show ?case by simp
next
  case (Suc n)
  have w: "wrap64 (d * 2) = d * 2" using Suc.prems by (intro wrap64_id) simp_all
  show ?case
  proof (cases "d * 2 \<ge> mx")
    case True
    have "1 \<le> (2 :: int) ^ n" by simp
    with Suc.prems have "d * 2 * 1 \<le> d * 2 * 2 ^ n" by (intro mult_left_mono) simp_all
    with True have "mx \<le> d * 2 ^ Suc n" by simp
    with True w show ?thesis by simp
  next
    case False
    with Suc.IH [of "d * 2"] Suc.prems w show ?thesis by (simp add: mult.assoc)
  qed
qed

text \<open>C32: Backoff is exponential and capped. For a policy whose initial delay is positive and
  at most the cap (and the cap is below 2^62 ns), the delay before attempt \<open>n\<close> is
  \<open>min (initial * 2^(n-1)) cap\<close>: it stays within the two bounds, never decreases, and never
  overflows. The default policy satisfies the premises. The cap is not applied to the first
  retry: an initial delay above the cap is slept in full.\<close>

theorem backoff_bounds:
  "(0 < rp_initialBackoff p \<and> rp_initialBackoff p \<le> rp_maxBackoff p \<and> rp_maxBackoff p < 2 ^ 62 \<longrightarrow>
      (0 < n \<longrightarrow> backoff p n = min (rp_initialBackoff p * 2 ^ nat (n - 1)) (rp_maxBackoff p)) \<and>
      rp_initialBackoff p \<le> backoff p n \<and> backoff p n \<le> rp_maxBackoff p \<and>
      (n \<le> m \<longrightarrow> backoff p n \<le> backoff p m)) \<and>
   backoff p 1 = rp_initialBackoff p"
proof (intro conjI impI)
  show "backoff p 1 = rp_initialBackoff p" by (simp add: backoff_def)
next
  assume a: "0 < rp_initialBackoff p \<and> rp_initialBackoff p \<le> rp_maxBackoff p \<and> rp_maxBackoff p < 2 ^ 62"
  let ?i = "rp_initialBackoff p"
  have c: "backoff p k = min (?i * 2 ^ nat (k - 1)) (rp_maxBackoff p)" if "0 < k" for k
    using a that by (simp add: backoff_def backoffLoop_closed_form)
  have pow: "?i * 2 ^ j \<le> ?i * 2 ^ k" if "j \<le> k" for j k :: nat
    using a that by (intro mult_left_mono) (simp_all add: power_increasing)
  have lower: "?i \<le> backoff p k" for k
    using a c [of k] pow [of 0 "nat (k - 1)"] by (cases "0 < k") (simp_all add: backoff_def)
  then show "?i \<le> backoff p n" .
  show "backoff p n \<le> rp_maxBackoff p"
    using a c [of n] by (cases "0 < n") (simp_all add: backoff_def)
  show "0 < n \<Longrightarrow> backoff p n = min (?i * 2 ^ nat (n - 1)) (rp_maxBackoff p)" by (rule c)
  show "backoff p n \<le> backoff p m" if "n \<le> m"
  proof (cases "0 < n")
    case True
    from that have "nat (n - 1) \<le> nat (m - 1)" by simp
    from pow [OF this] True that show ?thesis by (simp add: c min_def)
  next
    case False
    then have "backoff p n = ?i" by (simp add: backoff_def)
    with lower show ?thesis by simp
  qed
qed

definition no_tuning :: ResilienceConfig where
  "no_tuning = \<lparr>rc_MaxAttempts = 0, rc_InitialBackoff = 0, rc_MaxBackoff = 0,
     rc_FailureThreshold = 0, rc_OpenTimeout = 0\<rparr>"

theorem backoff_bounds_witness:
  "backoff (retryPolicyFromResilience no_tuning) 3 = 800 * Millisecond \<and>
   backoff (retryPolicyFromResilience no_tuning) 9 \<le> 5 * Second"
proof -
  let ?p = "retryPolicyFromResilience no_tuning"
  have "0 < rp_initialBackoff ?p \<and> rp_initialBackoff ?p \<le> rp_maxBackoff ?p \<and> rp_maxBackoff ?p < 2 ^ 62"
    by (simp add: retryPolicyFromResilience_def no_tuning_def defaultInitialBackoff_def
        defaultMaxBackoff_def Millisecond_def Second_def)
  then have "backoff ?p 3 = min (rp_initialBackoff ?p * 2 ^ nat (3 - 1)) (rp_maxBackoff ?p)"
    "backoff ?p 9 \<le> rp_maxBackoff ?p"
    using backoff_bounds [where p = ?p and n = 3 and m = 3] backoff_bounds [where p = ?p and n = 9 and m = 9]
    by simp_all
  then show ?thesis
    by (simp add: retryPolicyFromResilience_def no_tuning_def defaultInitialBackoff_def
        defaultMaxBackoff_def Millisecond_def Second_def)
qed

section \<open>The retry loop\<close>

abbreviation exitError :: "mq_error option \<Rightarrow> mq_error" where
  "exitError le \<equiv> (case le of
       Some e \<Rightarrow> TransientError ''mqweb request failed'' (Some e)
     | None \<Rightarrow> TransientError ''mqweb request failed after retries'' None)"

text \<open>A proof rule for the loop: \<open>I\<close> holds at the head of an iteration, \<open>J\<close> after the pause.\<close>

lemma roundTripLoop_rule:
  assumes I: "I attempt le s"
    and paused: "\<And>a le s e s'. I a le s \<Longrightarrow> a < rp_maxAttempts (c_retry c) \<Longrightarrow> sleepWithContext env (backoff (c_retry c) a) s = (Inl e, s')
                   \<Longrightarrow> Q (Inl e) s'"
    and awake: "\<And>a le s s'. I a le s \<Longrightarrow> a < rp_maxAttempts (c_retry c) \<Longrightarrow> sleepWithContext env (backoff (c_retry c) a) s = (Inr (), s')
                   \<Longrightarrow> J a le s'"
    and start: "\<And>a le s. I a le s \<Longrightarrow> a < rp_maxAttempts (c_retry c) \<Longrightarrow> a \<le> 0 \<Longrightarrow> J a le s"
    and ret: "\<And>a le s r s'. J a le s \<Longrightarrow> attemptOnce env c build a le s = (Return r, s') \<Longrightarrow> Q r s'"
    and cont: "\<And>a le s le' s'. J a le s \<Longrightarrow> a < rp_maxAttempts (c_retry c) \<Longrightarrow>
                 attemptOnce env c build a le s = (Continue le', s') \<Longrightarrow> I (a + 1) le' s'"
    and exhausted: "\<And>a le s. I a le s \<Longrightarrow> \<not> a < rp_maxAttempts (c_retry c) \<Longrightarrow>
                 Q (Inl (exitError le)) (recordFailureAt env s)"
  shows "Q (fst (roundTripLoop env c build attempt le s)) (snd (roundTripLoop env c build attempt le s))"
  using I
proof (induction "nat (rp_maxAttempts (c_retry c) - attempt)" arbitrary: attempt le s rule: less_induct)
  case less
  show ?case
  proof (cases "attempt < rp_maxAttempts (c_retry c)")
    case False
    with exhausted [OF less.prems] show ?thesis by (simp add: roundTripLoop.simps [of env c build attempt])
  next
    case True
    obtain y s1 where sl: "(if attempt > 0 then sleepWithContext env (backoff (c_retry c) attempt) s
                            else (Inr (), s)) = (y, s1)" by fastforce
    note step = roundTripLoop.simps [of env c build attempt le s] sl
    show ?thesis
    proof (cases y)
      case (Inl e)
      with sl paused [OF less.prems True] have "Q (Inl e) s1" by (auto split: if_splits)
      with True Inl show ?thesis by (simp add: step)
    next
      case (Inr u)
      with sl awake [OF less.prems True] start [OF less.prems True] have J: "J attempt le s1"
        by (auto split: if_splits)
      obtain x s' where x: "attemptOnce env c build attempt le s1 = (x, s')" by fastforce
      show ?thesis
      proof (cases x)
        case (Return r)
        with ret [OF J] x have "Q r s'" by simp
        with True Inr x Return show ?thesis by (simp add: step)
      next
        case (Continue le')
        with cont [OF J True] x have "I (attempt + 1) le' s'" by simp
        with less.hyps [of "attempt + 1" le' s'] True
        have "Q (fst (roundTripLoop env c build (attempt + 1) le' s'))
                (snd (roundTripLoop env c build (attempt + 1) le' s'))" by simp
        with True Inr x Continue show ?thesis by (simp add: step)
      qed
    qed
  qed
qed

section \<open>Outcomes of a round trip\<close>

definition transport_error :: "Client \<Rightarrow> mq_error \<Rightarrow> bool" where
  "transport_error c e \<longleftrightarrow>
     errors_Is e ErrTransient \<or>
     (c_clientCertMode c \<and> e = clientCertRejectionError) \<or>
     (\<exists>x. e = WrapError ''build mqweb request'' x)"

definition round_trip_ok :: "Client \<Rightarrow> http_response result \<Rightarrow> 'w cstate \<Rightarrow> bool" where
  "round_trip_ok c r s \<longleftrightarrow>
     breaker_inv (cs_breaker s) \<and>
     (case r of
        Inr res \<Rightarrow> \<not> isRetryableHTTPStatus (rs_StatusCode res) \<and> phase_of (cs_breaker s) = Closed 0
      | Inl e \<Rightarrow> transport_error c e)"

lemma sleepWithContext_frame [simp]:
  "cs_breaker (snd (sleepWithContext env d s)) = cs_breaker s"
  "cs_ltpa (snd (sleepWithContext env d s)) = cs_ltpa s"
  "cs_probe (snd (sleepWithContext env d s)) = cs_probe s"
  by (simp_all add: sleepWithContext_def split: prod.split option.split)

lemma sleepWithContext_breaker: "sleepWithContext env d s = (r, s') \<Longrightarrow> cs_breaker s' = cs_breaker s"
  using sleepWithContext_frame(1) [of env d s] by simp

lemma sleepWithContext_error: "sleepWithContext env d s = (Inl e, s') \<Longrightarrow> errors_Is e ErrTransient"
  by (auto simp: sleepWithContext_def split: prod.splits option.splits)

lemma attemptOnce_Return:
  assumes "attemptOnce env c build a le s = (Return r, s')" "breaker_inv (cs_breaker s)"
  shows "round_trip_ok c r s'"
  using assms
  by (auto simp: attemptOnce_def round_trip_ok_def transport_error_def recordFailureAt_def
      recordSuccessAt_def recordFailure_inv recordSuccess_inv phase_recordSuccess Let_def
      split: sum.splits prod.splits option.splits if_splits)

lemma attemptOnce_Continue:
  "attemptOnce env c build a le s = (Continue le', s') \<Longrightarrow> cs_breaker s' = cs_breaker s"
  by (auto simp: attemptOnce_def Let_def split: sum.splits prod.splits option.splits if_splits)

lemma exitError_transient [simp]: "errors_Is (exitError le) ErrTransient"
  by (simp split: option.split)

lemma roundTripLoop_ok:
  assumes "breaker_inv (cs_breaker s)"
  shows "round_trip_ok c (fst (roundTripLoop env c build a le s)) (snd (roundTripLoop env c build a le s))"
proof (rule roundTripLoop_rule [where I = "\<lambda>a le s. breaker_inv (cs_breaker s)"
      and J = "\<lambda>a le s. breaker_inv (cs_breaker s)"])
  show "breaker_inv (cs_breaker s)" by (rule assms)
next
  show "round_trip_ok c r s'"
    if "breaker_inv (cs_breaker s)" "attemptOnce env c build a le s = (Return r, s')" for a le s r s'
    using that by (blast intro: attemptOnce_Return)
qed (auto simp: round_trip_ok_def transport_error_def recordFailureAt_def recordFailure_inv
      dest: sleepWithContext_breaker sleepWithContext_error attemptOnce_Continue)

lemma roundTrip_ok:
  assumes "breaker_inv (cs_breaker s)" "roundTrip env c build s = (r, s')"
  shows "round_trip_ok c r s'"
proof (cases "beforeRequest (he_now env (cs_world s)) (cs_breaker s)")
  case (Pair x b)
  then have inv: "breaker_inv b" using assms(1) beforeRequest_inv' by blast
  show ?thesis
  proof (cases x)
    case (Inl e)
    with Pair have "errors_Is e ErrTransient"
      using mqweb_breaker.reject_transient [OF assms(1)] by (metis fst_conv)
    with Inl Pair inv assms(2) show ?thesis
      by (auto simp: roundTrip_def round_trip_ok_def transport_error_def)
  next
    case (Inr u)
    with Pair assms(2) have "roundTripLoop env c build 0 None (s\<lparr>cs_breaker := b\<rparr>) = (r, s')"
      by (simp add: roundTrip_def)
    with roundTripLoop_ok [of "s\<lparr>cs_breaker := b\<rparr>" c env build 0 None] inv show ?thesis by simp
  qed
qed

lemma roundTrip_rejected:
  assumes "breaker_inv (cs_breaker s)"
    and "is_err (fst (beforeRequest (he_now env (cs_world s)) (cs_breaker s)))"
  shows "\<exists>e. roundTrip env c build s = (Inl e, s)"
proof -
  obtain e b where b: "beforeRequest (he_now env (cs_world s)) (cs_breaker s) = (Inl e, b)"
    using assms(2) by (metis is_err_iff prod.collapse)
  then have "b = cs_breaker s"
    using mqweb_breaker.reject_frame [OF assms(1)] by (metis fst_conv snd_conv)
  with b show ?thesis by (simp add: roundTrip_def)
qed

text \<open>C33: Outcome of a round trip, for every server, clock, context and request builder. The
  breaker's invariant is kept. A response is handed to the caller only when its status is not
  retryable, and then the breaker is closed with no failures counted. Every error is transient,
  or the client-certificate rejection (only in that mode), or the failure to build the request.
  When the breaker rejects, nothing is sent and nothing changes.\<close>

theorem roundTrip_outcome:
  assumes "breaker_inv (cs_breaker s)"
  shows "breaker_inv (cs_breaker (snd (roundTrip env c build s))) \<and>
         (case fst (roundTrip env c build s) of
            Inr res \<Rightarrow> \<not> isRetryableHTTPStatus (rs_StatusCode res) \<and>
                       phase_of (cs_breaker (snd (roundTrip env c build s))) = Closed 0
          | Inl e \<Rightarrow> errors_Is e ErrTransient \<or>
                     (c_clientCertMode c \<and> e = clientCertRejectionError) \<or>
                     (\<exists>x. e = WrapError ''build mqweb request'' x)) \<and>
         (is_err (fst (beforeRequest (he_now env (cs_world s)) (cs_breaker s))) \<longrightarrow>
            snd (roundTrip env c build s) = s)"
proof -
  have "round_trip_ok c (fst (roundTrip env c build s)) (snd (roundTrip env c build s))"
    using roundTrip_ok [OF assms] by simp
  moreover have "is_err (fst (beforeRequest (he_now env (cs_world s)) (cs_breaker s))) \<Longrightarrow>
      snd (roundTrip env c build s) = s"
    using roundTrip_rejected [OF assms] by (metis snd_conv)
  ultimately show ?thesis unfolding round_trip_ok_def transport_error_def by blast
qed

definition basic_client :: Client where
  "basic_client =
     \<lparr>c_mqscURL = ''https://mq/mqsc'', c_adminQMURL = ''https://mq/qmgr'', c_queueManager = ''QM1'',
      c_authenticator = BasicAuth ''u'' ''p'', c_reauth = False,
      c_retry = retryPolicyFromResilience no_tuning, c_clientCertMode = False\<rparr>"

definition fresh_state :: "'w \<Rightarrow> 'w cstate" where
  "fresh_state w =
     \<lparr>cs_breaker = newCircuitBreaker (circuitBreakerConfigFromResilience no_tuning),
      cs_ltpa = newLTPAAuthenticator ''https://mq/login'' ''u'' ''p'', cs_probe = [], cs_world = w\<rparr>"

definition ping_request :: http_request where
  "ping_request = \<lparr>rq_Method = ''GET'', rq_URL = ''https://mq/qmgr'', rq_Header = [], rq_Body = NoBody\<rparr>"

lemma fresh_state_inv [simp]: "breaker_inv (cs_breaker (fresh_state w))"
  by (simp add: fresh_state_def newCircuitBreaker_inv)

definition resp503 :: http_response where
  "resp503 = \<lparr>rs_StatusCode = 503, rs_Body = Inr [], rs_Cookies = []\<rparr>"

theorem roundTrip_outcome_witness:
  "breaker_inv (cs_breaker (snd (roundTrip (const_env resp503) basic_client
      (\<lambda>s. Inr ping_request) (fresh_state 0)))) \<and>
   fst (roundTrip (const_env resp503) basic_client (\<lambda>s. Inr ping_request) (fresh_state 0))
     = Inl (TransientError ''mqweb returned HTTP 503'' None)"
proof
  show "breaker_inv (cs_breaker (snd (roundTrip (const_env resp503) basic_client
      (\<lambda>s. Inr ping_request) (fresh_state 0))))"
    by (rule conjunct1 [OF roundTrip_outcome]) simp
  show "fst (roundTrip (const_env resp503) basic_client (\<lambda>s. Inr ping_request) (fresh_state 0))
     = Inl (TransientError ''mqweb returned HTTP 503'' None)" by code_simp
qed

section \<open>Bounded work\<close>

text \<open>\<open>counts env cnt\<close>: \<open>cnt\<close> is an upper bound on the requests sent, as a function of the world;
  sending one adds at most one, sleeping adds none.\<close>

definition counts :: "'w http_env \<Rightarrow> ('w \<Rightarrow> nat) \<Rightarrow> bool" where
  "counts env cnt \<longleftrightarrow>
     (\<forall>rq w. cnt (snd (he_do env rq w)) \<le> Suc (cnt w)) \<and>
     (\<forall>d w. cnt (snd (he_sleep env d w)) \<le> cnt w)"

lemma counts_do: "counts env cnt \<Longrightarrow> he_do env rq w = (r, w') \<Longrightarrow> cnt w' \<le> Suc (cnt w)"
  unfolding counts_def by (metis snd_conv)

lemma counts_sleep: "counts env cnt \<Longrightarrow> he_sleep env d w = (r, w') \<Longrightarrow> cnt w' \<le> cnt w"
  unfolding counts_def by (metis snd_conv)

lemma sleepWithContext_counts:
  "counts env cnt \<Longrightarrow> sleepWithContext env d s = (r, s') \<Longrightarrow> cnt (cs_world s') \<le> cnt (cs_world s)"
  by (auto simp: sleepWithContext_def dest: counts_sleep split: prod.splits option.splits)

lemma attemptOnce_counts:
  assumes "counts env cnt" "attemptOnce env c build a le s = (x, s')"
  shows "cnt (cs_world s') \<le> Suc (cnt (cs_world s))"
  using assms
  by (auto simp: attemptOnce_def recordFailureAt_def recordSuccessAt_def Let_def dest: counts_do
      split: sum.splits prod.splits option.splits if_splits)

lemma roundTripLoop_counts:
  assumes "counts env cnt" "0 \<le> a" "a \<le> rp_maxAttempts (c_retry c)"
  shows "int (cnt (cs_world (snd (roundTripLoop env c build a le s))))
           \<le> int (cnt (cs_world s)) + (rp_maxAttempts (c_retry c) - a)"
proof (rule roundTripLoop_rule [where Q = "\<lambda>r s'. int (cnt (cs_world s'))
           \<le> int (cnt (cs_world s)) + (rp_maxAttempts (c_retry c) - a)"
    and I = "\<lambda>a' le s'. a' \<le> rp_maxAttempts (c_retry c) \<and> int (cnt (cs_world s')) \<le> int (cnt (cs_world s)) + (a' - a)"
    and J = "\<lambda>a' le s'. a' < rp_maxAttempts (c_retry c) \<and> int (cnt (cs_world s')) \<le> int (cnt (cs_world s)) + (a' - a)"])
  show "a \<le> rp_maxAttempts (c_retry c) \<and> int (cnt (cs_world s)) \<le> int (cnt (cs_world s)) + (a - a)"
    using assms by simp
qed (use sleepWithContext_counts [OF assms(1)] attemptOnce_counts [OF assms(1)] in
      \<open>fastforce simp: recordFailureAt_def\<close>)+

lemma roundTrip_counts:
  assumes "counts env cnt" "0 \<le> rp_maxAttempts (c_retry c)"
  shows "int (cnt (cs_world (snd (roundTrip env c build s))))
           \<le> int (cnt (cs_world s)) + rp_maxAttempts (c_retry c)"
proof (cases "beforeRequest (he_now env (cs_world s)) (cs_breaker s)")
  case (Pair x b)
  with assms roundTripLoop_counts [of env cnt 0 c build None "s\<lparr>cs_breaker := b\<rparr>"] show ?thesis
    by (cases x) (simp_all add: roundTrip_def)
qed

lemma reauthenticate_counts:
  "counts env cnt \<Longrightarrow> reauthenticate env t (a, w) = (r, a', w') \<Longrightarrow> cnt w' \<le> Suc (cnt w)"
  by (auto simp: reauthenticate_def doLogin_def dest: counts_do
      split: if_splits option.splits prod.splits sum.splits)

lemma ensureLoggedIn_counts:
  "counts env cnt \<Longrightarrow> ensureLoggedIn env (a, w) = (r, a', w') \<Longrightarrow> cnt w' \<le> Suc (cnt w)"
  by (auto simp: ensureLoggedIn_def sessionSnapshot_def dest: reauthenticate_counts
      split: if_splits prod.splits sum.splits)

lemma roundTripWithReauth_counts:
  assumes "counts env cnt" and n: "0 \<le> rp_maxAttempts (c_retry c)" and "c_reauth c"
  shows "int (cnt (cs_world (snd (roundTripWithReauth env c build s))))
           \<le> int (cnt (cs_world s)) + 2 * rp_maxAttempts (c_retry c) + 2"
proof -
  obtain r a w where e: "ensureLoggedIn env (cs_ltpa s, cs_world s) = (r, a, w)" by (metis surj_pair)
  have b1: "cnt w \<le> Suc (cnt (cs_world s))" using ensureLoggedIn_counts [OF assms(1) e] .
  obtain r1 s1 where rt: "roundTrip env c build (s\<lparr>cs_ltpa := a, cs_world := w\<rparr>) = (r1, s1)" by fastforce
  have b2: "int (cnt (cs_world s1)) \<le> int (cnt w) + rp_maxAttempts (c_retry c)"
    using roundTrip_counts [OF assms(1,2), of build "s\<lparr>cs_ltpa := a, cs_world := w\<rparr>"] rt by simp
  have re: "int (cnt (cs_world (snd (roundTrip env c build (s1\<lparr>cs_ltpa := a', cs_world := w'\<rparr>)))))
      \<le> int (cnt (cs_world s1)) + 1 + rp_maxAttempts (c_retry c) \<and> cnt w' \<le> Suc (cnt (cs_world s1))"
    if "reauthenticate env t (cs_ltpa s1, cs_world s1) = (x, a', w')" for t x a' w'
    using roundTrip_counts [OF assms(1,2), of build "s1\<lparr>cs_ltpa := a', cs_world := w'\<rparr>"]
      reauthenticate_counts [OF assms(1) that] by simp
  show ?thesis
    using assms(3) b1 b2 n e rt
    by (auto simp: roundTripWithReauth_def dest!: re split: sum.split prod.split)
qed



section \<open>An aborted probe\<close>

lemma roundTrip_aborted:
  assumes "build (s\<lparr>cs_breaker := b\<rparr>) = Inr req" "he_do env req (cs_world s) = (Inl err, w)"
    and "he_ctxErr env w = Some ce" "0 < rp_maxAttempts (c_retry c)"
    and "beforeRequest (he_now env (cs_world s)) (cs_breaker s) = (Inr (), b)"
  shows "roundTrip env c build s
    = (Inl (TransientError ''mqweb request aborted'' (Some ce)), s\<lparr>cs_breaker := b, cs_world := w\<rparr>)"
  using assms by (simp add: roundTrip_def roundTripLoop.simps [of env c build 0] attemptOnce_def)

text \<open>A request that is aborted by its context while it is the half-open probe leaves the
  breaker half-open with the probe flag set, since the abort returns before an outcome is
  recorded. From then on every request through this client fails with the circuit-open error
  without being sent, whatever the state of mqweb and however much time passes.\<close>

theorem aborted_probe_blocks_client:
  assumes "breaker_inv (cs_breaker s)" and "phase_of (cs_breaker s) = Open t\<^sub>0"
    and "openTimeout (cb_cfg (cs_breaker s)) \<le> he_now env (cs_world s) - t\<^sub>0"
    and "\<And>s. build s = Inr req" and "he_do env req (cs_world s) = (Inl err, w)"
    and "he_ctxErr env w = Some ce" and "0 < rp_maxAttempts (c_retry c)"
    and s': "s' = snd (roundTrip env c build s)"
  shows "phase_of (cs_breaker s') = HalfOpen \<and>
         (\<forall>env' build' s''. cs_breaker s'' = cs_breaker s' \<longrightarrow>
            roundTrip env' c build' s'' = (Inl circuitOpenError, s''))"
proof -
  define b where "b = snd (beforeRequest (he_now env (cs_world s)) (cs_breaker s))"
  have adm: "beforeRequest (he_now env (cs_world s)) (cs_breaker s) = (Inr (), b)"
    "phase_of b = HalfOpen" "breaker_inv b"
    using phase_admission(3) [OF assms(1-3)] beforeRequest_inv [OF assms(1)]
    by (simp_all add: b_def prod_eq_iff)
  then have "cs_breaker s' = b"
    using roundTrip_aborted [where build = build and s = s and b = b and env = env and c = c] assms by simp
  moreover have "beforeRequest t b = (Inl circuitOpenError, b)" for t
    using adm phase_admission(4) by blast
  ultimately show ?thesis using adm by (simp add: roundTrip_def)
qed

definition abort_env :: "int http_env" where
  "abort_env =
     \<lparr>he_do = (\<lambda>rq w. (Inl (NetError ''timeout''), w)), he_ctxErr = (\<lambda>w. Some (CtxError ''deadline exceeded'')),
      he_sleep = (\<lambda>d w. (None, w)), he_now = (\<lambda>w. w), he_newRequest = (\<lambda>u. None),
      he_unmarshalMQSC = (\<lambda>b. Inl (PlainError ''json'')), he_unmarshalMsgIDs = (\<lambda>b. Inr [])\<rparr>"

definition tripped_state :: "int \<Rightarrow> int cstate" where
  "tripped_state t = (fresh_state t)\<lparr>cs_breaker := record_failures [0, 0, 0, 0, 0] (cs_breaker (fresh_state t))\<rparr>"

theorem aborted_probe_blocks_client_witness:
  "phase_of (cs_breaker (snd (roundTrip abort_env basic_client (\<lambda>s. Inr ping_request)
      (tripped_state (31 * Second))))) = HalfOpen"
proof -
  let ?s = "tripped_state (31 * Second)"
  have "breaker_inv (cs_breaker ?s)" by (simp add: tripped_state_def recordFailure_inv)
  moreover have "phase_of (cs_breaker ?s) = Open 0" by code_simp
  moreover have "openTimeout (cb_cfg (cs_breaker ?s)) \<le> he_now abort_env (cs_world ?s) - 0" by code_simp
  moreover have "he_do abort_env ping_request (cs_world ?s) = (Inl (NetError ''timeout''), cs_world ?s)"
    by (simp add: abort_env_def)
  moreover have "he_ctxErr abort_env (cs_world ?s) = Some (CtxError ''deadline exceeded'')"
    by (simp add: abort_env_def)
  moreover have "0 < rp_maxAttempts (c_retry basic_client)" by code_simp
  ultimately show ?thesis
    using aborted_probe_blocks_client [where s = ?s and env = abort_env and c = basic_client
        and build = "\<lambda>s. Inr ping_request"] by blast
qed

end
