(* ===== verification/Attr_Match.thy ===== *)
theory Attr_Match
  imports Prelude
begin

text \<open>
  Attribute comparison and drift detection, \<open>internal/mqadmin/attrmatch.go\<close>, with the two
  type normalisers of \<open>queue.go\<close> and \<open>channel.go\<close>. The Go enums \<open>QueueType\<close> and
  \<open>ChannelType\<close> are string types, so the model keeps them as strings: a value outside the
  declared constants can reach every function.

  The laws that the callers rely on (matching is an equivalence on values, normalisation is
  idempotent) are the locale \<open>drift_relation\<close>; drift detection is analysed once in it and
  instantiated with the code's matching function.
\<close>

section \<open>Kinds\<close>

abbreviation "QueueTypeLocal \<equiv> ''local''"
abbreviation "QueueTypeAlias \<equiv> ''alias''"
abbreviation "QueueTypeRemote \<equiv> ''remote''"
abbreviation "ChannelTypeSvrconn \<equiv> ''svrconn''"
abbreviation "ChannelTypeSdr \<equiv> ''sdr''"
abbreviation "ChannelTypeRcvr \<equiv> ''rcvr''"

definition NormalizeQueueType :: "string \<Rightarrow> string" where
  "NormalizeQueueType t = (if t = [] then QueueTypeLocal else t)"

definition NormalizeChannelType :: "string \<Rightarrow> string" where
  "NormalizeChannelType t = (if t = [] then ChannelTypeSvrconn else t)"

definition ChannelTypeSupported :: "string \<Rightarrow> bool" where
  "ChannelTypeSupported t \<longleftrightarrow>
     NormalizeChannelType t \<in> set [ChannelTypeSvrconn, ChannelTypeSdr, ChannelTypeRcvr]"

section \<open>Attribute keys and values\<close>

definition caseInsensitiveAttrKeys :: "string list" where
  "caseInsensitiveAttrKeys =
     [''pub'', ''sub'', ''get'', ''put'', ''defpsist'', ''trptype'',
      ''share'', ''defopts'', ''usage'', ''sslcauth'']"

definition numericAttrKeys :: "string list" where
  "numericAttrKeys =
     [''maxdepth'', ''maxmsglen'', ''maxmsgl'', ''sharecnv'', ''maxinst'', ''maxinstc'', ''bothresh'']"

record AttributeDrift =
  drift_Key :: string
  drift_Desired :: string
  drift_Observed :: string

definition NormalizeAttrKey :: "string \<Rightarrow> string" where
  "NormalizeAttrKey k =
     (let key = ToLower k in if key = ''topicstr'' then ''topstr'' else key)"

definition normalizeNumericString :: "string \<Rightarrow> string" where
  "normalizeNumericString str =
     (let s = TrimSpace str in
      if s = [] then []
      else (case Atoi s of None \<Rightarrow> s | Some n \<Rightarrow> Itoa n))"

definition AttributeValueMatches :: "string \<Rightarrow> string \<Rightarrow> string \<Rightarrow> bool" where
  "AttributeValueMatches k desired observed =
     (let key = NormalizeAttrKey k in
      if key \<in> set caseInsensitiveAttrKeys
      then EqualFold (TrimSpace desired) (TrimSpace observed)
      else if key \<in> set numericAttrKeys
      then normalizeNumericString desired = normalizeNumericString observed
      else TrimSpace desired = TrimSpace observed)"

definition driftCheckKeySet :: "string list \<Rightarrow> string set" where
  "driftCheckKeySet checkKeys = set (map NormalizeAttrKey checkKeys)"

section \<open>Drift\<close>

text \<open>The loop over \<open>desired\<close>; the list gives the iteration order.\<close>

fun AttributeDriftsForKeys :: "attrs \<Rightarrow> attrs \<Rightarrow> string list \<Rightarrow> AttributeDrift list" where
  "AttributeDriftsForKeys [] observed checkKeys = []"
| "AttributeDriftsForKeys ((k, v) # desired) observed checkKeys =
     (let key = NormalizeAttrKey k;
          obs = getz observed key;
          rest = AttributeDriftsForKeys desired observed checkKeys in
      if key \<notin> driftCheckKeySet checkKeys then rest
      else if AttributeValueMatches key v obs then rest
      else \<lparr>drift_Key = key, drift_Desired = v, drift_Observed = obs\<rparr> # rest)"

definition AttributesNeedUpdate :: "attrs \<Rightarrow> attrs \<Rightarrow> string list \<Rightarrow> bool" where
  "AttributesNeedUpdate desired observed checkKeys \<longleftrightarrow>
     length (AttributeDriftsForKeys desired observed checkKeys) > 0"

definition formatDrift :: "AttributeDrift \<Rightarrow> string" where
  "formatDrift d =
     drift_Key d @ '': desired '' @ Quote (drift_Desired d) @
     '' observed '' @ Quote (drift_Observed d)"

definition FormatAttributeDriftMessage :: "AttributeDrift list \<Rightarrow> string" where
  "FormatAttributeDriftMessage drifts =
     (if drifts = [] then []
      else ''attribute drift: '' @ go_join (map formatDrift drifts) ''; '')"

section \<open>Laws of the comparison\<close>

lemma NormalizeAttrKey_idem [simp]: "NormalizeAttrKey (NormalizeAttrKey k) = NormalizeAttrKey k"
proof -
  have "ToLower ''topstr'' = ''topstr''" by code_simp
  then show ?thesis by (auto simp: NormalizeAttrKey_def Let_def)
qed

lemma normalizeNumericString_trim [simp]:
  "normalizeNumericString (TrimSpace s) = normalizeNumericString s"
  by (simp add: normalizeNumericString_def)

lemma normalizeNumericString_number:
  "Atoi (TrimSpace s) = Some n \<Longrightarrow> normalizeNumericString s = Itoa n"
  by (auto simp: normalizeNumericString_def Let_def)

lemma Atoi_Itoa_range: "Atoi s = Some n \<Longrightarrow> Atoi (Itoa n) = Some n"
  using ParseInt_range [of 64 s n] ParseInt_Itoa [of 64 n] by simp

lemma normalizeNumericString_idem [simp]:
  "normalizeNumericString (normalizeNumericString s) = normalizeNumericString s"
proof (cases "Atoi (TrimSpace s)")
  case None
  then show ?thesis by (simp add: normalizeNumericString_def Let_def)
next
  case (Some n)
  then have "normalizeNumericString s = Itoa n" by (rule normalizeNumericString_number)
  moreover have "normalizeNumericString (Itoa n) = Itoa n"
    using Atoi_Itoa_range [OF Some] by (simp add: normalizeNumericString_def)
  ultimately show ?thesis by simp
qed

lemma AttributeValueMatches_key [simp]:
  "AttributeValueMatches (NormalizeAttrKey k) = AttributeValueMatches k"
  by (simp add: AttributeValueMatches_def fun_eq_iff)

text \<open>
  What drift detection needs of a comparison: a normaliser of keys that is idempotent and a
  comparison of values per normalised key that is an equivalence.
\<close>

locale drift_relation =
  fixes norm :: "string \<Rightarrow> string"
    and matches :: "string \<Rightarrow> string \<Rightarrow> string \<Rightarrow> bool"
  assumes norm_idem: "norm (norm k) = norm k"
    and matches_norm: "matches (norm k) a b = matches k a b"
    and matches_refl: "matches k a a"
    and matches_sym: "matches k a b \<Longrightarrow> matches k b a"
    and matches_trans: "matches k a b \<Longrightarrow> matches k b c \<Longrightarrow> matches k a c"
begin

definition in_sync :: "attrs \<Rightarrow> attrs \<Rightarrow> string set \<Rightarrow> bool" where
  "in_sync desired observed ks \<longleftrightarrow>
     (\<forall>(k, v) \<in> set desired. norm k \<in> ks \<longrightarrow> matches k v (getz observed (norm k)))"

lemma in_sync_Nil: "in_sync [] observed ks"
  by (simp add: in_sync_def)

lemma in_sync_set: "set d1 = set d2 \<Longrightarrow> in_sync d1 observed ks = in_sync d2 observed ks"
  by (simp add: in_sync_def)

lemma in_sync_equiv_observed:
  assumes "in_sync desired observed ks"
    and "\<And>k. matches k (getz observed (norm k)) (getz observed' (norm k))"
  shows "in_sync desired observed' ks"
  using assms matches_trans unfolding in_sync_def by (fast dest: matches_trans)

lemma in_sync_applied:
  assumes "\<And>k v. (k, v) \<in> set desired \<Longrightarrow> getz observed (norm k) = v"
  shows "in_sync desired observed ks"
  using assms matches_refl unfolding in_sync_def by auto

end

interpretation mq_drift: drift_relation NormalizeAttrKey AttributeValueMatches
proof unfold_locales
  fix k a b c
  show "NormalizeAttrKey (NormalizeAttrKey k) = NormalizeAttrKey k" by simp
  show "AttributeValueMatches (NormalizeAttrKey k) a b = AttributeValueMatches k a b" by simp
  show "AttributeValueMatches k a a" by (simp add: AttributeValueMatches_def Let_def)
  show "AttributeValueMatches k a b \<Longrightarrow> AttributeValueMatches k b a"
    by (auto simp: AttributeValueMatches_def Let_def EqualFold_sym split: if_splits)
  show "AttributeValueMatches k a b \<Longrightarrow> AttributeValueMatches k b c \<Longrightarrow> AttributeValueMatches k a c"
    by (auto simp: AttributeValueMatches_def Let_def split: if_splits intro: EqualFold_trans)
qed

lemma AttributeDriftsForKeys_filter:
  "AttributeDriftsForKeys desired observed checkKeys =
     map (\<lambda>(k, v). \<lparr>drift_Key = NormalizeAttrKey k, drift_Desired = v,
                    drift_Observed = getz observed (NormalizeAttrKey k)\<rparr>)
       (filter (\<lambda>(k, v). NormalizeAttrKey k \<in> driftCheckKeySet checkKeys \<and>
                  \<not> AttributeValueMatches k v (getz observed (NormalizeAttrKey k))) desired)"
  by (induction desired observed checkKeys rule: AttributeDriftsForKeys.induct)
     (auto simp: Let_def)

lemma AttributesNeedUpdate_iff:
  "AttributesNeedUpdate desired observed checkKeys \<longleftrightarrow>
     \<not> mq_drift.in_sync desired observed (driftCheckKeySet checkKeys)"
  by (auto simp: AttributesNeedUpdate_def AttributeDriftsForKeys_filter mq_drift.in_sync_def
      filter_empty_conv)

lemma FormatAttributeDriftMessage_Nil_iff [simp]:
  "FormatAttributeDriftMessage drifts = [] \<longleftrightarrow> drifts = []"
  by (simp add: FormatAttributeDriftMessage_def)

lemma NormalizeAttrKey_lower: "NormalizeAttrKey (ToLower k) = NormalizeAttrKey k"
  by (simp add: NormalizeAttrKey_def)

lemma AttributeDriftsForKeys_order:
  "mset desired = mset desired' \<Longrightarrow>
     mset (AttributeDriftsForKeys desired observed checkKeys)
       = mset (AttributeDriftsForKeys desired' observed checkKeys)"
  by (simp add: AttributeDriftsForKeys_filter)

lemma AttributeValueMatches_ToUpper:
  "NormalizeAttrKey k \<in> set caseInsensitiveAttrKeys \<Longrightarrow>
     AttributeValueMatches k (ToUpper a) b = AttributeValueMatches k a b"
  by (simp add: AttributeValueMatches_def EqualFold_def flip: ToUpper_TrimSpace)

lemma AttributeValueMatches_numeric:
  assumes k: "NormalizeAttrKey k \<in> set numericAttrKeys"
    and a: "Atoi (TrimSpace a) = Some m" and b: "Atoi (TrimSpace b) = Some n"
  shows "AttributeValueMatches k a b \<longleftrightarrow> m = n"
proof -
  have "set numericAttrKeys \<inter> set caseInsensitiveAttrKeys = {}" by code_simp
  with k have "NormalizeAttrKey k \<notin> set caseInsensitiveAttrKeys" by blast
  moreover have "Itoa m = Itoa n \<longleftrightarrow> m = n"
    by (metis Atoi_Itoa_range a b option.inject)
  ultimately show ?thesis
    using k normalizeNumericString_number [OF a] normalizeNumericString_number [OF b]
    by (simp add: AttributeValueMatches_def)
qed

text \<open>Drift detection is exact and does not depend on the iteration order. The operator
  decides that an object needs an update if and only if some desired attribute whose
  normalised key is in the check list has a value that does not match the observed value of
  that key, where a missing observed key counts as the empty string; two runs that iterate
  over the desired map in different orders report the same drifts up to order.\<close>

theorem AttributeDrifts_exact:
  "(AttributesNeedUpdate desired observed checkKeys \<longleftrightarrow>
      (\<exists>k v. (k, v) \<in> set desired \<and> NormalizeAttrKey k \<in> NormalizeAttrKey ` set checkKeys
           \<and> \<not> AttributeValueMatches k v (getz observed (NormalizeAttrKey k)))) \<and>
   (mset desired = mset desired' \<longrightarrow>
      mset (AttributeDriftsForKeys desired observed checkKeys)
        = mset (AttributeDriftsForKeys desired' observed checkKeys))"
proof (intro conjI impI)
  show "AttributesNeedUpdate desired observed checkKeys \<longleftrightarrow>
      (\<exists>k v. (k, v) \<in> set desired \<and> NormalizeAttrKey k \<in> NormalizeAttrKey ` set checkKeys
           \<and> \<not> AttributeValueMatches k v (getz observed (NormalizeAttrKey k)))"
    unfolding AttributesNeedUpdate_iff mq_drift.in_sync_def driftCheckKeySet_def set_map by fast
qed (rule AttributeDriftsForKeys_order)

theorem AttributeDrifts_exact_witness:
  "mset (AttributeDriftsForKeys [(''MAXDEPTH'', ''5''), (''get'', ''ENABLED'')]
           [(''maxdepth'', ''6'')] [''maxdepth'', ''get''])
   = mset (AttributeDriftsForKeys [(''get'', ''ENABLED''), (''MAXDEPTH'', ''5'')]
           [(''maxdepth'', ''6'')] [''maxdepth'', ''get''])
   \<and> AttributesNeedUpdate [(''MAXDEPTH'', ''5'')] [(''maxdepth'', ''6'')] [''maxdepth'']"
proof
  show "mset (AttributeDriftsForKeys [(''MAXDEPTH'', ''5''), (''get'', ''ENABLED'')]
           [(''maxdepth'', ''6'')] [''maxdepth'', ''get''])
   = mset (AttributeDriftsForKeys [(''get'', ''ENABLED''), (''MAXDEPTH'', ''5'')]
           [(''maxdepth'', ''6'')] [''maxdepth'', ''get''])"
    using AttributeDrifts_exact
      [of "[(''MAXDEPTH'', ''5''), (''get'', ''ENABLED'')]" "[(''maxdepth'', ''6'')]" "[''maxdepth'', ''get'']"
          "[(''get'', ''ENABLED''), (''MAXDEPTH'', ''5'')]"]
    by (simp only: mset.simps) (simp add: add_mset_commute)
  show "AttributesNeedUpdate [(''MAXDEPTH'', ''5'')] [(''maxdepth'', ''6'')] [''maxdepth'']"
    by code_simp
qed

text \<open>C26: Matching of attribute values is an equivalence relation for every key, it does not
  depend on the spelling of the key (case, or the mqweb alias topicstr for topstr), for the
  case-insensitive keys it ignores case, and for the numeric keys two values that parse as
  64-bit integers match exactly when the integers are equal.\<close>

theorem AttributeValueMatches_laws:
  "AttributeValueMatches k a a \<and>
   (AttributeValueMatches k a b \<longrightarrow> AttributeValueMatches k b a) \<and>
   (AttributeValueMatches k a b \<and> AttributeValueMatches k b c \<longrightarrow> AttributeValueMatches k a c) \<and>
   AttributeValueMatches (NormalizeAttrKey k) a b = AttributeValueMatches k a b \<and>
   (NormalizeAttrKey k \<in> set caseInsensitiveAttrKeys \<longrightarrow>
      AttributeValueMatches k (ToUpper a) b = AttributeValueMatches k a b) \<and>
   (NormalizeAttrKey k \<in> set numericAttrKeys \<and>
      Atoi (TrimSpace a) = Some m \<and> Atoi (TrimSpace b) = Some n \<longrightarrow>
      (AttributeValueMatches k a b \<longleftrightarrow> m = n))"
proof (intro conjI impI)
  show "AttributeValueMatches k a a" by (rule mq_drift.matches_refl)
  show "AttributeValueMatches k a b \<Longrightarrow> AttributeValueMatches k b a" by (rule mq_drift.matches_sym)
  show "AttributeValueMatches k a b \<and> AttributeValueMatches k b c \<Longrightarrow> AttributeValueMatches k a c"
    by (blast intro: mq_drift.matches_trans)
  show "AttributeValueMatches (NormalizeAttrKey k) a b = AttributeValueMatches k a b" by simp
  show "NormalizeAttrKey k \<in> set caseInsensitiveAttrKeys \<Longrightarrow>
      AttributeValueMatches k (ToUpper a) b = AttributeValueMatches k a b"
    by (rule AttributeValueMatches_ToUpper)
  show "NormalizeAttrKey k \<in> set numericAttrKeys \<and>
      Atoi (TrimSpace a) = Some m \<and> Atoi (TrimSpace b) = Some n \<Longrightarrow>
      AttributeValueMatches k a b = (m = n)"
    using AttributeValueMatches_numeric by blast
qed

theorem AttributeValueMatches_laws_witness:
  "AttributeValueMatches ''MaxDepth'' '' 0500'' ''+500'' \<and>
   AttributeValueMatches ''PUT'' (ToUpper ''enabled'') ''Enabled'' \<and>
   \<not> AttributeValueMatches ''descr'' ''a'' ''A''"
proof (intro conjI)
  have "Atoi (TrimSpace '' 0500'') = Some 500" by code_simp
  moreover have "Atoi (TrimSpace ''+500'') = Some 500" by code_simp
  moreover have "NormalizeAttrKey ''MaxDepth'' \<in> set numericAttrKeys" by code_simp
  ultimately show "AttributeValueMatches ''MaxDepth'' '' 0500'' ''+500''"
    using AttributeValueMatches_laws [of "''MaxDepth''" "'' 0500''" "''+500''" _ 500 500] by blast
  show "AttributeValueMatches ''PUT'' (ToUpper ''enabled'') ''Enabled''" by code_simp
  show "\<not> AttributeValueMatches ''descr'' ''a'' ''A''" by code_simp
qed

end
