(* ===== verification/Auth_Match.thy ===== *)
theory Auth_Match
  imports Prelude
begin

text \<open>
  The domain records of CHLAUTH rules and AUTHREC grants (\<open>internal/mqadmin/auth.go\<close>) and
  their comparison with what the queue manager reports (\<open>internal/mqadmin/authmatch.go\<close>).
  A \<open>nil\<close> observed pointer is \<open>None\<close>. The comparison of authority lists indexes the
  second list with the indices of the first, so it can panic; a panic is the value \<open>None\<close>
  of the \<open>option\<close> result.
\<close>

section \<open>Specs and states\<close>

record ChannelAuthSpec =
  ca_ChannelName :: string
  ca_RuleType :: string
  ca_Address :: string
  ca_UserList :: string
  ca_ClientUser :: string
  ca_SSLPeerName :: string
  ca_RemoteQueueManager :: string
  ca_McaUser :: string
  ca_UserSource :: string
  ca_CheckClient :: string
  ca_Description :: string

text \<open>\<open>ChannelAuthState\<close> has the same fields as \<open>ChannelAuthSpec\<close>, in the same order.\<close>

type_synonym ChannelAuthState = ChannelAuthSpec

record AuthoritySpec =
  au_Profile :: string
  au_ObjectType :: string
  au_Principal :: string
  au_Group :: string
  au_Authorities :: "string list"

type_synonym AuthorityState = AuthoritySpec

abbreviation "RuleTypeAddressMap \<equiv> ''ADDRESSMAP''"
abbreviation "RuleTypeBlockUser \<equiv> ''BLOCKUSER''"
abbreviation "RuleTypeUserMap \<equiv> ''USERMAP''"
abbreviation "RuleTypeSSLPeerMap \<equiv> ''SSLPEERMAP''"
abbreviation "RuleTypeQMGRMap \<equiv> ''QMGRMAP''"
abbreviation "RuleTypeBlockAddr \<equiv> ''BLOCKADDR''"

section \<open>CHLAUTH\<close>

definition fold_eq :: "string \<Rightarrow> string \<Rightarrow> bool" where
  "fold_eq a b \<longleftrightarrow> EqualFold (TrimSpace a) (TrimSpace b)"

definition ChannelAuthNeedsUpdate :: "ChannelAuthSpec \<Rightarrow> ChannelAuthState option \<Rightarrow> bool" where
  "ChannelAuthNeedsUpdate desired obs =
     (case obs of
        None \<Rightarrow> True
      | Some observed \<Rightarrow>
          if \<not> fold_eq (ca_Address desired) (ca_Address observed) then True
          else if \<not> fold_eq (ca_UserList desired) (ca_UserList observed) then True
          else if \<not> fold_eq (ca_ClientUser desired) (ca_ClientUser observed) then True
          else if \<not> fold_eq (ca_SSLPeerName desired) (ca_SSLPeerName observed) then True
          else if \<not> fold_eq (ca_RemoteQueueManager desired) (ca_RemoteQueueManager observed) then True
          else if TrimSpace (ca_McaUser desired) \<noteq> [] \<and>
                  \<not> fold_eq (ca_McaUser desired) (ca_McaUser observed) then True
          else if TrimSpace (ca_UserSource desired) \<noteq> [] \<and>
                  \<not> fold_eq (ca_UserSource desired) (ca_UserSource observed) then True
          else if TrimSpace (ca_CheckClient desired) \<noteq> [] \<and>
                  \<not> fold_eq (ca_CheckClient desired) (ca_CheckClient observed) then True
          else if TrimSpace (ca_Description observed) \<noteq> [] \<and>
                  TrimSpace (ca_Description desired) \<noteq> TrimSpace (ca_Description observed) then True
          else False)"

section \<open>AUTHREC\<close>

fun normalizeAuthorities :: "string list \<Rightarrow> string list" where
  "normalizeAuthorities [] = []"
| "normalizeAuthorities (a # as) =
     (let auth = ToUpper (TrimSpace a) in
      if auth \<noteq> [] then auth # normalizeAuthorities as else normalizeAuthorities as)"

definition normalizeAuthoritySet :: "string list \<Rightarrow> string list" where
  "normalizeAuthoritySet authorities = sort (normalizeAuthorities authorities)"

text \<open>The loop \<open>for i := range na\<close>: reading \<open>nb[i]\<close> past the end panics.\<close>

fun authorityLoop :: "string list \<Rightarrow> string list \<Rightarrow> bool option" where
  "authorityLoop [] nb = Some True"
| "authorityLoop (x # na) [] = None"
| "authorityLoop (x # na) (y # nb) = (if x \<noteq> y then Some False else authorityLoop na nb)"

definition authoritySetsEqual :: "string list \<Rightarrow> string list \<Rightarrow> bool option" where
  "authoritySetsEqual a b =
     (if length a \<noteq> length b then Some False
      else authorityLoop (normalizeAuthoritySet a) (normalizeAuthoritySet b))"

definition AuthorityNeedsUpdate :: "AuthoritySpec \<Rightarrow> AuthorityState option \<Rightarrow> bool option" where
  "AuthorityNeedsUpdate desired obs =
     (case obs of
        None \<Rightarrow> Some True
      | Some observed \<Rightarrow>
          map_option Not (authoritySetsEqual (au_Authorities desired) (au_Authorities observed)))"

section \<open>Properties\<close>

text \<open>The schema restricts an authority to a non-empty token, and the parser of
  \<open>DISPLAY AUTHREC\<close> drops blanks: both lists contain no blank entry.\<close>

definition nonblank :: "string list \<Rightarrow> bool" where
  "nonblank as \<longleftrightarrow> list_all (\<lambda>a. TrimSpace a \<noteq> []) as"

definition authority_mset :: "string list \<Rightarrow> string multiset" where
  "authority_mset as = mset (map (\<lambda>a. ToUpper (TrimSpace a)) as)"

lemma fold_eq_refl [simp]: "fold_eq a a"
  by (simp add: fold_eq_def)

lemma normalizeAuthorities_nonblank:
  "nonblank as \<Longrightarrow> normalizeAuthorities as = map (\<lambda>a. ToUpper (TrimSpace a)) as"
  by (induction as) (auto simp: nonblank_def)

lemma authorityLoop_same_length:
  "length na = length nb \<Longrightarrow> authorityLoop na nb = Some (na = nb)"
  by (induction na nb rule: authorityLoop.induct) auto

lemma length_normalizeAuthoritySet_nonblank:
  "nonblank as \<Longrightarrow> length (normalizeAuthoritySet as) = length as"
  by (simp add: normalizeAuthoritySet_def normalizeAuthorities_nonblank)

lemma mset_normalizeAuthoritySet:
  "nonblank as \<Longrightarrow> mset (normalizeAuthoritySet as) = authority_mset as"
  by (simp add: normalizeAuthoritySet_def normalizeAuthorities_nonblank authority_mset_def)

lemma normalizeAuthoritySet_eq_iff:
  "nonblank a \<Longrightarrow> nonblank b \<Longrightarrow>
     normalizeAuthoritySet a = normalizeAuthoritySet b \<longleftrightarrow> authority_mset a = authority_mset b"
  using mset_normalizeAuthoritySet properties_for_sort
  unfolding normalizeAuthoritySet_def by (metis mset_sort sorted_sort)

lemma authoritySetsEqual_nonblank:
  assumes "nonblank a" "nonblank b"
  shows "authoritySetsEqual a b = Some (authority_mset a = authority_mset b)"
proof (cases "length a = length b")
  case True
  with assms show ?thesis
    by (simp add: authoritySetsEqual_def authorityLoop_same_length
        length_normalizeAuthoritySet_nonblank normalizeAuthoritySet_eq_iff)
next
  case False
  then have "size (authority_mset a) \<noteq> size (authority_mset b)" by (simp add: authority_mset_def)
  with False show ?thesis by (auto simp: authoritySetsEqual_def)
qed

text \<open>C28: For authority lists without blank entries the comparison never panics and it is
  multiset equality up to case and surrounding white space, whatever the order in which the
  queue manager lists the authorities. The second half states where the guarantee ends: on
  lists with blank entries of equal length the comparison can panic, and it can call two
  different sets equal.\<close>

theorem AuthorityNeedsUpdate_correct:
  "(nonblank (au_Authorities desired) \<and> nonblank (au_Authorities observed) \<longrightarrow>
      AuthorityNeedsUpdate desired (Some observed)
        = Some (authority_mset (au_Authorities desired) \<noteq> authority_mset (au_Authorities observed)))
   \<and> AuthorityNeedsUpdate desired None = Some True
   \<and> authoritySetsEqual [''GET'', ''PUT''] [''GET'', '' ''] = None
   \<and> authoritySetsEqual [''GET'', []] [''GET'', ''PUT''] = Some True"
proof (intro conjI impI)
  assume "nonblank (au_Authorities desired) \<and> nonblank (au_Authorities observed)"
  then show "AuthorityNeedsUpdate desired (Some observed)
        = Some (authority_mset (au_Authorities desired) \<noteq> authority_mset (au_Authorities observed))"
    by (simp add: AuthorityNeedsUpdate_def authoritySetsEqual_nonblank)
next
  show "AuthorityNeedsUpdate desired None = Some True" by (simp add: AuthorityNeedsUpdate_def)
  show "authoritySetsEqual [''GET'', ''PUT''] [''GET'', '' ''] = None" by code_simp
  show "authoritySetsEqual [''GET'', []] [''GET'', ''PUT''] = Some True" by code_simp
qed

theorem AuthorityNeedsUpdate_correct_witness:
  "AuthorityNeedsUpdate
     \<lparr>au_Profile = ''Q'', au_ObjectType = ''QUEUE'', au_Principal = ''app'', au_Group = [],
      au_Authorities = [''put'', ''GET'']\<rparr>
     (Some \<lparr>au_Profile = ''Q'', au_ObjectType = ''QUEUE'', au_Principal = ''app'', au_Group = [],
      au_Authorities = [''GET'', ''PUT'']\<rparr>) = Some False"
proof -
  let ?d = "\<lparr>au_Profile = ''Q'', au_ObjectType = ''QUEUE'', au_Principal = ''app'', au_Group = [],
      au_Authorities = [''put'', ''GET'']\<rparr>"
  let ?o = "\<lparr>au_Profile = ''Q'', au_ObjectType = ''QUEUE'', au_Principal = ''app'', au_Group = [],
      au_Authorities = [''GET'', ''PUT'']\<rparr>"
  have "nonblank [''put'', ''GET'']" "nonblank [''GET'', ''PUT'']" by code_simp+
  moreover have "authority_mset [''put'', ''GET''] = authority_mset [''GET'', ''PUT'']" by code_simp
  ultimately show ?thesis using AuthorityNeedsUpdate_correct [of ?d ?o] by simp
qed

text \<open>CHLAUTH comparison: a rule that reads back what was desired needs no update; a rule
  missing on the queue manager always needs one; and the fields the operator does not manage
  (an empty desired MCAUSER, USERSRC or CHCKCLNT, or a description that DISPLAY does not
  report) never cause an update, whatever the queue manager reports for them.\<close>

theorem ChannelAuthNeedsUpdate_managed_fields:
  "ChannelAuthNeedsUpdate desired None \<and>
   \<not> ChannelAuthNeedsUpdate desired (Some desired) \<and>
   (TrimSpace (ca_McaUser desired) = [] \<longrightarrow>
      ChannelAuthNeedsUpdate desired (Some (observed\<lparr>ca_McaUser := x\<rparr>))
        = ChannelAuthNeedsUpdate desired (Some observed)) \<and>
   (TrimSpace (ca_UserSource desired) = [] \<longrightarrow>
      ChannelAuthNeedsUpdate desired (Some (observed\<lparr>ca_UserSource := x\<rparr>))
        = ChannelAuthNeedsUpdate desired (Some observed)) \<and>
   (TrimSpace (ca_CheckClient desired) = [] \<longrightarrow>
      ChannelAuthNeedsUpdate desired (Some (observed\<lparr>ca_CheckClient := x\<rparr>))
        = ChannelAuthNeedsUpdate desired (Some observed)) \<and>
   (TrimSpace x = [] \<longrightarrow>
      \<not> ChannelAuthNeedsUpdate desired (Some (desired\<lparr>ca_Description := x\<rparr>)))"
  by (simp add: ChannelAuthNeedsUpdate_def)

theorem ChannelAuthNeedsUpdate_managed_fields_witness:
  "let d = \<lparr>ca_ChannelName = ''APP.SVRCONN'', ca_RuleType = ''USERMAP'', ca_Address = [],
            ca_UserList = [], ca_ClientUser = ''alice'', ca_SSLPeerName = [],
            ca_RemoteQueueManager = [], ca_McaUser = [], ca_UserSource = ''CHANNEL'',
            ca_CheckClient = [], ca_Description = ''clients''\<rparr>
   in \<not> ChannelAuthNeedsUpdate d (Some (d\<lparr>ca_CheckClient := ''ASQMGR''\<rparr>))
      \<and> \<not> ChannelAuthNeedsUpdate d (Some (d\<lparr>ca_Description := []\<rparr>))
      \<and> ChannelAuthNeedsUpdate d (Some (d\<lparr>ca_UserSource := ''NOACCESS''\<rparr>))"
proof -
  let ?d = "\<lparr>ca_ChannelName = ''APP.SVRCONN'', ca_RuleType = ''USERMAP'', ca_Address = [],
            ca_UserList = [], ca_ClientUser = ''alice'', ca_SSLPeerName = [],
            ca_RemoteQueueManager = [], ca_McaUser = [], ca_UserSource = ''CHANNEL'',
            ca_CheckClient = [], ca_Description = ''clients''\<rparr>"
  have "\<not> ChannelAuthNeedsUpdate ?d (Some (?d\<lparr>ca_CheckClient := ''ASQMGR''\<rparr>))"
    using ChannelAuthNeedsUpdate_managed_fields
      [where desired = ?d and observed = ?d and x = "''ASQMGR''"] by simp
  moreover have "\<not> ChannelAuthNeedsUpdate ?d (Some (?d\<lparr>ca_Description := []\<rparr>))"
    using ChannelAuthNeedsUpdate_managed_fields
      [where desired = ?d and observed = ?d and x = "[]"] by simp
  moreover have "ChannelAuthNeedsUpdate ?d (Some (?d\<lparr>ca_UserSource := ''NOACCESS''\<rparr>))"
    by code_simp
  ultimately show ?thesis by (simp only: Let_def simp_thms)
qed

end
