(* ===== verification/MQSC_Params.thy ===== *)
theory MQSC_Params
  imports Mqweb_Wire Attr_Match Auth_Match
begin

text \<open>
  From domain specs to MQSC: the DEFINE parameters and DISPLAY requests of
  \<open>internal/adapter/mqrest/mqsc_params.go\<close> and the textual commands of \<open>mqsc_format.go\<close>.
  Loops over Go maps fold over the association list; results that are printed are independent
  of its order, which is proved below.
\<close>

section \<open>Specs\<close>

record QueueSpec =
  qs_Name :: string
  qs_Type :: string
  qs_Attributes :: attrs

record TopicSpec =
  ts_Name :: string
  ts_Attributes :: attrs

record ChannelSpec =
  chs_Name :: string
  chs_Type :: string
  chs_Attributes :: attrs

text \<open>\<open>QueueState\<close>, \<open>TopicState\<close> and \<open>ChannelState\<close> are one record here: a name and attributes.\<close>

record ObjectState =
  os_Name :: string
  os_Attributes :: attrs

section \<open>Constants\<close>

abbreviation "attrReplace \<equiv> ''replace''"
abbreviation "attrTopstr \<equiv> ''topstr''"
abbreviation "attrTopicStr \<equiv> ''topicStr''"
abbreviation "mqscCommandDisplay \<equiv> ''display''"
abbreviation "mqscCommandDefine \<equiv> ''define''"
abbreviation "mqscCommandDelete \<equiv> ''delete''"
abbreviation "mqscType \<equiv> ''runCommandJSON''"
abbreviation "mqscReplaceYes \<equiv> ''yes''"
abbreviation "qualifierQLocal \<equiv> ''qlocal''"
abbreviation "qualifierQAlias \<equiv> ''qalias''"
abbreviation "qualifierQRemote \<equiv> ''qremote''"
abbreviation "qualifierTopic \<equiv> ''topic''"
abbreviation "qualifierChannel \<equiv> ''channel''"
abbreviation "mqscActionReplace \<equiv> ''REPLACE''"
abbreviation "mqscActionRemove \<equiv> ''REMOVE''"

definition queueLocalDisplayParameters :: "string list" where
  "queueLocalDisplayParameters = [''maxdepth'', ''descr'', ''defpsist'', ''get'', ''put'']"

definition queueAliasDisplayParameters :: "string list" where
  "queueAliasDisplayParameters = [''targq'', ''targtype'', ''descr'']"

definition queueRemoteDisplayParameters :: "string list" where
  "queueRemoteDisplayParameters = [''rname'', ''rqmname'', ''xmitq'', ''descr'']"

definition queueNumericParameters :: "string list" where
  "queueNumericParameters = [''maxdepth'', ''maxmsglen'']"

definition channelNumericParameters :: "string list" where
  "channelNumericParameters = [''sharecnv'', ''maxmsgl'', ''maxinst'', ''maxinstc'']"

definition channelSvrconnDisplayParameters :: "string list" where
  "channelSvrconnDisplayParameters =
     [''descr'', ''trptype'', ''sharecnv'', ''maxmsgl'', ''mcauser'', ''maxinst'', ''maxinstc'',
      ''sslciph'', ''sslcauth'']"

definition channelSdrDisplayParameters :: "string list" where
  "channelSdrDisplayParameters =
     [''descr'', ''trptype'', ''conname'', ''xmitq'', ''maxmsgl'', ''mcauser'', ''sslciph'']"

definition channelRcvrDisplayParameters :: "string list" where
  "channelRcvrDisplayParameters = [''descr'', ''trptype'', ''maxmsgl'', ''mcauser'', ''sslciph'']"

definition topicDisplayParameters :: "string list" where
  "topicDisplayParameters =
     [attrTopicStr, ''descr'', ''pub'', ''sub'', ''defpsist'', ''pubscope'', ''subscope'']"

section \<open>DEFINE parameters\<close>

type_synonym params = "(string, go_any) gomap"

definition defineParameter :: "string list \<Rightarrow> string \<Rightarrow> string \<Rightarrow> go_any" where
  "defineParameter numericKeys key v =
     (if key \<in> set numericKeys
      then (case Atoi v of Some n \<Rightarrow> AnyInt n | None \<Rightarrow> AnyString v)
      else AnyString v)"

definition defineObjectParameters :: "attrs \<Rightarrow> string list \<Rightarrow> params" where
  "defineObjectParameters attrs numericKeys =
     fold (\<lambda>(k, v) params. AList.update (ToLower k) (defineParameter numericKeys (ToLower k) v) params)
       attrs [(attrReplace, AnyString mqscReplaceYes)]"

definition upperParameter :: "string \<Rightarrow> params \<Rightarrow> params" where
  "upperParameter key params =
     (case map_of params key of
        Some v \<Rightarrow> AList.update key (AnyString (ToUpper (Sprint v))) params
      | None \<Rightarrow> params)"

definition mapTopicRESTParameters :: "params \<Rightarrow> params" where
  "mapTopicRESTParameters params =
     (let params = (case map_of params attrTopstr of
                      Some v \<Rightarrow> AList.delete attrTopstr (AList.update attrTopicStr v params)
                    | None \<Rightarrow> params)
      in upperParameter ''sub'' (upperParameter ''pub'' params))"

definition defineTopicParameters :: "TopicSpec \<Rightarrow> params" where
  "defineTopicParameters spec = mapTopicRESTParameters (defineObjectParameters (ts_Attributes spec) [])"

definition defineChannelParameters :: "ChannelSpec \<Rightarrow> params" where
  "defineChannelParameters spec =
     (let params = defineObjectParameters (chs_Attributes spec) channelNumericParameters in
      if chs_Type spec \<noteq> []
      then AList.update ''chltype'' (AnyString (NormalizeChannelType (chs_Type spec))) params
      else params)"

definition defineQueueParameters :: "QueueSpec \<Rightarrow> params" where
  "defineQueueParameters spec = defineObjectParameters (qs_Attributes spec) queueNumericParameters"

section \<open>Observed attributes\<close>

definition normalizeTopicAttributes :: "attrs \<Rightarrow> attrs" where
  "normalizeTopicAttributes attrs =
     (case map_of attrs (ToLower attrTopicStr) of
        Some v \<Rightarrow> AList.update attrTopstr v attrs
      | None \<Rightarrow> attrs)"

text \<open>\<open>if v, ok := attrs[from]; ok && attrs[to] == "" { attrs[to] = v }\<close>.\<close>

definition aliasAttribute :: "string \<Rightarrow> string \<Rightarrow> attrs \<Rightarrow> attrs" where
  "aliasAttribute src dst attrs =
     (case map_of attrs src of
        Some v \<Rightarrow> if getz attrs dst = [] then AList.update dst v attrs else attrs
      | None \<Rightarrow> attrs)"

definition normalizeQueueAttributes :: "attrs \<Rightarrow> string \<Rightarrow> attrs" where
  "normalizeQueueAttributes attrs qType =
     (let t = NormalizeQueueType qType in
      if t = QueueTypeAlias then aliasAttribute ''target'' ''targq'' attrs
      else if t = QueueTypeRemote then
        aliasAttribute ''transmissionqueue'' ''xmitq''
          (aliasAttribute ''remotemanager'' ''rqmname''
            (aliasAttribute ''remotequeue'' ''rname'' attrs))
      else attrs)"

section \<open>Types and DISPLAY requests\<close>

definition validateChannelType :: "string \<Rightarrow> mq_error option" where
  "validateChannelType chType =
     (if ChannelTypeSupported chType then None
      else Some (TerminalError ''UnsupportedChannelType''
                   (''channel type '' @ Quote chType @ '' is not supported'') None))"

definition validateQueueType :: "string \<Rightarrow> mq_error option" where
  "validateQueueType qType =
     (if NormalizeQueueType qType \<in> set [QueueTypeLocal, QueueTypeAlias, QueueTypeRemote] then None
      else Some (TerminalError ''UnsupportedQueueType''
                   (''queue type '' @ Quote qType @ '' is not supported'') None))"

definition queueQualifier :: "string \<Rightarrow> string" where
  "queueQualifier qType =
     (let t = NormalizeQueueType qType in
      if t = QueueTypeAlias then qualifierQAlias
      else if t = QueueTypeRemote then qualifierQRemote else qualifierQLocal)"

definition queueDisplayParameters :: "string \<Rightarrow> string list" where
  "queueDisplayParameters qType =
     (let t = NormalizeQueueType qType in
      if t = QueueTypeAlias then queueAliasDisplayParameters
      else if t = QueueTypeRemote then queueRemoteDisplayParameters
      else queueLocalDisplayParameters)"

definition channelDisplayParametersForType :: "string \<Rightarrow> string list" where
  "channelDisplayParametersForType chlType =
     (let t = NormalizeChannelType chlType in
      if t = ChannelTypeSdr then channelSdrDisplayParameters
      else if t = ChannelTypeRcvr then channelRcvrDisplayParameters
      else channelSvrconnDisplayParameters)"

definition queueDisplayRequest :: "QueueSpec \<Rightarrow> string list \<Rightarrow> runCommandJSONRequest" where
  "queueDisplayRequest spec responseParameters =
     \<lparr>rj_Type = mqscType, rj_Command = mqscCommandDisplay, rj_Qualifier = queueQualifier (qs_Type spec),
      rj_Name = qs_Name spec, rj_ResponseParameters = responseParameters, rj_Parameters = []\<rparr>"

definition channelDisplayRequest :: "string \<Rightarrow> string \<Rightarrow> runCommandJSONRequest" where
  "channelDisplayRequest name chlType =
     \<lparr>rj_Type = mqscType, rj_Command = mqscCommandDisplay, rj_Qualifier = qualifierChannel,
      rj_Name = name, rj_ResponseParameters = channelDisplayParametersForType chlType,
      rj_Parameters = (if chlType \<noteq> []
                       then [(''chltype'', AnyString (NormalizeChannelType chlType))] else [])\<rparr>"

definition QueueDriftCheckKeys :: "string \<Rightarrow> string list" where
  "QueueDriftCheckKeys qType = queueDisplayParameters qType"

definition TopicDriftCheckKeys :: "string list" where
  "TopicDriftCheckKeys = topicDisplayParameters"

definition ChannelDriftCheckKeys :: "string \<Rightarrow> string list" where
  "ChannelDriftCheckKeys chlType = channelDisplayParametersForType chlType"

section \<open>Textual MQSC\<close>

text \<open>\<open>strings.ReplaceAll(s, "'", "''")\<close>.\<close>

definition mqscQuote :: "string \<Rightarrow> string" where
  "mqscQuote s = concat (map (\<lambda>c. if c = squote then [squote, squote] else [c]) s)"

definition quoted :: "string \<Rightarrow> string" where
  "quoted s = [squote] @ mqscQuote s @ [squote]"

definition formatMQSCAttribute :: "string \<Rightarrow> go_any \<Rightarrow> string" where
  "formatMQSCAttribute key v =
     (let mqscKey = ToUpper key in
      case v of
        AnyInt n \<Rightarrow> mqscKey @ ''('' @ Itoa n @ '')''
      | AnyFloat f \<Rightarrow> mqscKey @ ''('' @ f @ '')''
      | _ \<Rightarrow> mqscKey @ ''('' @ quoted (Sprint v) @ '')'')"

definition getany :: "params \<Rightarrow> string \<Rightarrow> go_any" where
  "getany params k = (case map_of params k of Some v \<Rightarrow> v | None \<Rightarrow> AnyNil)"

definition formatDefineObjectMQSC :: "string \<Rightarrow> string \<Rightarrow> params \<Rightarrow> string" where
  "formatDefineObjectMQSC objectType name params =
     (let keys = sort (filter (\<lambda>k. k \<noteq> attrReplace) (map fst params)) in
      go_join ([''DEFINE '' @ objectType @ ''('' @ quoted name @ '')'', mqscActionReplace]
               @ map (\<lambda>k. formatMQSCAttribute k (getany params k)) keys) '' '')"

definition defineQueueMQSCKeyword :: "string \<Rightarrow> string" where
  "defineQueueMQSCKeyword qType =
     (let t = NormalizeQueueType qType in
      if t = QueueTypeAlias then ''QALIAS''
      else if t = QueueTypeRemote then ''QREMOTE'' else ''QLOCAL'')"

definition FormatDefineQueueMQSC :: "QueueSpec \<Rightarrow> string result" where
  "FormatDefineQueueMQSC spec =
     (case validateQueueType (qs_Type spec) of
        Some e \<Rightarrow> Inl e
      | None \<Rightarrow>
          (let params = defineQueueParameters spec;
               keys = sort (filter (\<lambda>k. k \<noteq> attrReplace) (map fst params)) in
           Inr (go_join ([''DEFINE '' @ defineQueueMQSCKeyword (qs_Type spec) @
                            ''('' @ quoted (qs_Name spec) @ '')'', mqscActionReplace]
                         @ map (\<lambda>k. formatMQSCAttribute k (getany params k)) keys) '' '')))"

definition FormatDefineTopicMQSC :: "TopicSpec \<Rightarrow> string result" where
  "FormatDefineTopicMQSC spec =
     Inr (formatDefineObjectMQSC ''TOPIC'' (ts_Name spec) (defineTopicParameters spec))"

definition FormatDefineChannelMQSC :: "ChannelSpec \<Rightarrow> string result" where
  "FormatDefineChannelMQSC spec =
     Inr (formatDefineObjectMQSC ''CHANNEL'' (chs_Name spec) (defineChannelParameters spec))"

section \<open>Parameters as a function of the attributes\<close>

text \<open>Attribute maps whose keys stay distinct in lower case: for them the result of the loop
  does not depend on the iteration order.\<close>

definition distinct_lower :: "attrs \<Rightarrow> bool" where
  "distinct_lower attrs \<longleftrightarrow> distinct (map (ToLower \<circ> fst) attrs)"

lemma map_of_fold_update:
  "map_of (fold (\<lambda>(k, v) ps. AList.update (f k) (g k v) ps) attrs ps)
     = map_of ps ++ map_of (rev (map (\<lambda>(k, v). (f k, g k v)) attrs))"
  by (induction attrs arbitrary: ps) (auto simp: map_add_def fun_eq_iff split: option.splits)

lemma wf_fold_update:
  "wf_gomap ps \<Longrightarrow> wf_gomap (fold (\<lambda>(k, v) ps. AList.update (f k) (g k v) ps) attrs ps)"
  by (induction attrs arbitrary: ps) auto

lemma map_of_rev_distinct: "distinct (map fst xs) \<Longrightarrow> map_of (rev xs) = map_of xs"
  by (rule map_of_inject_set [THEN iffD2]) (simp_all flip: rev_map)

lemma wf_defineObjectParameters [simp]: "wf_gomap (defineObjectParameters attrs nk)"
  unfolding defineObjectParameters_def by (rule wf_fold_update) (simp add: wf_gomap_def)

lemma map_of_defineObjectParameters:
  assumes "distinct_lower attrs"
  shows "map_of (defineObjectParameters attrs nk)
    = [attrReplace \<mapsto> AnyString mqscReplaceYes]
      ++ map_of (map (\<lambda>(k, v). (ToLower k, defineParameter nk (ToLower k) v)) attrs)"
proof -
  have "distinct (map fst (map (\<lambda>(k, v). (ToLower k, defineParameter nk (ToLower k) v)) attrs))"
    using assms by (simp add: distinct_lower_def o_def case_prod_unfold)
  from map_of_rev_distinct [OF this] show ?thesis
    by (simp add: defineObjectParameters_def map_of_fold_update)
qed

lemma defineObjectParameters_value:
  assumes "distinct_lower attrs" "(k, v) \<in> set attrs"
  shows "map_of (defineObjectParameters attrs nk) (ToLower k) = Some (defineParameter nk (ToLower k) v)"
proof -
  let ?m = "map (\<lambda>(k, v). (ToLower k, defineParameter nk (ToLower k) v)) attrs"
  have "distinct (map fst ?m)"
    using assms(1) by (simp add: distinct_lower_def o_def case_prod_unfold)
  moreover have "(ToLower k, defineParameter nk (ToLower k) v) \<in> set ?m" using assms(2) by force
  ultimately have "map_of ?m (ToLower k) = Some (defineParameter nk (ToLower k) v)" by simp
  then show ?thesis using assms(1) by (simp add: map_of_defineObjectParameters map_add_def)
qed

lemma map_of_map_perm:
  "distinct (map fst xs) \<Longrightarrow> mset xs = mset ys \<Longrightarrow> map_of xs = map_of ys"
  by (metis map_of_inject_set mset_eq_imp_distinct_iff mset_eq_setD mset_map)

lemma defineObjectParameters_order:
  assumes "distinct_lower attrs" "mset attrs = mset attrs'"
  shows "map_of (defineObjectParameters attrs nk) = map_of (defineObjectParameters attrs' nk)"
proof -
  let ?f = "\<lambda>(k, v). (ToLower k, defineParameter nk (ToLower k) v)"
  have d: "distinct_lower attrs'"
    using assms unfolding distinct_lower_def
    by (metis mset_eq_imp_distinct_iff mset_map)
  have "distinct (map fst (map ?f attrs))"
    using assms(1) by (simp add: distinct_lower_def o_def case_prod_unfold)
  moreover have "mset (map ?f attrs) = mset (map ?f attrs')" using assms(2) by simp
  ultimately have "map_of (map ?f attrs) = map_of (map ?f attrs')" by (rule map_of_map_perm)
  with assms(1) d show ?thesis by (simp add: map_of_defineObjectParameters)
qed

lemma map_of_eq_keys: "map_of ps = map_of ps' \<Longrightarrow> set (map fst ps) = set (map fst ps')"
  by (metis dom_map_of_conv_image_fst list.set_map)

lemma formatted_keys_eq:
  assumes "wf_gomap ps" "wf_gomap ps'" "map_of ps = map_of ps'"
  shows "sort (filter (\<lambda>k. k \<noteq> attrReplace) (map fst ps)) = sort (filter (\<lambda>k. k \<noteq> attrReplace) (map fst ps'))"
proof (rule sorted_distinct_set_unique)
  show "set (sort (filter (\<lambda>k. k \<noteq> attrReplace) (map fst ps)))
      = set (sort (filter (\<lambda>k. k \<noteq> attrReplace) (map fst ps')))"
    using map_of_eq_keys [OF assms(3)] by auto
qed (use assms in \<open>simp_all add: wf_gomap_def\<close>)

lemma formatDefineObjectMQSC_cong:
  assumes "wf_gomap ps" "wf_gomap ps'" "map_of ps = map_of ps'"
  shows "formatDefineObjectMQSC ty name ps = formatDefineObjectMQSC ty name ps'"
proof -
  have "getany ps = getany ps'" using assms(3) by (simp add: getany_def fun_eq_iff)
  then show ?thesis using formatted_keys_eq [OF assms] by (simp add: formatDefineObjectMQSC_def)
qed

lemma wf_upperParameter: "wf_gomap ps \<Longrightarrow> wf_gomap (upperParameter k ps)"
  by (simp add: upperParameter_def split: option.split)

lemma wf_mapTopicRESTParameters: "wf_gomap ps \<Longrightarrow> wf_gomap (mapTopicRESTParameters ps)"
  by (auto simp: mapTopicRESTParameters_def Let_def intro!: wf_upperParameter split: option.split)

lemma map_of_upperParameter_cong:
  "map_of ps = map_of ps' \<Longrightarrow> map_of (upperParameter k ps) = map_of (upperParameter k ps')"
  by (simp add: upperParameter_def split: option.split)

lemma mapTopicRESTParameters_cong:
  "map_of ps = map_of ps' \<Longrightarrow> map_of (mapTopicRESTParameters ps) = map_of (mapTopicRESTParameters ps')"
  unfolding mapTopicRESTParameters_def Let_def
  by (intro map_of_upperParameter_cong) (simp split: option.split)

lemma FormatDefineQueueMQSC_eq:
  "FormatDefineQueueMQSC spec =
     (case validateQueueType (qs_Type spec) of
        Some e \<Rightarrow> Inl e
      | None \<Rightarrow> Inr (formatDefineObjectMQSC (defineQueueMQSCKeyword (qs_Type spec)) (qs_Name spec)
                     (defineQueueParameters spec)))"
  by (simp add: FormatDefineQueueMQSC_def formatDefineObjectMQSC_def Let_def split: option.split)

text \<open>The rendered DEFINE command is deterministic: for attribute maps whose keys differ in
  more than case, every iteration order of the Go map gives the same text for queues, topics
  and channels. For keys that differ only in case the last one iterated wins, so the command
  does depend on the order.\<close>

theorem FormatDefine_deterministic:
  "(mset attrs = mset attrs' \<and> distinct_lower attrs \<longrightarrow>
      FormatDefineQueueMQSC \<lparr>qs_Name = n, qs_Type = t, qs_Attributes = attrs\<rparr>
        = FormatDefineQueueMQSC \<lparr>qs_Name = n, qs_Type = t, qs_Attributes = attrs'\<rparr> \<and>
      FormatDefineTopicMQSC \<lparr>ts_Name = n, ts_Attributes = attrs\<rparr>
        = FormatDefineTopicMQSC \<lparr>ts_Name = n, ts_Attributes = attrs'\<rparr> \<and>
      FormatDefineChannelMQSC \<lparr>chs_Name = n, chs_Type = t, chs_Attributes = attrs\<rparr>
        = FormatDefineChannelMQSC \<lparr>chs_Name = n, chs_Type = t, chs_Attributes = attrs'\<rparr>) \<and>
   defineObjectParameters [(''descr'', ''a''), (''DESCR'', ''b'')] []
     \<noteq> defineObjectParameters [(''DESCR'', ''b''), (''descr'', ''a'')] []"
proof (intro conjI impI)
  assume a: "mset attrs = mset attrs' \<and> distinct_lower attrs"
  then have e: "map_of (defineObjectParameters attrs nk) = map_of (defineObjectParameters attrs' nk)" for nk
    by (blast intro: defineObjectParameters_order)
  show "FormatDefineQueueMQSC \<lparr>qs_Name = n, qs_Type = t, qs_Attributes = attrs\<rparr>
        = FormatDefineQueueMQSC \<lparr>qs_Name = n, qs_Type = t, qs_Attributes = attrs'\<rparr>"
    using formatDefineObjectMQSC_cong [OF _ _ e]
    by (simp add: FormatDefineQueueMQSC_eq defineQueueParameters_def split: option.split)
  show "FormatDefineTopicMQSC \<lparr>ts_Name = n, ts_Attributes = attrs\<rparr>
        = FormatDefineTopicMQSC \<lparr>ts_Name = n, ts_Attributes = attrs'\<rparr>"
    unfolding FormatDefineTopicMQSC_def defineTopicParameters_def
    by (simp, rule formatDefineObjectMQSC_cong)
       (simp_all add: wf_mapTopicRESTParameters mapTopicRESTParameters_cong [OF e])
  show "FormatDefineChannelMQSC \<lparr>chs_Name = n, chs_Type = t, chs_Attributes = attrs\<rparr>
        = FormatDefineChannelMQSC \<lparr>chs_Name = n, chs_Type = t, chs_Attributes = attrs'\<rparr>"
    unfolding FormatDefineChannelMQSC_def
    by (simp, rule formatDefineObjectMQSC_cong) (simp_all add: defineChannelParameters_def Let_def e)
next
  show "defineObjectParameters [(''descr'', ''a''), (''DESCR'', ''b'')] []
     \<noteq> defineObjectParameters [(''DESCR'', ''b''), (''descr'', ''a'')] []" by code_simp
qed

theorem FormatDefine_deterministic_witness:
  "FormatDefineTopicMQSC \<lparr>ts_Name = ''T'', ts_Attributes = [(''topstr'', ''a/b''), (''PUB'', ''enabled'')]\<rparr>
     = FormatDefineTopicMQSC \<lparr>ts_Name = ''T'', ts_Attributes = [(''PUB'', ''enabled''), (''topstr'', ''a/b'')]\<rparr>"
proof -
  let ?a = "[(''topstr'', ''a/b''), (''PUB'', ''enabled'')]"
  let ?b = "[(''PUB'', ''enabled''), (''topstr'', ''a/b'')]"
  have "mset ?a = mset ?b" by simp
  moreover have "distinct_lower ?a" by code_simp
  ultimately show ?thesis
    using FormatDefine_deterministic [where attrs = ?a and attrs' = ?b and n = "''T''"] by blast
qed

section \<open>Reading the rendered command back\<close>

text \<open>The lexical rules of MQSC: a quoted string ends at the first single quote that is not
  doubled; an unquoted value ends at the closing parenthesis.\<close>

fun mqsc_lex_string :: "string \<Rightarrow> (string \<times> string) option" where
  "mqsc_lex_string [] = None"
| "mqsc_lex_string (c # cs) =
     (if c = squote then
        (case cs of
           d # ds \<Rightarrow> if d = squote then map_option (apfst (Cons squote)) (mqsc_lex_string ds)
                     else Some ([], cs)
         | [] \<Rightarrow> Some ([], []))
      else map_option (apfst (Cons c)) (mqsc_lex_string cs))"

definition mqsc_parse_value :: "string \<Rightarrow> (string \<times> string) option" where
  "mqsc_parse_value s =
     (case s of
        c # cs \<Rightarrow>
          if c = squote then
            (case mqsc_lex_string cs of
               Some (v, r # rest) \<Rightarrow> if r = CHR '')'' then Some (v, rest) else None
             | _ \<Rightarrow> None)
          else (case dropWhile (\<lambda>c. c \<noteq> CHR '')'') s of
                  r # rest \<Rightarrow> Some (takeWhile (\<lambda>c. c \<noteq> CHR '')'') s, rest)
                | [] \<Rightarrow> None)
      | [] \<Rightarrow> None)"

text \<open>\<open>KEY(value)\<close> and the rest of the text.\<close>

definition mqsc_parse_attr :: "string \<Rightarrow> (string \<times> string \<times> string) option" where
  "mqsc_parse_attr s =
     (case dropWhile (\<lambda>c. c \<noteq> CHR ''('') s of
        _ # r \<Rightarrow> map_option (\<lambda>(v, rest). (takeWhile (\<lambda>c. c \<noteq> CHR ''('') s, v, rest)) (mqsc_parse_value r)
      | [] \<Rightarrow> None)"

text \<open>A blank-separated list of \<open>KEY(value)\<close>; the number bounds the list.\<close>

fun mqsc_parse_attrs :: "nat \<Rightarrow> string \<Rightarrow> (string \<times> string) list option" where
  "mqsc_parse_attrs 0 s = (if s = [] then Some [] else None)"
| "mqsc_parse_attrs (Suc n) s =
     (case s of
        [] \<Rightarrow> Some []
      | c # r \<Rightarrow>
          if c \<noteq> CHR '' '' then None
          else (case mqsc_parse_attr r of
                  Some (k, v, rest) \<Rightarrow> map_option (Cons (k, v)) (mqsc_parse_attrs n rest)
                | None \<Rightarrow> None))"

lemma mqscQuote_simps [simp]:
  "mqscQuote [] = []"
  "mqscQuote (c # s) = (if c = squote then squote # squote # mqscQuote s else c # mqscQuote s)"
  by (simp_all add: mqscQuote_def)

lemma mqsc_lex_string_quote:
  "rest = [] \<or> hd rest \<noteq> squote \<Longrightarrow> mqsc_lex_string (mqscQuote s @ squote # rest) = Some (s, rest)"
proof (induction s)
  case Nil
  then show ?case by (cases rest) auto
next
  case (Cons c s)
  then show ?case by simp
qed

lemma mqsc_parse_value_quoted: "mqsc_parse_value (quoted s @ '')'' @ rest) = Some (s, rest)"
proof -
  have "mqsc_lex_string (mqscQuote s @ squote # '')'' @ rest) = Some (s, '')'' @ rest)"
    by (rule mqsc_lex_string_quote) simp
  then show ?thesis by (simp add: quoted_def mqsc_parse_value_def)
qed

lemma Itoa_chars: "c \<in> set (Itoa n) \<Longrightarrow> go_is_digit c \<or> c = CHR ''-''"
  by (auto simp: Itoa_def split: if_splits dest: go_nat_dec_digits)

lemma takeWhile_append_stop:
  "\<forall>x \<in> set xs. P x \<Longrightarrow> \<not> P y \<Longrightarrow> takeWhile P (xs @ y # ys) = xs \<and> dropWhile P (xs @ y # ys) = y # ys"
  by (induction xs) auto

lemma mqsc_parse_value_Itoa: "mqsc_parse_value (Itoa n @ '')'' @ rest) = Some (Itoa n, rest)"
proof -
  have free: "\<forall>c \<in> set (Itoa n). c \<noteq> CHR '')'' \<and> c \<noteq> squote"
    using Itoa_chars [of "CHR '')''" n] Itoa_chars [of squote n] by (auto simp: go_is_digit_def)
  obtain c cs where cs: "Itoa n = c # cs" using Itoa_not_Nil [of n] by (cases "Itoa n") auto
  have "takeWhile (\<lambda>c. c \<noteq> CHR '')'') (Itoa n @ CHR '')'' # rest) = Itoa n
      \<and> dropWhile (\<lambda>c. c \<noteq> CHR '')'') (Itoa n @ CHR '')'' # rest) = CHR '')'' # rest"
    using free by (intro takeWhile_append_stop) auto
  with free cs show ?thesis by (auto simp: mqsc_parse_value_def)
qed

definition plain_value :: "go_any \<Rightarrow> bool" where
  "plain_value v \<longleftrightarrow> (case v of AnyString s \<Rightarrow> True | AnyInt n \<Rightarrow> True | _ \<Rightarrow> False)"

definition plain_key :: "string \<Rightarrow> bool" where
  "plain_key k \<longleftrightarrow> CHR ''('' \<notin> set k"

lemma ToUpper_paren: "plain_key k \<Longrightarrow> CHR ''('' \<notin> set (ToUpper k)"
proof -
  assume "plain_key k"
  have "c = CHR ''(''" if "go_upper_char c = CHR ''(''" for c
  proof -
    from that have "(of_char (go_upper_char c) :: nat) = 40" by simp
    then have "go_upper_char c = c" by (auto simp: go_upper_char_def split: if_splits)
    with that show ?thesis by simp
  qed
  with \<open>plain_key k\<close> show ?thesis by (force simp: plain_key_def ToUpper_def)
qed

lemma mqsc_parse_attr_format:
  assumes "plain_key k" "plain_value v"
  shows "mqsc_parse_attr (formatMQSCAttribute k v @ rest) = Some (ToUpper k, Sprint v, rest)"
proof -
  define body where "body = (case v of AnyInt n \<Rightarrow> Itoa n | _ \<Rightarrow> quoted (Sprint v))"
  have f: "formatMQSCAttribute k v @ rest = ToUpper k @ CHR ''('' # (body @ '')'' @ rest)"
    using assms(2) by (cases v) (simp_all add: formatMQSCAttribute_def body_def plain_value_def)
  have "takeWhile (\<lambda>c. c \<noteq> CHR ''('') (formatMQSCAttribute k v @ rest) = ToUpper k \<and>
        dropWhile (\<lambda>c. c \<noteq> CHR ''('') (formatMQSCAttribute k v @ rest) = CHR ''('' # (body @ '')'' @ rest)"
    unfolding f using ToUpper_paren [OF assms(1)] by (intro takeWhile_append_stop) auto
  moreover have "mqsc_parse_value (body @ '')'' @ rest) = Some (Sprint v, rest)"
    using assms(2) mqsc_parse_value_Itoa mqsc_parse_value_quoted
    by (cases v) (simp_all add: body_def plain_value_def)
  ultimately show ?thesis by (simp add: mqsc_parse_attr_def)
qed

lemma mqsc_parse_attrs_format:
  assumes "\<forall>(k, v) \<in> set kvs. plain_key k \<and> plain_value v"
  shows "mqsc_parse_attrs (length kvs) (concat (map (\<lambda>(k, v). '' '' @ formatMQSCAttribute k v) kvs))
     = Some (map (\<lambda>(k, v). (ToUpper k, Sprint v)) kvs)"
  using assms by (induction kvs) (auto simp: mqsc_parse_attr_format)

lemma mqsc_parse_attrs_mono:
  "mqsc_parse_attrs n s = Some r \<Longrightarrow> mqsc_parse_attrs (n + m) s = Some r"
proof (induction n s arbitrary: r rule: mqsc_parse_attrs.induct)
  case (1 s)
  then show ?case by (cases m) (auto split: if_splits)
next
  case (2 n s)
  then show ?case by (fastforce split: list.splits if_splits option.splits)
qed

lemma go_join_Cons: "go_join (x # xs) sep = x @ concat (map (\<lambda>y. sep @ y) xs)"
  by (induction xs arbitrary: x) auto

lemma formatDefineObjectMQSC_eq:
  "formatDefineObjectMQSC ty name ps =
     ''DEFINE '' @ ty @ ''('' @ quoted name @ '') REPLACE'' @
     concat (map (\<lambda>(k, v). '' '' @ formatMQSCAttribute k v)
       (map (\<lambda>k. (k, getany ps k)) (sort (filter (\<lambda>k. k \<noteq> attrReplace) (map fst ps)))))"
  by (simp add: formatDefineObjectMQSC_def go_join_Cons Let_def o_def)



end
