(* ===== verification/MQSC_Response.thy ===== *)
theory MQSC_Response
  imports MQSC_Params
begin

text \<open>
  Reading what mqweb answers: the methods of \<open>mqscResponse\<close> in
  \<open>internal/adapter/mqrest/mqsc_types.go\<close>, the text parser of \<open>mqsc_display_parse.go\<close> and the
  display-capability tests of \<open>display_probe.go\<close>. The regular expression
  \<open>([A-Z][A-Z0-9]*)\(([^)]*)\)\<close> is a hand-written matcher: since the opening parenthesis is
  outside the key's class, a match at a position takes the whole run of key characters.
\<close>

section \<open>Classification of a response\<close>

definition overallFailed :: "mqscResponse \<Rightarrow> bool" where
  "overallFailed r =
     (if mr_OverallCompletionCode r \<noteq> 0 then True
      else if list_ex (\<lambda>cr. cr_CompletionCode cr \<noteq> 0) (mr_CommandResponse r) then True
      else length (mr_Error r) > 0)"

definition missingMessage :: "string \<Rightarrow> bool" where
  "missingMessage msg \<longleftrightarrow>
     Contains (ToUpper msg) ''AMQ8147'' \<or> Contains (ToUpper msg) ''AMQ8101'' \<or>
     Contains (ToUpper msg) ''AMQ8884'' \<or> Contains (ToUpper msg) ''AMQ8958'' \<or>
     Contains (ToLower msg) ''not found''"

definition isObjectMissing :: "mqscResponse \<Rightarrow> bool" where
  "isObjectMissing r =
     list_ex (\<lambda>cr. list_ex missingMessage (cr_Message cr @ cr_Text cr)) (mr_CommandResponse r)"

fun firstCommandMessage :: "commandResponseItem list \<Rightarrow> string option" where
  "firstCommandMessage [] = None"
| "firstCommandMessage (cr # crs) =
     (case cr_Message cr of
        m # ms \<Rightarrow> Some m
      | [] \<Rightarrow> (case cr_Text cr of t # ts \<Rightarrow> Some t | [] \<Rightarrow> firstCommandMessage crs))"

definition firstMessage :: "mqscResponse \<Rightarrow> string" where
  "firstMessage r =
     (case firstCommandMessage (mr_CommandResponse r) of
        Some m \<Rightarrow> m
      | None \<Rightarrow> (case mr_Error r of e # es \<Rightarrow> re_Message e | [] \<Rightarrow> ''unknown mqsc error''))"

definition terminalError :: "mqscResponse \<Rightarrow> string \<Rightarrow> mq_error" where
  "terminalError r msg = TerminalError ''MQSCError'' (msg @ '': '' @ firstMessage r) None"

definition collectAttributes :: "commandResponseItem list \<Rightarrow> attrs" where
  "collectAttributes crs =
     fold (\<lambda>cr attrs. fold (\<lambda>(k, v) attrs. AList.update (ToLower k) (Sprint v) attrs) (cr_Parameters cr) attrs)
       crs []"

definition firstObjectAttributes :: "mqscResponse \<Rightarrow> attrs result" where
  "firstObjectAttributes r =
     (if mr_CommandResponse r = [] then Inl (NotFoundError [])
      else
        (let attrs = collectAttributes (mr_CommandResponse r) in
         if attrs = [] \<and> overallFailed r then
           (if isObjectMissing r then Inl (NotFoundError [])
            else Inl (terminalError r ''display object''))
         else Inr attrs))"

section \<open>Parsing DISPLAY text\<close>

definition key_start :: "char \<Rightarrow> bool" where
  "key_start c \<longleftrightarrow> 65 \<le> (of_char c :: nat) \<and> (of_char c :: nat) \<le> 90"

definition key_char :: "char \<Rightarrow> bool" where
  "key_char c \<longleftrightarrow> key_start c \<or> go_is_digit c"

text \<open>A match of the pair expression at the head of the text: key, value and the text after it.\<close>

definition matchPair :: "string \<Rightarrow> (string \<times> string \<times> string) option" where
  "matchPair s =
     (case s of
        [] \<Rightarrow> None
      | c # cs \<Rightarrow>
          if \<not> key_start c then None
          else
            (case dropWhile key_char cs of
               [] \<Rightarrow> None
             | p # r \<Rightarrow>
                 if p \<noteq> CHR ''('' then None
                 else
                   (case dropWhile (\<lambda>c. c \<noteq> CHR '')'') r of
                      [] \<Rightarrow> None
                    | _ # rest \<Rightarrow> Some (c # takeWhile key_char cs, takeWhile (\<lambda>c. c \<noteq> CHR '')'') r, rest))))"

lemma matchPair_shorter: "matchPair s = Some (k, v, rest) \<Longrightarrow> length rest < length s"
proof -
  assume "matchPair s = Some (k, v, rest)"
  then obtain c cs p r x where
    "s = c # cs" "dropWhile key_char cs = p # r" "dropWhile (\<lambda>c. c \<noteq> CHR '')'') r = x # rest"
    by (auto simp: matchPair_def split: list.splits if_splits)
  moreover have "length (p # r) \<le> length cs" if "dropWhile key_char cs = p # r"
    using that by (metis length_dropWhile_le)
  moreover have "length (x # rest) \<le> length r" if "dropWhile (\<lambda>c. c \<noteq> CHR '')'') r = x # rest"
    using that by (metis length_dropWhile_le)
  ultimately show ?thesis by fastforce
qed

text \<open>\<open>FindAllStringSubmatch(combined, -1)\<close>: leftmost matches, not overlapping.\<close>

function findAllPairs :: "string \<Rightarrow> (string \<times> string) list" where
  "findAllPairs s =
     (case s of
        [] \<Rightarrow> []
      | c # cs \<Rightarrow>
          (case matchPair s of
             Some (k, v, rest) \<Rightarrow> (k, v) # findAllPairs rest
           | None \<Rightarrow> findAllPairs cs))"
  by pat_completeness auto
termination
  by (relation "measure length") (auto dest: matchPair_shorter)

declare findAllPairs.simps [simp del]

definition skipMarker :: "string \<Rightarrow> string" where
  "skipMarker combined =
     (case go_index combined ''details.'' of
        Some i \<Rightarrow> TrimSpace (drop (i + length ''details.'') combined)
      | None \<Rightarrow>
          (case go_index combined ''details '' of
             Some i \<Rightarrow> TrimSpace (drop (i + length ''details '') combined)
           | None \<Rightarrow> combined))"

definition parseMQSCDisplayAttributes :: "string list \<Rightarrow> attrs" where
  "parseMQSCDisplayAttributes lines =
     (let combined = skipMarker (go_join lines '' '') in
      fold (\<lambda>(k, v) attrs. AList.update (ToLower k) (go_trim_char squote (TrimSpace v)) attrs)
        (findAllPairs combined) [])"

definition displayTextAttributes :: "mqscResponse \<Rightarrow> attrs" where
  "displayTextAttributes r =
     parseMQSCDisplayAttributes (concat (map (\<lambda>cr. cr_Text cr @ cr_Message cr) (mr_CommandResponse r)))"

section \<open>Attributes that DISPLAY does not support\<close>

definition mqwbAttributeNotDisplayable :: string where
  "mqwbAttributeNotDisplayable = ''MQWB0120''"

definition responseIndicatesAttributeNotDisplayable :: "mqscResponse option \<Rightarrow> bool" where
  "responseIndicatesAttributeNotDisplayable resp =
     (case resp of
        None \<Rightarrow> False
      | Some r \<Rightarrow>
          list_ex (\<lambda>cr. list_ex (\<lambda>msg. Contains (ToUpper msg) mqwbAttributeNotDisplayable)
                          (cr_Message cr @ cr_Text cr)) (mr_CommandResponse r) \<or>
          list_ex (\<lambda>e. list_ex (\<lambda>msg. Contains (ToUpper msg) mqwbAttributeNotDisplayable)
                          [re_Message e, re_Explanation e]) (mr_Error r))"

definition errIndicatesAttributeNotDisplayable :: "mq_error option \<Rightarrow> bool" where
  "errIndicatesAttributeNotDisplayable err =
     (case err of
        None \<Rightarrow> False
      | Some e \<Rightarrow>
          (case errors_As is_TerminalError e of
             Some (TerminalError r m c) \<Rightarrow> Contains (ToUpper (m @ '' '' @ r)) mqwbAttributeNotDisplayable
           | _ \<Rightarrow> False)
          \<or> Contains (ToUpper (Error e)) mqwbAttributeNotDisplayable)"

section \<open>Properties of the text parser\<close>

lemma key_char_paren [simp]: "\<not> key_char (CHR ''('')" "\<not> key_char (CHR '')'')" "\<not> key_start (CHR '' '')"
  by (simp_all add: key_char_def key_start_def go_is_digit_def)

definition display_key :: "string \<Rightarrow> bool" where
  "display_key k \<longleftrightarrow> k \<noteq> [] \<and> key_start (hd k) \<and> list_all key_char (tl k)"

lemma matchPair_render:
  assumes "display_key k" "CHR '')'' \<notin> set v"
  shows "matchPair (k @ ''('' @ v @ '')'' @ rest) = Some (k, v, rest)"
proof -
  obtain c cs where k: "k = c # cs" "key_start c" "\<forall>x \<in> set cs. key_char x"
    using assms(1) by (cases k) (auto simp: display_key_def list_all_iff)
  have "takeWhile key_char (cs @ CHR ''('' # v @ CHR '')'' # rest) = cs \<and>
        dropWhile key_char (cs @ CHR ''('' # v @ CHR '')'' # rest) = CHR ''('' # v @ CHR '')'' # rest"
    using k(3) by (intro takeWhile_append_stop) simp_all
  moreover have "takeWhile (\<lambda>c. c \<noteq> CHR '')'') (v @ CHR '')'' # rest) = v \<and>
        dropWhile (\<lambda>c. c \<noteq> CHR '')'') (v @ CHR '')'' # rest) = CHR '')'' # rest"
    using assms(2) by (intro takeWhile_append_stop) auto
  ultimately show ?thesis using k by (simp add: matchPair_def)
qed

definition render_pair :: "string \<times> string \<Rightarrow> string" where
  "render_pair kv = fst kv @ ''('' @ snd kv @ '')''"

lemma findAllPairs_space: "findAllPairs (CHR '' '' # s) = findAllPairs s"
  by (subst findAllPairs.simps) (simp add: matchPair_def)

lemma findAllPairs_Nil [simp]: "findAllPairs [] = []"
  by (simp add: findAllPairs.simps [of "[]"])

lemma findAllPairs_render:
  assumes "display_key k" "CHR '')'' \<notin> set v"
  shows "findAllPairs (render_pair (k, v) @ rest) = (k, v) # findAllPairs rest"
proof -
  obtain c cs where "k = c # cs" using assms(1) by (cases k) (auto simp: display_key_def)
  then show ?thesis
    using matchPair_render [OF assms, of rest]
    by (subst findAllPairs.simps) (simp add: render_pair_def)
qed

lemma findAllPairs_join:
  assumes "\<forall>(k, v) \<in> set kvs. display_key k \<and> CHR '')'' \<notin> set v"
  shows "findAllPairs (go_join (map render_pair kvs) '' '') = kvs"
  using assms
proof (induction kvs)
  case Nil
  then show ?case by simp
next
  case (Cons kv kvs)
  then have r: "findAllPairs (render_pair kv @ rest) = kv # findAllPairs rest" for rest
    using findAllPairs_render [of "fst kv" "snd kv"] by (cases kv) auto
  show ?case
  proof (cases kvs)
    case Nil
    then show ?thesis using r [of "[]"] by simp
  next
    case (Cons kv' kvs')
    then have "go_join (map render_pair (kv # kvs)) '' ''
        = render_pair kv @ '' '' @ go_join (map render_pair kvs) '' ''" by simp
    then show ?thesis using Cons.IH Cons.prems r by (simp add: findAllPairs_space)
  qed
qed



lemma wf_collectAttributes: "wf_gomap (collectAttributes crs)"
proof -
  have "wf_gomap (fold (\<lambda>cr attrs. fold (\<lambda>(k, v) attrs. AList.update (ToLower k) (Sprint v) attrs)
      (cr_Parameters cr) attrs) crs m)" if "wf_gomap m" for m
    using that by (induction crs arbitrary: m) (auto intro: wf_fold_update [where f = ToLower and g = "\<lambda>k v. Sprint v"])
  then show ?thesis by (simp add: collectAttributes_def)
qed

lemma firstObjectAttributes_error:
  "firstObjectAttributes r = Inl e \<Longrightarrow>
     e = NotFoundError [] \<or> e = terminalError r ''display object''"
  by (auto simp: firstObjectAttributes_def Let_def split: if_splits)

end
