(* ===== verification/MQSC_Auth.thy ===== *)
theory MQSC_Auth
  imports MQSC_Response
begin

text \<open>
  The CHLAUTH and AUTHREC commands of \<open>internal/adapter/mqrest/auth.go\<close>: the builders of
  \<open>SET\<close> and \<open>DISPLAY\<close> commands, the readers of what DISPLAY reports, and the tests that
  tell a missing record from a failure.
\<close>

definition invalidSpec :: "string \<Rightarrow> mq_error" where
  "invalidSpec msg = TerminalError ''InvalidSpec'' msg None"

definition clause :: "string \<Rightarrow> string \<Rightarrow> string" where
  "clause kw v = kw @ ''('' @ quoted v @ '')''"

section \<open>CHLAUTH commands\<close>

definition channelAuthAddressClause :: "ChannelAuthSpec \<Rightarrow> string" where
  "channelAuthAddressClause spec =
     (if ca_Address spec = [] then []
      else clause (if ca_RuleType spec = RuleTypeBlockAddr then ''ADDRLIST'' else ''ADDRESS'') (ca_Address spec))"

definition channelAuthClientUserClause :: "ChannelAuthSpec \<Rightarrow> string" where
  "channelAuthClientUserClause spec =
     (if ca_ClientUser spec = [] \<or> ca_RuleType spec \<noteq> RuleTypeUserMap then []
      else clause ''CLNTUSER'' (ca_ClientUser spec))"

definition channelAuthSSLPeerClause :: "ChannelAuthSpec \<Rightarrow> string" where
  "channelAuthSSLPeerClause spec =
     (if ca_SSLPeerName spec = [] \<or> ca_RuleType spec \<noteq> RuleTypeSSLPeerMap then []
      else clause ''SSLPEER'' (ca_SSLPeerName spec))"

definition channelAuthRemoteQueueManagerClause :: "ChannelAuthSpec \<Rightarrow> string" where
  "channelAuthRemoteQueueManagerClause spec =
     (if ca_RemoteQueueManager spec = [] \<or> ca_RuleType spec \<noteq> RuleTypeQMGRMap then []
      else clause ''QMNAME'' (ca_RemoteQueueManager spec))"

definition optional :: "string \<Rightarrow> string list" where
  "optional s = (if s \<noteq> [] then [s] else [])"

definition optional_if :: "string \<Rightarrow> string \<Rightarrow> string list" where
  "optional_if v text = (if v \<noteq> [] then [text] else [])"

definition buildSetChannelAuthMQSC :: "ChannelAuthSpec \<Rightarrow> string \<Rightarrow> string result" where
  "buildSetChannelAuthMQSC spec action =
     (if ca_ChannelName spec = [] then Inl (invalidSpec ''channel name is required'')
      else if ca_RuleType spec = [] then Inl (invalidSpec ''rule type is required'')
      else
        (let parts = [''SET CHLAUTH('' @ quoted (ca_ChannelName spec) @ '') TYPE('' @ ca_RuleType spec @ '')'']
               @ optional (channelAuthAddressClause spec)
               @ optional (channelAuthClientUserClause spec)
               @ optional (channelAuthSSLPeerClause spec)
               @ optional (channelAuthRemoteQueueManagerClause spec) in
         if action = mqscActionRemove then Inr (go_join (parts @ [''ACTION(REMOVE)'']) '' '')
         else
           Inr (go_join (parts
             @ optional_if (ca_UserList spec) (clause ''USERLIST'' (ca_UserList spec))
             @ optional_if (ca_UserSource spec) (''USERSRC('' @ ca_UserSource spec @ '')'')
             @ optional_if (ca_McaUser spec) (clause ''MCAUSER'' (ca_McaUser spec))
             @ optional_if (ca_CheckClient spec) (''CHCKCLNT('' @ ca_CheckClient spec @ '')'')
             @ optional_if (ca_Description spec) (clause ''DESCR'' (ca_Description spec))
             @ [''ACTION('' @ action @ '')'']) '' '')))"

definition buildDisplayChannelAuthMQSC :: "ChannelAuthSpec \<Rightarrow> string result" where
  "buildDisplayChannelAuthMQSC spec =
     (if ca_ChannelName spec = [] then Inl (invalidSpec ''channel name is required'')
      else if ca_RuleType spec = [] then Inl (invalidSpec ''rule type is required'')
      else
        (let t = ca_RuleType spec;
             first = ''DISPLAY CHLAUTH('' @ quoted (ca_ChannelName spec) @ '') TYPE('' @ t @ '')'';
             more = (if t = RuleTypeBlockAddr then [''ADDRLIST'']
                     else if t = RuleTypeUserMap \<and> ca_ClientUser spec \<noteq> []
                     then [clause ''CLNTUSER'' (ca_ClientUser spec)]
                     else if t = RuleTypeSSLPeerMap \<and> ca_SSLPeerName spec \<noteq> []
                     then [clause ''SSLPEER'' (ca_SSLPeerName spec)]
                     else if t = RuleTypeQMGRMap \<and> ca_RemoteQueueManager spec \<noteq> []
                     then [clause ''QMNAME'' (ca_RemoteQueueManager spec)]
                     else if ca_Address spec \<noteq> [] then [clause ''ADDRESS'' (ca_Address spec)]
                     else []) in
         Inr (go_join (first # more) '' '')))"

definition FormatSetChannelAuthMQSC :: "ChannelAuthSpec \<Rightarrow> string result" where
  "FormatSetChannelAuthMQSC spec = buildSetChannelAuthMQSC spec mqscActionReplace"

definition channelAuthStateFromAttributes :: "ChannelAuthSpec \<Rightarrow> attrs \<Rightarrow> ChannelAuthState" where
  "channelAuthStateFromAttributes spec attrs =
     \<lparr>ca_ChannelName = ca_ChannelName spec,
      ca_RuleType = ca_RuleType spec,
      ca_Address = (if ca_RuleType spec = RuleTypeBlockAddr \<and> getz attrs ''addrlist'' \<noteq> []
                    then getz attrs ''addrlist'' else getz attrs ''address''),
      ca_UserList = getz attrs ''userlist'',
      ca_ClientUser = getz attrs ''clntuser'',
      ca_SSLPeerName = getz attrs ''sslpeer'',
      ca_RemoteQueueManager = getz attrs ''qmname'',
      ca_McaUser = getz attrs ''mcauser'',
      ca_UserSource = getz attrs ''usersrc'',
      ca_CheckClient = getz attrs ''chckclnt'',
      ca_Description = getz attrs ''descr''\<rparr>"

section \<open>AUTHREC commands\<close>

definition authorityObjectTypeMQSC :: "string \<Rightarrow> string" where
  "authorityObjectTypeMQSC objectType = (if objectType = ''NLIST'' then ''NAMELIST'' else objectType)"

text \<open>The four guards that both AUTHREC builders start with.\<close>

definition authoritySpecError :: "AuthoritySpec \<Rightarrow> mq_error option" where
  "authoritySpecError spec =
     (if au_Profile spec = [] then Some (invalidSpec ''profile is required'')
      else if au_ObjectType spec = [] then Some (invalidSpec ''object type is required'')
      else if au_Principal spec = [] \<and> au_Group spec = []
      then Some (invalidSpec ''principal or group is required'')
      else if au_Principal spec \<noteq> [] \<and> au_Group spec \<noteq> []
      then Some (invalidSpec ''specify principal or group, not both'')
      else None)"

definition authorityEntityClause :: "AuthoritySpec \<Rightarrow> string" where
  "authorityEntityClause spec =
     (if au_Principal spec \<noteq> [] then clause ''PRINCIPAL'' (au_Principal spec)
      else clause ''GROUP'' (au_Group spec))"

definition buildSetAuthorityMQSC :: "AuthoritySpec \<Rightarrow> bool \<Rightarrow> string result" where
  "buildSetAuthorityMQSC spec remove =
     (case authoritySpecError spec of
        Some e \<Rightarrow> Inl e
      | None \<Rightarrow>
          (let parts = [''SET AUTHREC PROFILE('' @ quoted (au_Profile spec) @ '') OBJTYPE('' @
                          authorityObjectTypeMQSC (au_ObjectType spec) @ '')'',
                        authorityEntityClause spec] in
           if remove then Inr (go_join (parts @ [''AUTHRMV(ALL)'']) '' '')
           else if au_Authorities spec = [] then Inl (invalidSpec ''authorities are required'')
           else Inr (go_join (parts @ [''AUTHADD('' @ go_join (au_Authorities spec) '','' @ '')'']) '' '')))"

definition buildDisplayAuthorityMQSC :: "AuthoritySpec \<Rightarrow> string result" where
  "buildDisplayAuthorityMQSC spec =
     (case authoritySpecError spec of
        Some e \<Rightarrow> Inl e
      | None \<Rightarrow>
          Inr (go_join [''DISPLAY AUTHREC PROFILE('' @ quoted (au_Profile spec) @ '') OBJTYPE('' @
                          authorityObjectTypeMQSC (au_ObjectType spec) @ '')'',
                        authorityEntityClause spec] '' ''))"

definition FormatSetAuthorityMQSC :: "AuthoritySpec \<Rightarrow> string result" where
  "FormatSetAuthorityMQSC spec = buildSetAuthorityMQSC spec False"

definition authorityStateFromAttributes :: "AuthoritySpec \<Rightarrow> attrs \<Rightarrow> AuthorityState" where
  "authorityStateFromAttributes spec attrs =
     \<lparr>au_Profile = au_Profile spec, au_ObjectType = au_ObjectType spec,
      au_Principal = au_Principal spec, au_Group = au_Group spec,
      au_Authorities =
        (let authlist = getz attrs ''authlist'' in
         if authlist \<noteq> [] then filter (\<lambda>p. p \<noteq> []) (map TrimSpace (go_split_char (CHR '','') authlist))
         else [])\<rparr>"

definition authorityRecordRemoved :: "string list \<Rightarrow> bool" where
  "authorityRecordRemoved authorities =
     (if authorities = [] then True
      else length authorities = 1 \<and> EqualFold (authorities ! 0) ''NONE'')"

definition isMQSCNotFound :: "mq_error \<Rightarrow> bool" where
  "isMQSCNotFound err =
     (let msg = ToUpper (Error err) in
      Contains msg ''AMQ8147'' \<or> Contains msg ''AMQ8958'' \<or> Contains msg ''AMQ8884'' \<or>
      Contains (ToLower (Error err)) ''not found'')"

section \<open>Properties\<close>

lemma authorityState_nonblank: "nonblank (au_Authorities (authorityStateFromAttributes spec attrs))"
  by (auto simp: authorityStateFromAttributes_def nonblank_def list_all_iff Let_def)

definition authority_token :: "string \<Rightarrow> bool" where
  "authority_token a \<longleftrightarrow> a \<noteq> [] \<and> CHR '','' \<notin> set a \<and> TrimSpace a = a"

lemma authorityState_roundtrip:
  assumes "as \<noteq> []" "\<forall>a \<in> set as. authority_token a"
  shows "au_Authorities (authorityStateFromAttributes spec [(''authlist'', go_join as '','')]) = as"
proof -
  have ne: "go_join as '','' \<noteq> []"
    using assms by (cases as) (auto simp: go_join_Cons authority_token_def)
  have sp: "go_split_char (CHR '','') (go_join as '','') = as"
    using go_split_join [OF assms(1), of "CHR '',''"] assms(2) by (auto simp: authority_token_def)
  have "map TrimSpace as = as" using assms(2) by (intro map_idI) (auto simp: authority_token_def)
  moreover have "filter (\<lambda>p. p \<noteq> []) as = as"
    using assms(2) by (intro filter_True) (auto simp: authority_token_def)
  ultimately show ?thesis using ne sp by (simp add: authorityStateFromAttributes_def getz_def)
qed

text \<open>AUTHREC read-back. The authorities that are sent in \<open>AUTHADD\<close> and listed in the same
  form by DISPLAY AUTHREC are read back exactly, so no update is needed then; and the list read
  from any DISPLAY output has no blank entry, so comparing it with a spec whose authorities are
  not blank never panics.\<close>

theorem authority_readback:
  "(as \<noteq> [] \<and> (\<forall>a \<in> set as. authority_token a) \<and> au_Authorities spec = as \<longrightarrow>
      au_Authorities (authorityStateFromAttributes spec [(''authlist'', go_join as '','')]) = as \<and>
      AuthorityNeedsUpdate spec
        (Some (authorityStateFromAttributes spec [(''authlist'', go_join as '','')])) = Some False) \<and>
   (nonblank (au_Authorities spec) \<longrightarrow>
      AuthorityNeedsUpdate spec (Some (authorityStateFromAttributes spec attrs)) \<noteq> None)"
proof (intro conjI impI)
  assume a: "as \<noteq> [] \<and> (\<forall>a \<in> set as. authority_token a) \<and> au_Authorities spec = as"
  then show r: "au_Authorities (authorityStateFromAttributes spec [(''authlist'', go_join as '','')]) = as"
    by (blast intro: authorityState_roundtrip)
  have "nonblank as" using a by (auto simp: nonblank_def list_all_iff authority_token_def)
  with a r show "AuthorityNeedsUpdate spec
        (Some (authorityStateFromAttributes spec [(''authlist'', go_join as '','')])) = Some False"
    by (simp add: AuthorityNeedsUpdate_def authoritySetsEqual_nonblank)
next
  assume "nonblank (au_Authorities spec)"
  then show "AuthorityNeedsUpdate spec (Some (authorityStateFromAttributes spec attrs)) \<noteq> None"
    using authorityState_nonblank [of spec attrs]
    by (simp add: AuthorityNeedsUpdate_def authoritySetsEqual_nonblank)
qed

definition app_grant :: AuthoritySpec where
  "app_grant = \<lparr>au_Profile = ''APP.Q1'', au_ObjectType = ''QUEUE'', au_Principal = ''app'', au_Group = [],
     au_Authorities = [''GET'', ''PUT'']\<rparr>"

theorem authority_readback_witness:
  "AuthorityNeedsUpdate app_grant
     (Some (authorityStateFromAttributes app_grant [(''authlist'', ''GET,PUT'')])) = Some False"
proof -
  have "\<forall>a \<in> set [''GET'', ''PUT'']. authority_token a" by code_simp
  moreover have "go_join [''GET'', ''PUT''] '','' = ''GET,PUT''" by code_simp
  moreover have "au_Authorities app_grant = [''GET'', ''PUT'']" by (simp add: app_grant_def)
  ultimately show ?thesis
    using authority_readback [of "[''GET'', ''PUT'']" app_grant "[]"] by (metis list.distinct(1))
qed

text \<open>SET AUTHREC only adds. For a valid spec the command names the profile, the entity and
  every desired authority in \<open>AUTHADD\<close> and nothing is revoked; so on a queue manager that
  grants the union of what it had and what is added, an authority that was granted before and
  is not desired stays granted and the record still needs an update after every apply.\<close>

definition granted_after :: "string list \<Rightarrow> string list \<Rightarrow> string list" where
  "granted_after observed added = observed @ filter (\<lambda>a. a \<notin> set observed) added"

theorem authority_apply_is_additive:
  assumes "authoritySpecError spec = None" and "au_Authorities spec \<noteq> []"
    and "nonblank (au_Authorities spec)" and "nonblank observed"
    and "extra \<in> set observed" and "\<forall>a \<in> set (au_Authorities spec). \<not> fold_eq extra a"
  shows "buildSetAuthorityMQSC spec False
           = Inr (''SET AUTHREC PROFILE('' @ quoted (au_Profile spec) @ '') OBJTYPE('' @
                  authorityObjectTypeMQSC (au_ObjectType spec) @ '') '' @ authorityEntityClause spec @
                  '' AUTHADD('' @ go_join (au_Authorities spec) '','' @ '')'') \<and>
         AuthorityNeedsUpdate spec
           (Some (spec\<lparr>au_Authorities := granted_after observed (au_Authorities spec)\<rparr>)) = Some True"
proof
  show "buildSetAuthorityMQSC spec False
           = Inr (''SET AUTHREC PROFILE('' @ quoted (au_Profile spec) @ '') OBJTYPE('' @
                  authorityObjectTypeMQSC (au_ObjectType spec) @ '') '' @ authorityEntityClause spec @
                  '' AUTHADD('' @ go_join (au_Authorities spec) '','' @ '')'')"
    using assms(1,2) by (simp add: buildSetAuthorityMQSC_def)
next
  let ?g = "granted_after observed (au_Authorities spec)"
  have nb: "nonblank ?g" using assms(3,4) by (auto simp: nonblank_def list_all_iff granted_after_def)
  have "ToUpper (TrimSpace extra) \<in># authority_mset ?g"
    using assms(5) by (simp add: authority_mset_def granted_after_def)
  moreover have "ToUpper (TrimSpace extra) \<notin># authority_mset (au_Authorities spec)"
    using assms(6) by (auto simp: authority_mset_def fold_eq_def EqualFold_ToUpper)
  ultimately have "authority_mset (au_Authorities spec) \<noteq> authority_mset ?g" by metis
  with nb assms(3) show "AuthorityNeedsUpdate spec (Some (spec\<lparr>au_Authorities := ?g\<rparr>)) = Some True"
    by (simp add: AuthorityNeedsUpdate_def authoritySetsEqual_nonblank)
qed

theorem authority_apply_is_additive_witness:
  "AuthorityNeedsUpdate app_grant
     (Some (app_grant\<lparr>au_Authorities := granted_after [''BROWSE''] [''GET'', ''PUT'']\<rparr>)) = Some True"
proof -
  have "authoritySpecError app_grant = None" by code_simp
  moreover have a: "au_Authorities app_grant = [''GET'', ''PUT'']" by (simp add: app_grant_def)
  moreover have "nonblank [''GET'', ''PUT'']" by code_simp
  moreover have "nonblank [''BROWSE'']" by code_simp
  moreover have "\<forall>a \<in> set [''GET'', ''PUT'']. \<not> fold_eq ''BROWSE'' a" by code_simp
  ultimately show ?thesis
    using authority_apply_is_additive [of app_grant "[''BROWSE'']" "''BROWSE''"] by simp
qed

end
