(* ===== verification/MQ_Client.thy ===== *)
theory MQ_Client
  imports Resilience MQSC_Auth
begin

text \<open>
  The operations of the mqweb client, \<open>internal/adapter/mqrest/client.go\<close>, with the callers in
  \<open>auth.go\<close> and the display-capability cache of \<open>display_probe.go\<close> and
  \<open>display_probe_cache.go\<close>. A Go result \<open>(value, error)\<close> where both can be set at once is a pair
  of options. The metrics that each operation records on exit are not modelled.
\<close>

section \<open>Authentication of a request\<close>

definition b64_char :: "int \<Rightarrow> char" where
  "b64_char n =
     (if n < 26 then char_of (n + 65) else if n < 52 then char_of (n + 71)
      else if n < 62 then char_of (n - 4) else if n = 62 then CHR ''+'' else CHR ''/'')"

fun base64 :: "string \<Rightarrow> string" where
  "base64 [] = []"
| "base64 [a] =
     (let n = (of_char a :: int) * 65536 in
      [b64_char (n div 262144), b64_char (n div 4096 mod 64), CHR ''='', CHR ''=''])"
| "base64 [a, b] =
     (let n = (of_char a :: int) * 65536 + of_char b * 256 in
      [b64_char (n div 262144), b64_char (n div 4096 mod 64), b64_char (n div 64 mod 64), CHR ''=''])"
| "base64 (a # b # c # rest) =
     (let n = (of_char a :: int) * 65536 + of_char b * 256 + of_char c in
      [b64_char (n div 262144), b64_char (n div 4096 mod 64), b64_char (n div 64 mod 64), b64_char (n mod 64)]
      @ base64 rest)"

text \<open>The three implementations of \<open>requestAuthenticator\<close>; none of them returns an error.\<close>

definition authenticate :: "Client \<Rightarrow> 'w cstate \<Rightarrow> http_request \<Rightarrow> http_request result" where
  "authenticate c s req =
     (case c_authenticator c of
        BasicAuth u p \<Rightarrow>
          Inr (req\<lparr>rq_Header := rq_Header req @
                     [(''Authorization'', ''Basic '' @ base64 (u @ '':'' @ p))]\<rparr>)
      | LTPAAuth \<Rightarrow> Inr (ltpaAuthenticate (cs_ltpa s) req)
      | NoopAuth \<Rightarrow> Inr req)"

definition buildRequest ::
  "'w http_env \<Rightarrow> Client \<Rightarrow> string \<Rightarrow> string \<Rightarrow> (string \<times> string) list \<Rightarrow> payload \<Rightarrow> string \<Rightarrow>
     'w requestBuilder" where
  "buildRequest env c meth url hdrs body what s =
     (case he_newRequest env url of
        Some e \<Rightarrow> Inl e
      | None \<Rightarrow>
          (case authenticate c s \<lparr>rq_Method = meth, rq_URL = url, rq_Header = hdrs, rq_Body = body\<rparr> of
             Inl e \<Rightarrow> Inl (WrapError (''authenticate mqweb '' @ what @ '' request'') e)
           | Inr req \<Rightarrow> Inr req))"

section \<open>Ping\<close>

definition Ping :: "'w http_env \<Rightarrow> Client \<Rightarrow> 'w cstate \<Rightarrow> mq_error option \<times> 'w cstate" where
  "Ping env c s =
     (case roundTripWithReauth env c (buildRequest env c ''GET'' (c_adminQMURL c) [] NoBody ''ping'') s of
        (Inl e, s) \<Rightarrow> (Some e, s)
      | (Inr res, s) \<Rightarrow>
          (let code = rs_StatusCode res; text = ''mqweb ping returned HTTP '' @ Itoa code in
           if code = StatusUnauthorized \<or> code = StatusForbidden
           then (Some (TerminalError reasonUnauthorized (unauthorizedMessage c text) None), s)
           else if code \<ge> 500 then (Some (TransientError text None), s)
           else if code \<ge> 400 then (Some (TerminalError ''Unreachable'' text None), s)
           else (None, s)))"

section \<open>Running a command\<close>

definition go_truncate :: "string \<Rightarrow> nat \<Rightarrow> string" where
  "go_truncate s n = (if length s \<le> n then s else take n s @ ''...'')"

definition mqscHeaders :: "(string \<times> string) list" where
  "mqscHeaders = [(''Content-Type'', ''application/json; charset=UTF-8''), (''ibm-mq-rest-csrf-token'', ''1'')]"

definition requestName :: "payload \<Rightarrow> string" where
  "requestName body = (case body of RunCommandJSON r \<Rightarrow> rj_Name r | _ \<Rightarrow> [])"

text \<open>From the bytes and the status of a response to the value and the error.\<close>

definition decodeMQSC ::
  "'w http_env \<Rightarrow> Client \<Rightarrow> payload \<Rightarrow> int \<Rightarrow> string \<Rightarrow> mqscResponse option \<times> mq_error option" where
  "decodeMQSC env c body code raw =
     (if code = StatusUnauthorized \<or> code = StatusForbidden
      then (None, Some (TerminalError reasonUnauthorized
                          (unauthorizedMessage c (''mqweb returned HTTP '' @ Itoa code)) None))
      else if code \<ge> 500
      then (None, Some (TransientError (''mqweb returned HTTP '' @ Itoa code) None))
      else if code \<ge> 400
      then (None, Some (TerminalError ''BadRequest''
                          (''mqweb returned HTTP '' @ Itoa code @ '': '' @ go_truncate raw 200) None))
      else
        (case he_unmarshalMQSC env raw of
           Inl e \<Rightarrow> (None, Some (TerminalError ''InvalidResponse'' ''failed to parse mqsc response'' (Some e)))
         | Inr parsed \<Rightarrow>
             if overallFailed parsed then
               (if isObjectMissing parsed
                then (Some parsed, Some (NotFoundError (requestName body)))
                else (Some parsed, Some (terminalError parsed ''mqsc command failed'')))
             else (Some parsed, None)))"

definition postMQSC ::
  "'w http_env \<Rightarrow> Client \<Rightarrow> payload \<Rightarrow> 'w cstate \<Rightarrow> (mqscResponse option \<times> mq_error option) \<times> 'w cstate" where
  "postMQSC env c body s =
     (case roundTripWithReauth env c (buildRequest env c ''POST'' (c_mqscURL c) mqscHeaders body ''MQSC'') s of
        (Inl e, s) \<Rightarrow> ((None, Some e), s)
      | (Inr res, s) \<Rightarrow>
          (case rs_Body res of
             Inl e \<Rightarrow> ((None, Some (TransientError ''read mqweb response'' (Some e))), s)
           | Inr raw \<Rightarrow> (decodeMQSC env c body (rs_StatusCode res) raw, s)))"

definition runCommandJSON ::
  "'w http_env \<Rightarrow> Client \<Rightarrow> runCommandJSONRequest \<Rightarrow> 'w cstate \<Rightarrow>
     (mqscResponse option \<times> mq_error option) \<times> 'w cstate" where
  "runCommandJSON env c body s = postMQSC env c (RunCommandJSON body) s"

definition RunMQSC :: "'w http_env \<Rightarrow> Client \<Rightarrow> string \<Rightarrow> 'w cstate \<Rightarrow> mq_error option \<times> 'w cstate" where
  "RunMQSC env c command s =
     (case postMQSC env c (RunCommand command) s of ((_, err), s) \<Rightarrow> (err, s))"

section \<open>Display capability\<close>

definition QueueLocalDefineOnlyCandidates :: "string list" where
  "QueueLocalDefineOnlyCandidates =
     [''share'', ''defopts'', ''bothresh'', ''boqname'', ''usage'', ''maxmsglen'']"

definition defaultQueueLocalDisplayProbeObject :: string where
  "defaultQueueLocalDisplayProbeObject = ''SYSTEM.DEFAULT.LOCAL.QUEUE''"

definition queueAttributeDisplayProbeRequest :: "string \<Rightarrow> string \<Rightarrow> runCommandJSONRequest" where
  "queueAttributeDisplayProbeRequest queueName attribute =
     \<lparr>rj_Type = mqscType, rj_Command = mqscCommandDisplay, rj_Qualifier = qualifierQLocal,
      rj_Name = queueName, rj_ResponseParameters = [ToLower attribute], rj_Parameters = []\<rparr>"

definition ProbeQueueLocalAttributeDisplayable ::
  "'w http_env \<Rightarrow> Client \<Rightarrow> string \<Rightarrow> string \<Rightarrow> 'w cstate \<Rightarrow> bool result \<times> 'w cstate" where
  "ProbeQueueLocalAttributeDisplayable env c queueName0 attribute0 s =
     (let queueName = TrimSpace queueName0; attribute = ToLower (TrimSpace attribute0) in
      if queueName = [] then (Inl (TerminalError ''InvalidArgument'' ''queue name is required'' None), s)
      else if attribute = [] then (Inl (TerminalError ''InvalidArgument'' ''attribute is required'' None), s)
      else
        (case runCommandJSON env c (queueAttributeDisplayProbeRequest queueName attribute) s of
           ((resp, None), s) \<Rightarrow> (Inr True, s)
         | ((resp, Some err), s) \<Rightarrow>
             if responseIndicatesAttributeNotDisplayable resp \<or>
                errIndicatesAttributeNotDisplayable (Some err)
             then (Inr False, s)
             else if (case resp of Some r \<Rightarrow> isObjectMissing r | None \<Rightarrow> False)
             then (Inl (NotFoundError queueName), s)
             else (Inl (WrapError (''probe display qlocal '' @ Quote queueName @ '' attribute '' @
                                     Quote attribute) err), s)))"

definition probeQueueLocalDisplayableCached ::
  "'w http_env \<Rightarrow> Client \<Rightarrow> string \<Rightarrow> 'w cstate \<Rightarrow> bool result \<times> 'w cstate" where
  "probeQueueLocalDisplayableCached env c attribute s =
     (case map_of (cs_probe s) attribute of
        Some displayable \<Rightarrow> (Inr displayable, s)
      | None \<Rightarrow>
          (case ProbeQueueLocalAttributeDisplayable env c defaultQueueLocalDisplayProbeObject attribute s of
             (Inl e, s) \<Rightarrow> (Inl e, s)
           | (Inr displayable, s) \<Rightarrow>
               (Inr displayable, s\<lparr>cs_probe := AList.update attribute displayable (cs_probe s)\<rparr>)))"

fun probeCandidates ::
  "'w http_env \<Rightarrow> Client \<Rightarrow> string list \<Rightarrow> string list \<Rightarrow> 'w cstate \<Rightarrow> string list result \<times> 'w cstate" where
  "probeCandidates env c [] base s = (Inr base, s)"
| "probeCandidates env c (attr # rest) base s =
     (case probeQueueLocalDisplayableCached env c attr s of
        (Inl e, s) \<Rightarrow> (Inl (WrapError (''probe qlocal display '' @ Quote attr) e), s)
      | (Inr displayable, s) \<Rightarrow>
          probeCandidates env c rest (if displayable then base @ [attr] else base) s)"

definition queueLocalDisplayParametersResolved ::
  "'w http_env \<Rightarrow> Client \<Rightarrow> 'w cstate \<Rightarrow> string list result \<times> 'w cstate" where
  "queueLocalDisplayParametersResolved env c s =
     probeCandidates env c QueueLocalDefineOnlyCandidates queueLocalDisplayParameters s"

text \<open>\<open>ResolveQueueDriftCheckKeys\<close> with an \<open>Admin\<close> that is a \<open>*Client\<close>.\<close>

definition ResolveQueueDriftCheckKeys ::
  "'w http_env \<Rightarrow> Client \<Rightarrow> string \<Rightarrow> 'w cstate \<Rightarrow> string list result \<times> 'w cstate" where
  "ResolveQueueDriftCheckKeys env c qType s =
     (if NormalizeQueueType qType \<noteq> QueueTypeLocal then (Inr (queueDisplayParameters qType), s)
      else queueLocalDisplayParametersResolved env c s)"

definition queueDisplayParametersForGet ::
  "'w http_env \<Rightarrow> Client \<Rightarrow> string \<Rightarrow> 'w cstate \<Rightarrow> string list result \<times> 'w cstate" where
  "queueDisplayParametersForGet env c qType s =
     (if NormalizeQueueType qType \<noteq> QueueTypeLocal then (Inr (queueDisplayParameters qType), s)
      else queueLocalDisplayParametersResolved env c s)"

section \<open>Objects\<close>

definition defineRequest :: "string \<Rightarrow> string \<Rightarrow> params \<Rightarrow> runCommandJSONRequest" where
  "defineRequest qualifier name params =
     \<lparr>rj_Type = mqscType, rj_Command = mqscCommandDefine, rj_Qualifier = qualifier, rj_Name = name,
      rj_ResponseParameters = [], rj_Parameters = params\<rparr>"

definition deleteRequest :: "string \<Rightarrow> string \<Rightarrow> runCommandJSONRequest" where
  "deleteRequest qualifier name =
     \<lparr>rj_Type = mqscType, rj_Command = mqscCommandDelete, rj_Qualifier = qualifier, rj_Name = name,
      rj_ResponseParameters = [], rj_Parameters = []\<rparr>"

text \<open>The common tail of the three Get operations: the first object of the response, with the
  object's name put into a not-found error. A nil response without an error cannot be returned by
  \<open>postMQSC\<close>; dereferencing it is the error \<open>nil pointer\<close> here.\<close>

definition observedState ::
  "mqscResponse option \<times> mq_error option \<Rightarrow> string \<Rightarrow> (attrs \<Rightarrow> attrs) \<Rightarrow> ObjectState result" where
  "observedState re name norm =
     (case re of
        (_, Some err) \<Rightarrow> Inl err
      | (None, None) \<Rightarrow> Inl (PlainError ''nil pointer'')
      | (Some resp, None) \<Rightarrow>
          (case firstObjectAttributes resp of
             Inl err \<Rightarrow> Inl (if errors_As is_NotFoundError err \<noteq> None then NotFoundError name else err)
           | Inr attrs \<Rightarrow> Inr \<lparr>os_Name = name, os_Attributes = norm attrs\<rparr>))"

text \<open>The common tail of the three Delete operations: a missing object is a success.\<close>

definition ignoreNotFound :: "mq_error option \<Rightarrow> mq_error option" where
  "ignoreNotFound err =
     (case err of Some e \<Rightarrow> if errors_Is e ErrNotFound then None else Some e | None \<Rightarrow> None)"

definition GetQueue ::
  "'w http_env \<Rightarrow> Client \<Rightarrow> QueueSpec \<Rightarrow> 'w cstate \<Rightarrow> ObjectState result \<times> 'w cstate" where
  "GetQueue env c spec s =
     (case validateQueueType (qs_Type spec) of
        Some e \<Rightarrow> (Inl e, s)
      | None \<Rightarrow>
          (case queueDisplayParametersForGet env c (qs_Type spec) s of
             (Inl e, s) \<Rightarrow> (Inl e, s)
           | (Inr displayParams, s) \<Rightarrow>
               (case runCommandJSON env c (queueDisplayRequest spec displayParams) s of
                  (re, s) \<Rightarrow>
                    (observedState re (qs_Name spec) (\<lambda>a. normalizeQueueAttributes a (qs_Type spec)), s))))"

definition DefineQueue ::
  "'w http_env \<Rightarrow> Client \<Rightarrow> QueueSpec \<Rightarrow> 'w cstate \<Rightarrow> mq_error option \<times> 'w cstate" where
  "DefineQueue env c spec s =
     (case validateQueueType (qs_Type spec) of
        Some e \<Rightarrow> (Some e, s)
      | None \<Rightarrow>
          (case runCommandJSON env c
                  (defineRequest (queueQualifier (qs_Type spec)) (qs_Name spec) (defineQueueParameters spec)) s of
             ((_, err), s) \<Rightarrow> (err, s)))"

definition DeleteQueue ::
  "'w http_env \<Rightarrow> Client \<Rightarrow> QueueSpec \<Rightarrow> 'w cstate \<Rightarrow> mq_error option \<times> 'w cstate" where
  "DeleteQueue env c spec s =
     (case validateQueueType (qs_Type spec) of
        Some e \<Rightarrow> (Some e, s)
      | None \<Rightarrow>
          (case runCommandJSON env c (deleteRequest (queueQualifier (qs_Type spec)) (qs_Name spec)) s of
             ((_, err), s) \<Rightarrow> (ignoreNotFound err, s)))"

definition GetTopic ::
  "'w http_env \<Rightarrow> Client \<Rightarrow> string \<Rightarrow> 'w cstate \<Rightarrow> ObjectState result \<times> 'w cstate" where
  "GetTopic env c name s =
     (case runCommandJSON env c
             \<lparr>rj_Type = mqscType, rj_Command = mqscCommandDisplay, rj_Qualifier = qualifierTopic,
              rj_Name = name, rj_ResponseParameters = topicDisplayParameters, rj_Parameters = []\<rparr> s of
        (re, s) \<Rightarrow> (observedState re name normalizeTopicAttributes, s))"

definition DefineTopic ::
  "'w http_env \<Rightarrow> Client \<Rightarrow> TopicSpec \<Rightarrow> 'w cstate \<Rightarrow> mq_error option \<times> 'w cstate" where
  "DefineTopic env c spec s =
     (case runCommandJSON env c (defineRequest qualifierTopic (ts_Name spec) (defineTopicParameters spec)) s of
        ((_, err), s) \<Rightarrow> (err, s))"

definition DeleteTopic ::
  "'w http_env \<Rightarrow> Client \<Rightarrow> string \<Rightarrow> 'w cstate \<Rightarrow> mq_error option \<times> 'w cstate" where
  "DeleteTopic env c name s =
     (case runCommandJSON env c (deleteRequest qualifierTopic name) s of
        ((_, err), s) \<Rightarrow> (ignoreNotFound err, s))"

definition GetChannel ::
  "'w http_env \<Rightarrow> Client \<Rightarrow> ChannelSpec \<Rightarrow> 'w cstate \<Rightarrow> ObjectState result \<times> 'w cstate" where
  "GetChannel env c spec s =
     (case validateChannelType (chs_Type spec) of
        Some e \<Rightarrow> (Inl e, s)
      | None \<Rightarrow>
          (case runCommandJSON env c (channelDisplayRequest (chs_Name spec) (chs_Type spec)) s of
             (re, s) \<Rightarrow> (observedState re (chs_Name spec) (\<lambda>a. a), s)))"

definition DefineChannel ::
  "'w http_env \<Rightarrow> Client \<Rightarrow> ChannelSpec \<Rightarrow> 'w cstate \<Rightarrow> mq_error option \<times> 'w cstate" where
  "DefineChannel env c spec s =
     (case validateChannelType (chs_Type spec) of
        Some e \<Rightarrow> (Some e, s)
      | None \<Rightarrow>
          (case runCommandJSON env c
                  (defineRequest qualifierChannel (chs_Name spec) (defineChannelParameters spec)) s of
             ((_, err), s) \<Rightarrow> (err, s)))"

definition DeleteChannel ::
  "'w http_env \<Rightarrow> Client \<Rightarrow> ChannelSpec \<Rightarrow> 'w cstate \<Rightarrow> mq_error option \<times> 'w cstate" where
  "DeleteChannel env c spec s =
     (case runCommandJSON env c (deleteRequest qualifierChannel (chs_Name spec)) s of
        ((_, err), s) \<Rightarrow> (ignoreNotFound err, s))"

section \<open>CHLAUTH and AUTHREC\<close>

definition runDisplayMQSC ::
  "'w http_env \<Rightarrow> Client \<Rightarrow> string \<Rightarrow> string \<Rightarrow> 'w cstate \<Rightarrow> attrs result \<times> 'w cstate" where
  "runDisplayMQSC env c command object s =
     (case postMQSC env c (RunCommand command) s of
        ((_, Some err), s) \<Rightarrow>
          (Inl (if errors_As is_NotFoundError err \<noteq> None then NotFoundError object else err), s)
      | ((None, None), s) \<Rightarrow> (Inl (PlainError ''nil pointer''), s)
      | ((Some parsed, None), s) \<Rightarrow>
          (case firstObjectAttributes parsed of
             Inl err \<Rightarrow> (Inl (if errors_As is_NotFoundError err \<noteq> None then NotFoundError object else err), s)
           | Inr attrs \<Rightarrow> (Inr (if attrs = [] then displayTextAttributes parsed else attrs), s)))"

definition runMQSCAllowNotFound ::
  "'w http_env \<Rightarrow> Client \<Rightarrow> string \<Rightarrow> 'w cstate \<Rightarrow> mq_error option \<times> 'w cstate" where
  "runMQSCAllowNotFound env c command s =
     (case RunMQSC env c command s of
        (None, s) \<Rightarrow> (None, s)
      | (Some err, s) \<Rightarrow> (if errors_Is err ErrNotFound \<or> isMQSCNotFound err then None else Some err, s))"

definition SetChannelAuth ::
  "'w http_env \<Rightarrow> Client \<Rightarrow> ChannelAuthSpec \<Rightarrow> 'w cstate \<Rightarrow> mq_error option \<times> 'w cstate" where
  "SetChannelAuth env c spec s =
     (case buildSetChannelAuthMQSC spec mqscActionReplace of
        Inl e \<Rightarrow> (Some e, s) | Inr cmd \<Rightarrow> RunMQSC env c cmd s)"

definition DeleteChannelAuth ::
  "'w http_env \<Rightarrow> Client \<Rightarrow> ChannelAuthSpec \<Rightarrow> 'w cstate \<Rightarrow> mq_error option \<times> 'w cstate" where
  "DeleteChannelAuth env c spec s =
     (case buildSetChannelAuthMQSC spec mqscActionRemove of
        Inl e \<Rightarrow> (Some e, s) | Inr cmd \<Rightarrow> runMQSCAllowNotFound env c cmd s)"

definition SetAuthority ::
  "'w http_env \<Rightarrow> Client \<Rightarrow> AuthoritySpec \<Rightarrow> 'w cstate \<Rightarrow> mq_error option \<times> 'w cstate" where
  "SetAuthority env c spec s =
     (case buildSetAuthorityMQSC spec False of
        Inl e \<Rightarrow> (Some e, s) | Inr cmd \<Rightarrow> RunMQSC env c cmd s)"

definition DeleteAuthority ::
  "'w http_env \<Rightarrow> Client \<Rightarrow> AuthoritySpec \<Rightarrow> 'w cstate \<Rightarrow> mq_error option \<times> 'w cstate" where
  "DeleteAuthority env c spec s =
     (case buildSetAuthorityMQSC spec True of
        Inl e \<Rightarrow> (Some e, s) | Inr cmd \<Rightarrow> runMQSCAllowNotFound env c cmd s)"

definition GetChannelAuth ::
  "'w http_env \<Rightarrow> Client \<Rightarrow> ChannelAuthSpec \<Rightarrow> 'w cstate \<Rightarrow> ChannelAuthState result \<times> 'w cstate" where
  "GetChannelAuth env c spec s =
     (case buildDisplayChannelAuthMQSC spec of
        Inl e \<Rightarrow> (Inl e, s)
      | Inr cmd \<Rightarrow>
          (case runDisplayMQSC env c cmd (ca_ChannelName spec) s of
             (Inl e, s) \<Rightarrow> (Inl e, s)
           | (Inr resp, s) \<Rightarrow> (Inr (channelAuthStateFromAttributes spec resp), s)))"

definition GetAuthority ::
  "'w http_env \<Rightarrow> Client \<Rightarrow> AuthoritySpec \<Rightarrow> 'w cstate \<Rightarrow> AuthorityState result \<times> 'w cstate" where
  "GetAuthority env c spec s =
     (case buildDisplayAuthorityMQSC spec of
        Inl e \<Rightarrow> (Inl e, s)
      | Inr cmd \<Rightarrow>
          (case runDisplayMQSC env c cmd (au_Profile spec) s of
             (Inl e, s) \<Rightarrow> (Inl e, s)
           | (Inr resp, s) \<Rightarrow>
               (let state = authorityStateFromAttributes spec resp in
                if authorityRecordRemoved (au_Authorities state)
                then (Inl (NotFoundError (au_Profile spec)), s)
                else (Inr state, s))))"

section \<open>Classification of every outcome\<close>

definition client_error :: "mq_error \<Rightarrow> bool" where
  "client_error e \<longleftrightarrow>
     errors_Is e ErrTransient \<or> errors_Is e ErrTerminal \<or> errors_Is e ErrNotFound \<or>
     (\<exists>x. e = WrapError ''build mqweb request'' x) \<or> (\<exists>x. e = WrapError ''build ltpa login request'' x)"

lemma transport_client_error: "transport_error c e \<Longrightarrow> client_error e"
  by (auto simp: transport_error_def client_error_def clientCertRejectionError_def)

lemma doLogin_client_error: "doLogin env a w = (Inl e, w') \<Longrightarrow> client_error e"
  using doLogin_error_class [of env a w e w']
  by (cases "he_newRequest env (la_loginURL a)") (auto simp: client_error_def doLogin_def)

lemma reauthenticate_client_error: "reauthenticate env t (a, w) = (Inl e, s') \<Longrightarrow> client_error e"
  by (auto simp: reauthenticate_def dest: doLogin_client_error split: if_splits prod.splits sum.splits)

lemma ensureLoggedIn_client_error: "ensureLoggedIn env (a, w) = (Inl e, s') \<Longrightarrow> client_error e"
  by (auto simp: ensureLoggedIn_def sessionSnapshot_def dest: reauthenticate_client_error
      split: if_splits prod.splits sum.splits)

lemma roundTrip_class:
  assumes "breaker_inv (cs_breaker s)" "roundTrip env c build s = (r, s')"
  shows "breaker_inv (cs_breaker s') \<and> (\<forall>e. r = Inl e \<longrightarrow> client_error e)"
  using roundTrip_ok [OF assms] transport_client_error
  by (auto simp: round_trip_ok_def split: sum.splits)

lemma roundTripWithReauth_class:
  assumes "breaker_inv (cs_breaker s)" "roundTripWithReauth env c build s = (r, s')"
  shows "breaker_inv (cs_breaker s') \<and> (\<forall>e. r = Inl e \<longrightarrow> client_error e)"
proof (cases "c_reauth c")
  case False
  with assms show ?thesis by (auto simp: roundTripWithReauth_def dest: roundTrip_class)
next
  case True
  obtain x a w where l: "ensureLoggedIn env (cs_ltpa s, cs_world s) = (x, a, w)" by (metis surj_pair)
  obtain y s1 where rt: "roundTrip env c build (s\<lparr>cs_ltpa := a, cs_world := w\<rparr>) = (y, s1)" by fastforce
  have 1: "breaker_inv (cs_breaker s1) \<and> (\<forall>e. y = Inl e \<longrightarrow> client_error e)"
    using roundTrip_class [OF _ rt] assms(1) by simp
  have 2: "breaker_inv (cs_breaker s2) \<and> (\<forall>e. z = Inl e \<longrightarrow> client_error e)"
    if "roundTrip env c build (s1\<lparr>cs_ltpa := a', cs_world := w'\<rparr>) = (z, s2)" for a' w' z s2
    using roundTrip_class [OF _ that] 1 by simp
  show ?thesis
    using True assms l rt 1
    by (auto simp: roundTripWithReauth_def dest: ensureLoggedIn_client_error reauthenticate_client_error 2
        split: sum.splits prod.splits if_splits)
qed

lemma decodeMQSC_class:
  assumes "decodeMQSC env c body code raw = (resp, err)"
  shows "(err = None \<longleftrightarrow> (\<exists>r. resp = Some r \<and> \<not> overallFailed r)) \<and> (\<forall>e. err = Some e \<longrightarrow> client_error e)"
  using assms
  by (auto simp: decodeMQSC_def client_error_def terminalError_def split: if_splits sum.splits)

text \<open>Every MQSC request ends in a classified outcome, for every server, clock and context:
  either a response that reports no failure and no error, or an error that is transient,
  terminal or not-found (or the URL of the request cannot be parsed). The controllers branch on
  exactly these classes. The breaker's invariant survives the request.\<close>

theorem postMQSC_classified:
  assumes "breaker_inv (cs_breaker s)"
  shows "(case postMQSC env c body s of
            ((resp, err), s') \<Rightarrow>
              breaker_inv (cs_breaker s') \<and>
              (err = None \<longleftrightarrow> (\<exists>r. resp = Some r \<and> \<not> overallFailed r)) \<and>
              (\<forall>e. err = Some e \<longrightarrow>
                 errors_Is e ErrTransient \<or> errors_Is e ErrTerminal \<or> errors_Is e ErrNotFound \<or>
                 (\<exists>x. e = WrapError ''build mqweb request'' x) \<or>
                 (\<exists>x. e = WrapError ''build ltpa login request'' x)))"
proof -
  obtain r s' where rt: "roundTripWithReauth env c
      (buildRequest env c ''POST'' (c_mqscURL c) mqscHeaders body ''MQSC'') s = (r, s')" by fastforce
  note cls = roundTripWithReauth_class [OF assms rt]
  show ?thesis
  proof (cases r)
    case (Inl e)
    with rt cls show ?thesis unfolding client_error_def by (simp add: postMQSC_def)
  next
    case (Inr res)
    show ?thesis
    proof (cases "rs_Body res")
      case (Inl e)
      with Inr rt cls show ?thesis by (simp add: postMQSC_def)
    next
      case raw: (Inr raw)
      obtain resp err where d: "decodeMQSC env c body (rs_StatusCode res) raw = (resp, err)" by fastforce
      from decodeMQSC_class [OF d] Inr raw rt cls d show ?thesis
        unfolding client_error_def by (simp add: postMQSC_def)
    qed
  qed
qed

theorem postMQSC_classified_witness:
  "breaker_inv (cs_breaker (snd (postMQSC (const_env resp503) basic_client (RunCommand ''PING'') (fresh_state 0))))
   \<and> fst (postMQSC (const_env resp503) basic_client (RunCommand ''PING'') (fresh_state 0))
     = (None, Some (TransientError ''mqweb returned HTTP 503'' None))"
proof
  show "breaker_inv (cs_breaker (snd (postMQSC (const_env resp503) basic_client (RunCommand ''PING'') (fresh_state 0))))"
    using postMQSC_classified [of "fresh_state 0" "const_env resp503" basic_client "RunCommand ''PING''"]
    by (simp add: case_prod_unfold)
  show "fst (postMQSC (const_env resp503) basic_client (RunCommand ''PING'') (fresh_state 0))
     = (None, Some (TransientError ''mqweb returned HTTP 503'' None))" by code_simp
qed

section \<open>Deletion\<close>

definition not_missing :: "mq_error option \<Rightarrow> bool" where
  "not_missing err \<longleftrightarrow> (\<forall>e. err = Some e \<longrightarrow> \<not> errors_Is e ErrNotFound)"

lemma ignoreNotFound_not_missing: "not_missing (ignoreNotFound err)"
  by (auto simp: ignoreNotFound_def not_missing_def split: option.splits)

lemma validateQueueType_not_missing: "not_missing (validateQueueType t)"
  by (simp add: validateQueueType_def not_missing_def)

lemma runMQSCAllowNotFound_not_missing: "not_missing (fst (runMQSCAllowNotFound env c cmd s))"
  by (auto simp: runMQSCAllowNotFound_def not_missing_def split: prod.splits option.splits)

lemma build_not_missing:
  "buildSetChannelAuthMQSC cspec action = Inl e \<Longrightarrow> not_missing (Some e)"
  "buildSetAuthorityMQSC aspec remove = Inl e' \<Longrightarrow> not_missing (Some e')"
  by (auto simp: buildSetChannelAuthMQSC_def buildSetAuthorityMQSC_def authoritySpecError_def
      invalidSpec_def not_missing_def Let_def split: if_splits option.splits)

lemma delete_not_missing:
  "not_missing (fst (DeleteQueue env c qspec s))"
  "not_missing (fst (DeleteTopic env c name s))"
  "not_missing (fst (DeleteChannel env c chspec s))"
  "not_missing (fst (DeleteChannelAuth env c cspec s))"
  "not_missing (fst (DeleteAuthority env c aspec s))"
  using validateQueueType_not_missing [of "qs_Type qspec"]
  by (auto simp: DeleteQueue_def DeleteTopic_def DeleteChannel_def DeleteChannelAuth_def
      DeleteAuthority_def ignoreNotFound_not_missing runMQSCAllowNotFound_not_missing
      dest: build_not_missing split: option.splits prod.splits sum.splits)


definition resp404 :: http_response where
  "resp404 = \<lparr>rs_StatusCode = 404, rs_Body = Inr ''not found'', rs_Cookies = []\<rparr>"


section \<open>The display-probe cache\<close>

lemma attemptOnce_probe: "attemptOnce env c build a le s = (x, s') \<Longrightarrow> cs_probe s' = cs_probe s"
  by (auto simp: attemptOnce_def recordFailureAt_def recordSuccessAt_def Let_def
      split: sum.splits prod.splits option.splits if_splits)

lemma sleepWithContext_probe: "sleepWithContext env d s = (x, s') \<Longrightarrow> cs_probe s' = cs_probe s"
  using sleepWithContext_frame(3) [of env d s] by simp

lemma roundTripLoop_probe: "cs_probe (snd (roundTripLoop env c build a le s)) = cs_probe s"
proof (rule roundTripLoop_rule [where Q = "\<lambda>r s'. cs_probe s' = cs_probe s"
      and I = "\<lambda>a le s'. cs_probe s' = cs_probe s" and J = "\<lambda>a le s'. cs_probe s' = cs_probe s"])
qed (auto simp: recordFailureAt_def dest: attemptOnce_probe sleepWithContext_probe)

lemma roundTrip_probe: "cs_probe (snd (roundTrip env c build s)) = cs_probe s"
proof (cases "beforeRequest (he_now env (cs_world s)) (cs_breaker s)")
  case (Pair x b)
  then show ?thesis by (cases x) (simp_all add: roundTrip_def roundTripLoop_probe)
qed

lemma roundTrip_probe': "roundTrip env c build s = (r, s') \<Longrightarrow> cs_probe s' = cs_probe s"
  using roundTrip_probe [of env c build s] by simp

lemma roundTripWithReauth_probe:
  "roundTripWithReauth env c build s = (r, s') \<Longrightarrow> cs_probe s' = cs_probe s"
  by (auto simp: roundTripWithReauth_def dest!: roundTrip_probe' split: if_splits sum.splits prod.splits)

lemma postMQSC_probe: "postMQSC env c body s = (r, s') \<Longrightarrow> cs_probe s' = cs_probe s"
  by (auto simp: postMQSC_def dest: roundTripWithReauth_probe split: sum.splits prod.splits)

lemma Probe_probe:
  "ProbeQueueLocalAttributeDisplayable env c q a s = (r, s') \<Longrightarrow> cs_probe s' = cs_probe s"
  by (auto simp: ProbeQueueLocalAttributeDisplayable_def runCommandJSON_def Let_def dest: postMQSC_probe
      split: if_splits prod.splits option.splits)

lemma probeCached:
  assumes "probeQueueLocalDisplayableCached env c attr s = (Inr d, s')"
  shows "map_of (cs_probe s') attr = Some d \<and> map_of (cs_probe s) \<subseteq>\<^sub>m map_of (cs_probe s')"
  using assms
  by (auto simp: probeQueueLocalDisplayableCached_def map_le_def dest!: Probe_probe
      split: option.splits sum.splits prod.splits)

lemma probeCandidates_result:
  assumes "probeCandidates env c attrs base s = (Inr keys, s')"
  shows "(\<forall>a \<in> set attrs. map_of (cs_probe s') a \<noteq> None) \<and>
         keys = base @ filter (\<lambda>a. map_of (cs_probe s') a = Some True) attrs \<and>
         map_of (cs_probe s) \<subseteq>\<^sub>m map_of (cs_probe s')"
  using assms
proof (induction attrs arbitrary: base s)
  case Nil
  then show ?case by simp
next
  case (Cons a attrs)
  obtain x s1 where p: "probeQueueLocalDisplayableCached env c a s = (x, s1)" by fastforce
  with Cons.prems obtain d where d: "x = Inr d" by (cases x) auto
  with p Cons.prems have
    rest: "probeCandidates env c attrs (if d then base @ [a] else base) s1 = (Inr keys, s')" by simp
  note IH = Cons.IH [OF rest]
  have c: "map_of (cs_probe s1) a = Some d \<and> map_of (cs_probe s) \<subseteq>\<^sub>m map_of (cs_probe s1)"
    using probeCached p d by blast
  then have a: "map_of (cs_probe s') a = Some d" using IH by (metis domI map_le_def)
  have "map_of (cs_probe s) \<subseteq>\<^sub>m map_of (cs_probe s')" using c IH map_le_trans by blast
  with IH a show ?case by simp
qed

lemma probeCandidates_cached:
  assumes "\<forall>a \<in> set attrs. map_of (cs_probe s) a \<noteq> None"
  shows "probeCandidates env c attrs base s
    = (Inr (base @ filter (\<lambda>a. map_of (cs_probe s) a = Some True) attrs), s)"
  using assms
  by (induction attrs arbitrary: base) (auto simp: probeQueueLocalDisplayableCached_def)

text \<open>The display-capability cache is stable. Once the drift keys of a local queue have been
  resolved, resolving them again, against any server and at any time, returns the same keys and
  sends no request; the keys are the static DISPLAY list followed by the candidates that were
  found displayable. A failed probe is not cached.\<close>

theorem drift_keys_cached:
  "(ResolveQueueDriftCheckKeys env c t s = (Inr keys, s') \<longrightarrow>
      ResolveQueueDriftCheckKeys env' c t s' = (Inr keys, s') \<and>
      set (QueueDriftCheckKeys t) \<subseteq> set keys \<and>
      set keys \<subseteq> set (QueueDriftCheckKeys t) \<union> set QueueLocalDefineOnlyCandidates) \<and>
   (probeQueueLocalDisplayableCached env c a s = (Inl e, s') \<longrightarrow> cs_probe s' = cs_probe s)"
proof (intro conjI impI)
  assume r: "ResolveQueueDriftCheckKeys env c t s = (Inr keys, s')"
  have *: "ResolveQueueDriftCheckKeys env' c t s' = (Inr keys, s') \<and>
      set (QueueDriftCheckKeys t) \<subseteq> set keys \<and>
      set keys \<subseteq> set (QueueDriftCheckKeys t) \<union> set QueueLocalDefineOnlyCandidates"
  proof (cases "NormalizeQueueType t = QueueTypeLocal")
    case False
    with r show ?thesis by (auto simp: ResolveQueueDriftCheckKeys_def QueueDriftCheckKeys_def)
  next
    case True
    then have "QueueDriftCheckKeys t = queueLocalDisplayParameters"
      by (simp add: QueueDriftCheckKeys_def queueDisplayParameters_def)
    moreover have p: "probeCandidates env c QueueLocalDefineOnlyCandidates queueLocalDisplayParameters s
        = (Inr keys, s')"
      using r True by (simp add: ResolveQueueDriftCheckKeys_def queueLocalDisplayParametersResolved_def)
    ultimately show ?thesis
      using True probeCandidates_result [OF p]
      by (auto simp: ResolveQueueDriftCheckKeys_def queueLocalDisplayParametersResolved_def
          probeCandidates_cached)
  qed
  then show "ResolveQueueDriftCheckKeys env' c t s' = (Inr keys, s')" by blast
  from * show "set (QueueDriftCheckKeys t) \<subseteq> set keys" by blast
  from * show "set keys \<subseteq> set (QueueDriftCheckKeys t) \<union> set QueueLocalDefineOnlyCandidates" by blast
next
  assume "probeQueueLocalDisplayableCached env c a s = (Inl e, s')"
  then show "cs_probe s' = cs_probe s"
    by (auto simp: probeQueueLocalDisplayableCached_def dest: Probe_probe
        split: option.splits sum.splits prod.splits)
qed

definition ok_response :: mqscResponse where
  "ok_response = \<lparr>mr_CommandResponse = [], mr_OverallCompletionCode = 0, mr_OverallReasonCode = 0, mr_Error = []\<rparr>"

definition ok_env :: "nat http_env" where
  "ok_env = (const_env \<lparr>rs_StatusCode = 200, rs_Body = Inr [], rs_Cookies = []\<rparr>)
     \<lparr>he_unmarshalMQSC := (\<lambda>b. Inr ok_response)\<rparr>"

theorem drift_keys_cached_witness:
  "\<forall>env. ResolveQueueDriftCheckKeys env basic_client ''local''
       (snd (ResolveQueueDriftCheckKeys ok_env basic_client ''local'' (fresh_state 0)))
     = (Inr (queueLocalDisplayParameters @ QueueLocalDefineOnlyCandidates),
        snd (ResolveQueueDriftCheckKeys ok_env basic_client ''local'' (fresh_state 0)))"
proof
  fix env :: "nat http_env"
  let ?r = "ResolveQueueDriftCheckKeys ok_env basic_client ''local'' (fresh_state 0)"
  have "fst ?r = Inr (queueLocalDisplayParameters @ QueueLocalDefineOnlyCandidates)" by code_simp
  then have "?r = (Inr (queueLocalDisplayParameters @ QueueLocalDefineOnlyCandidates), snd ?r)"
    by (metis prod.collapse)
  then show "ResolveQueueDriftCheckKeys env basic_client ''local'' (snd ?r)
     = (Inr (queueLocalDisplayParameters @ QueueLocalDefineOnlyCandidates), snd ?r)"
    using drift_keys_cached [where env = ok_env and c = basic_client and t = "''local''"
        and s = "fresh_state 0" and env' = env] by blast
qed

end
