(* ===== verification/Convergence.thy ===== *)
theory Convergence
  imports MQ_Client
begin

text \<open>
  Convergence of attribute reconciliation: what the adapter sends on DEFINE
  (\<open>mqsc_params.go\<close>), reads back on DISPLAY (\<open>mqsc_types.go\<close>) and compares
  (\<open>attrmatch.go\<close>) fit together. \<open>display_echo\<close> is the answer of a queue manager that stored
  the parameters of a DEFINE and reports those among the requested ones; numbers come back as
  decimal text.
\<close>

definition display_echo :: "params \<Rightarrow> string list \<Rightarrow> mqscResponse" where
  "display_echo params keys =
     \<lparr>mr_CommandResponse =
        [\<lparr>cr_CompletionCode = 0, cr_ReasonCode = 0, cr_Message = [], cr_Text = [],
          cr_Parameters = map (\<lambda>k. (k, getany params k)) (filter (\<lambda>k. map_of params k \<noteq> None) keys)\<rparr>],
      mr_OverallCompletionCode = 0, mr_OverallReasonCode = 0, mr_Error = []\<rparr>"

definition echo_attributes :: "params \<Rightarrow> string list \<Rightarrow> attrs" where
  "echo_attributes params keys = collectAttributes (mr_CommandResponse (display_echo params keys))"

lemma firstObjectAttributes_echo:
  "firstObjectAttributes (display_echo params keys) = Inr (echo_attributes params keys)"
  by (simp add: firstObjectAttributes_def display_echo_def echo_attributes_def overallFailed_def)

lemma map_of_collect_single:
  assumes "distinct (map (ToLower \<circ> fst) (cr_Parameters cr))"
  shows "map_of (collectAttributes [cr]) = map_of (map (\<lambda>(k, v). (ToLower k, Sprint v)) (cr_Parameters cr))"
proof -
  have "distinct (map fst (map (\<lambda>(k, v). (ToLower k, Sprint v)) (cr_Parameters cr)))"
    using assms by (simp add: o_def case_prod_unfold)
  from map_of_rev_distinct [OF this] show ?thesis
    by (simp add: collectAttributes_def map_of_fold_update [where f = ToLower and g = "\<lambda>k v. Sprint v"])
qed

lemma map_of_echo:
  assumes "distinct (map ToLower keys)"
  shows "map_of (echo_attributes params keys)
    = map_of (map (\<lambda>k. (ToLower k, Sprint (getany params k))) (filter (\<lambda>k. map_of params k \<noteq> None) keys))"
proof -
  have "distinct (map ToLower (filter P keys))" for P
    using assms by (simp add: distinct_map_filter)
  then show ?thesis
    by (simp add: echo_attributes_def display_echo_def map_of_collect_single o_def)
qed

lemma map_of_echo_Some:
  assumes "distinct (map ToLower keys)" "k \<in> set keys" "map_of params k = Some v"
  shows "map_of (echo_attributes params keys) (ToLower k) = Some (Sprint v)"
proof -
  let ?l = "map (\<lambda>k. (ToLower k, Sprint (getany params k))) (filter (\<lambda>k. map_of params k \<noteq> None) keys)"
  have "distinct (map fst ?l)" using assms(1) by (simp add: o_def distinct_map_filter)
  moreover have "(ToLower k, Sprint v) \<in> set ?l"
    using assms(2,3) by (force simp: getany_def)
  ultimately have "map_of ?l (ToLower k) = Some (Sprint v)" by simp
  then show ?thesis using map_of_echo [OF assms(1)] by simp
qed

lemma getz_echo:
  "distinct (map ToLower keys) \<Longrightarrow> k \<in> set keys \<Longrightarrow> map_of params k = Some v \<Longrightarrow>
     getz (echo_attributes params keys) (ToLower k) = Sprint v"
  by (simp add: getz_def map_of_echo_Some)

lemma echo_absent:
  assumes "distinct (map ToLower keys)" "\<forall>k \<in> set keys. ToLower k \<noteq> x"
  shows "map_of (echo_attributes params keys) x = None"
  using assms(2) map_of_echo [OF assms(1)] by (auto simp: map_of_eq_None_iff)

section \<open>Numbers\<close>

lemma defineParameter_matches:
  assumes "set nk \<subseteq> set numericAttrKeys" "ToLower k \<noteq> ''topicstr''"
  shows "AttributeValueMatches k v (Sprint (defineParameter nk (ToLower k) v))"
proof (cases "ToLower k \<in> set nk \<and> Atoi v \<noteq> None")
  case False
  then have "Sprint (defineParameter nk (ToLower k) v) = v"
    by (auto simp: defineParameter_def split: option.split)
  then show ?thesis using mq_drift.matches_refl by simp
next
  case True
  then obtain n where n: "Atoi v = Some n" by auto
  then have "Sprint (defineParameter nk (ToLower k) v) = Itoa n"
    using True by (simp add: defineParameter_def)
  moreover have "NormalizeAttrKey k \<in> set numericAttrKeys"
    using True assms by (auto simp: NormalizeAttrKey_def Let_def)
  moreover have "Atoi (TrimSpace v) = Some n" "Atoi (TrimSpace (Itoa n)) = Some n"
    using n ParseInt_no_space [OF n] Atoi_Itoa_range [OF n] by simp_all
  ultimately show ?thesis using AttributeValueMatches_numeric by metis
qed

section \<open>The loop closes\<close>

lemma NormalizeAttrKey_plain: "ToLower k \<noteq> ''topicstr'' \<Longrightarrow> NormalizeAttrKey k = ToLower k"
  by (simp add: NormalizeAttrKey_def)

lemma lower_keys:
  "map ToLower (queueDisplayParameters t) = queueDisplayParameters t"
  "map NormalizeAttrKey (queueDisplayParameters t) = queueDisplayParameters t"
  "distinct (queueDisplayParameters t)"
  "map ToLower (channelDisplayParametersForType t) = channelDisplayParametersForType t"
  "map NormalizeAttrKey (channelDisplayParametersForType t) = channelDisplayParametersForType t"
  "distinct (channelDisplayParametersForType t)"
proof -
  have "map ToLower l = l \<and> map NormalizeAttrKey l = l \<and> distinct l"
    if "l \<in> {queueAliasDisplayParameters, queueRemoteDisplayParameters, queueLocalDisplayParameters,
             channelSdrDisplayParameters, channelRcvrDisplayParameters, channelSvrconnDisplayParameters}" for l
    using that by (elim insertE emptyE; simp only:; code_simp)
  then show "map ToLower (queueDisplayParameters t) = queueDisplayParameters t"
    "map NormalizeAttrKey (queueDisplayParameters t) = queueDisplayParameters t"
    "distinct (queueDisplayParameters t)"
    "map ToLower (channelDisplayParametersForType t) = channelDisplayParametersForType t"
    "map NormalizeAttrKey (channelDisplayParametersForType t) = channelDisplayParametersForType t"
    "distinct (channelDisplayParametersForType t)"
    by (simp_all add: queueDisplayParameters_def channelDisplayParametersForType_def Let_def)
qed

lemma not_topicstr:
  "''topicstr'' \<notin> set (queueDisplayParameters t)" "''topicstr'' \<notin> set (channelDisplayParametersForType t)"
  "''topstr'' \<notin> set (queueDisplayParameters t)" "''topstr'' \<notin> set (channelDisplayParametersForType t)"
  "''target'' \<notin> set (queueDisplayParameters t)" "''remotequeue'' \<notin> set (queueDisplayParameters t)"
  "''remotemanager'' \<notin> set (queueDisplayParameters t)" "''transmissionqueue'' \<notin> set (queueDisplayParameters t)"
  "''chltype'' \<notin> set (channelDisplayParametersForType t)"
  by (simp_all add: queueDisplayParameters_def channelDisplayParametersForType_def Let_def
      queueAliasDisplayParameters_def queueRemoteDisplayParameters_def queueLocalDisplayParameters_def
      channelSdrDisplayParameters_def channelRcvrDisplayParameters_def channelSvrconnDisplayParameters_def)

lemma NormalizeAttrKey_not_topstr:
  "NormalizeAttrKey k \<noteq> ''topstr'' \<Longrightarrow> ToLower k \<noteq> ''topicstr'' \<and> NormalizeAttrKey k = ToLower k"
  by (auto simp: NormalizeAttrKey_def Let_def split: if_splits)

text \<open>The general step, for a display list in normal form and parameters that agree with the
  attributes on it.\<close>

lemma echo_in_sync:
  assumes keys: "map ToLower keys = keys" "map NormalizeAttrKey keys = keys" "distinct keys" "''topstr'' \<notin> set keys"
    and nk: "set nk \<subseteq> set numericAttrKeys"
    and ps: "\<And>k v. (k, v) \<in> set attrs \<Longrightarrow> ToLower k \<in> set keys \<Longrightarrow>
               map_of params (ToLower k) = Some (defineParameter nk (ToLower k) v)"
    and obs: "\<And>k. k \<in> set keys \<Longrightarrow> getz observed k = getz (echo_attributes params keys) k"
  shows "\<not> AttributesNeedUpdate attrs observed keys"
proof -
  have "AttributeValueMatches k v (getz observed (NormalizeAttrKey k))"
    if kv: "(k, v) \<in> set attrs" "NormalizeAttrKey k \<in> driftCheckKeySet keys" for k v
  proof -
    have in_keys: "NormalizeAttrKey k \<in> set keys" using kv(2) keys(2) by (simp add: driftCheckKeySet_def)
    then have norm: "ToLower k \<noteq> ''topicstr''" "NormalizeAttrKey k = ToLower k"
      using keys(4) NormalizeAttrKey_not_topstr by metis+
    then have "getz observed (ToLower k) = Sprint (defineParameter nk (ToLower k) v)"
      using getz_echo [of keys "ToLower k" params] ps [OF kv(1)] in_keys keys(1,3) obs by simp
    with defineParameter_matches [OF nk norm(1)] norm(2) show ?thesis by simp
  qed
  then show ?thesis by (auto simp: AttributesNeedUpdate_iff mq_drift.in_sync_def)
qed

lemma queue_converges:
  assumes "distinct_lower attrs"
  shows "\<not> AttributesNeedUpdate attrs
      (normalizeQueueAttributes
         (echo_attributes (defineQueueParameters \<lparr>qs_Name = n, qs_Type = t, qs_Attributes = attrs\<rparr>)
            (QueueDriftCheckKeys t)) t)
      (QueueDriftCheckKeys t)"
proof -
  let ?ps = "defineQueueParameters \<lparr>qs_Name = n, qs_Type = t, qs_Attributes = attrs\<rparr>"
  let ?keys = "queueDisplayParameters t"
  have absent: "map_of (echo_attributes ?ps ?keys) x = None" if "x \<notin> set ?keys" for x
    using that lower_keys(1,3) [of t]
    by (intro echo_absent) (simp_all, metis list.set_map image_eqI)
  have norm: "normalizeQueueAttributes (echo_attributes ?ps ?keys) t = echo_attributes ?ps ?keys"
    using absent not_topicstr(5-8) [of t]
    by (simp add: normalizeQueueAttributes_def aliasAttribute_def Let_def)
  have "\<not> AttributesNeedUpdate attrs (echo_attributes ?ps ?keys) ?keys"
  proof (rule echo_in_sync [where nk = queueNumericParameters and params = ?ps])
    show "set queueNumericParameters \<subseteq> set numericAttrKeys" by code_simp
    show "map_of ?ps (ToLower k) = Some (defineParameter queueNumericParameters (ToLower k) v)"
      if "(k, v) \<in> set attrs" for k v
      using defineObjectParameters_value [OF assms that] by (simp add: defineQueueParameters_def)
  qed (simp_all add: lower_keys not_topicstr)
  then show ?thesis using norm by (simp add: QueueDriftCheckKeys_def)
qed

lemma channel_converges:
  assumes "distinct_lower attrs"
  shows "\<not> AttributesNeedUpdate attrs
      (echo_attributes (defineChannelParameters \<lparr>chs_Name = n, chs_Type = t, chs_Attributes = attrs\<rparr>)
         (ChannelDriftCheckKeys t))
      (ChannelDriftCheckKeys t)"
  unfolding ChannelDriftCheckKeys_def
proof (rule echo_in_sync [where nk = channelNumericParameters
      and params = "defineChannelParameters \<lparr>chs_Name = n, chs_Type = t, chs_Attributes = attrs\<rparr>"])
  show "set channelNumericParameters \<subseteq> set numericAttrKeys" by code_simp
  show "map_of (defineChannelParameters \<lparr>chs_Name = n, chs_Type = t, chs_Attributes = attrs\<rparr>) (ToLower k)
      = Some (defineParameter channelNumericParameters (ToLower k) v)"
    if "(k, v) \<in> set attrs" "ToLower k \<in> set (channelDisplayParametersForType t)" for k v
  proof -
    have "ToLower k \<noteq> ''chltype''" using that(2) not_topicstr(9) [of t] by metis
    then show ?thesis
      using defineObjectParameters_value [OF assms that(1)] by (simp add: defineChannelParameters_def Let_def)
  qed
qed (simp_all add: lower_keys not_topicstr)

lemma topic_parameter:
  assumes "distinct_lower attrs" "(k, v) \<in> set attrs" "\<forall>(k, v) \<in> set attrs. ToLower k \<noteq> ''topicstr''"
  shows "ToLower k = ''topstr'' \<Longrightarrow>
           map_of (defineTopicParameters \<lparr>ts_Name = n, ts_Attributes = attrs\<rparr>) attrTopicStr = Some (AnyString v)"
    and "ToLower k \<in> {''pub'', ''sub''} \<Longrightarrow>
           map_of (defineTopicParameters \<lparr>ts_Name = n, ts_Attributes = attrs\<rparr>) (ToLower k)
             = Some (AnyString (ToUpper v))"
    and "ToLower k \<in> {''descr'', ''defpsist'', ''pubscope'', ''subscope''} \<Longrightarrow>
           map_of (defineTopicParameters \<lparr>ts_Name = n, ts_Attributes = attrs\<rparr>) (ToLower k) = Some (AnyString v)"
proof -
  let ?p = "defineObjectParameters attrs []"
  have v: "map_of ?p (ToLower k) = Some (AnyString v)"
    using defineObjectParameters_value [OF assms(1,2), of "[]"] by (simp add: defineParameter_def)
  define q where "q = (case map_of ?p attrTopstr of
       Some v \<Rightarrow> AList.delete attrTopstr (AList.update attrTopicStr v ?p) | None \<Rightarrow> ?p)"
  have q: "map_of q x = map_of ?p x" if "x \<noteq> attrTopstr" "x \<noteq> attrTopicStr" for x
    using that by (simp add: q_def split: option.split)
  have u: "map_of (upperParameter y ps) x
      = (if x = y then map_option (\<lambda>v. AnyString (ToUpper (Sprint v))) (map_of ps x) else map_of ps x)" for x y ps
    by (auto simp: upperParameter_def split: option.split)
  have t: "defineTopicParameters \<lparr>ts_Name = n, ts_Attributes = attrs\<rparr>
      = upperParameter ''sub'' (upperParameter ''pub'' q)"
    by (simp add: defineTopicParameters_def mapTopicRESTParameters_def q_def)
  show "map_of (defineTopicParameters \<lparr>ts_Name = n, ts_Attributes = attrs\<rparr>) attrTopicStr = Some (AnyString v)"
    if "ToLower k = ''topstr''" using that v by (simp add: t u) (simp add: q_def)
  show "map_of (defineTopicParameters \<lparr>ts_Name = n, ts_Attributes = attrs\<rparr>) (ToLower k) = Some (AnyString (ToUpper v))"
    if "ToLower k \<in> {''pub'', ''sub''}" using that v q [of "ToLower k"] by (auto simp: t u)
  show "map_of (defineTopicParameters \<lparr>ts_Name = n, ts_Attributes = attrs\<rparr>) (ToLower k) = Some (AnyString v)"
    if "ToLower k \<in> {''descr'', ''defpsist'', ''pubscope'', ''subscope''}"
    using that v q [of "ToLower k"] by (auto simp: t u)
qed

lemma topic_keys:
  "distinct (map ToLower topicDisplayParameters)"
  "driftCheckKeySet topicDisplayParameters
     = {''topstr'', ''descr'', ''pub'', ''sub'', ''defpsist'', ''pubscope'', ''subscope''}"
  by code_simp+

lemma topic_converges:
  assumes "distinct_lower attrs" "\<forall>(k, v) \<in> set attrs. ToLower k \<noteq> ''topicstr''"
  shows "\<not> AttributesNeedUpdate attrs
      (normalizeTopicAttributes
         (echo_attributes (defineTopicParameters \<lparr>ts_Name = n, ts_Attributes = attrs\<rparr>) topicDisplayParameters))
      TopicDriftCheckKeys"
proof -
  let ?ps = "defineTopicParameters \<lparr>ts_Name = n, ts_Attributes = attrs\<rparr>"
  let ?e = "echo_attributes ?ps topicDisplayParameters"
  have lower: "ToLower x = x" if "x \<in> {''pub'', ''sub'', ''descr'', ''defpsist'', ''pubscope'', ''subscope''}" for x
    using that by (elim insertE emptyE; simp only:; code_simp)
  have tl: "ToLower attrTopicStr = ''topicstr''" by code_simp
  have other: "getz (normalizeTopicAttributes ?e) x = getz ?e x" if "x \<noteq> ''topstr''" for x
    using that by (simp add: normalizeTopicAttributes_def split: option.split)
  have "AttributeValueMatches k v (getz (normalizeTopicAttributes ?e) (NormalizeAttrKey k))"
    if kv: "(k, v) \<in> set attrs" "NormalizeAttrKey k \<in> driftCheckKeySet topicDisplayParameters" for k v
  proof -
    have nk: "NormalizeAttrKey k = ToLower k" using assms(2) kv(1) by (auto intro: NormalizeAttrKey_plain)
    note param = topic_parameter [OF assms(1) kv(1) assms(2), of n]
    consider "ToLower k = ''topstr''" | "ToLower k \<in> {''pub'', ''sub''}"
      | "ToLower k \<in> {''descr'', ''defpsist'', ''pubscope'', ''subscope''}"
      using kv(2) nk topic_keys(2) by auto
    then show ?thesis
    proof cases
      case 1
      then have "map_of ?e (ToLower attrTopicStr) = Some v"
        using map_of_echo_Some [OF topic_keys(1) _ param(1)] by (simp add: topicDisplayParameters_def)
      then show ?thesis
        using 1 nk mq_drift.matches_refl by (simp add: normalizeTopicAttributes_def)
    next
      case 2
      then have "getz ?e (ToLower k) = ToUpper v"
        using getz_echo [OF topic_keys(1) _ param(2)] lower by (auto simp: topicDisplayParameters_def)
      moreover have "NormalizeAttrKey k \<in> set caseInsensitiveAttrKeys"
        using 2 nk by (auto simp: caseInsensitiveAttrKeys_def)
      ultimately show ?thesis
        using 2 nk other [of "ToLower k"] AttributeValueMatches_ToUpper mq_drift.matches_refl
          mq_drift.matches_sym by auto
    next
      case 3
      then have "getz ?e (ToLower k) = v"
        using getz_echo [OF topic_keys(1) _ param(3)] lower by (auto simp: topicDisplayParameters_def)
      with 3 show ?thesis using nk other [of "ToLower k"] mq_drift.matches_refl by auto
    qed
  qed
  then show ?thesis by (auto simp: AttributesNeedUpdate_iff mq_drift.in_sync_def TopicDriftCheckKeys_def)
qed

end
