(* ===== verification/API_Types.thy ===== *)
theory API_Types
  imports MQ_Errors
begin

text \<open>
  The custom resources of \<open>api/v1beta1\<close>: object metadata, conditions, the five workload kinds
  and \<open>QueueManagerConnection\<close>. A workload is one record \<open>workload\<close> with the parts that all
  five kinds share (metadata, connection reference, suspension, lifecycle policies, status) and
  a kind-specific spec as a type parameter; the Go structs repeat the shared parts in every kind.
  Optional pointers are \<open>option\<close>; Go string enums stay strings.
\<close>

section \<open>Constants\<close>

abbreviation "ConditionReady \<equiv> ''Ready''"
abbreviation "ConditionSynced \<equiv> ''Synced''"
abbreviation "ConditionTrue \<equiv> ''True''"
abbreviation "ConditionFalse \<equiv> ''False''"

abbreviation "ReasonAvailable \<equiv> ''Available''"
abbreviation "ReasonProgressing \<equiv> ''Progressing''"
abbreviation "ReasonError \<equiv> ''Error''"
abbreviation "ReasonTerminalError \<equiv> ''TerminalError''"
abbreviation "ReasonDeleting \<equiv> ''Deleting''"
abbreviation "ReasonDriftDetected \<equiv> ''DriftDetected''"
abbreviation "ReasonOrphaned \<equiv> ''Orphaned''"
abbreviation "ReasonAdoptionConflict \<equiv> ''AdoptionConflict''"
abbreviation "ReasonAlreadyExists \<equiv> ''AlreadyExists''"
abbreviation "ReasonSuspended \<equiv> ''Suspended''"

abbreviation "ReconcileRequestedAtAnnotation \<equiv> ''messaging.mkurator.dev/reconcile-requested-at''"
abbreviation "ForceOrphanAnnotation \<equiv> ''messaging.mkurator.dev/force-orphan''"
abbreviation "DriftPolicyAnnotation \<equiv> ''messaging.mkurator.dev/drift-policy''"
abbreviation "DriftPolicyObserveOnly \<equiv> ''observe-only''"
abbreviation "AllowInsecureTLSAnnotation \<equiv> ''messaging.mkurator.dev/allow-insecure-tls''"
abbreviation "QueueManagerConnectionFinalizer \<equiv> ''messaging.mkurator.dev/connection''"
abbreviation "QueueFinalizer \<equiv> ''messaging.mkurator.dev/queue''"
abbreviation "TopicFinalizer \<equiv> ''messaging.mkurator.dev/topic''"
abbreviation "ChannelFinalizer \<equiv> ''messaging.mkurator.dev/channel''"
abbreviation "ChannelAuthRuleFinalizer \<equiv> ''messaging.mkurator.dev/channelauthrule''"
abbreviation "AuthorityRecordFinalizer \<equiv> ''messaging.mkurator.dev/authorityrecord''"

abbreviation "DeletionPolicyDelete \<equiv> ''Delete''"
abbreviation "DeletionPolicyOrphan \<equiv> ''Orphan''"
abbreviation "AdoptionPolicyAdopt \<equiv> ''Adopt''"
abbreviation "AdoptionPolicyAdoptIfMatching \<equiv> ''AdoptIfMatching''"
abbreviation "AdoptionPolicyFailIfExists \<equiv> ''FailIfExists''"

section \<open>Metadata, conditions and status\<close>

record ObjectMeta =
  om_Namespace :: string
  om_Name :: string
  om_UID :: string
  om_Generation :: int
  om_ResourceVersion :: string
  om_Deleting :: bool
  om_Finalizers :: "string list"
  om_Annotations :: attrs

record Condition =
  cn_Type :: string
  cn_Status :: string
  cn_Reason :: string
  cn_Message :: string
  cn_ObservedGeneration :: int

record WorkloadLifecyclePolicies =
  lp_DeletionPolicy :: string
  lp_AdoptionPolicy :: string

record MQObjectStatus =
  st_Conditions :: "Condition list"
  st_ObservedGeneration :: int
  st_DesiredMQSC :: string
  st_Message :: string
  st_LastSyncTime :: "int option"
  st_MQObjectExists :: "bool option"

record 'spec workload =
  w_meta :: ObjectMeta
  w_ConnectionRef :: string
  w_Suspend :: bool
  w_policies :: WorkloadLifecyclePolicies
  w_Spec :: 'spec
  w_Status :: MQObjectStatus

section \<open>Workload specs\<close>

record QueueSpecCR =
  q_QueueName :: string
  q_Type :: string
  q_Attributes :: attrs
  q_MaxDepth :: "int option"
  q_Description :: string
  q_DefPersistence :: string
  q_Get :: string
  q_Put :: string
  q_TargetQueue :: string
  q_XmitQueue :: string
  q_RemoteQueueManager :: string

record TopicSpecCR =
  t_TopicName :: string
  t_Attributes :: attrs
  t_TopicString :: string
  t_Description :: string
  t_Publish :: string
  t_Subscribe :: string
  t_DefPersistence :: string
  t_PublishScope :: string
  t_SubscribeScope :: string

record ChannelSpecCR =
  ch_ChannelName :: string
  ch_Type :: string
  ch_Attributes :: attrs
  ch_Description :: string
  ch_MaxMsgLength :: "int option"
  ch_TransportType :: string
  ch_ShareConv :: "int option"
  ch_McaUser :: string
  ch_MaxInstances :: "int option"
  ch_MaxInstancesClient :: "int option"
  ch_SslCipherSpec :: string
  ch_SslClientAuth :: string
  ch_ConnName :: string
  ch_XmitQueue :: string

record ChannelAuthRuleSpecCR =
  r_ChannelName :: string
  r_RuleType :: string
  r_Address :: string
  r_UserList :: string
  r_ClientUser :: string
  r_SslPeerName :: string
  r_RemoteQueueManager :: string
  r_McaUser :: string
  r_UserSource :: string
  r_CheckClient :: string
  r_Description :: string

record AuthorityRecordSpecCR =
  a_Profile :: string
  a_ObjectType :: string
  a_Principal :: string
  a_Group :: string
  a_Authorities :: "string list"

type_synonym Queue = "QueueSpecCR workload"
type_synonym Topic = "TopicSpecCR workload"
type_synonym Channel = "ChannelSpecCR workload"
type_synonym ChannelAuthRule = "ChannelAuthRuleSpecCR workload"
type_synonym AuthorityRecord = "AuthorityRecordSpecCR workload"

section \<open>Connections and secrets\<close>

abbreviation "MQWebAuthenticationModeBasic \<equiv> ''Basic''"
abbreviation "MQWebAuthenticationModeLTPA \<equiv> ''LTPA''"
abbreviation "MQWebAuthenticationModeClientCert \<equiv> ''ClientCert''"

text \<open>The three union members hold one secret reference each, kept as the secret's name.\<close>

record MQWebAuthentication =
  ma_Mode :: string
  ma_Basic :: "string option"
  ma_LTPA :: "string option"
  ma_ClientCert :: "string option"

record TLSConfig =
  tls_InsecureSkipVerify :: bool
  tls_CASecretRef :: "string option"

record QueueManagerConnection =
  c_meta :: ObjectMeta
  qm_QueueManager :: string
  qm_Endpoint :: string
  qm_RESTPrefix :: string
  qm_TLS :: "TLSConfig option"
  qm_CredentialsSecretRef :: "string option"
  qm_Authentication :: "MQWebAuthentication option"
  qm_Conditions :: "Condition list"
  qm_ObservedGeneration :: int

record Secret =
  s_meta :: ObjectMeta
  s_Data :: attrs
  s_StringData :: attrs

section \<open>The apimachinery functions the operator calls\<close>

text \<open>
  \<open>meta.SetStatusCondition\<close> and the three \<open>controllerutil\<close> functions on finalizers are code of
  other modules: they are parameters of every definition that uses them. \<open>k8s_lib_laws\<close> states
  their documented behaviour, as far as a property relies on it.
\<close>

record k8s_lib =
  SetStatusCondition :: "Condition \<Rightarrow> Condition list \<Rightarrow> Condition list"
  ContainsFinalizer :: "string \<Rightarrow> string list \<Rightarrow> bool"
  AddFinalizer :: "string \<Rightarrow> string list \<Rightarrow> string list"
  RemoveFinalizer :: "string \<Rightarrow> string list \<Rightarrow> string list"

definition findCondition :: "Condition list \<Rightarrow> string \<Rightarrow> Condition option" where
  "findCondition conditions condType = find (\<lambda>c. cn_Type c = condType) conditions"

definition k8s_lib_laws :: "k8s_lib \<Rightarrow> bool" where
  "k8s_lib_laws lib \<longleftrightarrow>
     (\<forall>c cs. findCondition (SetStatusCondition lib c cs) (cn_Type c) = Some c) \<and>
     (\<forall>c cs ty. ty \<noteq> cn_Type c \<longrightarrow>
        findCondition (SetStatusCondition lib c cs) ty = findCondition cs ty) \<and>
     (\<forall>c cs. distinct (map cn_Type cs) \<longrightarrow> distinct (map cn_Type (SetStatusCondition lib c cs))) \<and>
     (\<forall>f fs. ContainsFinalizer lib f fs \<longleftrightarrow> f \<in> set fs) \<and>
     (\<forall>f fs. set (AddFinalizer lib f fs) = insert f (set fs)) \<and>
     (\<forall>f fs. set (RemoveFinalizer lib f fs) = set fs - {f})"

lemma k8s_lib_laws_simps:
  assumes "k8s_lib_laws lib"
  shows "findCondition (SetStatusCondition lib c cs) (cn_Type c) = Some c"
    and "ty \<noteq> cn_Type c \<Longrightarrow> findCondition (SetStatusCondition lib c cs) ty = findCondition cs ty"
    and "ContainsFinalizer lib f fs \<longleftrightarrow> f \<in> set fs"
    and "set (AddFinalizer lib f fs) = insert f (set fs)"
    and "set (RemoveFinalizer lib f fs) = set fs - {f}"
    and "distinct (map cn_Type cs) \<Longrightarrow> distinct (map cn_Type (SetStatusCondition lib c cs))"
  using assms unfolding k8s_lib_laws_def by simp_all

text \<open>An instance: the condition of the type is replaced in place or appended.\<close>

fun set_condition_in_place :: "Condition \<Rightarrow> Condition list \<Rightarrow> Condition list" where
  "set_condition_in_place c [] = [c]"
| "set_condition_in_place c (d # ds) =
     (if cn_Type d = cn_Type c then c # ds else d # set_condition_in_place c ds)"

definition example_lib :: k8s_lib where
  "example_lib =
     \<lparr>SetStatusCondition = set_condition_in_place,
      ContainsFinalizer = (\<lambda>f fs. f \<in> set fs),
      AddFinalizer = (\<lambda>f fs. if f \<in> set fs then fs else fs @ [f]),
      RemoveFinalizer = (\<lambda>f fs. filter (\<lambda>g. g \<noteq> f) fs)\<rparr>"

lemma set_condition_in_place_find:
  "findCondition (set_condition_in_place c cs) ty
     = (if ty = cn_Type c then Some c else findCondition cs ty)"
  by (induction cs) (auto simp: findCondition_def)

lemma set_condition_in_place_types:
  "set (map cn_Type (set_condition_in_place c cs)) = insert (cn_Type c) (set (map cn_Type cs))"
  by (induction cs) auto

lemma set_condition_in_place_distinct:
  "distinct (map cn_Type cs) \<Longrightarrow> distinct (map cn_Type (set_condition_in_place c cs))"
  by (induction cs) (auto simp: set_condition_in_place_types [unfolded set_map])

lemma example_lib_laws: "k8s_lib_laws example_lib"
  using set_condition_in_place_distinct
  by (auto simp: k8s_lib_laws_def example_lib_def set_condition_in_place_find)

text \<open>The API server keeps the conditions as a map by type.\<close>

lemma findCondition_unique:
  assumes "distinct (map cn_Type cs)"
  shows "list_ex (\<lambda>c. cn_Type c = ty \<and> P c) cs \<longleftrightarrow> (\<exists>c. findCondition cs ty = Some c \<and> P c)"
  using assms
proof (induction cs)
  case (Cons d ds)
  then have "cn_Type d \<notin> cn_Type ` set ds" by simp
  then have "\<not> list_ex (\<lambda>c. cn_Type c = cn_Type d \<and> P c) ds" by (auto simp: list_ex_iff image_iff)
  with Cons show ?case by (auto simp: findCondition_def)
qed (simp add: findCondition_def)

end
