(* ===== verification/Reconcile_Shared.thy ===== *)
theory Reconcile_Shared
  imports API_Types MQSC_Auth
begin

text \<open>
  What the five workload reconcilers share: \<open>internal/controller/reconcile_shared.go\<close>,
  \<open>status_helpers.go\<close>, \<open>conditions.go\<close>, \<open>events.go\<close>, \<open>adoption_policy.go\<close>,
  \<open>drift_policy.go\<close>, \<open>lifecycle_policy.go\<close>, \<open>suspend.go\<close>, \<open>drift_resync.go\<close> and
  \<open>reconcile_intervals.go\<close>.

  The API server, the client factory, the clock and the source of jitter are the record \<open>kube\<close>,
  whose state is the type variable \<open>'w\<close>: any failure, conflict or stale read of the API server
  is an instance. \<open>Admin\<close> is the port of \<open>mqadmin.Admin\<close>. The effects a reconcile has on the
  outside (events, status writes, object writes, changes on the queue manager) are also logged
  in order in \<open>rs_log\<close>, newest first, for stating properties; the log influences nothing.
  The event recorder is present, as in production.
\<close>

section \<open>Intervals\<close>

record intervals =
  connectionWaitInterval :: int
  transientRequeueInterval :: int
  terminalRetryInterval :: int
  driftResyncLower :: int
  driftResyncUpper :: int

definition defaultIntervals :: intervals where
  "defaultIntervals =
     \<lparr>connectionWaitInterval = 15 * Second, transientRequeueInterval = 30 * Second,
      terminalRetryInterval = 2 * Minute, driftResyncLower = 5 * Minute, driftResyncUpper = 10 * Minute\<rparr>"

definition SetConnectionWaitInterval :: "int \<Rightarrow> intervals \<Rightarrow> intervals" where
  "SetConnectionWaitInterval d iv = (if d \<le> 0 then iv else iv\<lparr>connectionWaitInterval := d\<rparr>)"

definition SetTransientRequeueInterval :: "int \<Rightarrow> intervals \<Rightarrow> intervals" where
  "SetTransientRequeueInterval d iv = (if d \<le> 0 then iv else iv\<lparr>transientRequeueInterval := d\<rparr>)"

definition SetTerminalRetryInterval :: "int \<Rightarrow> intervals \<Rightarrow> intervals" where
  "SetTerminalRetryInterval d iv = (if d \<le> 0 then iv else iv\<lparr>terminalRetryInterval := d\<rparr>)"

definition SetDriftResyncInterval :: "int \<Rightarrow> int \<Rightarrow> intervals \<Rightarrow> intervals" where
  "SetDriftResyncInterval lower upper iv =
     (if lower \<le> 0 \<or> upper \<le> 0 \<or> lower > upper then iv
      else iv\<lparr>driftResyncLower := lower, driftResyncUpper := upper\<rparr>)"

definition intervals_ok :: "intervals \<Rightarrow> bool" where
  "intervals_ok iv \<longleftrightarrow>
     0 < connectionWaitInterval iv \<and> 0 < transientRequeueInterval iv \<and> 0 < terminalRetryInterval iv \<and>
     0 < driftResyncLower iv \<and> driftResyncLower iv \<le> driftResyncUpper iv"

lemma intervals_ok_default: "intervals_ok defaultIntervals"
  by (simp add: intervals_ok_def defaultIntervals_def Second_def Minute_def)

lemma intervals_ok_set:
  "intervals_ok iv \<Longrightarrow> intervals_ok (SetConnectionWaitInterval d iv)"
  "intervals_ok iv \<Longrightarrow> intervals_ok (SetTransientRequeueInterval d iv)"
  "intervals_ok iv \<Longrightarrow> intervals_ok (SetTerminalRetryInterval d iv)"
  "intervals_ok iv \<Longrightarrow> intervals_ok (SetDriftResyncInterval l u iv)"
  by (auto simp: intervals_ok_def SetConnectionWaitInterval_def SetTransientRequeueInterval_def
      SetTerminalRetryInterval_def SetDriftResyncInterval_def)

section \<open>Ports\<close>

text \<open>\<open>mqadmin.Admin\<close>, with the drift keys of a queue, which the reconciler resolves through it.\<close>

record 'w Admin =
  ad_Ping :: "'w \<Rightarrow> mq_error option \<times> 'w"
  ad_GetQueue :: "QueueSpec \<Rightarrow> 'w \<Rightarrow> ObjectState result \<times> 'w"
  ad_DefineQueue :: "QueueSpec \<Rightarrow> 'w \<Rightarrow> mq_error option \<times> 'w"
  ad_DeleteQueue :: "QueueSpec \<Rightarrow> 'w \<Rightarrow> mq_error option \<times> 'w"
  ad_QueueDriftKeys :: "string \<Rightarrow> 'w \<Rightarrow> string list result \<times> 'w"
  ad_GetTopic :: "string \<Rightarrow> 'w \<Rightarrow> ObjectState result \<times> 'w"
  ad_DefineTopic :: "TopicSpec \<Rightarrow> 'w \<Rightarrow> mq_error option \<times> 'w"
  ad_DeleteTopic :: "string \<Rightarrow> 'w \<Rightarrow> mq_error option \<times> 'w"
  ad_GetChannel :: "ChannelSpec \<Rightarrow> 'w \<Rightarrow> ObjectState result \<times> 'w"
  ad_DefineChannel :: "ChannelSpec \<Rightarrow> 'w \<Rightarrow> mq_error option \<times> 'w"
  ad_DeleteChannel :: "ChannelSpec \<Rightarrow> 'w \<Rightarrow> mq_error option \<times> 'w"
  ad_GetChannelAuth :: "ChannelAuthSpec \<Rightarrow> 'w \<Rightarrow> ChannelAuthState result \<times> 'w"
  ad_SetChannelAuth :: "ChannelAuthSpec \<Rightarrow> 'w \<Rightarrow> mq_error option \<times> 'w"
  ad_DeleteChannelAuth :: "ChannelAuthSpec \<Rightarrow> 'w \<Rightarrow> mq_error option \<times> 'w"
  ad_GetAuthority :: "AuthoritySpec \<Rightarrow> 'w \<Rightarrow> AuthorityState result \<times> 'w"
  ad_SetAuthority :: "AuthoritySpec \<Rightarrow> 'w \<Rightarrow> mq_error option \<times> 'w"
  ad_DeleteAuthority :: "AuthoritySpec \<Rightarrow> 'w \<Rightarrow> mq_error option \<times> 'w"

text \<open>
  The API server and the factory. \<open>k_statusUpdate\<close> and \<open>k_update\<close> return the object as stored.
  \<open>k_jitter span\<close> is \<open>time.Duration(randFn() * float64(span))\<close>.
\<close>

record ('spec, 'w) kube =
  k_lib :: k8s_lib
  k_intervals :: intervals
  k_get :: "string \<Rightarrow> string \<Rightarrow> 'w \<Rightarrow> 'spec workload result \<times> 'w"
  k_getConn :: "string \<Rightarrow> string \<Rightarrow> 'w \<Rightarrow> QueueManagerConnection result \<times> 'w"
  k_statusUpdate :: "'spec workload \<Rightarrow> 'w \<Rightarrow> 'spec workload result \<times> 'w"
  k_update :: "'spec workload \<Rightarrow> 'w \<Rightarrow> 'spec workload result \<times> 'w"
  k_forConnection :: "QueueManagerConnection \<Rightarrow> 'w \<Rightarrow> 'w Admin result \<times> 'w"
  k_now :: "'w \<Rightarrow> int"
  k_jitter :: "int \<Rightarrow> 'w \<Rightarrow> int \<times> 'w"

datatype effect =
    EventNormal string string
  | EventWarning string string
  | StatusWrite MQObjectStatus bool
  | ObjectWrite "string list" bool
  | MQApply "mq_error option"
  | MQRemove "mq_error option"
  | DriftDetected string

record 'w rs =
  rs_world :: 'w
  rs_log :: "effect list"

definition log_effect :: "effect \<Rightarrow> 'w rs \<Rightarrow> 'w rs" where
  "log_effect e s = s\<lparr>rs_log := e # rs_log s\<rparr>"

text \<open>\<open>ctrl.Result\<close> is its \<open>RequeueAfter\<close>, 0 for none, and the returned error.\<close>

type_synonym outcome = "int \<times> mq_error option"

section \<open>Conditions and events\<close>

definition setCondition ::
  "k8s_lib \<Rightarrow> string \<Rightarrow> string \<Rightarrow> string \<Rightarrow> string \<Rightarrow> int \<Rightarrow> Condition list \<Rightarrow> Condition list" where
  "setCondition lib conditionType status reason message generation conditions =
     SetStatusCondition lib
       \<lparr>cn_Type = conditionType, cn_Status = status, cn_Reason = reason, cn_Message = message,
        cn_ObservedGeneration = generation\<rparr> conditions"

definition conditionChanged :: "Condition list \<Rightarrow> string \<Rightarrow> string \<Rightarrow> string \<Rightarrow> bool" where
  "conditionChanged conditions condType newStatus newReason =
     (case find (\<lambda>c. cn_Type c = condType) conditions of
        Some c \<Rightarrow> cn_Status c \<noteq> newStatus \<or> cn_Reason c \<noteq> newReason
      | None \<Rightarrow> True)"

definition conditionsReady :: "Condition list \<Rightarrow> bool" where
  "conditionsReady conds = list_ex (\<lambda>c. cn_Type c = ConditionReady \<and> cn_Status c = ConditionTrue) conds"

definition classifyReconcileError :: "mq_error \<Rightarrow> string \<times> string" where
  "classifyReconcileError err =
     (let message = Error err in
      case errors_As is_TerminalError err of
        Some (TerminalError r m c) \<Rightarrow>
          (if r \<noteq> [] then r else ReasonTerminalError, if m \<noteq> [] then m else message)
      | _ \<Rightarrow>
          if errors_As is_ConnectionNotFoundError err \<noteq> None then (''ConnectionNotFound'', message)
          else if errors_As is_SecretNotFoundError err \<noteq> None then (''SecretNotFound'', message)
          else (ReasonError, message))"

definition recordReconcileWarning :: "mq_error \<Rightarrow> 'w rs \<Rightarrow> 'w rs" where
  "recordReconcileWarning err s =
     (if errors_Is err ErrTransient then s
      else (let (reason, message) = classifyReconcileError err in log_effect (EventWarning reason message) s))"

definition recordNormalEvent :: "string \<Rightarrow> string \<Rightarrow> 'w rs \<Rightarrow> 'w rs" where
  "recordNormalEvent reason message s = log_effect (EventNormal reason message) s"

definition emitSyncedTransitionEvent ::
  "'spec workload \<Rightarrow> string \<Rightarrow> string \<Rightarrow> string \<Rightarrow> 'w rs \<Rightarrow> 'w rs" where
  "emitSyncedTransitionEvent obj newStatus newReason message s =
     (if conditionChanged (st_Conditions (w_Status obj)) ConditionSynced newStatus newReason
      then recordNormalEvent newReason message s else s)"

definition connectionWaitMessage :: "QueueManagerConnection \<Rightarrow> string" where
  "connectionWaitMessage conn =
     (let name = Quote (om_Name (c_meta conn)); dash = '' '' @ [CHR 0xE2, CHR 0x80, CHR 0x94] @ '' '';
          waiting = ''waiting for connection '' @ name @ '' to become Ready'' in
      case findCondition (qm_Conditions conn) ConditionReady of
        None \<Rightarrow> waiting
      | Some c \<Rightarrow>
          if cn_Status c = ConditionTrue then waiting
          else if cn_Reason c \<noteq> [] \<and> cn_Message c \<noteq> []
          then ''waiting for connection '' @ name @ '': '' @ cn_Reason c @ dash @ cn_Message c
          else if cn_Message c \<noteq> [] then ''waiting for connection '' @ name @ '': '' @ cn_Message c
          else if cn_Reason c \<noteq> [] then ''waiting for connection '' @ name @ '' ('' @ cn_Reason c @ '')''
          else waiting)"

section \<open>Status patches\<close>

record syncedStatusPatch =
  p_conditionStatus :: string
  p_reason :: string
  p_generation :: int
  p_message :: string
  p_mqObjectExists :: "bool option"
  p_lastSync :: "int option"
  p_setObservedGen :: bool
  p_emitEvent :: bool

definition updateMQStatusFields ::
  "bool option \<Rightarrow> string \<Rightarrow> int option \<Rightarrow> MQObjectStatus \<Rightarrow> MQObjectStatus" where
  "updateMQStatusFields exists message lastSync st =
     (let st = st\<lparr>st_Message := message\<rparr>;
          st = (if lastSync \<noteq> None then st\<lparr>st_LastSyncTime := lastSync\<rparr> else st)
      in if exists \<noteq> None then st\<lparr>st_MQObjectExists := exists\<rparr> else st)"

text \<open>\<open>status.Update(ctx, obj)\<close>: on success the object becomes the stored one.\<close>

definition statusUpdate ::
  "('spec, 'w) kube \<Rightarrow> 'spec workload \<Rightarrow> 'w rs \<Rightarrow> mq_error option \<times> 'spec workload \<times> 'w rs" where
  "statusUpdate k obj s =
     (case k_statusUpdate k obj (rs_world s) of
        (Inl e, w) \<Rightarrow> (Some e, obj, log_effect (StatusWrite (w_Status obj) False) (s\<lparr>rs_world := w\<rparr>))
      | (Inr obj', w) \<Rightarrow> (None, obj', log_effect (StatusWrite (w_Status obj) True) (s\<lparr>rs_world := w\<rparr>)))"

definition objectUpdate ::
  "('spec, 'w) kube \<Rightarrow> 'spec workload \<Rightarrow> 'w rs \<Rightarrow> mq_error option \<times> 'spec workload \<times> 'w rs" where
  "objectUpdate k obj s =
     (case k_update k obj (rs_world s) of
        (Inl e, w) \<Rightarrow> (Some e, obj, log_effect (ObjectWrite (om_Finalizers (w_meta obj)) False) (s\<lparr>rs_world := w\<rparr>))
      | (Inr obj', w) \<Rightarrow> (None, obj', log_effect (ObjectWrite (om_Finalizers (w_meta obj)) True) (s\<lparr>rs_world := w\<rparr>)))"

definition patchedStatus :: "k8s_lib \<Rightarrow> syncedStatusPatch \<Rightarrow> MQObjectStatus \<Rightarrow> MQObjectStatus" where
  "patchedStatus lib p st =
     (let st = st\<lparr>st_Conditions :=
                   setCondition lib ConditionSynced (p_conditionStatus p) (p_reason p) (p_message p)
                     (p_generation p) (st_Conditions st)\<rparr>;
          st = (if p_setObservedGen p then st\<lparr>st_ObservedGeneration := p_generation p\<rparr> else st)
      in updateMQStatusFields (p_mqObjectExists p) (p_message p) (p_lastSync p) st)"

definition patchSyncedStatus ::
  "('spec, 'w) kube \<Rightarrow> 'spec workload \<Rightarrow> syncedStatusPatch \<Rightarrow> 'w rs \<Rightarrow>
     mq_error option \<times> 'spec workload \<times> 'w rs" where
  "patchSyncedStatus k obj p s =
     (let s = (if p_emitEvent p
               then emitSyncedTransitionEvent obj (p_conditionStatus p) (p_reason p) (p_message p) s else s)
      in statusUpdate k (obj\<lparr>w_Status := patchedStatus (k_lib k) p (w_Status obj)\<rparr>) s)"

definition notSynced :: "string \<Rightarrow> int \<Rightarrow> string \<Rightarrow> bool option \<Rightarrow> bool \<Rightarrow> syncedStatusPatch" where
  "notSynced reason generation message exists emit =
     \<lparr>p_conditionStatus = ConditionFalse, p_reason = reason, p_generation = generation, p_message = message,
      p_mqObjectExists = exists, p_lastSync = None, p_setObservedGen = False, p_emitEvent = emit\<rparr>"

definition patchSyncedProgressing ::
  "('spec, 'w) kube \<Rightarrow> 'spec workload \<Rightarrow> int \<Rightarrow> string \<Rightarrow> 'w rs \<Rightarrow> mq_error option \<times> 'spec workload \<times> 'w rs" where
  "patchSyncedProgressing k obj generation message =
     patchSyncedStatus k obj (notSynced ReasonProgressing generation message None True)"

definition patchSyncedDeleting ::
  "('spec, 'w) kube \<Rightarrow> 'spec workload \<Rightarrow> int \<Rightarrow> string \<Rightarrow> 'w rs \<Rightarrow> mq_error option \<times> 'spec workload \<times> 'w rs" where
  "patchSyncedDeleting k obj generation message =
     patchSyncedStatus k obj (notSynced ReasonDeleting generation message None True)"

definition patchSyncedOrphaned ::
  "('spec, 'w) kube \<Rightarrow> 'spec workload \<Rightarrow> int \<Rightarrow> string \<Rightarrow> 'w rs \<Rightarrow> mq_error option \<times> 'spec workload \<times> 'w rs" where
  "patchSyncedOrphaned k obj generation message =
     patchSyncedStatus k obj (notSynced ReasonOrphaned generation message None True)"

definition patchSyncedSuspended ::
  "('spec, 'w) kube \<Rightarrow> 'spec workload \<Rightarrow> int \<Rightarrow> string \<Rightarrow> 'w rs \<Rightarrow> mq_error option \<times> 'spec workload \<times> 'w rs" where
  "patchSyncedSuspended k obj generation message =
     patchSyncedStatus k obj (notSynced ReasonSuspended generation message None True)"

definition patchSyncedDrift ::
  "('spec, 'w) kube \<Rightarrow> 'spec workload \<Rightarrow> int \<Rightarrow> string \<Rightarrow> bool option \<Rightarrow> 'w rs \<Rightarrow>
     mq_error option \<times> 'spec workload \<times> 'w rs" where
  "patchSyncedDrift k obj generation message exists =
     patchSyncedStatus k obj (notSynced ReasonDriftDetected generation message exists True)"

definition patchSyncedAdoptionBlocked ::
  "('spec, 'w) kube \<Rightarrow> 'spec workload \<Rightarrow> int \<Rightarrow> string \<Rightarrow> string \<Rightarrow> bool option \<Rightarrow> 'w rs \<Rightarrow>
     mq_error option \<times> 'spec workload \<times> 'w rs" where
  "patchSyncedAdoptionBlocked k obj generation reason message exists s =
     (let s = emitSyncedTransitionEvent obj ConditionFalse reason message s;
          st = w_Status obj;
          st = st\<lparr>st_Conditions := setCondition (k_lib k) ConditionSynced ConditionFalse reason message
                                    generation (st_Conditions st)\<rparr>;
          st = updateMQStatusFields exists message None st
      in statusUpdate k (obj\<lparr>w_Status := st\<rparr>) s)"

definition patchSyncedAvailable ::
  "('spec, 'w) kube \<Rightarrow> 'spec workload \<Rightarrow> int \<Rightarrow> string \<Rightarrow> bool option \<Rightarrow> 'w rs \<Rightarrow>
     mq_error option \<times> 'spec workload \<times> 'w rs" where
  "patchSyncedAvailable k obj generation message exists s =
     patchSyncedStatus k obj
       \<lparr>p_conditionStatus = ConditionTrue, p_reason = ReasonAvailable, p_generation = generation,
        p_message = message, p_mqObjectExists = exists, p_lastSync = Some (k_now k (rs_world s)),
        p_setObservedGen = True, p_emitEvent = True\<rparr> s"

section \<open>Policies\<close>

definition annotation :: "'spec workload \<Rightarrow> string \<Rightarrow> string" where
  "annotation obj a = getz (om_Annotations (w_meta obj)) a"

definition isObserveOnly :: "'spec workload \<Rightarrow> bool" where
  "isObserveOnly obj \<longleftrightarrow> annotation obj DriftPolicyAnnotation = DriftPolicyObserveOnly"

definition forceOrphanRequested :: "'spec workload \<Rightarrow> bool" where
  "forceOrphanRequested obj \<longleftrightarrow> annotation obj ForceOrphanAnnotation = ''true''"

definition workloadDeletionPolicy :: "'spec workload \<Rightarrow> string" where
  "workloadDeletionPolicy obj =
     (let p = lp_DeletionPolicy (w_policies obj) in if p = [] then DeletionPolicyDelete else p)"

definition workloadAdoptionPolicy :: "'spec workload \<Rightarrow> string" where
  "workloadAdoptionPolicy obj =
     (let p = lp_AdoptionPolicy (w_policies obj) in if p = [] then AdoptionPolicyAdopt else p)"

definition workloadFirstAdoption :: "'spec workload \<Rightarrow> bool" where
  "workloadFirstAdoption obj \<longleftrightarrow> st_ObservedGeneration (w_Status obj) = 0"

definition orphanDeletionRequested :: "'spec workload \<Rightarrow> bool" where
  "orphanDeletionRequested obj =
     (if forceOrphanRequested obj then True else workloadDeletionPolicy obj = DeletionPolicyOrphan)"

definition workloadAlreadySuspended :: "'spec workload \<Rightarrow> int \<Rightarrow> bool" where
  "workloadAlreadySuspended obj generation =
     list_ex (\<lambda>c. cn_Type c = ConditionSynced \<and> cn_Status c = ConditionFalse \<and>
                  cn_Reason c = ReasonSuspended \<and> cn_ObservedGeneration c = generation)
       (st_Conditions (w_Status obj))"

definition adoptionBlockForExisting ::
  "string \<Rightarrow> bool \<Rightarrow> bool \<Rightarrow> bool \<Rightarrow> string \<Rightarrow> string \<Rightarrow> (string \<times> string) option" where
  "adoptionBlockForExisting policy firstAdoption exists needsUpdate objectLabel mismatchMessage =
     (if \<not> firstAdoption \<or> \<not> exists then None
      else if policy = AdoptionPolicyFailIfExists
      then Some (ReasonAlreadyExists, objectLabel @ '' already exists on queue manager'')
      else if policy = AdoptionPolicyAdoptIfMatching then
        (if needsUpdate
         then Some (ReasonAdoptionConflict,
                    if mismatchMessage = [] then objectLabel @ '' differs from spec'' else mismatchMessage)
         else None)
      else None)"

definition attributeMismatchMessage :: "attrs \<Rightarrow> attrs \<Rightarrow> string list \<Rightarrow> string \<Rightarrow> string" where
  "attributeMismatchMessage desired observed keys label =
     (let drifts = AttributeDriftsForKeys desired observed keys in
      if length drifts > 0 then FormatAttributeDriftMessage drifts else label @ '' differs from spec'')"

definition observeOnlyAuthDriftMessage :: "bool \<Rightarrow> string \<Rightarrow> string \<Rightarrow> string" where
  "observeOnlyAuthDriftMessage exists objectName objectLabel =
     (if \<not> exists
      then objectLabel @ '' for '' @ Quote objectName @ '' not found on queue manager (observe-only; not applying)''
      else if objectLabel = ''CHLAUTH rule''
      then ''CHLAUTH on IBM MQ differs from spec (observe-only; not applying)''
      else if objectLabel = ''authority record''
      then ''AUTHREC on IBM MQ differs from spec (observe-only; not applying)''
      else objectLabel @ '' on IBM MQ differs from spec (observe-only; not applying)'')"

section \<open>Requeue results\<close>

definition DriftResyncAfter :: "('spec, 'w) kube \<Rightarrow> 'w rs \<Rightarrow> int \<times> 'w rs" where
  "DriftResyncAfter k s =
     (let lower = driftResyncLower (k_intervals k); upper = driftResyncUpper (k_intervals k) in
      if upper \<le> lower then (lower, s)
      else (case k_jitter k (upper - lower) (rs_world s) of (j, w) \<Rightarrow> (lower + j, s\<lparr>rs_world := w\<rparr>)))"

text \<open>The jitter source can be replaced; \<open>None\<close> is nil and restores \<open>default_source\<close>.\<close>

definition SetDriftResyncRand ::
  "(int \<Rightarrow> 'w \<Rightarrow> int \<times> 'w) \<Rightarrow> (int \<Rightarrow> 'w \<Rightarrow> int \<times> 'w) option \<Rightarrow> ('spec, 'w) kube \<Rightarrow> ('spec, 'w) kube" where
  "SetDriftResyncRand default_source fn k =
     (case fn of None \<Rightarrow> k\<lparr>k_jitter := default_source\<rparr> | Some f \<Rightarrow> k\<lparr>k_jitter := f\<rparr>)"

definition workloadDriftResyncResult :: "('spec, 'w) kube \<Rightarrow> 'w rs \<Rightarrow> outcome \<times> 'w rs" where
  "workloadDriftResyncResult k s = (case DriftResyncAfter k s of (d, s) \<Rightarrow> ((d, None), s))"

definition setSyncedError ::
  "('spec, 'w) kube \<Rightarrow> 'spec workload \<Rightarrow> int \<Rightarrow> mq_error \<Rightarrow> bool option \<Rightarrow> 'w rs \<Rightarrow> outcome \<times> 'w rs" where
  "setSyncedError k obj generation err exists s =
     (let s = recordReconcileWarning err s;
          (reason, message) = classifyReconcileError err;
          requeue = (if errors_Is err ErrTransient then transientRequeueInterval (k_intervals k) else 0);
          reconcileErr = (if errors_Is err ErrTransient \<or> errors_Is err ErrTerminal then None else Some err)
      in case patchSyncedStatus k obj (notSynced reason generation message exists False) s of
           (Some patchErr, obj, s) \<Rightarrow> ((requeue, Some patchErr), s)
         | (None, obj, s) \<Rightarrow> ((requeue, reconcileErr), s))"

definition handleAdoptionBlock ::
  "('spec, 'w) kube \<Rightarrow> 'spec workload \<Rightarrow> int \<Rightarrow> string \<Rightarrow> string \<Rightarrow> bool option \<Rightarrow> 'w rs \<Rightarrow> outcome \<times> 'w rs" where
  "handleAdoptionBlock k obj generation reason message exists s =
     (case patchSyncedAdoptionBlocked k obj generation reason message exists s of
        (Some e, obj, s) \<Rightarrow> ((0, Some e), s)
      | (None, obj, s) \<Rightarrow> workloadDriftResyncResult k s)"

definition reconcileWorkloadSuspended ::
  "('spec, 'w) kube \<Rightarrow> 'spec workload \<Rightarrow> int \<Rightarrow> 'w rs \<Rightarrow> outcome \<times> 'w rs" where
  "reconcileWorkloadSuspended k obj generation s =
     (if workloadAlreadySuspended obj generation then ((0, None), s)
      else (case patchSyncedSuspended k obj generation ''Reconciliation suspended'' s of
              (err, obj, s) \<Rightarrow> ((0, err), s)))"

section \<open>Connections\<close>

definition resolveConnection ::
  "('spec, 'w) kube \<Rightarrow> string \<Rightarrow> string \<Rightarrow> 'w rs \<Rightarrow> QueueManagerConnection result \<times> 'w rs" where
  "resolveConnection k namespace name s =
     (case k_getConn k namespace name (rs_world s) of
        (Inl err, w) \<Rightarrow>
          (Inl (if k8s_IsNotFound err then ConnectionNotFoundError name (Some err)
                else WrapError (''get connection '' @ Quote name) err), s\<lparr>rs_world := w\<rparr>)
      | (Inr conn, w) \<Rightarrow> (Inr conn, s\<lparr>rs_world := w\<rparr>))"

text \<open>\<open>waitForConnectionReady\<close>: \<open>None\<close> when the caller goes on, else its outcome.\<close>

definition waitForConnectionReady ::
  "('spec, 'w) kube \<Rightarrow> 'spec workload \<Rightarrow> QueueManagerConnection \<Rightarrow> int \<Rightarrow> 'w rs \<Rightarrow> outcome option \<times> 'w rs" where
  "waitForConnectionReady k obj conn generation s =
     (if conditionsReady (qm_Conditions conn) then (None, s)
      else (case patchSyncedProgressing k obj generation (connectionWaitMessage conn) s of
              (Some e, obj, s) \<Rightarrow> (Some (0, Some e), s)
            | (None, obj, s) \<Rightarrow> (Some (connectionWaitInterval (k_intervals k), None), s)))"

definition forConnection ::
  "('spec, 'w) kube \<Rightarrow> QueueManagerConnection \<Rightarrow> 'w rs \<Rightarrow> 'w Admin result \<times> 'w rs" where
  "forConnection k conn s =
     (case k_forConnection k conn (rs_world s) of (r, w) \<Rightarrow> (r, s\<lparr>rs_world := w\<rparr>))"

definition deletionAwaitingConnection ::
  "('spec, 'w) kube \<Rightarrow> 'spec workload \<Rightarrow> int \<Rightarrow> mq_error \<Rightarrow> 'w rs \<Rightarrow> outcome \<times> 'w rs" where
  "deletionAwaitingConnection k obj generation err s =
     (case patchSyncedProgressing k obj generation (''Deletion waiting for connection: '' @ Error err) s of
        (patchErr, obj, s) \<Rightarrow> ((connectionWaitInterval (k_intervals k), patchErr), s))"

section \<open>Finalizers and deletion\<close>

definition setFinalizers :: "string list \<Rightarrow> 'spec workload \<Rightarrow> 'spec workload" where
  "setFinalizers fs obj = obj\<lparr>w_meta := (w_meta obj)\<lparr>om_Finalizers := fs\<rparr>\<rparr>"

definition orphanFinalizeWorkload ::
  "('spec, 'w) kube \<Rightarrow> 'spec workload \<Rightarrow> int \<Rightarrow> string \<Rightarrow> string \<Rightarrow> 'w rs \<Rightarrow> outcome \<times> 'w rs" where
  "orphanFinalizeWorkload k obj generation finalizer message s =
     (case patchSyncedOrphaned k obj generation message s of
        (Some e, obj, s) \<Rightarrow> ((0, Some e), s)
      | (None, obj, s) \<Rightarrow>
          (let s = recordNormalEvent ReasonOrphaned message s;
               obj = setFinalizers (RemoveFinalizer (k_lib k) finalizer (om_Finalizers (w_meta obj))) obj
           in case objectUpdate k obj s of (err, obj, s) \<Rightarrow> ((0, err), s)))"

definition reconcileWorkloadDeletion ::
  "('spec, 'w) kube \<Rightarrow> 'spec workload \<Rightarrow> int \<Rightarrow> string \<Rightarrow> string \<Rightarrow>
     ('w Admin \<Rightarrow> 'w rs \<Rightarrow> outcome \<times> 'w rs) \<Rightarrow> 'w rs \<Rightarrow> outcome \<times> 'w rs" where
  "reconcileWorkloadDeletion k obj generation finalizer orphanMessage deleteFn s =
     (if \<not> ContainsFinalizer (k_lib k) finalizer (om_Finalizers (w_meta obj)) then ((0, None), s)
      else if orphanDeletionRequested obj
      then orphanFinalizeWorkload k obj generation finalizer orphanMessage s
      else
        (case resolveConnection k (om_Namespace (w_meta obj)) (w_ConnectionRef obj) s of
           (Inl err, s) \<Rightarrow> deletionAwaitingConnection k obj generation err s
         | (Inr conn, s) \<Rightarrow>
             (case waitForConnectionReady k obj conn generation s of
                (Some out, s) \<Rightarrow> (out, s)
              | (None, s) \<Rightarrow>
                  (case forConnection k conn s of
                     (Inl err, s) \<Rightarrow> deletionAwaitingConnection k obj generation err s
                   | (Inr admin, s) \<Rightarrow> deleteFn admin s))))"

section \<open>Comparing and applying\<close>

text \<open>Result of the ensure step: the object exists, the drift message, the error.\<close>

type_synonym ensure_result = "bool \<times> string \<times> mq_error option"

definition reconcileMQObjectState ::
  "bool \<Rightarrow> string \<Rightarrow> bool \<Rightarrow> bool \<Rightarrow> attrs \<Rightarrow> attrs \<Rightarrow> string list \<Rightarrow> string \<Rightarrow>
     ('w rs \<Rightarrow> mq_error option \<times> 'w rs) \<Rightarrow> 'w rs \<Rightarrow> ensure_result \<times> 'w rs" where
  "reconcileMQObjectState observeOnly policy firstAdoption exists observed desired keys label defineFn s =
     (if observeOnly then
        (if \<not> exists then ((False, label @ '' not found on queue manager'', None), s)
         else (let drifts = AttributeDriftsForKeys desired observed keys in
               if length drifts > 0 then ((True, FormatAttributeDriftMessage drifts, None), s)
               else ((True, [], None), s)))
      else
        (let needsUpdate = (\<not> exists \<or> AttributesNeedUpdate desired observed keys) in
         case adoptionBlockForExisting policy firstAdoption exists needsUpdate label
                (attributeMismatchMessage desired observed keys label) of
           Some (reason, message) \<Rightarrow> ((exists, [], Some (AdoptionBlockedError reason message)), s)
         | None \<Rightarrow>
             if needsUpdate then
               (case defineFn s of
                  (Some e, s) \<Rightarrow> ((exists, [], Some e), s)
                | (None, s) \<Rightarrow> ((True, [], None), s))
             else ((exists, [], None), s)))"

end
