(* ===== verification/Metrics.thy ===== *)
theory Metrics
  imports MQ_Errors
begin

text \<open>
  The Prometheus counters of \<open>internal/metrics/metrics.go\<close>. A counter vector is a function from its
  label values to a count, so the number of labels, which \<open>WithLabelValues\<close> checks when it runs, is
  part of the type; counts are natural numbers (Prometheus keeps them as floating point numbers, which
  are exact below \<open>2 ^ 53\<close>). The collectors are global variables, so the operations pass one state of
  all five. The calls from the reconcilers, the client and the circuit breaker are in \<open>Observability\<close>.
\<close>

section \<open>Labels\<close>

definition ResultSuccess :: string where "ResultSuccess = ''success''"
definition ResultError :: string where "ResultError = ''error''"

definition ControllerQueue :: string where "ControllerQueue = ''queue''"
definition ControllerTopic :: string where "ControllerTopic = ''topic''"
definition ControllerChannel :: string where "ControllerChannel = ''channel''"
definition ControllerChannelAuthRule :: string where "ControllerChannelAuthRule = ''channelauthrule''"
definition ControllerAuthorityRecord :: string where "ControllerAuthorityRecord = ''authorityrecord''"
definition ControllerQueueManagerConnection :: string where "ControllerQueueManagerConnection = ''queuemanagerconnection''"

definition MQOpPing :: string where "MQOpPing = ''ping''"
definition MQOpGetQueue :: string where "MQOpGetQueue = ''get_queue''"
definition MQOpDefineQueue :: string where "MQOpDefineQueue = ''define_queue''"
definition MQOpDeleteQueue :: string where "MQOpDeleteQueue = ''delete_queue''"
definition MQOpGetTopic :: string where "MQOpGetTopic = ''get_topic''"
definition MQOpDefineTopic :: string where "MQOpDefineTopic = ''define_topic''"
definition MQOpDeleteTopic :: string where "MQOpDeleteTopic = ''delete_topic''"
definition MQOpGetChannel :: string where "MQOpGetChannel = ''get_channel''"
definition MQOpDefineChannel :: string where "MQOpDefineChannel = ''define_channel''"
definition MQOpDeleteChannel :: string where "MQOpDeleteChannel = ''delete_channel''"
definition MQOpSetChannelAuth :: string where "MQOpSetChannelAuth = ''set_channel_auth''"
definition MQOpGetChannelAuth :: string where "MQOpGetChannelAuth = ''get_channel_auth''"
definition MQOpDeleteChannelAuth :: string where "MQOpDeleteChannelAuth = ''delete_channel_auth''"
definition MQOpSetAuthority :: string where "MQOpSetAuthority = ''set_authority''"
definition MQOpGetAuthority :: string where "MQOpGetAuthority = ''get_authority''"
definition MQOpDeleteAuthority :: string where "MQOpDeleteAuthority = ''delete_authority''"
definition MQOpRunMQSC :: string where "MQOpRunMQSC = ''run_mqsc''"

lemma results_differ [simp]: "ResultSuccess \<noteq> ResultError" "ResultError \<noteq> ResultSuccess"
  by (simp_all add: ResultSuccess_def ResultError_def)

section \<open>Counters\<close>

record collectors =
  ReconcileTotal :: "string \<times> string \<Rightarrow> nat"
  ReconcileErrors :: "string \<Rightarrow> nat"
  MQOperationsTotal :: "string \<times> string \<Rightarrow> nat"
  DriftDetectedTotal :: "string \<Rightarrow> nat"
  CircuitBreakerTransitionsTotal :: "string \<times> string \<Rightarrow> nat"

definition Inc :: "'l \<Rightarrow> ('l \<Rightarrow> nat) \<Rightarrow> 'l \<Rightarrow> nat" where
  "Inc l c = c(l := c l + 1)"

text \<open>The collectors as \<open>init\<close> registers them, and the names under which it does.\<close>

definition init_collectors :: collectors where
  "init_collectors =
     \<lparr>ReconcileTotal = (\<lambda>_. 0), ReconcileErrors = (\<lambda>_. 0), MQOperationsTotal = (\<lambda>_. 0),
      DriftDetectedTotal = (\<lambda>_. 0), CircuitBreakerTransitionsTotal = (\<lambda>_. 0)\<rparr>"

definition registeredNames :: "string list" where
  "registeredNames =
     [''mkurator_reconcile_total'', ''mkurator_reconcile_errors_total'', ''mkurator_mq_operations_total'',
      ''mkurator_drift_detected_total'', ''mkurator_mq_circuit_breaker_transitions_total'']"

lemma registered_once: "distinct registeredNames"
  by code_simp

section \<open>Operations\<close>

definition resultLabel :: "mq_error option \<Rightarrow> string" where
  "resultLabel err = (if err \<noteq> None then ResultError else ResultSuccess)"

definition RecordReconcile :: "string \<Rightarrow> mq_error option \<Rightarrow> collectors \<Rightarrow> collectors" where
  "RecordReconcile controller err m =
     (let m = (if err \<noteq> None then m\<lparr>ReconcileErrors := Inc controller (ReconcileErrors m)\<rparr> else m)
      in m\<lparr>ReconcileTotal := Inc (controller, resultLabel err) (ReconcileTotal m)\<rparr>)"

definition RecordMQOperation :: "string \<Rightarrow> mq_error option \<Rightarrow> collectors \<Rightarrow> collectors" where
  "RecordMQOperation operation err m =
     m\<lparr>MQOperationsTotal := Inc (operation, resultLabel err) (MQOperationsTotal m)\<rparr>"

definition RecordDriftDetected :: "string \<Rightarrow> collectors \<Rightarrow> collectors" where
  "RecordDriftDetected controller m =
     m\<lparr>DriftDetectedTotal := Inc controller (DriftDetectedTotal m)\<rparr>"

definition RecordCircuitBreakerTransition :: "string \<Rightarrow> string \<Rightarrow> collectors \<Rightarrow> collectors" where
  "RecordCircuitBreakerTransition from to m =
     m\<lparr>CircuitBreakerTransitionsTotal := Inc (from, to) (CircuitBreakerTransitionsTotal m)\<rparr>"

lemmas record_defs =
  RecordReconcile_def RecordMQOperation_def RecordDriftDetected_def RecordCircuitBreakerTransition_def resultLabel_def

lemma Inc_apply [simp]: "Inc l c x = c x + (if x = l then 1 else 0)"
  by (simp add: Inc_def)

lemma Inc_folded: "fold Inc ls c x = c x + count_list ls x"
  by (induction ls arbitrary: c) auto

end
