(* ===== verification/Workload_Reconcilers.thy ===== *)
theory Workload_Reconcilers
  imports Reconcile_Shared Metrics
begin

text \<open>
  The five workload reconcilers: \<open>internal/controller/queue_controller.go\<close>,
  \<open>topic_controller.go\<close>, \<open>channel_controller.go\<close>, \<open>channelauthrule_controller.go\<close> and
  \<open>authorityrecord_controller.go\<close>. The five \<open>reconcile\<close> functions have one text with different
  types, messages and ensure steps; it is \<open>reconcileWorkload\<close>, with the differing parts in the
  record \<open>workload_kind\<close>, and each kind has its own instance. The two auth kinds return a drift
  flag from their ensure step; their drift message is filled in where the Go code computes it.

  A panic inside the ensure step is \<open>None\<close>; the manager runs with \<open>RecoverPanic\<close>, so it becomes
  a returned error.
\<close>

section \<open>From custom resources to domain specs\<close>

definition normalizedAttributes :: "attrs \<Rightarrow> attrs" where
  "normalizedAttributes attrs = fold (\<lambda>(k, v) m. AList.update (NormalizeAttrKey k) v m) attrs []"

definition putText :: "string \<Rightarrow> string \<Rightarrow> attrs \<Rightarrow> attrs" where
  "putText k v attrs = (if v \<noteq> [] then AList.update (NormalizeAttrKey k) v attrs else attrs)"

definition putInt :: "string \<Rightarrow> int option \<Rightarrow> attrs \<Rightarrow> attrs" where
  "putInt k v attrs =
     (case v of Some n \<Rightarrow> AList.update (NormalizeAttrKey k) (Itoa n) attrs | None \<Rightarrow> attrs)"

definition toMQQueueSpec :: "Queue \<Rightarrow> QueueSpec" where
  "toMQQueueSpec obj =
     (let q = w_Spec obj;
          attrs = normalizedAttributes (q_Attributes q);
          attrs = putInt ''maxdepth'' (q_MaxDepth q) attrs;
          attrs = putText ''descr'' (q_Description q) attrs;
          attrs = putText ''defpsist'' (q_DefPersistence q) attrs;
          attrs = putText ''get'' (q_Get q) attrs;
          attrs = putText ''put'' (q_Put q) attrs;
          attrs = putText ''targq'' (q_TargetQueue q) attrs;
          attrs = putText ''xmitq'' (q_XmitQueue q) attrs;
          attrs = putText ''rqmname'' (q_RemoteQueueManager q) attrs
      in \<lparr>qs_Name = q_QueueName q, qs_Type = q_Type q, qs_Attributes = attrs\<rparr>)"

definition toMQTopicSpec :: "Topic \<Rightarrow> TopicSpec" where
  "toMQTopicSpec obj =
     (let t = w_Spec obj;
          attrs = normalizedAttributes (t_Attributes t);
          attrs = putText ''topstr'' (t_TopicString t) attrs;
          attrs = putText ''descr'' (t_Description t) attrs;
          attrs = putText ''pub'' (t_Publish t) attrs;
          attrs = putText ''sub'' (t_Subscribe t) attrs;
          attrs = putText ''defpsist'' (t_DefPersistence t) attrs;
          attrs = putText ''pubscope'' (t_PublishScope t) attrs;
          attrs = putText ''subscope'' (t_SubscribeScope t) attrs
      in \<lparr>ts_Name = t_TopicName t, ts_Attributes = attrs\<rparr>)"

definition toMQChannelSpec :: "Channel \<Rightarrow> ChannelSpec" where
  "toMQChannelSpec obj =
     (let c = w_Spec obj;
          attrs = normalizedAttributes (ch_Attributes c);
          attrs = putText ''descr'' (ch_Description c) attrs;
          attrs = putInt ''maxmsgl'' (ch_MaxMsgLength c) attrs;
          attrs = putText ''trptype'' (ch_TransportType c) attrs;
          attrs = putInt ''sharecnv'' (ch_ShareConv c) attrs;
          attrs = putText ''mcauser'' (ch_McaUser c) attrs;
          attrs = putInt ''maxinst'' (ch_MaxInstances c) attrs;
          attrs = putInt ''maxinstc'' (ch_MaxInstancesClient c) attrs;
          attrs = putText ''sslciph'' (ch_SslCipherSpec c) attrs;
          attrs = putText ''sslcauth'' (ch_SslClientAuth c) attrs;
          attrs = putText ''conname'' (ch_ConnName c) attrs;
          attrs = putText ''xmitq'' (ch_XmitQueue c) attrs;
          chType = (if ch_Type c \<noteq> [] then ch_Type c else ChannelTypeSvrconn)
      in \<lparr>chs_Name = ch_ChannelName c, chs_Type = NormalizeChannelType chType, chs_Attributes = attrs\<rparr>)"

definition toMQChannelAuthSpec :: "ChannelAuthRule \<Rightarrow> ChannelAuthSpec" where
  "toMQChannelAuthSpec obj =
     (let r = w_Spec obj in
      \<lparr>ca_ChannelName = r_ChannelName r, ca_RuleType = r_RuleType r, ca_Address = r_Address r,
       ca_UserList = r_UserList r, ca_ClientUser = r_ClientUser r, ca_SSLPeerName = r_SslPeerName r,
       ca_RemoteQueueManager = r_RemoteQueueManager r, ca_McaUser = r_McaUser r,
       ca_UserSource = r_UserSource r, ca_CheckClient = r_CheckClient r, ca_Description = r_Description r\<rparr>)"

definition toMQAuthoritySpec :: "AuthorityRecord \<Rightarrow> AuthoritySpec" where
  "toMQAuthoritySpec obj =
     (let a = w_Spec obj in
      \<lparr>au_Profile = a_Profile a, au_ObjectType = a_ObjectType a, au_Principal = a_Principal a,
       au_Group = a_Group a, au_Authorities = a_Authorities a\<rparr>)"

section \<open>Calls on the queue manager\<close>

definition mqRead :: "('w \<Rightarrow> 'a \<times> 'w) \<Rightarrow> 'w rs \<Rightarrow> 'a \<times> 'w rs" where
  "mqRead f s = (case f (rs_world s) of (r, w) \<Rightarrow> (r, s\<lparr>rs_world := w\<rparr>))"

definition mqApply :: "('w \<Rightarrow> mq_error option \<times> 'w) \<Rightarrow> 'w rs \<Rightarrow> mq_error option \<times> 'w rs" where
  "mqApply f s = (case f (rs_world s) of (r, w) \<Rightarrow> (r, log_effect (MQApply r) (s\<lparr>rs_world := w\<rparr>)))"

definition mqRemove :: "('w \<Rightarrow> mq_error option \<times> 'w) \<Rightarrow> 'w rs \<Rightarrow> mq_error option \<times> 'w rs" where
  "mqRemove f s = (case f (rs_world s) of (r, w) \<Rightarrow> (r, log_effect (MQRemove r) (s\<lparr>rs_world := w\<rparr>)))"

section \<open>Ensure steps\<close>

text \<open>The reading that \<open>ensureQueue\<close>, \<open>ensureTopic\<close> and \<open>ensureChannel\<close> share: an error other
  than not-found ends the step; otherwise existence and attributes.\<close>

definition observedAttributes :: "ObjectState result \<Rightarrow> (bool \<times> attrs) result" where
  "observedAttributes r =
     (case r of
        Inr st \<Rightarrow> Inr (True, os_Attributes st)
      | Inl e \<Rightarrow> if errors_Is e ErrNotFound then Inr (False, []) else Inl e)"

definition ensureQueue ::
  "'w Admin \<Rightarrow> Queue \<Rightarrow> QueueSpec \<Rightarrow> bool \<Rightarrow> 'w rs \<Rightarrow> ensure_result \<times> 'w rs" where
  "ensureQueue admin q spec observeOnly s =
     (case mqRead (ad_GetQueue admin spec) s of
        (r, s) \<Rightarrow>
          (case observedAttributes r of
             Inl e \<Rightarrow> ((False, [], Some e), s)
           | Inr (exists, observed) \<Rightarrow>
               (case mqRead (ad_QueueDriftKeys admin (qs_Type spec)) s of
                  (Inl e, s) \<Rightarrow> ((False, [], Some e), s)
                | (Inr driftKeys, s) \<Rightarrow>
                    reconcileMQObjectState observeOnly (workloadAdoptionPolicy q) (workloadFirstAdoption q)
                      exists observed (qs_Attributes spec) driftKeys (''queue '' @ Quote (qs_Name spec))
                      (mqApply (ad_DefineQueue admin spec)) s)))"

definition ensureTopic ::
  "'w Admin \<Rightarrow> Topic \<Rightarrow> TopicSpec \<Rightarrow> bool \<Rightarrow> 'w rs \<Rightarrow> ensure_result \<times> 'w rs" where
  "ensureTopic admin t spec observeOnly s =
     (case mqRead (ad_GetTopic admin (ts_Name spec)) s of
        (r, s) \<Rightarrow>
          (case observedAttributes r of
             Inl e \<Rightarrow> ((False, [], Some e), s)
           | Inr (exists, observed) \<Rightarrow>
               reconcileMQObjectState observeOnly (workloadAdoptionPolicy t) (workloadFirstAdoption t)
                 exists observed (ts_Attributes spec) TopicDriftCheckKeys (''topic '' @ Quote (ts_Name spec))
                 (mqApply (ad_DefineTopic admin spec)) s))"

definition ensureChannel ::
  "'w Admin \<Rightarrow> Channel \<Rightarrow> ChannelSpec \<Rightarrow> bool \<Rightarrow> 'w rs \<Rightarrow> ensure_result \<times> 'w rs" where
  "ensureChannel admin c spec observeOnly s =
     (case mqRead (ad_GetChannel admin spec) s of
        (r, s) \<Rightarrow>
          (case observedAttributes r of
             Inl e \<Rightarrow> ((False, [], Some e), s)
           | Inr (exists, observed) \<Rightarrow>
               reconcileMQObjectState observeOnly (workloadAdoptionPolicy c) (workloadFirstAdoption c)
                 exists observed (chs_Attributes spec) (ChannelDriftCheckKeys (chs_Type spec))
                 (''channel '' @ Quote (chs_Name spec)) (mqApply (ad_DefineChannel admin spec)) s))"

text \<open>The two auth kinds check adoption before they look at observe-only.\<close>

definition ensureAuth ::
  "'spec workload \<Rightarrow> bool \<Rightarrow> bool \<Rightarrow> string \<Rightarrow> string \<Rightarrow> ('w rs \<Rightarrow> mq_error option \<times> 'w rs) \<Rightarrow> 'w rs \<Rightarrow>
     (bool \<times> bool \<times> mq_error option) \<times> 'w rs" where
  "ensureAuth obj exists needsUpdate label mismatch setFn s =
     (case adoptionBlockForExisting (workloadAdoptionPolicy obj) (workloadFirstAdoption obj) exists
             needsUpdate label mismatch of
        Some (reason, message) \<Rightarrow> ((exists, False, Some (AdoptionBlockedError reason message)), s)
      | None \<Rightarrow>
          if needsUpdate then
            (if isObserveOnly obj then ((exists, True, None), s)
             else (case setFn s of
                     (Some e, s) \<Rightarrow> ((exists, False, Some e), s)
                   | (None, s) \<Rightarrow> ((True, False, None), s)))
          else ((True, False, None), s))"

definition ensureChannelAuth ::
  "'w Admin \<Rightarrow> ChannelAuthSpec \<Rightarrow> ChannelAuthRule \<Rightarrow> 'w rs \<Rightarrow> (bool \<times> bool \<times> mq_error option) \<times> 'w rs" where
  "ensureChannelAuth admin spec rule s =
     (case mqRead (ad_GetChannelAuth admin spec) s of
        (Inl e, s) \<Rightarrow>
          if \<not> errors_Is e ErrNotFound then ((False, False, Some e), s)
          else ensureAuth rule False True (''CHLAUTH rule for channel '' @ Quote (ca_ChannelName spec))
                 ''CHLAUTH on IBM MQ differs from spec'' (mqApply (ad_SetChannelAuth admin spec)) s
      | (Inr observed, s) \<Rightarrow>
          ensureAuth rule True (ChannelAuthNeedsUpdate spec (Some observed))
            (''CHLAUTH rule for channel '' @ Quote (ca_ChannelName spec))
            ''CHLAUTH on IBM MQ differs from spec'' (mqApply (ad_SetChannelAuth admin spec)) s)"

definition ensureAuthority ::
  "'w Admin \<Rightarrow> AuthoritySpec \<Rightarrow> AuthorityRecord \<Rightarrow> 'w rs \<Rightarrow>
     (bool \<times> bool \<times> mq_error option) option \<times> 'w rs" where
  "ensureAuthority admin spec auth s =
     (let label = ''authority record for profile '' @ Quote (au_Profile spec);
          mismatch = ''AUTHREC on IBM MQ differs from spec'' in
      case mqRead (ad_GetAuthority admin spec) s of
        (Inl e, s) \<Rightarrow>
          if \<not> errors_Is e ErrNotFound then (Some (False, False, Some e), s)
          else apfst Some (ensureAuth auth False True label mismatch (mqApply (ad_SetAuthority admin spec)) s)
      | (Inr observed, s) \<Rightarrow>
          (case AuthorityNeedsUpdate spec (Some observed) of
             None \<Rightarrow> (None, s)
           | Some needsUpdate \<Rightarrow>
               apfst Some (ensureAuth auth True needsUpdate label mismatch (mqApply (ad_SetAuthority admin spec)) s)))"

section \<open>The common reconcile function\<close>

record ('spec, 'w) workload_kind =
  wk_Kind :: string
  wk_controller :: string
  wk_Finalizer :: string
  wk_orphanMessage :: string
  wk_deletingMessage :: string
  wk_removedMessage :: string
  wk_matchesMessage :: string
  wk_precheck :: "'spec workload \<Rightarrow> mq_error option"
  wk_format :: "'spec workload \<Rightarrow> string result"
  wk_ensure :: "'w Admin \<Rightarrow> 'spec workload \<Rightarrow> 'w rs \<Rightarrow> ensure_result option \<times> 'w rs"
  wk_delete :: "'w Admin \<Rightarrow> 'spec workload \<Rightarrow> 'w \<Rightarrow> mq_error option \<times> 'w"

definition recoveredPanic :: mq_error where
  "recoveredPanic = PlainError ''panic: runtime error: index out of range [recovered]''"

definition handleDeletion ::
  "('spec, 'w) kube \<Rightarrow> ('spec, 'w) workload_kind \<Rightarrow> 'spec workload \<Rightarrow> 'w Admin \<Rightarrow> 'w rs \<Rightarrow> outcome \<times> 'w rs" where
  "handleDeletion k wk obj admin s =
     (let gen = om_Generation (w_meta obj) in
      case patchSyncedDeleting k obj gen (wk_deletingMessage wk) s of
        (Some e, obj, s) \<Rightarrow> ((0, Some e), s)
      | (None, obj, s) \<Rightarrow>
          (case mqRemove (wk_delete wk admin obj) s of
             (Some e, s) \<Rightarrow> setSyncedError k obj (om_Generation (w_meta obj)) e None s
           | (None, s) \<Rightarrow>
               (let s = recordNormalEvent ''Deleted'' (wk_removedMessage wk) s;
                    obj = setFinalizers (RemoveFinalizer (k_lib k) (wk_Finalizer wk) (om_Finalizers (w_meta obj))) obj
                in case objectUpdate k obj s of
                     (Some e, obj, s) \<Rightarrow> ((0, Some (WrapError ''remove finalizer'' e)), s)
                   | (None, obj, s) \<Rightarrow> ((0, None), s))))"

text \<open>What follows the ensure step.\<close>

definition reportEnsured ::
  "('spec, 'w) kube \<Rightarrow> ('spec, 'w) workload_kind \<Rightarrow> 'spec workload \<Rightarrow> ensure_result \<Rightarrow> 'w rs \<Rightarrow> outcome \<times> 'w rs" where
  "reportEnsured k wk obj res s =
     (let gen = om_Generation (w_meta obj) in
      case res of
        (mqExists, driftMsg, Some err) \<Rightarrow>
          (case errors_As is_AdoptionBlockedError err of
             Some (AdoptionBlockedError reason message) \<Rightarrow>
               handleAdoptionBlock k obj gen reason message (Some mqExists) s
           | _ \<Rightarrow> setSyncedError k obj gen err (Some mqExists) s)
      | (mqExists, driftMsg, None) \<Rightarrow>
          if driftMsg \<noteq> [] then
            (case patchSyncedDrift k obj gen driftMsg (Some mqExists) (log_effect (DriftDetected (wk_controller wk)) s) of
               (Some e, obj, s) \<Rightarrow> ((0, Some (WrapError ''update status'' e)), s)
             | (None, obj, s) \<Rightarrow> workloadDriftResyncResult k s)
          else
            (case patchSyncedAvailable k obj gen (wk_matchesMessage wk) (Some True) s of
               (Some e, obj, s) \<Rightarrow> ((0, Some (WrapError ''update status'' e)), s)
             | (None, obj, s) \<Rightarrow> workloadDriftResyncResult k s))"

text \<open>The part of \<open>reconcile\<close> after the connection is usable: finalizer, checks, ensure.\<close>

definition reconcileWithAdmin ::
  "('spec, 'w) kube \<Rightarrow> ('spec, 'w) workload_kind \<Rightarrow> 'spec workload \<Rightarrow> 'w Admin \<Rightarrow> 'w rs \<Rightarrow> outcome \<times> 'w rs" where
  "reconcileWithAdmin k wk obj admin s =
     (let gen = om_Generation (w_meta obj); fs = om_Finalizers (w_meta obj) in
      if \<not> ContainsFinalizer (k_lib k) (wk_Finalizer wk) fs then
        (case objectUpdate k (setFinalizers (AddFinalizer (k_lib k) (wk_Finalizer wk) fs) obj) s of
           (Some e, obj, s) \<Rightarrow> ((0, Some (WrapError ''add finalizer'' e)), s)
         | (None, obj, s) \<Rightarrow> ((0, None), s))
      else
        (case wk_precheck wk obj of
           Some e \<Rightarrow> setSyncedError k obj gen e None s
         | None \<Rightarrow>
             (case wk_format wk obj of
                Inl e \<Rightarrow> setSyncedError k obj gen e None s
              | Inr desiredMQSC \<Rightarrow>
                  (let obj = obj\<lparr>w_Status := (w_Status obj)\<lparr>st_DesiredMQSC := desiredMQSC\<rparr>\<rparr> in
                   case wk_ensure wk admin obj s of
                     (None, s) \<Rightarrow> ((0, Some recoveredPanic), s)
                   | (Some res, s) \<Rightarrow> reportEnsured k wk obj res s))))"

definition reconcileWorkload ::
  "('spec, 'w) kube \<Rightarrow> ('spec, 'w) workload_kind \<Rightarrow> string \<Rightarrow> string \<Rightarrow> 'w rs \<Rightarrow> outcome \<times> 'w rs" where
  "reconcileWorkload k wk namespace name s =
     (case mqRead (k_get k namespace name) s of
        (Inl err, s) \<Rightarrow>
          if k8s_IsNotFound err then ((0, None), s)
          else ((0, Some (WrapError (''get '' @ wk_Kind wk) err)), s)
      | (Inr obj, s) \<Rightarrow>
          (let gen = om_Generation (w_meta obj) in
           if w_Suspend obj then reconcileWorkloadSuspended k obj gen s
           else if om_Deleting (w_meta obj) then
             reconcileWorkloadDeletion k obj gen (wk_Finalizer wk) (wk_orphanMessage wk)
               (handleDeletion k wk obj) s
           else
             (case resolveConnection k (om_Namespace (w_meta obj)) (w_ConnectionRef obj) s of
                (Inl err, s) \<Rightarrow> setSyncedError k obj gen err None s
              | (Inr conn, s) \<Rightarrow>
                  (case waitForConnectionReady k obj conn gen s of
                     (Some out, s) \<Rightarrow> (out, s)
                   | (None, s) \<Rightarrow>
                       (case forConnection k conn s of
                          (Inl err, s) \<Rightarrow> setSyncedError k obj gen err None s
                        | (Inr admin, s) \<Rightarrow> reconcileWithAdmin k wk obj admin s)))))"

section \<open>The five kinds\<close>

definition queue_kind :: "(QueueSpecCR, 'w) workload_kind" where
  "queue_kind =
     \<lparr>wk_Kind = ''Queue'', wk_controller = ControllerQueue, wk_Finalizer = QueueFinalizer,
      wk_orphanMessage = ''Queue orphaned in IBM MQ'', wk_deletingMessage = ''Deleting queue from IBM MQ'',
      wk_removedMessage = ''Queue removed from IBM MQ'', wk_matchesMessage = ''Queue matches spec'',
      wk_precheck = (\<lambda>obj. None),
      wk_format = (\<lambda>obj. FormatDefineQueueMQSC (toMQQueueSpec obj)),
      wk_ensure = (\<lambda>admin obj s. apfst Some (ensureQueue admin obj (toMQQueueSpec obj) (isObserveOnly obj) s)),
      wk_delete = (\<lambda>admin obj. ad_DeleteQueue admin (toMQQueueSpec obj))\<rparr>"

definition topic_kind :: "(TopicSpecCR, 'w) workload_kind" where
  "topic_kind =
     \<lparr>wk_Kind = ''Topic'', wk_controller = ControllerTopic, wk_Finalizer = TopicFinalizer,
      wk_orphanMessage = ''Topic orphaned in IBM MQ'', wk_deletingMessage = ''Deleting topic from IBM MQ'',
      wk_removedMessage = ''Topic removed from IBM MQ'', wk_matchesMessage = ''Topic matches spec'',
      wk_precheck = (\<lambda>obj. None),
      wk_format = (\<lambda>obj. FormatDefineTopicMQSC (toMQTopicSpec obj)),
      wk_ensure = (\<lambda>admin obj s. apfst Some (ensureTopic admin obj (toMQTopicSpec obj) (isObserveOnly obj) s)),
      wk_delete = (\<lambda>admin obj. ad_DeleteTopic admin (t_TopicName (w_Spec obj)))\<rparr>"

definition channelTypeError :: "Channel \<Rightarrow> mq_error option" where
  "channelTypeError obj =
     (let t = ch_Type (w_Spec obj) in
      if t \<noteq> [] \<and> \<not> ChannelTypeSupported t
      then Some (TerminalError ''UnsupportedChannelType''
                   (''channel type '' @ Quote t @ '' is not supported'') None)
      else None)"

definition channel_kind :: "(ChannelSpecCR, 'w) workload_kind" where
  "channel_kind =
     \<lparr>wk_Kind = ''Channel'', wk_controller = ControllerChannel, wk_Finalizer = ChannelFinalizer,
      wk_orphanMessage = ''Channel orphaned in IBM MQ'', wk_deletingMessage = ''Deleting channel from IBM MQ'',
      wk_removedMessage = ''Channel removed from IBM MQ'', wk_matchesMessage = ''Channel matches spec'',
      wk_precheck = channelTypeError,
      wk_format = (\<lambda>obj. FormatDefineChannelMQSC (toMQChannelSpec obj)),
      wk_ensure = (\<lambda>admin obj s. apfst Some (ensureChannel admin obj (toMQChannelSpec obj) (isObserveOnly obj) s)),
      wk_delete = (\<lambda>admin obj. ad_DeleteChannel admin (toMQChannelSpec obj))\<rparr>"

definition authDrift :: "string \<Rightarrow> string \<Rightarrow> bool \<times> bool \<times> mq_error option \<Rightarrow> ensure_result" where
  "authDrift name label r =
     (case r of (mqExists, drifted, err) \<Rightarrow>
        (mqExists, if drifted then observeOnlyAuthDriftMessage mqExists name label else [], err))"

definition channelauthrule_kind :: "(ChannelAuthRuleSpecCR, 'w) workload_kind" where
  "channelauthrule_kind =
     \<lparr>wk_Kind = ''ChannelAuthRule'', wk_controller = ControllerChannelAuthRule, wk_Finalizer = ChannelAuthRuleFinalizer,
      wk_orphanMessage = ''CHLAUTH rule orphaned in IBM MQ'',
      wk_deletingMessage = ''Deleting CHLAUTH rule from IBM MQ'',
      wk_removedMessage = ''CHLAUTH rule removed from IBM MQ'',
      wk_matchesMessage = ''ChannelAuthRule matches spec'',
      wk_precheck = (\<lambda>obj. None),
      wk_format = (\<lambda>obj. FormatSetChannelAuthMQSC (toMQChannelAuthSpec obj)),
      wk_ensure = (\<lambda>admin obj s.
        apfst (\<lambda>r. Some (authDrift (ca_ChannelName (toMQChannelAuthSpec obj)) ''CHLAUTH rule'' r))
          (ensureChannelAuth admin (toMQChannelAuthSpec obj) obj s)),
      wk_delete = (\<lambda>admin obj. ad_DeleteChannelAuth admin (toMQChannelAuthSpec obj))\<rparr>"

definition authorityrecord_kind :: "(AuthorityRecordSpecCR, 'w) workload_kind" where
  "authorityrecord_kind =
     \<lparr>wk_Kind = ''AuthorityRecord'', wk_controller = ControllerAuthorityRecord, wk_Finalizer = AuthorityRecordFinalizer,
      wk_orphanMessage = ''Authority record orphaned in IBM MQ'',
      wk_deletingMessage = ''Deleting authority record from IBM MQ'',
      wk_removedMessage = ''Authority record removed from IBM MQ'',
      wk_matchesMessage = ''AuthorityRecord matches spec'',
      wk_precheck = (\<lambda>obj. None),
      wk_format = (\<lambda>obj. FormatSetAuthorityMQSC (toMQAuthoritySpec obj)),
      wk_ensure = (\<lambda>admin obj s.
        apfst (map_option (authDrift (a_Profile (w_Spec obj)) ''authority record''))
          (ensureAuthority admin (toMQAuthoritySpec obj) obj s)),
      wk_delete = (\<lambda>admin obj. ad_DeleteAuthority admin (toMQAuthoritySpec obj))\<rparr>"

definition QueueReconciler_reconcile ::
  "(QueueSpecCR, 'w) kube \<Rightarrow> string \<Rightarrow> string \<Rightarrow> 'w rs \<Rightarrow> outcome \<times> 'w rs" where
  "QueueReconciler_reconcile k = reconcileWorkload k queue_kind"

definition TopicReconciler_reconcile ::
  "(TopicSpecCR, 'w) kube \<Rightarrow> string \<Rightarrow> string \<Rightarrow> 'w rs \<Rightarrow> outcome \<times> 'w rs" where
  "TopicReconciler_reconcile k = reconcileWorkload k topic_kind"

definition ChannelReconciler_reconcile ::
  "(ChannelSpecCR, 'w) kube \<Rightarrow> string \<Rightarrow> string \<Rightarrow> 'w rs \<Rightarrow> outcome \<times> 'w rs" where
  "ChannelReconciler_reconcile k = reconcileWorkload k channel_kind"

definition ChannelAuthRuleReconciler_reconcile ::
  "(ChannelAuthRuleSpecCR, 'w) kube \<Rightarrow> string \<Rightarrow> string \<Rightarrow> 'w rs \<Rightarrow> outcome \<times> 'w rs" where
  "ChannelAuthRuleReconciler_reconcile k = reconcileWorkload k channelauthrule_kind"

definition AuthorityRecordReconciler_reconcile ::
  "(AuthorityRecordSpecCR, 'w) kube \<Rightarrow> string \<Rightarrow> string \<Rightarrow> 'w rs \<Rightarrow> outcome \<times> 'w rs" where
  "AuthorityRecordReconciler_reconcile k = reconcileWorkload k authorityrecord_kind"

definition QueueReconciler_handleDeletion ::
  "(QueueSpecCR, 'w) kube \<Rightarrow> Queue \<Rightarrow> 'w Admin \<Rightarrow> 'w rs \<Rightarrow> outcome \<times> 'w rs" where
  "QueueReconciler_handleDeletion k = handleDeletion k queue_kind"

definition TopicReconciler_handleDeletion ::
  "(TopicSpecCR, 'w) kube \<Rightarrow> Topic \<Rightarrow> 'w Admin \<Rightarrow> 'w rs \<Rightarrow> outcome \<times> 'w rs" where
  "TopicReconciler_handleDeletion k = handleDeletion k topic_kind"

definition ChannelReconciler_handleDeletion ::
  "(ChannelSpecCR, 'w) kube \<Rightarrow> Channel \<Rightarrow> 'w Admin \<Rightarrow> 'w rs \<Rightarrow> outcome \<times> 'w rs" where
  "ChannelReconciler_handleDeletion k = handleDeletion k channel_kind"

definition ChannelAuthRuleReconciler_handleDeletion ::
  "(ChannelAuthRuleSpecCR, 'w) kube \<Rightarrow> ChannelAuthRule \<Rightarrow> 'w Admin \<Rightarrow> 'w rs \<Rightarrow> outcome \<times> 'w rs" where
  "ChannelAuthRuleReconciler_handleDeletion k = handleDeletion k channelauthrule_kind"

definition AuthorityRecordReconciler_handleDeletion ::
  "(AuthorityRecordSpecCR, 'w) kube \<Rightarrow> AuthorityRecord \<Rightarrow> 'w Admin \<Rightarrow> 'w rs \<Rightarrow> outcome \<times> 'w rs" where
  "AuthorityRecordReconciler_handleDeletion k = handleDeletion k authorityrecord_kind"

end
