(* ===== verification/Attr_Fold.thy ===== *)
theory Attr_Fold
  imports Workload_Reconcilers
begin

text \<open>
  Folding of MQSC attributes into typed fields, \<open>api/v1beta1/conversion_attributes.go\<close>.

  A Go closure \<open>apply\<close> that assigns a field of its spec and returns a bool is a function that
  returns the changed spec, or \<open>None\<close> where the closure returns false (then nothing is changed).
  The three loops have one text; it is \<open>foldLoop\<close>, with the table of closures, the key normaliser
  and the test for set fields as arguments. A Go \<open>range\<close> loop visits each entry once in some order
  and the body deletes only the entry it is at, so the loop is a left fold over the entries.
\<close>

section \<open>The fold tables\<close>

record 'spec attrFold =
  af_keys :: "string list"
  af_apply :: "'spec \<Rightarrow> string \<Rightarrow> 'spec option"

definition foldText ::
  "('spec \<Rightarrow> string) \<Rightarrow> ((string \<Rightarrow> string) \<Rightarrow> 'spec \<Rightarrow> 'spec) \<Rightarrow> 'spec \<Rightarrow> string \<Rightarrow> 'spec option" where
  "foldText field upd s v = (if field s \<noteq> [] then None else Some (upd (\<lambda>_. v) s))"

definition foldInt32 ::
  "('spec \<Rightarrow> int option) \<Rightarrow> ((int option \<Rightarrow> int option) \<Rightarrow> 'spec \<Rightarrow> 'spec) \<Rightarrow> 'spec \<Rightarrow> string \<Rightarrow>
     'spec option" where
  "foldInt32 field upd s v =
     (if field s \<noteq> None then None
      else (case ParseInt 32 v of None \<Rightarrow> None | Some n \<Rightarrow> Some (upd (\<lambda>_. Some n) s)))"

definition queueFolds :: "QueueSpecCR attrFold list" where
  "queueFolds =
     [\<lparr>af_keys = [''maxdepth''], af_apply = foldInt32 q_MaxDepth q_MaxDepth_update\<rparr>,
      \<lparr>af_keys = [''descr''], af_apply = foldText q_Description q_Description_update\<rparr>,
      \<lparr>af_keys = [''defpsist''], af_apply = foldText q_DefPersistence q_DefPersistence_update\<rparr>,
      \<lparr>af_keys = [''get''], af_apply = foldText q_Get q_Get_update\<rparr>,
      \<lparr>af_keys = [''put''], af_apply = foldText q_Put q_Put_update\<rparr>,
      \<lparr>af_keys = [''targq'', ''target''], af_apply = foldText q_TargetQueue q_TargetQueue_update\<rparr>,
      \<lparr>af_keys = [''xmitq'', ''transmissionqueue''], af_apply = foldText q_XmitQueue q_XmitQueue_update\<rparr>,
      \<lparr>af_keys = [''rqmname'', ''remotemanager''],
       af_apply = foldText q_RemoteQueueManager q_RemoteQueueManager_update\<rparr>]"

definition topicFolds :: "TopicSpecCR attrFold list" where
  "topicFolds =
     [\<lparr>af_keys = [''topstr'', ''topicstr''], af_apply = foldText t_TopicString t_TopicString_update\<rparr>,
      \<lparr>af_keys = [''descr''], af_apply = foldText t_Description t_Description_update\<rparr>,
      \<lparr>af_keys = [''pub''], af_apply = foldText t_Publish t_Publish_update\<rparr>,
      \<lparr>af_keys = [''sub''], af_apply = foldText t_Subscribe t_Subscribe_update\<rparr>,
      \<lparr>af_keys = [''defpsist''], af_apply = foldText t_DefPersistence t_DefPersistence_update\<rparr>,
      \<lparr>af_keys = [''pubscope''], af_apply = foldText t_PublishScope t_PublishScope_update\<rparr>,
      \<lparr>af_keys = [''subscope''], af_apply = foldText t_SubscribeScope t_SubscribeScope_update\<rparr>]"

definition channelFolds :: "ChannelSpecCR attrFold list" where
  "channelFolds =
     [\<lparr>af_keys = [''descr''], af_apply = foldText ch_Description ch_Description_update\<rparr>,
      \<lparr>af_keys = [''maxmsgl''], af_apply = foldInt32 ch_MaxMsgLength ch_MaxMsgLength_update\<rparr>,
      \<lparr>af_keys = [''trptype''], af_apply = foldText ch_TransportType ch_TransportType_update\<rparr>,
      \<lparr>af_keys = [''sharecnv''], af_apply = foldInt32 ch_ShareConv ch_ShareConv_update\<rparr>,
      \<lparr>af_keys = [''mcauser''], af_apply = foldText ch_McaUser ch_McaUser_update\<rparr>,
      \<lparr>af_keys = [''maxinst''], af_apply = foldInt32 ch_MaxInstances ch_MaxInstances_update\<rparr>,
      \<lparr>af_keys = [''maxinstc''], af_apply = foldInt32 ch_MaxInstancesClient ch_MaxInstancesClient_update\<rparr>,
      \<lparr>af_keys = [''sslciph''], af_apply = foldText ch_SslCipherSpec ch_SslCipherSpec_update\<rparr>,
      \<lparr>af_keys = [''sslcauth''], af_apply = foldText ch_SslClientAuth ch_SslClientAuth_update\<rparr>,
      \<lparr>af_keys = [''conname''], af_apply = foldText ch_ConnName ch_ConnName_update\<rparr>,
      \<lparr>af_keys = [''xmitq''], af_apply = foldText ch_XmitQueue ch_XmitQueue_update\<rparr>]"

section \<open>Tests for set fields\<close>

definition typedQueueFieldSet :: "QueueSpecCR \<Rightarrow> string list \<Rightarrow> bool" where
  "typedQueueFieldSet spec keys =
     list_ex (\<lambda>k.
       if k = ''maxdepth'' then q_MaxDepth spec \<noteq> None
       else if k = ''descr'' then q_Description spec \<noteq> []
       else if k = ''defpsist'' then q_DefPersistence spec \<noteq> []
       else if k = ''get'' then q_Get spec \<noteq> []
       else if k = ''put'' then q_Put spec \<noteq> []
       else if k = ''targq'' \<or> k = ''target'' then q_TargetQueue spec \<noteq> []
       else if k = ''xmitq'' \<or> k = ''transmissionqueue'' then q_XmitQueue spec \<noteq> []
       else if k = ''rqmname'' \<or> k = ''remotemanager'' then q_RemoteQueueManager spec \<noteq> []
       else False) keys"

definition typedTopicFieldSet :: "TopicSpecCR \<Rightarrow> string list \<Rightarrow> bool" where
  "typedTopicFieldSet spec keys =
     list_ex (\<lambda>k.
       if k = ''topstr'' \<or> k = ''topicstr'' then t_TopicString spec \<noteq> []
       else if k = ''descr'' then t_Description spec \<noteq> []
       else if k = ''pub'' then t_Publish spec \<noteq> []
       else if k = ''sub'' then t_Subscribe spec \<noteq> []
       else if k = ''defpsist'' then t_DefPersistence spec \<noteq> []
       else if k = ''pubscope'' then t_PublishScope spec \<noteq> []
       else if k = ''subscope'' then t_SubscribeScope spec \<noteq> []
       else False) keys"

definition typedChannelFieldSet :: "ChannelSpecCR \<Rightarrow> string list \<Rightarrow> bool" where
  "typedChannelFieldSet spec keys =
     list_ex (\<lambda>k.
       if k = ''descr'' then ch_Description spec \<noteq> []
       else if k = ''maxmsgl'' then ch_MaxMsgLength spec \<noteq> None
       else if k = ''trptype'' then ch_TransportType spec \<noteq> []
       else if k = ''sharecnv'' then ch_ShareConv spec \<noteq> None
       else if k = ''mcauser'' then ch_McaUser spec \<noteq> []
       else if k = ''maxinst'' then ch_MaxInstances spec \<noteq> None
       else if k = ''maxinstc'' then ch_MaxInstancesClient spec \<noteq> None
       else if k = ''sslciph'' then ch_SslCipherSpec spec \<noteq> []
       else if k = ''sslcauth'' then ch_SslClientAuth spec \<noteq> []
       else if k = ''conname'' then ch_ConnName spec \<noteq> []
       else if k = ''xmitq'' then ch_XmitQueue spec \<noteq> []
       else False) keys"

section \<open>The loop\<close>

definition attrKeyMatches :: "string \<Rightarrow> string list \<Rightarrow> bool" where
  "attrKeyMatches norm keys = list_ex (\<lambda>k. norm = k) keys"

definition normalizeTopicAttrKey :: "string \<Rightarrow> string" where
  "normalizeTopicAttrKey key =
     (let norm = ToLower key in if norm = ''topicstr'' then ''topstr'' else norm)"

definition foldEntry ::
  "(string \<Rightarrow> string) \<Rightarrow> ('spec \<Rightarrow> string list \<Rightarrow> bool) \<Rightarrow> 'spec attrFold list \<Rightarrow>
     string \<times> string \<Rightarrow> 'spec \<times> attrs \<Rightarrow> 'spec \<times> attrs" where
  "foldEntry norm fieldSet folds entry state =
     (case (entry, state) of
        ((key, value), (spec, attrs)) \<Rightarrow>
          (case find (\<lambda>f. attrKeyMatches (norm key) (af_keys f)) folds of
             None \<Rightarrow> (spec, attrs)
           | Some f \<Rightarrow>
               (case af_apply f spec value of
                  Some spec' \<Rightarrow> (spec', AList.delete key attrs)
                | None \<Rightarrow>
                    if fieldSet spec (af_keys f) then (spec, AList.delete key attrs)
                    else (spec, attrs))))"

definition foldLoop ::
  "(string \<Rightarrow> string) \<Rightarrow> ('spec \<Rightarrow> string list \<Rightarrow> bool) \<Rightarrow> 'spec attrFold list \<Rightarrow>
     'spec \<Rightarrow> attrs \<Rightarrow> 'spec \<times> attrs" where
  "foldLoop norm fieldSet folds spec attrs = fold (foldEntry norm fieldSet folds) attrs (spec, attrs)"

definition foldAttributes :: "QueueSpecCR \<Rightarrow> attrs \<Rightarrow> QueueSpecCR attrFold list \<Rightarrow> QueueSpecCR \<times> attrs" where
  "foldAttributes spec attrs folds = foldLoop ToLower typedQueueFieldSet folds spec attrs"

definition FoldQueueAttributesToTyped :: "QueueSpecCR \<Rightarrow> attrs \<Rightarrow> QueueSpecCR \<times> attrs" where
  "FoldQueueAttributesToTyped spec attrs =
     (if length attrs = 0 then (spec, attrs) else foldAttributes spec attrs queueFolds)"

definition FoldTopicAttributesToTyped :: "TopicSpecCR \<Rightarrow> attrs \<Rightarrow> TopicSpecCR \<times> attrs" where
  "FoldTopicAttributesToTyped spec attrs =
     (if length attrs = 0 then (spec, attrs)
      else foldLoop normalizeTopicAttrKey typedTopicFieldSet topicFolds spec attrs)"

definition FoldChannelAttributesToTyped :: "ChannelSpecCR \<Rightarrow> attrs \<Rightarrow> ChannelSpecCR \<times> attrs" where
  "FoldChannelAttributesToTyped spec attrs =
     (if length attrs = 0 then (spec, attrs)
      else foldLoop ToLower typedChannelFieldSet channelFolds spec attrs)"

text \<open>A nil map is \<open>None\<close>.\<close>

definition CloneStringMap :: "attrs \<Rightarrow> attrs option" where
  "CloneStringMap attrs =
     (if length attrs = 0 then None
      else Some (fold (\<lambda>(k, v) out. AList.update k v out) attrs []))"

section \<open>Desired attributes as maps\<close>

text \<open>Two maps that ask for the same values, up to the notation that drift detection ignores.\<close>

definition same_desired :: "(string \<rightharpoonup> string) \<Rightarrow> (string \<rightharpoonup> string) \<Rightarrow> bool" where
  "same_desired m m' \<longleftrightarrow> (\<forall>k. rel_option (AttributeValueMatches k) (m k) (m' k))"

lemma same_desired_refl [simp]: "same_desired m m"
  by (simp add: same_desired_def option.rel_refl mq_drift.matches_refl)

lemma same_desired_trans:
  assumes "same_desired m m'" "same_desired m' m''"
  shows "same_desired m m''"
  unfolding same_desired_def
proof
  fix k
  from assms have "rel_option (AttributeValueMatches k) (m k) (m' k)"
    "rel_option (AttributeValueMatches k) (m' k) (m'' k)"
    by (simp_all add: same_desired_def)
  then show "rel_option (AttributeValueMatches k) (m k) (m'' k)"
    by (cases "m k"; cases "m' k"; cases "m'' k") (auto intro: mq_drift.matches_trans)
qed

text \<open>A desired map as the reconcilers build it: a Go map with normalised keys.\<close>

definition normal_attrs :: "attrs \<Rightarrow> bool" where
  "normal_attrs a \<longleftrightarrow> wf_gomap a \<and> (\<forall>k \<in> set (map fst a). NormalizeAttrKey k = k)"

lemma normal_attrs_update [simp]:
  "normal_attrs a \<Longrightarrow> normal_attrs (AList.update (NormalizeAttrKey k) v a)"
  by (simp add: normal_attrs_def flip: set_map) (auto simp: update_keys)

lemma normal_attrs_normalized [simp]: "normal_attrs (normalizedAttributes a)"
proof -
  have "normal_attrs m \<Longrightarrow> normal_attrs (fold (\<lambda>(k, v) m. AList.update (NormalizeAttrKey k) v m) a m)" for m
    by (induction a arbitrary: m) auto
  from this [of "[]"] show ?thesis
    unfolding normalizedAttributes_def by (simp add: normal_attrs_def wf_gomap_def)
qed

lemma normal_attrs_puts [simp]:
  "normal_attrs a \<Longrightarrow> normal_attrs (putText k v a)"
  "normal_attrs a \<Longrightarrow> normal_attrs (putInt k n a)"
  by (simp_all add: putText_def putInt_def split: option.splits)

lemma in_sync_normal:
  assumes "normal_attrs d"
  shows "mq_drift.in_sync d observed ks \<longleftrightarrow>
    (\<forall>k v. map_of d k = Some v \<longrightarrow> k \<in> ks \<longrightarrow> AttributeValueMatches k v (getz observed k))"
proof -
  have "(k, v) \<in> set d \<longleftrightarrow> map_of d k = Some v" for k v
    using assms by (simp add: normal_attrs_def wf_gomap_map_of)
  moreover have "NormalizeAttrKey k = k" if "map_of d k = Some v" for k v
    using assms map_of_SomeD [OF that] by (force simp: normal_attrs_def)
  ultimately show ?thesis unfolding mq_drift.in_sync_def by fastforce
qed

lemma same_desired_in_sync:
  assumes "normal_attrs d" "normal_attrs d'" "same_desired (map_of d) (map_of d')"
    and "mq_drift.in_sync d observed ks"
  shows "mq_drift.in_sync d' observed ks"
  unfolding in_sync_normal [OF assms(2)]
proof (intro allI impI)
  fix k v' assume v': "map_of d' k = Some v'" "k \<in> ks"
  with assms(3) obtain v where "map_of d k = Some v" "AttributeValueMatches k v v'"
    unfolding same_desired_def by (metis option.rel_distinct(1) option.rel_sel option.collapse option.sel)
  with v' assms(1,4) show "AttributeValueMatches k v' (getz observed k)"
    using in_sync_normal [OF assms(1)] mq_drift.matches_sym mq_drift.matches_trans by metis
qed

lemma same_desired_sym: "same_desired m m' \<Longrightarrow> same_desired m' m"
  unfolding same_desired_def
proof
  fix k assume "\<forall>k. rel_option (AttributeValueMatches k) (m k) (m' k)"
  then have "rel_option (AttributeValueMatches k) (m k) (m' k)" ..
  then show "rel_option (AttributeValueMatches k) (m' k) (m k)"
    by (cases "m k"; cases "m' k") (auto intro: mq_drift.matches_sym)
qed

lemma same_desired_NeedUpdate:
  assumes "normal_attrs d" "normal_attrs d'" "same_desired (map_of d) (map_of d')"
  shows "AttributesNeedUpdate d observed ks \<longleftrightarrow> AttributesNeedUpdate d' observed ks"
  unfolding AttributesNeedUpdate_iff
  using same_desired_in_sync [OF assms] same_desired_in_sync [OF assms(2,1) same_desired_sym [OF assms(3)]]
  by blast

section \<open>The loop preserves what is desired\<close>

definition distinct_attrs :: "attrs \<Rightarrow> bool" where
  "distinct_attrs a \<longleftrightarrow> distinct (map (NormalizeAttrKey \<circ> fst) a)"

definition norm_map :: "attrs \<Rightarrow> string \<rightharpoonup> string" where
  "norm_map a = map_of (map (\<lambda>(k, v). (NormalizeAttrKey k, v)) a)"

lemma dom_norm_map: "dom (norm_map a) = set (map (NormalizeAttrKey \<circ> fst) a)"
  by (auto simp: norm_map_def dom_map_of_conv_image_fst image_iff split: prod.splits) force+

lemma norm_map_Cons: "norm_map ((k, v) # a) = (norm_map a)(NormalizeAttrKey k \<mapsto> v)"
  by (simp add: norm_map_def)

lemma norm_map_Some: "distinct_attrs a \<Longrightarrow> (k, v) \<in> set a \<Longrightarrow> norm_map a (NormalizeAttrKey k) = Some v"
  unfolding norm_map_def distinct_attrs_def
  by (intro map_of_is_SomeI) (force simp: o_def case_prod_beta image_iff)+

lemma distinct_attrs_delete [simp]: "distinct_attrs a \<Longrightarrow> distinct_attrs (AList.delete k a)"
  unfolding distinct_attrs_def AList.delete_eq by (simp add: distinct_map_filter)

lemma distinct_attrs_key_inj:
  "distinct_attrs a \<Longrightarrow> (k, v) \<in> set a \<Longrightarrow> (k', v') \<in> set a \<Longrightarrow>
     NormalizeAttrKey k' = NormalizeAttrKey k \<Longrightarrow> k' = k"
  unfolding distinct_attrs_def distinct_map by (metis comp_apply fst_conv inj_onD)

lemma norm_map_delete:
  assumes "distinct_attrs a" "(k, v) \<in> set a"
  shows "norm_map (AList.delete k a) = (norm_map a)(NormalizeAttrKey k := None)"
proof -
  have "norm_map (AList.delete k b) = (norm_map b)(NormalizeAttrKey k := None)"
    if "\<forall>(k', v') \<in> set b. NormalizeAttrKey k' = NormalizeAttrKey k \<longrightarrow> k' = k" for b
    using that unfolding norm_map_def AList.delete_eq by (induction b) (auto simp: fun_eq_iff)
  then show ?thesis using distinct_attrs_key_inj [OF assms] by blast
qed

lemma norm_map_normalized: "distinct_attrs a \<Longrightarrow> map_of (normalizedAttributes a) = norm_map a"
proof -
  have "distinct_attrs a \<Longrightarrow>
    map_of (fold (\<lambda>(k, v) m. AList.update (NormalizeAttrKey k) v m) a m) = map_of m ++ norm_map a" for m
  proof (induction a arbitrary: m)
    case (Cons kv a)
    obtain k v where "kv = (k, v)" by force
    with Cons.prems have "distinct_attrs a" by (simp add: distinct_attrs_def)
    moreover from Cons.prems \<open>kv = (k, v)\<close> have "NormalizeAttrKey k \<notin> dom (norm_map a)"
      by (auto simp: distinct_attrs_def dom_norm_map)
    ultimately have "(map_of m)(NormalizeAttrKey k \<mapsto> v) ++ norm_map a
      = map_of m ++ (norm_map a)(NormalizeAttrKey k \<mapsto> v)"
      by (auto simp: map_add_def fun_eq_iff split: option.splits)
    with Cons.IH [OF \<open>distinct_attrs a\<close>] show ?case
      by (simp only: fold_simps comp_apply prod.case \<open>kv = (k, v)\<close> map_of_AList_update norm_map_Cons)
  qed (simp add: norm_map_def)
  then show "distinct_attrs a \<Longrightarrow> ?thesis" by (simp add: normalizedAttributes_def)
qed

text \<open>
  What the loop needs of a table: \<open>typed\<close> reads the typed fields as a map from MQSC keys to
  rendered values, \<open>aliases\<close> are normalised keys that the reconcilers do not treat as the
  field's own key. A fold fills an empty field with a value that matches, the test for set
  fields agrees with \<open>typed\<close>, and a fold that fails on an empty field met an unreadable number.
\<close>

locale typed_fields =
  fixes norm :: "string \<Rightarrow> string"
    and fieldSet :: "'spec \<Rightarrow> string list \<Rightarrow> bool"
    and folds :: "'spec attrFold list"
    and typed :: "'spec \<Rightarrow> string \<rightharpoonup> string"
    and aliases :: "string set"
  assumes promoted_key:
      "find (\<lambda>f. attrKeyMatches (norm key) (af_keys f)) folds = Some f \<Longrightarrow> norm key \<notin> aliases \<Longrightarrow>
         NormalizeAttrKey key = norm key"
    and apply_fills:
      "find (\<lambda>f. attrKeyMatches n (af_keys f)) folds = Some f \<Longrightarrow> n \<notin> aliases \<Longrightarrow>
         af_apply f s v = Some s' \<Longrightarrow> v \<noteq> [] \<Longrightarrow>
         typed s n = None \<and> (\<exists>r. typed s' = (typed s)(n \<mapsto> r) \<and> AttributeValueMatches n v r)"
    and set_iff_typed:
      "find (\<lambda>f. attrKeyMatches n (af_keys f)) folds = Some f \<Longrightarrow> n \<notin> aliases \<Longrightarrow>
         fieldSet s (af_keys f) \<longleftrightarrow> typed s n \<noteq> None"
    and apply_fails:
      "find (\<lambda>f. attrKeyMatches n (af_keys f)) folds = Some f \<Longrightarrow> n \<notin> aliases \<Longrightarrow>
         af_apply f s v = None \<Longrightarrow> typed s n = None \<Longrightarrow> ParseInt 32 v = None"
begin

definition effective :: "'spec \<times> attrs \<Rightarrow> string \<rightharpoonup> string" where
  "effective st = norm_map (snd st) ++ typed (fst st)"

definition plain_entry :: "string \<times> string \<Rightarrow> bool" where
  "plain_entry e \<longleftrightarrow> norm (fst e) \<notin> aliases \<and> snd e \<noteq> []"

definition kept_entry :: "string \<times> string \<Rightarrow> bool" where
  "kept_entry e \<longleftrightarrow>
     find (\<lambda>f. attrKeyMatches (norm (fst e)) (af_keys f)) folds = None \<or> ParseInt 32 (snd e) = None"

lemma foldEntry_cases:
  assumes "plain_entry (k, v)"
  obtains (kept) "foldEntry norm fieldSet folds (k, v) (s, a) = (s, a)" "kept_entry (k, v)"
  | (promoted) s' r where
      "foldEntry norm fieldSet folds (k, v) (s, a) = (s', AList.delete k a)" "typed s (NormalizeAttrKey k) = None"
      "typed s' = (typed s)(NormalizeAttrKey k \<mapsto> r)" "AttributeValueMatches (NormalizeAttrKey k) v r"
  | (covered) "foldEntry norm fieldSet folds (k, v) (s, a) = (s, AList.delete k a)"
      "typed s (NormalizeAttrKey k) \<noteq> None"
proof (cases "find (\<lambda>f. attrKeyMatches (norm k) (af_keys f)) folds")
  case None
  with kept show thesis by (simp add: foldEntry_def kept_entry_def)
next
  case (Some f)
  note found = this
  from assms have na: "norm k \<notin> aliases" and v: "v \<noteq> []" by (simp_all add: plain_entry_def)
  note key = promoted_key [OF Some na]
  show thesis
  proof (cases "af_apply f s v")
    case None
    then show thesis
    proof (cases "fieldSet s (af_keys f)")
      case True
      with None Some set_iff_typed [OF Some na, of s] key covered show thesis
        by (simp add: foldEntry_def)
    next
      case False
      with set_iff_typed [OF Some na] have "typed s (norm k) = None" by blast
      with apply_fails [OF Some na None] have "kept_entry (k, v)" by (simp add: kept_entry_def)
      with False None Some kept show thesis by (simp add: foldEntry_def)
    qed
  next
    case (Some s')
    note app = Some
    with apply_fills [OF found na app v] key obtain r where
      "typed s (NormalizeAttrKey k) = None" "typed s' = (typed s)(NormalizeAttrKey k \<mapsto> r)"
      "AttributeValueMatches (NormalizeAttrKey k) v r" by metis
    with app found promoted show thesis by (simp add: foldEntry_def)
  qed
qed

lemma foldEntry_effective:
  assumes "plain_entry (k, v)" "distinct_attrs a" "(k, v) \<in> set a"
  shows "same_desired (effective (s, a)) (effective (foldEntry norm fieldSet folds (k, v) (s, a)))"
  using assms(1)
proof (cases rule: foldEntry_cases [where s = s and a = a])
  case (promoted s' r)
  then show ?thesis
    unfolding same_desired_def effective_def promoted(1)
    by (auto simp: norm_map_delete [OF assms(2,3)] norm_map_Some [OF assms(2,3)] map_add_def
        option.rel_refl mq_drift.matches_refl split: option.splits)
next
  case covered
  then have "effective (s, AList.delete k a) = effective (s, a)"
    by (auto simp: effective_def norm_map_delete [OF assms(2,3)] map_add_def fun_eq_iff split: option.splits)
  with covered(1) show ?thesis by simp
qed simp

lemma fold_effective:
  assumes "\<forall>e \<in> set xs. plain_entry e" "distinct_attrs a" "distinct (map fst xs)" "set xs \<subseteq> set a"
    and "\<forall>e \<in> set a - set xs. kept_entry e"
  shows "same_desired (effective (s, a)) (effective (fold (foldEntry norm fieldSet folds) xs (s, a))) \<and>
    (\<forall>e \<in> set (snd (fold (foldEntry norm fieldSet folds) xs (s, a))). e \<in> set a \<and> kept_entry e)"
  using assms
proof (induction xs arbitrary: s a)
  case (Cons e xs)
  obtain k v where e: "e = (k, v)" by force
  from Cons.prems e have plain: "plain_entry (k, v)" and mem: "(k, v) \<in> set a"
    and other: "\<And>k' v'. (k', v') \<in> set xs \<Longrightarrow> k' \<noteq> k" by force+
  obtain s' a' where st: "foldEntry norm fieldSet folds (k, v) (s, a) = (s', a')" by force
  have a': "a' = a \<and> kept_entry (k, v) \<or> a' = AList.delete k a"
    using plain st by (cases rule: foldEntry_cases [where s = s and a = a]) auto
  then have sub: "set a' \<subseteq> set a" by (auto simp: AList.delete_eq)
  have wf': "distinct_attrs a'" using a' Cons.prems(2) by auto
  have "set xs \<subseteq> set a'" using a' Cons.prems(4) other by (fastforce simp: AList.delete_eq)
  moreover have "\<forall>e \<in> set a' - set xs. kept_entry e"
    using a' Cons.prems(5) mem e distinct_attrs_key_inj [OF Cons.prems(2) mem]
    by (auto simp: AList.delete_eq)
  ultimately have ih: "same_desired (effective (s', a')) (effective (fold (foldEntry norm fieldSet folds) xs (s', a')))
    \<and> (\<forall>e \<in> set (snd (fold (foldEntry norm fieldSet folds) xs (s', a'))). e \<in> set a' \<and> kept_entry e)"
    using Cons.prems(1,3) wf' by (intro Cons.IH) auto
  with foldEntry_effective [OF plain Cons.prems(2) mem, of s] sub st show ?case
    unfolding e by (auto intro: same_desired_trans)
qed simp

lemma foldLoop_effective:
  assumes "\<forall>e \<in> set a. plain_entry e" "distinct_attrs a" "foldLoop norm fieldSet folds s a = (s', a')"
  shows "same_desired (norm_map a ++ typed s) (norm_map a' ++ typed s')"
    and "\<forall>e \<in> set a'. e \<in> set a \<and> kept_entry e"
proof -
  have "distinct (map fst a)"
    using assms(2) unfolding distinct_attrs_def by (metis distinct_map map_map)
  with fold_effective [OF assms(1,2), of s] assms(3)
  show "same_desired (norm_map a ++ typed s) (norm_map a' ++ typed s')"
    and "\<forall>e \<in> set a'. e \<in> set a \<and> kept_entry e"
    by (auto simp: foldLoop_def effective_def)
qed

lemma foldLoop_distinct:
  "distinct_attrs a \<Longrightarrow> foldLoop norm fieldSet folds s a = (s', a') \<Longrightarrow> distinct_attrs a'"
proof -
  have "distinct_attrs b \<Longrightarrow> distinct_attrs (snd (fold (foldEntry norm fieldSet folds) xs (t, b)))" for xs t b
    by (induction xs arbitrary: t b)
      (auto simp: foldEntry_def split: prod.splits option.splits)
  then show "distinct_attrs a \<Longrightarrow> foldLoop norm fieldSet folds s a = (s', a') \<Longrightarrow> ?thesis"
    by (metis foldLoop_def snd_conv)
qed

end

section \<open>Typed fields as columns\<close>

definition columns :: "(string \<times> string option) list \<Rightarrow> string \<rightharpoonup> string" where
  "columns cs k = (case map_of cs k of None \<Rightarrow> None | Some v \<Rightarrow> v)"

lemma columns_Cons: "columns ((k, a) # cs) x = (if x = k then a else columns cs x)"
  by (simp add: columns_def)

definition text_value :: "string \<Rightarrow> string option" where
  "text_value v = (if v = [] then None else Some v)"

definition putColumn :: "string \<times> string option \<Rightarrow> attrs \<Rightarrow> attrs" where
  "putColumn c a = (case c of (k, None) \<Rightarrow> a | (k, Some v) \<Rightarrow> AList.update (NormalizeAttrKey k) v a)"

lemma put_as_column:
  "putText k v = putColumn (k, text_value v)" "putInt k n = putColumn (k, map_option Itoa n)"
  by (auto simp: putText_def putInt_def putColumn_def text_value_def fun_eq_iff split: option.splits)

lemma putColumns:
  assumes "distinct (map fst cs)" "\<forall>k \<in> set (map fst cs). NormalizeAttrKey k = k"
  shows "map_of (fold putColumn cs a) = map_of a ++ columns cs"
  using assms
proof (induction cs arbitrary: a)
  case (Cons c cs)
  obtain k v where [simp]: "c = (k, v)" by force
  from Cons.prems have "map_of cs k = None" by (simp add: map_of_eq_None_iff)
  with Cons show ?case
    by (auto simp: putColumn_def columns_def map_add_def fun_eq_iff split: option.splits)
qed (simp add: columns_def map_add_def fun_eq_iff)

definition queueKeys :: "string list" where
  "queueKeys =
     [''maxdepth'', ''descr'', ''defpsist'', ''get'', ''put'', ''targq'', ''xmitq'', ''rqmname'']"

definition queueValues :: "QueueSpecCR \<Rightarrow> string option list" where
  "queueValues q =
     [map_option Itoa (q_MaxDepth q),
      text_value (q_Description q),
      text_value (q_DefPersistence q),
      text_value (q_Get q),
      text_value (q_Put q),
      text_value (q_TargetQueue q),
      text_value (q_XmitQueue q),
      text_value (q_RemoteQueueManager q)]"

definition queueColumns :: "QueueSpecCR \<Rightarrow> (string \<times> string option) list" where
  "queueColumns q = zip queueKeys (queueValues q)"

definition topicKeys :: "string list" where
  "topicKeys =
     [''topstr'', ''descr'', ''pub'', ''sub'', ''defpsist'', ''pubscope'', ''subscope'']"

definition topicValues :: "TopicSpecCR \<Rightarrow> string option list" where
  "topicValues t =
     [text_value (t_TopicString t),
      text_value (t_Description t),
      text_value (t_Publish t),
      text_value (t_Subscribe t),
      text_value (t_DefPersistence t),
      text_value (t_PublishScope t),
      text_value (t_SubscribeScope t)]"

definition topicColumns :: "TopicSpecCR \<Rightarrow> (string \<times> string option) list" where
  "topicColumns t = zip topicKeys (topicValues t)"

definition channelKeys :: "string list" where
  "channelKeys =
     [''descr'', ''maxmsgl'', ''trptype'', ''sharecnv'', ''mcauser'', ''maxinst'', ''maxinstc'', ''sslciph'', ''sslcauth'', ''conname'', ''xmitq'']"

definition channelValues :: "ChannelSpecCR \<Rightarrow> string option list" where
  "channelValues c =
     [text_value (ch_Description c),
      map_option Itoa (ch_MaxMsgLength c),
      text_value (ch_TransportType c),
      map_option Itoa (ch_ShareConv c),
      text_value (ch_McaUser c),
      map_option Itoa (ch_MaxInstances c),
      map_option Itoa (ch_MaxInstancesClient c),
      text_value (ch_SslCipherSpec c),
      text_value (ch_SslClientAuth c),
      text_value (ch_ConnName c),
      text_value (ch_XmitQueue c)]"

definition channelColumns :: "ChannelSpecCR \<Rightarrow> (string \<times> string option) list" where
  "channelColumns c = zip channelKeys (channelValues c)"

lemma keys_normalised:
  "\<forall>k \<in> set queueKeys. NormalizeAttrKey k = k" "\<forall>k \<in> set topicKeys. NormalizeAttrKey k = k"
  "\<forall>k \<in> set channelKeys. NormalizeAttrKey k = k"
  by (simp_all add: queueKeys_def topicKeys_def channelKeys_def) code_simp+

lemma toMQ_as_columns:
  "qs_Attributes (toMQQueueSpec q) =
     fold putColumn (queueColumns (w_Spec q)) (normalizedAttributes (q_Attributes (w_Spec q)))"
  "ts_Attributes (toMQTopicSpec t) =
     fold putColumn (topicColumns (w_Spec t)) (normalizedAttributes (t_Attributes (w_Spec t)))"
  "chs_Attributes (toMQChannelSpec c) =
     fold putColumn (channelColumns (w_Spec c)) (normalizedAttributes (ch_Attributes (w_Spec c)))"
  by (simp_all add: toMQQueueSpec_def toMQTopicSpec_def toMQChannelSpec_def put_as_column
      queueColumns_def topicColumns_def channelColumns_def queueValues_def topicValues_def
      channelValues_def queueKeys_def topicKeys_def channelKeys_def Let_def)

lemma normal_putColumns: "normal_attrs a \<Longrightarrow> normal_attrs (fold putColumn cs a)"
  by (induction cs arbitrary: a) (auto simp: putColumn_def split: option.splits)

text \<open>An integer that parses with 32 bits reads back the same.\<close>

lemma ParseInt_32_64: "ParseInt 32 s = Some n \<Longrightarrow> ParseInt 64 s = Some n"
  by (auto simp: ParseInt_def Let_def split: list.splits if_splits option.splits)

lemma ParseInt_matches:
  assumes "ParseInt 32 v = Some n" "NormalizeAttrKey k \<in> set numericAttrKeys"
  shows "AttributeValueMatches k v (Itoa n)"
proof -
  have "Atoi (TrimSpace v) = Some n"
    using assms(1) by (simp add: ParseInt_no_space ParseInt_32_64)
  moreover have "Atoi (TrimSpace (Itoa n)) = Some n"
    using Atoi_Itoa_range [OF ParseInt_32_64 [OF assms(1)]] by simp
  ultimately show ?thesis using AttributeValueMatches_numeric [OF assms(2)] by blast
qed

lemma numeric_columns:
  "NormalizeAttrKey ''maxdepth'' \<in> set numericAttrKeys" "NormalizeAttrKey ''maxmsgl'' \<in> set numericAttrKeys"
  "NormalizeAttrKey ''sharecnv'' \<in> set numericAttrKeys" "NormalizeAttrKey ''maxinst'' \<in> set numericAttrKeys"
  "NormalizeAttrKey ''maxinstc'' \<in> set numericAttrKeys"
  by code_simp+

text \<open>\<open>fills\<close>: the empty value number \<open>i\<close> becomes one that matches \<open>v\<close>; the others stay.\<close>

definition fills :: "string option list \<Rightarrow> string option list \<Rightarrow> nat \<Rightarrow> string \<Rightarrow> string \<Rightarrow> bool" where
  "fills vs vs' i k v \<longleftrightarrow>
     i < length vs \<and> vs ! i = None \<and> (\<exists>r. vs' = vs[i := Some r] \<and> AttributeValueMatches k v r)"

lemma columns_nth:
  "distinct ks \<Longrightarrow> length vs = length ks \<Longrightarrow> i < length ks \<Longrightarrow> columns (zip ks vs) (ks ! i) = vs ! i"
  by (auto simp: columns_def map_of_zip_nth)

lemma columns_update:
  "distinct ks \<Longrightarrow> length vs = length ks \<Longrightarrow> i < length ks \<Longrightarrow>
     columns (zip ks (vs[i := Some r])) = (columns (zip ks vs))(ks ! i \<mapsto> r)"
proof (induction ks vs arbitrary: i rule: list_induct2')
  case (4 k ks v vs)
  show ?case
  proof (cases i)
    case (Suc j)
    with 4 have ih: "columns (zip ks (vs[j := Some r])) = (columns (zip ks vs))(ks ! j \<mapsto> r)"
      and "ks ! j \<noteq> k" by auto
    then show ?thesis using fun_cong [OF ih] by (intro ext) (auto simp: Suc columns_Cons)
  qed (auto simp: columns_Cons)
qed simp_all

lemma fills_columns:
  assumes "fills vs vs' i (ks ! i) v" "distinct ks" "length vs = length ks"
  shows "columns (zip ks vs) (ks ! i) = None \<and>
    (\<exists>r. columns (zip ks vs') = (columns (zip ks vs))(ks ! i \<mapsto> r) \<and> AttributeValueMatches (ks ! i) v r)"
  using assms columns_nth columns_update unfolding fills_def by metis

lemma foldText_Some: "foldText field upd s v = Some s' \<longleftrightarrow> field s = [] \<and> s' = upd (\<lambda>_. v) s"
  by (auto simp: foldText_def)

lemma foldInt32_Some:
  "foldInt32 field upd s v = Some s' \<longleftrightarrow>
     field s = None \<and> (\<exists>n. ParseInt 32 v = Some n \<and> s' = upd (\<lambda>_. Some n) s)"
  by (auto simp: foldInt32_def split: option.splits)

text \<open>
  A table whose entry number \<open>i\<close> fills column number \<open>i\<close>; such a table has typed fields.
\<close>

locale fold_table =
  fixes norm :: "string \<Rightarrow> string"
    and fieldSet :: "'spec \<Rightarrow> string list \<Rightarrow> bool"
    and folds :: "'spec attrFold list"
    and keys :: "string list"
    and vals :: "'spec \<Rightarrow> string option list"
    and aliases :: "string set"
  assumes keys_distinct: "distinct keys"
    and keys_normal: "\<forall>k \<in> set keys. NormalizeAttrKey k = k"
    and vals_length: "length (vals s) = length keys"
    and folds_keys: "map (hd \<circ> af_keys) folds = keys"
    and folds_nonempty: "\<forall>f \<in> set folds. af_keys f \<noteq> []"
    and aliased: "\<forall>f \<in> set folds. set (tl (af_keys f)) \<subseteq> aliases"
    and entry_norm: "norm key \<in> set keys \<Longrightarrow> norm key \<notin> aliases \<Longrightarrow> NormalizeAttrKey key = norm key"
    and entry_fill:
      "\<forall>(i, f) \<in> set (enumerate 0 folds). \<forall>s v s'. af_apply f s v = Some s' \<longrightarrow> v \<noteq> [] \<longrightarrow>
         fills (vals s) (vals s') i (hd (af_keys f)) v"
    and entry_set:
      "\<forall>(i, f) \<in> set (enumerate 0 folds). \<forall>s. fieldSet s (af_keys f) \<longleftrightarrow> vals s ! i \<noteq> None"
    and entry_fail:
      "\<forall>(i, f) \<in> set (enumerate 0 folds). \<forall>s v. af_apply f s v = None \<longrightarrow> vals s ! i = None \<longrightarrow>
         ParseInt 32 v = None"
begin

lemma found_column:
  assumes "find (\<lambda>f. attrKeyMatches n (af_keys f)) folds = Some f" "n \<notin> aliases"
  obtains i where "(i, f) \<in> set (enumerate 0 folds)" "i < length keys" "keys ! i = n" "hd (af_keys f) = n"
proof -
  from assms obtain i where i: "i < length folds" "f = folds ! i" "n \<in> set (af_keys f)"
    by (auto simp: find_Some_iff attrKeyMatches_def list_ex_iff)
  then have "f \<in> set folds" by simp
  with aliased have "set (tl (af_keys f)) \<subseteq> aliases" by blast
  with assms(2) i(3) have "hd (af_keys f) = n" by (cases "af_keys f") auto
  moreover have "i < length keys" using i(1) by (simp flip: folds_keys)
  moreover have "keys ! i = hd (af_keys f)" using i(1,2) by (simp flip: folds_keys)
  ultimately show thesis using that [of i] i by (simp add: in_set_enumerate_eq)
qed

end

sublocale fold_table \<subseteq> typed_fields norm fieldSet folds "\<lambda>s. columns (zip keys (vals s))" aliases
proof unfold_locales
  fix key n v :: string and f s s'
  show "find (\<lambda>f. attrKeyMatches (norm key) (af_keys f)) folds = Some f \<Longrightarrow> norm key \<notin> aliases \<Longrightarrow>
    NormalizeAttrKey key = norm key"
    using entry_norm by (metis found_column nth_mem)
  assume f: "find (\<lambda>f. attrKeyMatches n (af_keys f)) folds = Some f" and n: "n \<notin> aliases"
  obtain i where i: "(i, f) \<in> set (enumerate 0 folds)" "i < length keys" "keys ! i = n" "hd (af_keys f) = n"
    using found_column [OF f n] .
  note col = columns_nth [OF keys_distinct vals_length i(2), unfolded i(3)]
  show "fieldSet s (af_keys f) \<longleftrightarrow> columns (zip keys (vals s)) n \<noteq> None" using i col entry_set by fastforce
  show "af_apply f s v = None \<Longrightarrow> columns (zip keys (vals s)) n = None \<Longrightarrow> ParseInt 32 v = None"
    using i col entry_fail by fastforce
  assume "af_apply f s v = Some s'" "v \<noteq> []"
  with i entry_fill have "fills (vals s) (vals s') i (keys ! i) v" by fastforce
  from fills_columns [OF this keys_distinct vals_length]
  show "columns (zip keys (vals s)) n = None \<and>
    (\<exists>r. columns (zip keys (vals s')) = (columns (zip keys (vals s)))(n \<mapsto> r) \<and> AttributeValueMatches n v r)"
    by (simp only: i(3))
qed

context fold_table
begin

lemma kept_key: "kept_entry e \<Longrightarrow> norm (fst e) \<notin> set keys \<or> ParseInt 32 (snd e) = None"
proof -
  assume "kept_entry e"
  then consider "\<forall>f \<in> set folds. norm (fst e) \<notin> set (af_keys f)" | "ParseInt 32 (snd e) = None"
    by (auto simp: kept_entry_def find_None_iff attrKeyMatches_def list_ex_iff)
  then show ?thesis
  proof cases
    case 1
    have "norm (fst e) \<notin> set keys"
    proof
      assume "norm (fst e) \<in> set keys"
      then obtain i where i: "i < length keys" "keys ! i = norm (fst e)" by (auto simp: in_set_conv_nth)
      then have f: "folds ! i \<in> set folds" "hd (af_keys (folds ! i)) = norm (fst e)"
        by (auto simp flip: folds_keys)
      with 1 have "af_keys (folds ! i) = []" by (metis list.set_sel(1))
      moreover have "af_keys (folds ! i) \<noteq> []" using folds_nonempty f(1) by blast
      ultimately show False by simp
    qed
    then show ?thesis ..
  qed simp
qed

lemma desired_as_map:
  "distinct_attrs a \<Longrightarrow>
     map_of (fold putColumn (zip keys (vals s)) (normalizedAttributes a)) = norm_map a ++ columns (zip keys (vals s))"
  using putColumns [of "zip keys (vals s)" "normalizedAttributes a"] keys_distinct keys_normal
  by (simp add: norm_map_normalized vals_length)

lemma folded_desired:
  assumes "distinct_attrs a" "\<forall>(k, v) \<in> set a. norm k \<notin> aliases \<and> v \<noteq> []"
    and "foldLoop norm fieldSet folds s a = (s', a')"
  shows "AttributesNeedUpdate (fold putColumn (zip keys (vals s')) (normalizedAttributes a')) observed ks
      = AttributesNeedUpdate (fold putColumn (zip keys (vals s)) (normalizedAttributes a)) observed ks"
    and "\<forall>(k, v) \<in> set a'. (k, v) \<in> set a \<and> (norm k \<notin> set keys \<or> ParseInt 32 v = None)"
proof -
  have plain: "\<forall>e \<in> set a. plain_entry e" using assms(2) by (auto simp: plain_entry_def)
  note loop = foldLoop_effective [OF plain assms(1,3)]
  have "distinct_attrs a'" using foldLoop_distinct [OF assms(1,3)] .
  with loop(1) assms(1) have "same_desired
      (map_of (fold putColumn (zip keys (vals s)) (normalizedAttributes a)))
      (map_of (fold putColumn (zip keys (vals s')) (normalizedAttributes a')))"
    by (simp only: desired_as_map)
  then show "AttributesNeedUpdate (fold putColumn (zip keys (vals s')) (normalizedAttributes a')) observed ks
      = AttributesNeedUpdate (fold putColumn (zip keys (vals s)) (normalizedAttributes a)) observed ks"
    by (intro same_desired_NeedUpdate [symmetric] normal_putColumns normal_attrs_normalized)
  show "\<forall>(k, v) \<in> set a'. (k, v) \<in> set a \<and> (norm k \<notin> set keys \<or> ParseInt 32 v = None)"
  proof clarify
    fix k v assume "(k, v) \<in> set a'"
    with loop(2) have "(k, v) \<in> set a" "kept_entry (k, v)" by blast+
    with kept_key [of "(k, v)"] show "(k, v) \<in> set a \<and> (norm k \<notin> set keys \<or> ParseInt 32 v = None)"
      by simp
  qed
qed

end

lemma queueFolds_fill:
  "\<forall>(i, f) \<in> set (enumerate 0 queueFolds). \<forall>s v s'. af_apply f s v = Some s' \<longrightarrow> v \<noteq> [] \<longrightarrow>
     fills (queueValues s) (queueValues s') i (hd (af_keys f)) v"
  unfolding queueFolds_def enumerate_simps list.set ball_simps prod.case
  by (intro conjI allI impI TrueI,
      unfold attrFold.select_convs foldText_Some foldInt32_Some queueValues_def fills_def list.sel)
    (elim conjE exE, hypsubst,
      simp add: text_value_def mq_drift.matches_refl ParseInt_matches numeric_columns)+

lemma queueFolds_set:
  "\<forall>(i, f) \<in> set (enumerate 0 queueFolds). \<forall>s. typedQueueFieldSet s (af_keys f) \<longleftrightarrow> queueValues s ! i \<noteq> None"
  unfolding queueFolds_def enumerate_simps list.set ball_simps prod.case
  by (intro conjI allI TrueI) (simp_all add: typedQueueFieldSet_def queueValues_def text_value_def)

lemma queueFolds_fail:
  "\<forall>(i, f) \<in> set (enumerate 0 queueFolds). \<forall>s v. af_apply f s v = None \<longrightarrow> queueValues s ! i = None \<longrightarrow>
     ParseInt 32 v = None"
  unfolding queueFolds_def enumerate_simps list.set ball_simps prod.case
  by (intro conjI allI impI TrueI)
     (auto simp: queueValues_def foldInt32_def foldText_def text_value_def split: option.splits if_splits)

interpretation queue_fold: fold_table ToLower typedQueueFieldSet queueFolds queueKeys queueValues
  "{''target'', ''transmissionqueue'', ''remotemanager''}"
proof (unfold_locales, goal_cases)
  case 1 show ?case by code_simp
next
  case 2 show ?case using keys_normalised by blast
next
  case (3 s) show ?case by (simp add: queueValues_def queueKeys_def)
next
  case 4 show ?case by (simp add: queueFolds_def queueKeys_def)
next
  case 5 show ?case by (simp add: queueFolds_def)
next
  case 6 show ?case by (simp add: queueFolds_def)
next
  case (7 key) then show ?case by (auto simp: NormalizeAttrKey_def Let_def queueKeys_def)
qed (fact queueFolds_fill queueFolds_set queueFolds_fail)+

lemma topicFolds_fill:
  "\<forall>(i, f) \<in> set (enumerate 0 topicFolds). \<forall>s v s'. af_apply f s v = Some s' \<longrightarrow> v \<noteq> [] \<longrightarrow>
     fills (topicValues s) (topicValues s') i (hd (af_keys f)) v"
  unfolding topicFolds_def enumerate_simps list.set ball_simps prod.case
  by (intro conjI allI impI TrueI,
      unfold attrFold.select_convs foldText_Some foldInt32_Some topicValues_def fills_def list.sel)
    (elim conjE exE, hypsubst,
      simp add: text_value_def mq_drift.matches_refl ParseInt_matches numeric_columns)+

lemma topicFolds_set:
  "\<forall>(i, f) \<in> set (enumerate 0 topicFolds). \<forall>s. typedTopicFieldSet s (af_keys f) \<longleftrightarrow> topicValues s ! i \<noteq> None"
  unfolding topicFolds_def enumerate_simps list.set ball_simps prod.case
  by (intro conjI allI TrueI) (simp_all add: typedTopicFieldSet_def topicValues_def text_value_def)

lemma topicFolds_fail:
  "\<forall>(i, f) \<in> set (enumerate 0 topicFolds). \<forall>s v. af_apply f s v = None \<longrightarrow> topicValues s ! i = None \<longrightarrow>
     ParseInt 32 v = None"
  unfolding topicFolds_def enumerate_simps list.set ball_simps prod.case
  by (intro conjI allI impI TrueI)
     (auto simp: topicValues_def foldInt32_def foldText_def text_value_def split: option.splits if_splits)

interpretation topic_fold: fold_table normalizeTopicAttrKey typedTopicFieldSet topicFolds topicKeys topicValues
  "{''topicstr''}"
proof (unfold_locales, goal_cases)
  case 1 show ?case by code_simp
next
  case 2 show ?case using keys_normalised by blast
next
  case (3 s) show ?case by (simp add: topicValues_def topicKeys_def)
next
  case 4 show ?case by (simp add: topicFolds_def topicKeys_def)
next
  case 5 show ?case by (simp add: topicFolds_def)
next
  case 6 show ?case by (simp add: topicFolds_def)
next
  case (7 key) then show ?case by (simp add: NormalizeAttrKey_def normalizeTopicAttrKey_def)
qed (fact topicFolds_fill topicFolds_set topicFolds_fail)+

lemma channelFolds_fill:
  "\<forall>(i, f) \<in> set (enumerate 0 channelFolds). \<forall>s v s'. af_apply f s v = Some s' \<longrightarrow> v \<noteq> [] \<longrightarrow>
     fills (channelValues s) (channelValues s') i (hd (af_keys f)) v"
  unfolding channelFolds_def enumerate_simps list.set ball_simps prod.case
  by (intro conjI allI impI TrueI,
      unfold attrFold.select_convs foldText_Some foldInt32_Some channelValues_def fills_def list.sel)
    (elim conjE exE, hypsubst,
      simp add: text_value_def mq_drift.matches_refl ParseInt_matches numeric_columns)+

lemma channelFolds_set:
  "\<forall>(i, f) \<in> set (enumerate 0 channelFolds). \<forall>s. typedChannelFieldSet s (af_keys f) \<longleftrightarrow> channelValues s ! i \<noteq> None"
  unfolding channelFolds_def enumerate_simps list.set ball_simps prod.case
  by (intro conjI allI TrueI) (simp_all add: typedChannelFieldSet_def channelValues_def text_value_def)

lemma channelFolds_fail:
  "\<forall>(i, f) \<in> set (enumerate 0 channelFolds). \<forall>s v. af_apply f s v = None \<longrightarrow> channelValues s ! i = None \<longrightarrow>
     ParseInt 32 v = None"
  unfolding channelFolds_def enumerate_simps list.set ball_simps prod.case
  by (intro conjI allI impI TrueI)
     (auto simp: channelValues_def foldInt32_def foldText_def text_value_def split: option.splits if_splits)

interpretation channel_fold: fold_table ToLower typedChannelFieldSet channelFolds channelKeys channelValues
  "{}"
proof (unfold_locales, goal_cases)
  case 1 show ?case by code_simp
next
  case 2 show ?case using keys_normalised by blast
next
  case (3 s) show ?case by (simp add: channelValues_def channelKeys_def)
next
  case 4 show ?case by (simp add: channelFolds_def channelKeys_def)
next
  case 5 show ?case by (simp add: channelFolds_def)
next
  case 6 show ?case by (simp add: channelFolds_def)
next
  case (7 key) then show ?case by (auto simp: NormalizeAttrKey_def Let_def channelKeys_def)
qed (fact channelFolds_fill channelFolds_set channelFolds_fail)+

section \<open>Folding and drift\<close>

definition foldable :: "string list \<Rightarrow> attrs \<Rightarrow> bool" where
  "foldable aliases a \<longleftrightarrow>
     distinct (map (NormalizeAttrKey \<circ> fst) a) \<and> list_all (\<lambda>(k, v). ToLower k \<notin> set aliases \<and> v \<noteq> []) a"

lemma foldableD:
  assumes "foldable aliases a"
  shows "distinct_attrs a" "\<forall>(k, v) \<in> set a. ToLower k \<notin> set aliases \<and> v \<noteq> []"
  using assms by (auto simp: foldable_def distinct_attrs_def list_all_iff)

lemma Fold_as_loop:
  "FoldQueueAttributesToTyped q a = foldLoop ToLower typedQueueFieldSet queueFolds q a"
  "FoldTopicAttributesToTyped t a = foldLoop normalizeTopicAttrKey typedTopicFieldSet topicFolds t a"
  "FoldChannelAttributesToTyped c a = foldLoop ToLower typedChannelFieldSet channelFolds c a"
  by (simp_all add: FoldQueueAttributesToTyped_def FoldTopicAttributesToTyped_def
      FoldChannelAttributesToTyped_def foldAttributes_def foldLoop_def)

lemma columns_without_attributes [simp]:
  "queueColumns (q\<lparr>q_Attributes := a\<rparr>) = queueColumns q"
  "topicColumns (t\<lparr>t_Attributes := a\<rparr>) = topicColumns t"
  "channelColumns (c\<lparr>ch_Attributes := a\<rparr>) = channelColumns c"
  by (simp_all add: queueColumns_def queueValues_def topicColumns_def topicValues_def
      channelColumns_def channelValues_def)

lemma normalizeTopicAttrKey_not_alias: "normalizeTopicAttrKey k \<noteq> ''topicstr''"
  by (simp add: normalizeTopicAttrKey_def Let_def)


definition foldedQueue :: Queue where
  "foldedQueue =
     \<lparr>w_meta = \<lparr>om_Namespace = ''ns'', om_Name = ''q'', om_UID = ''u'', om_Generation = 1, om_ResourceVersion = ''1'',
        om_Deleting = False, om_Finalizers = [], om_Annotations = []\<rparr>,
      w_ConnectionRef = ''qm'', w_Suspend = False,
      w_policies = \<lparr>lp_DeletionPolicy = [], lp_AdoptionPolicy = []\<rparr>,
      w_Spec = \<lparr>q_QueueName = ''Q'', q_Type = ''local'',
        q_Attributes = [(''MAXDEPTH'', ''0500''), (''custom'', ''x''), (''descr'', ''old'')],
        q_MaxDepth = None, q_Description = ''new'', q_DefPersistence = [], q_Get = [], q_Put = [],
        q_TargetQueue = [], q_XmitQueue = [], q_RemoteQueueManager = []\<rparr>,
      w_Status = \<lparr>st_Conditions = [], st_ObservedGeneration = 0, st_DesiredMQSC = [], st_Message = [],
        st_LastSyncTime = None, st_MQObjectExists = None\<rparr>\<rparr>"


end
