(* ===== verification/End_To_End.thy ===== *)
theory End_To_End
  imports Convergence Attr_Fold
begin

text \<open>
  The composition of the layers: the ensure steps of the reconcilers
  (\<open>internal/controller\<close>) run over the mqweb client (\<open>internal/adapter/mqrest\<close>) through the admin
  port, and the client talks to a queue manager behind HTTP.

  \<open>client_admin\<close> is the client as an implementation of \<open>mqadmin.Admin\<close>: its state is the state of
  the client (breaker, session, probe cache, world). \<open>serves\<close> is what is assumed of mqweb and the
  queue manager: the commands of one object are answered with status 200; a DEFINE stores its
  parameters, a DISPLAY of a stored object returns the requested ones among them, and a DISPLAY of a
  missing object is reported as missing.
\<close>

section \<open>The client as an admin port\<close>

definition client_admin :: "'w http_env \<Rightarrow> Client \<Rightarrow> 'w cstate Admin" where
  "client_admin env c =
     \<lparr>ad_Ping = Ping env c,
      ad_GetQueue = GetQueue env c, ad_DefineQueue = DefineQueue env c, ad_DeleteQueue = DeleteQueue env c,
      ad_QueueDriftKeys = ResolveQueueDriftCheckKeys env c,
      ad_GetTopic = GetTopic env c, ad_DefineTopic = DefineTopic env c, ad_DeleteTopic = DeleteTopic env c,
      ad_GetChannel = GetChannel env c, ad_DefineChannel = DefineChannel env c,
      ad_DeleteChannel = DeleteChannel env c,
      ad_GetChannelAuth = GetChannelAuth env c, ad_SetChannelAuth = SetChannelAuth env c,
      ad_DeleteChannelAuth = DeleteChannelAuth env c,
      ad_GetAuthority = GetAuthority env c, ad_SetAuthority = SetAuthority env c,
      ad_DeleteAuthority = DeleteAuthority env c\<rparr>"

section \<open>A queue manager that does what it is told\<close>

type_synonym stored = "string \<times> string \<Rightarrow> params option"

definition answers :: "('w \<Rightarrow> stored) \<Rightarrow> 'w \<Rightarrow> runCommandJSONRequest \<Rightarrow> mqscResponse \<Rightarrow> 'w \<Rightarrow> bool" where
  "answers qm w r resp w' \<longleftrightarrow>
     (if rj_Command r = mqscCommandDefine
      then \<not> overallFailed resp \<and> qm w' = (qm w)((rj_Qualifier r, rj_Name r) := Some (rj_Parameters r))
      else if rj_Command r = mqscCommandDelete
      then qm w' = (qm w)((rj_Qualifier r, rj_Name r) := None) \<and>
           (case qm w (rj_Qualifier r, rj_Name r) of
              Some ps \<Rightarrow> \<not> overallFailed resp
            | None \<Rightarrow> overallFailed resp \<and> isObjectMissing resp)
      else qm w' = qm w \<and>
           (case qm w (rj_Qualifier r, rj_Name r) of
              Some ps \<Rightarrow> resp = display_echo ps (rj_ResponseParameters r)
            | None \<Rightarrow> overallFailed resp \<and> isObjectMissing resp))"

definition serves :: "'w http_env \<Rightarrow> Client \<Rightarrow> ('w \<Rightarrow> stored) \<Rightarrow> runCommandJSONRequest set \<Rightarrow> bool" where
  "serves env c qm R \<longleftrightarrow>
     he_newRequest env (c_mqscURL c) = None \<and>
     (\<forall>r \<in> R. \<forall>req w. rq_URL req = c_mqscURL c \<and> rq_Body req = RunCommandJSON r \<longrightarrow>
        (\<exists>raw resp w'. he_do env req w = (Inr \<lparr>rs_StatusCode = StatusOK, rs_Body = Inr raw, rs_Cookies = []\<rparr>, w') \<and>
           he_unmarshalMQSC env raw = Inr resp \<and> answers qm w r resp w'))"

text \<open>A client without session cookies, with at least one attempt and a closed breaker.\<close>

definition ready_client :: "Client \<Rightarrow> bool" where
  "ready_client c \<longleftrightarrow> \<not> c_reauth c \<and> 0 < rp_maxAttempts (c_retry c)"

definition healthy :: "'w cstate \<Rightarrow> bool" where
  "healthy s \<longleftrightarrow> cb_state (cs_breaker s) = breakerStateClosed"

lemma StatusOK_plain [simp]: "\<not> isRetryableHTTPStatus StatusOK"
  by (simp add: isRetryableHTTPStatus_def)

lemma roundTrip_served:
  assumes "ready_client c" "healthy s" "build s = Inr req"
    and "he_do env req (cs_world s) = (Inr \<lparr>rs_StatusCode = StatusOK, rs_Body = Inr raw, rs_Cookies = []\<rparr>, w')"
  shows "roundTripWithReauth env c build s =
    (Inr \<lparr>rs_StatusCode = StatusOK, rs_Body = Inr raw, rs_Cookies = []\<rparr>, recordSuccessAt (s\<lparr>cs_world := w'\<rparr>))"
proof -
  have "beforeRequest (he_now env (cs_world s)) (cs_breaker s) = (Inr (), cs_breaker s)"
    using assms(2) by (simp add: healthy_def beforeRequest_def)
  moreover have "s\<lparr>cs_breaker := cs_breaker s\<rparr> = s" by simp
  ultimately show ?thesis
    using assms by (simp add: roundTripWithReauth_def ready_client_def roundTrip_def
        roundTripLoop.simps attemptOnce_def)
qed

lemma healthy_success: "healthy (recordSuccessAt (s\<lparr>cs_world := w\<rparr>)) \<longleftrightarrow> True"
  by (simp add: healthy_def recordSuccessAt_def recordSuccess_def transitionLocked_def Let_def)

definition replyOf :: "runCommandJSONRequest \<Rightarrow> mqscResponse \<Rightarrow> mqscResponse option \<times> mq_error option" where
  "replyOf r resp =
     (Some resp,
      if overallFailed resp
      then Some (if isObjectMissing resp then NotFoundError (rj_Name r) else terminalError resp ''mqsc command failed'')
      else None)"

lemma buildRequest_ok:
  "he_newRequest env url = None \<Longrightarrow>
     \<exists>req. buildRequest env c meth url hdrs body what s = Inr req \<and> rq_URL req = url \<and> rq_Body req = body"
  by (cases "c_authenticator c") (simp_all add: buildRequest_def authenticate_def ltpaAuthenticate_def)

lemma runCommandJSON_served:
  assumes "serves env c qm R" "ready_client c" "healthy s" "r \<in> R"
  obtains resp s' where "runCommandJSON env c r s = (replyOf r resp, s')"
    "answers qm (cs_world s) r resp (cs_world s')" "healthy s'" "cs_probe s' = cs_probe s"
proof -
  let ?build = "buildRequest env c ''POST'' (c_mqscURL c) mqscHeaders (RunCommandJSON r) ''MQSC''"
  obtain req where req: "?build s = Inr req" "rq_URL req = c_mqscURL c" "rq_Body req = RunCommandJSON r"
    using assms(1) buildRequest_ok [of env "c_mqscURL c"] unfolding serves_def by metis
  with assms(1,4) obtain raw resp w' where
    "do": "he_do env req (cs_world s) = (Inr \<lparr>rs_StatusCode = StatusOK, rs_Body = Inr raw, rs_Cookies = []\<rparr>, w')"
    and um: "he_unmarshalMQSC env raw = Inr resp" and ans: "answers qm (cs_world s) r resp w'"
    unfolding serves_def by blast
  let ?s = "recordSuccessAt (s\<lparr>cs_world := w'\<rparr>)"
  have "runCommandJSON env c r s = (replyOf r resp, ?s)"
    using roundTrip_served [where build = ?build, OF assms(2,3) req(1) "do"] um
    by (simp add: runCommandJSON_def postMQSC_def decodeMQSC_def replyOf_def requestName_def)
  moreover have "healthy ?s" by (simp only: healthy_success)
  ultimately show thesis using that [of resp ?s] ans by (simp add: recordSuccessAt_def)
qed

section \<open>Reading and defining through the port\<close>

text \<open>One object: the two requests about it and how its attributes are normalised.\<close>

definition display_request :: "runCommandJSONRequest \<Rightarrow> bool" where
  "display_request r \<longleftrightarrow> rj_Command r = mqscCommandDisplay"

lemma display_served:
  assumes "serves env c qm R" "ready_client c" "healthy s" "r \<in> R" "display_request r"
  obtains resp s' where "runCommandJSON env c r s = (replyOf r resp, s')"
    "observedState (replyOf r resp) (rj_Name r) norm =
       (case qm (cs_world s) (rj_Qualifier r, rj_Name r) of
          Some ps \<Rightarrow> Inr \<lparr>os_Name = rj_Name r, os_Attributes = norm (echo_attributes ps (rj_ResponseParameters r))\<rparr>
        | None \<Rightarrow> Inl (NotFoundError (rj_Name r)))"
    "qm (cs_world s') = qm (cs_world s)" "healthy s'" "cs_probe s' = cs_probe s"
proof -
  obtain resp s' where run: "runCommandJSON env c r s = (replyOf r resp, s')"
    and ans: "answers qm (cs_world s) r resp (cs_world s')" and st: "healthy s'" "cs_probe s' = cs_probe s"
    using runCommandJSON_served [OF assms(1-4)] by blast
  have "overallFailed (display_echo ps keys) = False" for ps keys
    by (simp add: overallFailed_def display_echo_def)
  then have "observedState (replyOf r resp) (rj_Name r) norm =
       (case qm (cs_world s) (rj_Qualifier r, rj_Name r) of
          Some ps \<Rightarrow> Inr \<lparr>os_Name = rj_Name r, os_Attributes = norm (echo_attributes ps (rj_ResponseParameters r))\<rparr>
        | None \<Rightarrow> Inl (NotFoundError (rj_Name r)))"
    using ans assms(5)
    by (auto simp: answers_def display_request_def replyOf_def observedState_def firstObjectAttributes_echo
        split: option.splits)
  moreover have "qm (cs_world s') = qm (cs_world s)"
    using ans assms(5) by (simp add: answers_def display_request_def)
  ultimately show thesis using that run st by blast
qed

lemma define_served:
  assumes "serves env c qm R" "ready_client c" "healthy s" "r \<in> R" "rj_Command r = mqscCommandDefine"
  obtains resp s' where "runCommandJSON env c r s = ((Some resp, None), s')"
    "qm (cs_world s') = (qm (cs_world s))((rj_Qualifier r, rj_Name r) := Some (rj_Parameters r))"
    "healthy s'" "cs_probe s' = cs_probe s"
proof -
  obtain resp s' where run: "runCommandJSON env c r s = (replyOf r resp, s')"
    and ans: "answers qm (cs_world s) r resp (cs_world s')" and st: "healthy s'" "cs_probe s' = cs_probe s"
    using runCommandJSON_served [OF assms(1-4)] by blast
  with assms(5) have "replyOf r resp = (Some resp, None)"
    "qm (cs_world s') = (qm (cs_world s))((rj_Qualifier r, rj_Name r) := Some (rj_Parameters r))"
    by (simp_all add: answers_def replyOf_def)
  with that run st show thesis by metis
qed

lemma delete_served:
  assumes "serves env c qm R" "ready_client c" "healthy s" "r \<in> R" "rj_Command r = mqscCommandDelete"
  obtains re err s' where "runCommandJSON env c r s = ((re, err), s')" "ignoreNotFound err = None"
    "qm (cs_world s') = (qm (cs_world s))((rj_Qualifier r, rj_Name r) := None)"
    "healthy s'" "cs_probe s' = cs_probe s"
proof -
  obtain resp s' where run: "runCommandJSON env c r s = (replyOf r resp, s')"
    and ans: "answers qm (cs_world s) r resp (cs_world s')" and st: "healthy s'" "cs_probe s' = cs_probe s"
    using runCommandJSON_served [OF assms(1-4)] by blast
  from ans assms(5) have "ignoreNotFound (snd (replyOf r resp)) = None"
    "qm (cs_world s') = (qm (cs_world s))((rj_Qualifier r, rj_Name r) := None)"
    by (auto simp: answers_def replyOf_def ignoreNotFound_def split: option.splits)
  with that [of "fst (replyOf r resp)" "snd (replyOf r resp)" s'] run st show thesis by simp
qed

text \<open>
  What a reconciler needs of the port for one object: in a good state (\<open>ok\<close>) a read is answered with
  the attributes of the stored object or with not-found and changes nothing, and after a define a
  read shows no drift.
\<close>

definition port_works ::
  "('s \<Rightarrow> ObjectState result \<times> 's) \<Rightarrow> ('s \<Rightarrow> mq_error option \<times> 's) \<Rightarrow>
     ('s \<Rightarrow> mq_error option \<times> 's) \<Rightarrow> (attrs \<Rightarrow> bool) \<Rightarrow>
     ('s \<Rightarrow> attrs option) \<Rightarrow> ('s \<Rightarrow> bool) \<Rightarrow> bool" where
  "port_works get def del drifted stored ok \<longleftrightarrow>
     (\<forall>s. ok s \<longrightarrow>
        (\<exists>r s'. get s = (r, s') \<and> ok s' \<and> stored s' = stored s \<and>
           (case stored s of
              Some a \<Rightarrow> (\<exists>st. r = Inr st \<and> os_Attributes st = a)
            | None \<Rightarrow> (\<exists>n. r = Inl (NotFoundError n)))) \<and>
        (\<exists>s'. def s = (None, s') \<and> ok s' \<and> (\<exists>a. stored s' = Some a \<and> \<not> drifted a)) \<and>
        (\<exists>s'. del s = (None, s') \<and> ok s' \<and> stored s' = None))"

lemma port_worksD:
  assumes "port_works get def del drifted stored ok" "ok s"
  obtains (found) a st s' where "stored s = Some a" "get s = (Inr st, s')" "os_Attributes st = a" "ok s'"
      "stored s' = stored s"
    | (missing) n s' where "stored s = None" "get s = (Inl (NotFoundError n), s')" "ok s'" "stored s' = stored s"
proof -
  from assms obtain r s' where g: "get s = (r, s')" "ok s'" "stored s' = stored s"
    and r: "case stored s of Some a \<Rightarrow> (\<exists>st. r = Inr st \<and> os_Attributes st = a)
      | None \<Rightarrow> (\<exists>n. r = Inl (NotFoundError n))"
    unfolding port_works_def by blast
  show thesis
  proof (cases "stored s")
    case None
    with r g missing show thesis by auto
  next
    case (Some a)
    with r g found show thesis by auto
  qed
qed

lemma port_works_define:
  assumes "port_works get def del drifted stored ok" "ok s"
  obtains s' a where "def s = (None, s')" "ok s'" "stored s' = Some a" "\<not> drifted a"
  using assms unfolding port_works_def by blast

lemma port_works_delete:
  assumes "port_works get def del drifted stored ok" "ok s"
  obtains s' where "del s = (None, s')" "ok s'" "stored s' = None"
  using assms unfolding port_works_def by blast

text \<open>The common part of the ensure steps, over such a port.\<close>

definition ensureObject ::
  "('w \<Rightarrow> ObjectState result \<times> 'w) \<Rightarrow> ('w \<Rightarrow> mq_error option \<times> 'w) \<Rightarrow> string \<Rightarrow> bool \<Rightarrow> attrs \<Rightarrow> string list \<Rightarrow>
     string \<Rightarrow> 'w rs \<Rightarrow> ensure_result \<times> 'w rs" where
  "ensureObject get def policy firstAdoption desired keys label s =
     (case mqRead get s of
        (r, s) \<Rightarrow>
          (case observedAttributes r of
             Inl e \<Rightarrow> ((False, [], Some e), s)
           | Inr (exists, observed) \<Rightarrow>
               reconcileMQObjectState False policy firstAdoption exists observed desired keys label (mqApply def) s))"

lemma adopt_never_blocks: "adoptionBlockForExisting AdoptionPolicyAdopt first ex nu label mm = None"
  by (simp add: adoptionBlockForExisting_def)

lemma ensureObject_in_sync:
  assumes "port_works get def del drifted stored ok" "ok (rs_world s)" "stored (rs_world s) = Some a" "\<not> drifted a"
    and "drifted = (\<lambda>a. AttributesNeedUpdate desired a keys)"
  obtains s' where "ensureObject get def AdoptionPolicyAdopt first desired keys label s = ((True, [], None), s')"
    "rs_log s' = rs_log s" "ok (rs_world s')" "stored (rs_world s') = Some a"
  using assms(1,2)
proof (cases rule: port_worksD)
  case (found a' st w)
  with assms that [of "s\<lparr>rs_world := w\<rparr>"] show thesis
    by (simp add: ensureObject_def mqRead_def observedAttributes_def reconcileMQObjectState_def adopt_never_blocks)
qed (use assms(3) in simp)

lemma ensureObject_converges:
  assumes pw: "port_works get def del drifted stored ok" and ok: "ok (rs_world s)"
    and dr: "drifted = (\<lambda>a. AttributesNeedUpdate desired a keys)"
  obtains s' a where "ensureObject get def AdoptionPolicyAdopt first desired keys label s = ((True, [], None), s')"
    "ok (rs_world s')" "stored (rs_world s') = Some a" "\<not> drifted a"
    "rs_log s' = (if (case stored (rs_world s) of None \<Rightarrow> True | Some a \<Rightarrow> drifted a) then [MQApply None] else []) @ rs_log s"
proof (cases "case stored (rs_world s) of None \<Rightarrow> True | Some a \<Rightarrow> drifted a")
  case False
  then obtain a where "stored (rs_world s) = Some a" "\<not> drifted a" by (auto split: option.splits)
  from ensureObject_in_sync [OF pw ok this dr] obtain s' where
    "ensureObject get def AdoptionPolicyAdopt first desired keys label s = ((True, [], None), s')"
    "rs_log s' = rs_log s" "ok (rs_world s')" "stored (rs_world s') = Some a" by blast
  with False \<open>\<not> drifted a\<close> that [of s' a] show thesis by simp
next
  case True
  from pw ok obtain r w where g: "get (rs_world s) = (r, w)" "ok w"
    and r: "\<exists>ex obs. observedAttributes r = Inr (ex, obs) \<and> (\<not> ex \<or> AttributesNeedUpdate desired obs keys)"
  proof (cases rule: port_worksD)
    case (found a st s')
    with True dr that show thesis by (force simp: observedAttributes_def)
  next
    case (missing n s')
    with that show thesis by (force simp: observedAttributes_def)
  qed
  obtain w' a where d: "def w = (None, w')" "ok w'" "stored w' = Some a" "\<not> drifted a"
    using port_works_define [OF pw g(2)] by blast
  from r g d True that [of "log_effect (MQApply None) (s\<lparr>rs_world := w'\<rparr>)" a] show thesis
    by (auto simp: ensureObject_def mqRead_def mqApply_def reconcileMQObjectState_def adopt_never_blocks log_effect_def)
qed

section \<open>Topics, channels and queues\<close>

lemma normal_key_lower: "NormalizeAttrKey k = k \<Longrightarrow> ToLower k = k \<and> k \<noteq> ''topicstr''"
proof -
  have "ToLower ''topstr'' = ''topstr''" "ToLower ''topicstr'' = ''topicstr''" by code_simp+
  then show "NormalizeAttrKey k = k \<Longrightarrow> ?thesis"
    by (auto simp: NormalizeAttrKey_def Let_def split: if_splits)
qed

lemma normal_attrs_lower:
  assumes "normal_attrs a"
  shows "distinct_lower a" "\<forall>(k, v) \<in> set a. ToLower k \<noteq> ''topicstr''"
proof -
  have k: "ToLower k = k \<and> k \<noteq> ''topicstr''" if "k \<in> set (map fst a)" for k
    using assms that normal_key_lower unfolding normal_attrs_def by blast
  then have low: "map (ToLower \<circ> fst) a = map fst a" by simp
  show "distinct_lower a"
    unfolding distinct_lower_def low using assms by (simp add: normal_attrs_def wf_gomap_def)
  show "\<forall>(k, v) \<in> set a. ToLower k \<noteq> ''topicstr''" using k by force
qed

lemma toMQ_normal:
  "normal_attrs (qs_Attributes (toMQQueueSpec q))" "normal_attrs (ts_Attributes (toMQTopicSpec t))"
  "normal_attrs (chs_Attributes (toMQChannelSpec c))"
  unfolding toMQ_as_columns by (simp_all add: normal_putColumns)

definition ok_state :: "(string, bool) gomap \<Rightarrow> 'w cstate \<Rightarrow> bool" where
  "ok_state P s \<longleftrightarrow> healthy s \<and> cs_probe s = P"

lemma served_port:
  assumes srv: "serves env c qm R" "ready_client c"
    and r: "r \<in> R" "display_request r" and d: "d \<in> R" "rj_Command d = mqscCommandDefine"
    and x: "x \<in> R" "rj_Command x = mqscCommandDelete"
    and key: "rj_Qualifier d = rj_Qualifier r" "rj_Name d = rj_Name r"
      "rj_Qualifier x = rj_Qualifier r" "rj_Name x = rj_Name r"
    and get: "\<And>s. cs_probe s = P \<Longrightarrow>
      get s = (case runCommandJSON env c r s of (re, s) \<Rightarrow> (observedState re (rj_Name r) norm, s))"
    and def: "\<And>s. def s = (case runCommandJSON env c d s of ((_, err), s) \<Rightarrow> (err, s))"
    and del: "\<And>s. del s = (case runCommandJSON env c x s of ((_, err), s) \<Rightarrow> (ignoreNotFound err, s))"
    and conv: "\<not> drifted (norm (echo_attributes (rj_Parameters d) (rj_ResponseParameters r)))"
  shows "port_works get def del drifted
    (\<lambda>s. map_option (\<lambda>ps. norm (echo_attributes ps (rj_ResponseParameters r)))
       (qm (cs_world s) (rj_Qualifier r, rj_Name r))) (ok_state P)"
  unfolding port_works_def
proof (intro allI impI conjI)
  fix s :: "'a cstate" assume "ok_state P s"
  then have ok: "healthy s" and P: "cs_probe s = P" by (simp_all add: ok_state_def)
  let ?stored = "\<lambda>s. map_option (\<lambda>ps. norm (echo_attributes ps (rj_ResponseParameters r)))
       (qm (cs_world s) (rj_Qualifier r, rj_Name r))"
  obtain resp s' where run: "runCommandJSON env c r s = (replyOf r resp, s')"
    and obs: "observedState (replyOf r resp) (rj_Name r) norm =
       (case qm (cs_world s) (rj_Qualifier r, rj_Name r) of
          Some ps \<Rightarrow> Inr \<lparr>os_Name = rj_Name r, os_Attributes = norm (echo_attributes ps (rj_ResponseParameters r))\<rparr>
        | None \<Rightarrow> Inl (NotFoundError (rj_Name r)))"
    and st: "qm (cs_world s') = qm (cs_world s)" "healthy s'" "cs_probe s' = cs_probe s"
    by (rule display_served [OF srv ok r, where norm = norm])
  have "ok_state P s'" using st P by (simp add: ok_state_def)
  then show "\<exists>r' s'. get s = (r', s') \<and> ok_state P s' \<and> ?stored s' = ?stored s \<and>
      (case ?stored s of Some a \<Rightarrow> \<exists>st. r' = Inr st \<and> os_Attributes st = a | None \<Rightarrow> \<exists>n. r' = Inl (NotFoundError n))"
    using get [OF P] run obs st(1) by (auto split: option.splits)
  obtain resp s' where "runCommandJSON env c d s = ((Some resp, None), s')"
    "qm (cs_world s') = (qm (cs_world s))((rj_Qualifier d, rj_Name d) := Some (rj_Parameters d))"
    "healthy s'" "cs_probe s' = cs_probe s"
    by (rule define_served [OF srv ok d])
  then show "\<exists>s'. def s = (None, s') \<and> ok_state P s' \<and> (\<exists>a. ?stored s' = Some a \<and> \<not> drifted a)"
    using def [of s] conv P key by (simp add: ok_state_def)
  obtain re err s' where "runCommandJSON env c x s = ((re, err), s')" "ignoreNotFound err = None"
    "qm (cs_world s') = (qm (cs_world s))((rj_Qualifier x, rj_Name x) := None)" "healthy s'" "cs_probe s' = cs_probe s"
    by (rule delete_served [OF srv ok x])
  then show "\<exists>s'. del s = (None, s') \<and> ok_state P s' \<and> ?stored s' = None"
    using del [of s] P key by (simp add: ok_state_def)
qed

definition topic_display :: "TopicSpec \<Rightarrow> runCommandJSONRequest" where
  "topic_display spec =
     \<lparr>rj_Type = mqscType, rj_Command = mqscCommandDisplay, rj_Qualifier = qualifierTopic,
      rj_Name = ts_Name spec, rj_ResponseParameters = topicDisplayParameters, rj_Parameters = []\<rparr>"

definition topic_requests :: "TopicSpec \<Rightarrow> runCommandJSONRequest set" where
  "topic_requests spec =
     {topic_display spec,
      defineRequest qualifierTopic (ts_Name spec) (defineTopicParameters spec),
      deleteRequest qualifierTopic (ts_Name spec)}"

definition channel_requests :: "ChannelSpec \<Rightarrow> runCommandJSONRequest set" where
  "channel_requests spec =
     {channelDisplayRequest (chs_Name spec) (chs_Type spec),
      defineRequest qualifierChannel (chs_Name spec) (defineChannelParameters spec),
      deleteRequest qualifierChannel (chs_Name spec)}"

definition queue_requests :: "QueueSpec \<Rightarrow> string list \<Rightarrow> runCommandJSONRequest set" where
  "queue_requests spec keys =
     {queueDisplayRequest spec keys,
      defineRequest (queueQualifier (qs_Type spec)) (qs_Name spec) (defineQueueParameters spec),
      deleteRequest (queueQualifier (qs_Type spec)) (qs_Name spec)}"

lemma spec_eta:
  fixes ts :: TopicSpec and cs :: ChannelSpec and qs :: QueueSpec
  shows "\<lparr>ts_Name = ts_Name ts, ts_Attributes = ts_Attributes ts\<rparr> = ts"
    "\<lparr>chs_Name = chs_Name cs, chs_Type = chs_Type cs, chs_Attributes = chs_Attributes cs\<rparr> = cs"
    "\<lparr>qs_Name = qs_Name qs, qs_Type = qs_Type qs, qs_Attributes = qs_Attributes qs\<rparr> = qs"
  by simp_all

lemma topic_port:
  assumes "serves env c qm (topic_requests spec)" "ready_client c" "normal_attrs (ts_Attributes spec)"
  shows "\<exists>stored. port_works (GetTopic env c (ts_Name spec)) (DefineTopic env c spec) (DeleteTopic env c (ts_Name spec))
    (\<lambda>a. AttributesNeedUpdate (ts_Attributes spec) a TopicDriftCheckKeys) stored (ok_state P)"
proof (rule exI, rule served_port [OF assms(1,2), where norm = normalizeTopicAttributes])
  show "\<not> AttributesNeedUpdate (ts_Attributes spec) (normalizeTopicAttributes (echo_attributes
      (rj_Parameters (defineRequest qualifierTopic (ts_Name spec) (defineTopicParameters spec)))
      (rj_ResponseParameters (topic_display spec)))) TopicDriftCheckKeys"
    using topic_converges [OF normal_attrs_lower [OF assms(3)], of "ts_Name spec"]
    by (simp add: defineRequest_def topic_display_def spec_eta)
qed (simp_all add: topic_requests_def topic_display_def display_request_def defineRequest_def
    GetTopic_def DefineTopic_def DeleteTopic_def deleteRequest_def)

lemma channel_port:
  assumes "serves env c qm (channel_requests spec)" "ready_client c" "normal_attrs (chs_Attributes spec)"
    and "validateChannelType (chs_Type spec) = None"
  shows "\<exists>stored. port_works (GetChannel env c spec) (DefineChannel env c spec) (DeleteChannel env c spec)
    (\<lambda>a. AttributesNeedUpdate (chs_Attributes spec) a (ChannelDriftCheckKeys (chs_Type spec))) stored (ok_state P)"
proof (rule exI, rule served_port [OF assms(1,2), where norm = "\<lambda>a. a"])
  show "\<not> AttributesNeedUpdate (chs_Attributes spec) (echo_attributes
      (rj_Parameters (defineRequest qualifierChannel (chs_Name spec) (defineChannelParameters spec)))
      (rj_ResponseParameters (channelDisplayRequest (chs_Name spec) (chs_Type spec)))) (ChannelDriftCheckKeys (chs_Type spec))"
    using channel_converges [OF normal_attrs_lower(1) [OF assms(3)], of "chs_Name spec" "chs_Type spec"]
    by (simp add: defineRequest_def channelDisplayRequest_def ChannelDriftCheckKeys_def spec_eta)
qed (simp_all add: channel_requests_def channelDisplayRequest_def display_request_def defineRequest_def
    GetChannel_def DefineChannel_def DeleteChannel_def deleteRequest_def assms(4))

text \<open>The keys of a queue, once the probe cache is filled.\<close>

definition probed :: "(string, bool) gomap \<Rightarrow> bool" where
  "probed P \<longleftrightarrow> list_all (\<lambda>a. map_of P a \<noteq> None) QueueLocalDefineOnlyCandidates"

definition queueKeysResolved :: "string \<Rightarrow> (string, bool) gomap \<Rightarrow> string list" where
  "queueKeysResolved qType P =
     (if NormalizeQueueType qType \<noteq> QueueTypeLocal then queueDisplayParameters qType
      else queueLocalDisplayParameters @ filter (\<lambda>a. map_of P a = Some True) QueueLocalDefineOnlyCandidates)"

lemma resolved_keys:
  assumes "probed P" "cs_probe s = P"
  shows "queueDisplayParametersForGet env c qType s = (Inr (queueKeysResolved qType P), s)"
    "ResolveQueueDriftCheckKeys env c qType s = (Inr (queueKeysResolved qType P), s)"
  using assms probeCandidates_cached [of QueueLocalDefineOnlyCandidates s env c queueLocalDisplayParameters]
  by (simp_all add: queueDisplayParametersForGet_def ResolveQueueDriftCheckKeys_def queueKeysResolved_def
      queueLocalDisplayParametersResolved_def probed_def list_all_iff)

lemma local_keys:
  fixes Q :: "string \<Rightarrow> bool"
  defines "ks \<equiv> queueLocalDisplayParameters @ filter Q QueueLocalDefineOnlyCandidates"
  shows "map ToLower ks = ks" "map NormalizeAttrKey ks = ks" "distinct ks" "''topstr'' \<notin> set ks"
proof -
  let ?all = "queueLocalDisplayParameters @ QueueLocalDefineOnlyCandidates"
  have all: "\<forall>k \<in> set ?all. ToLower k = k \<and> NormalizeAttrKey k = k \<and> k \<noteq> ''topstr''"
    by (simp add: queueLocalDisplayParameters_def QueueLocalDefineOnlyCandidates_def) code_simp
  have sub: "set ks \<subseteq> set ?all" by (auto simp: ks_def)
  show "map ToLower ks = ks" "map NormalizeAttrKey ks = ks"
    by (rule map_idI, use all sub in blast)+
  show "''topstr'' \<notin> set ks" using all sub by blast
  have "distinct ?all" by code_simp
  then show "distinct ks" by (auto simp: ks_def)
qed

lemma queue_converges_resolved:
  assumes "normal_attrs (qs_Attributes spec)"
  shows "\<not> AttributesNeedUpdate (qs_Attributes spec)
    (normalizeQueueAttributes (echo_attributes (defineQueueParameters spec) (queueKeysResolved (qs_Type spec) P)) (qs_Type spec))
    (queueKeysResolved (qs_Type spec) P)"
proof (cases "NormalizeQueueType (qs_Type spec) = QueueTypeLocal")
  case False
  then show ?thesis
    using queue_converges [OF normal_attrs_lower(1) [OF assms], of "qs_Name spec" "qs_Type spec"]
    by (simp add: queueKeysResolved_def QueueDriftCheckKeys_def spec_eta)
next
  case True
  let ?ks = "queueKeysResolved (qs_Type spec) P"
  have eq: "?ks = queueLocalDisplayParameters @
      filter (\<lambda>a. map_of P a = Some True) QueueLocalDefineOnlyCandidates"
    by (simp add: queueKeysResolved_def True)
  have ks: "map ToLower ?ks = ?ks" "map NormalizeAttrKey ?ks = ?ks" "distinct ?ks" "''topstr'' \<notin> set ?ks"
    unfolding eq by (rule local_keys)+
  have "\<not> AttributesNeedUpdate (qs_Attributes spec) (echo_attributes (defineQueueParameters spec) ?ks) ?ks"
  proof (rule echo_in_sync [where nk = queueNumericParameters and params = "defineQueueParameters spec", OF ks])
    show "set queueNumericParameters \<subseteq> set numericAttrKeys" by code_simp
    show "map_of (defineQueueParameters spec) (ToLower k) = Some (defineParameter queueNumericParameters (ToLower k) v)"
      if "(k, v) \<in> set (qs_Attributes spec)" for k v
      using defineObjectParameters_value [OF normal_attrs_lower(1) [OF assms] that]
      by (simp add: defineQueueParameters_def)
  qed simp
  then show ?thesis using True by (simp add: normalizeQueueAttributes_def)
qed

lemma queue_port:
  assumes "serves env c qm (queue_requests spec (queueKeysResolved (qs_Type spec) P))" "ready_client c"
    and "normal_attrs (qs_Attributes spec)" "validateQueueType (qs_Type spec) = None" "probed P"
  shows "\<exists>stored. port_works (GetQueue env c spec) (DefineQueue env c spec) (DeleteQueue env c spec)
    (\<lambda>a. AttributesNeedUpdate (qs_Attributes spec) a (queueKeysResolved (qs_Type spec) P)) stored (ok_state P)"
proof (rule exI, rule served_port [OF assms(1,2), where norm = "\<lambda>a. normalizeQueueAttributes a (qs_Type spec)"])
  show "\<not> AttributesNeedUpdate (qs_Attributes spec) (normalizeQueueAttributes (echo_attributes
      (rj_Parameters (defineRequest (queueQualifier (qs_Type spec)) (qs_Name spec) (defineQueueParameters spec)))
      (rj_ResponseParameters (queueDisplayRequest spec (queueKeysResolved (qs_Type spec) P)))) (qs_Type spec))
      (queueKeysResolved (qs_Type spec) P)"
    using queue_converges_resolved [OF assms(3), of P] by (simp add: defineRequest_def queueDisplayRequest_def)
  show "GetQueue env c spec s =
      (case runCommandJSON env c (queueDisplayRequest spec (queueKeysResolved (qs_Type spec) P)) s of
         (re, s) \<Rightarrow> (observedState re (rj_Name (queueDisplayRequest spec (queueKeysResolved (qs_Type spec) P)))
           (\<lambda>a. normalizeQueueAttributes a (qs_Type spec)), s))" if "cs_probe s = P" for s
    using resolved_keys(1) [OF assms(5) that, of env c "qs_Type spec"] assms(4)
    by (simp add: GetQueue_def queueDisplayRequest_def)
qed (simp_all add: queue_requests_def queueDisplayRequest_def display_request_def defineRequest_def
    DefineQueue_def DeleteQueue_def deleteRequest_def assms(4))

section \<open>One apply is enough\<close>

text \<open>An ensure step settles: it succeeds with at most one write to IBM MQ, and running it again
  succeeds without any.\<close>

definition settles :: "('w rs \<Rightarrow> ensure_result \<times> 'w rs) \<Rightarrow> 'w rs \<Rightarrow> bool" where
  "settles f s \<longleftrightarrow>
     (\<exists>s1 s2. f s = ((True, [], None), s1) \<and> f s1 = ((True, [], None), s2) \<and>
        (rs_log s1 = rs_log s \<or> rs_log s1 = MQApply None # rs_log s) \<and> rs_log s2 = rs_log s1)"

lemma ensureObject_settles:
  assumes "\<exists>stored. port_works get def del (\<lambda>a. AttributesNeedUpdate desired a keys) stored ok" "ok (rs_world s)"
    and step: "\<And>s. ok (rs_world s) \<Longrightarrow>
      f s = ensureObject get def AdoptionPolicyAdopt first desired keys label s"
  shows "settles f s"
proof -
  let ?drifted = "\<lambda>a. AttributesNeedUpdate desired a keys"
  from assms(1) obtain stored where pw: "port_works get def del ?drifted stored ok" by blast
  obtain s1 a where one: "f s = ((True, [], None), s1)" "ok (rs_world s1)" "stored (rs_world s1) = Some a"
      "\<not> ?drifted a" "rs_log s1 = rs_log s \<or> rs_log s1 = MQApply None # rs_log s"
    by (rule ensureObject_converges [OF pw assms(2) refl, of first label]) (auto simp: step assms(2) split: if_splits)
  obtain s2 where "f s1 = ((True, [], None), s2)" "rs_log s2 = rs_log s1"
    by (rule ensureObject_in_sync [OF pw one(2-4) refl, of first label]) (auto simp: step one(2))
  with one show ?thesis unfolding settles_def by blast
qed

lemma client_admin_sel:
  "ad_GetTopic (client_admin env c) = GetTopic env c" "ad_DefineTopic (client_admin env c) = DefineTopic env c"
  "ad_GetChannel (client_admin env c) = GetChannel env c"
  "ad_DefineChannel (client_admin env c) = DefineChannel env c"
  "ad_GetQueue (client_admin env c) = GetQueue env c" "ad_DefineQueue (client_admin env c) = DefineQueue env c"
  "ad_QueueDriftKeys (client_admin env c) = ResolveQueueDriftCheckKeys env c"
  by (simp_all add: client_admin_def)

lemma ensureTopic_as_object:
  "ensureTopic (client_admin env c) t spec False s =
     ensureObject (GetTopic env c (ts_Name spec)) (DefineTopic env c spec) (workloadAdoptionPolicy t)
       (workloadFirstAdoption t) (ts_Attributes spec) TopicDriftCheckKeys (''topic '' @ Quote (ts_Name spec)) s"
  unfolding ensureTopic_def ensureObject_def client_admin_sel ..

lemma ensureChannel_as_object:
  "ensureChannel (client_admin env c) ch spec False s =
     ensureObject (GetChannel env c spec) (DefineChannel env c spec) (workloadAdoptionPolicy ch)
       (workloadFirstAdoption ch) (chs_Attributes spec) (ChannelDriftCheckKeys (chs_Type spec))
       (''channel '' @ Quote (chs_Name spec)) s"
  unfolding ensureChannel_def ensureObject_def client_admin_sel ..

lemma ensureQueue_as_object:
  assumes pw: "port_works (GetQueue env c spec) (DefineQueue env c spec) del drifted stored (ok_state P)"
    and "probed P" "ok_state P (rs_world s)"
  shows "ensureQueue (client_admin env c) q spec False s =
     ensureObject (GetQueue env c spec) (DefineQueue env c spec) (workloadAdoptionPolicy q)
       (workloadFirstAdoption q) (qs_Attributes spec) (queueKeysResolved (qs_Type spec) P)
       (''queue '' @ Quote (qs_Name spec)) s"
proof -
  obtain r w where get: "GetQueue env c spec (rs_world s) = (r, w)" "ok_state P w"
    using pw assms(3) by (cases rule: port_worksD) blast+
  from get(2) have keys: "ResolveQueueDriftCheckKeys env c (qs_Type spec) w =
      (Inr (queueKeysResolved (qs_Type spec) P), w)"
    by (intro resolved_keys(2) [OF assms(2)]) (simp add: ok_state_def)
  show ?thesis
    unfolding ensureQueue_def ensureObject_def client_admin_sel
    by (simp add: mqRead_def get(1) keys split: sum.split prod.split)
qed

text \<open>The layers together converge in one apply. Let the client have no session cookies to
  renew, let its breaker be closed and its probe cache filled, and let the queue manager behind it
  serve the requests about one object. Then for a custom resource with adoption policy Adopt the
  ensure step of a Topic, a Channel (of a supported type) and a Queue (of a supported type) succeeds
  with at most one write, whatever the queue manager held before, and the next ensure step finds no
  drift and writes nothing: the attributes folded from the typed fields, the DEFINE parameters, the
  DISPLAY answer and the drift comparison agree.\<close>

theorem one_apply_converges:
  assumes "ready_client c" "healthy (rs_world s)" "probed (cs_probe (rs_world s))"
  shows "(\<forall>t. let spec = toMQTopicSpec t in
      workloadAdoptionPolicy t = AdoptionPolicyAdopt \<longrightarrow> serves env c qm (topic_requests spec) \<longrightarrow>
      settles (ensureTopic (client_admin env c) t spec False) s) \<and>
    (\<forall>ch. let spec = toMQChannelSpec ch in
      workloadAdoptionPolicy ch = AdoptionPolicyAdopt \<longrightarrow> validateChannelType (chs_Type spec) = None \<longrightarrow>
      serves env c qm (channel_requests spec) \<longrightarrow>
      settles (ensureChannel (client_admin env c) ch spec False) s) \<and>
    (\<forall>q. let spec = toMQQueueSpec q in
      workloadAdoptionPolicy q = AdoptionPolicyAdopt \<longrightarrow> validateQueueType (qs_Type spec) = None \<longrightarrow>
      serves env c qm (queue_requests spec (queueKeysResolved (qs_Type spec) (cs_probe (rs_world s)))) \<longrightarrow>
      settles (ensureQueue (client_admin env c) q spec False) s)"
proof (unfold Let_def, intro conjI allI impI)
  let ?P = "cs_probe (rs_world s)"
  have ok: "ok_state ?P (rs_world s)" using assms(2) by (simp add: ok_state_def)
  show "settles (ensureTopic (client_admin env c) t (toMQTopicSpec t) False) s"
    if "workloadAdoptionPolicy t = AdoptionPolicyAdopt" "serves env c qm (topic_requests (toMQTopicSpec t))" for t
    by (rule ensureObject_settles [OF topic_port [OF that(2) assms(1) toMQ_normal(2)] ok])
      (simp add: ensureTopic_as_object that(1))
  show "settles (ensureChannel (client_admin env c) ch (toMQChannelSpec ch) False) s"
    if "workloadAdoptionPolicy ch = AdoptionPolicyAdopt" "validateChannelType (chs_Type (toMQChannelSpec ch)) = None"
      "serves env c qm (channel_requests (toMQChannelSpec ch))" for ch
    by (rule ensureObject_settles [OF channel_port [OF that(3) assms(1) toMQ_normal(3) that(2)] ok])
      (simp add: ensureChannel_as_object that(1))
  show "settles (ensureQueue (client_admin env c) q (toMQQueueSpec q) False) s"
    if "workloadAdoptionPolicy q = AdoptionPolicyAdopt" "validateQueueType (qs_Type (toMQQueueSpec q)) = None"
      and srv: "serves env c qm (queue_requests (toMQQueueSpec q) (queueKeysResolved (qs_Type (toMQQueueSpec q)) ?P))" for q
  proof -
    note port = queue_port [OF srv assms(1) toMQ_normal(1) that(2) assms(3)]
    then obtain stored where "port_works (GetQueue env c (toMQQueueSpec q)) (DefineQueue env c (toMQQueueSpec q))
      (DeleteQueue env c (toMQQueueSpec q)) (\<lambda>a. AttributesNeedUpdate (qs_Attributes (toMQQueueSpec q)) a (queueKeysResolved (qs_Type (toMQQueueSpec q)) ?P))
      stored (ok_state ?P)" by blast
    from ensureQueue_as_object [OF this assms(3)] show ?thesis
      by (intro ensureObject_settles [OF port ok]) (simp add: that(1))
  qed
qed

text \<open>A server for one object: its world says whether the object has been defined.\<close>

definition plain_reply :: "int \<Rightarrow> string list \<Rightarrow> mqscResponse" where
  "plain_reply code text =
     \<lparr>mr_CommandResponse =
        [\<lparr>cr_CompletionCode = code, cr_ReasonCode = 0, cr_Message = text, cr_Text = [], cr_Parameters = []\<rparr>],
      mr_OverallCompletionCode = code, mr_OverallReasonCode = 0, mr_Error = []\<rparr>"

definition one_object_server :: "params \<Rightarrow> string list \<Rightarrow> bool http_env" where
  "one_object_server ps keys =
     \<lparr>he_do = (\<lambda>req defined.
        case rq_Body req of
          RunCommandJSON r \<Rightarrow>
            (let cmd = rj_Command r;
                 raw = (if cmd = mqscCommandDefine \<or> cmd = mqscCommandDelete \<and> defined then ''ok''
                        else if cmd \<noteq> mqscCommandDelete \<and> defined then ''echo'' else ''missing'') in
             (Inr \<lparr>rs_StatusCode = StatusOK, rs_Body = Inr raw, rs_Cookies = []\<rparr>,
              cmd = mqscCommandDefine \<or> cmd \<noteq> mqscCommandDelete \<and> defined))
        | _ \<Rightarrow> (Inl (PlainError ''unexpected request''), defined)),
      he_ctxErr = (\<lambda>_. None), he_sleep = (\<lambda>_ w. (None, w)), he_now = (\<lambda>_. 0), he_newRequest = (\<lambda>_. None),
      he_unmarshalMQSC = (\<lambda>raw. Inr
        (if raw = ''echo'' then display_echo ps keys
         else if raw = ''ok'' then plain_reply 0 [] else plain_reply 2 [''AMQ8147''])),
      he_unmarshalMsgIDs = (\<lambda>_. Inr [])\<rparr>"

definition one_object :: "string \<times> string \<Rightarrow> params \<Rightarrow> bool \<Rightarrow> stored" where
  "one_object key ps defined = (if defined then [key \<mapsto> ps] else Map.empty)"

lemma one_object_server_serves:
  assumes "rj_Command d = mqscCommandDefine" "rj_Parameters d = ps"
    and "display_request r" "rj_ResponseParameters r = keys"
    and "rj_Command x = mqscCommandDelete" "(rj_Qualifier x, rj_Name x) = key"
    and "(rj_Qualifier d, rj_Name d) = key" "(rj_Qualifier r, rj_Name r) = key"
  shows "serves (one_object_server ps keys) basic_client (one_object key ps) {r, d, x}"
proof -
  have reply: "\<not> overallFailed (plain_reply 0 [])" "overallFailed (plain_reply 2 [''AMQ8147''])"
    "isObjectMissing (plain_reply 2 [''AMQ8147''])" by code_simp+
  show ?thesis
    using assms
    by (auto simp: serves_def one_object_server_def Let_def answers_def one_object_def display_request_def reply
        split: if_splits)
qed

definition newsTopic :: Topic where
  "newsTopic =
     \<lparr>w_meta = w_meta foldedQueue, w_ConnectionRef = ''qm1'', w_Suspend = False, w_policies = w_policies foldedQueue,
      w_Spec =
        \<lparr>t_TopicName = ''NEWS'', t_Attributes = [(''custom'', ''x'')], t_TopicString = ''/news'',
         t_Description = ''headlines'', t_Publish = ''enabled'', t_Subscribe = [], t_DefPersistence = [],
         t_PublishScope = [], t_SubscribeScope = []\<rparr>,
      w_Status = w_Status foldedQueue\<rparr>"

definition probedCache :: "(string, bool) gomap" where
  "probedCache = map (\<lambda>a. (a, True)) QueueLocalDefineOnlyCandidates"

definition startState :: "bool cstate rs" where
  "startState = \<lparr>rs_world = (fresh_state False)\<lparr>cs_probe := probedCache\<rparr>, rs_log = []\<rparr>"

theorem one_apply_converges_witness:
  "(let spec = toMQTopicSpec newsTopic; env = one_object_server (defineTopicParameters spec) topicDisplayParameters in
     settles (ensureTopic (client_admin env basic_client) newsTopic spec False) startState) \<and>
   (let spec = toMQQueueSpec foldedQueue; keys = queueKeysResolved (qs_Type spec) probedCache;
        env = one_object_server (defineQueueParameters spec) keys in
     settles (ensureQueue (client_admin env basic_client) foldedQueue spec False) startState)"
proof (unfold Let_def, intro conjI)
  let ?t = "toMQTopicSpec newsTopic" and ?q = "toMQQueueSpec foldedQueue"
  let ?keys = "queueKeysResolved (qs_Type ?q) probedCache"
  have ok: "ready_client basic_client" "healthy (rs_world startState)" "probed (cs_probe (rs_world startState))"
    by code_simp+
  have policy: "workloadAdoptionPolicy newsTopic = AdoptionPolicyAdopt"
    "workloadAdoptionPolicy foldedQueue = AdoptionPolicyAdopt" "validateQueueType (qs_Type ?q) = None"
    by code_simp+
  have cache: "cs_probe (rs_world startState) = probedCache" by (simp add: startState_def)
  have "serves (one_object_server (defineTopicParameters ?t) topicDisplayParameters) basic_client
      (one_object (qualifierTopic, ts_Name ?t) (defineTopicParameters ?t)) (topic_requests ?t)"
    unfolding topic_requests_def
    by (rule one_object_server_serves)
      (simp_all add: defineRequest_def deleteRequest_def topic_display_def display_request_def)
  then show "settles (ensureTopic (client_admin (one_object_server (defineTopicParameters ?t) topicDisplayParameters)
      basic_client) newsTopic ?t False) startState"
    using one_apply_converges [OF ok, THEN conjunct1, unfolded Let_def, rule_format, OF policy(1)] by simp
  have "serves (one_object_server (defineQueueParameters ?q) ?keys) basic_client
      (one_object (queueQualifier (qs_Type ?q), qs_Name ?q) (defineQueueParameters ?q)) (queue_requests ?q ?keys)"
    unfolding queue_requests_def
    by (rule one_object_server_serves)
      (simp_all add: defineRequest_def deleteRequest_def queueDisplayRequest_def display_request_def)
  then show "settles (ensureQueue (client_admin (one_object_server (defineQueueParameters ?q) ?keys) basic_client)
      foldedQueue ?q False) startState"
    using one_apply_converges [OF ok, THEN conjunct2, THEN conjunct2, unfolded Let_def cache, rule_format,
        OF policy(2,3)] by simp
qed

end
