(* ===== verification/Workload_Safety.thy ===== *)
theory Workload_Safety
  imports Workload_Reconcilers
begin

text \<open>
  Safety of the workload reconcilers. The log of effects of a run grows; \<open>adds P s s'\<close> says
  that every effect added between two states satisfies \<open>P\<close>. The contract of a kind (what its
  ensure step may do to the queue manager) is the locale \<open>workload_contract\<close>; the properties of
  \<open>reconcileWorkload\<close> are proved once in it and interpreted for the five kinds.
\<close>

section \<open>Effects of a run\<close>

definition adds :: "(effect \<Rightarrow> bool) \<Rightarrow> 'w rs \<Rightarrow> 'w rs \<Rightarrow> bool" where
  "adds P s s' \<longleftrightarrow> (\<exists>new. rs_log s' = new @ rs_log s \<and> list_all P new)"

text \<open>The effects of a run: the part of the log that is new.\<close>

definition effects :: "'w rs \<Rightarrow> 'w rs \<Rightarrow> effect list" where
  "effects s s' = take (length (rs_log s') - length (rs_log s)) (rs_log s')"

fun reporting :: "effect \<Rightarrow> bool" where
  "reporting (MQApply r) = False"
| "reporting (MQRemove r) = False"
| "reporting (ObjectWrite fs b) = False"
| "reporting e = True"

fun quiet :: "effect \<Rightarrow> bool" where
  "quiet (DriftDetected c) = False"
| "quiet e = reporting e"

fun keepsMQ :: "effect \<Rightarrow> bool" where
  "keepsMQ (MQApply r) = False"
| "keepsMQ (MQRemove r) = False"
| "keepsMQ e = True"

fun keepsApply :: "effect \<Rightarrow> bool" where
  "keepsApply (MQApply r) = False"
| "keepsApply e = True"

lemma quiet_keeps: "quiet e \<Longrightarrow> reporting e" "reporting e \<Longrightarrow> keepsMQ e" "keepsMQ e \<Longrightarrow> keepsApply e"
  by (cases e; simp)+

lemma adds_effects: "adds P s s' \<Longrightarrow> rs_log s' = effects s s' @ rs_log s \<and> list_all P (effects s s')"
  by (auto simp: adds_def effects_def)

lemma adds_refl [simp]: "adds P s s"
  by (simp add: adds_def)

lemma adds_trans: "adds P s s' \<Longrightarrow> adds P s' s'' \<Longrightarrow> adds P s s''"
  unfolding adds_def by (metis append.assoc list_all_append)

lemma adds_mono: "adds P s s' \<Longrightarrow> (\<And>e. P e \<Longrightarrow> Q e) \<Longrightarrow> adds Q s s'"
  unfolding adds_def by (metis list.pred_mono_strong)

lemma adds_world [simp]: "adds P s (s'\<lparr>rs_world := w\<rparr>) = adds P s s'" "adds P (s\<lparr>rs_world := w\<rparr>) s' = adds P s s'"
  by (simp_all add: adds_def)

lemma adds_log: "adds P s s' \<Longrightarrow> P e \<Longrightarrow> adds P s (log_effect e s')"
proof -
  assume "adds P s s'" "P e"
  then obtain new where "rs_log s' = new @ rs_log s" "list_all P new" by (auto simp: adds_def)
  with \<open>P e\<close> show ?thesis
    unfolding adds_def by (intro exI [of _ "e # new"]) (simp add: log_effect_def)
qed

lemma adds_member: "adds P s s' \<Longrightarrow> e \<in> set (effects s s') \<Longrightarrow> P e"
  using adds_effects by (metis list_all_iff)

lemma adds_not: "adds P s s' \<Longrightarrow> \<not> P e \<Longrightarrow> e \<notin> set (effects s s')"
  using adds_member by blast

section \<open>The shared helpers are benign\<close>

text \<open>
  \<open>benign lib P\<close>: \<open>P\<close> holds of every event and of every status write whose Synced condition was
  set to something else than True. All helpers but the final success report add only such
  effects. Its instances are \<open>quiet\<close>, \<open>reporting\<close>, and \<open>calm\<close>, which also excludes a status that
  reports Synced=True and needs the laws of \<open>meta.SetStatusCondition\<close>.
\<close>

definition benign :: "k8s_lib \<Rightarrow> (effect \<Rightarrow> bool) \<Rightarrow> bool" where
  "benign lib P \<longleftrightarrow>
     (\<forall>r m. P (EventNormal r m)) \<and> (\<forall>r m. P (EventWarning r m)) \<and>
     (\<forall>st b r m g cs. st_Conditions st = setCondition lib ConditionSynced ConditionFalse r m g cs \<longrightarrow>
        P (StatusWrite st b))"

definition reportsSynced :: "MQObjectStatus \<Rightarrow> bool" where
  "reportsSynced st \<longleftrightarrow>
     (case findCondition (st_Conditions st) ConditionSynced of
        Some c \<Rightarrow> cn_Status c = ConditionTrue | None \<Rightarrow> False)"

fun calm :: "effect \<Rightarrow> bool" where
  "calm (StatusWrite st b) = (\<not> reportsSynced st)"
| "calm e = True"

lemma not_calm: "\<not> calm e \<Longrightarrow> \<exists>st b. e = StatusWrite st b \<and> reportsSynced st"
  by (cases e) auto

lemma benign_quiet [simp]: "benign lib quiet"
  by (simp add: benign_def)

lemma benign_calm:
  assumes "k8s_lib_laws lib"
  shows "benign lib calm"
proof -
  let ?c = "\<lambda>r m g. \<lparr>cn_Type = ConditionSynced, cn_Status = ConditionFalse, cn_Reason = r, cn_Message = m,
                      cn_ObservedGeneration = g\<rparr>"
  have "findCondition (SetStatusCondition lib (?c r m g) cs) ConditionSynced = Some (?c r m g)" for r m g cs
    using k8s_lib_laws_simps(1) [OF assms, of "?c r m g" cs] by simp
  then show ?thesis by (simp add: benign_def setCondition_def reportsSynced_def)
qed

lemma benign_status:
  "benign lib P \<Longrightarrow> st_Conditions st = setCondition lib ConditionSynced ConditionFalse r m g cs \<Longrightarrow>
     P (StatusWrite st b)"
  unfolding benign_def by metis

lemma mqRead_adds: "mqRead f s = (r, s') \<Longrightarrow> adds P s s'"
  by (auto simp: mqRead_def split: prod.splits)

lemma emit_adds: "benign lib P \<Longrightarrow> adds P s (emitSyncedTransitionEvent obj st r m s)"
  by (simp add: emitSyncedTransitionEvent_def recordNormalEvent_def adds_log benign_def)

lemma statusUpdate_adds:
  "statusUpdate k obj s = (e, obj', s') \<Longrightarrow> (\<And>b. P (StatusWrite (w_Status obj) b)) \<Longrightarrow> adds P s s'"
  by (auto simp: statusUpdate_def adds_log split: prod.splits sum.splits)

lemma patchedStatus_Conditions:
  "st_Conditions (patchedStatus lib p st) =
     setCondition lib ConditionSynced (p_conditionStatus p) (p_reason p) (p_message p) (p_generation p)
       (st_Conditions st)"
  by (simp add: patchedStatus_def updateMQStatusFields_def Let_def)

lemma patchSyncedStatus_adds:
  assumes "patchSyncedStatus k obj p s = (e, obj', s')" "benign (k_lib k) P"
    and "p_conditionStatus p = ConditionFalse \<or> P = quiet"
  shows "adds P s s'"
proof -
  let ?s = "if p_emitEvent p
            then emitSyncedTransitionEvent obj (p_conditionStatus p) (p_reason p) (p_message p) s else s"
  have "adds P ?s s'"
    using assms(1) unfolding patchSyncedStatus_def Let_def
    by (rule statusUpdate_adds) (use assms(2,3) in \<open>auto intro: benign_status simp: patchedStatus_Conditions\<close>)
  moreover have "adds P s ?s" by (simp add: emit_adds [OF assms(2)])
  ultimately show ?thesis by (rule adds_trans [rotated])
qed

lemmas patch_defs =
  patchSyncedProgressing_def patchSyncedDeleting_def patchSyncedOrphaned_def patchSyncedSuspended_def
  patchSyncedDrift_def notSynced_def

lemma patch_adds:
  assumes "benign (k_lib k) P"
  shows "patchSyncedProgressing k obj g m s = (e, obj', s') \<Longrightarrow> adds P s s'"
    and "patchSyncedDeleting k obj g m s = (e, obj', s') \<Longrightarrow> adds P s s'"
    and "patchSyncedOrphaned k obj g m s = (e, obj', s') \<Longrightarrow> adds P s s'"
    and "patchSyncedSuspended k obj g m s = (e, obj', s') \<Longrightarrow> adds P s s'"
    and "patchSyncedDrift k obj g m x s = (e, obj', s') \<Longrightarrow> adds P s s'"
  using assms unfolding patch_defs by (auto elim: patchSyncedStatus_adds)

lemma patchSyncedAvailable_adds:
  "patchSyncedAvailable k obj g m x s = (e, obj', s') \<Longrightarrow> adds quiet s s'"
  unfolding patchSyncedAvailable_def by (auto elim: patchSyncedStatus_adds)

lemma patchSyncedAdoptionBlocked_adds:
  assumes "patchSyncedAdoptionBlocked k obj g r m x s = (e, obj', s')" "benign (k_lib k) P"
  shows "adds P s s'"
proof (rule adds_trans [OF emit_adds [OF assms(2)]])
  show "adds P (emitSyncedTransitionEvent obj ConditionFalse r m s) s'"
    using assms(1) unfolding patchSyncedAdoptionBlocked_def Let_def
    by (rule statusUpdate_adds) (use assms(2) in \<open>auto intro: benign_status simp: updateMQStatusFields_def Let_def\<close>)
qed

lemma recordReconcileWarning_adds: "benign lib P \<Longrightarrow> adds P s (recordReconcileWarning err s)"
  by (simp add: recordReconcileWarning_def adds_log benign_def split: prod.split)

lemma workloadDriftResyncResult_adds: "workloadDriftResyncResult k s = (out, s') \<Longrightarrow> adds P s s'"
  by (auto simp: workloadDriftResyncResult_def DriftResyncAfter_def Let_def split: prod.splits if_splits)

lemma setSyncedError_adds:
  assumes "setSyncedError k obj g err x s = (out, s')" "benign (k_lib k) P"
  shows "adds P s s'"
proof -
  obtain reason message where c: "classifyReconcileError err = (reason, message)" by fastforce
  let ?p = "notSynced reason g message x False"
  obtain e obj' s1 where p: "patchSyncedStatus k obj ?p (recordReconcileWarning err s) = (e, obj', s1)"
    by (metis surj_pair)
  with assms(1) c have "s' = s1" by (auto simp: setSyncedError_def Let_def split: option.splits)
  with patchSyncedStatus_adds [OF p assms(2)] have "adds P (recordReconcileWarning err s) s'"
    by (simp add: notSynced_def)
  then show ?thesis by (rule adds_trans [OF recordReconcileWarning_adds [OF assms(2)]])
qed

lemma handleAdoptionBlock_adds:
  assumes "handleAdoptionBlock k obj g r m x s = (out, s')" "benign (k_lib k) P"
  shows "adds P s s'"
  using assms(1) unfolding handleAdoptionBlock_def
  by (auto split: prod.splits option.splits
      dest!: patchSyncedAdoptionBlocked_adds [OF _ assms(2)] workloadDriftResyncResult_adds [where P = P]
      intro: adds_trans)

lemma suspended_adds:
  "reconcileWorkloadSuspended k obj g s = (out, s') \<Longrightarrow> benign (k_lib k) P \<Longrightarrow> adds P s s'"
  by (auto simp: reconcileWorkloadSuspended_def split: prod.splits if_splits dest: patch_adds)

lemma resolveConnection_adds: "resolveConnection k ns n s = (r, s') \<Longrightarrow> adds P s s'"
  by (auto simp: resolveConnection_def split: prod.splits sum.splits)

lemma forConnection_adds: "forConnection k conn s = (r, s') \<Longrightarrow> adds P s s'"
  by (auto simp: forConnection_def split: prod.splits)

lemma waitForConnectionReady_adds:
  "waitForConnectionReady k obj conn g s = (r, s') \<Longrightarrow> benign (k_lib k) P \<Longrightarrow> adds P s s'"
  by (auto simp: waitForConnectionReady_def split: prod.splits option.splits if_splits dest: patch_adds)

lemma deletionAwaitingConnection_adds:
  "deletionAwaitingConnection k obj g e s = (out, s') \<Longrightarrow> benign (k_lib k) P \<Longrightarrow> adds P s s'"
  by (auto simp: deletionAwaitingConnection_def split: prod.splits dest: patch_adds)

lemma countedDrift_adds:
  assumes "benign (k_lib k) P" "patchSyncedDrift k obj g m x (log_effect (DriftDetected c) s) = (e, obj', s')"
    and "P (DriftDetected c)"
  shows "adds P s s'"
  by (rule adds_trans [OF _ patch_adds(5) [OF assms(1,2)]]) (simp add: adds_log assms(3))

lemma benign_reporting [simp]: "benign lib reporting"
  by (simp add: benign_def)

lemma reportEnsured_adds: "reportEnsured k wk obj res s = (out, s') \<Longrightarrow> adds reporting s s'"
  by (auto simp: reportEnsured_def Let_def
      dest!: setSyncedError_adds [OF _ benign_reporting] handleAdoptionBlock_adds [OF _ benign_reporting]
        countedDrift_adds [OF benign_reporting] adds_mono [OF patchSyncedAvailable_adds quiet_keeps(1)]
        workloadDriftResyncResult_adds [where P = reporting]
      intro: adds_trans split: prod.splits option.splits mq_error.splits if_splits)

lemma reportEnsured_calm:
  assumes "reportEnsured k wk obj res s = (out, s')" "benign (k_lib k) P"
  shows "adds P s s' \<or> (\<exists>ex d. res = (ex, d, None) \<and> (d = [] \<or> \<not> P (DriftDetected (wk_controller wk))))"
  using assms(1)
  by (auto simp: reportEnsured_def Let_def
      dest!: setSyncedError_adds [OF _ assms(2)] handleAdoptionBlock_adds [OF _ assms(2)]
        countedDrift_adds [OF assms(2)] workloadDriftResyncResult_adds [where P = P]
      intro: adds_trans split: prod.splits option.splits mq_error.splits if_splits)

lemma adds_same: "rs_log s' = rs_log s \<Longrightarrow> adds P s s'"
  by (simp add: adds_def)

lemma adds_one: "rs_log s' = e # rs_log s \<Longrightarrow> P e \<Longrightarrow> adds P s s'"
  unfolding adds_def by (intro exI [of _ "[e]"]) simp

lemma objectUpdate_log:
  "objectUpdate k obj s = (e, obj', s') \<Longrightarrow>
     rs_log s' = ObjectWrite (om_Finalizers (w_meta obj)) (e = None) # rs_log s"
  by (auto simp: objectUpdate_def log_effect_def split: prod.splits sum.splits)

lemma workload_status_simps [simp]:
  "isObserveOnly (obj\<lparr>w_Status := st\<rparr>) = isObserveOnly obj"
  "workloadAdoptionPolicy (obj\<lparr>w_Status := st\<rparr>) = workloadAdoptionPolicy obj"
  "orphanDeletionRequested (obj\<lparr>w_Status := st\<rparr>) = orphanDeletionRequested obj"
  by (simp_all add: isObserveOnly_def annotation_def workloadAdoptionPolicy_def orphanDeletionRequested_def
      forceOrphanRequested_def workloadDeletionPolicy_def)

text \<open>The ways through \<open>reconcileWithAdmin\<close>.\<close>

lemma reconcileWithAdmin_cases [consumes 2, case_names finalizer benign ensured]:
  assumes "reconcileWithAdmin k wk obj admin s = (out, s')" "benign (k_lib k) P"
  obtains (finalizer) b where
      "\<not> ContainsFinalizer (k_lib k) (wk_Finalizer wk) (om_Finalizers (w_meta obj))"
      "rs_log s' = ObjectWrite (AddFinalizer (k_lib k) (wk_Finalizer wk) (om_Finalizers (w_meta obj))) b # rs_log s"
    | (benign) "adds P s s'"
    | (ensured) st r s2 where "wk_ensure wk admin (obj\<lparr>w_Status := st\<rparr>) s = (r, s2)" "adds reporting s2 s'"
        "adds P s2 s' \<or> (\<exists>ex d. r = Some (ex, d, None) \<and> (d = [] \<or> \<not> P (DriftDetected (wk_controller wk))))"
        "st_ObservedGeneration st = st_ObservedGeneration (w_Status obj)"
proof (cases "ContainsFinalizer (k_lib k) (wk_Finalizer wk) (om_Finalizers (w_meta obj))")
  case False
  let ?fs = "AddFinalizer (k_lib k) (wk_Finalizer wk) (om_Finalizers (w_meta obj))"
  obtain e obj' s1 where u: "objectUpdate k (setFinalizers ?fs obj) s = (e, obj', s1)" by (metis surj_pair)
  with assms False have "s' = s1"
    by (auto simp: reconcileWithAdmin_def Let_def split: option.splits)
  with objectUpdate_log [OF u] False show ?thesis
    by (intro finalizer [of "e = None"]) (simp_all add: setFinalizers_def)
next
  case True
  show ?thesis
  proof (cases "wk_precheck wk obj \<noteq> None \<or> is_err (wk_format wk obj)")
    case False
    then obtain d where d: "wk_precheck wk obj = None" "wk_format wk obj = Inr d"
      by (cases "wk_format wk obj") auto
    let ?st = "(w_Status obj)\<lparr>st_DesiredMQSC := d\<rparr>"
    obtain r s2 where e: "wk_ensure wk admin (obj\<lparr>w_Status := ?st\<rparr>) s = (r, s2)" by fastforce
    have "adds reporting s2 s'"
      using assms True d e
      by (auto simp: reconcileWithAdmin_def Let_def split: option.splits dest: reportEnsured_adds)
    moreover have "adds P s2 s' \<or> (\<exists>ex d. r = Some (ex, d, None) \<and> (d = [] \<or> \<not> P (DriftDetected (wk_controller wk))))"
      using assms(1) True d e reportEnsured_calm [OF _ assms(2)]
      by (auto simp: reconcileWithAdmin_def Let_def split: option.splits)
    ultimately show ?thesis using e by (intro ensured [of ?st r s2]) simp_all
  next
    case True': True
    have "adds P s s'"
      using assms(1) True True'
      by (auto simp: reconcileWithAdmin_def Let_def is_err_iff split: option.splits sum.splits
          dest: setSyncedError_adds [OF _ assms(2)])
    then show ?thesis by (rule benign)
  qed
qed

text \<open>The ways through \<open>reconcileWorkload\<close> for a fetched object.\<close>

lemma connect_cases [consumes 2, case_names failed waiting connected]:
  assumes "(case resolveConnection k ns ref s of
       (Inl err, s) \<Rightarrow> onErr err s
     | (Inr conn, s) \<Rightarrow>
         (case waitForConnectionReady k obj conn g s of
            (Some out, s) \<Rightarrow> (out, s)
          | (None, s) \<Rightarrow>
              (case forConnection k conn s of (Inl err, s) \<Rightarrow> onErr err s | (Inr admin, s) \<Rightarrow> go admin s))) = (out, s')"
    and "benign (k_lib k) P"
  obtains (failed) err s1 where "adds P s s1" "onErr err s1 = (out, s')"
    | (waiting) conn s1 where "adds P s s1" "waitForConnectionReady k obj conn g s1 = (Some out, s')" "adds P s s'"
    | (connected) conn adm s1 w0 where "adds P s s1" "k_forConnection k conn w0 = (Inr adm, rs_world s1)"
        "go adm s1 = (out, s')"
proof -
  obtain rc s1 where rc: "resolveConnection k ns ref s = (rc, s1)" by fastforce
  note a1 = resolveConnection_adds [OF rc, of P]
  show ?thesis
  proof (cases rc)
    case (Inl err)
    with assms(1) rc a1 failed show ?thesis by simp
  next
    case (Inr conn)
    obtain wt s2 where wt: "waitForConnectionReady k obj conn g s1 = (wt, s2)" by fastforce
    note a2 = adds_trans [OF a1 waitForConnectionReady_adds [OF wt assms(2)]]
    obtain fc s3 where fc: "forConnection k conn s2 = (fc, s3)" by fastforce
    note a3 = adds_trans [OF a2 forConnection_adds [OF fc]]
    note step = assms(1) rc Inr wt fc
    show ?thesis
    proof (cases wt)
      case (Some o')
      with step a1 a2 show ?thesis by (intro waiting) simp_all
    next
      case None
      show ?thesis
      proof (cases fc)
        case fl: (Inl err)
        with step None a3 failed show ?thesis by simp
      next
        case fr: (Inr adm)
        have "k_forConnection k conn (rs_world s2) = (Inr adm, rs_world s3)"
          using fc fr by (auto simp: forConnection_def split: prod.splits)
        with step None fr a3 connected show ?thesis by simp
      qed
    qed
  qed
qed

lemma reconcileWorkload_live [consumes 3, case_names benign admin deleting]:
  assumes "reconcileWorkload k wk ns n s = (out, s')" "k_get k ns n (rs_world s) = (Inr obj, w)" "benign (k_lib k) P"
  obtains (benign) "adds P s s'"
    | (admin) conn adm s1 w0 where "adds P s s1" "k_forConnection k conn w0 = (Inr adm, rs_world s1)"
        "reconcileWithAdmin k wk obj adm s1 = (out, s')" "\<not> om_Deleting (w_meta obj)" "\<not> w_Suspend obj"
    | (deleting) "om_Deleting (w_meta obj)" "\<not> w_Suspend obj"
        "reconcileWorkloadDeletion k obj (om_Generation (w_meta obj)) (wk_Finalizer wk) (wk_orphanMessage wk)
           (handleDeletion k wk obj) (s\<lparr>rs_world := w\<rparr>) = (out, s')"
proof -
  let ?s = "s\<lparr>rs_world := w\<rparr>"
  have "mqRead (k_get k ns n) s = (Inr obj, ?s)" using assms(2) by (simp add: mqRead_def)
  note step = assms(1) [unfolded reconcileWorkload_def Let_def] this
  consider (susp) "w_Suspend obj" | (del) "\<not> w_Suspend obj" "om_Deleting (w_meta obj)"
    | (live) "\<not> w_Suspend obj" "\<not> om_Deleting (w_meta obj)" by blast
  then show ?thesis
  proof cases
    case susp
    with step have "reconcileWorkloadSuspended k obj (om_Generation (w_meta obj)) ?s = (out, s')" by simp
    from suspended_adds [OF this assms(3)] show ?thesis by (intro benign) simp
  next
    case del
    with step show ?thesis by (intro deleting) simp_all
  next
    case live
    from step(1) [unfolded step(2) prod.case sum.case if_not_P [OF live(1)] if_not_P [OF live(2)]] assms(3)
    show ?thesis
    proof (cases rule: connect_cases)
      case (failed err s1)
      from adds_trans [OF failed(1) setSyncedError_adds [OF failed(2) assms(3)]] show ?thesis by (intro benign) simp
    next
      case (waiting conn s1)
      then show ?thesis by (intro benign) simp
    next
      case (connected conn adm s1 w0)
      with live show ?thesis by (intro admin) simp_all
    qed
  qed
qed

text \<open>A run on an object that is not being deleted either does not reach the ensure step, or
  reaches it in some state \<open>s1\<close> with a client \<open>adm\<close>.\<close>

lemma live_run [consumes 4, case_names plain ensured]:
  assumes "reconcileWorkload k wk ns n s = (out, s')" "k_get k ns n (rs_world s) = (Inr obj, w)"
    and "\<not> om_Deleting (w_meta obj)" "benign (k_lib k) P"
  obtains (plain) "adds (\<lambda>e. P e \<or> (\<exists>fs b. e = ObjectWrite fs b)) s s'"
    | (ensured) adm s1 st r s2 where "adds P s s1" "reconcileWithAdmin k wk obj adm s1 = (out, s')"
        "wk_ensure wk adm (obj\<lparr>w_Status := st\<rparr>) s1 = (r, s2)" "adds reporting s2 s'"
        "adds P s2 s' \<or> (\<exists>ex d. r = Some (ex, d, None) \<and> (d = [] \<or> \<not> P (DriftDetected (wk_controller wk))))"
        "st_ObservedGeneration st = st_ObservedGeneration (w_Status obj)"
  using assms(1,2,4)
proof (cases rule: reconcileWorkload_live)
  case benign
  then have "adds (\<lambda>e. P e \<or> (\<exists>fs b. e = ObjectWrite fs b)) s s'" by (rule adds_mono) blast
  then show ?thesis by (rule plain)
next
  case (admin conn adm s1 w0)
  let ?Q = "\<lambda>e. P e \<or> (\<exists>fs b. e = ObjectWrite fs b)"
  have a: "adds ?Q s s1" using admin(1) by (rule adds_mono) blast
  from admin(3) assms(4) show ?thesis
  proof (cases rule: reconcileWithAdmin_cases)
    case (finalizer b)
    then have "adds ?Q s1 s'" by (auto intro: adds_one)
    with a show ?thesis by (intro plain) (rule adds_trans)
  next
    case benign
    then have "adds ?Q s1 s'" by (rule adds_mono) blast
    with a show ?thesis by (intro plain) (rule adds_trans)
  next
    case (ensured st r s2)
    with admin show ?thesis by (intro that(2))
  qed
qed (use assms(3) in simp)

lemma benign_both: "k8s_lib_laws lib \<Longrightarrow> benign lib (\<lambda>e. reporting e \<and> calm e)"
  using benign_calm [of lib] benign_reporting [of lib] unfolding benign_def by auto

lemma effects_mid:
  "adds P s s1 \<Longrightarrow> rs_log s2 = e # rs_log s1 \<Longrightarrow> adds Q s2 s' \<Longrightarrow> e \<in> set (effects s s')"
  by (auto simp: adds_def effects_def)

section \<open>The contract of a workload kind\<close>

text \<open>
  \<open>absent admin obj w\<close>: reading the object through \<open>admin\<close> in world \<open>w\<close> reports that the queue
  manager does not have it. \<open>in_sync admin obj w\<close>: the read reports an object that needs no update.
\<close>

locale workload_contract =
  fixes wk :: "('spec, 'w) workload_kind"
    and absent :: "'w Admin \<Rightarrow> 'spec workload \<Rightarrow> 'w \<Rightarrow> bool"
    and in_sync :: "'w Admin \<Rightarrow> 'spec workload \<Rightarrow> 'w \<Rightarrow> bool"
  assumes ensure_at_most_one_apply:
      "wk_ensure wk admin obj s = (r, s') \<Longrightarrow> rs_log s' = rs_log s \<or> (\<exists>e. rs_log s' = MQApply e # rs_log s)"
    and ensure_observe_only:
      "wk_ensure wk admin obj s = (r, s') \<Longrightarrow> isObserveOnly obj \<Longrightarrow> rs_log s' = rs_log s"
    and ensure_adoption:
      "wk_ensure wk admin obj s = (r, s') \<Longrightarrow> workloadFirstAdoption obj \<Longrightarrow>
         workloadAdoptionPolicy obj \<in> {AdoptionPolicyFailIfExists, AdoptionPolicyAdoptIfMatching} \<Longrightarrow>
         rs_log s' \<noteq> rs_log s \<Longrightarrow> absent admin obj (rs_world s)"
    and ensure_synced:
      "wk_ensure wk admin obj s = (Some (ex, [], None), s') \<Longrightarrow>
         rs_log s' = MQApply None # rs_log s \<or> in_sync admin obj (rs_world s)"
    and ensure_idle:
      "wk_ensure wk admin obj s = (r, s') \<Longrightarrow> rs_log s' \<noteq> rs_log s \<Longrightarrow> \<not> in_sync admin obj (rs_world s)"
    and absent_status: "absent admin (obj\<lparr>w_Status := st\<rparr>) w = absent admin obj w"
    and in_sync_status: "in_sync admin (obj\<lparr>w_Status := st\<rparr>) w = in_sync admin obj w"
begin

lemma observe_only_keepsMQ:
  assumes "reconcileWorkload k wk ns n s = (out, s')" "k_get k ns n (rs_world s) = (Inr obj, w)"
    and "isObserveOnly obj" "\<not> om_Deleting (w_meta obj)"
  shows "adds keepsMQ s s'"
  using assms(1,2,4) benign_quiet
proof (cases rule: live_run)
  case plain
  then show ?thesis by (rule adds_mono) (auto simp: quiet_keeps)
next
  case (ensured adm s1 st r s2)
  have "isObserveOnly (obj\<lparr>w_Status := st\<rparr>)" using assms(3) by simp
  then have "adds keepsMQ s1 s2" using ensure_observe_only [OF ensured(3)] by (simp add: adds_same)
  moreover have "adds keepsMQ s s1" "adds keepsMQ s2 s'"
    using ensured(1,4) by (auto elim!: adds_mono simp: quiet_keeps)
  ultimately show ?thesis by (blast intro: adds_trans)
qed

lemma apply_only_if_out_of_sync:
  assumes "reconcileWorkload k wk ns n s = (out, s')" "k_get k ns n (rs_world s) = (Inr obj, w)"
    and "\<not> om_Deleting (w_meta obj)" "MQApply r \<in> set (effects s s')"
  shows "\<exists>adm s1. adds quiet s s1 \<and> reconcileWithAdmin k wk obj adm s1 = (out, s') \<and>
           \<not> in_sync adm obj (rs_world s1) \<and>
           (workloadFirstAdoption obj \<and>
              workloadAdoptionPolicy obj \<in> {AdoptionPolicyFailIfExists, AdoptionPolicyAdoptIfMatching} \<longrightarrow>
              absent adm obj (rs_world s1))"
  using assms(1-3) benign_quiet
proof (cases rule: live_run)
  case plain
  then show ?thesis using adds_not [OF plain, of "MQApply r"] assms(4) by simp
next
  case (ensured adm s1 st r' s2)
  have q: "adds keepsApply s s1" "adds keepsApply s2 s'"
    using ensured(1,4) by (auto elim!: adds_mono simp: quiet_keeps)
  have ne: "rs_log s2 \<noteq> rs_log s1"
  proof
    assume "rs_log s2 = rs_log s1"
    then have "adds keepsApply s s'" using q by (blast intro: adds_same adds_trans)
    with assms(4) show False using adds_not [of keepsApply s s' "MQApply r"] by simp
  qed
  have "\<not> in_sync adm obj (rs_world s1)" using ensure_idle [OF ensured(3) ne] by (simp add: in_sync_status)
  moreover have "absent adm obj (rs_world s1)"
    if "workloadFirstAdoption obj"
      "workloadAdoptionPolicy obj \<in> {AdoptionPolicyFailIfExists, AdoptionPolicyAdoptIfMatching}"
    using ensure_adoption [OF ensured(3) _ _ ne] that ensured(6)
    by (simp add: workloadFirstAdoption_def absent_status)
  ultimately show ?thesis using ensured(1,2) by blast
qed

lemma synced_only_if_applied_or_in_sync:
  assumes "reconcileWorkload k wk ns n s = (out, s')" "k_get k ns n (rs_world s) = (Inr obj, w)"
    and "k8s_lib_laws (k_lib k)" "\<not> om_Deleting (w_meta obj)"
    and "StatusWrite st b \<in> set (effects s s')" "reportsSynced st"
  shows "\<exists>adm s1. adds reporting s s1 \<and> reconcileWithAdmin k wk obj adm s1 = (out, s') \<and>
           (MQApply None \<in> set (effects s s') \<or> in_sync adm obj (rs_world s1))"
  using assms(1,2,4) benign_both [OF assms(3)]
proof (cases rule: live_run)
  case plain
  then show ?thesis using adds_not [OF plain, of "StatusWrite st b"] assms(5,6) by simp
next
  case (ensured adm s1 st' r s2)
  have q: "adds reporting s s1" "adds calm s s1" using ensured(1) by (auto elim: adds_mono)
  have c: "adds calm s1 s2" using ensure_at_most_one_apply [OF ensured(3)] by (auto intro: adds_same adds_one)
  have "\<not> adds (\<lambda>e. reporting e \<and> calm e) s2 s'"
  proof
    assume "adds (\<lambda>e. reporting e \<and> calm e) s2 s'"
    then have "adds calm s2 s'" by (rule adds_mono) simp
    with q(2) c have "adds calm s s'" by (blast intro: adds_trans)
    with assms(5,6) show False using adds_not [of calm s s' "StatusWrite st b"] by simp
  qed
  with ensured(5) obtain ex where "r = Some (ex, [], None)" by auto
  with ensure_synced [OF ensured(3)[unfolded this]] in_sync_status
  have "rs_log s2 = MQApply None # rs_log s1 \<or> in_sync adm obj (rs_world s1)" by simp
  then have "MQApply None \<in> set (effects s s') \<or> in_sync adm obj (rs_world s1)"
    using effects_mid [OF q(1) _ ensured(4)] by blast
  with q(1) ensured(2) show ?thesis by blast
qed

end

section \<open>The five kinds keep the contract\<close>

lemma mqApply_log: "mqApply f s = (e, s') \<Longrightarrow> rs_log s' = MQApply e # rs_log s"
  by (auto simp: mqApply_def log_effect_def split: prod.splits)

lemma mqRead_log: "mqRead f s = (r, s') \<Longrightarrow> rs_log s' = rs_log s \<and> f (rs_world s) = (r, rs_world s')"
  by (auto simp: mqRead_def split: prod.splits)

lemma reconcileMQObjectState_log:
  assumes "reconcileMQObjectState oo pol fa ex obs des keys label (mqApply f) s = (r, s')"
  shows "rs_log s' = rs_log s \<or> (\<exists>e. rs_log s' = MQApply e # rs_log s)"
    and "oo \<Longrightarrow> rs_log s' = rs_log s"
    and "fa \<Longrightarrow> pol \<in> {AdoptionPolicyFailIfExists, AdoptionPolicyAdoptIfMatching} \<Longrightarrow>
           rs_log s' \<noteq> rs_log s \<Longrightarrow> \<not> ex"
    and "r = (ex', [], None) \<Longrightarrow>
           rs_log s' = MQApply None # rs_log s \<or> (ex \<and> \<not> AttributesNeedUpdate des obs keys)"
    and "rs_log s' \<noteq> rs_log s \<Longrightarrow> \<not> (ex \<and> \<not> AttributesNeedUpdate des obs keys)"
  using assms
  by (auto simp: reconcileMQObjectState_def adoptionBlockForExisting_def AttributesNeedUpdate_def Let_def
      split: if_splits option.splits prod.splits dest: mqApply_log)

lemma ensureAuth_log:
  assumes "ensureAuth obj ex nu label mm (mqApply f) s = ((ex', drifted, err), s')"
  shows "rs_log s' = rs_log s \<or> (\<exists>e. rs_log s' = MQApply e # rs_log s)"
    and "isObserveOnly obj \<Longrightarrow> rs_log s' = rs_log s"
    and "workloadFirstAdoption obj \<Longrightarrow>
           workloadAdoptionPolicy obj \<in> {AdoptionPolicyFailIfExists, AdoptionPolicyAdoptIfMatching} \<Longrightarrow>
           rs_log s' \<noteq> rs_log s \<Longrightarrow> \<not> ex"
    and "\<not> drifted \<Longrightarrow> err = None \<Longrightarrow> rs_log s' = MQApply None # rs_log s \<or> \<not> nu"
    and "rs_log s' \<noteq> rs_log s \<Longrightarrow> nu"
  using assms
  by (auto simp: ensureAuth_def adoptionBlockForExisting_def
      split: if_splits option.splits prod.splits dest: mqApply_log)

lemma observeOnlyAuthDriftMessage_not_Nil [simp]: "observeOnlyAuthDriftMessage ex n l \<noteq> []"
  by (simp add: observeOnlyAuthDriftMessage_def)

lemma to_spec_status [simp]:
  "toMQQueueSpec (q\<lparr>w_Status := st\<rparr>) = toMQQueueSpec q"
  "toMQTopicSpec (t\<lparr>w_Status := st\<rparr>) = toMQTopicSpec t"
  "toMQChannelSpec (c\<lparr>w_Status := st\<rparr>) = toMQChannelSpec c"
  "toMQChannelAuthSpec (r\<lparr>w_Status := st\<rparr>) = toMQChannelAuthSpec r"
  "toMQAuthoritySpec (a\<lparr>w_Status := st\<rparr>) = toMQAuthoritySpec a"
  by (simp_all add: toMQQueueSpec_def toMQTopicSpec_def toMQChannelSpec_def toMQChannelAuthSpec_def
      toMQAuthoritySpec_def)

definition reads_absent :: "'a result \<times> 'w \<Rightarrow> bool" where
  "reads_absent r = (case fst r of Inl e \<Rightarrow> errors_Is e ErrNotFound | Inr st \<Rightarrow> False)"

definition queue_absent :: "'w Admin \<Rightarrow> Queue \<Rightarrow> 'w \<Rightarrow> bool" where
  "queue_absent admin q w = reads_absent (ad_GetQueue admin (toMQQueueSpec q) w)"

definition queue_in_sync :: "'w Admin \<Rightarrow> Queue \<Rightarrow> 'w \<Rightarrow> bool" where
  "queue_in_sync admin q w =
     (let spec = toMQQueueSpec q in
      case ad_GetQueue admin spec w of
        (Inr st, w1) \<Rightarrow>
          (case ad_QueueDriftKeys admin (qs_Type spec) w1 of
             (Inr keys, w2) \<Rightarrow> \<not> AttributesNeedUpdate (qs_Attributes spec) (os_Attributes st) keys
           | _ \<Rightarrow> False)
      | _ \<Rightarrow> False)"

definition topic_absent :: "'w Admin \<Rightarrow> Topic \<Rightarrow> 'w \<Rightarrow> bool" where
  "topic_absent admin t w = reads_absent (ad_GetTopic admin (ts_Name (toMQTopicSpec t)) w)"

definition topic_in_sync :: "'w Admin \<Rightarrow> Topic \<Rightarrow> 'w \<Rightarrow> bool" where
  "topic_in_sync admin t w =
     (let spec = toMQTopicSpec t in
      case ad_GetTopic admin (ts_Name spec) w of
        (Inr st, w1) \<Rightarrow> \<not> AttributesNeedUpdate (ts_Attributes spec) (os_Attributes st) TopicDriftCheckKeys
      | _ \<Rightarrow> False)"

definition channel_absent :: "'w Admin \<Rightarrow> Channel \<Rightarrow> 'w \<Rightarrow> bool" where
  "channel_absent admin c w = reads_absent (ad_GetChannel admin (toMQChannelSpec c) w)"

definition channel_in_sync :: "'w Admin \<Rightarrow> Channel \<Rightarrow> 'w \<Rightarrow> bool" where
  "channel_in_sync admin c w =
     (let spec = toMQChannelSpec c in
      case ad_GetChannel admin spec w of
        (Inr st, w1) \<Rightarrow>
          \<not> AttributesNeedUpdate (chs_Attributes spec) (os_Attributes st) (ChannelDriftCheckKeys (chs_Type spec))
      | _ \<Rightarrow> False)"

definition rule_absent :: "'w Admin \<Rightarrow> ChannelAuthRule \<Rightarrow> 'w \<Rightarrow> bool" where
  "rule_absent admin r w = reads_absent (ad_GetChannelAuth admin (toMQChannelAuthSpec r) w)"

definition rule_in_sync :: "'w Admin \<Rightarrow> ChannelAuthRule \<Rightarrow> 'w \<Rightarrow> bool" where
  "rule_in_sync admin r w =
     (case ad_GetChannelAuth admin (toMQChannelAuthSpec r) w of
        (Inr st, w1) \<Rightarrow> \<not> ChannelAuthNeedsUpdate (toMQChannelAuthSpec r) (Some st)
      | _ \<Rightarrow> False)"

definition authority_absent :: "'w Admin \<Rightarrow> AuthorityRecord \<Rightarrow> 'w \<Rightarrow> bool" where
  "authority_absent admin a w = reads_absent (ad_GetAuthority admin (toMQAuthoritySpec a) w)"

definition authority_in_sync :: "'w Admin \<Rightarrow> AuthorityRecord \<Rightarrow> 'w \<Rightarrow> bool" where
  "authority_in_sync admin a w =
     (case ad_GetAuthority admin (toMQAuthoritySpec a) w of
        (Inr st, w1) \<Rightarrow> AuthorityNeedsUpdate (toMQAuthoritySpec a) (Some st) = Some False
      | _ \<Rightarrow> False)"

lemma observedAttributes_Inr:
  "observedAttributes r = Inr (ex, obs) \<Longrightarrow>
     (\<not> ex \<longrightarrow> (\<exists>e. r = Inl e \<and> errors_Is e ErrNotFound)) \<and> (ex \<longrightarrow> (\<exists>st. r = Inr st \<and> obs = os_Attributes st))"
  by (auto simp: observedAttributes_def split: sum.splits if_splits)

text \<open>The four facts of the contract, for an ensure step that reads with \<open>r0\<close> and then runs
  \<open>reconcileMQObjectState\<close>, and for one that runs \<open>ensureAuth\<close>.\<close>

definition ensure_facts ::
  "'spec workload \<Rightarrow> bool \<Rightarrow> bool \<Rightarrow> bool \<Rightarrow> bool \<Rightarrow> 'w rs \<Rightarrow> 'w rs \<Rightarrow> bool" where
  "ensure_facts obj oo absent insync ok s s' \<longleftrightarrow>
     (rs_log s' = rs_log s \<or> (\<exists>e. rs_log s' = MQApply e # rs_log s)) \<and>
     (oo \<longrightarrow> rs_log s' = rs_log s) \<and>
     (workloadFirstAdoption obj \<and>
        workloadAdoptionPolicy obj \<in> {AdoptionPolicyFailIfExists, AdoptionPolicyAdoptIfMatching} \<and>
        rs_log s' \<noteq> rs_log s \<longrightarrow> absent) \<and>
     (ok \<longrightarrow> rs_log s' = MQApply None # rs_log s \<or> insync) \<and>
     (rs_log s' \<noteq> rs_log s \<longrightarrow> \<not> insync)"

lemma reconcileMQObjectState_facts:
  assumes "reconcileMQObjectState oo (workloadAdoptionPolicy obj) (workloadFirstAdoption obj) ex obs des keys
             label (mqApply f) s1 = (r, s')"
    and "rs_log s1 = rs_log s" and "\<not> ex \<Longrightarrow> absent"
    and "insync \<longleftrightarrow> ex \<and> \<not> AttributesNeedUpdate des obs keys"
  shows "ensure_facts obj oo absent insync (\<exists>ex'. r = (ex', [], None)) s s'"
  using reconcileMQObjectState_log [OF assms(1)] assms(2-4) unfolding ensure_facts_def by metis

lemma ensureQueue_facts:
  assumes "ensureQueue admin q (toMQQueueSpec q) oo s = (r, s')"
  shows "ensure_facts q oo (queue_absent admin q (rs_world s)) (queue_in_sync admin q (rs_world s))
           (\<exists>ex. r = (ex, [], None)) s s'"
proof -
  let ?spec = "toMQQueueSpec q"
  obtain r0 s1 where g: "mqRead (ad_GetQueue admin ?spec) s = (r0, s1)" by fastforce
  note g' = mqRead_log [OF g]
  show ?thesis
  proof (cases "observedAttributes r0")
    case (Inl e)
    with assms g g' show ?thesis by (auto simp: ensureQueue_def ensure_facts_def)
  next
    case (Inr eo)
    obtain ex obs where eo: "eo = (ex, obs)" by fastforce
    note oa = observedAttributes_Inr [of r0 ex obs]
    obtain ks s2 where d: "mqRead (ad_QueueDriftKeys admin (qs_Type ?spec)) s1 = (ks, s2)" by fastforce
    note d' = mqRead_log [OF d]
    show ?thesis
    proof (cases ks)
      case kl: (Inl e)
      with assms g g' Inr eo d d' show ?thesis by (auto simp: ensureQueue_def ensure_facts_def)
    next
      case kr: (Inr keys)
      show ?thesis
      proof (rule reconcileMQObjectState_facts)
        show "reconcileMQObjectState oo (workloadAdoptionPolicy q) (workloadFirstAdoption q) ex obs
                (qs_Attributes ?spec) keys (''queue '' @ Quote (qs_Name ?spec))
                (mqApply (ad_DefineQueue admin ?spec)) s2 = (r, s')"
          using assms g Inr eo d kr by (simp add: ensureQueue_def)
        show "rs_log s2 = rs_log s" using g' d' by simp
        show "\<not> ex \<Longrightarrow> queue_absent admin q (rs_world s)"
          using g' Inr eo oa by (auto simp: queue_absent_def reads_absent_def)
        show "queue_in_sync admin q (rs_world s) \<longleftrightarrow> ex \<and> \<not> AttributesNeedUpdate (qs_Attributes ?spec) obs keys"
          using g' d' kr Inr eo oa by (auto simp: queue_in_sync_def)
      qed
    qed
  qed
qed

lemma ensureTopic_facts:
  assumes "ensureTopic admin t (toMQTopicSpec t) oo s = (r, s')"
  shows "ensure_facts t oo (topic_absent admin t (rs_world s)) (topic_in_sync admin t (rs_world s))
           (\<exists>ex. r = (ex, [], None)) s s'"
proof -
  let ?spec = "toMQTopicSpec t"
  obtain r0 s1 where g: "mqRead (ad_GetTopic admin (ts_Name ?spec)) s = (r0, s1)" by fastforce
  note g' = mqRead_log [OF g]
  show ?thesis
  proof (cases "observedAttributes r0")
    case (Inl e)
    with assms g g' show ?thesis by (auto simp: ensureTopic_def ensure_facts_def)
  next
    case (Inr eo)
    obtain ex obs where eo: "eo = (ex, obs)" by fastforce
    note oa = observedAttributes_Inr [of r0 ex obs]
    show ?thesis
    proof (rule reconcileMQObjectState_facts)
      show "reconcileMQObjectState oo (workloadAdoptionPolicy t) (workloadFirstAdoption t) ex obs
              (ts_Attributes ?spec) TopicDriftCheckKeys (''topic '' @ Quote (ts_Name ?spec))
              (mqApply (ad_DefineTopic admin ?spec)) s1 = (r, s')"
        using assms g Inr eo by (simp add: ensureTopic_def)
      show "rs_log s1 = rs_log s" using g' by simp
      show "\<not> ex \<Longrightarrow> topic_absent admin t (rs_world s)"
        using g' Inr eo oa by (auto simp: topic_absent_def reads_absent_def)
      show "topic_in_sync admin t (rs_world s) \<longleftrightarrow> ex \<and> \<not> AttributesNeedUpdate (ts_Attributes ?spec) obs TopicDriftCheckKeys"
        using g' Inr eo oa by (auto simp: topic_in_sync_def)
    qed
  qed
qed

lemma ensureChannel_facts:
  assumes "ensureChannel admin c (toMQChannelSpec c) oo s = (r, s')"
  shows "ensure_facts c oo (channel_absent admin c (rs_world s)) (channel_in_sync admin c (rs_world s))
           (\<exists>ex. r = (ex, [], None)) s s'"
proof -
  let ?spec = "toMQChannelSpec c"
  obtain r0 s1 where g: "mqRead (ad_GetChannel admin ?spec) s = (r0, s1)" by fastforce
  note g' = mqRead_log [OF g]
  show ?thesis
  proof (cases "observedAttributes r0")
    case (Inl e)
    with assms g g' show ?thesis by (auto simp: ensureChannel_def ensure_facts_def)
  next
    case (Inr eo)
    obtain ex obs where eo: "eo = (ex, obs)" by fastforce
    note oa = observedAttributes_Inr [of r0 ex obs]
    show ?thesis
    proof (rule reconcileMQObjectState_facts)
      show "reconcileMQObjectState oo (workloadAdoptionPolicy c) (workloadFirstAdoption c) ex obs
              (chs_Attributes ?spec) (ChannelDriftCheckKeys (chs_Type ?spec)) (''channel '' @ Quote (chs_Name ?spec))
              (mqApply (ad_DefineChannel admin ?spec)) s1 = (r, s')"
        using assms g Inr eo by (simp add: ensureChannel_def)
      show "rs_log s1 = rs_log s" using g' by simp
      show "\<not> ex \<Longrightarrow> channel_absent admin c (rs_world s)"
        using g' Inr eo oa by (auto simp: channel_absent_def reads_absent_def)
      show "channel_in_sync admin c (rs_world s) \<longleftrightarrow> ex \<and> \<not> AttributesNeedUpdate (chs_Attributes ?spec) obs (ChannelDriftCheckKeys (chs_Type ?spec))"
        using g' Inr eo oa by (auto simp: channel_in_sync_def)
    qed
  qed
qed

lemma ensureAuth_facts:
  assumes "ensureAuth obj ex nu label mm (mqApply f) s1 = ((ex', drifted, err), s')"
    and "rs_log s1 = rs_log s" and "\<not> ex \<Longrightarrow> absent" and "insync \<longleftrightarrow> \<not> nu"
  shows "ensure_facts obj (isObserveOnly obj) absent insync (\<not> drifted \<and> err = None) s s'"
  using ensureAuth_log [OF assms(1)] assms(2-4) unfolding ensure_facts_def by metis

lemma ensureChannelAuth_facts:
  assumes "ensureChannelAuth admin (toMQChannelAuthSpec r) r s = ((ex', drifted, err), s')"
  shows "ensure_facts r (isObserveOnly r) (rule_absent admin r (rs_world s)) (rule_in_sync admin r (rs_world s))
           (\<not> drifted \<and> err = None) s s'"
proof -
  let ?spec = "toMQChannelAuthSpec r"
  obtain r0 s1 where g: "mqRead (ad_GetChannelAuth admin ?spec) s = (r0, s1)" by fastforce
  note g' = mqRead_log [OF g]
  show ?thesis
  proof (cases r0)
    case (Inl e)
    show ?thesis
    proof (cases "errors_Is e ErrNotFound")
      case True
      have ea: "ensureAuth r False True (''CHLAUTH rule for channel '' @ Quote (ca_ChannelName ?spec))
          ''CHLAUTH on IBM MQ differs from spec'' (mqApply (ad_SetChannelAuth admin ?spec)) s1 =
          ((ex', drifted, err), s')"
        using assms g Inl True by (simp add: ensureChannelAuth_def)
      show ?thesis
        by (rule ensureAuth_facts [OF ea])
           (use g' Inl True in \<open>auto simp: rule_absent_def rule_in_sync_def reads_absent_def\<close>)
    next
      case False
      with assms g g' Inl show ?thesis by (auto simp: ensureChannelAuth_def ensure_facts_def)
    qed
  next
    case (Inr st)
    have ea: "ensureAuth r True (ChannelAuthNeedsUpdate ?spec (Some st))
        (''CHLAUTH rule for channel '' @ Quote (ca_ChannelName ?spec))
        ''CHLAUTH on IBM MQ differs from spec'' (mqApply (ad_SetChannelAuth admin ?spec)) s1 =
        ((ex', drifted, err), s')"
      using assms g Inr by (simp add: ensureChannelAuth_def)
    show ?thesis
      by (rule ensureAuth_facts [OF ea]) (use g' Inr in \<open>auto simp: rule_in_sync_def\<close>)
  qed
qed

lemma ensureAuthority_facts:
  assumes "ensureAuthority admin (toMQAuthoritySpec a) a s = (r, s')"
  shows "ensure_facts a (isObserveOnly a) (authority_absent admin a (rs_world s))
           (authority_in_sync admin a (rs_world s)) (\<exists>ex. r = Some (ex, False, None)) s s'"
proof -
  let ?spec = "toMQAuthoritySpec a"
  obtain r0 s1 where g: "mqRead (ad_GetAuthority admin ?spec) s = (r0, s1)" by fastforce
  note g' = mqRead_log [OF g]
  have weaken: "ensure_facts a oo ab ins (\<not> d \<and> e = None) s s' \<Longrightarrow> r = Some (x, d, e) \<Longrightarrow>
      ensure_facts a oo ab ins (\<exists>ex. r = Some (ex, False, None)) s s'" for oo ab ins d e x
    by (auto simp: ensure_facts_def)
  show ?thesis
  proof (cases r0)
    case (Inl e)
    show ?thesis
    proof (cases "errors_Is e ErrNotFound")
      case True
      obtain x d er where ea: "ensureAuth a False True (''authority record for profile '' @ Quote (au_Profile ?spec))
          ''AUTHREC on IBM MQ differs from spec'' (mqApply (ad_SetAuthority admin ?spec)) s1 = ((x, d, er), s')"
        "r = Some (x, d, er)"
        using assms g Inl True by (auto simp: ensureAuthority_def Let_def apfst_def map_prod_def split: prod.splits)
      show ?thesis
        by (rule weaken [OF ensureAuth_facts [OF ea(1)] ea(2)])
           (use g' Inl True in \<open>auto simp: authority_absent_def authority_in_sync_def reads_absent_def\<close>)
    next
      case False
      with assms g g' Inl show ?thesis by (auto simp: ensureAuthority_def ensure_facts_def Let_def)
    qed
  next
    case (Inr st)
    show ?thesis
    proof (cases "AuthorityNeedsUpdate ?spec (Some st)")
      case None
      with assms g g' Inr show ?thesis by (auto simp: ensureAuthority_def ensure_facts_def Let_def)
    next
      case (Some nu)
      obtain x d er where ea: "ensureAuth a True nu (''authority record for profile '' @ Quote (au_Profile ?spec))
          ''AUTHREC on IBM MQ differs from spec'' (mqApply (ad_SetAuthority admin ?spec)) s1 = ((x, d, er), s')"
        "r = Some (x, d, er)"
        using assms g Inr Some by (auto simp: ensureAuthority_def Let_def apfst_def map_prod_def split: prod.splits)
      show ?thesis
        by (rule weaken [OF ensureAuth_facts [OF ea(1)] ea(2)])
           (use g' Inr Some in \<open>auto simp: authority_in_sync_def\<close>)
    qed
  qed
qed

text \<open>The contract holds of a kind whose ensure step has the facts.\<close>

lemma workload_contractI:
  assumes "\<And>admin obj s r s'. wk_ensure wk admin obj s = (r, s') \<Longrightarrow>
      ensure_facts obj (isObserveOnly obj) (absent admin obj (rs_world s)) (in_sync admin obj (rs_world s))
        (\<exists>ex. r = Some (ex, [], None)) s s'"
    and "\<And>admin obj st w. absent admin (obj\<lparr>w_Status := st\<rparr>) w = absent admin obj w"
    and "\<And>admin obj st w. in_sync admin (obj\<lparr>w_Status := st\<rparr>) w = in_sync admin obj w"
  shows "workload_contract wk absent in_sync"
proof unfold_locales
  fix admin obj s r s'
  assume "wk_ensure wk admin obj s = (r, s')"
  from assms(1) [OF this] show "rs_log s' = rs_log s \<or> (\<exists>e. rs_log s' = MQApply e # rs_log s)"
    "isObserveOnly obj \<Longrightarrow> rs_log s' = rs_log s"
    "workloadFirstAdoption obj \<Longrightarrow>
       workloadAdoptionPolicy obj \<in> {AdoptionPolicyFailIfExists, AdoptionPolicyAdoptIfMatching} \<Longrightarrow>
       rs_log s' \<noteq> rs_log s \<Longrightarrow> absent admin obj (rs_world s)"
    "rs_log s' \<noteq> rs_log s \<Longrightarrow> \<not> in_sync admin obj (rs_world s)"
    unfolding ensure_facts_def by blast+
next
  fix admin obj s ex s'
  assume "wk_ensure wk admin obj s = (Some (ex, [], None), s')"
  from assms(1) [OF this] show "rs_log s' = MQApply None # rs_log s \<or> in_sync admin obj (rs_world s)"
    unfolding ensure_facts_def by blast
qed (rule assms(2) assms(3))+

interpretation queue: workload_contract queue_kind queue_absent queue_in_sync
proof (rule workload_contractI)
  fix admin :: "'a Admin" and obj :: Queue and s s' :: "'a rs" and r
  assume "wk_ensure queue_kind admin obj s = (r, s')"
  then obtain r0 where "ensureQueue admin obj (toMQQueueSpec obj) (isObserveOnly obj) s = (r0, s')" "r = Some r0"
    by (auto simp: queue_kind_def apfst_def map_prod_def split: prod.splits)
  with ensureQueue_facts [OF this(1)] show
    "ensure_facts obj (isObserveOnly obj) (queue_absent admin obj (rs_world s))
       (queue_in_sync admin obj (rs_world s)) (\<exists>ex. r = Some (ex, [], None)) s s'" by simp
qed (simp_all add: queue_absent_def queue_in_sync_def)

interpretation topic: workload_contract topic_kind topic_absent topic_in_sync
proof (rule workload_contractI)
  fix admin :: "'a Admin" and obj :: Topic and s s' :: "'a rs" and r
  assume "wk_ensure topic_kind admin obj s = (r, s')"
  then obtain r0 where "ensureTopic admin obj (toMQTopicSpec obj) (isObserveOnly obj) s = (r0, s')" "r = Some r0"
    by (auto simp: topic_kind_def apfst_def map_prod_def split: prod.splits)
  with ensureTopic_facts [OF this(1)] show
    "ensure_facts obj (isObserveOnly obj) (topic_absent admin obj (rs_world s))
       (topic_in_sync admin obj (rs_world s)) (\<exists>ex. r = Some (ex, [], None)) s s'" by simp
qed (simp_all add: topic_absent_def topic_in_sync_def)

interpretation channel: workload_contract channel_kind channel_absent channel_in_sync
proof (rule workload_contractI)
  fix admin :: "'a Admin" and obj :: Channel and s s' :: "'a rs" and r
  assume "wk_ensure channel_kind admin obj s = (r, s')"
  then obtain r0 where "ensureChannel admin obj (toMQChannelSpec obj) (isObserveOnly obj) s = (r0, s')" "r = Some r0"
    by (auto simp: channel_kind_def apfst_def map_prod_def split: prod.splits)
  with ensureChannel_facts [OF this(1)] show
    "ensure_facts obj (isObserveOnly obj) (channel_absent admin obj (rs_world s))
       (channel_in_sync admin obj (rs_world s)) (\<exists>ex. r = Some (ex, [], None)) s s'" by simp
qed (simp_all add: channel_absent_def channel_in_sync_def)

lemma authDrift_Nil: "authDrift n l (x, d, e) = (ex, [], None) \<longleftrightarrow> ex = x \<and> \<not> d \<and> e = None"
  by (auto simp: authDrift_def)

interpretation rule: workload_contract channelauthrule_kind rule_absent rule_in_sync
proof (rule workload_contractI)
  fix admin :: "'a Admin" and obj :: ChannelAuthRule and s s' :: "'a rs" and r
  let ?drift = "authDrift (ca_ChannelName (toMQChannelAuthSpec obj)) ''CHLAUTH rule''"
  assume "wk_ensure channelauthrule_kind admin obj s = (r, s')"
  then obtain x d e where
    "ensureChannelAuth admin (toMQChannelAuthSpec obj) obj s = ((x, d, e), s')" "r = Some (?drift (x, d, e))"
    by (auto simp: channelauthrule_kind_def apfst_def map_prod_def split: prod.splits)
  with ensureChannelAuth_facts [OF this(1)] show
    "ensure_facts obj (isObserveOnly obj) (rule_absent admin obj (rs_world s))
       (rule_in_sync admin obj (rs_world s)) (\<exists>ex. r = Some (ex, [], None)) s s'"
    by (simp add: authDrift_Nil)
qed (simp_all add: rule_absent_def rule_in_sync_def cong: sum.case_cong prod.case_cong)

interpretation authority: workload_contract authorityrecord_kind authority_absent authority_in_sync
proof (rule workload_contractI)
  fix admin :: "'a Admin" and obj :: AuthorityRecord and s s' :: "'a rs" and r
  let ?drift = "authDrift (a_Profile (w_Spec obj)) ''authority record''"
  assume "wk_ensure authorityrecord_kind admin obj s = (r, s')"
  then obtain r0 where
    e: "ensureAuthority admin (toMQAuthoritySpec obj) obj s = (r0, s')" and r: "r = map_option ?drift r0"
    by (auto simp: authorityrecord_kind_def apfst_def map_prod_def split: prod.splits)
  have "(\<exists>ex. r = Some (ex, [], None)) = (\<exists>ex. r0 = Some (ex, False, None))"
  proof (cases r0)
    case (Some t)
    obtain x d e where "t = (x, d, e)" by (rule prod_cases3)
    with Some show ?thesis by (simp add: r authDrift_Nil)
  qed (simp add: r)
  with ensureAuthority_facts [OF e] show
    "ensure_facts obj (isObserveOnly obj) (authority_absent admin obj (rs_world s))
       (authority_in_sync admin obj (rs_world s)) (\<exists>ex. r = Some (ex, [], None)) s s'" by simp
qed (simp_all add: authority_absent_def authority_in_sync_def cong: sum.case_cong prod.case_cong)

section \<open>Deletion\<close>

lemma effects_log: "rs_log s' = new @ rs_log s \<Longrightarrow> effects s s' = new"
  by (simp add: effects_def)

fun keepsRemove :: "effect \<Rightarrow> bool" where
  "keepsRemove (MQRemove None) = False"
| "keepsRemove (ObjectWrite fs b) = False"
| "keepsRemove (MQApply r) = False"
| "keepsRemove (DriftDetected c) = False"
| "keepsRemove e = True"

lemma quiet_keepsRemove: "quiet e \<Longrightarrow> keepsRemove e"
  by (cases e) auto

lemma mqRemove_log: "mqRemove f s = (e, s') \<Longrightarrow> rs_log s' = MQRemove e # rs_log s"
  by (auto simp: mqRemove_def log_effect_def split: prod.splits)

lemma handleDeletion_effects:
  assumes "handleDeletion k wk obj admin s = (out, s')"
  shows "adds keepsRemove s s' \<or>
    (\<exists>fs b rest. rs_log s' = ObjectWrite fs b # EventNormal ''Deleted'' (wk_removedMessage wk) # MQRemove None #
        rest @ rs_log s \<and> list_all quiet rest)"
proof -
  obtain e obj1 s1 where p:
    "patchSyncedDeleting k obj (om_Generation (w_meta obj)) (wk_deletingMessage wk) s = (e, obj1, s1)"
    by (metis surj_pair)
  have q: "adds quiet s s1" using patch_adds(2) [OF benign_quiet p] .
  have q': "adds keepsRemove s s1" using q by (rule adds_mono) (rule quiet_keepsRemove)
  show ?thesis
  proof (cases e)
    case (Some x)
    with assms p q' show ?thesis by (simp add: handleDeletion_def Let_def)
  next
    case None
    obtain e2 s2 where r: "mqRemove (wk_delete wk admin obj1) s1 = (e2, s2)" by fastforce
    show ?thesis
    proof (cases e2)
      case e2: (Some x)
      have "setSyncedError k obj1 (om_Generation (w_meta obj1)) x None s2 = (out, s')"
        using assms p None r e2 by (simp add: handleDeletion_def Let_def)
      from setSyncedError_adds [OF this benign_quiet] have "adds keepsRemove s2 s'"
        by (rule adds_mono) (rule quiet_keepsRemove)
      moreover have "adds keepsRemove s1 s2" using mqRemove_log [OF r] e2 by (simp add: adds_one)
      ultimately show ?thesis using q' by (blast intro: adds_trans)
    next
      case e2: None
      let ?obj = "setFinalizers (RemoveFinalizer (k_lib k) (wk_Finalizer wk) (om_Finalizers (w_meta obj1))) obj1"
      let ?s = "recordNormalEvent ''Deleted'' (wk_removedMessage wk) s2"
      obtain e3 o3 s3 where u: "objectUpdate k ?obj ?s = (e3, o3, s3)" by (metis surj_pair)
      have "s' = s3"
        using assms p None r e2 u by (auto simp: handleDeletion_def Let_def split: option.splits)
      with objectUpdate_log [OF u] mqRemove_log [OF r] e2 adds_effects [OF q] show ?thesis
        by (auto simp: recordNormalEvent_def log_effect_def)
    qed
  qed
qed

lemma orphanFinalizeWorkload_effects:
  assumes "orphanFinalizeWorkload k obj g fin m s = (out, s')"
  shows "adds (\<lambda>e. quiet e \<or> (\<exists>fs b. e = ObjectWrite fs b)) s s'"
proof -
  let ?Q = "\<lambda>e. quiet e \<or> (\<exists>fs b. e = ObjectWrite fs b)"
  obtain e obj1 s1 where p: "patchSyncedOrphaned k obj g m s = (e, obj1, s1)" by (metis surj_pair)
  have q: "adds ?Q s s1" using patch_adds(3) [OF benign_quiet p] by (rule adds_mono) simp
  show ?thesis
  proof (cases e)
    case (Some x)
    with assms p q show ?thesis by (simp add: orphanFinalizeWorkload_def)
  next
    case None
    let ?s = "recordNormalEvent ReasonOrphaned m s1"
    let ?obj = "setFinalizers (RemoveFinalizer (k_lib k) fin (om_Finalizers (w_meta obj1))) obj1"
    obtain e2 o2 s2 where u: "objectUpdate k ?obj ?s = (e2, o2, s2)" by (metis surj_pair)
    have "s' = s2" using assms p None u by (simp add: orphanFinalizeWorkload_def Let_def)
    moreover have "adds ?Q ?s s2" using objectUpdate_log [OF u] by (auto intro: adds_one)
    moreover have "adds ?Q s ?s" using q by (simp add: recordNormalEvent_def adds_log)
    ultimately show ?thesis by (blast intro: adds_trans)
  qed
qed

lemma reconcileWorkloadDeletion_cases [consumes 1, case_names none orphan waiting delete]:
  assumes "reconcileWorkloadDeletion k obj g fin om del s = (out, s')"
  obtains (none) "s' = s"
    | (orphan) "orphanDeletionRequested obj" "orphanFinalizeWorkload k obj g fin om s = (out, s')"
    | (waiting) "adds quiet s s'"
    | (delete) adm s1 where "\<not> orphanDeletionRequested obj" "adds quiet s s1" "del adm s1 = (out, s')"
proof -
  consider "\<not> ContainsFinalizer (k_lib k) fin (om_Finalizers (w_meta obj))"
    | "ContainsFinalizer (k_lib k) fin (om_Finalizers (w_meta obj))" "orphanDeletionRequested obj"
    | (del) "ContainsFinalizer (k_lib k) fin (om_Finalizers (w_meta obj))" "\<not> orphanDeletionRequested obj"
    by blast
  then show ?thesis
  proof cases
    case del
    from assms [unfolded reconcileWorkloadDeletion_def, simplified del if_True if_False not_True_eq_False not_False_eq_True]
      benign_quiet [of "k_lib k"] show ?thesis
    proof (cases rule: connect_cases)
      case (failed err s1)
      from adds_trans [OF failed(1) deletionAwaitingConnection_adds [OF failed(2) benign_quiet]] show ?thesis
        by (rule waiting)
    next
      case (connected conn adm s1 w0)
      with del show ?thesis by (intro delete)
    next
      case (waiting conn s1)
      from this(3) show ?thesis by (rule that(3))
    qed
  qed (use assms none orphan in \<open>simp_all add: reconcileWorkloadDeletion_def\<close>)
qed

text \<open>The three outcomes of the deletion branch.\<close>

lemma deletion_run [consumes 3, case_names waiting orphaned removed]:
  assumes "reconcileWorkload k wk ns n s = (out, s')" "k_get k ns n (rs_world s) = (Inr obj, w)"
    and "om_Deleting (w_meta obj)"
  obtains (waiting) "adds keepsRemove s s'"
    | (orphaned) "orphanDeletionRequested obj" "adds (\<lambda>e. quiet e \<or> (\<exists>fs b. e = ObjectWrite fs b)) s s'"
    | (removed) fs b rest where "\<not> orphanDeletionRequested obj"
        "effects s s' = ObjectWrite fs b # EventNormal ''Deleted'' (wk_removedMessage wk) # MQRemove None # rest"
        "list_all quiet rest"
  using assms(1,2) benign_quiet
proof (cases rule: reconcileWorkload_live)
  case benign
  then have "adds keepsRemove s s'" by (rule adds_mono) (rule quiet_keepsRemove)
  then show ?thesis by (rule waiting)
next
  case deleting
  let ?s = "s\<lparr>rs_world := w\<rparr>"
  from deleting(3) show ?thesis
  proof (cases rule: reconcileWorkloadDeletion_cases)
    case none
    then show ?thesis by (intro waiting) (simp add: adds_same)
  next
    case orphan
    with orphanFinalizeWorkload_effects [OF orphan(2)] show ?thesis by (intro orphaned) simp_all
  next
    case w: waiting
    then have "adds keepsRemove ?s s'" by (rule adds_mono) (rule quiet_keepsRemove)
    then show ?thesis by (intro waiting) simp
  next
    case (delete adm s1)
    from adds_effects [OF delete(2)] obtain mid where mid: "rs_log s1 = mid @ rs_log s" "list_all quiet mid" by auto
    have k: "adds keepsRemove s s1" using adds_mono [OF delete(2) quiet_keepsRemove] by simp
    from handleDeletion_effects [OF delete(3)] show ?thesis
    proof (elim disjE exE conjE)
      assume "adds keepsRemove s1 s'"
      then show ?thesis by (intro waiting) (rule adds_trans [OF k])
    next
      fix fs b rest
      assume "rs_log s' = ObjectWrite fs b # EventNormal ''Deleted'' (wk_removedMessage wk) #
        MQRemove None # rest @ rs_log s1" and r: "list_all quiet rest"
      then have l: "rs_log s' = (ObjectWrite fs b # EventNormal ''Deleted'' (wk_removedMessage wk) #
        MQRemove None # rest @ mid) @ rs_log s" using mid by simp
      from effects_log [OF l] r mid(2) delete(1) show ?thesis
        by (intro removed [of fs b "rest @ mid"]) simp_all
    qed
  qed
qed (use assms(3) in simp)

end
