(* ===== verification/Workload_Properties.thy ===== *)
theory Workload_Properties
  imports Workload_Safety
begin

text \<open>
  Properties of the five workload reconcilers, as statements about a single run of
  \<open>reconcile\<close>: the object as read, the state before and after and the effects in between,
  newest first. The API server, the client factory and the queue manager are arbitrary.
  A small instance of them, with one stored queue and one queue on the queue manager, serves
  the witnesses.
\<close>

section \<open>A concrete cluster with one queue\<close>

record demo =
  d_obj :: Queue
  d_queue :: "attrs option"
  d_statusFails :: bool

definition demo_admin :: "demo Admin" where
  "demo_admin =
     \<lparr>ad_Ping = (\<lambda>w. (None, w)),
      ad_GetQueue = (\<lambda>spec w. (case d_queue w of
          None \<Rightarrow> Inl (NotFoundError (qs_Name spec))
        | Some a \<Rightarrow> Inr \<lparr>os_Name = qs_Name spec, os_Attributes = a\<rparr>, w)),
      ad_DefineQueue = (\<lambda>spec w. (None, w\<lparr>d_queue := Some (qs_Attributes spec)\<rparr>)),
      ad_DeleteQueue = (\<lambda>spec w. (None, w\<lparr>d_queue := None\<rparr>)),
      ad_QueueDriftKeys = (\<lambda>ty w. (Inr [''maxdepth''], w)),
      ad_GetTopic = (\<lambda>n w. (Inl (NotFoundError n), w)),
      ad_DefineTopic = (\<lambda>spec w. (None, w)),
      ad_DeleteTopic = (\<lambda>n w. (None, w)),
      ad_GetChannel = (\<lambda>spec w. (Inl (NotFoundError (chs_Name spec)), w)),
      ad_DefineChannel = (\<lambda>spec w. (None, w)),
      ad_DeleteChannel = (\<lambda>spec w. (None, w)),
      ad_GetChannelAuth = (\<lambda>spec w. (Inl (NotFoundError (ca_ChannelName spec)), w)),
      ad_SetChannelAuth = (\<lambda>spec w. (None, w)),
      ad_DeleteChannelAuth = (\<lambda>spec w. (None, w)),
      ad_GetAuthority = (\<lambda>spec w. (Inl (NotFoundError (au_Profile spec)), w)),
      ad_SetAuthority = (\<lambda>spec w. (None, w)),
      ad_DeleteAuthority = (\<lambda>spec w. (None, w))\<rparr>"

definition ready_connection :: QueueManagerConnection where
  "ready_connection =
     \<lparr>c_meta = \<lparr>om_Namespace = ''ns'', om_Name = ''qm1'', om_UID = ''u1'', om_Generation = 1,
                om_ResourceVersion = ''1'', om_Deleting = False, om_Finalizers = [], om_Annotations = []\<rparr>,
      qm_QueueManager = ''QM1'', qm_Endpoint = ''https://mq:9443'', qm_RESTPrefix = [], qm_TLS = None,
      qm_CredentialsSecretRef = Some ''creds'', qm_Authentication = None,
      qm_Conditions = [\<lparr>cn_Type = ConditionReady, cn_Status = ConditionTrue, cn_Reason = ReasonAvailable,
                        cn_Message = [], cn_ObservedGeneration = 1\<rparr>],
      qm_ObservedGeneration = 1\<rparr>"

definition demo_kube :: "(QueueSpecCR, demo) kube" where
  "demo_kube =
     \<lparr>k_lib = example_lib, k_intervals = defaultIntervals,
      k_get = (\<lambda>ns n w. (Inr (d_obj w), w)),
      k_getConn = (\<lambda>ns n w. (Inr ready_connection, w)),
      k_statusUpdate = (\<lambda>obj w.
        if d_statusFails w then (Inl (K8sError K8sConflict ''conflict''), w\<lparr>d_statusFails := False\<rparr>)
        else (Inr obj, w\<lparr>d_obj := obj\<rparr>)),
      k_update = (\<lambda>obj w. (Inr obj, w\<lparr>d_obj := obj\<rparr>)),
      k_forConnection = (\<lambda>conn w. (Inr demo_admin, w)),
      k_now = (\<lambda>w. 1),
      k_jitter = (\<lambda>span w. (0, w))\<rparr>"

definition demo_queue :: "string \<Rightarrow> attrs \<Rightarrow> bool \<Rightarrow> string \<Rightarrow> Queue" where
  "demo_queue adoption annotations deleting deletion =
     \<lparr>w_meta = \<lparr>om_Namespace = ''ns'', om_Name = ''q'', om_UID = ''u2'', om_Generation = 1,
                om_ResourceVersion = ''1'', om_Deleting = deleting, om_Finalizers = [QueueFinalizer],
                om_Annotations = annotations\<rparr>,
      w_ConnectionRef = ''qm1'', w_Suspend = False,
      w_policies = \<lparr>lp_DeletionPolicy = deletion, lp_AdoptionPolicy = adoption\<rparr>,
      w_Spec = \<lparr>q_QueueName = ''Q1'', q_Type = ''local'', q_Attributes = [], q_MaxDepth = Some 5,
                q_Description = [], q_DefPersistence = [], q_Get = [], q_Put = [], q_TargetQueue = [],
                q_XmitQueue = [], q_RemoteQueueManager = []\<rparr>,
      w_Status = \<lparr>st_Conditions = [], st_ObservedGeneration = 0, st_DesiredMQSC = [], st_Message = [],
                  st_LastSyncTime = None, st_MQObjectExists = None\<rparr>\<rparr>"

definition demo_start :: "Queue \<Rightarrow> attrs option \<Rightarrow> bool \<Rightarrow> demo rs" where
  "demo_start obj q fails = \<lparr>rs_world = \<lparr>d_obj = obj, d_queue = q, d_statusFails = fails\<rparr>, rs_log = []\<rparr>"

definition demo_run :: "demo rs \<Rightarrow> outcome \<times> demo rs" where
  "demo_run = QueueReconciler_reconcile demo_kube ''ns'' ''q''"

section \<open>What a kind promises\<close>

definition run_of ::
  "('spec, 'w) kube \<Rightarrow> ('spec, 'w) workload_kind \<Rightarrow> 'spec workload \<Rightarrow> 'w rs \<Rightarrow> outcome \<Rightarrow> 'w rs \<Rightarrow> bool" where
  "run_of k wk obj s out s' \<longleftrightarrow>
     (\<exists>ns n w. reconcileWorkload k wk ns n s = (out, s') \<and> k_get k ns n (rs_world s) = (Inr obj, w))"

text \<open>Every object that is not being deleted and is observe-only: no write to the queue manager.\<close>

definition observes_only :: "('spec, 'w) workload_kind \<Rightarrow> bool" where
  "observes_only wk \<longleftrightarrow>
     (\<forall>k obj s out s'. run_of k wk obj s out s' \<and> isObserveOnly obj \<and> \<not> om_Deleting (w_meta obj) \<longrightarrow>
        (\<forall>r. MQApply r \<notin> set (effects s s') \<and> MQRemove r \<notin> set (effects s s')))"

text \<open>A write to the queue manager is preceded, in the same run, by a read through the same client
  which showed that it is needed and, under the two cautious adoption policies, that the object
  was absent.\<close>

definition writes_only_drift ::
  "('spec, 'w) workload_kind \<Rightarrow> ('w Admin \<Rightarrow> 'spec workload \<Rightarrow> 'w \<Rightarrow> bool) \<Rightarrow>
     ('w Admin \<Rightarrow> 'spec workload \<Rightarrow> 'w \<Rightarrow> bool) \<Rightarrow> bool" where
  "writes_only_drift wk absent in_sync \<longleftrightarrow>
     (\<forall>k obj s out s' r. run_of k wk obj s out s' \<and> \<not> om_Deleting (w_meta obj) \<and>
          MQApply r \<in> set (effects s s') \<longrightarrow>
        (\<exists>adm s1. adds quiet s s1 \<and> reconcileWithAdmin k wk obj adm s1 = (out, s') \<and>
           \<not> in_sync adm obj (rs_world s1) \<and>
           (workloadFirstAdoption obj \<and>
              workloadAdoptionPolicy obj \<in> {AdoptionPolicyFailIfExists, AdoptionPolicyAdoptIfMatching} \<longrightarrow>
              absent adm obj (rs_world s1))))"

text \<open>A status that reports Synced=True is written only after a successful apply, or a read that
  needed no update, in the same run.\<close>

definition synced_truthful ::
  "('spec, 'w) workload_kind \<Rightarrow> ('w Admin \<Rightarrow> 'spec workload \<Rightarrow> 'w \<Rightarrow> bool) \<Rightarrow> bool" where
  "synced_truthful wk in_sync \<longleftrightarrow>
     (\<forall>k obj s out s' st b. run_of k wk obj s out s' \<and> k8s_lib_laws (k_lib k) \<and> \<not> om_Deleting (w_meta obj) \<and>
          StatusWrite st b \<in> set (effects s s') \<and> reportsSynced st \<longrightarrow>
        (\<exists>adm s1. adds reporting s s1 \<and> reconcileWithAdmin k wk obj adm s1 = (out, s') \<and>
           (MQApply None \<in> set (effects s s') \<or> in_sync adm obj (rs_world s1))))"

context workload_contract
begin

lemma kind_observes_only: "observes_only wk"
  unfolding observes_only_def run_of_def
proof (intro allI impI, elim conjE exE)
  fix k :: "('spec, 'w) kube" and obj s out s' r ns n w
  assume "reconcileWorkload k wk ns n s = (out, s')" "k_get k ns n (rs_world s) = (Inr obj, w)"
    "isObserveOnly obj" "\<not> om_Deleting (w_meta obj)"
  from observe_only_keepsMQ [OF this] have a: "adds keepsMQ s s'" .
  show "MQApply r \<notin> set (effects s s') \<and> MQRemove r \<notin> set (effects s s')"
    using adds_not [OF a, of "MQApply r"] adds_not [OF a, of "MQRemove r"] by simp
qed

lemma kind_writes_only_drift: "writes_only_drift wk absent in_sync"
  unfolding writes_only_drift_def run_of_def using apply_only_if_out_of_sync by blast

lemma kind_synced_truthful: "synced_truthful wk in_sync"
  unfolding synced_truthful_def run_of_def using synced_only_if_applied_or_in_sync by blast

end

lemma demo_run_of:
  "run_of demo_kube queue_kind (d_obj (rs_world s)) s (fst (demo_run s)) (snd (demo_run s))"
  unfolding run_of_def demo_run_def QueueReconciler_reconcile_def
  by (intro exI [of _ "''ns''"] exI [of _ "''q''"] exI [of _ "rs_world s"]) (simp add: demo_kube_def)

section \<open>Writes to the queue manager\<close>

text \<open>C1: A workload with the observe-only drift policy never changes the queue manager. For
  all five kinds, whatever the API server, the factory and the queue manager answer, a reconcile of
  an observe-only object that is not being deleted neither applies nor removes anything.\<close>

theorem observe_only_never_writes:
  "observes_only queue_kind \<and> observes_only topic_kind \<and> observes_only channel_kind \<and>
   observes_only channelauthrule_kind \<and> observes_only authorityrecord_kind"
  by (intro conjI queue.kind_observes_only topic.kind_observes_only channel.kind_observes_only
      rule.kind_observes_only authority.kind_observes_only)

theorem observe_only_never_writes_witness:
  "let s = demo_start (demo_queue [] [(DriftPolicyAnnotation, DriftPolicyObserveOnly)] False [])
             (Some [(''maxdepth'', ''9'')]) False;
       s' = snd (demo_run s) in
   isObserveOnly (d_obj (rs_world s)) \<and> MQApply None \<notin> set (effects s s') \<and> MQRemove None \<notin> set (effects s s') \<and>
   map cn_Reason (st_Conditions (w_Status (d_obj (rs_world s')))) = [ReasonDriftDetected]"
proof -
  let ?s = "demo_start (demo_queue [] [(DriftPolicyAnnotation, DriftPolicyObserveOnly)] False [])
              (Some [(''maxdepth'', ''9'')]) False"
  have o: "isObserveOnly (d_obj (rs_world ?s)) \<and> \<not> om_Deleting (w_meta (d_obj (rs_world ?s)))" by code_simp
  have "observes_only (queue_kind :: (QueueSpecCR, demo) workload_kind)" using observe_only_never_writes by blast
  with demo_run_of [of ?s] o
  have "MQApply None \<notin> set (effects ?s (snd (demo_run ?s))) \<and> MQRemove None \<notin> set (effects ?s (snd (demo_run ?s)))"
    unfolding observes_only_def by blast
  moreover have "map cn_Reason (st_Conditions (w_Status (d_obj (rs_world (snd (demo_run ?s)))))) = [ReasonDriftDetected]"
    by code_simp
  ultimately show ?thesis using o unfolding Let_def by blast
qed





section \<open>Deletion\<close>

lemma statusUpdate_accepted:
  "\<forall>o' w. \<exists>w'. k_statusUpdate k o' w = (Inr o', w') \<Longrightarrow> \<exists>s'. statusUpdate k obj s = (None, obj, s')"
  unfolding statusUpdate_def by (metis (no_types, lifting) old.prod.case old.sum.simps(6))

lemma objectUpdate_accepted:
  "\<forall>o' w. \<exists>w'. k_update k o' w = (Inr o', w') \<Longrightarrow> \<exists>s'. objectUpdate k obj s = (None, obj, s')"
  unfolding objectUpdate_def by (metis (no_types, lifting) old.prod.case old.sum.simps(6))

lemma orphan_completes:
  assumes "reconcileWorkload k wk ns n s = (out, s')" "k_get k ns n (rs_world s) = (Inr obj, w)"
    and "om_Deleting (w_meta obj)" "orphanDeletionRequested obj" "\<not> w_Suspend obj"
    and "k8s_lib_laws (k_lib k)" "wk_Finalizer wk \<in> set (om_Finalizers (w_meta obj))"
    and ok: "\<forall>o' w. \<exists>w'. k_statusUpdate k o' w = (Inr o', w')" "\<forall>o' w. \<exists>w'. k_update k o' w = (Inr o', w')"
  shows "out = (0, None) \<and> (\<exists>fs. ObjectWrite fs True \<in> set (effects s s') \<and> wk_Finalizer wk \<notin> set fs)"
proof -
  let ?s = "s\<lparr>rs_world := w\<rparr>"
  let ?g = "om_Generation (w_meta obj)"
  let ?m = "wk_orphanMessage wk"
  have fin: "ContainsFinalizer (k_lib k) (wk_Finalizer wk) (om_Finalizers (w_meta obj))"
    using assms(6,7) by (simp add: k8s_lib_laws_simps)
  have o: "orphanFinalizeWorkload k obj ?g (wk_Finalizer wk) ?m ?s = (out, s')"
    using assms(1-5) fin by (simp add: reconcileWorkload_def mqRead_def reconcileWorkloadDeletion_def Let_def)
  obtain st s1 where p: "patchSyncedOrphaned k obj ?g ?m ?s = (None, obj\<lparr>w_Status := st\<rparr>, s1)"
    unfolding patchSyncedOrphaned_def patchSyncedStatus_def Let_def using statusUpdate_accepted [OF ok(1)] by blast
  let ?fs = "RemoveFinalizer (k_lib k) (wk_Finalizer wk) (om_Finalizers (w_meta obj))"
  let ?obj = "setFinalizers ?fs (obj\<lparr>w_Status := st\<rparr>)"
  obtain s2 where u: "objectUpdate k ?obj (recordNormalEvent ReasonOrphaned ?m s1) = (None, ?obj, s2)"
    using objectUpdate_accepted [OF ok(2)] by blast
  have r: "out = (0, None)" "s' = s2" using o p u by (simp_all add: orphanFinalizeWorkload_def Let_def)
  have "ObjectWrite ?fs True \<in> set (effects s s')"
  proof (rule effects_mid)
    show "adds quiet s (recordNormalEvent ReasonOrphaned ?m s1)"
      using patch_adds(3) [OF benign_quiet p] by (simp add: recordNormalEvent_def adds_log)
    show "rs_log s2 = ObjectWrite ?fs True # rs_log (recordNormalEvent ReasonOrphaned ?m s1)"
      using objectUpdate_log [OF u] by (simp add: setFinalizers_def)
    show "adds quiet s2 s'" using r by simp
  qed
  moreover have "wk_Finalizer wk \<notin> set ?fs" using assms(6) by (simp add: k8s_lib_laws_simps)
  ultimately show ?thesis using r by blast
qed

text \<open>C4: A finalizer is removed only after clean-up. In a reconcile of an object that is being
  deleted, of any kind, nothing is applied; if the object is written (which is how the finalizer
  is removed) then either the user asked to orphan it, and nothing is removed from the queue manager,
  or the write is the last effect, preceded by the successful removal from the queue manager
  and its event. When orphaning is requested, the outcome does not depend on the connection: with
  the finalizer present and the two API writes accepted, the run ends with the finalizer gone.\<close>

theorem finalizer_removed_after_cleanup:
  assumes "run_of k wk obj s out s'" "om_Deleting (w_meta obj)"
  shows "(\<forall>r. MQApply r \<notin> set (effects s s')) \<and>
    ((\<exists>fs b. ObjectWrite fs b \<in> set (effects s s')) \<longrightarrow>
       (orphanDeletionRequested obj \<and> (\<forall>r. MQRemove r \<notin> set (effects s s'))) \<or>
       (\<exists>fs b rest. effects s s' =
          ObjectWrite fs b # EventNormal ''Deleted'' (wk_removedMessage wk) # MQRemove None # rest \<and>
          list_all quiet rest)) \<and>
    (orphanDeletionRequested obj \<and> \<not> w_Suspend obj \<and> k8s_lib_laws (k_lib k) \<and>
       wk_Finalizer wk \<in> set (om_Finalizers (w_meta obj)) \<and>
       (\<forall>o' w. \<exists>w'. k_statusUpdate k o' w = (Inr o', w')) \<and> (\<forall>o' w. \<exists>w'. k_update k o' w = (Inr o', w')) \<longrightarrow>
       out = (0, None) \<and>
       (\<exists>fs. ObjectWrite fs True \<in> set (effects s s') \<and> wk_Finalizer wk \<notin> set fs))"
proof -
  from assms(1) obtain ns n w where
    run: "reconcileWorkload k wk ns n s = (out, s')" "k_get k ns n (rs_world s) = (Inr obj, w)"
    unfolding run_of_def by blast
  have effects: "(\<forall>r. MQApply r \<notin> set (effects s s')) \<and>
    ((\<exists>fs b. ObjectWrite fs b \<in> set (effects s s')) \<longrightarrow>
       (orphanDeletionRequested obj \<and> (\<forall>r. MQRemove r \<notin> set (effects s s'))) \<or>
       (\<exists>fs b rest. effects s s' =
          ObjectWrite fs b # EventNormal ''Deleted'' (wk_removedMessage wk) # MQRemove None # rest \<and>
          list_all quiet rest))"
    using run assms(2)
  proof (cases rule: deletion_run)
    case waiting
    then show ?thesis using adds_not [OF waiting] by fastforce
  next
    case orphaned
    then show ?thesis using adds_not [OF orphaned(2)] by fastforce
  next
    case (removed fs b rest)
    then show ?thesis by (auto simp: list_all_iff)
  qed
  have "out = (0, None) \<and> (\<exists>fs. ObjectWrite fs True \<in> set (effects s s') \<and> wk_Finalizer wk \<notin> set fs)"
    if "orphanDeletionRequested obj" "\<not> w_Suspend obj" "k8s_lib_laws (k_lib k)"
      "wk_Finalizer wk \<in> set (om_Finalizers (w_meta obj))"
      "\<forall>o' w. \<exists>w'. k_statusUpdate k o' w = (Inr o', w')" "\<forall>o' w. \<exists>w'. k_update k o' w = (Inr o', w')"
    using orphan_completes [OF run assms(2)] that by blast
  with effects show ?thesis by blast
qed

theorem finalizer_removed_after_cleanup_witness:
  "let s = demo_start (demo_queue [] [] True DeletionPolicyOrphan) (Some []) False; s' = snd (demo_run s);
       t = demo_start (demo_queue [] [] True []) (Some []) False; t' = snd (demo_run t) in
   fst (demo_run s) = (0, None) \<and> om_Finalizers (w_meta (d_obj (rs_world s'))) = [] \<and>
   MQRemove None \<notin> set (effects s s') \<and> d_queue (rs_world s') = Some [] \<and>
   (\<exists>fs b rest. effects t t' =
      ObjectWrite fs b # EventNormal ''Deleted'' ''Queue removed from IBM MQ'' # MQRemove None # rest) \<and>
   d_queue (rs_world t') = None"
proof -
  let ?s = "demo_start (demo_queue [] [] True DeletionPolicyOrphan) (Some []) False"
  let ?t = "demo_start (demo_queue [] [] True []) (Some []) False"
  note t = finalizer_removed_after_cleanup [OF demo_run_of [of ?t]]
  have del: "om_Deleting (w_meta (d_obj (rs_world ?s)))" "om_Deleting (w_meta (d_obj (rs_world ?t)))" by code_simp+
  have "case demo_run ?s of (out, s') \<Rightarrow>
      out = (0, None) \<and> om_Finalizers (w_meta (d_obj (rs_world s'))) = [] \<and> d_queue (rs_world s') = Some [] \<and>
      MQRemove None \<notin> set (effects ?s s')" by code_simp
  note sr = this[unfolded case_prod_beta]
  have "case demo_run ?t of (out, t') \<Rightarrow>
      ObjectWrite [] True \<in> set (effects ?t t') \<and> d_queue (rs_world t') = None" by code_simp
  note tr = this[unfolded case_prod_beta]
  have os: "orphanDeletionRequested (d_obj (rs_world ?s))" "\<not> orphanDeletionRequested (d_obj (rs_world ?t))"
    by code_simp+
  have m: "wk_removedMessage queue_kind = ''Queue removed from IBM MQ''" by (simp add: queue_kind_def)
  have t1: "\<exists>fs b rest. effects ?t (snd (demo_run ?t)) =
      ObjectWrite fs b # EventNormal ''Deleted'' ''Queue removed from IBM MQ'' # MQRemove None # rest"
    using t [OF del(2)] tr os(2) unfolding m by blast
  show ?thesis unfolding Let_def using sr tr t1 by (elim conjE) (intro conjI; assumption)
qed

section \<open>Outcomes\<close>

text \<open>A duration that a reconcile may return: one of the two fixed intervals, or one within the
  resync window.\<close>

definition requeue_allowed :: "intervals \<Rightarrow> int \<Rightarrow> bool" where
  "requeue_allowed iv d \<longleftrightarrow>
     d = connectionWaitInterval iv \<or> d = transientRequeueInterval iv \<or>
     driftResyncLower iv \<le> d \<and> d \<le> driftResyncUpper iv"

text \<open>\<open>time.Duration(randFn() * float64(span))\<close> with \<open>randFn\<close> between 0 and 1.\<close>

definition jitter_ok :: "('spec, 'w) kube \<Rightarrow> bool" where
  "jitter_ok k \<longleftrightarrow> (\<forall>span w. 0 < span \<longrightarrow> 0 \<le> fst (k_jitter k span w) \<and> fst (k_jitter k span w) \<le> span)"

definition terminal_reported :: "'w rs \<Rightarrow> 'w rs \<Rightarrow> bool" where
  "terminal_reported s s' \<longleftrightarrow>
     (\<exists>e r m. errors_Is e ErrTerminal \<and> classifyReconcileError e = (r, m) \<and> EventWarning r m \<in> set (effects s s'))"

definition object_written :: "'w rs \<Rightarrow> 'w rs \<Rightarrow> bool" where
  "object_written s s' \<longleftrightarrow> (\<exists>fs. ObjectWrite fs True \<in> set (effects s s'))"

definition settled :: "('spec, 'w) kube \<Rightarrow> 'w rs \<Rightarrow> outcome \<Rightarrow> 'w rs \<Rightarrow> bool" where
  "settled k s out s' \<longleftrightarrow>
     (\<exists>new. rs_log s' = new @ rs_log s) \<and>
     (snd out \<noteq> None \<or> requeue_allowed (k_intervals k) (fst out) \<or>
      fst out = 0 \<and> (object_written s s' \<or> terminal_reported s s'))"

lemma effects_extend:
  "rs_log s1 = new @ rs_log s \<Longrightarrow> rs_log s' = new' @ rs_log s1 \<Longrightarrow> set (effects s1 s') \<subseteq> set (effects s s')"
  by (auto simp: effects_def)

lemma settled_after:
  assumes "adds P s s1" "settled k s1 out s'"
  shows "settled k s out s'"
proof -
  obtain new new' where n: "rs_log s1 = new @ rs_log s" "rs_log s' = new' @ rs_log s1"
    using assms by (auto simp: adds_def settled_def)
  with effects_extend [OF n] assms(2) show ?thesis
    unfolding settled_def object_written_def terminal_reported_def by auto
qed

lemma settled_adds:
  assumes "adds P s s'" "snd out \<noteq> None \<or> requeue_allowed (k_intervals k) (fst out)"
  shows "settled k s out s'"
  using assms by (auto simp: settled_def adds_def)

lemma driftResync_settled:
  assumes "intervals_ok (k_intervals k)" "jitter_ok k" "workloadDriftResyncResult k s = (out, s')"
  shows "settled k s out s'"
proof (rule settled_adds)
  show "adds quiet s s'" using workloadDriftResyncResult_adds [OF assms(3)] .
  let ?l = "driftResyncLower (k_intervals k)" and ?u = "driftResyncUpper (k_intervals k)"
  have "?l \<le> ?u" using assms(1) by (simp add: intervals_ok_def)
  moreover have "?l < ?u \<Longrightarrow> 0 \<le> fst (k_jitter k (?u - ?l) (rs_world s)) \<and> fst (k_jitter k (?u - ?l) (rs_world s)) \<le> ?u - ?l"
    using assms(2) by (simp add: jitter_ok_def)
  ultimately show "snd out \<noteq> None \<or> requeue_allowed (k_intervals k) (fst out)"
    using assms(3)
    by (auto simp: workloadDriftResyncResult_def DriftResyncAfter_def requeue_allowed_def Let_def
        split: if_splits prod.splits)
qed

lemma setSyncedError_settled:
  assumes "setSyncedError k obj g err x s = (out, s')"
  shows "settled k s out s'"
proof (cases "snd out \<noteq> None \<or> errors_Is err ErrTransient")
  case True
  have a: "adds quiet s s'" using setSyncedError_adds [OF assms benign_quiet] .
  have "snd out \<noteq> None \<or> fst out = transientRequeueInterval (k_intervals k)"
    using True assms by (auto simp: setSyncedError_def Let_def split: prod.splits option.splits)
  with a show ?thesis by (intro settled_adds) (auto simp: requeue_allowed_def)
next
  case False
  obtain r m where c: "classifyReconcileError err = (r, m)" by fastforce
  let ?s = "log_effect (EventWarning r m) s"
  obtain e o1 s1 where p: "patchSyncedStatus k obj (notSynced r g m x False) ?s = (e, o1, s1)" by (metis surj_pair)
  have u: "setSyncedError k obj g err x s =
      (case e of Some pe \<Rightarrow> ((0, Some pe), s1)
       | None \<Rightarrow> ((0, if errors_Is err ErrTerminal then None else Some err), s1))"
    using False c p by (simp add: setSyncedError_def recordReconcileWarning_def Let_def split: option.splits)
  with assms False have t: "out = (0, None)" "s' = s1" "errors_Is err ErrTerminal"
    by (auto split: option.splits if_splits)
  have a: "adds quiet ?s s'" using patchSyncedStatus_adds [OF p benign_quiet] t by simp
  then have "EventWarning r m \<in> set (effects s s')"
    by (intro effects_mid [of quiet s s]) (simp_all add: log_effect_def)
  moreover have "\<exists>new. rs_log s' = new @ rs_log s" using a by (auto simp: adds_def log_effect_def)
  ultimately show ?thesis using t c by (auto simp: settled_def terminal_reported_def)
qed

lemma settled_error: "adds P s s' \<Longrightarrow> settled k s (d, Some e) s'"
  by (rule settled_adds) simp_all

lemma handleAdoptionBlock_settled:
  assumes "intervals_ok (k_intervals k)" "jitter_ok k" "handleAdoptionBlock k obj g r m x s = (out, s')"
  shows "settled k s out s'"
proof -
  obtain e o1 s1 where p: "patchSyncedAdoptionBlocked k obj g r m x s = (e, o1, s1)" by (metis surj_pair)
  have a: "adds quiet s s1" using patchSyncedAdoptionBlocked_adds [OF p benign_quiet] .
  show ?thesis
  proof (cases e)
    case None
    with assms(3) p have "workloadDriftResyncResult k s1 = (out, s')" by (simp add: handleAdoptionBlock_def)
    from settled_after [OF a driftResync_settled [OF assms(1,2) this]] show ?thesis .
  next
    case (Some x)
    with assms(3) p a show ?thesis by (auto simp: handleAdoptionBlock_def intro: settled_error)
  qed
qed

lemma wait_settled:
  assumes "waitForConnectionReady k obj conn g s = (Some out, s')"
  shows "settled k s out s'"
proof (rule settled_adds)
  show "adds quiet s s'" using waitForConnectionReady_adds [OF assms benign_quiet] .
  show "snd out \<noteq> None \<or> requeue_allowed (k_intervals k) (fst out)"
    using assms by (auto simp: waitForConnectionReady_def requeue_allowed_def split: if_splits prod.splits option.splits)
qed

lemma deletionAwaitingConnection_settled:
  assumes "deletionAwaitingConnection k obj g e s = (out, s')"
  shows "settled k s out s'"
proof (rule settled_adds)
  show "adds quiet s s'" using deletionAwaitingConnection_adds [OF assms benign_quiet] .
  show "snd out \<noteq> None \<or> requeue_allowed (k_intervals k) (fst out)"
    using assms by (auto simp: deletionAwaitingConnection_def requeue_allowed_def split: prod.splits)
qed

lemma objectUpdate_settled:
  assumes "objectUpdate k obj s = (e, o', s')" "e = None \<longleftrightarrow> snd out = None" "fst out = 0"
  shows "settled k s out s'"
proof -
  note l = objectUpdate_log [OF assms(1)]
  have "ObjectWrite (om_Finalizers (w_meta obj)) (e = None) \<in> set (effects s s')"
    by (rule effects_mid [of quiet s s s' _ quiet]) (simp_all add: l)
  with l assms(2,3) show ?thesis by (cases e) (auto simp: settled_def object_written_def)
qed

lemma patched_settled:
  assumes "intervals_ok (k_intervals k)" "jitter_ok k" "adds P s s1"
    and "(case pe of Some e \<Rightarrow> ((0, Some (WrapError ''update status'' e)), s1)
          | None \<Rightarrow> workloadDriftResyncResult k s1) = (out, s')"
  shows "settled k s out s'"
proof (cases pe)
  case None
  with assms(4) have "workloadDriftResyncResult k s1 = (out, s')" by simp
  from settled_after [OF assms(3) driftResync_settled [OF assms(1,2) this]] show ?thesis .
next
  case (Some e)
  with assms(3,4) show ?thesis by (auto intro: settled_error)
qed

lemma reportEnsured_settled:
  assumes "intervals_ok (k_intervals k)" "jitter_ok k" "reportEnsured k wk obj res s = (out, s')"
  shows "settled k s out s'"
proof -
  obtain x d e where res: "res = (x, d, e)" by (rule prod_cases3)
  show ?thesis
  proof (cases e)
    case (Some err)
    show ?thesis
    proof (cases "\<exists>r m. errors_As is_AdoptionBlockedError err = Some (AdoptionBlockedError r m)")
      case True
      with assms(3) res Some show ?thesis
        by (auto simp: reportEnsured_def Let_def intro: handleAdoptionBlock_settled [OF assms(1,2)])
    next
      case False
      with assms(3) res Some have "setSyncedError k obj (om_Generation (w_meta obj)) err (Some x) s = (out, s')"
        by (auto simp: reportEnsured_def Let_def split: option.splits mq_error.splits)
      then show ?thesis by (rule setSyncedError_settled)
    qed
  next
    case None
    let ?g = "om_Generation (w_meta obj)"
    obtain pe o1 s1 where p: "patchSyncedDrift k obj ?g d (Some x) (log_effect (DriftDetected (wk_controller wk)) s) = (pe, o1, s1)" by (metis surj_pair)
    obtain pe' o2 s2 where q: "patchSyncedAvailable k obj ?g (wk_matchesMessage wk) (Some True) s = (pe', o2, s2)"
      by (metis surj_pair)
    show ?thesis
    proof (cases "d = []")
      case True
      with assms(3) res None q show ?thesis
        by (intro patched_settled [OF assms(1,2) patchSyncedAvailable_adds [OF q], of pe']) (auto simp: reportEnsured_def split: option.splits)
    next
      case False
      with assms(3) res None p show ?thesis
        by (intro patched_settled [OF assms(1,2) countedDrift_adds [OF benign_reporting p], of pe]) (auto simp: reportEnsured_def split: option.splits)
    qed
  qed
qed

lemma reconcileWithAdmin_settled:
  assumes "intervals_ok (k_intervals k)" "jitter_ok k" "reconcileWithAdmin k wk obj admin s = (out, s')"
    and "\<And>a o' s r s'. wk_ensure wk a o' s = (r, s') \<Longrightarrow> \<exists>new. rs_log s' = new @ rs_log s"
  shows "settled k s out s'"
proof (cases "ContainsFinalizer (k_lib k) (wk_Finalizer wk) (om_Finalizers (w_meta obj))")
  case False
  let ?obj = "setFinalizers (AddFinalizer (k_lib k) (wk_Finalizer wk) (om_Finalizers (w_meta obj))) obj"
  obtain e o1 s1 where u: "objectUpdate k ?obj s = (e, o1, s1)" by (metis surj_pair)
  with assms(3) False have "s' = s1" "e = None \<longleftrightarrow> snd out = None" "fst out = 0"
    by (auto simp: reconcileWithAdmin_def Let_def split: option.splits)
  with objectUpdate_settled [OF u, of out] show ?thesis by simp
next
  case True
  note step = assms(3)[unfolded reconcileWithAdmin_def Let_def] True
  show ?thesis
  proof (cases "wk_precheck wk obj")
    case (Some e)
    with step show ?thesis by (auto intro: setSyncedError_settled)
  next
    case None
    show ?thesis
    proof (cases "wk_format wk obj")
      case (Inl e)
      with step None show ?thesis by (auto intro: setSyncedError_settled)
    next
      case (Inr d)
      let ?obj = "obj\<lparr>w_Status := (w_Status obj)\<lparr>st_DesiredMQSC := d\<rparr>\<rparr>"
      obtain r s2 where e: "wk_ensure wk admin ?obj s = (r, s2)" by fastforce
      obtain new where "rs_log s2 = new @ rs_log s" using assms(4) [OF e] by blast
      then have a: "adds (\<lambda>_. True) s s2" by (simp add: adds_def list_all_iff)
      show ?thesis
      proof (cases r)
        case rn: None
        with step None Inr e a show ?thesis by (auto intro: settled_error)
      next
        case (Some res)
        with step None Inr e have "reportEnsured k wk ?obj res s2 = (out, s')" by simp
        from settled_after [OF a reportEnsured_settled [OF assms(1,2) this]] show ?thesis .
      qed
    qed
  qed
qed

lemma handleDeletion_settled:
  assumes "handleDeletion k wk obj admin s = (out, s')"
  shows "settled k s out s'"
proof -
  obtain e obj1 s1 where p:
    "patchSyncedDeleting k obj (om_Generation (w_meta obj)) (wk_deletingMessage wk) s = (e, obj1, s1)"
    by (metis surj_pair)
  have q: "adds (\<lambda>_. True) s s1" using patch_adds(2) [OF benign_quiet p] by (rule adds_mono) simp
  note step = assms[unfolded handleDeletion_def Let_def] p
  show ?thesis
  proof (cases e)
    case (Some x)
    with step q show ?thesis by (auto intro: settled_error)
  next
    case None
    obtain e2 s2 where r: "mqRemove (wk_delete wk admin obj1) s1 = (e2, s2)" by fastforce
    have q2: "adds (\<lambda>_. True) s s2" using adds_one [OF mqRemove_log [OF r]] by (intro adds_trans [OF q]) simp
    show ?thesis
    proof (cases e2)
      case e2: (Some x)
      with step None r have "setSyncedError k obj1 (om_Generation (w_meta obj1)) x None s2 = (out, s')" by simp
      from settled_after [OF q2 setSyncedError_settled [OF this]] show ?thesis .
    next
      case e2: None
      let ?obj = "setFinalizers (RemoveFinalizer (k_lib k) (wk_Finalizer wk) (om_Finalizers (w_meta obj1))) obj1"
      let ?s = "recordNormalEvent ''Deleted'' (wk_removedMessage wk) s2"
      obtain e3 o3 s3 where u: "objectUpdate k ?obj ?s = (e3, o3, s3)" by (metis surj_pair)
      have o: "s' = s3" "e3 = None \<longleftrightarrow> snd out = None" "fst out = 0"
        using step None r e2 u by (auto split: option.splits)
      have "adds (\<lambda>_. True) s ?s" using q2 by (simp add: recordNormalEvent_def adds_log)
      from settled_after [OF this objectUpdate_settled [OF u o(2,3)]] o(1) show ?thesis by simp
    qed
  qed
qed

lemma orphanFinalizeWorkload_settled:
  assumes "orphanFinalizeWorkload k obj g fin m s = (out, s')"
  shows "settled k s out s'"
proof -
  obtain e obj1 s1 where p: "patchSyncedOrphaned k obj g m s = (e, obj1, s1)" by (metis surj_pair)
  have q: "adds quiet s s1" using patch_adds(3) [OF benign_quiet p] .
  note step = assms[unfolded orphanFinalizeWorkload_def Let_def] p
  show ?thesis
  proof (cases e)
    case (Some x)
    with step q show ?thesis by (auto intro: settled_error)
  next
    case None
    let ?s = "recordNormalEvent ReasonOrphaned m s1"
    let ?obj = "setFinalizers (RemoveFinalizer (k_lib k) fin (om_Finalizers (w_meta obj1))) obj1"
    obtain e2 o2 s2 where u: "objectUpdate k ?obj ?s = (e2, o2, s2)" by (metis surj_pair)
    have o: "s' = s2" "e2 = None \<longleftrightarrow> snd out = None" "fst out = 0" using step None u by auto
    have "adds quiet s ?s" using q by (simp add: recordNormalEvent_def adds_log)
    from settled_after [OF this objectUpdate_settled [OF u o(2,3)]] o(1) show ?thesis by simp
  qed
qed

text \<open>The steps before the client is available, for a live and for a deleted object.\<close>

lemma connect_settled:
  assumes "(case resolveConnection k ns n s of
       (Inl err, s) \<Rightarrow> onErr err s
     | (Inr conn, s) \<Rightarrow>
         (case waitForConnectionReady k obj conn g s of
            (Some out, s) \<Rightarrow> (out, s)
          | (None, s) \<Rightarrow>
              (case forConnection k conn s of
                 (Inl err, s) \<Rightarrow> onErr err s
               | (Inr admin, s) \<Rightarrow> go admin s))) = (out, s')"
    and err: "\<And>err s out s'. onErr err s = (out, s') \<Longrightarrow> settled k s out s'"
    and go: "\<And>admin s out s'. go admin s = (out, s') \<Longrightarrow> settled k s out s'"
  shows "settled k s out s'"
  using assms(1) benign_quiet [of "k_lib k"]
proof (cases rule: connect_cases)
  case (failed e s1)
  from settled_after [OF failed(1) err [OF failed(2)]] show ?thesis .
next
  case (waiting conn s1)
  from settled_after [OF waiting(1) wait_settled [OF waiting(2)]] show ?thesis .
next
  case (connected conn adm s1 w0)
  from settled_after [OF connected(1) go [OF connected(3)]] show ?thesis .
qed

lemma settled_world [simp]: "settled k (s\<lparr>rs_world := w\<rparr>) out s' = settled k s out s'"
  by (simp add: settled_def object_written_def terminal_reported_def effects_def)

lemma fetched_settles:
  assumes "reconcileWorkload k wk ns n s = (out, s')" "k_get k ns n (rs_world s) = (Inr obj, w)"
    and "intervals_ok (k_intervals k)" "jitter_ok k"
    and "\<And>a o' s r s'. wk_ensure wk a o' s = (r, s') \<Longrightarrow> \<exists>new. rs_log s' = new @ rs_log s"
  shows "w_Suspend obj \<and> (snd out \<noteq> None \<or> fst out = 0) \<or>
      (om_Deleting (w_meta obj) \<and> out = (0, None) \<and>
         \<not> ContainsFinalizer (k_lib k) (wk_Finalizer wk) (om_Finalizers (w_meta obj))) \<or> settled k s out s'"
proof -
  note step = assms(1)[unfolded reconcileWorkload_def mqRead_def Let_def] assms(2)
  consider (susp) "w_Suspend obj"
    | (gone) "\<not> w_Suspend obj" "om_Deleting (w_meta obj)"
        "\<not> ContainsFinalizer (k_lib k) (wk_Finalizer wk) (om_Finalizers (w_meta obj))"
    | (orphan) "\<not> w_Suspend obj" "om_Deleting (w_meta obj)" "orphanDeletionRequested obj"
        "ContainsFinalizer (k_lib k) (wk_Finalizer wk) (om_Finalizers (w_meta obj))"
    | (delete) "\<not> w_Suspend obj" "om_Deleting (w_meta obj)" "\<not> orphanDeletionRequested obj"
        "ContainsFinalizer (k_lib k) (wk_Finalizer wk) (om_Finalizers (w_meta obj))"
    | (live) "\<not> w_Suspend obj" "\<not> om_Deleting (w_meta obj)" by blast
  then show ?thesis
  proof cases
    case susp
    with step show ?thesis by (auto simp: reconcileWorkloadSuspended_def split: if_splits prod.splits)
  next
    case gone
    with step show ?thesis by (simp add: reconcileWorkloadDeletion_def)
  next
    case orphan
    with step orphanFinalizeWorkload_settled show ?thesis by (fastforce simp: reconcileWorkloadDeletion_def)
  next
    case delete
    note s1 = step[unfolded reconcileWorkloadDeletion_def] delete
    have "settled k (s\<lparr>rs_world := w\<rparr>) out s'"
      by (rule connect_settled [where onErr = "deletionAwaitingConnection k obj (om_Generation (w_meta obj))"
            and go = "handleDeletion k wk obj"])
         (use s1 in \<open>simp_all add: deletionAwaitingConnection_settled handleDeletion_settled\<close>)
    then show ?thesis by simp
  next
    case live
    have "settled k (s\<lparr>rs_world := w\<rparr>) out s'"
      by (rule connect_settled [where onErr = "\<lambda>e s. setSyncedError k obj (om_Generation (w_meta obj)) e None s"
            and go = "reconcileWithAdmin k wk obj"])
         (use step live in \<open>simp_all add: setSyncedError_settled reconcileWithAdmin_settled [OF assms(3,4) _ assms(5)]\<close>)
    then show ?thesis by simp
  qed
qed

lemma reconcileWorkload_settles:
  assumes "reconcileWorkload k wk ns n s = (out, s')"
    and "intervals_ok (k_intervals k)" "jitter_ok k"
    and "\<And>a o' s r s'. wk_ensure wk a o' s = (r, s') \<Longrightarrow> \<exists>new. rs_log s' = new @ rs_log s"
  shows "snd out \<noteq> None \<or> (0 < fst out \<and> requeue_allowed (k_intervals k) (fst out)) \<or>
    fst out = 0 \<and>
      (case fst (k_get k ns n (rs_world s)) of
         Inl e \<Rightarrow> k8s_IsNotFound e
       | Inr obj \<Rightarrow>
           w_Suspend obj \<or>
           (om_Deleting (w_meta obj) \<and>
              \<not> ContainsFinalizer (k_lib k) (wk_Finalizer wk) (om_Finalizers (w_meta obj))) \<or>
           object_written s s' \<or> terminal_reported s s')"
proof -
  obtain r w where g: "k_get k ns n (rs_world s) = (r, w)" by fastforce
  have pos: "requeue_allowed (k_intervals k) d \<Longrightarrow> 0 < d" for d
    using assms(2) by (auto simp: requeue_allowed_def intervals_ok_def)
  show ?thesis
  proof (cases r)
    case (Inl e)
    with assms(1) g show ?thesis by (auto simp: reconcileWorkload_def mqRead_def split: if_splits)
  next
    case (Inr obj)
    have "w_Suspend obj \<and> (snd out \<noteq> None \<or> fst out = 0) \<or>
      (om_Deleting (w_meta obj) \<and> out = (0, None) \<and>
         \<not> ContainsFinalizer (k_lib k) (wk_Finalizer wk) (om_Finalizers (w_meta obj))) \<or> settled k s out s'"
      by (rule fetched_settles [OF assms(1) g [unfolded Inr] assms(2,3)]) (rule assms(4))
    with g Inr pos show ?thesis unfolding settled_def by auto
  qed
qed

definition always_settles :: "('spec, 'w) workload_kind \<Rightarrow> bool" where
  "always_settles wk \<longleftrightarrow>
     (\<forall>k ns n s out s'. reconcileWorkload k wk ns n s = (out, s') \<and> intervals_ok (k_intervals k) \<and> jitter_ok k \<longrightarrow>
        snd out \<noteq> None \<or> (0 < fst out \<and> requeue_allowed (k_intervals k) (fst out)) \<or>
        fst out = 0 \<and>
          (case fst (k_get k ns n (rs_world s)) of
             Inl e \<Rightarrow> k8s_IsNotFound e
           | Inr obj \<Rightarrow>
               w_Suspend obj \<or>
               (om_Deleting (w_meta obj) \<and>
                  \<not> ContainsFinalizer (k_lib k) (wk_Finalizer wk) (om_Finalizers (w_meta obj))) \<or>
               object_written s s' \<or> terminal_reported s s'))"

context workload_contract
begin

lemma ensure_extends: "wk_ensure wk a obj s = (r, s') \<Longrightarrow> \<exists>new. rs_log s' = new @ rs_log s"
  using ensure_at_most_one_apply [of a obj s r s'] by (metis append_Cons append_Nil)

lemma kind_settles: "always_settles wk"
  unfolding always_settles_def
  by (intro allI impI, elim conjE) (rule reconcileWorkload_settles [OF _ _ _ ensure_extends])

end



section \<open>Adoption by FailIfExists\<close>

text \<open>C10: FailIfExists cannot tell its own object from a foreign one. Whenever a queue exists on the
  queue manager, the policy is FailIfExists and no status with Synced=True has been stored yet, the
  ensure step reports AlreadyExists and changes nothing.\<close>

theorem FailIfExists_blocks_existing:
  assumes "ad_GetQueue admin spec (rs_world s) = (Inr st, w1)" "ad_QueueDriftKeys admin (qs_Type spec) w1 = (Inr keys, w2)"
    and "workloadAdoptionPolicy q = AdoptionPolicyFailIfExists" "workloadFirstAdoption q"
  shows "ensureQueue admin q spec False s =
    ((True, [], Some (AdoptionBlockedError ReasonAlreadyExists
        (''queue '' @ Quote (qs_Name spec) @ '' already exists on queue manager''))), s\<lparr>rs_world := w2\<rparr>)"
  using assms
  by (simp add: ensureQueue_def mqRead_def observedAttributes_def reconcileMQObjectState_def
      adoptionBlockForExisting_def)

text \<open>The first run creates the queue and its status update is refused with a conflict; the second
  run, on the same object, reports that the queue already exists.\<close>

theorem FailIfExists_blocks_existing_witness:
  "let s = demo_start (demo_queue AdoptionPolicyFailIfExists [] False []) None True;
       s1 = snd (demo_run s); s2 = snd (demo_run s1); q = d_obj (rs_world s1) in
   MQApply None \<in> set (effects s s1) \<and> q = d_obj (rs_world s) \<and>
   fst (ensureQueue demo_admin q (toMQQueueSpec q) False s1) =
     (True, [], Some (AdoptionBlockedError ReasonAlreadyExists (''queue '' @ Quote ''Q1'' @ '' already exists on queue manager''))) \<and>
   map cn_Reason (st_Conditions (w_Status (d_obj (rs_world s2)))) = [ReasonAlreadyExists]"
proof -
  let ?s = "demo_start (demo_queue AdoptionPolicyFailIfExists [] False []) None True"
  let ?s1 = "snd (demo_run ?s)"
  let ?q = "d_obj (rs_world ?s1)"
  have "case demo_run ?s of (out, s1) \<Rightarrow>
      MQApply None \<in> set (effects ?s s1) \<and> d_obj (rs_world s1) = d_obj (rs_world ?s) \<and>
      d_queue (rs_world s1) = Some [(''maxdepth'', ''5'')] \<and>
      (case demo_run s1 of (out2, s2) \<Rightarrow>
         map cn_Reason (st_Conditions (w_Status (d_obj (rs_world s2)))) = [ReasonAlreadyExists])" by code_simp
  note a = this[unfolded case_prod_beta]
  have "workloadAdoptionPolicy (d_obj (rs_world ?s)) = AdoptionPolicyFailIfExists"
    "workloadFirstAdoption (d_obj (rs_world ?s))" "qs_Name (toMQQueueSpec (d_obj (rs_world ?s))) = ''Q1''"
    by code_simp+
  with a have q: "workloadAdoptionPolicy ?q = AdoptionPolicyFailIfExists" "workloadFirstAdoption ?q"
    "qs_Name (toMQQueueSpec ?q) = ''Q1''" by (simp_all only:)
  from a have "d_queue (rs_world ?s1) = Some [(''maxdepth'', ''5'')]" by blast
  then have g: "ad_GetQueue demo_admin (toMQQueueSpec ?q) (rs_world ?s1) =
      (Inr \<lparr>os_Name = ''Q1'', os_Attributes = [(''maxdepth'', ''5'')]\<rparr>, rs_world ?s1)"
    using q(3) by (simp add: demo_admin_def)
  have k: "ad_QueueDriftKeys demo_admin (qs_Type (toMQQueueSpec ?q)) (rs_world ?s1) = (Inr [''maxdepth''], rs_world ?s1)"
    by (simp add: demo_admin_def)
  have "fst (ensureQueue demo_admin ?q (toMQQueueSpec ?q) False ?s1) =
     (True, [], Some (AdoptionBlockedError ReasonAlreadyExists (''queue '' @ Quote ''Q1'' @ '' already exists on queue manager'')))"
    unfolding FailIfExists_blocks_existing [OF g k q(1,2)] q(3) fst_conv ..
  with a show ?thesis unfolding Let_def by (elim conjE) (intro conjI; assumption)
qed

end
