(* ===== verification/QMC_Reconciler.thy ===== *)
theory QMC_Reconciler
  imports Workload_Safety
begin

text \<open>
  \<open>internal/controller/queuemanagerconnection_controller.go\<close>: the reconciler of
  \<open>QueueManagerConnection\<close>. The API server and the factory are the record \<open>qmc_kube\<close> over an
  arbitrary state. A logged status write carries the status before and after it: the controller
  watches its own kind without predicates, so every accepted write that changes the object is an
  update event and enqueues the connection again.
\<close>

section \<open>The reconciler\<close>

record 'w qmc_kube =
  qk_lib :: k8s_lib
  qk_intervals :: intervals
  qk_get :: "string \<Rightarrow> string \<Rightarrow> 'w \<Rightarrow> QueueManagerConnection result \<times> 'w"
  qk_statusUpdate :: "QueueManagerConnection \<Rightarrow> 'w \<Rightarrow> QueueManagerConnection result \<times> 'w"
  qk_update :: "QueueManagerConnection \<Rightarrow> 'w \<Rightarrow> QueueManagerConnection result \<times> 'w"
  qk_forConnection :: "QueueManagerConnection \<Rightarrow> 'w \<Rightarrow> 'w Admin result \<times> 'w"
  qk_releaseConnection :: "QueueManagerConnection \<Rightarrow> 'w \<Rightarrow> mq_error option \<times> 'w"

datatype qmc_effect =
    QEvent string string
  | QWarning string string
  | QStatusWrite "Condition list" "Condition list" bool
  | QObjectWrite "string list" bool
  | QRelease "mq_error option"
  | QPing "mq_error option"

record 'w qs =
  qs_world :: 'w
  qs_log :: "qmc_effect list"

definition qlog :: "qmc_effect \<Rightarrow> 'w qs \<Rightarrow> 'w qs" where
  "qlog e s = s\<lparr>qs_log := e # qs_log s\<rparr>"

text \<open>\<open>old\<close> is the list of conditions the object had when it was read or last written.\<close>

definition qmcStatusUpdate ::
  "'w qmc_kube \<Rightarrow> Condition list \<Rightarrow> QueueManagerConnection \<Rightarrow> 'w qs \<Rightarrow>
     mq_error option \<times> QueueManagerConnection \<times> 'w qs" where
  "qmcStatusUpdate k old conn s =
     (case qk_statusUpdate k conn (qs_world s) of
        (Inl e, w) \<Rightarrow> (Some e, conn, qlog (QStatusWrite old (qm_Conditions conn) False) (s\<lparr>qs_world := w\<rparr>))
      | (Inr conn', w) \<Rightarrow> (None, conn', qlog (QStatusWrite old (qm_Conditions conn) True) (s\<lparr>qs_world := w\<rparr>)))"

definition qmcObjectUpdate ::
  "'w qmc_kube \<Rightarrow> QueueManagerConnection \<Rightarrow> 'w qs \<Rightarrow> mq_error option \<times> 'w qs" where
  "qmcObjectUpdate k conn s =
     (case qk_update k conn (qs_world s) of
        (Inl e, w) \<Rightarrow> (Some e, qlog (QObjectWrite (om_Finalizers (c_meta conn)) False) (s\<lparr>qs_world := w\<rparr>))
      | (Inr conn', w) \<Rightarrow> (None, qlog (QObjectWrite (om_Finalizers (c_meta conn)) True) (s\<lparr>qs_world := w\<rparr>)))"

definition setReady ::
  "k8s_lib \<Rightarrow> string \<Rightarrow> string \<Rightarrow> string \<Rightarrow> int \<Rightarrow> QueueManagerConnection \<Rightarrow> QueueManagerConnection" where
  "setReady lib status reason message gen conn =
     conn\<lparr>qm_Conditions := setCondition lib ConditionReady status reason message gen (qm_Conditions conn)\<rparr>"

definition qmcAlreadyReady :: "QueueManagerConnection \<Rightarrow> int \<Rightarrow> bool" where
  "qmcAlreadyReady conn gen \<longleftrightarrow> conditionsReady (qm_Conditions conn) \<and> qm_ObservedGeneration conn = gen"

definition qmcWarning :: "mq_error \<Rightarrow> 'w qs \<Rightarrow> 'w qs" where
  "qmcWarning err s =
     (if errors_Is err ErrTransient then s
      else (let (reason, message) = classifyReconcileError err in qlog (QWarning reason message) s))"

definition qmc_fail ::
  "'w qmc_kube \<Rightarrow> QueueManagerConnection \<Rightarrow> int \<Rightarrow> mq_error \<Rightarrow> 'w qs \<Rightarrow> outcome \<times> 'w qs" where
  "qmc_fail k conn gen err s =
     (if conditionsReady (qm_Conditions conn) \<and> qm_ObservedGeneration conn = gen \<and> errors_Is err ErrTransient
      then ((transientRequeueInterval (qk_intervals k), None), s)
      else
        (let s = qmcWarning err s;
             requeue = (if errors_Is err ErrTransient then transientRequeueInterval (qk_intervals k) else 0);
             conn' = setReady (qk_lib k) ConditionFalse ReasonError (Error err) gen conn
         in case qmcStatusUpdate k (qm_Conditions conn) conn' s of
              (Some e, _, s) \<Rightarrow> ((requeue, Some (WrapError ''update status'' e)), s)
            | (None, _, s) \<Rightarrow>
                if errors_Is err ErrTransient then ((requeue, None), s)
                else ((terminalRetryInterval (qk_intervals k), None), s)))"

text \<open>The connectivity test and what follows it.\<close>

definition qmcConnect ::
  "'w qmc_kube \<Rightarrow> QueueManagerConnection \<Rightarrow> int \<Rightarrow> bool \<Rightarrow> 'w qs \<Rightarrow> outcome \<times> 'w qs" where
  "qmcConnect k conn gen alreadyReady s =
     (let readyMsg = ''mqweb connection is healthy'' in
      case qk_forConnection k conn (qs_world s) of
        (Inl err, w) \<Rightarrow> qmc_fail k conn gen err (s\<lparr>qs_world := w\<rparr>)
      | (Inr admin, w) \<Rightarrow>
          (case ad_Ping admin w of
             (Some err, w) \<Rightarrow> qmc_fail k conn gen err (qlog (QPing (Some err)) (s\<lparr>qs_world := w\<rparr>))
           | (None, w) \<Rightarrow>
               (let s = qlog (QPing None) (s\<lparr>qs_world := w\<rparr>) in
                if alreadyReady then ((0, None), s)
                else
                  (let s = (if conditionChanged (qm_Conditions conn) ConditionReady ConditionTrue ReasonAvailable
                            then qlog (QEvent ReasonAvailable readyMsg) s else s);
                       conn' = (setReady (qk_lib k) ConditionTrue ReasonAvailable readyMsg gen conn)
                                 \<lparr>qm_ObservedGeneration := gen\<rparr>
                   in case qmcStatusUpdate k (qm_Conditions conn) conn' s of
                        (Some e, _, s) \<Rightarrow> ((0, Some (WrapError ''update status'' e)), s)
                      | (None, _, s) \<Rightarrow> ((0, None), s)))))"

definition qmcSetFinalizers :: "string list \<Rightarrow> QueueManagerConnection \<Rightarrow> QueueManagerConnection" where
  "qmcSetFinalizers fs conn = conn\<lparr>c_meta := (c_meta conn)\<lparr>om_Finalizers := fs\<rparr>\<rparr>"

definition QueueManagerConnectionReconciler_reconcile ::
  "'w qmc_kube \<Rightarrow> string \<Rightarrow> string \<Rightarrow> 'w qs \<Rightarrow> outcome \<times> 'w qs" where
  "QueueManagerConnectionReconciler_reconcile k namespace name s =
     (case qk_get k namespace name (qs_world s) of
        (Inl err, w) \<Rightarrow>
          if k8s_IsNotFound err then ((0, None), s\<lparr>qs_world := w\<rparr>)
          else ((0, Some (WrapError ''get QueueManagerConnection'' err)), s\<lparr>qs_world := w\<rparr>)
      | (Inr conn, w) \<Rightarrow>
          (let s = s\<lparr>qs_world := w\<rparr>; lib = qk_lib k; fs = om_Finalizers (c_meta conn);
               hasFinalizer = ContainsFinalizer lib QueueManagerConnectionFinalizer fs in
           if om_Deleting (c_meta conn) then
             (if hasFinalizer then
                (case qk_releaseConnection k conn (qs_world s) of
                   (Some e, w) \<Rightarrow>
                     ((0, Some (WrapError ''release mq client'' e)), qlog (QRelease (Some e)) (s\<lparr>qs_world := w\<rparr>))
                 | (None, w) \<Rightarrow>
                     (case qmcObjectUpdate k
                             (qmcSetFinalizers (RemoveFinalizer lib QueueManagerConnectionFinalizer fs) conn)
                             (qlog (QRelease None) (s\<lparr>qs_world := w\<rparr>)) of
                        (Some e, s) \<Rightarrow> ((0, Some (WrapError ''remove finalizer'' e)), s)
                      | (None, s) \<Rightarrow> ((0, None), s)))
              else ((0, None), s))
           else if \<not> hasFinalizer then
             (case qmcObjectUpdate k
                     (qmcSetFinalizers (AddFinalizer lib QueueManagerConnectionFinalizer fs) conn) s of
                (Some e, s) \<Rightarrow> ((0, Some (WrapError ''add finalizer'' e)), s)
              | (None, s) \<Rightarrow> ((0, None), s))
           else
             (let gen = om_Generation (c_meta conn); alreadyReady = qmcAlreadyReady conn gen in
              if alreadyReady then qmcConnect k conn gen True s
              else
                (case qmcStatusUpdate k (qm_Conditions conn)
                        (setReady lib ConditionFalse ReasonProgressing ''Testing mqweb connectivity'' gen conn) s of
                   (Some e, _, s) \<Rightarrow> ((0, Some (WrapError ''update status progressing'' e)), s)
                 | (None, conn, s) \<Rightarrow> qmcConnect k conn gen False s))))"

section \<open>Effects of a run\<close>

definition reportsReady :: "Condition list \<Rightarrow> bool" where
  "reportsReady cs \<longleftrightarrow>
     (case findCondition cs ConditionReady of Some c \<Rightarrow> cn_Status c = ConditionTrue | None \<Rightarrow> False)"

definition readyReason :: "Condition list \<Rightarrow> string" where
  "readyReason cs = (case findCondition cs ConditionReady of Some c \<Rightarrow> cn_Reason c | None \<Rightarrow> [])"

lemma setReady_find:
  assumes "k8s_lib_laws lib"
  shows "findCondition (qm_Conditions (setReady lib st r m g conn)) ConditionReady =
     Some \<lparr>cn_Type = ConditionReady, cn_Status = st, cn_Reason = r, cn_Message = m, cn_ObservedGeneration = g\<rparr>"
  using k8s_lib_laws_simps(1) [OF assms, of "\<lparr>cn_Type = ConditionReady, cn_Status = st, cn_Reason = r,
      cn_Message = m, cn_ObservedGeneration = g\<rparr>" "qm_Conditions conn"]
  by (simp add: setReady_def setCondition_def)

lemma setReady_reports [simp]:
  "k8s_lib_laws lib \<Longrightarrow> reportsReady (qm_Conditions (setReady lib st r m g conn)) \<longleftrightarrow> st = ConditionTrue"
  "k8s_lib_laws lib \<Longrightarrow> readyReason (qm_Conditions (setReady lib st r m g conn)) = r"
  by (simp_all add: reportsReady_def readyReason_def setReady_find)

lemma conditionsReady_reports: "distinct (map cn_Type cs) \<Longrightarrow> conditionsReady cs \<longleftrightarrow> reportsReady cs"
  unfolding conditionsReady_def reportsReady_def by (simp add: findCondition_unique split: option.splits)

lemma qmcStatusUpdate_log:
  "qmcStatusUpdate k old conn s = (e, conn', s') \<Longrightarrow>
     qs_log s' = QStatusWrite old (qm_Conditions conn) (e = None) # qs_log s"
  by (auto simp: qmcStatusUpdate_def qlog_def split: prod.splits sum.splits)

lemma qmcObjectUpdate_log:
  "qmcObjectUpdate k conn s = (e, s') \<Longrightarrow>
     qs_log s' = QObjectWrite (om_Finalizers (c_meta conn)) (e = None) # qs_log s"
  by (auto simp: qmcObjectUpdate_def qlog_def split: prod.splits sum.splits)

lemma qmcWarning_log:
  "\<exists>ws. qs_log (qmcWarning err s) = ws @ qs_log s \<and> (ws = [] \<or> (\<exists>r m. ws = [QWarning r m]))"
proof (cases "errors_Is err ErrTransient")
  case False
  obtain r m where "classifyReconcileError err = (r, m)" by fastforce
  with False show ?thesis by (intro exI [of _ "[QWarning r m]"]) (simp add: qmcWarning_def qlog_def)
qed (simp add: qmcWarning_def)

text \<open>What \<open>fail\<close> does: nothing but requeue for a transient error on a ready connection; else an
  Error status and, once it is stored, the interval of the error's class.\<close>

definition retryInterval :: "intervals \<Rightarrow> mq_error \<Rightarrow> int" where
  "retryInterval iv err = (if errors_Is err ErrTransient then transientRequeueInterval iv else terminalRetryInterval iv)"

lemma qmc_fail_log:
  assumes "qmc_fail k conn gen err s = (out, s')"
  obtains (keep) "qmcAlreadyReady conn gen" "errors_Is err ErrTransient" "s' = s"
      "out = (transientRequeueInterval (qk_intervals k), None)"
  | (report) b ws where "\<not> (qmcAlreadyReady conn gen \<and> errors_Is err ErrTransient)"
      "qs_log s' = QStatusWrite (qm_Conditions conn)
         (qm_Conditions (setReady (qk_lib k) ConditionFalse ReasonError (Error err) gen conn)) b # ws @ qs_log s"
      "ws = [] \<or> (\<exists>r m. ws = [QWarning r m])"
      "if b then out = (retryInterval (qk_intervals k) err, None) else snd out \<noteq> None"
proof (cases "qmcAlreadyReady conn gen \<and> errors_Is err ErrTransient")
  case True
  with assms show ?thesis by (intro keep) (auto simp: qmc_fail_def qmcAlreadyReady_def)
next
  case False
  let ?conn = "setReady (qk_lib k) ConditionFalse ReasonError (Error err) gen conn"
  obtain e c1 s1 where u: "qmcStatusUpdate k (qm_Conditions conn) ?conn (qmcWarning err s) = (e, c1, s1)"
    by (metis surj_pair)
  obtain ws where ws: "qs_log (qmcWarning err s) = ws @ qs_log s" "ws = [] \<or> (\<exists>r m. ws = [QWarning r m])"
    using qmcWarning_log by blast
  have "s' = s1" "if e = None then out = (retryInterval (qk_intervals k) err, None) else snd out \<noteq> None"
    using assms False u
    by (auto simp: qmc_fail_def qmcAlreadyReady_def retryInterval_def Let_def split: option.splits if_splits)
  with qmcStatusUpdate_log [OF u] ws False show ?thesis by (intro report [of "e = None" ws]) simp_all
qed

text \<open>\<open>connect_ok\<close>: the effects of the connectivity test.\<close>

definition connect_ok :: "'w qmc_kube \<Rightarrow> outcome \<Rightarrow> qmc_effect list \<Rightarrow> bool" where
  "connect_ok k out new \<longleftrightarrow>
     (\<forall>old cs b. QStatusWrite old cs b \<in> set new \<and> reportsReady cs \<longrightarrow> QPing None \<in> set new) \<and>
     (\<forall>fs b. QObjectWrite fs b \<notin> set new) \<and>
     (snd out \<noteq> None \<or> (\<exists>err. fst out = retryInterval (qk_intervals k) err) \<or> fst out = 0 \<and> QPing None \<in> set new)"

lemma qmc_fail_ok:
  assumes "k8s_lib_laws (qk_lib k)" "qmc_fail k conn gen err s = (out, s')"
  shows "\<exists>new. qs_log s' = new @ qs_log s \<and> connect_ok k out new"
  using assms(2)
proof (cases rule: qmc_fail_log)
  case keep
  then have "fst out = retryInterval (qk_intervals k) err" by (simp add: retryInterval_def)
  with keep show ?thesis by (intro exI [of _ "[]"]) (auto simp: connect_ok_def)
next
  case (report b ws)
  let ?w = "QStatusWrite (qm_Conditions conn)
         (qm_Conditions (setReady (qk_lib k) ConditionFalse ReasonError (Error err) gen conn)) b"
  from report show ?thesis
    by (intro exI [of _ "?w # ws"]) (auto simp: connect_ok_def assms(1) split: if_splits)
qed

lemma connect_ok_ping: "connect_ok k out new \<Longrightarrow> connect_ok k out (new @ [QPing (Some e)])"
  by (auto simp: connect_ok_def)

text \<open>The four ways through the connectivity test: no client, a failed ping, a ping of a connection
  that is already ready, and a ping whose success is written to the status.\<close>

definition ping_logged :: "mq_error option \<Rightarrow> 'w \<Rightarrow> 'w qs \<Rightarrow> 'w qs" where
  "ping_logged e w s = qlog (QPing e) (s\<lparr>qs_world := w\<rparr>)"

definition readyEvent :: "QueueManagerConnection \<Rightarrow> qmc_effect list" where
  "readyEvent conn =
     (if conditionChanged (qm_Conditions conn) ConditionReady ConditionTrue ReasonAvailable
      then [QEvent ReasonAvailable ''mqweb connection is healthy''] else [])"

definition connReady :: "k8s_lib \<Rightarrow> int \<Rightarrow> QueueManagerConnection \<Rightarrow> QueueManagerConnection" where
  "connReady lib gen conn =
     (setReady lib ConditionTrue ReasonAvailable ''mqweb connection is healthy'' gen conn)\<lparr>qm_ObservedGeneration := gen\<rparr>"

lemma ping_logged_sel [simp]:
  "qs_world (ping_logged e w s) = w" "qs_log (ping_logged e w s) = QPing e # qs_log s"
  by (simp_all add: ping_logged_def qlog_def)

lemma qmcConnect_cases:
  assumes "qmcConnect k conn gen ar s = (out, s')"
  obtains (no_client) err w where "qk_forConnection k conn (qs_world s) = (Inl err, w)"
      "qmc_fail k conn gen err (s\<lparr>qs_world := w\<rparr>) = (out, s')"
  | (no_ping) admin w err w2 where "qk_forConnection k conn (qs_world s) = (Inr admin, w)"
      "ad_Ping admin w = (Some err, w2)" "qmc_fail k conn gen err (ping_logged (Some err) w2 s) = (out, s')"
  | (was_ready) admin w w2 where "qk_forConnection k conn (qs_world s) = (Inr admin, w)"
      "ad_Ping admin w = (None, w2)" "ar" "s' = ping_logged None w2 s" "out = (0, None)"
  | (report) admin w w2 s2 e c1 where "qk_forConnection k conn (qs_world s) = (Inr admin, w)"
      "ad_Ping admin w = (None, w2)" "\<not> ar" "qs_log s2 = readyEvent conn @ QPing None # qs_log s"
      "qmcStatusUpdate k (qm_Conditions conn) (connReady (qk_lib k) gen conn) s2 = (e, c1, s')"
      "snd out \<noteq> None \<or> out = (0, None)"
proof (cases "qk_forConnection k conn (qs_world s)")
  case (Pair r w)
  show thesis
  proof (cases r)
    case (Inl err)
    with assms Pair no_client show thesis by (simp add: qmcConnect_def)
  next
    case (Inr admin)
    obtain pe w2 where pi: "ad_Ping admin w = (pe, w2)" by fastforce
    note step = assms [unfolded qmcConnect_def] Pair Inr pi
    show thesis
    proof (cases pe)
      case (Some err)
      with step no_ping show thesis by (simp add: ping_logged_def)
    next
      case None
      let ?s = "qlog (QPing None) (s\<lparr>qs_world := w2\<rparr>)"
      let ?s2 = "if conditionChanged (qm_Conditions conn) ConditionReady ConditionTrue ReasonAvailable
          then qlog (QEvent ReasonAvailable ''mqweb connection is healthy'') ?s else ?s"
      have s2: "qs_log ?s2 = readyEvent conn @ QPing None # qs_log s" by (simp add: readyEvent_def qlog_def)
      obtain e c1 s1 where u: "qmcStatusUpdate k (qm_Conditions conn) (connReady (qk_lib k) gen conn) ?s2 = (e, c1, s1)"
        by (metis surj_pair)
      show thesis
      proof (cases ar)
        case True
        with step None was_ready show thesis by (simp add: Let_def ping_logged_def)
      next
        case False
        with step None u have "s' = s1" "snd out \<noteq> None \<or> out = (0, None)"
          by (auto simp: Let_def connReady_def split: option.splits)
        with step None False u s2 report [of admin w w2 ?s2 e c1] show thesis by simp
      qed
    qed
  qed
qed

lemma qmcConnect_ok:
  assumes "k8s_lib_laws (qk_lib k)" "qmcConnect k conn gen ar s = (out, s')"
  shows "\<exists>new. qs_log s' = new @ qs_log s \<and> connect_ok k out new"
  using assms(2)
proof (cases rule: qmcConnect_cases)
  case (no_client err w)
  from qmc_fail_ok [OF assms(1) this(2)] show ?thesis by simp
next
  case (no_ping admin w err w2)
  from qmc_fail_ok [OF assms(1) this(3)] obtain new where
    "qs_log s' = new @ QPing (Some err) # qs_log s" "connect_ok k out new" by auto
  then show ?thesis by (intro exI [of _ "new @ [QPing (Some err)]"]) (simp add: connect_ok_ping)
next
  case (was_ready admin w w2)
  then show ?thesis by (intro exI [of _ "[QPing None]"]) (simp add: connect_ok_def)
next
  case (report admin w w2 s2 e c1)
  let ?new = "QStatusWrite (qm_Conditions conn) (qm_Conditions (connReady (qk_lib k) gen conn)) (e = None) #
      readyEvent conn @ [QPing None]"
  have "qs_log s' = ?new @ qs_log s" using qmcStatusUpdate_log [OF report(5)] report(4) by simp
  moreover have "connect_ok k out ?new" using report(6) by (auto simp: connect_ok_def readyEvent_def)
  ultimately show ?thesis by blast
qed

section \<open>A concrete connection\<close>

text \<open>The state is the stored connection; the factory fails with a missing secret, or gives a client whose
  ping succeeds.\<close>

definition demo_conn :: "Condition list \<Rightarrow> QueueManagerConnection" where
  "demo_conn cs =
     \<lparr>c_meta = \<lparr>om_Namespace = ''ns'', om_Name = ''qm1'', om_UID = ''u1'', om_Generation = 1,
                om_ResourceVersion = ''1'', om_Deleting = False,
                om_Finalizers = [QueueManagerConnectionFinalizer], om_Annotations = []\<rparr>,
      qm_QueueManager = ''QM1'', qm_Endpoint = ''https://mq:9443'', qm_RESTPrefix = [], qm_TLS = None,
      qm_CredentialsSecretRef = Some ''creds'', qm_Authentication = None, qm_Conditions = cs,
      qm_ObservedGeneration = 0\<rparr>"

definition ping_admin :: "'w Admin" where
  "ping_admin =
     \<lparr>ad_Ping = (\<lambda>w. (None, w)),
      ad_GetQueue = (\<lambda>spec w. (Inl (NotFoundError (qs_Name spec)), w)),
      ad_DefineQueue = (\<lambda>spec w. (None, w)), ad_DeleteQueue = (\<lambda>spec w. (None, w)),
      ad_QueueDriftKeys = (\<lambda>ty w. (Inr [], w)),
      ad_GetTopic = (\<lambda>n w. (Inl (NotFoundError n), w)),
      ad_DefineTopic = (\<lambda>spec w. (None, w)), ad_DeleteTopic = (\<lambda>n w. (None, w)),
      ad_GetChannel = (\<lambda>spec w. (Inl (NotFoundError (chs_Name spec)), w)),
      ad_DefineChannel = (\<lambda>spec w. (None, w)), ad_DeleteChannel = (\<lambda>spec w. (None, w)),
      ad_GetChannelAuth = (\<lambda>spec w. (Inl (NotFoundError (ca_ChannelName spec)), w)),
      ad_SetChannelAuth = (\<lambda>spec w. (None, w)), ad_DeleteChannelAuth = (\<lambda>spec w. (None, w)),
      ad_GetAuthority = (\<lambda>spec w. (Inl (NotFoundError (au_Profile spec)), w)),
      ad_SetAuthority = (\<lambda>spec w. (None, w)), ad_DeleteAuthority = (\<lambda>spec w. (None, w))\<rparr>"

definition demo_qmc_kube :: "bool \<Rightarrow> QueueManagerConnection qmc_kube" where
  "demo_qmc_kube works =
     \<lparr>qk_lib = example_lib, qk_intervals = defaultIntervals,
      qk_get = (\<lambda>ns n w. (Inr w, w)),
      qk_statusUpdate = (\<lambda>conn w. (Inr conn, conn)),
      qk_update = (\<lambda>conn w. (Inr conn, conn)),
      qk_forConnection = (\<lambda>conn w.
        (if works then Inr ping_admin
         else Inl (SecretNotFoundError ''creds'' ''credentials'' (Some (K8sError K8sNotFound ''not found''))), w)),
      qk_releaseConnection = (\<lambda>conn w. (None, w))\<rparr>"

definition demo_qmc_run :: "bool \<Rightarrow> QueueManagerConnection qs \<Rightarrow> outcome \<times> QueueManagerConnection qs" where
  "demo_qmc_run works = QueueManagerConnectionReconciler_reconcile (demo_qmc_kube works) ''ns'' ''qm1''"

definition demo_qmc_start :: "QueueManagerConnection qs" where
  "demo_qmc_start = \<lparr>qs_world = demo_conn [], qs_log = []\<rparr>"

lemma demo_qmc_laws:
  "k8s_lib_laws (qk_lib (demo_qmc_kube b))" "intervals_ok (qk_intervals (demo_qmc_kube b))"
  "qk_get (demo_qmc_kube b) ns n w = (Inr w, w)"
  by (simp_all add: demo_qmc_kube_def example_lib_laws intervals_ok_default)

section \<open>Readiness\<close>

lemma connect_ok_progressing:
  "k8s_lib_laws lib \<Longrightarrow> connect_ok k out new \<Longrightarrow>
     connect_ok k out (new @ [QStatusWrite old (qm_Conditions (setReady lib ConditionFalse r m g conn)) b])"
  unfolding connect_ok_def by (intro conjI) (fastforce+)

lemma qmc_run:
  assumes "k8s_lib_laws (qk_lib k)" "QueueManagerConnectionReconciler_reconcile k ns n s = (out, s')"
    and "qk_get k ns n (qs_world s) = (Inr conn, w)" "\<not> om_Deleting (c_meta conn)"
    and "QueueManagerConnectionFinalizer \<in> set (om_Finalizers (c_meta conn))"
  shows "\<exists>new. qs_log s' = new @ qs_log s \<and> connect_ok k out new"
proof -
  let ?g = "om_Generation (c_meta conn)"
  let ?s = "s\<lparr>qs_world := w\<rparr>"
  have fin: "ContainsFinalizer (qk_lib k) QueueManagerConnectionFinalizer (om_Finalizers (c_meta conn))"
    using assms(1,5) by (simp add: k8s_lib_laws_simps)
  note step = assms(2)[unfolded QueueManagerConnectionReconciler_reconcile_def] assms(3,4) fin
  show ?thesis
  proof (cases "qmcAlreadyReady conn ?g")
    case True
    with step have "qmcConnect k conn ?g True ?s = (out, s')" by (simp add: Let_def)
    from qmcConnect_ok [OF assms(1) this] show ?thesis by simp
  next
    case False
    let ?c = "setReady (qk_lib k) ConditionFalse ReasonProgressing ''Testing mqweb connectivity'' ?g conn"
    let ?w = "\<lambda>b. QStatusWrite (qm_Conditions conn) (qm_Conditions ?c) b"
    obtain e c1 s1 where u: "qmcStatusUpdate k (qm_Conditions conn) ?c ?s = (e, c1, s1)" by (metis surj_pair)
    have l: "qs_log s1 = ?w (e = None) # qs_log s" using qmcStatusUpdate_log [OF u] by simp
    show ?thesis
    proof (cases e)
      case (Some x)
      with step False u have "s' = s1" "snd out \<noteq> None" by (auto simp: Let_def)
      with l assms(1) show ?thesis by (intro exI [of _ "[?w (e = None)]"]) (simp add: connect_ok_def)
    next
      case None
      with step False u have "qmcConnect k c1 ?g False s1 = (out, s')" by (simp add: Let_def)
      from qmcConnect_ok [OF assms(1) this] obtain new where n: "qs_log s' = new @ qs_log s1" "connect_ok k out new"
        by blast
      from n l connect_ok_progressing [OF assms(1) n(2)] show ?thesis
        by (intro exI [of _ "new @ [?w (e = None)]"]) simp
    qed
  qed
qed



section \<open>Reconciling a failing connection triggers the next reconcile\<close>

definition connect_fails :: "'w qmc_kube \<Rightarrow> QueueManagerConnection \<Rightarrow> bool" where
  "connect_fails k conn \<longleftrightarrow> (\<forall>w. \<exists>err w'. qk_forConnection k conn w = (Inl err, w'))"

definition status_accepted :: "'w qmc_kube \<Rightarrow> bool" where
  "status_accepted k \<longleftrightarrow>
     (\<forall>conn w. \<exists>w'. qk_statusUpdate k conn w = (Inr conn, w'))"



end
