(* ===== verification/Lifecycle.thy ===== *)
theory Lifecycle
  imports End_To_End Workload_Properties QMC_Reconciler
begin

text \<open>
  The life of one workload object under its reconciler: whole reconcile runs
  (\<open>internal/controller\<close>) over an API server that stores what is written, a ready connection and the
  mqweb client. The locale \<open>managed_object\<close> states what a run relies on: the API server
  (\<open>api_serves\<close>), the connection and the factory (\<open>connected\<close>), and the ensure and delete steps of the
  kind. Its lemmas follow the object from its creation to its deletion; the theorem at the end
  instantiates them for topics, channels and queues over the client of \<open>End_To_End\<close>.
\<close>

section \<open>The API server and the connection\<close>

definition with_rv :: "string \<Rightarrow> 'spec workload \<Rightarrow> 'spec workload" where
  "with_rv rv obj = obj\<lparr>w_meta := (w_meta obj)\<lparr>om_ResourceVersion := rv\<rparr>\<rparr>"

text \<open>
  \<open>view w\<close> is the object as the API server holds it and \<open>mq w\<close> the part of the world that belongs to
  the client and the queue manager. A read returns the object; a status write based on the current
  object stores the status, a write of finalizers stores these; both give the object a new version.
  An object that is being deleted disappears with its last finalizer.
\<close>

definition api_serves ::
  "('spec, 'w) kube \<Rightarrow> string \<Rightarrow> string \<Rightarrow> ('w \<Rightarrow> 'spec workload option) \<Rightarrow> ('w \<Rightarrow> 'm) \<Rightarrow> bool" where
  "api_serves k ns n view mq \<longleftrightarrow>
     (\<forall>w obj. view w = Some obj \<longrightarrow>
        (\<exists>w'. k_get k ns n w = (Inr obj, w') \<and> view w' = Some obj \<and> mq w' = mq w) \<and>
        (\<forall>st. \<exists>rv w'. k_statusUpdate k (obj\<lparr>w_Status := st\<rparr>) w = (Inr (with_rv rv (obj\<lparr>w_Status := st\<rparr>)), w') \<and>
           view w' = Some (with_rv rv (obj\<lparr>w_Status := st\<rparr>)) \<and> mq w' = mq w) \<and>
        (\<forall>fs. \<exists>rv w'. k_update k (setFinalizers fs obj) w = (Inr (with_rv rv (setFinalizers fs obj)), w') \<and>
           view w' = (if om_Deleting (w_meta obj) \<and> fs = [] then None
                      else Some (with_rv rv (setFinalizers fs obj))) \<and> mq w' = mq w)) \<and>
     (\<forall>span w j w'. k_jitter k span w = (j, w') \<longrightarrow> view w' = view w \<and> mq w' = mq w)"

text \<open>The connection is ready and has a client in every world whose part \<open>mq\<close> is \<open>good\<close>.\<close>

definition connected ::
  "('m \<Rightarrow> bool) \<Rightarrow> ('spec, 'w) kube \<Rightarrow> string \<Rightarrow> string \<Rightarrow> ('w \<Rightarrow> 'spec workload option) \<Rightarrow> ('w \<Rightarrow> 'm) \<Rightarrow> 'w Admin \<Rightarrow> bool" where
  "connected good k ns ref view mq admin \<longleftrightarrow>
     (\<forall>w. good (mq w) \<longrightarrow>
        (\<exists>conn w'. k_getConn k ns ref w = (Inr conn, w') \<and> conditionsReady (qm_Conditions conn) \<and>
           view w' = view w \<and> mq w' = mq w \<and>
           (\<exists>w''. k_forConnection k conn w' = (Inr admin, w'') \<and> view w'' = view w \<and> mq w'' = mq w)))"

lemma connected_mono:
  "connected good k ns ref view mq admin \<Longrightarrow> (\<And>m. good' m \<Longrightarrow> good m) \<Longrightarrow>
   connected good' k ns ref view mq admin"
  unfolding connected_def by blast

lemma with_rv_sel [simp]:
  "w_Status (with_rv rv obj) = w_Status obj" "w_Suspend (with_rv rv obj) = w_Suspend obj"
  "om_Finalizers (w_meta (with_rv rv obj)) = om_Finalizers (w_meta obj)"
  "om_Deleting (w_meta (with_rv rv obj)) = om_Deleting (w_meta obj)"
  "om_Generation (w_meta (with_rv rv obj)) = om_Generation (w_meta obj)"
  by (simp_all add: with_rv_def)

lemma setFinalizers_sel [simp]:
  "w_Status (setFinalizers fs obj) = w_Status obj" "w_Suspend (setFinalizers fs obj) = w_Suspend obj"
  "om_Finalizers (w_meta (setFinalizers fs obj)) = fs"
  "om_Deleting (w_meta (setFinalizers fs obj)) = om_Deleting (w_meta obj)"
  "om_Generation (w_meta (setFinalizers fs obj)) = om_Generation (w_meta obj)"
  by (simp_all add: setFinalizers_def)

text \<open>The steps of a run, with the log they leave.\<close>

definition is_mq_effect :: "effect \<Rightarrow> bool" where
  "is_mq_effect e = (case e of MQApply _ \<Rightarrow> True | MQRemove _ \<Rightarrow> True | _ \<Rightarrow> False)"

definition mq_effects :: "'w rs \<Rightarrow> effect list" where
  "mq_effects s = filter is_mq_effect (rs_log s)"

lemma mq_effects_log [simp]:
  "is_mq_effect (MQApply r)" "is_mq_effect (MQRemove r)" "\<not> is_mq_effect (StatusWrite st b)"
  "\<not> is_mq_effect (ObjectWrite fs b)" "\<not> is_mq_effect (EventNormal a m)" "\<not> is_mq_effect (EventWarning a m)"
  "mq_effects (log_effect e s) = (if is_mq_effect e then [e] else []) @ mq_effects s"
  "mq_effects (s\<lparr>rs_world := w\<rparr>) = mq_effects s"
  by (auto simp: is_mq_effect_def mq_effects_def log_effect_def)

lemma log_effect_world [simp]: "rs_world (log_effect e s) = rs_world s"
  by (simp add: log_effect_def)

lemma mq_effects_events [simp]:
  "mq_effects (recordNormalEvent a m s) = mq_effects s"
  "mq_effects (emitSyncedTransitionEvent obj st a m s) = mq_effects s"
  "rs_world (recordNormalEvent a m s) = rs_world s"
  "rs_world (emitSyncedTransitionEvent obj st a m s) = rs_world s"
  by (simp_all add: emitSyncedTransitionEvent_def recordNormalEvent_def log_effect_def mq_effects_def is_mq_effect_def)

lemma statusUpdate_served:
  assumes "api_serves k ns n view mq" "view (rs_world s) = Some obj"
  obtains rv s' where "statusUpdate k (obj\<lparr>w_Status := st\<rparr>) s = (None, with_rv rv (obj\<lparr>w_Status := st\<rparr>), s')"
    "view (rs_world s') = Some (with_rv rv (obj\<lparr>w_Status := st\<rparr>))" "mq (rs_world s') = mq (rs_world s)"
    "mq_effects s' = mq_effects s"
proof -
  obtain rv w' where "k_statusUpdate k (obj\<lparr>w_Status := st\<rparr>) (rs_world s) = (Inr (with_rv rv (obj\<lparr>w_Status := st\<rparr>)), w')"
    "view w' = Some (with_rv rv (obj\<lparr>w_Status := st\<rparr>))" "mq w' = mq (rs_world s)"
    using assms unfolding api_serves_def by blast
  then show thesis
    by (intro that [of rv "log_effect (StatusWrite st True) (s\<lparr>rs_world := w'\<rparr>)"])
      (simp_all add: statusUpdate_def)
qed

lemma objectUpdate_served:
  assumes "api_serves k ns n view mq" "view (rs_world s) = Some obj"
  obtains rv s' where "objectUpdate k (setFinalizers fs obj) s = (None, with_rv rv (setFinalizers fs obj), s')"
    "view (rs_world s') = (if om_Deleting (w_meta obj) \<and> fs = [] then None else Some (with_rv rv (setFinalizers fs obj)))"
    "mq (rs_world s') = mq (rs_world s)" "mq_effects s' = mq_effects s"
proof -
  obtain rv w' where "k_update k (setFinalizers fs obj) (rs_world s) = (Inr (with_rv rv (setFinalizers fs obj)), w')"
    "view w' = (if om_Deleting (w_meta obj) \<and> fs = [] then None else Some (with_rv rv (setFinalizers fs obj)))"
    "mq w' = mq (rs_world s)"
    using assms unfolding api_serves_def by blast
  then show thesis
    by (intro that [of rv "log_effect (ObjectWrite fs True) (s\<lparr>rs_world := w'\<rparr>)"])
      (simp_all add: objectUpdate_def)
qed

lemma driftResync_served:
  assumes "api_serves k ns n view mq"
  obtains d s' where "workloadDriftResyncResult k s = ((d, None), s')" "view (rs_world s') = view (rs_world s)"
    "mq (rs_world s') = mq (rs_world s)" "mq_effects s' = mq_effects s"
proof -
  obtain j w where j: "k_jitter k (driftResyncUpper (k_intervals k) - driftResyncLower (k_intervals k)) (rs_world s) = (j, w)"
    by fastforce
  then have "view w = view (rs_world s)" "mq w = mq (rs_world s)" using assms unfolding api_serves_def by blast+
  with j that show thesis
    by (cases "driftResyncUpper (k_intervals k) \<le> driftResyncLower (k_intervals k)")
      (auto simp: workloadDriftResyncResult_def DriftResyncAfter_def Let_def)
qed

text \<open>With the connection ready, a run on a live object reaches the part that works with the client.\<close>

lemma live_reaches_admin:
  assumes api: "api_serves k ns n view mq" and "view (rs_world s) = Some obj"
    and con: "connected good k (om_Namespace (w_meta obj)) (w_ConnectionRef obj) view mq admin"
    and good: "good (mq (rs_world s))" and "\<not> w_Suspend obj" "\<not> om_Deleting (w_meta obj)"
  obtains s' where "reconcileWorkload k wk ns n s = reconcileWithAdmin k wk obj admin s'"
    "view (rs_world s') = Some obj" "mq (rs_world s') = mq (rs_world s)" "mq_effects s' = mq_effects s"
proof -
  obtain w1 where g: "k_get k ns n (rs_world s) = (Inr obj, w1)" "view w1 = Some obj" "mq w1 = mq (rs_world s)"
    using api assms(2) unfolding api_serves_def by blast
  obtain conn w2 w3 where c: "k_getConn k (om_Namespace (w_meta obj)) (w_ConnectionRef obj) w1 = (Inr conn, w2)"
    "conditionsReady (qm_Conditions conn)" "k_forConnection k conn w2 = (Inr admin, w3)"
    "view w3 = view w1" "mq w3 = mq w1"
    using con good [folded g(3)] unfolding connected_def by blast
  have "reconcileWorkload k wk ns n s = reconcileWithAdmin k wk obj admin (s\<lparr>rs_world := w3\<rparr>)"
    using g(1) c(1-3) assms(5,6)
    by (simp add: reconcileWorkload_def mqRead_def resolveConnection_def waitForConnectionReady_def
        forConnection_def Let_def)
  with that g(2,3) c(4,5) show thesis by simp
qed

lemma deletion_reaches_admin:
  assumes api: "api_serves k ns n view mq" and "view (rs_world s) = Some obj"
    and con: "connected good k (om_Namespace (w_meta obj)) (w_ConnectionRef obj) view mq admin"
    and good: "good (mq (rs_world s))" and "\<not> w_Suspend obj" "om_Deleting (w_meta obj)" "\<not> orphanDeletionRequested obj"
    and "ContainsFinalizer (k_lib k) (wk_Finalizer wk) (om_Finalizers (w_meta obj))"
  obtains s' where "reconcileWorkload k wk ns n s = handleDeletion k wk obj admin s'"
    "view (rs_world s') = Some obj" "mq (rs_world s') = mq (rs_world s)" "mq_effects s' = mq_effects s"
proof -
  obtain w1 where g: "k_get k ns n (rs_world s) = (Inr obj, w1)" "view w1 = Some obj" "mq w1 = mq (rs_world s)"
    using api assms(2) unfolding api_serves_def by blast
  obtain conn w2 w3 where c: "k_getConn k (om_Namespace (w_meta obj)) (w_ConnectionRef obj) w1 = (Inr conn, w2)"
    "conditionsReady (qm_Conditions conn)" "k_forConnection k conn w2 = (Inr admin, w3)"
    "view w3 = view w1" "mq w3 = mq w1"
    using con good [folded g(3)] unfolding connected_def by blast
  have "reconcileWorkload k wk ns n s = handleDeletion k wk obj admin (s\<lparr>rs_world := w3\<rparr>)"
    using g(1) c(1-3) assms(5-8)
    by (simp add: reconcileWorkload_def reconcileWorkloadDeletion_def mqRead_def resolveConnection_def
        waitForConnectionReady_def forConnection_def Let_def)
  with that g(2,3) c(4,5) show thesis by simp
qed

section \<open>The life of an object\<close>

text \<open>
  \<open>mine\<close> says which versions of the object are meant: it may not depend on status, finalizers or
  version. On a state of the queue manager, \<open>ok\<close> says that the client works, \<open>synced\<close> that the object is
  as desired and \<open>gone\<close> that it does not exist.
\<close>

locale managed_object =
  fixes k :: "('spec, 'w) kube" and wk :: "('spec, 'w) workload_kind" and ns n :: string
    and view :: "'w \<Rightarrow> 'spec workload option" and mq :: "'w \<Rightarrow> 'm" and admin :: "'w Admin"
    and mine :: "'spec workload \<Rightarrow> bool" and ok synced gone :: "'m \<Rightarrow> bool"
  assumes lib: "k8s_lib_laws (k_lib k)"
    and api: "api_serves k ns n view mq"
    and conn: "mine obj \<Longrightarrow> connected ok k (om_Namespace (w_meta obj)) (w_ConnectionRef obj) view mq admin"
    and mine_status: "mine obj \<Longrightarrow> mine (obj\<lparr>w_Status := st\<rparr>)"
    and mine_finalizers: "mine obj \<Longrightarrow> mine (setFinalizers fs obj)"
    and mine_rv: "mine obj \<Longrightarrow> mine (with_rv rv obj)"
    and not_suspended: "mine obj \<Longrightarrow> \<not> w_Suspend obj"
    and valid: "mine obj \<Longrightarrow> wk_precheck wk obj = None \<and> (\<exists>m. wk_format wk obj = Inr m)"
    and ensure: "mine obj \<Longrightarrow> ok (mq (rs_world s)) \<Longrightarrow>
      \<exists>s'. wk_ensure wk admin obj s = (Some (True, [], None), s') \<and> view (rs_world s') = view (rs_world s) \<and>
         ok (mq (rs_world s')) \<and> synced (mq (rs_world s')) \<and>
         rs_log s' = (if synced (mq (rs_world s)) then [] else [MQApply None]) @ rs_log s"
    and delete: "mine obj \<Longrightarrow> ok (mq w) \<Longrightarrow>
      \<exists>w'. wk_delete wk admin obj w = (None, w') \<and> view w' = view w \<and> ok (mq w') \<and> gone (mq w')"
begin

definition at_rest :: "'spec workload \<Rightarrow> bool" where
  "at_rest obj \<longleftrightarrow> reportsSynced (w_Status obj) \<and> st_ObservedGeneration (w_Status obj) = om_Generation (w_meta obj) \<and>
     st_MQObjectExists (w_Status obj) = Some True"

lemma contains: "ContainsFinalizer (k_lib k) f fs \<longleftrightarrow> f \<in> set fs"
  using k8s_lib_laws_simps(3) [OF lib] .

text \<open>Creation: the first run adds the finalizer and does not touch IBM MQ.\<close>

lemma first_run:
  assumes "view (rs_world s) = Some obj" "mine obj" "\<not> om_Deleting (w_meta obj)"
    and "wk_Finalizer wk \<notin> set (om_Finalizers (w_meta obj))" "ok (mq (rs_world s))"
  obtains s' obj' where "reconcileWorkload k wk ns n s = ((0, None), s')" "view (rs_world s') = Some obj'"
    "mine obj'" "\<not> om_Deleting (w_meta obj')" "wk_Finalizer wk \<in> set (om_Finalizers (w_meta obj'))"
    "om_Generation (w_meta obj') = om_Generation (w_meta obj)" "mq (rs_world s') = mq (rs_world s)"
    "mq_effects s' = mq_effects s"
proof -
  obtain s1 where s1: "reconcileWorkload k wk ns n s = reconcileWithAdmin k wk obj admin s1"
    "view (rs_world s1) = Some obj" "mq (rs_world s1) = mq (rs_world s)" "mq_effects s1 = mq_effects s"
    using live_reaches_admin [OF api assms(1) conn [OF assms(2)] assms(5) not_suspended [OF assms(2)] assms(3)] .
  let ?fs = "AddFinalizer (k_lib k) (wk_Finalizer wk) (om_Finalizers (w_meta obj))"
  obtain rv s2 where s2: "objectUpdate k (setFinalizers ?fs obj) s1 = (None, with_rv rv (setFinalizers ?fs obj), s2)"
    "view (rs_world s2) = Some (with_rv rv (setFinalizers ?fs obj))"
    "mq (rs_world s2) = mq (rs_world s1)" "mq_effects s2 = mq_effects s1"
    using objectUpdate_served [OF api s1(2), of ?fs] assms(3) by auto
  have "reconcileWorkload k wk ns n s = ((0, None), s2)"
    using s1(1) s2(1) assms(4) by (simp add: reconcileWithAdmin_def contains Let_def)
  moreover have "wk_Finalizer wk \<in> set ?fs" using k8s_lib_laws_simps(4) [OF lib] by simp
  ultimately show thesis
    using that [of s2 "with_rv rv (setFinalizers ?fs obj)"] s1 s2 assms(2,3) mine_rv mine_finalizers by simp
qed

text \<open>A successful ensure step is reported: Synced=True for the current generation.\<close>

lemma reported:
  assumes "view (rs_world s) = Some obj"
  obtains d s' st' rv where "reportEnsured k wk (obj\<lparr>w_Status := st\<rparr>) (True, [], None) s = ((d, None), s')"
    "view (rs_world s') = Some (with_rv rv (obj\<lparr>w_Status := st'\<rparr>))" "at_rest (obj\<lparr>w_Status := st'\<rparr>)"
    "mq (rs_world s') = mq (rs_world s)" "mq_effects s' = mq_effects s"
proof -
  let ?g = "om_Generation (w_meta obj)" and ?obj = "obj\<lparr>w_Status := st\<rparr>"
  let ?p = "\<lparr>p_conditionStatus = ConditionTrue, p_reason = ReasonAvailable, p_generation = ?g,
        p_message = wk_matchesMessage wk, p_mqObjectExists = Some True, p_lastSync = Some (k_now k (rs_world s)),
        p_setObservedGen = True, p_emitEvent = True\<rparr>"
  let ?st = "patchedStatus (k_lib k) ?p st"
  let ?s = "emitSyncedTransitionEvent ?obj ConditionTrue ReasonAvailable (wk_matchesMessage wk) s"
  obtain rv s1 where s1: "statusUpdate k (obj\<lparr>w_Status := ?st\<rparr>) ?s = (None, with_rv rv (obj\<lparr>w_Status := ?st\<rparr>), s1)"
    "view (rs_world s1) = Some (with_rv rv (obj\<lparr>w_Status := ?st\<rparr>))" "mq (rs_world s1) = mq (rs_world ?s)"
    "mq_effects s1 = mq_effects ?s"
    using statusUpdate_served [OF api, of ?s obj ?st] assms by auto
  obtain d s2 where s2: "workloadDriftResyncResult k s1 = ((d, None), s2)" "view (rs_world s2) = view (rs_world s1)"
    "mq (rs_world s2) = mq (rs_world s1)" "mq_effects s2 = mq_effects s1"
    by (rule driftResync_served [OF api])
  have "reportEnsured k wk ?obj (True, [], None) s = ((d, None), s2)"
    using s1(1) s2(1) by (simp add: reportEnsured_def patchSyncedAvailable_def patchSyncedStatus_def Let_def)
  moreover have "at_rest (obj\<lparr>w_Status := ?st\<rparr>)"
    using k8s_lib_laws_simps(1) [OF lib, of "\<lparr>cn_Type = ConditionSynced, cn_Status = ConditionTrue,
      cn_Reason = ReasonAvailable, cn_Message = wk_matchesMessage wk, cn_ObservedGeneration = ?g\<rparr>"]
    by (simp add: at_rest_def patchedStatus_def updateMQStatusFields_def reportsSynced_def setCondition_def Let_def)
  ultimately show thesis using that [of d s2 rv ?st] s1 s2 by simp
qed

text \<open>With the finalizer, every run brings IBM MQ and the status in line, and writes to IBM MQ only when
  it was not.\<close>

lemma sync_run:
  assumes "view (rs_world s) = Some obj" "mine obj" "\<not> om_Deleting (w_meta obj)"
    and "wk_Finalizer wk \<in> set (om_Finalizers (w_meta obj))" "ok (mq (rs_world s))"
  obtains d s' obj' where "reconcileWorkload k wk ns n s = ((d, None), s')" "view (rs_world s') = Some obj'"
    "mine obj'" "at_rest obj'" "\<not> om_Deleting (w_meta obj')" "wk_Finalizer wk \<in> set (om_Finalizers (w_meta obj'))"
    "om_Generation (w_meta obj') = om_Generation (w_meta obj)" "ok (mq (rs_world s'))" "synced (mq (rs_world s'))"
    "mq_effects s' = (if synced (mq (rs_world s)) then [] else [MQApply None]) @ mq_effects s"
proof -
  obtain s1 where s1: "reconcileWorkload k wk ns n s = reconcileWithAdmin k wk obj admin s1"
    "view (rs_world s1) = Some obj" "mq (rs_world s1) = mq (rs_world s)" "mq_effects s1 = mq_effects s"
    using live_reaches_admin [OF api assms(1) conn [OF assms(2)] assms(5) not_suspended [OF assms(2)] assms(3)] .
  obtain m where m: "wk_precheck wk obj = None" "wk_format wk obj = Inr m" using valid [OF assms(2)] by blast
  let ?st = "(w_Status obj)\<lparr>st_DesiredMQSC := m\<rparr>"
  obtain s2 where s2: "wk_ensure wk admin (obj\<lparr>w_Status := ?st\<rparr>) s1 = (Some (True, [], None), s2)"
    "view (rs_world s2) = Some obj" "ok (mq (rs_world s2))" "synced (mq (rs_world s2))"
    "rs_log s2 = (if synced (mq (rs_world s1)) then [] else [MQApply None]) @ rs_log s1"
    using ensure [OF mine_status [OF assms(2)], of s1 ?st] s1(2,3) assms(5) by auto
  have eff: "mq_effects s2 = (if synced (mq (rs_world s)) then [] else [MQApply None]) @ mq_effects s"
    using s2(5) s1(3,4) by (simp add: mq_effects_def)
  obtain d s3 st' rv where s3: "reportEnsured k wk (obj\<lparr>w_Status := ?st\<rparr>) (True, [], None) s2 = ((d, None), s3)"
    "view (rs_world s3) = Some (with_rv rv (obj\<lparr>w_Status := st'\<rparr>))" "at_rest (obj\<lparr>w_Status := st'\<rparr>)"
    "mq (rs_world s3) = mq (rs_world s2)" "mq_effects s3 = mq_effects s2"
    by (rule reported [OF s2(2)])
  have "reconcileWorkload k wk ns n s = ((d, None), s3)"
    using s1(1) m s2(1) s3(1) assms(4) by (simp add: reconcileWithAdmin_def contains Let_def)
  then show thesis
    using that [of d s3 "with_rv rv (obj\<lparr>w_Status := st'\<rparr>)"] s2(3,4) s3 eff assms(2-4) mine_rv mine_status
    by (simp add: at_rest_def)
qed

text \<open>Deletion: the object is removed from IBM MQ and then loses its finalizer.\<close>

lemma delete_run:
  assumes "view (rs_world s) = Some obj" "mine obj" "om_Deleting (w_meta obj)" "\<not> orphanDeletionRequested obj"
    and "wk_Finalizer wk \<in> set (om_Finalizers (w_meta obj))" "ok (mq (rs_world s))"
  obtains s' where "reconcileWorkload k wk ns n s = ((0, None), s')" "ok (mq (rs_world s'))" "gone (mq (rs_world s'))"
    "case view (rs_world s') of None \<Rightarrow> set (om_Finalizers (w_meta obj)) = {wk_Finalizer wk}
     | Some obj' \<Rightarrow> wk_Finalizer wk \<notin> set (om_Finalizers (w_meta obj'))"
    "mq_effects s' = MQRemove None # mq_effects s"
proof -
  obtain s1 where s1: "reconcileWorkload k wk ns n s = handleDeletion k wk obj admin s1"
    "view (rs_world s1) = Some obj" "mq (rs_world s1) = mq (rs_world s)" "mq_effects s1 = mq_effects s"
    using deletion_reaches_admin [OF api assms(1) conn [OF assms(2)] assms(6) not_suspended [OF assms(2)] assms(3,4)]
      assms(5) contains by blast
  let ?p = "notSynced ReasonDeleting (om_Generation (w_meta obj)) (wk_deletingMessage wk) None True"
  let ?st = "patchedStatus (k_lib k) ?p (w_Status obj)"
  let ?s1 = "emitSyncedTransitionEvent obj ConditionFalse ReasonDeleting (wk_deletingMessage wk) s1"
  obtain rv s2 where s2: "statusUpdate k (obj\<lparr>w_Status := ?st\<rparr>) ?s1 = (None, with_rv rv (obj\<lparr>w_Status := ?st\<rparr>), s2)"
    "view (rs_world s2) = Some (with_rv rv (obj\<lparr>w_Status := ?st\<rparr>))" "mq (rs_world s2) = mq (rs_world ?s1)"
    "mq_effects s2 = mq_effects ?s1"
    using statusUpdate_served [OF api, of ?s1 obj ?st] s1(2) by auto
  let ?obj = "with_rv rv (obj\<lparr>w_Status := ?st\<rparr>)"
  obtain w3 where w3: "wk_delete wk admin ?obj (rs_world s2) = (None, w3)" "view w3 = Some ?obj" "ok (mq w3)" "gone (mq w3)"
    using delete [OF mine_rv [OF mine_status [OF assms(2)]], of "rs_world s2" rv ?st] s2(2,3) s1(3) assms(6) by auto
  let ?s3 = "recordNormalEvent ''Deleted'' (wk_removedMessage wk) (log_effect (MQRemove None) (s2\<lparr>rs_world := w3\<rparr>))"
  let ?fs = "RemoveFinalizer (k_lib k) (wk_Finalizer wk) (om_Finalizers (w_meta obj))"
  obtain rv' s4 where s4: "objectUpdate k (setFinalizers ?fs ?obj) ?s3 = (None, with_rv rv' (setFinalizers ?fs ?obj), s4)"
    "view (rs_world s4) = (if ?fs = [] then None else Some (with_rv rv' (setFinalizers ?fs ?obj)))"
    "mq (rs_world s4) = mq (rs_world ?s3)" "mq_effects s4 = mq_effects ?s3"
    using objectUpdate_served [OF api, of ?s3 ?obj ?fs] w3(2) assms(3) by auto
  have "reconcileWorkload k wk ns n s = ((0, None), s4)"
    using s1(1) s2(1) w3(1) s4(1)
    by (simp add: handleDeletion_def patchSyncedDeleting_def patchSyncedStatus_def notSynced_def mqRemove_def Let_def)
  moreover have "set ?fs = set (om_Finalizers (w_meta obj)) - {wk_Finalizer wk}"
    using k8s_lib_laws_simps(5) [OF lib] .
  ultimately show thesis
    using that [of s4] s1(4) s2(4) w3 s4(2-4) assms(5) by (auto split: if_splits)
qed

text \<open>Any number of runs from two on leave the object at rest, with one write to IBM MQ in all.\<close>

definition resting :: "int \<Rightarrow> 'w rs \<Rightarrow> bool" where
  "resting gen s \<longleftrightarrow>
     (\<exists>obj. view (rs_world s) = Some obj \<and> mine obj \<and> at_rest obj \<and> \<not> om_Deleting (w_meta obj) \<and>
        wk_Finalizer wk \<in> set (om_Finalizers (w_meta obj)) \<and> om_Generation (w_meta obj) = gen) \<and>
     ok (mq (rs_world s)) \<and> synced (mq (rs_world s))"

lemma resting_run:
  assumes "resting gen s"
  shows "resting gen (snd (reconcileWorkload k wk ns n s))" "mq_effects (snd (reconcileWorkload k wk ns n s)) = mq_effects s"
proof -
  obtain obj where o: "view (rs_world s) = Some obj" "mine obj" "\<not> om_Deleting (w_meta obj)"
      "wk_Finalizer wk \<in> set (om_Finalizers (w_meta obj))" "ok (mq (rs_world s))" "synced (mq (rs_world s))"
      "om_Generation (w_meta obj) = gen"
    using assms unfolding resting_def by blast
  obtain d s' obj' where r: "reconcileWorkload k wk ns n s = ((d, None), s')" "view (rs_world s') = Some obj'"
      "mine obj'" "at_rest obj'" "\<not> om_Deleting (w_meta obj')" "wk_Finalizer wk \<in> set (om_Finalizers (w_meta obj'))"
      "om_Generation (w_meta obj') = om_Generation (w_meta obj)" "ok (mq (rs_world s'))" "synced (mq (rs_world s'))"
      "mq_effects s' = (if synced (mq (rs_world s)) then [] else [MQApply None]) @ mq_effects s"
    by (rule sync_run [OF o(1-5)])
  show "resting gen (snd (reconcileWorkload k wk ns n s))" "mq_effects (snd (reconcileWorkload k wk ns n s)) = mq_effects s"
    using r o(6,7) unfolding resting_def by auto
qed

lemma reaches_rest:
  assumes "view (rs_world s) = Some obj" "mine obj" "\<not> om_Deleting (w_meta obj)" "ok (mq (rs_world s))"
  defines "run \<equiv> \<lambda>s. snd (reconcileWorkload k wk ns n s)"
  shows "resting (om_Generation (w_meta obj)) (run (run s)) \<and>
    mq_effects (run (run s)) = (if synced (mq (rs_world s)) then [] else [MQApply None]) @ mq_effects s"
proof (cases "wk_Finalizer wk \<in> set (om_Finalizers (w_meta obj))")
  case True
  from sync_run [OF assms(1-3) True assms(4)]
  have "resting (om_Generation (w_meta obj)) (run s) \<and>
    mq_effects (run s) = (if synced (mq (rs_world s)) then [] else [MQApply None]) @ mq_effects s"
    unfolding resting_def run_def by (metis snd_conv)
  with resting_run [of "om_Generation (w_meta obj)" "run s"] show ?thesis unfolding run_def by simp
next
  case False
  obtain s1 obj1 where s1: "reconcileWorkload k wk ns n s = ((0, None), s1)" "view (rs_world s1) = Some obj1"
    "mine obj1" "\<not> om_Deleting (w_meta obj1)" "wk_Finalizer wk \<in> set (om_Finalizers (w_meta obj1))"
    "om_Generation (w_meta obj1) = om_Generation (w_meta obj)" "mq (rs_world s1) = mq (rs_world s)"
    "mq_effects s1 = mq_effects s"
    by (rule first_run [OF assms(1-3) False assms(4)])
  have "ok (mq (rs_world s1))" using s1(7) assms(4) by simp
  from sync_run [OF s1(2-5) this] s1
  have "resting (om_Generation (w_meta obj)) (run s1) \<and>
    mq_effects (run s1) = (if synced (mq (rs_world s)) then [] else [MQApply None]) @ mq_effects s"
    unfolding resting_def run_def by (metis snd_conv)
  with s1(1) show ?thesis unfolding run_def by simp
qed

lemma rests_forever:
  assumes "view (rs_world s) = Some obj" "mine obj" "\<not> om_Deleting (w_meta obj)" "ok (mq (rs_world s))" "2 \<le> i"
  shows "resting (om_Generation (w_meta obj)) (((\<lambda>s. snd (reconcileWorkload k wk ns n s)) ^^ i) s) \<and>
    mq_effects (((\<lambda>s. snd (reconcileWorkload k wk ns n s)) ^^ i) s)
      = (if synced (mq (rs_world s)) then [] else [MQApply None]) @ mq_effects s"
  using assms(5)
proof (induction i rule: nat_induct_at_least)
  case base
  then show ?case using reaches_rest [OF assms(1-4)] by (simp add: numeral_2_eq_2)
next
  case (Suc i)
  let ?s = "((\<lambda>s. snd (reconcileWorkload k wk ns n s)) ^^ i) s"
  from Suc.IH resting_run [of "om_Generation (w_meta obj)" ?s] show ?case by simp
qed

end

section \<open>The client inside the world\<close>

text \<open>The client keeps its state in the part \<open>cl\<close> of the world; \<open>put\<close> writes it back.\<close>

definition via :: "('w \<Rightarrow> 'c) \<Rightarrow> ('c \<Rightarrow> 'w \<Rightarrow> 'w) \<Rightarrow> ('c \<Rightarrow> 'a \<times> 'c) \<Rightarrow> 'w \<Rightarrow> 'a \<times> 'w" where
  "via cl put f w = (case f (cl w) of (r, c) \<Rightarrow> (r, put c w))"

definition embed_admin :: "('w \<Rightarrow> 'c) \<Rightarrow> ('c \<Rightarrow> 'w \<Rightarrow> 'w) \<Rightarrow> 'c Admin \<Rightarrow> 'w Admin" where
  "embed_admin cl put a =
     \<lparr>ad_Ping = via cl put (ad_Ping a),
      ad_GetQueue = (\<lambda>x. via cl put (ad_GetQueue a x)), ad_DefineQueue = (\<lambda>x. via cl put (ad_DefineQueue a x)),
      ad_DeleteQueue = (\<lambda>x. via cl put (ad_DeleteQueue a x)),
      ad_QueueDriftKeys = (\<lambda>x. via cl put (ad_QueueDriftKeys a x)),
      ad_GetTopic = (\<lambda>x. via cl put (ad_GetTopic a x)), ad_DefineTopic = (\<lambda>x. via cl put (ad_DefineTopic a x)),
      ad_DeleteTopic = (\<lambda>x. via cl put (ad_DeleteTopic a x)),
      ad_GetChannel = (\<lambda>x. via cl put (ad_GetChannel a x)),
      ad_DefineChannel = (\<lambda>x. via cl put (ad_DefineChannel a x)),
      ad_DeleteChannel = (\<lambda>x. via cl put (ad_DeleteChannel a x)),
      ad_GetChannelAuth = (\<lambda>x. via cl put (ad_GetChannelAuth a x)),
      ad_SetChannelAuth = (\<lambda>x. via cl put (ad_SetChannelAuth a x)),
      ad_DeleteChannelAuth = (\<lambda>x. via cl put (ad_DeleteChannelAuth a x)),
      ad_GetAuthority = (\<lambda>x. via cl put (ad_GetAuthority a x)),
      ad_SetAuthority = (\<lambda>x. via cl put (ad_SetAuthority a x)),
      ad_DeleteAuthority = (\<lambda>x. via cl put (ad_DeleteAuthority a x))\<rparr>"

definition holds_client :: "('w \<Rightarrow> 'v) \<Rightarrow> ('w \<Rightarrow> 'c) \<Rightarrow> ('c \<Rightarrow> 'w \<Rightarrow> 'w) \<Rightarrow> bool" where
  "holds_client view cl put \<longleftrightarrow>
     (\<forall>c w. cl (put c w) = c \<and> view (put c w) = view w) \<and> (\<forall>w. put (cl w) w = w)"

lemma embed_admin_sel:
  "ad_GetTopic (embed_admin cl put (client_admin env c)) x = via cl put (GetTopic env c x)"
  "ad_DefineTopic (embed_admin cl put (client_admin env c)) ts = via cl put (DefineTopic env c ts)"
  "ad_DeleteTopic (embed_admin cl put (client_admin env c)) x = via cl put (DeleteTopic env c x)"
  "ad_GetChannel (embed_admin cl put (client_admin env c)) cs = via cl put (GetChannel env c cs)"
  "ad_DefineChannel (embed_admin cl put (client_admin env c)) cs = via cl put (DefineChannel env c cs)"
  "ad_DeleteChannel (embed_admin cl put (client_admin env c)) cs = via cl put (DeleteChannel env c cs)"
  "ad_GetQueue (embed_admin cl put (client_admin env c)) qs = via cl put (GetQueue env c qs)"
  "ad_DefineQueue (embed_admin cl put (client_admin env c)) qs = via cl put (DefineQueue env c qs)"
  "ad_DeleteQueue (embed_admin cl put (client_admin env c)) qs = via cl put (DeleteQueue env c qs)"
  "ad_QueueDriftKeys (embed_admin cl put (client_admin env c)) x = via cl put (ResolveQueueDriftCheckKeys env c x)"
  by (simp_all add: embed_admin_def client_admin_def)

lemma port_works_via:
  assumes pw: "port_works get def del drifted stored ok" and hc: "holds_client view cl put"
  shows "port_works (via cl put get) (via cl put def) (via cl put del) drifted (\<lambda>w. stored (cl w))
    (\<lambda>w. ok (cl w) \<and> view w = v)"
  unfolding port_works_def
proof (intro allI impI conjI)
  fix w assume w: "ok (cl w) \<and> view w = v"
  have put: "cl (put c w') = c" "view (put c w') = view w'" for c w' using hc unfolding holds_client_def by auto
  from pw w obtain r s' where "get (cl w) = (r, s')" "ok s'" "stored s' = stored (cl w)"
    "case stored (cl w) of Some a \<Rightarrow> \<exists>st. r = Inr st \<and> os_Attributes st = a | None \<Rightarrow> \<exists>n. r = Inl (NotFoundError n)"
    unfolding port_works_def by blast
  then show "\<exists>r w'. via cl put get w = (r, w') \<and> (ok (cl w') \<and> view w' = v) \<and> stored (cl w') = stored (cl w) \<and>
      (case stored (cl w) of Some a \<Rightarrow> \<exists>st. r = Inr st \<and> os_Attributes st = a | None \<Rightarrow> \<exists>n. r = Inl (NotFoundError n))"
    using w put by (intro exI [of _ r] exI [of _ "put s' w"]) (simp add: via_def)
  from pw w obtain s' a where "def (cl w) = (None, s')" "ok s'" "stored s' = Some a" "\<not> drifted a"
    unfolding port_works_def by blast
  then show "\<exists>w'. via cl put def w = (None, w') \<and> (ok (cl w') \<and> view w' = v) \<and> (\<exists>a. stored (cl w') = Some a \<and> \<not> drifted a)"
    using w put by (intro exI [of _ "put s' w"]) (simp add: via_def)
  from pw w obtain s' where "del (cl w) = (None, s')" "ok s'" "stored s' = None" unfolding port_works_def by blast
  then show "\<exists>w'. via cl put del w = (None, w') \<and> (ok (cl w') \<and> view w' = v) \<and> stored (cl w') = None"
    using w put by (intro exI [of _ "put s' w"]) (simp add: via_def)
qed

section \<open>An object behind a working port\<close>

text \<open>Versions of one object that ask for the same: only status, finalizers, generation, deletion mark and
  version may differ.\<close>

definition same_intent :: "'spec workload \<Rightarrow> 'spec workload \<Rightarrow> bool" where
  "same_intent a b \<longleftrightarrow>
     w_Spec b = w_Spec a \<and> w_ConnectionRef b = w_ConnectionRef a \<and> w_Suspend b = w_Suspend a \<and>
     w_policies b = w_policies a \<and> om_Namespace (w_meta b) = om_Namespace (w_meta a) \<and>
     om_Annotations (w_meta b) = om_Annotations (w_meta a)"

lemma same_intent_refl [simp]: "same_intent a a"
  by (simp add: same_intent_def)

lemma same_intent_kept:
  assumes "same_intent a b"
  shows "same_intent a (b\<lparr>w_Status := st\<rparr>)" "same_intent a (setFinalizers fs b)" "same_intent a (with_rv rv b)"
  using assms by (simp_all add: same_intent_def setFinalizers_def with_rv_def)

lemma same_intent_policies:
  assumes "same_intent a b"
  shows "workloadAdoptionPolicy b = workloadAdoptionPolicy a" "isObserveOnly b = isObserveOnly a"
    "orphanDeletionRequested b = orphanDeletionRequested a"
  using assms by (simp_all add: same_intent_def workloadAdoptionPolicy_def isObserveOnly_def annotation_def
      orphanDeletionRequested_def forceOrphanRequested_def workloadDeletionPolicy_def)

text \<open>What a read through the client tells about the object.\<close>

definition reads_in_sync :: "('c \<Rightarrow> ObjectState result \<times> 'c) \<Rightarrow> attrs \<Rightarrow> string list \<Rightarrow> 'c \<Rightarrow> bool" where
  "reads_in_sync get desired keys c \<longleftrightarrow>
     (\<exists>st c'. get c = (Inr st, c') \<and> \<not> AttributesNeedUpdate desired (os_Attributes st) keys)"

definition reads_missing :: "('c \<Rightarrow> ObjectState result \<times> 'c) \<Rightarrow> 'c \<Rightarrow> bool" where
  "reads_missing get c \<longleftrightarrow> (\<exists>nm c'. get c = (Inl (NotFoundError nm), c'))"

lemma port_reads:
  assumes "port_works get def del (\<lambda>a. AttributesNeedUpdate desired a keys) stored ok" "ok c"
  shows "reads_in_sync get desired keys c \<longleftrightarrow> (\<exists>a. stored c = Some a \<and> \<not> AttributesNeedUpdate desired a keys)"
    "reads_missing get c \<longleftrightarrow> stored c = None"
  using assms by (cases rule: port_worksD; auto simp: reads_in_sync_def reads_missing_def)+

lemma port_managed:
  fixes mq :: "'w \<Rightarrow> 'm" and sel :: "'m \<Rightarrow> 'c"
  defines "cl \<equiv> \<lambda>w. sel (mq w)"
  assumes lib: "k8s_lib_laws (k_lib k)" and api: "api_serves k ns n view mq"
    and hc: "holds_client (\<lambda>w. (view w, good (mq w))) cl put"
    and con: "connected good k (om_Namespace (w_meta base)) (w_ConnectionRef base) view mq admin"
    and pw: "port_works get def del (\<lambda>a. AttributesNeedUpdate desired a keys) stored ok"
    and susp: "\<not> w_Suspend base"
    and valid: "\<And>obj. same_intent base obj \<Longrightarrow> wk_precheck wk obj = None \<and> (\<exists>m. wk_format wk obj = Inr m)"
    and step: "\<And>obj s. same_intent base obj \<Longrightarrow> ok (cl (rs_world s)) \<Longrightarrow>
      wk_ensure wk admin obj s = apfst Some (ensureObject (via cl put get) (via cl put def) AdoptionPolicyAdopt
        (workloadFirstAdoption obj) desired keys label s)"
    and del: "\<And>obj. same_intent base obj \<Longrightarrow> wk_delete wk admin obj = via cl put del"
  shows "managed_object k wk ns n view mq admin (same_intent base) (\<lambda>m. ok (sel m) \<and> good m)
    (\<lambda>m. reads_in_sync get desired keys (sel m)) (\<lambda>m. reads_missing get (sel m))"
proof
  fix obj and s :: "'w rs" assume m: "same_intent base obj" and ok: "ok (sel (mq (rs_world s))) \<and> good (mq (rs_world s))"
  note pv = port_works_via [OF pw hc, of "(view (rs_world s), True)"]
  obtain s' a where "ensureObject (via cl put get) (via cl put def) AdoptionPolicyAdopt (workloadFirstAdoption obj)
      desired keys label s = ((True, [], None), s')"
    "ok (cl (rs_world s')) \<and> (view (rs_world s'), good (mq (rs_world s'))) = (view (rs_world s), True)"
    "stored (cl (rs_world s')) = Some a" "\<not> AttributesNeedUpdate desired a keys"
    "rs_log s' = (if (case stored (cl (rs_world s)) of None \<Rightarrow> True | Some a \<Rightarrow> AttributesNeedUpdate desired a keys)
       then [MQApply None] else []) @ rs_log s"
    by (rule ensureObject_converges [OF pv _ refl, of s "workloadFirstAdoption obj" label])
      (use ok in \<open>simp add: cl_def\<close>)
  then show "\<exists>s'. wk_ensure wk admin obj s = (Some (True, [], None), s') \<and> view (rs_world s') = view (rs_world s) \<and>
      (ok (sel (mq (rs_world s'))) \<and> good (mq (rs_world s'))) \<and>
      reads_in_sync get desired keys (sel (mq (rs_world s'))) \<and>
      rs_log s' = (if reads_in_sync get desired keys (sel (mq (rs_world s))) then [] else [MQApply None]) @ rs_log s"
    using step [OF m, of s] port_reads(1) [OF pw] ok
    by (intro exI [of _ s']) (auto simp: cl_def split: option.splits)
next
  fix obj w assume m: "same_intent base obj" and ok: "ok (sel (mq w)) \<and> good (mq w)"
  obtain w' where "via cl put del w = (None, w')"
    "ok (cl w') \<and> (view w', good (mq w')) = (view w, True)" "stored (cl w') = None"
    by (rule port_works_delete [OF port_works_via [OF pw hc, of "(view w, True)"], of w])
      (use ok in \<open>simp add: cl_def\<close>)
  then show "\<exists>w'. wk_delete wk admin obj w = (None, w') \<and> view w' = view w \<and> (ok (sel (mq w')) \<and> good (mq w')) \<and>
      reads_missing get (sel (mq w'))"
    using del [OF m] port_reads(2) [OF pw] by (auto simp: cl_def)
next
  show "connected (\<lambda>m. ok (sel m) \<and> good m) k (om_Namespace (w_meta obj)) (w_ConnectionRef obj) view mq admin"
    if "same_intent base obj" for obj
    using that connected_mono [OF con, of "\<lambda>m. ok (sel m) \<and> good m"] by (simp add: same_intent_def)
  show "\<not> w_Suspend obj" if "same_intent base obj" for obj using that susp by (simp add: same_intent_def)
qed (use lib api valid same_intent_kept in auto)

section \<open>Topics, channels and queues\<close>

text \<open>
  \<open>operated k ns n view cl put env c obj s\<close>: the API server holds \<open>obj\<close>, its connection is ready and
  served by the client \<open>c\<close>, and the object is to be managed (not suspended, not observe-only, policy
  Adopt).
\<close>

definition operated ::
  "('spec, 'w) kube \<Rightarrow> string \<Rightarrow> string \<Rightarrow> ('w \<Rightarrow> 'spec workload option) \<Rightarrow> ('w \<Rightarrow> 'x cstate) \<Rightarrow>
     ('x cstate \<Rightarrow> 'w \<Rightarrow> 'w) \<Rightarrow> 'x http_env \<Rightarrow> Client \<Rightarrow> 'spec workload \<Rightarrow> 'w rs \<Rightarrow> bool" where
  "operated k ns n view cl put env c obj s \<longleftrightarrow>
     k8s_lib_laws (k_lib k) \<and> api_serves k ns n view cl \<and> holds_client view cl put \<and>
     connected (\<lambda>_. True) k (om_Namespace (w_meta obj)) (w_ConnectionRef obj) view cl
       (embed_admin cl put (client_admin env c)) \<and>
     view (rs_world s) = Some obj \<and> \<not> w_Suspend obj \<and> \<not> isObserveOnly obj \<and>
     workloadAdoptionPolicy obj = AdoptionPolicyAdopt"

text \<open>
  The same, when the connection may also not be ready: \<open>mq\<close> is the part of the world that the runs of the object
  do not change by themselves, \<open>sel\<close> selects the client in it and \<open>good\<close> says that the connection
  is ready.
\<close>

definition operated_on ::
  "('spec, 'w) kube \<Rightarrow> string \<Rightarrow> string \<Rightarrow> ('w \<Rightarrow> 'spec workload option) \<Rightarrow> ('w \<Rightarrow> 'm) \<Rightarrow> ('m \<Rightarrow> 'x cstate) \<Rightarrow>
     ('m \<Rightarrow> bool) \<Rightarrow> ('x cstate \<Rightarrow> 'w \<Rightarrow> 'w) \<Rightarrow> 'x http_env \<Rightarrow> Client \<Rightarrow> 'spec workload \<Rightarrow> 'w rs \<Rightarrow> bool" where
  "operated_on k ns n view mq sel good put env c obj s \<longleftrightarrow>
     (let cl = \<lambda>w. sel (mq w) in
      k8s_lib_laws (k_lib k) \<and> api_serves k ns n view mq \<and> holds_client (\<lambda>w. (view w, good (mq w))) cl put \<and>
      connected good k (om_Namespace (w_meta obj)) (w_ConnectionRef obj) view mq
        (embed_admin cl put (client_admin env c)) \<and>
      view (rs_world s) = Some obj \<and> \<not> w_Suspend obj \<and> \<not> isObserveOnly obj \<and>
      workloadAdoptionPolicy obj = AdoptionPolicyAdopt)"

lemma operated_operated_on:
  "operated k ns n view cl put env c obj s \<Longrightarrow>
   operated_on k ns n view cl (\<lambda>m. m) (\<lambda>_. True) put env c obj s"
  by (auto simp: operated_def operated_on_def holds_client_def)

text \<open>
  \<open>lives_by\<close>: while it is not being deleted, from the second run on the object reports Synced=True for its
  generation, the queue manager has it as desired, and all runs together wrote to IBM MQ at most once;
  when it is being deleted, one run removes it from the queue manager and then its finalizer.
\<close>

definition lives_by ::
  "('spec, 'w) kube \<Rightarrow> ('spec, 'w) workload_kind \<Rightarrow> string \<Rightarrow> string \<Rightarrow> ('w \<Rightarrow> 'spec workload option) \<Rightarrow> ('w \<Rightarrow> 'c) \<Rightarrow>
     ('c \<Rightarrow> bool) \<Rightarrow> ('c \<Rightarrow> bool) \<Rightarrow> 'spec workload \<Rightarrow> 'w rs \<Rightarrow> bool" where
  "lives_by k wk ns n view cl in_sync missing obj s \<longleftrightarrow>
     (let run = (\<lambda>s. snd (reconcileWorkload k wk ns n s)) in
      (\<not> om_Deleting (w_meta obj) \<longrightarrow>
         (\<forall>i \<ge> 2. let s' = (run ^^ i) s in
            (\<exists>obj'. view (rs_world s') = Some obj' \<and> same_intent obj obj' \<and> reportsSynced (w_Status obj') \<and>
               st_ObservedGeneration (w_Status obj') = om_Generation (w_meta obj) \<and>
               om_Generation (w_meta obj') = om_Generation (w_meta obj)) \<and>
            in_sync (cl (rs_world s')) \<and>
            mq_effects s' = (if in_sync (cl (rs_world s)) then [] else [MQApply None]) @ mq_effects s)) \<and>
      (om_Deleting (w_meta obj) \<and> wk_Finalizer wk \<in> set (om_Finalizers (w_meta obj)) \<and>
       \<not> orphanDeletionRequested obj \<longrightarrow>
         missing (cl (rs_world (run s))) \<and> mq_effects (run s) = MQRemove None # mq_effects s \<and>
         (case view (rs_world (run s)) of
            None \<Rightarrow> set (om_Finalizers (w_meta obj)) = {wk_Finalizer wk}
          | Some obj' \<Rightarrow> wk_Finalizer wk \<notin> set (om_Finalizers (w_meta obj')))))"

definition lives ::
  "('spec, 'w) kube \<Rightarrow> ('spec, 'w) workload_kind \<Rightarrow> string \<Rightarrow> string \<Rightarrow> ('w \<Rightarrow> 'spec workload option) \<Rightarrow> ('w \<Rightarrow> 'c) \<Rightarrow>
     ('c \<Rightarrow> ObjectState result \<times> 'c) \<Rightarrow> attrs \<Rightarrow> string list \<Rightarrow> 'spec workload \<Rightarrow> 'w rs \<Rightarrow> bool" where
  "lives k wk ns n view cl get desired keys =
     lives_by k wk ns n view cl (reads_in_sync get desired keys) (reads_missing get)"

lemma managed_lives_by:
  assumes mo: "managed_object k wk ns n view mq admin (same_intent obj) ok
      (\<lambda>m. in_sync (sel m)) (\<lambda>m. missing (sel m))"
    and "view (rs_world s) = Some obj" "ok (mq (rs_world s))"
  shows "lives_by k wk ns n view (\<lambda>w. sel (mq w)) in_sync missing obj s"
  unfolding lives_by_def Let_def
proof (intro conjI impI allI)
  fix i :: nat assume live: "\<not> om_Deleting (w_meta obj)" and i: "2 \<le> i"
  let ?s = "((\<lambda>s. snd (reconcileWorkload k wk ns n s)) ^^ i) s"
  note r = managed_object.rests_forever [OF mo assms(2) same_intent_refl live assms(3) i]
  then show "\<exists>obj'. view (rs_world ?s) = Some obj' \<and> same_intent obj obj' \<and> reportsSynced (w_Status obj') \<and>
      st_ObservedGeneration (w_Status obj') = om_Generation (w_meta obj) \<and>
      om_Generation (w_meta obj') = om_Generation (w_meta obj)"
    "in_sync (sel (mq (rs_world ?s)))"
    "mq_effects ?s = (if in_sync (sel (mq (rs_world s))) then [] else [MQApply None]) @ mq_effects s"
    unfolding managed_object.resting_def [OF mo] managed_object.at_rest_def [OF mo] by auto
next
  assume d: "om_Deleting (w_meta obj) \<and> wk_Finalizer wk \<in> set (om_Finalizers (w_meta obj)) \<and> \<not> orphanDeletionRequested obj"
  obtain s' where "reconcileWorkload k wk ns n s = ((0, None), s')" "missing (sel (mq (rs_world s')))"
    "case view (rs_world s') of None \<Rightarrow> set (om_Finalizers (w_meta obj)) = {wk_Finalizer wk}
     | Some obj' \<Rightarrow> wk_Finalizer wk \<notin> set (om_Finalizers (w_meta obj'))"
    "mq_effects s' = MQRemove None # mq_effects s"
    using managed_object.delete_run [OF mo assms(2) same_intent_refl] d assms(3) by metis
  then show "missing (sel (mq (rs_world (snd (reconcileWorkload k wk ns n s)))))"
    "mq_effects (snd (reconcileWorkload k wk ns n s)) = MQRemove None # mq_effects s"
    "case view (rs_world (snd (reconcileWorkload k wk ns n s))) of
       None \<Rightarrow> set (om_Finalizers (w_meta obj)) = {wk_Finalizer wk}
     | Some obj' \<Rightarrow> wk_Finalizer wk \<notin> set (om_Finalizers (w_meta obj'))"
    by simp_all
qed

lemma managed_lives:
  assumes "managed_object k wk ns n view mq admin (same_intent obj) ok
      (\<lambda>m. reads_in_sync get desired keys (sel m)) (\<lambda>m. reads_missing get (sel m))"
    and "view (rs_world s) = Some obj" "ok (mq (rs_world s))"
  shows "lives k wk ns n view (\<lambda>w. sel (mq w)) get desired keys obj s"
  unfolding lives_def
  by (rule managed_lives_by [where sel = sel and mq = mq and in_sync = "reads_in_sync get desired keys", OF assms])

lemma operated_managed:
  fixes sel :: "'m \<Rightarrow> 'x cstate" and mq :: "'w \<Rightarrow> 'm"
  defines "cl \<equiv> \<lambda>w. sel (mq w)"
  assumes op: "operated_on k ns n view mq sel good put env c obj s"
    and pw: "\<exists>stored. port_works get def del (\<lambda>a. AttributesNeedUpdate desired a keys) stored ok"
    and valid: "\<And>o'. same_intent obj o' \<Longrightarrow> wk_precheck wk o' = None \<and> (\<exists>m. wk_format wk o' = Inr m)"
    and step: "\<And>o' s. same_intent obj o' \<Longrightarrow> ok (cl (rs_world s)) \<Longrightarrow>
      wk_ensure wk (embed_admin cl put (client_admin env c)) o' s =
        apfst Some (ensureObject (via cl put get) (via cl put def) AdoptionPolicyAdopt
          (workloadFirstAdoption o') desired keys label s)"
    and del: "\<And>o'. same_intent obj o' \<Longrightarrow>
      wk_delete wk (embed_admin cl put (client_admin env c)) o' = via cl put del"
  shows "managed_object k wk ns n view mq (embed_admin cl put (client_admin env c)) (same_intent obj)
    (\<lambda>m. ok (sel m) \<and> good m) (\<lambda>m. reads_in_sync get desired keys (sel m)) (\<lambda>m. reads_missing get (sel m))"
proof -
  obtain stored where "port_works get def del (\<lambda>a. AttributesNeedUpdate desired a keys) stored ok" using pw by blast
  from port_managed [where admin = "embed_admin cl put (client_admin env c)" and base = obj and wk = wk and label = label
      and sel = sel and mq = mq and good = good, OF _ _ _ _ this] op valid step del
  show ?thesis unfolding operated_on_def Let_def cl_def by blast
qed

lemma same_intent_spec:
  "same_intent a b \<Longrightarrow> toMQTopicSpec b = toMQTopicSpec a" for a :: Topic
  by (simp add: same_intent_def toMQTopicSpec_def)

lemma same_intent_channel:
  "same_intent a b \<Longrightarrow> toMQChannelSpec b = toMQChannelSpec a \<and> channelTypeError b = channelTypeError a" for a :: Channel
  by (simp add: same_intent_def toMQChannelSpec_def channelTypeError_def)

lemma same_intent_queue:
  "same_intent a b \<Longrightarrow> toMQQueueSpec b = toMQQueueSpec a" for a :: Queue
  by (simp add: same_intent_def toMQQueueSpec_def)

lemma kind_sel:
  "wk_precheck topic_kind t = None" "wk_format topic_kind t = FormatDefineTopicMQSC (toMQTopicSpec t)"
  "wk_ensure topic_kind admin t s = apfst Some (ensureTopic admin t (toMQTopicSpec t) (isObserveOnly t) s)"
  "wk_delete topic_kind admin t = ad_DeleteTopic admin (t_TopicName (w_Spec t))"
  "wk_precheck channel_kind ch = channelTypeError ch" "wk_format channel_kind ch = FormatDefineChannelMQSC (toMQChannelSpec ch)"
  "wk_ensure channel_kind admin ch s = apfst Some (ensureChannel admin ch (toMQChannelSpec ch) (isObserveOnly ch) s)"
  "wk_delete channel_kind admin ch = ad_DeleteChannel admin (toMQChannelSpec ch)"
  "wk_precheck queue_kind q = None" "wk_format queue_kind q = FormatDefineQueueMQSC (toMQQueueSpec q)"
  "wk_ensure queue_kind admin q s = apfst Some (ensureQueue admin q (toMQQueueSpec q) (isObserveOnly q) s)"
  "wk_delete queue_kind admin q = ad_DeleteQueue admin (toMQQueueSpec q)"
  by (simp_all add: topic_kind_def channel_kind_def queue_kind_def)

lemma ensureTopic_via:
  "ensureTopic (embed_admin cl put (client_admin env c)) t spec False s =
     ensureObject (via cl put (GetTopic env c (ts_Name spec))) (via cl put (DefineTopic env c spec))
       (workloadAdoptionPolicy t) (workloadFirstAdoption t) (ts_Attributes spec) TopicDriftCheckKeys
       (''topic '' @ Quote (ts_Name spec)) s"
  unfolding ensureTopic_def ensureObject_def embed_admin_sel ..

lemma ensureChannel_via:
  "ensureChannel (embed_admin cl put (client_admin env c)) ch spec False s =
     ensureObject (via cl put (GetChannel env c spec)) (via cl put (DefineChannel env c spec))
       (workloadAdoptionPolicy ch) (workloadFirstAdoption ch) (chs_Attributes spec) (ChannelDriftCheckKeys (chs_Type spec))
       (''channel '' @ Quote (chs_Name spec)) s"
  unfolding ensureChannel_def ensureObject_def embed_admin_sel ..

lemma ensureQueue_via:
  assumes hc: "holds_client view cl put" and "probed P"
    and pw: "port_works (GetQueue env c spec) def del drifted stored (ok_state P)" "ok_state P (cl (rs_world s))"
  shows "ensureQueue (embed_admin cl put (client_admin env c)) q spec False s =
     ensureObject (via cl put (GetQueue env c spec)) (via cl put (DefineQueue env c spec))
       (workloadAdoptionPolicy q) (workloadFirstAdoption q) (qs_Attributes spec) (queueKeysResolved (qs_Type spec) P)
       (''queue '' @ Quote (qs_Name spec)) s"
proof -
  obtain r c' where get: "GetQueue env c spec (cl (rs_world s)) = (r, c')" "ok_state P c'"
    using pw by (cases rule: port_worksD) blast+
  from get(2) have keys: "ResolveQueueDriftCheckKeys env c (qs_Type spec) c' = (Inr (queueKeysResolved (qs_Type spec) P), c')"
    by (intro resolved_keys(2) [OF assms(2)]) (simp add: ok_state_def)
  have "cl (put c' w) = c'" "put c' (put c' w) = put c' w" for w
    using hc unfolding holds_client_def by metis+
  then show ?thesis
    unfolding ensureQueue_def ensureObject_def embed_admin_sel
    by (simp add: mqRead_def via_def get(1) keys split: sum.split prod.split)
qed

lemma topic_managed:
  assumes op: "operated_on k ns n view mq sel good put env c t s" and srv: "serves env c qm (topic_requests (toMQTopicSpec t))"
    and cr: "ready_client c"
  shows "managed_object k topic_kind ns n view mq (embed_admin (\<lambda>w. sel (mq w)) put (client_admin env c)) (same_intent t) 
    (\<lambda>m. ok_state P (sel m) \<and> good m)
    (\<lambda>m. reads_in_sync (GetTopic env c (ts_Name (toMQTopicSpec t))) (ts_Attributes (toMQTopicSpec t))
       TopicDriftCheckKeys (sel m)) (\<lambda>m. reads_missing (GetTopic env c (ts_Name (toMQTopicSpec t))) (sel m))"
proof (rule operated_managed [OF op topic_port [OF srv cr toMQ_normal(2)]])
  fix o' assume d: "same_intent t o'"
  have spec: "toMQTopicSpec o' = toMQTopicSpec t" "\<not> isObserveOnly o'" "workloadAdoptionPolicy o' = AdoptionPolicyAdopt"
    using same_intent_spec [OF d] same_intent_policies [OF d] op by (simp_all add: operated_on_def Let_def)
  show "wk_precheck topic_kind o' = None \<and> (\<exists>m. wk_format topic_kind o' = Inr m)"
    by (simp add: kind_sel FormatDefineTopicMQSC_def)
  show "wk_delete topic_kind (embed_admin (\<lambda>w. sel (mq w)) put (client_admin env c)) o' = via (\<lambda>w. sel (mq w)) put (DeleteTopic env c (ts_Name (toMQTopicSpec t)))"
    using d by (simp add: kind_sel embed_admin_sel same_intent_def toMQTopicSpec_def Let_def)
  show "wk_ensure topic_kind (embed_admin (\<lambda>w. sel (mq w)) put (client_admin env c)) o' s = apfst Some
      (ensureObject (via (\<lambda>w. sel (mq w)) put (GetTopic env c (ts_Name (toMQTopicSpec t)))) (via (\<lambda>w. sel (mq w)) put (DefineTopic env c (toMQTopicSpec t)))
        AdoptionPolicyAdopt (workloadFirstAdoption o') (ts_Attributes (toMQTopicSpec t)) TopicDriftCheckKeys
        (''topic '' @ Quote (ts_Name (toMQTopicSpec t))) s)" for s
    unfolding kind_sel spec(1) using spec(2,3) by (simp add: ensureTopic_via)
qed

lemma supported_channel:
  assumes "validateChannelType (chs_Type (toMQChannelSpec ch)) = None"
  shows "channelTypeError ch = None"
  using assms by (simp add: channelTypeError_def validateChannelType_def toMQChannelSpec_def Let_def
      ChannelTypeSupported_def NormalizeChannelType_def split: if_splits)

lemma channel_managed:
  assumes op: "operated_on k ns n view mq sel good put env c ch s" and srv: "serves env c qm (channel_requests (toMQChannelSpec ch))"
    and cr: "ready_client c"
    and vt: "validateChannelType (chs_Type (toMQChannelSpec ch)) = None"
  shows "managed_object k channel_kind ns n view mq (embed_admin (\<lambda>w. sel (mq w)) put (client_admin env c)) (same_intent ch) 
    (\<lambda>m. ok_state P (sel m) \<and> good m)
    (\<lambda>m. reads_in_sync (GetChannel env c (toMQChannelSpec ch)) (chs_Attributes (toMQChannelSpec ch))
       (ChannelDriftCheckKeys (chs_Type (toMQChannelSpec ch))) (sel m)) (\<lambda>m. reads_missing (GetChannel env c (toMQChannelSpec ch)) (sel m))"
proof (rule operated_managed [OF op channel_port [OF srv cr toMQ_normal(3) vt]])
  fix o' assume d: "same_intent ch o'"
  have spec: "toMQChannelSpec o' = toMQChannelSpec ch" "\<not> isObserveOnly o'" "workloadAdoptionPolicy o' = AdoptionPolicyAdopt"
    using same_intent_channel [OF d] same_intent_policies [OF d] op by (simp_all add: operated_on_def Let_def)
  show "wk_precheck channel_kind o' = None \<and> (\<exists>m. wk_format channel_kind o' = Inr m)"
    using same_intent_channel [OF d] supported_channel [OF vt] by (simp add: kind_sel FormatDefineChannelMQSC_def)
  show "wk_delete channel_kind (embed_admin (\<lambda>w. sel (mq w)) put (client_admin env c)) o' = via (\<lambda>w. sel (mq w)) put (DeleteChannel env c (toMQChannelSpec ch))"
    by (simp add: kind_sel embed_admin_sel spec(1))
  show "wk_ensure channel_kind (embed_admin (\<lambda>w. sel (mq w)) put (client_admin env c)) o' s = apfst Some
      (ensureObject (via (\<lambda>w. sel (mq w)) put (GetChannel env c (toMQChannelSpec ch))) (via (\<lambda>w. sel (mq w)) put (DefineChannel env c (toMQChannelSpec ch)))
        AdoptionPolicyAdopt (workloadFirstAdoption o') (chs_Attributes (toMQChannelSpec ch))
        (ChannelDriftCheckKeys (chs_Type (toMQChannelSpec ch))) (''channel '' @ Quote (chs_Name (toMQChannelSpec ch))) s)" for s
    unfolding kind_sel spec(1) using spec(2,3) by (simp add: ensureChannel_via)
qed

lemma queue_managed:
  assumes op: "operated_on k ns n view mq sel good put env c q s" and cr: "ready_client c"
    and pr: "probed P" and vt: "validateQueueType (qs_Type (toMQQueueSpec q)) = None"
    and srv: "serves env c qm (queue_requests (toMQQueueSpec q) (queueKeysResolved (qs_Type (toMQQueueSpec q)) P))"
  shows "managed_object k queue_kind ns n view mq (embed_admin (\<lambda>w. sel (mq w)) put (client_admin env c)) (same_intent q) 
    (\<lambda>m. ok_state P (sel m) \<and> good m)
    (\<lambda>m. reads_in_sync (GetQueue env c (toMQQueueSpec q)) (qs_Attributes (toMQQueueSpec q))
       (queueKeysResolved (qs_Type (toMQQueueSpec q)) P) (sel m)) (\<lambda>m. reads_missing (GetQueue env c (toMQQueueSpec q)) (sel m))"
proof -
  note port = queue_port [OF srv cr toMQ_normal(1) vt pr]
  then obtain stored where pw: "port_works (GetQueue env c (toMQQueueSpec q)) (DefineQueue env c (toMQQueueSpec q))
    (DeleteQueue env c (toMQQueueSpec q)) (\<lambda>a. AttributesNeedUpdate (qs_Attributes (toMQQueueSpec q)) a
      (queueKeysResolved (qs_Type (toMQQueueSpec q)) P)) stored (ok_state P)" by blast
  have hc: "holds_client (\<lambda>w. (view w, good (mq w))) (\<lambda>w. sel (mq w)) put" using op by (simp add: operated_on_def Let_def)
  show ?thesis
  proof (rule operated_managed [OF op port])
    fix o' assume d: "same_intent q o'"
    have spec: "toMQQueueSpec o' = toMQQueueSpec q" "\<not> isObserveOnly o'" "workloadAdoptionPolicy o' = AdoptionPolicyAdopt"
      using same_intent_queue [OF d] same_intent_policies [OF d] op by (simp_all add: operated_on_def Let_def)
    show "wk_precheck queue_kind o' = None \<and> (\<exists>m. wk_format queue_kind o' = Inr m)"
      using vt by (simp add: kind_sel FormatDefineQueueMQSC_def spec(1) Let_def)
    show "wk_delete queue_kind (embed_admin (\<lambda>w. sel (mq w)) put (client_admin env c)) o' = via (\<lambda>w. sel (mq w)) put (DeleteQueue env c (toMQQueueSpec q))"
      by (simp add: kind_sel embed_admin_sel spec(1))
    show "wk_ensure queue_kind (embed_admin (\<lambda>w. sel (mq w)) put (client_admin env c)) o' s = apfst Some
      (ensureObject (via (\<lambda>w. sel (mq w)) put (GetQueue env c (toMQQueueSpec q))) (via (\<lambda>w. sel (mq w)) put (DefineQueue env c (toMQQueueSpec q)))
        AdoptionPolicyAdopt (workloadFirstAdoption o') (qs_Attributes (toMQQueueSpec q))
        (queueKeysResolved (qs_Type (toMQQueueSpec q)) P) (''queue '' @ Quote (qs_Name (toMQQueueSpec q))) s)"
      if "ok_state P (sel (mq (rs_world s)))" for s
      unfolding kind_sel spec(1) using spec(2,3) ensureQueue_via [OF hc pr pw that] by simp
  qed
qed


section \<open>A concrete operator\<close>

text \<open>An API server with one object and optimistic locking, and a client with its queue manager.\<close>

record ('spec, 'x) node =
  nd_obj :: "'spec workload option"
  nd_client :: "'x cstate"
  nd_version :: int

definition put_client :: "'x cstate \<Rightarrow> ('spec, 'x) node \<Rightarrow> ('spec, 'x) node" where
  "put_client c w = w\<lparr>nd_client := c\<rparr>"

definition write_object ::
  "('spec workload \<Rightarrow> 'spec workload) \<Rightarrow> ('spec workload \<Rightarrow> bool) \<Rightarrow> 'spec workload \<Rightarrow> ('spec, 'x) node \<Rightarrow>
     'spec workload result \<times> ('spec, 'x) node" where
  "write_object merge vanishes obj w =
     (case nd_obj w of
        None \<Rightarrow> (Inl (K8sError K8sNotFound ''not found''), w)
      | Some cur \<Rightarrow>
          if om_ResourceVersion (w_meta obj) \<noteq> om_ResourceVersion (w_meta cur)
          then (Inl (K8sError K8sConflict ''the object has been modified''), w)
          else (let new = with_rv (Itoa (nd_version w)) (merge cur) in
                (Inr new, w\<lparr>nd_version := nd_version w + 1, nd_obj := (if vanishes new then None else Some new)\<rparr>)))"

definition node_kube ::
  "QueueManagerConnection \<Rightarrow> 'x http_env \<Rightarrow> Client \<Rightarrow> ('spec, ('spec, 'x) node) kube" where
  "node_kube conn env c =
     \<lparr>k_lib = example_lib, k_intervals = defaultIntervals,
      k_get = (\<lambda>ns n w. (case nd_obj w of Some obj \<Rightarrow> Inr obj | None \<Rightarrow> Inl (K8sError K8sNotFound ''not found''), w)),
      k_getConn = (\<lambda>ns n w. (Inr conn, w)),
      k_statusUpdate = (\<lambda>obj. write_object (\<lambda>cur. cur\<lparr>w_Status := w_Status obj\<rparr>) (\<lambda>_. False) obj),
      k_update = (\<lambda>obj. write_object (\<lambda>cur. obj\<lparr>w_Status := w_Status cur\<rparr>)
        (\<lambda>new. om_Deleting (w_meta new) \<and> om_Finalizers (w_meta new) = []) obj),
      k_forConnection = (\<lambda>_ w. (Inr (embed_admin nd_client put_client (client_admin env c)), w)),
      k_now = (\<lambda>_. 0), k_jitter = (\<lambda>_ w. (0, w))\<rparr>"

lemma node_api: "api_serves (node_kube conn env c) ns n nd_obj nd_client"
proof -
  have rv: "om_ResourceVersion (w_meta (setFinalizers fs obj)) = om_ResourceVersion (w_meta obj)"
    "setFinalizers fs obj\<lparr>w_Status := w_Status obj\<rparr> = setFinalizers fs obj" for fs and obj :: "'a workload"
    by (simp_all add: setFinalizers_def)
  show ?thesis by (auto simp: api_serves_def node_kube_def write_object_def Let_def rv)
qed

lemma node_connected:
  "conditionsReady (qm_Conditions conn) \<Longrightarrow>
     connected good (node_kube conn env c) ns ref nd_obj nd_client (embed_admin nd_client put_client (client_admin env c))"
  by (auto simp: connected_def node_kube_def)

lemma node_holds: "holds_client nd_obj nd_client put_client"
  by (simp add: holds_client_def put_client_def)

lemma node_lib: "k8s_lib_laws (k_lib (node_kube conn env c))"
  by (simp add: node_kube_def example_lib_laws)

definition ready_conn :: QueueManagerConnection where
  "ready_conn = demo_conn [\<lparr>cn_Type = ConditionReady, cn_Status = ConditionTrue, cn_Reason = ReasonAvailable,
     cn_Message = [], cn_ObservedGeneration = 1\<rparr>]"

definition news_server :: "bool http_env" where
  "news_server = one_object_server (defineTopicParameters (toMQTopicSpec newsTopic)) topicDisplayParameters"

definition news_kube :: "(TopicSpecCR, (TopicSpecCR, bool) node) kube" where
  "news_kube = node_kube ready_conn news_server basic_client"

definition news_start :: "Topic \<Rightarrow> bool \<Rightarrow> (TopicSpecCR, bool) node rs" where
  "news_start t defined =
     \<lparr>rs_world = \<lparr>nd_obj = Some t, nd_client = (fresh_state defined)\<lparr>cs_probe := probedCache\<rparr>, nd_version = 2\<rparr>, rs_log = []\<rparr>"

definition dyingTopic :: Topic where
  "dyingTopic = newsTopic\<lparr>w_meta := (w_meta newsTopic)\<lparr>om_Deleting := True, om_Finalizers := [TopicFinalizer]\<rparr>\<rparr>"

lemma news_serves:
  "serves news_server basic_client (one_object (qualifierTopic, ts_Name (toMQTopicSpec newsTopic))
      (defineTopicParameters (toMQTopicSpec newsTopic))) (topic_requests (toMQTopicSpec newsTopic))"
  unfolding topic_requests_def news_server_def
  by (rule one_object_server_serves) (simp_all add: defineRequest_def deleteRequest_def topic_display_def display_request_def)

lemma news_operated:
  assumes "same_intent newsTopic t"
  shows "operated news_kube ns n nd_obj nd_client put_client news_server basic_client t (news_start t defined)"
proof -
  have "conditionsReady (qm_Conditions ready_conn)" "\<not> w_Suspend newsTopic" "\<not> isObserveOnly newsTopic"
    "workloadAdoptionPolicy newsTopic = AdoptionPolicyAdopt" by code_simp+
  then show ?thesis
    using assms same_intent_policies [OF assms] unfolding operated_def news_kube_def
    by (auto simp: same_intent_def news_start_def intro: node_api node_holds node_lib node_connected)
qed

interpretation news: managed_object news_kube topic_kind ns n nd_obj nd_client
  "embed_admin nd_client put_client (client_admin news_server basic_client)" "same_intent newsTopic" "ok_state P"
  "reads_in_sync (GetTopic news_server basic_client (ts_Name (toMQTopicSpec newsTopic)))
     (ts_Attributes (toMQTopicSpec newsTopic)) TopicDriftCheckKeys"
  "reads_missing (GetTopic news_server basic_client (ts_Name (toMQTopicSpec newsTopic)))"
  for ns n P
proof -
  have "ready_client basic_client" by code_simp
  from topic_managed [OF operated_operated_on [OF news_operated [OF same_intent_refl]] news_serves this, where P = P]
  show "managed_object news_kube topic_kind ns n nd_obj nd_client
    (embed_admin nd_client put_client (client_admin news_server basic_client)) (same_intent newsTopic) (ok_state P)
    (reads_in_sync (GetTopic news_server basic_client (ts_Name (toMQTopicSpec newsTopic)))
       (ts_Attributes (toMQTopicSpec newsTopic)) TopicDriftCheckKeys)
    (reads_missing (GetTopic news_server basic_client (ts_Name (toMQTopicSpec newsTopic))))"
    by simp
qed


end
