(* ===== verification/Rule_Display.thy ===== *)
theory Rule_Display
  imports MQSC_Auth
begin

text \<open>
  A CHLAUTH rule on its way to the queue manager and back (\<open>internal/adapter/mqrest/auth.go\<close>,
  \<open>internal/mqadmin/authmatch.go\<close>): the fields that the SET command carries under the lexical rules of MQSC, the
  text of DISPLAY that shows them, what the parser makes of it, and whether the comparison then
  asks for an update.
\<close>

section \<open>What SET CHLAUTH carries\<close>

definition own :: "bool \<Rightarrow> string \<Rightarrow> string \<Rightarrow> (string \<times> string) list" where
  "own b k v = (if b \<and> v \<noteq> [] then [(k, v)] else [])"

definition rule_pairs :: "ChannelAuthSpec \<Rightarrow> (string \<times> string) list" where
  "rule_pairs spec =
     (let t = ca_RuleType spec in
      own True (if t = RuleTypeBlockAddr then ''ADDRLIST'' else ''ADDRESS'') (ca_Address spec) @
      own (t = RuleTypeUserMap) ''CLNTUSER'' (ca_ClientUser spec) @
      own (t = RuleTypeSSLPeerMap) ''SSLPEER'' (ca_SSLPeerName spec) @
      own (t = RuleTypeQMGRMap) ''QMNAME'' (ca_RemoteQueueManager spec) @
      own True ''USERLIST'' (ca_UserList spec) @ own True ''USERSRC'' (ca_UserSource spec) @
      own True ''MCAUSER'' (ca_McaUser spec) @ own True ''CHCKCLNT'' (ca_CheckClient spec) @
      own True ''DESCR'' (ca_Description spec))"

text \<open>Values that are sent without quotes: the type and two enumerations.\<close>

definition bare :: "string \<Rightarrow> bool" where
  "bare v \<longleftrightarrow> CHR '')'' \<notin> set v \<and> (v \<noteq> [] \<longrightarrow> hd v \<noteq> squote)"

definition rule_text :: "string \<Rightarrow> string \<Rightarrow> string" where
  "rule_text k v = '' '' @ k @ ''('' @ (if k \<in> {''TYPE'', ''USERSRC'', ''CHCKCLNT'', ''ACTION''} then v else quoted v) @ '')''"

definition rule_texts :: "(string \<times> string) list \<Rightarrow> string" where
  "rule_texts kvs = concat (map (\<lambda>(k, v). rule_text k v) kvs)"

lemma rule_texts_simps [simp]:
  "rule_texts [] = []" "rule_texts ((k, v) # kvs) = rule_text k v @ rule_texts kvs"
  "rule_texts (kvs @ kvs') = rule_texts kvs @ rule_texts kvs'"
  by (simp_all add: rule_texts_def)

definition spaced :: "string list \<Rightarrow> string" where
  "spaced xs = concat (map (\<lambda>y. '' '' @ y) xs)"

lemma go_join_spaced: "go_join (x # xs) '' '' = x @ spaced xs"
  by (simp add: spaced_def go_join_Cons)

lemma spaced_append: "spaced (xs @ ys) = spaced xs @ spaced ys"
  by (simp add: spaced_def)

lemma spaced_clauses:
  "spaced (optional (channelAuthAddressClause spec)) =
     rule_texts (own True (if ca_RuleType spec = RuleTypeBlockAddr then ''ADDRLIST'' else ''ADDRESS'') (ca_Address spec))"
  "spaced (optional (channelAuthClientUserClause spec)) =
     rule_texts (own (ca_RuleType spec = RuleTypeUserMap) ''CLNTUSER'' (ca_ClientUser spec))"
  "spaced (optional (channelAuthSSLPeerClause spec)) =
     rule_texts (own (ca_RuleType spec = RuleTypeSSLPeerMap) ''SSLPEER'' (ca_SSLPeerName spec))"
  "spaced (optional (channelAuthRemoteQueueManagerClause spec)) =
     rule_texts (own (ca_RuleType spec = RuleTypeQMGRMap) ''QMNAME'' (ca_RemoteQueueManager spec))"
  by (auto simp: spaced_def optional_def own_def rule_text_def clause_def channelAuthAddressClause_def
      channelAuthClientUserClause_def channelAuthSSLPeerClause_def channelAuthRemoteQueueManagerClause_def)

lemma spaced_optional:
  "spaced (optional_if v (clause ''USERLIST'' v)) = rule_texts (own True ''USERLIST'' v)"
  "spaced (optional_if v (''USERSRC('' @ v @ '')'')) = rule_texts (own True ''USERSRC'' v)"
  "spaced (optional_if v (clause ''MCAUSER'' v)) = rule_texts (own True ''MCAUSER'' v)"
  "spaced (optional_if v (''CHCKCLNT('' @ v @ '')'')) = rule_texts (own True ''CHCKCLNT'' v)"
  "spaced (optional_if v (clause ''DESCR'' v)) = rule_texts (own True ''DESCR'' v)"
  by (auto simp: spaced_def optional_if_def own_def rule_text_def clause_def)

lemma buildSetChannelAuthMQSC_text:
  assumes "ca_ChannelName spec \<noteq> []" "ca_RuleType spec \<noteq> []"
  shows "buildSetChannelAuthMQSC spec mqscActionReplace =
    Inr (''SET CHLAUTH('' @ quoted (ca_ChannelName spec) @ '')'' @
      rule_texts ((''TYPE'', ca_RuleType spec) # rule_pairs spec @ [(''ACTION'', mqscActionReplace)]))"
proof -
  let ?first = "''SET CHLAUTH('' @ quoted (ca_ChannelName spec) @ '') TYPE('' @ ca_RuleType spec @ '')''"
  let ?opts = "optional (channelAuthAddressClause spec) @ optional (channelAuthClientUserClause spec) @
    optional (channelAuthSSLPeerClause spec) @ optional (channelAuthRemoteQueueManagerClause spec) @
    optional_if (ca_UserList spec) (clause ''USERLIST'' (ca_UserList spec)) @
    optional_if (ca_UserSource spec) (''USERSRC('' @ ca_UserSource spec @ '')'') @
    optional_if (ca_McaUser spec) (clause ''MCAUSER'' (ca_McaUser spec)) @
    optional_if (ca_CheckClient spec) (''CHCKCLNT('' @ ca_CheckClient spec @ '')'') @
    optional_if (ca_Description spec) (clause ''DESCR'' (ca_Description spec))"
  have "buildSetChannelAuthMQSC spec mqscActionReplace = Inr (?first @ spaced (?opts @ [''ACTION('' @ mqscActionReplace @ '')'']))"
    using assms by (simp add: buildSetChannelAuthMQSC_def Let_def go_join_spaced)
  moreover have "spaced ?opts = rule_texts (rule_pairs spec)"
    by (simp only: spaced_append spaced_clauses spaced_optional rule_pairs_def Let_def rule_texts_simps)
  ultimately show ?thesis by (simp add: spaced_append) (simp add: spaced_def rule_text_def)
qed

lemma mqsc_parse_value_bare:
  assumes "bare v"
  shows "mqsc_parse_value (v @ '')'' @ rest) = Some (v, rest)"
proof -
  have "takeWhile (\<lambda>c. c \<noteq> CHR '')'') (v @ CHR '')'' # rest) = v \<and>
      dropWhile (\<lambda>c. c \<noteq> CHR '')'') (v @ CHR '')'' # rest) = CHR '')'' # rest"
    using assms by (intro takeWhile_append_stop) (auto simp: bare_def)
  with assms show ?thesis by (cases v) (simp_all add: mqsc_parse_value_def bare_def)
qed

lemma mqsc_parse_attr_text:
  assumes "plain_key k" "k \<in> {''TYPE'', ''USERSRC'', ''CHCKCLNT'', ''ACTION''} \<Longrightarrow> bare v"
  shows "mqsc_parse_attr (tl (rule_text k v) @ rest) = Some (k, v, rest)"
proof -
  define body where "body = (if k \<in> {''TYPE'', ''USERSRC'', ''CHCKCLNT'', ''ACTION''} then v else quoted v)"
  have t: "tl (rule_text k v) @ rest = k @ CHR ''('' # (body @ '')'' @ rest)" by (simp add: rule_text_def body_def)
  have "takeWhile (\<lambda>c. c \<noteq> CHR ''('') (k @ CHR ''('' # (body @ '')'' @ rest)) = k \<and>
      dropWhile (\<lambda>c. c \<noteq> CHR ''('') (k @ CHR ''('' # (body @ '')'' @ rest)) = CHR ''('' # (body @ '')'' @ rest)"
    using assms(1) by (intro takeWhile_append_stop) (auto simp: plain_key_def)
  moreover have "mqsc_parse_value (body @ '')'' @ rest) = Some (v, rest)"
    using mqsc_parse_value_bare [OF assms(2)] mqsc_parse_value_quoted by (simp add: body_def)
  ultimately show ?thesis unfolding t by (simp add: mqsc_parse_attr_def)
qed

lemma mqsc_parse_attrs_text:
  assumes "\<forall>(k, v) \<in> set kvs. plain_key k \<and> (k \<in> {''TYPE'', ''USERSRC'', ''CHCKCLNT'', ''ACTION''} \<longrightarrow> bare v)"
  shows "mqsc_parse_attrs (length kvs) (rule_texts kvs) = Some kvs"
  using assms
proof (induction kvs)
  case (Cons p kvs)
  obtain k v where p: "p = (k, v)" by fastforce
  obtain body where b: "rule_text k v = CHR '' '' # body" by (simp add: rule_text_def)
  have "mqsc_parse_attr (tl (rule_text k v) @ rule_texts kvs) = Some (k, v, rule_texts kvs)"
    using Cons.prems p by (intro mqsc_parse_attr_text) auto
  with Cons p b show ?case by simp
qed simp

lemma rule_pairs_keys:
  "(k, v) \<in> set (rule_pairs spec) \<Longrightarrow>
     k \<in> {''ADDRLIST'', ''ADDRESS'', ''CLNTUSER'', ''SSLPEER'', ''QMNAME'', ''USERLIST'', ''USERSRC'', ''MCAUSER'', ''CHCKCLNT'', ''DESCR''}"
  by (auto simp: rule_pairs_def own_def Let_def split: if_splits)

section \<open>What DISPLAY CHLAUTH shows\<close>

text \<open>
  The message that the queue manager puts before a record, and the record itself: pairs with blanks
  between them, over any number of lines.
\<close>

definition displayHeader :: string where
  "displayHeader = ''AMQ8878I: Display channel authentication record details.''"

definition grantHeader :: string where
  "grantHeader = ''AMQ8864I: Display authority record details.''"

abbreviation "displayHeaders \<equiv> {displayHeader, grantHeader}"

definition padded :: "(nat \<times> string \<times> string) list \<Rightarrow> string" where
  "padded ps = concat (map (\<lambda>(n, kv). replicate (Suc n) (CHR '' '') @ render_pair kv) ps)"

definition trimmed :: "string \<Rightarrow> string" where
  "trimmed v = go_trim_char squote (TrimSpace v)"

lemma findAllPairs_skip: "\<not> key_start c \<Longrightarrow> findAllPairs (c # s) = findAllPairs s"
  by (subst findAllPairs.simps) (simp add: matchPair_def)

lemma space_not_key: "go_is_space c \<Longrightarrow> \<not> key_start c"
  by (auto simp: go_is_space_def key_start_def)

lemma findAllPairs_dropWhile: "findAllPairs (dropWhile go_is_space s) = findAllPairs s"
  by (induction s) (simp_all add: findAllPairs_skip space_not_key)

lemma findAllPairs_blanks: "findAllPairs (replicate n (CHR '' '') @ s) = findAllPairs s"
  by (induction n) (simp_all add: findAllPairs_space)

lemma findAllPairs_padded:
  assumes "\<forall>(k, v) \<in> set (map snd ps). display_key k \<and> CHR '')'' \<notin> set v"
  shows "findAllPairs (padded ps) = map snd ps"
  using assms
proof (induction ps)
  case (Cons p ps)
  obtain n k v where p: "p = (n, k, v)" by (metis surj_pair)
  have "findAllPairs (render_pair (k, v) @ padded ps) = (k, v) # findAllPairs (padded ps)"
    using Cons.prems p by (intro findAllPairs_render) auto
  with Cons p show ?case by (simp add: padded_def findAllPairs_space findAllPairs_blanks)
qed (simp add: padded_def)

lemma TrimSpace_ends: "s \<noteq> [] \<Longrightarrow> \<not> go_is_space (last s) \<Longrightarrow> TrimSpace s = dropWhile go_is_space s"
proof (induction s)
  case (Cons c s)
  show ?case
  proof (cases "go_is_space c")
    case True
    with Cons show ?thesis by (cases s) (auto simp: TrimSpace_def)
  next
    case False
    have "dropWhile go_is_space (rev (c # s)) = rev (c # s)"
      using Cons.prems(2) unfolding dropWhile_eq_self_iff hd_rev by simp
    with False show ?thesis by (simp add: TrimSpace_def)
  qed
qed simp

lemma skipMarker_header: "h \<in> displayHeaders \<Longrightarrow> skipMarker (h @ s) = TrimSpace s"
proof -
  have "go_index (displayHeader @ s) ''details.'' = Some 48" by (simp add: displayHeader_def)
  moreover have "go_index (grantHeader @ s) ''details.'' = Some 35" by (simp add: grantHeader_def)
  moreover assume "h \<in> displayHeaders"
  ultimately show ?thesis by (auto simp: skipMarker_def displayHeader_def grantHeader_def)
qed

lemma findAllPairs_displayed:
  assumes "h \<in> displayHeaders" "\<forall>(k, v) \<in> set (map snd ps). display_key k \<and> CHR '')'' \<notin> set v"
  shows "findAllPairs (skipMarker (h @ padded ps)) = map snd ps"
proof (cases "ps = []")
  case False
  then obtain qs n k v where ps: "ps = qs @ [(n, k, v)]" by (metis rev_exhaust surj_pair)
  have "padded ps \<noteq> []" "last (padded ps) = CHR '')''" unfolding ps by (simp_all add: padded_def render_pair_def)
  then have "TrimSpace (padded ps) = dropWhile go_is_space (padded ps)"
    by (intro TrimSpace_ends) (simp_all add: go_is_space_def)
  then show ?thesis by (simp add: skipMarker_header [OF assms(1)] findAllPairs_dropWhile findAllPairs_padded [OF assms(2)])
qed (use skipMarker_header [OF assms(1), of "[]"] in \<open>simp add: padded_def\<close>)

text \<open>What the parser finds under a keyword.\<close>

lemma display_key_upper: "display_key k \<Longrightarrow> ToUpper k = k"
proof -
  assume k: "display_key k"
  have "go_upper_char c = c" if "key_char c" for c
    using that by (auto simp: key_char_def key_start_def go_is_digit_def go_upper_char_def)
  moreover have "\<forall>c \<in> set k. key_char c"
    using k by (cases k) (auto simp: display_key_def list_all_iff key_char_def)
  ultimately show ?thesis by (simp add: ToUpper_def map_idI)
qed

lemma display_key_ToLower: "display_key k \<Longrightarrow> display_key K \<Longrightarrow> ToLower k = ToLower K \<longleftrightarrow> k = K"
  by (metis ToUpper_ToLower display_key_upper)

lemma map_of_lower:
  "\<forall>(k, v) \<in> set kvs. display_key k \<Longrightarrow> display_key K \<Longrightarrow>
     map_of (map (\<lambda>(k, v). (ToLower k, f v)) kvs) (ToLower K) = map_option f (map_of kvs K)"
  by (induction kvs) (auto simp: display_key_ToLower)

lemma distinct_lower_keys:
  "\<forall>(k, v) \<in> set kvs. display_key k \<Longrightarrow> distinct (map fst kvs) \<Longrightarrow> distinct (map (\<lambda>(k, v). ToLower k) kvs)"
  by (induction kvs) (force simp: display_key_ToLower)+

lemma parsed_field:
  assumes kvs: "\<forall>(k, v) \<in> set (map snd ps). display_key k \<and> CHR '')'' \<notin> set v" "distinct (map fst (map snd ps))"
    and "go_join lines '' '' = h @ padded ps" "display_key K" "h \<in> displayHeaders"
  shows "getz (parseMQSCDisplayAttributes lines) (ToLower K) = trimmed (getz (map snd ps) K)"
proof -
  let ?kvs = "map snd ps"
  have low: "\<forall>(k, v) \<in> set ?kvs. display_key k" using kvs(1) by fastforce
  have d: "distinct (map fst (map (\<lambda>(k, v). (ToLower k, trimmed v)) ?kvs))"
    using distinct_lower_keys [OF low kvs(2)] by (simp add: o_def case_prod_unfold)
  have "parseMQSCDisplayAttributes lines =
      fold (\<lambda>(k, v) attrs. AList.update (ToLower k) (trimmed v) attrs) ?kvs []"
    unfolding parseMQSCDisplayAttributes_def Let_def assms(3) findAllPairs_displayed [OF assms(5) kvs(1)] trimmed_def ..
  then have "map_of (parseMQSCDisplayAttributes lines) = map_of (map (\<lambda>(k, v). (ToLower k, trimmed v)) ?kvs)"
    using map_of_fold_update [where f = ToLower and g = "\<lambda>k v. trimmed v" and attrs = ?kvs and ps = "[]"]
      map_of_rev_distinct [OF d] by simp
  then show ?thesis
    using map_of_lower [OF low assms(4), of trimmed] unfolding getz_def
    by (simp split: option.splits) (simp add: trimmed_def go_trim_char_def)
qed

section \<open>Read back and compared\<close>

definition comparedKeys :: "string list" where
  "comparedKeys = [''ADDRESS'', ''ADDRLIST'', ''USERLIST'', ''CLNTUSER'', ''SSLPEER'', ''QMNAME'', ''DESCR'']"

text \<open>
  \<open>shows_rule\<close>: a record as it is after SET. It shows the fields the command carried, only the
  address list if that is all DISPLAY asks for, and perhaps others: defaults, which are blank for the keywords
  that are always compared.
\<close>

definition required_pairs :: "ChannelAuthSpec \<Rightarrow> (string \<times> string) list" where
  "required_pairs spec =
     (if ca_RuleType spec = RuleTypeBlockAddr then filter (\<lambda>(k, v). k = ''ADDRLIST'') (rule_pairs spec)
      else rule_pairs spec)"

definition shows_rule :: "ChannelAuthSpec \<Rightarrow> (string \<times> string) list \<Rightarrow> bool" where
  "shows_rule spec kvs \<longleftrightarrow>
     distinct (map fst kvs) \<and> set (required_pairs spec) \<subseteq> set kvs \<and>
     (\<forall>(k, v) \<in> set kvs. display_key k \<and> CHR '')'' \<notin> set v \<and>
        ((k, v) \<in> set (rule_pairs spec) \<or> k \<notin> set comparedKeys \<or> TrimSpace v = []))"

text \<open>The fields of other rule types are empty, and no value starts or ends with a quote.\<close>

definition own_fields :: "ChannelAuthSpec \<Rightarrow> bool" where
  "own_fields spec \<longleftrightarrow>
     (TrimSpace (ca_ClientUser spec) \<noteq> [] \<longrightarrow> ca_RuleType spec = RuleTypeUserMap) \<and>
     (TrimSpace (ca_SSLPeerName spec) \<noteq> [] \<longrightarrow> ca_RuleType spec = RuleTypeSSLPeerMap) \<and>
     (TrimSpace (ca_RemoteQueueManager spec) \<noteq> [] \<longrightarrow> ca_RuleType spec = RuleTypeQMGRMap) \<and>
     (ca_RuleType spec = RuleTypeBlockAddr \<longrightarrow>
        TrimSpace (ca_UserList spec) = [] \<and> TrimSpace (ca_McaUser spec) = [] \<and>
        TrimSpace (ca_UserSource spec) = [] \<and> TrimSpace (ca_CheckClient spec) = [])"

definition unquoted :: "ChannelAuthSpec \<Rightarrow> bool" where
  "unquoted spec \<longleftrightarrow> (\<forall>(k, v) \<in> set (rule_pairs spec). trimmed v = TrimSpace v)"

lemma trimmed_blank: "TrimSpace v = [] \<Longrightarrow> trimmed v = []"
  by (simp add: trimmed_def go_trim_char_def)

lemma shown_cases:
  assumes "shows_rule spec kvs" "k \<in> set comparedKeys"
  obtains (sent) v where "(k, v) \<in> set (rule_pairs spec)" "getz kvs k = v" | (blank) "TrimSpace (getz kvs k) = []"
proof (cases "map_of kvs k")
  case (Some v)
  then show thesis
    using map_of_SomeD [OF Some] assms sent blank unfolding shows_rule_def by (fastforce simp: getz_def)
qed (use blank in \<open>simp add: getz_def\<close>)

lemma shown_blank:
  assumes "shows_rule spec kvs" "k \<in> set comparedKeys" "\<And>v. (k, v) \<in> set (rule_pairs spec) \<Longrightarrow> TrimSpace v = []"
  shows "trimmed (getz kvs k) = []"
  using assms(1,2) by (cases rule: shown_cases) (use assms(3) in \<open>auto intro: trimmed_blank\<close>)

text \<open>One field: shown as it was sent, or blank on both sides.\<close>

lemma field_matches:
  assumes "shows_rule spec kvs" "unquoted spec"
    and "\<And>v'. (k, v') \<in> set (rule_pairs spec) \<Longrightarrow> v' = v"
    and "(k, v) \<in> set (required_pairs spec) \<or> TrimSpace v = [] \<and> k \<in> set comparedKeys"
  shows "fold_eq v (trimmed (getz kvs k))"
proof (cases "(k, v) \<in> set (required_pairs spec)")
  case True
  then have "(k, v) \<in> set kvs" "(k, v) \<in> set (rule_pairs spec)"
    using assms(1) by (auto simp: shows_rule_def required_pairs_def split: if_splits)
  then have "trimmed (getz kvs k) = TrimSpace v"
    using assms(1,2) by (auto simp: shows_rule_def unquoted_def getz_def)
  then show ?thesis by (simp add: fold_eq_def)
next
  case False
  then have "trimmed (getz kvs k) = []" using assms(3,4) by (intro shown_blank [OF assms(1)]) auto
  with False assms(4) show ?thesis by (simp add: fold_eq_def)
qed

lemma rule_pairs_mem:
  "(''ADDRESS'', v) \<in> set (rule_pairs spec) \<longleftrightarrow> ca_RuleType spec \<noteq> RuleTypeBlockAddr \<and> v = ca_Address spec \<and> v \<noteq> []"
  "(''ADDRLIST'', v) \<in> set (rule_pairs spec) \<longleftrightarrow> ca_RuleType spec = RuleTypeBlockAddr \<and> v = ca_Address spec \<and> v \<noteq> []"
  "(''CLNTUSER'', v) \<in> set (rule_pairs spec) \<longleftrightarrow> ca_RuleType spec = RuleTypeUserMap \<and> v = ca_ClientUser spec \<and> v \<noteq> []"
  "(''SSLPEER'', v) \<in> set (rule_pairs spec) \<longleftrightarrow> ca_RuleType spec = RuleTypeSSLPeerMap \<and> v = ca_SSLPeerName spec \<and> v \<noteq> []"
  "(''QMNAME'', v) \<in> set (rule_pairs spec) \<longleftrightarrow> ca_RuleType spec = RuleTypeQMGRMap \<and> v = ca_RemoteQueueManager spec \<and> v \<noteq> []"
  "(''USERLIST'', v) \<in> set (rule_pairs spec) \<longleftrightarrow> v = ca_UserList spec \<and> v \<noteq> []"
  "(''MCAUSER'', v) \<in> set (rule_pairs spec) \<longleftrightarrow> v = ca_McaUser spec \<and> v \<noteq> []"
  "(''USERSRC'', v) \<in> set (rule_pairs spec) \<longleftrightarrow> v = ca_UserSource spec \<and> v \<noteq> []"
  "(''CHCKCLNT'', v) \<in> set (rule_pairs spec) \<longleftrightarrow> v = ca_CheckClient spec \<and> v \<noteq> []"
  "(''DESCR'', v) \<in> set (rule_pairs spec) \<longleftrightarrow> v = ca_Description spec \<and> v \<noteq> []"
  by (auto simp: rule_pairs_def own_def Let_def)

text \<open>\<open>reads attrs kvs\<close>: the attributes hold the trimmed values of the record.\<close>

definition reads :: "attrs \<Rightarrow> (string \<times> string) list \<Rightarrow> bool" where
  "reads attrs kvs \<longleftrightarrow>
     (\<forall>K \<in> set (comparedKeys @ [''MCAUSER'', ''USERSRC'', ''CHCKCLNT'']). getz attrs (ToLower K) = trimmed (getz kvs K))"

lemma rule_keys: "\<forall>K \<in> set (comparedKeys @ [''MCAUSER'', ''USERSRC'', ''CHCKCLNT'']). display_key K"
  by code_simp

lemma reads_fields:
  assumes "reads attrs kvs"
  shows "getz attrs ''address'' = trimmed (getz kvs ''ADDRESS'')" "getz attrs ''addrlist'' = trimmed (getz kvs ''ADDRLIST'')"
    "getz attrs ''userlist'' = trimmed (getz kvs ''USERLIST'')" "getz attrs ''clntuser'' = trimmed (getz kvs ''CLNTUSER'')"
    "getz attrs ''sslpeer'' = trimmed (getz kvs ''SSLPEER'')" "getz attrs ''qmname'' = trimmed (getz kvs ''QMNAME'')"
    "getz attrs ''mcauser'' = trimmed (getz kvs ''MCAUSER'')" "getz attrs ''usersrc'' = trimmed (getz kvs ''USERSRC'')"
    "getz attrs ''chckclnt'' = trimmed (getz kvs ''CHCKCLNT'')" "getz attrs ''descr'' = trimmed (getz kvs ''DESCR'')"
proof -
  have low: "ToLower ''ADDRESS'' = ''address''" "ToLower ''ADDRLIST'' = ''addrlist''" "ToLower ''USERLIST'' = ''userlist''"
    "ToLower ''CLNTUSER'' = ''clntuser''" "ToLower ''SSLPEER'' = ''sslpeer''" "ToLower ''QMNAME'' = ''qmname''"
    "ToLower ''MCAUSER'' = ''mcauser''" "ToLower ''USERSRC'' = ''usersrc''" "ToLower ''CHCKCLNT'' = ''chckclnt''"
    "ToLower ''DESCR'' = ''descr''" by code_simp+
  show "getz attrs ''address'' = trimmed (getz kvs ''ADDRESS'')" "getz attrs ''addrlist'' = trimmed (getz kvs ''ADDRLIST'')"
    "getz attrs ''userlist'' = trimmed (getz kvs ''USERLIST'')" "getz attrs ''clntuser'' = trimmed (getz kvs ''CLNTUSER'')"
    "getz attrs ''sslpeer'' = trimmed (getz kvs ''SSLPEER'')" "getz attrs ''qmname'' = trimmed (getz kvs ''QMNAME'')"
    "getz attrs ''mcauser'' = trimmed (getz kvs ''MCAUSER'')" "getz attrs ''usersrc'' = trimmed (getz kvs ''USERSRC'')"
    "getz attrs ''chckclnt'' = trimmed (getz kvs ''CHCKCLNT'')" "getz attrs ''descr'' = trimmed (getz kvs ''DESCR'')"
    using assms unfolding reads_def comparedKeys_def by (simp_all add: low)
qed

lemma shown_description:
  assumes "shows_rule spec kvs" "unquoted spec"
  shows "trimmed (getz kvs ''DESCR'') = [] \<or> trimmed (getz kvs ''DESCR'') = TrimSpace (ca_Description spec)"
proof -
  have "''DESCR'' \<in> set comparedKeys" by (simp add: comparedKeys_def)
  with assms(1) show ?thesis
  proof (cases rule: shown_cases)
    case (sent v)
    then have "trimmed v = TrimSpace v" using assms(2) unfolding unquoted_def by blast
    with sent show ?thesis by (simp add: rule_pairs_mem)
  qed (simp add: trimmed_blank)
qed

lemma shown_address:
  assumes "shows_rule spec kvs" "unquoted spec" "reads attrs kvs"
  shows "fold_eq (ca_Address spec) (ca_Address (channelAuthStateFromAttributes spec attrs))"
proof -
  note defs = rule_pairs_mem required_pairs_def comparedKeys_def
  have "fold_eq (ca_Address spec) (trimmed (getz kvs (if ca_RuleType spec = RuleTypeBlockAddr then ''ADDRLIST'' else ''ADDRESS'')))"
    by (cases "ca_RuleType spec = RuleTypeBlockAddr") (simp_all, (rule field_matches [OF assms(1,2)]; auto simp: defs)+)
  moreover have "trimmed (getz kvs ''ADDRESS'') = []" if "ca_RuleType spec = RuleTypeBlockAddr"
    using that by (intro shown_blank [OF assms(1)]) (simp_all add: defs)
  ultimately show ?thesis
    by (cases "ca_RuleType spec = RuleTypeBlockAddr")
      (auto simp: channelAuthStateFromAttributes_def reads_fields [OF assms(3)])
qed

lemma rule_in_sync:
  assumes "shows_rule spec kvs" "unquoted spec" "own_fields spec" "reads attrs kvs"
  shows "\<not> ChannelAuthNeedsUpdate spec (Some (channelAuthStateFromAttributes spec attrs))"
proof -
  let ?st = "channelAuthStateFromAttributes spec attrs"
  note m = field_matches [OF assms(1,2)]
    and defs = rule_pairs_mem required_pairs_def comparedKeys_def own_fields_def
    and st = channelAuthStateFromAttributes_def reads_fields [OF assms(4)]
  have "fold_eq (ca_UserList spec) (trimmed (getz kvs ''USERLIST''))"
    "fold_eq (ca_ClientUser spec) (trimmed (getz kvs ''CLNTUSER''))"
    "fold_eq (ca_SSLPeerName spec) (trimmed (getz kvs ''SSLPEER''))"
    "fold_eq (ca_RemoteQueueManager spec) (trimmed (getz kvs ''QMNAME''))"
    by (rule m; use assms(3) in \<open>auto simp: defs\<close>)+
  then have e: "fold_eq (ca_UserList spec) (ca_UserList ?st)" "fold_eq (ca_ClientUser spec) (ca_ClientUser ?st)"
    "fold_eq (ca_SSLPeerName spec) (ca_SSLPeerName ?st)" "fold_eq (ca_RemoteQueueManager spec) (ca_RemoteQueueManager ?st)"
    by (simp_all add: st)
  have "TrimSpace (ca_McaUser spec) \<noteq> [] \<Longrightarrow> fold_eq (ca_McaUser spec) (trimmed (getz kvs ''MCAUSER''))"
    "TrimSpace (ca_UserSource spec) \<noteq> [] \<Longrightarrow> fold_eq (ca_UserSource spec) (trimmed (getz kvs ''USERSRC''))"
    "TrimSpace (ca_CheckClient spec) \<noteq> [] \<Longrightarrow> fold_eq (ca_CheckClient spec) (trimmed (getz kvs ''CHCKCLNT''))"
    by (rule m; use assms(3) in \<open>auto simp: defs\<close>)+
  then have o: "\<not> (TrimSpace (ca_McaUser spec) \<noteq> [] \<and> \<not> fold_eq (ca_McaUser spec) (ca_McaUser ?st))"
    "\<not> (TrimSpace (ca_UserSource spec) \<noteq> [] \<and> \<not> fold_eq (ca_UserSource spec) (ca_UserSource ?st))"
    "\<not> (TrimSpace (ca_CheckClient spec) \<noteq> [] \<and> \<not> fold_eq (ca_CheckClient spec) (ca_CheckClient ?st))"
    by (auto simp: st)
  have d: "\<not> (TrimSpace (ca_Description ?st) \<noteq> [] \<and> TrimSpace (ca_Description spec) \<noteq> TrimSpace (ca_Description ?st))"
    using shown_description [OF assms(1,2)] by (auto simp: st)
  show ?thesis
    unfolding ChannelAuthNeedsUpdate_def option.case
    by (simp only: shown_address [OF assms(1,2,4)] d o e if_False not_True_eq_False not_False_eq_True)
qed

text \<open>A field of another rule type is compared although it was not sent.\<close>

definition foreign_field :: "ChannelAuthSpec \<Rightarrow> bool" where
  "foreign_field spec \<longleftrightarrow>
     TrimSpace (ca_ClientUser spec) \<noteq> [] \<and> ca_RuleType spec \<noteq> RuleTypeUserMap \<or>
     TrimSpace (ca_SSLPeerName spec) \<noteq> [] \<and> ca_RuleType spec \<noteq> RuleTypeSSLPeerMap \<or>
     TrimSpace (ca_RemoteQueueManager spec) \<noteq> [] \<and> ca_RuleType spec \<noteq> RuleTypeQMGRMap"

lemma foreign_field_drifts:
  assumes "shows_rule spec kvs" "foreign_field spec" "reads attrs kvs"
  shows "ChannelAuthNeedsUpdate spec (Some (channelAuthStateFromAttributes spec attrs))"
proof -
  note f = reads_fields [OF assms(3)] and b = shown_blank [OF assms(1)]
  have ne: "\<not> fold_eq v []" if "TrimSpace v \<noteq> []" for v using that by (simp add: fold_eq_def EqualFold_def ToLower_def)
  have "trimmed (getz kvs ''CLNTUSER'') = []" if "ca_RuleType spec \<noteq> RuleTypeUserMap"
    using that by (intro b) (simp_all add: rule_pairs_mem comparedKeys_def)
  moreover have "trimmed (getz kvs ''SSLPEER'') = []" if "ca_RuleType spec \<noteq> RuleTypeSSLPeerMap"
    using that by (intro b) (simp_all add: rule_pairs_mem comparedKeys_def)
  moreover have "trimmed (getz kvs ''QMNAME'') = []" if "ca_RuleType spec \<noteq> RuleTypeQMGRMap"
    using that by (intro b) (simp_all add: rule_pairs_mem comparedKeys_def)
  ultimately show ?thesis
    using assms(2) ne unfolding foreign_field_def ChannelAuthNeedsUpdate_def channelAuthStateFromAttributes_def
    by (auto simp: f)
qed

text \<open>The text of a record.\<close>

definition displays_rule :: "ChannelAuthSpec \<Rightarrow> string list \<Rightarrow> bool" where
  "displays_rule spec lines \<longleftrightarrow>
     (\<exists>ps. go_join lines '' '' = displayHeader @ padded ps \<and> shows_rule spec (map snd ps))"

lemma displays_rule_reads:
  assumes "displays_rule spec lines"
  obtains kvs where "shows_rule spec kvs" "reads (parseMQSCDisplayAttributes lines) kvs"
proof -
  obtain ps where ps: "go_join lines '' '' = displayHeader @ padded ps" "shows_rule spec (map snd ps)"
    using assms unfolding displays_rule_def by blast
  then have "\<forall>(k, v) \<in> set (map snd ps). display_key k \<and> CHR '')'' \<notin> set v" "distinct (map fst (map snd ps))"
    unfolding shows_rule_def by auto
  from parsed_field [OF this ps(1)] rule_keys have "reads (parseMQSCDisplayAttributes lines) (map snd ps)"
    unfolding reads_def by blast
  with that ps(2) show thesis by blast
qed

text \<open>C37: A CHLAUTH rule comes back as it was sent, if only the fields of its type are set. Read with
  the lexical rules of MQSC, the SET command has the channel, the type and one keyword with its value
  for each field that is set and belongs to the type, whatever characters the quoted values hold. When
  DISPLAY shows a record with these fields, the text parser and the comparison find nothing to update, provided
  that no value holds a closing parenthesis or starts or ends with a quote. But a client user, SSL peer
  name or remote queue manager that is set on a rule of another type is not sent and still compared:
  after the command the rule needs an update, whatever defaults the record shows.\<close>

theorem channel_auth_roundtrip:
  assumes "ca_ChannelName spec \<noteq> []" "ca_RuleType spec \<noteq> []"
    and "bare (ca_RuleType spec)" "bare (ca_UserSource spec)" "bare (ca_CheckClient spec)"
  shows "(\<exists>attrs tail. buildSetChannelAuthMQSC spec mqscActionReplace = Inr (''SET CHLAUTH('' @ [squote] @ attrs) \<and>
      mqsc_lex_string attrs = Some (ca_ChannelName spec, '')'' @ tail) \<and>
      mqsc_parse_attrs (length (rule_pairs spec) + 2) tail =
        Some ((''TYPE'', ca_RuleType spec) # rule_pairs spec @ [(''ACTION'', mqscActionReplace)])) \<and>
    (\<forall>lines. displays_rule spec lines \<longrightarrow>
       (own_fields spec \<and> unquoted spec \<longrightarrow>
          \<not> ChannelAuthNeedsUpdate spec (Some (channelAuthStateFromAttributes spec (parseMQSCDisplayAttributes lines)))) \<and>
       (foreign_field spec \<longrightarrow>
          ChannelAuthNeedsUpdate spec (Some (channelAuthStateFromAttributes spec (parseMQSCDisplayAttributes lines)))))"
proof (intro conjI allI impI)
  let ?kvs = "(''TYPE'', ca_RuleType spec) # rule_pairs spec @ [(''ACTION'', mqscActionReplace)]"
  have plain: "\<forall>(k, v) \<in> set ?kvs. plain_key k \<and> (k \<in> {''TYPE'', ''USERSRC'', ''CHCKCLNT'', ''ACTION''} \<longrightarrow> bare v)"
    using assms(3-5) by (auto simp: rule_pairs_mem plain_key_def bare_def dest: rule_pairs_keys)
  have "mqsc_lex_string (mqscQuote (ca_ChannelName spec) @ squote # '')'' @ rule_texts ?kvs) =
      Some (ca_ChannelName spec, '')'' @ rule_texts ?kvs)"
    by (rule mqsc_lex_string_quote) simp
  moreover have "buildSetChannelAuthMQSC spec mqscActionReplace =
      Inr (''SET CHLAUTH('' @ [squote] @ mqscQuote (ca_ChannelName spec) @ squote # '')'' @ rule_texts ?kvs)"
    unfolding buildSetChannelAuthMQSC_text [OF assms(1,2)] by (simp add: quoted_def)
  ultimately show "\<exists>attrs tail. buildSetChannelAuthMQSC spec mqscActionReplace = Inr (''SET CHLAUTH('' @ [squote] @ attrs) \<and>
      mqsc_lex_string attrs = Some (ca_ChannelName spec, '')'' @ tail) \<and>
      mqsc_parse_attrs (length (rule_pairs spec) + 2) tail = Some ?kvs"
    using mqsc_parse_attrs_text [OF plain] by (intro exI conjI) simp_all
qed (elim conjE displays_rule_reads; simp add: rule_in_sync foreign_field_drifts)+

text \<open>The record on lines of its own, one pair each.\<close>

definition record_lines :: "(string \<times> string) list \<Rightarrow> string list" where
  "record_lines kvs = displayHeader # map (\<lambda>kv. ''  '' @ render_pair kv) kvs"

lemma record_lines_display: "shows_rule spec kvs \<Longrightarrow> displays_rule spec (record_lines kvs)"
  unfolding displays_rule_def
  by (intro exI [of _ "map (Pair 2) kvs"])
    (simp add: record_lines_def go_join_Cons padded_def o_def numeral_2_eq_2)

definition alice_rule :: ChannelAuthSpec where
  "alice_rule = \<lparr>ca_ChannelName = ''APP.SVRCONN'', ca_RuleType = ''USERMAP'', ca_Address = [], ca_UserList = [],
     ca_ClientUser = ''alice'', ca_SSLPeerName = [], ca_RemoteQueueManager = [], ca_McaUser = ''app'',
     ca_UserSource = ''MAP'', ca_CheckClient = [], ca_Description = ''Alice'' @ [squote] @ ''s map''\<rparr>"

definition alice_record :: "(string \<times> string) list" where
  "alice_record = [(''CHLAUTH'', ''APP.SVRCONN''), (''TYPE'', ''USERMAP''), (''DESCR'', ca_Description alice_rule),
     (''CLNTUSER'', ''alice''), (''MCAUSER'', ''app''), (''USERSRC'', ''MAP''), (''ADDRESS'', '' ''), (''CHCKCLNT'', ''ASQMGR'')]"

text \<open>The client user is left over from another type.\<close>

definition blocked_rule :: ChannelAuthSpec where
  "blocked_rule = alice_rule\<lparr>ca_RuleType := ''BLOCKUSER'', ca_UserList := ''*MQADMIN'', ca_McaUser := [], ca_UserSource := []\<rparr>"

definition blocked_record :: "(string \<times> string) list" where
  "blocked_record = [(''CHLAUTH'', ''APP.SVRCONN''), (''TYPE'', ''BLOCKUSER''), (''DESCR'', ca_Description alice_rule),
     (''USERLIST'', ''*MQADMIN'')]"

theorem channel_auth_roundtrip_witness:
  "\<not> ChannelAuthNeedsUpdate alice_rule
       (Some (channelAuthStateFromAttributes alice_rule (parseMQSCDisplayAttributes (record_lines alice_record)))) \<and>
   ChannelAuthNeedsUpdate blocked_rule
       (Some (channelAuthStateFromAttributes blocked_rule (parseMQSCDisplayAttributes (record_lines blocked_record))))"
proof
  have "ca_ChannelName alice_rule \<noteq> []" "ca_RuleType alice_rule \<noteq> []" "bare (ca_RuleType alice_rule)"
    "bare (ca_UserSource alice_rule)" "bare (ca_CheckClient alice_rule)" by code_simp+
  note t = channel_auth_roundtrip [OF this, THEN conjunct2, rule_format]
  have "shows_rule alice_rule alice_record" "own_fields alice_rule \<and> unquoted alice_rule" by code_simp+
  with t [OF record_lines_display] show "\<not> ChannelAuthNeedsUpdate alice_rule
    (Some (channelAuthStateFromAttributes alice_rule (parseMQSCDisplayAttributes (record_lines alice_record))))" by blast
next
  have "ca_ChannelName blocked_rule \<noteq> []" "ca_RuleType blocked_rule \<noteq> []" "bare (ca_RuleType blocked_rule)"
    "bare (ca_UserSource blocked_rule)" "bare (ca_CheckClient blocked_rule)" by code_simp+
  note t = channel_auth_roundtrip [OF this, THEN conjunct2, rule_format]
  have "shows_rule blocked_rule blocked_record" "foreign_field blocked_rule" by code_simp+
  with t [OF record_lines_display] show "ChannelAuthNeedsUpdate blocked_rule
    (Some (channelAuthStateFromAttributes blocked_rule (parseMQSCDisplayAttributes (record_lines blocked_record))))" by blast
qed

end
