(* ===== verification/Rule_Lifecycle.thy ===== *)
theory Rule_Lifecycle
  imports Lifecycle Rule_Display
begin

text \<open>
  The life of a CHLAUTH rule over the mqweb client, as \<open>Lifecycle\<close> has it for topics, channels and
  queues. Rules go through MQSC text in both directions: the contract \<open>serves_rule\<close> speaks of the
  commands the client renders and of the lines that DISPLAY prints.
\<close>

section \<open>A queue manager that keeps one rule\<close>

definition prints :: "mqscResponse \<Rightarrow> string list \<Rightarrow> bool" where
  "prints resp lines \<longleftrightarrow>
     \<not> overallFailed resp \<and> mr_CommandResponse resp \<noteq> [] \<and> collectAttributes (mr_CommandResponse resp) = [] \<and>
     concat (map (\<lambda>cr. cr_Text cr @ cr_Message cr) (mr_CommandResponse resp)) = lines"

text \<open>\<open>held w\<close>: the lines that DISPLAY prints for the rule, if there is one. The effect of one command:\<close>

definition answers_rule ::
  "ChannelAuthSpec \<Rightarrow> ('w \<Rightarrow> string list option) \<Rightarrow> string \<Rightarrow> 'w \<Rightarrow> mqscResponse \<Rightarrow> 'w \<Rightarrow> bool" where
  "answers_rule spec held cmd w resp w' \<longleftrightarrow>
     (if buildSetChannelAuthMQSC spec mqscActionReplace = Inr cmd
      then \<not> overallFailed resp \<and> (\<exists>lines. held w' = Some lines \<and> displays_rule spec lines)
      else if buildSetChannelAuthMQSC spec mqscActionRemove = Inr cmd
      then held w' = None \<and>
           (if held w = None then overallFailed resp \<and> isObjectMissing resp else \<not> overallFailed resp)
      else held w' = held w \<and>
           (case held w of Some lines \<Rightarrow> prints resp lines | None \<Rightarrow> overallFailed resp \<and> isObjectMissing resp))"

definition serves_rule ::
  "'w http_env \<Rightarrow> Client \<Rightarrow> ('w \<Rightarrow> string list option) \<Rightarrow> ChannelAuthSpec \<Rightarrow> bool" where
  "serves_rule env c held spec \<longleftrightarrow>
     he_newRequest env (c_mqscURL c) = None \<and>
     (\<forall>cmd req w. rq_URL req = c_mqscURL c \<and> rq_Body req = RunCommand cmd \<and>
        Inr cmd \<in> {buildSetChannelAuthMQSC spec mqscActionReplace, buildSetChannelAuthMQSC spec mqscActionRemove,
          buildDisplayChannelAuthMQSC spec} \<longrightarrow>
        (\<exists>raw resp w'. he_do env req w = (Inr \<lparr>rs_StatusCode = StatusOK, rs_Body = Inr raw, rs_Cookies = []\<rparr>, w') \<and>
           he_unmarshalMQSC env raw = Inr resp \<and> answers_rule spec held cmd w resp w'))"

text \<open>The three commands are different.\<close>

lemma buildSetChannelAuthMQSC_remove:
  assumes "ca_ChannelName spec \<noteq> []" "ca_RuleType spec \<noteq> []"
  obtains r where "buildSetChannelAuthMQSC spec mqscActionRemove = Inr (''SET CHLAUTH('' @ r @ ''ACTION(REMOVE)'')"
proof -
  let ?opts = "optional (channelAuthAddressClause spec) @ optional (channelAuthClientUserClause spec) @
    optional (channelAuthSSLPeerClause spec) @ optional (channelAuthRemoteQueueManagerClause spec)"
  have "buildSetChannelAuthMQSC spec mqscActionRemove =
      Inr (''SET CHLAUTH('' @ (quoted (ca_ChannelName spec) @ '') TYPE('' @ ca_RuleType spec @ '')'' @
        spaced ?opts @ '' '') @ ''ACTION(REMOVE)'')"
    using assms by (simp add: buildSetChannelAuthMQSC_def Let_def go_join_spaced spaced_append) (simp add: spaced_def)
  then show thesis by (rule that)
qed

lemma buildDisplayChannelAuthMQSC_text:
  assumes "ca_ChannelName spec \<noteq> []" "ca_RuleType spec \<noteq> []"
  obtains r where "buildDisplayChannelAuthMQSC spec = Inr (''DISPLAY CHLAUTH('' @ r)"
  using assms by (auto simp: buildDisplayChannelAuthMQSC_def Let_def go_join_spaced)

lemma rule_commands:
  assumes "ca_ChannelName spec \<noteq> []" "ca_RuleType spec \<noteq> []"
  obtains set rm dis where "buildSetChannelAuthMQSC spec mqscActionReplace = Inr set"
    "buildSetChannelAuthMQSC spec mqscActionRemove = Inr rm" "buildDisplayChannelAuthMQSC spec = Inr dis"
    "set \<noteq> rm" "set \<noteq> dis" "rm \<noteq> dis"
proof -
  obtain r d where rd: "buildSetChannelAuthMQSC spec mqscActionRemove = Inr (''SET CHLAUTH('' @ r @ ''ACTION(REMOVE)'')"
    "buildDisplayChannelAuthMQSC spec = Inr (''DISPLAY CHLAUTH('' @ d)"
    using buildSetChannelAuthMQSC_remove [OF assms] buildDisplayChannelAuthMQSC_text [OF assms] by metis
  let ?set = "''SET CHLAUTH('' @ quoted (ca_ChannelName spec) @ '')'' @
      rule_texts ((''TYPE'', ca_RuleType spec) # rule_pairs spec @ [(''ACTION'', mqscActionReplace)])"
  have "rev ?set \<noteq> rev (''SET CHLAUTH('' @ r @ ''ACTION(REMOVE)'')" by (simp add: rule_text_def)
  then have "?set \<noteq> ''SET CHLAUTH('' @ r @ ''ACTION(REMOVE)''" by metis
  with that [OF buildSetChannelAuthMQSC_text [OF assms] rd] show thesis by simp
qed

section \<open>The commands through the client\<close>

lemma postMQSC_answered:
  assumes "he_newRequest env (c_mqscURL c) = None" "ready_client c" "healthy s"
    and "\<And>req. rq_URL req = c_mqscURL c \<Longrightarrow> rq_Body req = body \<Longrightarrow>
      \<exists>raw resp w'. he_do env req (cs_world s) = (Inr \<lparr>rs_StatusCode = StatusOK, rs_Body = Inr raw, rs_Cookies = []\<rparr>, w') \<and>
        he_unmarshalMQSC env raw = Inr resp \<and> Q resp w'"
  obtains resp s' where "postMQSC env c body s = ((Some resp,
      if overallFailed resp
      then Some (if isObjectMissing resp then NotFoundError (requestName body) else terminalError resp ''mqsc command failed'')
      else None), s')" "Q resp (cs_world s')" "ok_state (cs_probe s) s'"
proof -
  let ?build = "buildRequest env c ''POST'' (c_mqscURL c) mqscHeaders body ''MQSC''"
  obtain req where req: "?build s = Inr req" "rq_URL req = c_mqscURL c" "rq_Body req = body"
    using assms(1) buildRequest_ok [of env "c_mqscURL c"] by metis
  obtain raw resp w' where
    "do": "he_do env req (cs_world s) = (Inr \<lparr>rs_StatusCode = StatusOK, rs_Body = Inr raw, rs_Cookies = []\<rparr>, w')"
    and um: "he_unmarshalMQSC env raw = Inr resp" "Q resp w'"
    using assms(4) [OF req(2,3)] by blast
  let ?s = "recordSuccessAt (s\<lparr>cs_world := w'\<rparr>)"
  have "ok_state (cs_probe s) ?s"
    unfolding ok_state_def healthy_success by (simp add: recordSuccessAt_def)
  then show thesis
    using roundTrip_served [where build = ?build, OF assms(2,3) req(1) "do"] um
    by (intro that [of resp ?s]) (simp_all add: postMQSC_def decodeMQSC_def recordSuccessAt_def)
qed

text \<open>What DISPLAY returns through the client.\<close>

lemma display_text_served:
  assumes "postMQSC env c (RunCommand cmd) s = ((Some resp,
      if overallFailed resp
      then Some (if isObjectMissing resp then NotFoundError [] else terminalError resp ''mqsc command failed'')
      else None), s')"
  shows "prints resp lines \<Longrightarrow> runDisplayMQSC env c cmd obj s = (Inr (parseMQSCDisplayAttributes lines), s')"
    and "overallFailed resp \<Longrightarrow> isObjectMissing resp \<Longrightarrow> runDisplayMQSC env c cmd obj s = (Inl (NotFoundError obj), s')"
  using assms by (simp_all add: runDisplayMQSC_def prints_def firstObjectAttributes_def displayTextAttributes_def)

definition named_rule :: "ChannelAuthSpec \<Rightarrow> bool" where
  "named_rule spec \<longleftrightarrow> ca_ChannelName spec \<noteq> [] \<and> ca_RuleType spec \<noteq> []"

lemma command_served:
  assumes "serves_rule env c held spec" "ready_client c" "ok_state P s"
    and "Inr cmd \<in> {buildSetChannelAuthMQSC spec mqscActionReplace, buildSetChannelAuthMQSC spec mqscActionRemove,
          buildDisplayChannelAuthMQSC spec}"
  obtains resp s' where "postMQSC env c (RunCommand cmd) s = ((Some resp,
      if overallFailed resp
      then Some (if isObjectMissing resp then NotFoundError [] else terminalError resp ''mqsc command failed'')
      else None), s')" "answers_rule spec held cmd (cs_world s) resp (cs_world s')" "ok_state P s'"
proof -
  have s: "healthy s" "cs_probe s = P" using assms(3) by (simp_all add: ok_state_def)
  have "he_newRequest env (c_mqscURL c) = None" using assms(1) by (simp add: serves_rule_def)
  then show thesis
    by (rule postMQSC_answered [OF _ assms(2) s(1), where body = "RunCommand cmd" and Q = "answers_rule spec held cmd (cs_world s)"])
      (use assms(1,4) that s(2) in \<open>unfold serves_rule_def, auto simp: requestName_def\<close>)
qed

lemma get_rule_served:
  assumes srv: "serves_rule env c held spec" "ready_client c" and nm: "named_rule spec" and ok: "ok_state P s"
  obtains r s' where "GetChannelAuth env c spec s = (r, s')" "ok_state P s'" "held (cs_world s') = held (cs_world s)"
    "r = (case held (cs_world s) of
        Some lines \<Rightarrow> Inr (channelAuthStateFromAttributes spec (parseMQSCDisplayAttributes lines))
      | None \<Rightarrow> Inl (NotFoundError (ca_ChannelName spec)))"
proof -
  obtain st rm dis where b: "buildSetChannelAuthMQSC spec mqscActionReplace = Inr st"
    "buildSetChannelAuthMQSC spec mqscActionRemove = Inr rm" "buildDisplayChannelAuthMQSC spec = Inr dis" "st \<noteq> dis" "rm \<noteq> dis"
    using rule_commands nm unfolding named_rule_def by metis
  obtain resp s' where p: "postMQSC env c (RunCommand dis) s = ((Some resp,
      if overallFailed resp
      then Some (if isObjectMissing resp then NotFoundError [] else terminalError resp ''mqsc command failed'')
      else None), s')" "answers_rule spec held dis (cs_world s) resp (cs_world s')" "ok_state P s'"
    by (rule command_served [OF srv ok, of dis]) (simp_all add: b)
  have h: "held (cs_world s') = held (cs_world s)"
    "case held (cs_world s) of Some lines \<Rightarrow> prints resp lines | None \<Rightarrow> overallFailed resp \<and> isObjectMissing resp"
    using p(2) b by (simp_all add: answers_rule_def)
  show thesis
  proof (rule that [OF _ p(3) h(1) refl])
    show "GetChannelAuth env c spec s = (case held (cs_world s) of
        Some lines \<Rightarrow> Inr (channelAuthStateFromAttributes spec (parseMQSCDisplayAttributes lines))
      | None \<Rightarrow> Inl (NotFoundError (ca_ChannelName spec)), s')"
      using display_text_served [OF p(1)] h(2) b(3) by (auto simp: GetChannelAuth_def split: option.splits)
  qed
qed

lemma set_rule_served:
  assumes srv: "serves_rule env c held spec" "ready_client c" and nm: "named_rule spec" and ok: "ok_state P s"
  obtains s' lines where "SetChannelAuth env c spec s = (None, s')" "ok_state P s'" "held (cs_world s') = Some lines"
    "displays_rule spec lines"
proof -
  obtain st where b: "buildSetChannelAuthMQSC spec mqscActionReplace = Inr st"
    using rule_commands nm unfolding named_rule_def by metis
  obtain resp s' where p: "postMQSC env c (RunCommand st) s = ((Some resp,
      if overallFailed resp
      then Some (if isObjectMissing resp then NotFoundError [] else terminalError resp ''mqsc command failed'')
      else None), s')" "answers_rule spec held st (cs_world s) resp (cs_world s')" "ok_state P s'"
    by (rule command_served [OF srv ok, of st]) (simp_all add: b)
  then obtain lines where "\<not> overallFailed resp" "held (cs_world s') = Some lines" "displays_rule spec lines"
    using b by (auto simp: answers_rule_def)
  with p(1,3) b show thesis by (intro that [of s' lines]) (simp_all add: SetChannelAuth_def RunMQSC_def)
qed

lemma delete_rule_served:
  assumes srv: "serves_rule env c held spec" "ready_client c" and nm: "named_rule spec" and ok: "ok_state P s"
  obtains s' where "DeleteChannelAuth env c spec s = (None, s')" "ok_state P s'" "held (cs_world s') = None"
proof -
  obtain st rm where b: "buildSetChannelAuthMQSC spec mqscActionReplace = Inr st"
    "buildSetChannelAuthMQSC spec mqscActionRemove = Inr rm" "st \<noteq> rm"
    using rule_commands nm unfolding named_rule_def by metis
  obtain resp s' where p: "postMQSC env c (RunCommand rm) s = ((Some resp,
      if overallFailed resp
      then Some (if isObjectMissing resp then NotFoundError [] else terminalError resp ''mqsc command failed'')
      else None), s')" "answers_rule spec held rm (cs_world s) resp (cs_world s')" "ok_state P s'"
    by (rule command_served [OF srv ok, of rm]) (simp_all add: b)
  have h: "held (cs_world s') = None" "overallFailed resp \<longrightarrow> isObjectMissing resp"
    using p(2) b by (auto simp: answers_rule_def split: if_splits)
  have "errors_Is (NotFoundError []) ErrNotFound" by code_simp
  with p(1) b(2) h have "DeleteChannelAuth env c spec s = (None, s')"
    by (auto simp: DeleteChannelAuth_def runMQSCAllowNotFound_def RunMQSC_def)
  then show thesis using p(3) h(1) by (rule that)
qed

section \<open>The ensure step\<close>

definition rule_drifts :: "ChannelAuthSpec \<Rightarrow> string list \<Rightarrow> bool" where
  "rule_drifts spec lines =
     ChannelAuthNeedsUpdate spec (Some (channelAuthStateFromAttributes spec (parseMQSCDisplayAttributes lines)))"

definition rule_reads_in_sync :: "'x http_env \<Rightarrow> Client \<Rightarrow> ChannelAuthSpec \<Rightarrow> 'x cstate \<Rightarrow> bool" where
  "rule_reads_in_sync env c spec x \<longleftrightarrow>
     (\<exists>st x'. GetChannelAuth env c spec x = (Inr st, x') \<and> \<not> ChannelAuthNeedsUpdate spec (Some st))"

definition rule_reads_missing :: "'x http_env \<Rightarrow> Client \<Rightarrow> ChannelAuthSpec \<Rightarrow> 'x cstate \<Rightarrow> bool" where
  "rule_reads_missing env c spec x \<longleftrightarrow> (\<exists>nm x'. GetChannelAuth env c spec x = (Inl (NotFoundError nm), x'))"

lemma rule_reads:
  assumes "serves_rule env c held spec" "ready_client c" "named_rule spec" "ok_state P x"
  shows "rule_reads_in_sync env c spec x \<longleftrightarrow> (\<exists>lines. held (cs_world x) = Some lines \<and> \<not> rule_drifts spec lines)"
    and "rule_reads_missing env c spec x \<longleftrightarrow> held (cs_world x) = None"
  using assms by (cases rule: get_rule_served;
      auto simp: rule_reads_in_sync_def rule_reads_missing_def rule_drifts_def split: option.splits)+

text \<open>A managed rule is applied exactly when the read does not find it in sync.\<close>

lemma ensureChannelAuth_served:
  assumes srv: "serves_rule env c held spec" "ready_client c" and nm: "named_rule spec"
    and hc: "holds_client view cl put" and ok: "ok_state P (cl (rs_world s))"
    and pol: "workloadAdoptionPolicy rule = AdoptionPolicyAdopt" "\<not> isObserveOnly rule"
  obtains s' lines where "ensureChannelAuth (embed_admin cl put (client_admin env c)) spec rule s = ((True, False, None), s')"
    "view (rs_world s') = view (rs_world s)" "ok_state P (cl (rs_world s'))" "held (cs_world (cl (rs_world s'))) = Some lines"
    "rule_reads_in_sync env c spec (cl (rs_world s)) \<and> \<not> rule_drifts spec lines \<or>
     \<not> rule_reads_in_sync env c spec (cl (rs_world s)) \<and> displays_rule spec lines"
    "rs_log s' = (if rule_reads_in_sync env c spec (cl (rs_world s)) then [] else [MQApply None]) @ rs_log s"
proof -
  let ?w = "rs_world s" and ?a = "embed_admin cl put (client_admin env c)"
  have put: "cl (put x w) = x" "view (put x w) = view w" for x w using hc unfolding holds_client_def by auto
  have sel: "ad_GetChannelAuth ?a spec = via cl put (GetChannelAuth env c spec)"
    "ad_SetChannelAuth ?a spec = via cl put (SetChannelAuth env c spec)"
    by (simp_all add: embed_admin_def client_admin_def)
  obtain r x where g: "GetChannelAuth env c spec (cl ?w) = (r, x)" "ok_state P x" "held (cs_world x) = held (cs_world (cl ?w))"
    "r = (case held (cs_world (cl ?w)) of
        Some lines \<Rightarrow> Inr (channelAuthStateFromAttributes spec (parseMQSCDisplayAttributes lines))
      | None \<Rightarrow> Inl (NotFoundError (ca_ChannelName spec)))"
    by (rule get_rule_served [OF srv nm ok])
  let ?s1 = "s\<lparr>rs_world := put x ?w\<rparr>"
  have read: "mqRead (ad_GetChannelAuth ?a spec) s = (r, ?s1)" by (simp add: sel mqRead_def via_def g(1))
  note reads = rule_reads(1) [OF srv nm ok]
  show thesis
  proof (cases "rule_reads_in_sync env c spec (cl ?w)")
    case True
    then obtain lines where l: "held (cs_world (cl ?w)) = Some lines" "\<not> rule_drifts spec lines" using reads by blast
    have "ensureChannelAuth ?a spec rule s = ((True, False, None), ?s1)"
      using read g(4) l pol(1) by (simp add: ensureChannelAuth_def ensureAuth_def adopt_never_blocks rule_drifts_def)
    then show thesis using True l g(2,3) by (intro that [of ?s1 lines]) (simp_all add: put)
  next
    case False
    obtain x' lines where d: "SetChannelAuth env c spec x = (None, x')" "ok_state P x'" "held (cs_world x') = Some lines"
      "displays_rule spec lines" by (rule set_rule_served [OF srv nm g(2)])
    let ?s2 = "log_effect (MQApply None) (s\<lparr>rs_world := put x' (put x ?w)\<rparr>)"
    have "errors_Is (NotFoundError (ca_ChannelName spec)) ErrNotFound" by (simp add: errors_Is_def)
    then have "ensureChannelAuth ?a spec rule s = ((True, False, None), ?s2)"
      using read g(4) False reads pol d(1)
      by (auto simp: ensureChannelAuth_def ensureAuth_def adopt_never_blocks rule_drifts_def mqApply_def sel via_def put
          log_effect_def split: option.splits)
    then show thesis using False d by (intro that [of ?s2 lines]) (simp_all add: put log_effect_def)
  qed
qed

section \<open>Rules are managed objects\<close>

lemma same_intent_rule: "same_intent a b \<Longrightarrow> toMQChannelAuthSpec b = toMQChannelAuthSpec a" for a :: ChannelAuthRule
  by (simp add: same_intent_def toMQChannelAuthSpec_def)

lemma rule_kind_sel:
  "wk_precheck channelauthrule_kind r = None"
  "wk_format channelauthrule_kind r = FormatSetChannelAuthMQSC (toMQChannelAuthSpec r)"
  "wk_ensure channelauthrule_kind admin r s =
     apfst (\<lambda>res. Some (authDrift (ca_ChannelName (toMQChannelAuthSpec r)) ''CHLAUTH rule'' res))
       (ensureChannelAuth admin (toMQChannelAuthSpec r) r s)"
  "wk_delete channelauthrule_kind admin r = ad_DeleteChannelAuth admin (toMQChannelAuthSpec r)"
  by (simp_all add: channelauthrule_kind_def)

text \<open>The ensure and delete steps of the kind, as the locale \<open>managed_object\<close> asks for them.\<close>

lemma rule_ensured:
  assumes srv: "serves_rule env c held spec" "ready_client c" and spec: "spec = toMQChannelAuthSpec rule" "named_rule spec"
      "own_fields spec" "unquoted spec"
    and hc: "holds_client view cl put" and ok: "ok_state P (cl (rs_world s))"
    and pol: "workloadAdoptionPolicy rule = AdoptionPolicyAdopt" "\<not> isObserveOnly rule"
  shows "\<exists>s'. wk_ensure channelauthrule_kind (embed_admin cl put (client_admin env c)) rule s = (Some (True, [], None), s') \<and>
    view (rs_world s') = view (rs_world s) \<and> ok_state P (cl (rs_world s')) \<and> rule_reads_in_sync env c spec (cl (rs_world s')) \<and>
    rs_log s' = (if rule_reads_in_sync env c spec (cl (rs_world s)) then [] else [MQApply None]) @ rs_log s"
proof -
  obtain s' lines where e: "ensureChannelAuth (embed_admin cl put (client_admin env c)) spec rule s = ((True, False, None), s')"
    "view (rs_world s') = view (rs_world s)" "ok_state P (cl (rs_world s'))" "held (cs_world (cl (rs_world s'))) = Some lines"
    "rule_reads_in_sync env c spec (cl (rs_world s)) \<and> \<not> rule_drifts spec lines \<or>
     \<not> rule_reads_in_sync env c spec (cl (rs_world s)) \<and> displays_rule spec lines"
    "rs_log s' = (if rule_reads_in_sync env c spec (cl (rs_world s)) then [] else [MQApply None]) @ rs_log s"
    by (rule ensureChannelAuth_served [OF srv spec(2) hc ok pol])
  have "\<not> rule_drifts spec lines"
    using e(5) by (auto simp: rule_drifts_def elim!: displays_rule_reads intro: rule_in_sync [OF _ spec(4,3), THEN notE])
  with e show ?thesis
    by (intro exI [of _ s']) (auto simp: rule_kind_sel spec(1) [symmetric] authDrift_def rule_reads(1) [OF srv spec(2) e(3)])
qed

lemma rule_deleted:
  assumes srv: "serves_rule env c held spec" "ready_client c" and spec: "spec = toMQChannelAuthSpec rule" "named_rule spec"
    and hc: "holds_client view cl put" and ok: "ok_state P (cl w)"
  shows "\<exists>w'. wk_delete channelauthrule_kind (embed_admin cl put (client_admin env c)) rule w = (None, w') \<and> view w' = view w \<and>
    ok_state P (cl w') \<and> rule_reads_missing env c spec (cl w')"
proof -
  obtain x where x: "DeleteChannelAuth env c spec (cl w) = (None, x)" "ok_state P x" "held (cs_world x) = None"
    by (rule delete_rule_served [OF srv spec(2) ok])
  have "cl (put x w) = x" "view (put x w) = view w" using hc unfolding holds_client_def by auto
  with x show ?thesis
    by (intro exI [of _ "put x w"])
      (simp add: rule_kind_sel spec(1) [symmetric] embed_admin_def client_admin_def via_def rule_reads(2) [OF srv spec(2)])
qed

lemma rule_managed:
  fixes mq :: "'w \<Rightarrow> 'm" and sel :: "'m \<Rightarrow> 'x cstate"
  defines "cl \<equiv> \<lambda>w. sel (mq w)"
  assumes op: "operated_on k ns n view mq sel good put env c rule s" and srv: "serves_rule env c held spec" "ready_client c"
    and spec: "spec = toMQChannelAuthSpec rule" "named_rule spec" "own_fields spec" "unquoted spec"
  shows "managed_object k channelauthrule_kind ns n view mq (embed_admin cl put (client_admin env c)) (same_intent rule)
    (\<lambda>m. ok_state P (sel m) \<and> good m) (\<lambda>m. rule_reads_in_sync env c spec (sel m)) (\<lambda>m. rule_reads_missing env c spec (sel m))"
proof
  let ?a = "embed_admin cl put (client_admin env c)"
  have hc: "holds_client (\<lambda>w. (view w, good (mq w))) cl put" and con: "connected good k (om_Namespace (w_meta rule)) (w_ConnectionRef rule) view mq ?a"
    and lib: "k8s_lib_laws (k_lib k)" "api_serves k ns n view mq" "\<not> w_Suspend rule"
    and pol: "workloadAdoptionPolicy rule = AdoptionPolicyAdopt" "\<not> isObserveOnly rule"
    using op by (simp_all add: operated_on_def cl_def Let_def)
  show "k8s_lib_laws (k_lib k)" "api_serves k ns n view mq" by (fact lib)+
  fix o' assume d: "same_intent rule o'"
  note o' = same_intent_rule [OF d, folded spec(1)] same_intent_policies [OF d]
  show "connected (\<lambda>m. ok_state P (sel m) \<and> good m) k (om_Namespace (w_meta o')) (w_ConnectionRef o') view mq ?a"
    using d connected_mono [OF con, of "\<lambda>m. ok_state P (sel m) \<and> good m"] by (simp add: same_intent_def)
  show "\<not> w_Suspend o'" using d lib(3) by (simp add: same_intent_def)
  show "wk_precheck channelauthrule_kind o' = None \<and> (\<exists>m. wk_format channelauthrule_kind o' = Inr m)"
    using buildSetChannelAuthMQSC_text spec(2) by (simp add: rule_kind_sel o' FormatSetChannelAuthMQSC_def named_rule_def)
  show "\<exists>s'. wk_ensure channelauthrule_kind ?a o' s = (Some (True, [], None), s') \<and> view (rs_world s') = view (rs_world s) \<and>
      (ok_state P (sel (mq (rs_world s'))) \<and> good (mq (rs_world s'))) \<and> rule_reads_in_sync env c spec (sel (mq (rs_world s'))) \<and>
      rs_log s' = (if rule_reads_in_sync env c spec (sel (mq (rs_world s))) then [] else [MQApply None]) @ rs_log s"
    if "ok_state P (sel (mq (rs_world s))) \<and> good (mq (rs_world s))" for s
    using rule_ensured [OF srv o'(1) [symmetric] spec(2-4) hc, of P s] that pol o' by (auto simp: cl_def)
  show "\<exists>w'. wk_delete channelauthrule_kind ?a o' w = (None, w') \<and> view w' = view w \<and>
      (ok_state P (sel (mq w')) \<and> good (mq w')) \<and> rule_reads_missing env c spec (sel (mq w'))"
    if "ok_state P (sel (mq w)) \<and> good (mq w)" for w
    using rule_deleted [OF srv o'(1) [symmetric] spec(2) hc, of P w] that by (auto simp: cl_def)
qed (simp_all add: same_intent_kept)

section \<open>The theorem\<close>

text \<open>A rule with a field of another type is applied again by every step.\<close>

lemma foreign_field_reapplied:
  fixes s :: "'w rs"
  assumes srv: "serves_rule env c held spec" "ready_client c" and spec: "named_rule spec" "foreign_field spec"
    and hc: "holds_client view cl put" and pol: "workloadAdoptionPolicy rule = AdoptionPolicyAdopt" "\<not> isObserveOnly rule"
    and start: "ok_state P (cl (rs_world s))" "\<not> rule_reads_in_sync env c spec (cl (rs_world s))"
  defines "step \<equiv> \<lambda>s. snd (ensureChannelAuth (embed_admin cl put (client_admin env c)) spec rule s)"
  shows "rs_log ((step ^^ j) s) = replicate j (MQApply None) @ rs_log s"
proof -
  define odd where "odd s \<longleftrightarrow> ok_state P (cl (rs_world s)) \<and> \<not> rule_reads_in_sync env c spec (cl (rs_world s))" for s :: "'w rs"
  have step: "odd (step s) \<and> rs_log (step s) = MQApply None # rs_log s" if s: "odd s" for s
  proof -
    have ok: "ok_state P (cl (rs_world s))" "\<not> rule_reads_in_sync env c spec (cl (rs_world s))"
      using s by (simp_all add: odd_def)
    obtain s' lines where e: "ensureChannelAuth (embed_admin cl put (client_admin env c)) spec rule s = ((True, False, None), s')"
      "ok_state P (cl (rs_world s'))" "held (cs_world (cl (rs_world s'))) = Some lines" "displays_rule spec lines"
      "rs_log s' = MQApply None # rs_log s"
      by (rule ensureChannelAuth_served [OF srv spec(1) hc ok(1) pol]) (use ok(2) in auto)
    have "rule_drifts spec lines"
      using e(4) by (rule displays_rule_reads) (simp add: rule_drifts_def foreign_field_drifts spec(2))
    with e show ?thesis by (simp add: odd_def step_def rule_reads(1) [OF srv spec(1)])
  qed
  have "odd ((step ^^ j) s) \<and> rs_log ((step ^^ j) s) = replicate j (MQApply None) @ rs_log s"
    by (induction j) (use start step in \<open>auto simp: odd_def\<close>)
  then show ?thesis ..
qed

text \<open>C8: The life of a CHLAUTH rule, end to end. Take the operator of the life of an object, and a queue
  manager that executes the SET and DISPLAY commands that the client renders for the rule, and that shows it as a record of
  blank-separated pairs. A rule that sets the fields of its type only, with no quote at either end of a
  value, reaches rest within two reconcile runs: it reports Synced=True for its generation, a read shows
  no drift, and however many runs follow, they have sent SET CHLAUTH once at most; once it is being
  deleted, one run removes it and takes its finalizer off. A rule with a field of another type does not
  reach rest: from a drifted state, every ensure step applies it again.\<close>

theorem rule_lifecycle:
  assumes "ready_client c" "healthy (cl (rs_world s))" "operated k ns n view cl put env c rule s"
    and "serves_rule env c held (toMQChannelAuthSpec rule)" "named_rule (toMQChannelAuthSpec rule)"
  shows "let spec = toMQChannelAuthSpec rule;
      step = \<lambda>s. snd (ensureChannelAuth (embed_admin cl put (client_admin env c)) spec rule s) in
    (own_fields spec \<and> unquoted spec \<longrightarrow>
       lives_by k channelauthrule_kind ns n view cl (rule_reads_in_sync env c spec) (rule_reads_missing env c spec) rule s) \<and>
    (foreign_field spec \<and> \<not> rule_reads_in_sync env c spec (cl (rs_world s)) \<longrightarrow>
       (\<forall>j. rs_log ((step ^^ j) s) = replicate j (MQApply None) @ rs_log s))"
proof (unfold Let_def, intro conjI impI allI; elim conjE)
  let ?P = "cs_probe (cl (rs_world s))" and ?spec = "toMQChannelAuthSpec rule"
  have ok: "ok_state ?P (cl (rs_world s))" using assms(2) by (simp add: ok_state_def)
  have op: "view (rs_world s) = Some rule" "holds_client view cl put" "workloadAdoptionPolicy rule = AdoptionPolicyAdopt"
    "\<not> isObserveOnly rule" using assms(3) by (simp_all add: operated_def)
  show "lives_by k channelauthrule_kind ns n view cl (rule_reads_in_sync env c ?spec) (rule_reads_missing env c ?spec) rule s"
    if "own_fields ?spec" "unquoted ?spec"
    using managed_lives_by [where sel = "\<lambda>m. m", OF rule_managed [OF operated_operated_on [OF assms(3)] assms(4,1) refl assms(5) that, where P = ?P]]
      op(1) ok by simp
  show "rs_log (((\<lambda>s. snd (ensureChannelAuth (embed_admin cl put (client_admin env c)) ?spec rule s)) ^^ j) s) =
      replicate j (MQApply None) @ rs_log s"
    if "foreign_field ?spec" "\<not> rule_reads_in_sync env c ?spec (cl (rs_world s))" for j
    by (rule foreign_field_reapplied [OF assms(4,1,5) that(1) op(2-4) ok that(2)])
qed

section \<open>A concrete operator\<close>

text \<open>A queue manager with at most one rule, which it shows on the given lines.\<close>

definition rule_server :: "ChannelAuthSpec \<Rightarrow> string list \<Rightarrow> bool http_env" where
  "rule_server spec lines =
     \<lparr>he_do = (\<lambda>req defined.
        let reply = (\<lambda>raw. Inr \<lparr>rs_StatusCode = StatusOK, rs_Body = Inr raw, rs_Cookies = []\<rparr>) in
        case rq_Body req of
          RunCommand cmd \<Rightarrow>
            if buildSetChannelAuthMQSC spec mqscActionReplace = Inr cmd then (reply ''ok'', True)
            else if buildSetChannelAuthMQSC spec mqscActionRemove = Inr cmd
            then (reply (if defined then ''ok'' else ''missing''), False)
            else (reply (if defined then ''shown'' else ''missing''), defined)
        | _ \<Rightarrow> (Inl (PlainError ''unexpected request''), defined)),
      he_ctxErr = (\<lambda>_. None), he_sleep = (\<lambda>_ w. (None, w)), he_now = (\<lambda>_. 0), he_newRequest = (\<lambda>_. None),
      he_unmarshalMQSC = (\<lambda>raw. Inr
        (if raw = ''shown'' then plain_reply 0 lines
         else if raw = ''ok'' then plain_reply 0 [] else plain_reply 2 [''AMQ8884E''])),
      he_unmarshalMsgIDs = (\<lambda>_. Inr [])\<rparr>"

definition one_rule :: "string list \<Rightarrow> bool \<Rightarrow> string list option" where
  "one_rule lines defined = (if defined then Some lines else None)"

lemma plain_reply_prints: "prints (plain_reply 0 lines) lines"
  by (simp add: prints_def plain_reply_def overallFailed_def collectAttributes_def)

lemma rule_server_serves:
  assumes "displays_rule spec lines"
  shows "serves_rule (rule_server spec lines) c (one_rule lines) spec"
proof -
  have reply: "\<not> overallFailed (plain_reply 0 [])" "overallFailed (plain_reply 2 [''AMQ8884E''])"
    "isObjectMissing (plain_reply 2 [''AMQ8884E''])" by code_simp+
  with assms show ?thesis
    unfolding serves_rule_def by (auto simp: plain_reply_prints rule_server_def answers_rule_def one_rule_def Let_def)
qed

definition rule_object :: "ChannelAuthSpec \<Rightarrow> ChannelAuthRule" where
  "rule_object spec =
     \<lparr>w_meta = w_meta newsTopic, w_ConnectionRef = ''qm1'', w_Suspend = False, w_policies = w_policies newsTopic,
      w_Spec =
        \<lparr>r_ChannelName = ca_ChannelName spec, r_RuleType = ca_RuleType spec, r_Address = ca_Address spec,
         r_UserList = ca_UserList spec, r_ClientUser = ca_ClientUser spec, r_SslPeerName = ca_SSLPeerName spec,
         r_RemoteQueueManager = ca_RemoteQueueManager spec, r_McaUser = ca_McaUser spec,
         r_UserSource = ca_UserSource spec, r_CheckClient = ca_CheckClient spec, r_Description = ca_Description spec\<rparr>,
      w_Status = w_Status newsTopic\<rparr>"

definition rule_start :: "ChannelAuthSpec \<Rightarrow> (ChannelAuthRuleSpecCR, bool) node rs" where
  "rule_start spec =
     \<lparr>rs_world = \<lparr>nd_obj = Some (rule_object spec), nd_client = fresh_state False, nd_version = 2\<rparr>, rs_log = []\<rparr>"

lemma rule_object_spec [simp]: "toMQChannelAuthSpec (rule_object spec) = spec"
  by (simp add: toMQChannelAuthSpec_def rule_object_def)

lemma node_operated:
  assumes "w_meta obj = w_meta newsTopic" "w_policies obj = w_policies newsTopic" "\<not> w_Suspend obj"
    and "nd_obj (rs_world s) = Some obj"
  shows "operated (node_kube ready_conn env c) ns n nd_obj nd_client put_client env c obj s"
proof -
  have "conditionsReady (qm_Conditions ready_conn)" "\<not> isObserveOnly newsTopic"
    "workloadAdoptionPolicy newsTopic = AdoptionPolicyAdopt" by code_simp+
  with assms show ?thesis
    unfolding operated_def
    by (auto simp: isObserveOnly_def workloadAdoptionPolicy_def annotation_def intro: node_api node_holds node_lib node_connected)
qed

lemma rule_operated:
  "operated (node_kube ready_conn env c) ns n nd_obj nd_client put_client env c (rule_object spec) (rule_start spec)"
  by (rule node_operated) (simp_all add: rule_object_def rule_start_def)

text \<open>A new rule reaches rest with one SET and keeps it through five runs; the rule with a client user
  left over from another type is set by each of three steps.\<close>

theorem rule_lifecycle_witness:
  "(let s = ((\<lambda>s. snd (reconcileWorkload (node_kube ready_conn (rule_server alice_rule (record_lines alice_record)) basic_client)
         channelauthrule_kind ''ns'' ''alice'' s)) ^^ 5) (rule_start alice_rule) in
     (\<exists>r. nd_obj (rs_world s) = Some r \<and> reportsSynced (w_Status r) \<and> st_ObservedGeneration (w_Status r) = 1) \<and>
     length (mq_effects s) \<le> 1) \<and>
   rs_log (((\<lambda>s. snd (ensureChannelAuth
       (embed_admin nd_client put_client (client_admin (rule_server blocked_rule (record_lines blocked_record)) basic_client))
       blocked_rule (rule_object blocked_rule) s)) ^^ 3) (rule_start blocked_rule)) = [MQApply None, MQApply None, MQApply None]"
proof -
  have shown: "displays_rule alice_rule (record_lines alice_record)" "displays_rule blocked_rule (record_lines blocked_record)"
    by (rule record_lines_display; code_simp)+
  note served = shown [THEN rule_server_serves, where c = basic_client]
  have rules: "named_rule alice_rule" "own_fields alice_rule" "unquoted alice_rule" "named_rule blocked_rule" "foreign_field blocked_rule"
    by code_simp+
  have ready: "ready_client basic_client" by code_simp
  have up: "healthy (nd_client (rs_world (rule_start spec)))" "ok_state [] (nd_client (rs_world (rule_start spec)))"
    "one_rule lines (cs_world (nd_client (rs_world (rule_start spec)))) = None" for spec lines
  proof -
    have "healthy (fresh_state False)" "cs_probe (fresh_state False) = []" by code_simp+
    then show "healthy (nd_client (rs_world (rule_start spec)))" "ok_state [] (nd_client (rs_world (rule_start spec)))"
      "one_rule lines (cs_world (nd_client (rs_world (rule_start spec)))) = None"
      by (simp_all add: rule_start_def ok_state_def one_rule_def fresh_state_def)
  qed
  note life = rule_lifecycle [OF ready up(1) rule_operated, unfolded Let_def rule_object_spec]
  have obj: "\<not> om_Deleting (w_meta (rule_object alice_rule))" "om_Generation (w_meta (rule_object alice_rule)) = 1"
    "mq_effects (rule_start alice_rule) = []" by code_simp+
  have new: "lives_by (node_kube ready_conn (rule_server alice_rule (record_lines alice_record)) basic_client)
      channelauthrule_kind ''ns'' ''alice'' nd_obj nd_client
      (rule_reads_in_sync (rule_server alice_rule (record_lines alice_record)) basic_client alice_rule)
      (rule_reads_missing (rule_server alice_rule (record_lines alice_record)) basic_client alice_rule)
      (rule_object alice_rule) (rule_start alice_rule)"
    using life [OF served(1) rules(1), THEN conjunct1] rules(2,3) by blast
  have "\<not> rule_reads_in_sync (rule_server blocked_rule (record_lines blocked_record)) basic_client blocked_rule
      (nd_client (rs_world (rule_start blocked_rule)))"
    using rule_reads(1) [OF served(2) ready rules(4) up(2)] up(3) by simp
  with life [OF served(2) rules(4), THEN conjunct2] rules(5)
  have "rs_log (((\<lambda>s. snd (ensureChannelAuth
       (embed_admin nd_client put_client (client_admin (rule_server blocked_rule (record_lines blocked_record)) basic_client))
       blocked_rule (rule_object blocked_rule) s)) ^^ 3) (rule_start blocked_rule)) = replicate 3 (MQApply None) @ rs_log (rule_start blocked_rule)"
    by blast
  then show ?thesis
    using new [unfolded lives_by_def Let_def, THEN conjunct1, rule_format, OF obj(1), of 5] obj(2,3)
    by (auto simp: Let_def rule_start_def numeral_3_eq_3)
qed

end
