(* ===== verification/Client_Factory.thy ===== *)
theory Client_Factory
  imports API_Types MQ_Client
begin

text \<open>
  \<open>internal/adapter/mqrest/factory.go\<close>, \<open>NewClient\<close> of \<open>client.go\<close> and \<open>NewClientCertClient\<close>
  of \<open>clientcert.go\<close>: from a connection and its secrets to a cached mqweb client.

  The record \<open>factory_env\<close> holds what is outside: reading a secret from the API server, parsing
  a URL (its result is the text that \<open>URL.String\<close> prints), loading a key pair and a
  certificate pool. Secret data are byte strings. The cache is the association list from
  \<open>namespace/name\<close> to entries; the type of clients is a parameter, since the factory only
  stores them, and \<open>createClient\<close> may depend on the state so that every new client can be told
  from the others. Closing idle connections has no effect on the model.
\<close>

section \<open>Configuration and clients\<close>

definition DefaultRESTPrefix :: string where
  "DefaultRESTPrefix = ''/ibmmq/rest/v3''"

record tls_config =
  tc_InsecureSkipVerify :: bool
  tc_RootCAs :: "string option"
  tc_Certificates :: "string list"

record Config =
  cfg_Endpoint :: "string option"
  cfg_RESTPrefix :: string
  cfg_QueueManager :: string
  cfg_Username :: string
  cfg_Password :: string
  cfg_TLSConfig :: "tls_config option"
  cfg_Resilience :: ResilienceConfig
  cfg_LTPA :: "(string \<times> string) option"
  cfg_authenticator :: "requestAuthenticator option"
  cfg_clientCertMode :: bool

text \<open>\<open>url.PathEscape\<close>: unreserved characters and \<open>$ & + : = @\<close> stay, every other byte becomes
  a percent sign and two upper-case hexadecimal digits.\<close>

definition path_keeps :: "char \<Rightarrow> bool" where
  "path_keeps c \<longleftrightarrow>
     (let n = of_char c :: nat in
      48 \<le> n \<and> n \<le> 57 \<or> 65 \<le> n \<and> n \<le> 90 \<or> 97 \<le> n \<and> n \<le> 122 \<or>
      c \<in> {CHR ''-'', CHR ''_'', CHR ''.'', CHR ''~'', CHR ''$'', CHR ''&'', CHR ''+'', CHR '':'', CHR ''='', CHR ''@''})"

definition upper_hex :: "nat \<Rightarrow> char" where
  "upper_hex n = char_of (if n < 10 then 48 + n else 55 + n)"

definition PathEscape :: "string \<Rightarrow> string" where
  "PathEscape s =
     concat (map (\<lambda>c. if path_keeps c then [c]
                      else [CHR ''%'', upper_hex (of_char c div 16), upper_hex (of_char c mod 16)]) s)"

text \<open>A client with the initial state of its breaker and its session. The HTTP client is the
  transport of \<open>http_env\<close>.\<close>

definition NewClient :: "Config \<Rightarrow> (Client \<times> circuitBreaker \<times> ltpaAuthenticator) result" where
  "NewClient cfg =
     (case cfg_Endpoint cfg of
        None \<Rightarrow> Inl (PlainError ''endpoint is required'')
      | Some endpoint \<Rightarrow>
          if cfg_QueueManager cfg = [] then Inl (PlainError ''queue manager name is required'')
          else
            (let restPrefix = (if cfg_RESTPrefix cfg = [] then DefaultRESTPrefix else cfg_RESTPrefix cfg);
                 base = TrimSuffix1 (CHR ''/'') endpoint @ restPrefix;
                 qm = PathEscape (cfg_QueueManager cfg);
                 mqscURL = base @ ''/admin/action/qmgr/'' @ qm @ ''/mqsc'';
                 adminQMURL = base @ ''/admin/qmgr/'' @ qm;
                 loginURL = base @ ''/login'';
                 (authenticator, reauth, session) =
                   (case cfg_LTPA cfg of
                      Some (u, p) \<Rightarrow> (LTPAAuth, True, newLTPAAuthenticator loginURL u p)
                    | None \<Rightarrow>
                        (case cfg_authenticator cfg of
                           Some a \<Rightarrow> (a, False, newLTPAAuthenticator loginURL [] [])
                         | None \<Rightarrow> (BasicAuth (cfg_Username cfg) (cfg_Password cfg), False,
                                    newLTPAAuthenticator loginURL [] [])))
             in Inr (\<lparr>c_mqscURL = mqscURL, c_adminQMURL = adminQMURL, c_queueManager = cfg_QueueManager cfg,
                      c_authenticator = authenticator, c_reauth = reauth,
                      c_retry = retryPolicyFromResilience (cfg_Resilience cfg),
                      c_clientCertMode = cfg_clientCertMode cfg\<rparr>,
                     newCircuitBreaker (circuitBreakerConfigFromResilience (cfg_Resilience cfg)), session)))"

section \<open>Secrets\<close>

record 'w factory_env =
  fe_getSecret :: "string \<Rightarrow> string \<Rightarrow> 'w \<Rightarrow> Secret result \<times> 'w"
  fe_parseURL :: "string \<Rightarrow> string result"
  fe_X509KeyPair :: "string \<Rightarrow> string \<Rightarrow> string result"
  fe_certPool :: "string \<Rightarrow> string option"

fun firstKey :: "attrs \<Rightarrow> string list \<Rightarrow> string" where
  "firstKey data [] = []"
| "firstKey data (k # ks) =
     (case map_of data k of
        Some v \<Rightarrow> if length v > 0 then v else firstKey data ks
      | None \<Rightarrow> firstKey data ks)"

text \<open>\<open>firstBytes\<close> has the same text over byte slices.\<close>

definition firstBytes :: "attrs \<Rightarrow> string list \<Rightarrow> string" where
  "firstBytes = firstKey"

definition credentialsFromSecret :: "attrs \<Rightarrow> (string \<times> string) result" where
  "credentialsFromSecret data =
     (let user = firstKey data [''username'', ''user'', ''mqAdminUser''];
          pass = firstKey data [''password'', ''mqAdminPassword''];
          user = (if user = [] then ''admin'' else user)
      in if pass = []
         then Inl (PlainError ''credentials secret missing password (expected key password or mqAdminPassword)'')
         else Inr (user, pass))"

definition caPoolFromSecret :: "'w factory_env \<Rightarrow> attrs \<Rightarrow> string result" where
  "caPoolFromSecret env data =
     (let pem = firstBytes data [''tls.crt'', ''ca.crt'', ''ca.pem''] in
      if length pem = 0 then Inl (PlainError ''CA secret missing tls.crt or ca.crt'')
      else (case fe_certPool env pem of
              None \<Rightarrow> Inl (PlainError ''parse CA certificate PEM'')
            | Some pool \<Rightarrow> Inr pool))"

definition secretLookupError :: "string \<Rightarrow> string \<Rightarrow> string \<Rightarrow> mq_error \<Rightarrow> mq_error" where
  "secretLookupError name role ctx err =
     (if k8s_IsNotFound err then SecretNotFoundError name role (Some err)
      else if ctx \<noteq> [] then WrapError (''get '' @ role @ '' secret for '' @ ctx) err
      else WrapError (''get '' @ role @ '' secret'') err)"

definition loadClientCertificate :: "'w factory_env \<Rightarrow> string \<Rightarrow> string \<Rightarrow> string result" where
  "loadClientCertificate env certPEM keyPEM =
     (case fe_X509KeyPair env certPEM keyPEM of
        Inl e \<Rightarrow> Inl (TerminalError ''InvalidClientCertificate'' ''invalid client certificate keypair (tls.crt/tls.key)'' (Some e))
      | Inr pair \<Rightarrow> Inr pair)"

text \<open>\<open>NewClientCertClient\<close>: the key pair is added to the TLS configuration.\<close>

definition NewClientCertClient ::
  "'w factory_env \<Rightarrow> Config \<Rightarrow> string \<Rightarrow> string \<Rightarrow> (Client \<times> circuitBreaker \<times> ltpaAuthenticator) result" where
  "NewClientCertClient env cfg certPEM keyPEM =
     (case loadClientCertificate env certPEM keyPEM of
        Inl e \<Rightarrow> Inl e
      | Inr pair \<Rightarrow>
          (let tls = (case cfg_TLSConfig cfg of
                        None \<Rightarrow> \<lparr>tc_InsecureSkipVerify = False, tc_RootCAs = None, tc_Certificates = []\<rparr>
                      | Some t \<Rightarrow> t);
               tls = tls\<lparr>tc_Certificates := tc_Certificates tls @ [pair]\<rparr>
           in NewClient (cfg\<lparr>cfg_TLSConfig := Some tls, cfg_authenticator := Some NoopAuth,
                             cfg_clientCertMode := True\<rparr>)))"

section \<open>Resolving a connection\<close>

datatype authMode = authModeBasic | authModeLTPA | authModeClientCert

record resolvedAuth =
  ra_secretName :: string
  ra_mode :: authMode

definition connectionCacheKey :: "QueueManagerConnection \<Rightarrow> string" where
  "connectionCacheKey conn = om_Namespace (c_meta conn) @ ''/'' @ om_Name (c_meta conn)"

definition resolveAuthentication :: "QueueManagerConnection \<Rightarrow> resolvedAuth result" where
  "resolveAuthentication conn =
     (let fallback =
        (case qm_CredentialsSecretRef conn of
           Some n \<Rightarrow> Inr \<lparr>ra_secretName = n, ra_mode = authModeBasic\<rparr>
         | None \<Rightarrow>
             Inl (PlainError (''resolve authentication for connection '' @ Quote (connectionCacheKey conn) @
                    '': neither authentication union nor credentialsSecretRef set'')))
      in case qm_Authentication conn of
           None \<Rightarrow> fallback
         | Some a \<Rightarrow>
             if ma_Mode a = MQWebAuthenticationModeBasic \<and> ma_Basic a \<noteq> None
             then Inr \<lparr>ra_secretName = the (ma_Basic a), ra_mode = authModeBasic\<rparr>
             else if ma_Mode a = MQWebAuthenticationModeLTPA \<and> ma_LTPA a \<noteq> None
             then Inr \<lparr>ra_secretName = the (ma_LTPA a), ra_mode = authModeLTPA\<rparr>
             else if ma_Mode a = MQWebAuthenticationModeClientCert \<and> ma_ClientCert a \<noteq> None
             then Inr \<lparr>ra_secretName = the (ma_ClientCert a), ra_mode = authModeClientCert\<rparr>
             else fallback)"

definition resolveCredentialsSecretName :: "QueueManagerConnection \<Rightarrow> string result" where
  "resolveCredentialsSecretName conn =
     (case resolveAuthentication conn of Inl e \<Rightarrow> Inl e | Inr auth \<Rightarrow> Inr (ra_secretName auth))"

definition caSecretName :: "QueueManagerConnection \<Rightarrow> string option" where
  "caSecretName conn = (case qm_TLS conn of Some t \<Rightarrow> tls_CASecretRef t | None \<Rightarrow> None)"

record cacheFingerprint =
  fp_generation :: int
  fp_credRV :: string
  fp_caRV :: string

definition cacheFingerprint_of ::
  "'w factory_env \<Rightarrow> QueueManagerConnection \<Rightarrow> string \<Rightarrow> 'w \<Rightarrow> cacheFingerprint result \<times> 'w" where
  "cacheFingerprint_of env conn credName w =
     (let ns = om_Namespace (c_meta conn) in
      case fe_getSecret env ns credName w of
        (Inl err, w) \<Rightarrow> (Inl (secretLookupError credName ''credentials'' ''cache fingerprint'' err), w)
      | (Inr credSecret, w) \<Rightarrow>
          (let fp = \<lparr>fp_generation = om_Generation (c_meta conn),
                     fp_credRV = om_ResourceVersion (s_meta credSecret), fp_caRV = []\<rparr> in
           case caSecretName conn of
             None \<Rightarrow> (Inr fp, w)
           | Some ca \<Rightarrow>
               (case fe_getSecret env ns ca w of
                  (Inl err, w) \<Rightarrow> (Inl (secretLookupError ca ''CA'' ''cache fingerprint'' err), w)
                | (Inr caSecret, w) \<Rightarrow> (Inr (fp\<lparr>fp_caRV := om_ResourceVersion (s_meta caSecret)\<rparr>), w))))"

definition buildServerTLSConfig ::
  "'w factory_env \<Rightarrow> QueueManagerConnection \<Rightarrow> 'w \<Rightarrow> tls_config result \<times> 'w" where
  "buildServerTLSConfig env conn w =
     (let insecure = (case qm_TLS conn of Some t \<Rightarrow> tls_InsecureSkipVerify t | None \<Rightarrow> False);
          tls = \<lparr>tc_InsecureSkipVerify = insecure, tc_RootCAs = None, tc_Certificates = []\<rparr> in
      case caSecretName conn of
        None \<Rightarrow> (Inr tls, w)
      | Some ca \<Rightarrow>
          (case fe_getSecret env (om_Namespace (c_meta conn)) ca w of
             (Inl err, w) \<Rightarrow> (Inl (secretLookupError ca ''CA'' [] err), w)
           | (Inr caSecret, w) \<Rightarrow>
               (case caPoolFromSecret env (s_Data caSecret) of
                  Inl e \<Rightarrow> (Inl e, w)
                | Inr pool \<Rightarrow> (Inr (tls\<lparr>tc_RootCAs := Some pool\<rparr>), w))))"

definition endpointAndPrefix :: "'w factory_env \<Rightarrow> QueueManagerConnection \<Rightarrow> (string \<times> string) result" where
  "endpointAndPrefix env conn =
     (case fe_parseURL env (qm_Endpoint conn) of
        Inl e \<Rightarrow> Inl (WrapError ''parse endpoint'' e)
      | Inr endpoint \<Rightarrow>
          Inr (endpoint, if qm_RESTPrefix conn = [] then DefaultRESTPrefix else qm_RESTPrefix conn))"

fun credSecretRole :: "authMode \<Rightarrow> string" where
  "credSecretRole authModeClientCert = ''client certificate''"
| "credSecretRole m = ''credentials''"

definition buildClientCertConfig ::
  "'w factory_env \<Rightarrow> QueueManagerConnection \<Rightarrow> string \<Rightarrow> Secret \<Rightarrow> 'w \<Rightarrow> Config result \<times> 'w" where
  "buildClientCertConfig env conn credName credSecret w =
     (case buildServerTLSConfig env conn w of
        (Inl e, w) \<Rightarrow> (Inl e, w)
      | (Inr tls, w) \<Rightarrow>
          (case loadClientCertificate env (firstBytes (s_Data credSecret) [''tls.crt''])
                  (firstBytes (s_Data credSecret) [''tls.key'']) of
             Inl (TerminalError r m c) \<Rightarrow> (Inl (TerminalError r (m @ '' from Secret '' @ Quote credName) c), w)
           | Inl e \<Rightarrow> (Inl e, w)
           | Inr pair \<Rightarrow>
               (case endpointAndPrefix env conn of
                  Inl e \<Rightarrow> (Inl e, w)
                | Inr (endpoint, restPrefix) \<Rightarrow>
                    (Inr \<lparr>cfg_Endpoint = Some endpoint, cfg_RESTPrefix = restPrefix,
                          cfg_QueueManager = qm_QueueManager conn, cfg_Username = [], cfg_Password = [],
                          cfg_TLSConfig = Some (tls\<lparr>tc_Certificates := tc_Certificates tls @ [pair]\<rparr>),
                          cfg_Resilience = no_tuning, cfg_LTPA = None,
                          cfg_authenticator = Some NoopAuth, cfg_clientCertMode = True\<rparr>, w))))"

definition buildConfig ::
  "'w factory_env \<Rightarrow> QueueManagerConnection \<Rightarrow> resolvedAuth \<Rightarrow> 'w \<Rightarrow> Config result \<times> 'w" where
  "buildConfig env conn auth w =
     (let credName = ra_secretName auth in
      case fe_getSecret env (om_Namespace (c_meta conn)) credName w of
        (Inl err, w) \<Rightarrow> (Inl (secretLookupError credName (credSecretRole (ra_mode auth)) [] err), w)
      | (Inr credSecret, w) \<Rightarrow>
          if ra_mode auth = authModeClientCert then buildClientCertConfig env conn credName credSecret w
          else
            (case credentialsFromSecret (s_Data credSecret) of
               Inl e \<Rightarrow> (Inl e, w)
             | Inr (user, pass) \<Rightarrow>
                 (case buildServerTLSConfig env conn w of
                    (Inl e, w) \<Rightarrow> (Inl e, w)
                  | (Inr tls, w) \<Rightarrow>
                      (case endpointAndPrefix env conn of
                         Inl e \<Rightarrow> (Inl e, w)
                       | Inr (endpoint, restPrefix) \<Rightarrow>
                           (Inr \<lparr>cfg_Endpoint = Some endpoint, cfg_RESTPrefix = restPrefix,
                                 cfg_QueueManager = qm_QueueManager conn, cfg_Username = user, cfg_Password = pass,
                                 cfg_TLSConfig = Some tls, cfg_Resilience = no_tuning,
                                 cfg_LTPA = (if ra_mode auth = authModeLTPA then Some (user, pass) else None),
                                 cfg_authenticator =
                                   (if ra_mode auth = authModeLTPA then None else Some (BasicAuth user pass)),
                                 cfg_clientCertMode = False\<rparr>, w)))))"

section \<open>The cache\<close>

record 'c cacheEntry =
  ce_admin :: 'c
  ce_fingerprint :: cacheFingerprint

type_synonym 'c client_cache = "(string, 'c cacheEntry) gomap"

definition cacheEntry_matches :: "'c cacheEntry \<Rightarrow> cacheFingerprint \<Rightarrow> bool" where
  "cacheEntry_matches e fp \<longleftrightarrow>
     fp_generation (ce_fingerprint e) = fp_generation fp \<and>
     fp_credRV (ce_fingerprint e) = fp_credRV fp \<and> fp_caRV (ce_fingerprint e) = fp_caRV fp"

text \<open>The two critical sections of \<open>ForConnection\<close>.\<close>

definition lookupClient :: "string \<Rightarrow> cacheFingerprint \<Rightarrow> 'c client_cache \<Rightarrow> 'c option" where
  "lookupClient key fp cache =
     (case map_of cache key of
        Some entry \<Rightarrow> if cacheEntry_matches entry fp then Some (ce_admin entry) else None
      | None \<Rightarrow> None)"

definition installClient :: "string \<Rightarrow> cacheFingerprint \<Rightarrow> 'c \<Rightarrow> 'c client_cache \<Rightarrow> 'c \<times> 'c client_cache" where
  "installClient key fp c cache =
     (case lookupClient key fp cache of
        Some admin \<Rightarrow> (admin, cache)
      | None \<Rightarrow> (c, AList.update key \<lparr>ce_admin = c, ce_fingerprint = fp\<rparr> cache))"

text \<open>
  Clients that are no longer handed out have their idle connections closed: the new client when another
  caller has installed one in between, else the one it replaces. \<open>closeIdle\<close> stands for
  \<open>Client.CloseIdleConnections\<close>, a call into \<open>net/http\<close>.
\<close>

definition closedByInstall :: "string \<Rightarrow> cacheFingerprint \<Rightarrow> 'c \<Rightarrow> 'c client_cache \<Rightarrow> 'c option" where
  "closedByInstall key fp c cache =
     map_option (\<lambda>entry. if cacheEntry_matches entry fp then c else ce_admin entry) (map_of cache key)"

definition closeClientIdleConnections :: "('c \<Rightarrow> 'w \<Rightarrow> 'w) \<Rightarrow> 'c option \<Rightarrow> 'w \<Rightarrow> 'w" where
  "closeClientIdleConnections closeIdle admin w = (case admin of None \<Rightarrow> w | Some c \<Rightarrow> closeIdle c w)"

definition NewClientFactory :: "'c client_cache" where
  "NewClientFactory = []"

definition ForConnection ::
  "'w factory_env \<Rightarrow> (Config \<Rightarrow> 'w \<Rightarrow> 'c result \<times> 'w) \<Rightarrow> ('c \<Rightarrow> 'w \<Rightarrow> 'w) \<Rightarrow> QueueManagerConnection \<Rightarrow>
     'c client_cache \<times> 'w \<Rightarrow> 'c result \<times> 'c client_cache \<times> 'w" where
  "ForConnection env createClient closeIdle conn s =
     (case s of (cache, w) \<Rightarrow>
        let key = connectionCacheKey conn in
        case resolveAuthentication conn of
          Inl e \<Rightarrow> (Inl e, cache, w)
        | Inr auth \<Rightarrow>
            (case cacheFingerprint_of env conn (ra_secretName auth) w of
               (Inl e, w) \<Rightarrow> (Inl e, cache, w)
             | (Inr fp, w) \<Rightarrow>
                 (case lookupClient key fp cache of
                    Some admin \<Rightarrow> (Inr admin, cache, w)
                  | None \<Rightarrow>
                      (case buildConfig env conn auth w of
                         (Inl e, w) \<Rightarrow> (Inl e, cache, w)
                       | (Inr cfg, w) \<Rightarrow>
                           (case createClient cfg w of
                              (Inl e, w) \<Rightarrow> (Inl e, cache, w)
                            | (Inr c, w) \<Rightarrow>
                                (case installClient key fp c cache of
                                   (admin, cache') \<Rightarrow>
                                     (Inr admin, cache',
                                      closeClientIdleConnections closeIdle (closedByInstall key fp c cache) w)))))))"

definition ReleaseConnection ::
  "('c \<Rightarrow> 'w \<Rightarrow> 'w) \<Rightarrow> QueueManagerConnection \<Rightarrow> 'c client_cache \<times> 'w \<Rightarrow>
     mq_error option \<times> 'c client_cache \<times> 'w" where
  "ReleaseConnection closeIdle conn s =
     (case s of (cache, w) \<Rightarrow>
        let key = connectionCacheKey conn in
        (None, AList.delete key cache,
         closeClientIdleConnections closeIdle (map_option ce_admin (map_of cache key)) w))"

section \<open>The cache as an interface\<close>

text \<open>What the callers rely on: \<open>lookup\<close> finds what \<open>install\<close> stored under the same key and
  fingerprint, an install with another fingerprint replaces it, a release forgets it, and the other
  keys are not touched.\<close>

locale client_cache_contract =
  fixes lookup :: "string \<Rightarrow> cacheFingerprint \<Rightarrow> 'cache \<Rightarrow> 'c option"
    and install :: "string \<Rightarrow> cacheFingerprint \<Rightarrow> 'c \<Rightarrow> 'cache \<Rightarrow> 'c \<times> 'cache"
    and release :: "string \<Rightarrow> 'cache \<Rightarrow> 'cache"
  assumes install_hit: "lookup key fp cache = Some c' \<Longrightarrow> install key fp c cache = (c', cache)"
    and install_miss: "lookup key fp cache = None \<Longrightarrow> fst (install key fp c cache) = c"
    and lookup_install: "lookup key fp (snd (install key fp c cache)) = Some (fst (install key fp c cache))"
    and lookup_replaced:
      "fp' \<noteq> fp \<Longrightarrow> lookup key fp cache = None \<Longrightarrow> lookup key fp' (snd (install key fp c cache)) = None"
    and lookup_install_other: "key' \<noteq> key \<Longrightarrow> lookup key' fp' (snd (install key fp c cache)) = lookup key' fp' cache"
    and lookup_release: "lookup key' fp (release key cache) = (if key' = key then None else lookup key' fp cache)"
begin

text \<open>One critical section of some caller, and the client it returns.\<close>

fun run_op :: "string \<times> cacheFingerprint \<times> 'c option \<Rightarrow> 'cache \<Rightarrow> 'c option \<times> 'cache" where
  "run_op (key, fp, None) cache = (lookup key fp cache, cache)"
| "run_op (key, fp, Some c) cache = (Some (fst (install key fp c cache)), snd (install key fp c cache))"

fun run_ops :: "(string \<times> cacheFingerprint \<times> 'c option) list \<Rightarrow> 'cache \<Rightarrow> 'c option list \<times> 'cache" where
  "run_ops [] cache = ([], cache)"
| "run_ops (p # ps) cache =
     (case run_op p cache of (r, cache) \<Rightarrow> (case run_ops ps cache of (rs, cache) \<Rightarrow> (r # rs, cache)))"

definition clients_for ::
  "string \<Rightarrow> cacheFingerprint \<Rightarrow> (string \<times> cacheFingerprint \<times> 'c option) list \<Rightarrow> 'cache \<Rightarrow> 'c set" where
  "clients_for key fp ps cache =
     {c. \<exists>x. ((key, fp, x), Some c) \<in> set (zip ps (fst (run_ops ps cache)))}"

lemma run_op_keeps:
  assumes "lookup key fp cache = Some c" "fst p = key \<Longrightarrow> fst (snd p) = fp"
  shows "lookup key fp (snd (run_op p cache)) = Some c \<and> (fst p = key \<longrightarrow> fst (run_op p cache) = Some c)"
proof -
  obtain key' fp' x where p: "p = (key', fp', x)" by (rule prod_cases3)
  show ?thesis
  proof (cases x)
    case None
    with p assms show ?thesis by auto
  next
    case (Some d)
    show ?thesis
    proof (cases "key' = key")
      case True
      with assms(2) p have "fp' = fp" by simp
      with True p Some install_hit [OF assms(1)] assms(1) show ?thesis by simp
    next
      case False
      with p Some assms(1) lookup_install_other [of key key' fp] show ?thesis by simp
    qed
  qed
qed

lemma clients_for_cached:
  assumes "lookup key fp cache = Some c" "\<forall>p \<in> set ps. fst p = key \<longrightarrow> fst (snd p) = fp"
  shows "clients_for key fp ps cache \<subseteq> {c}"
  using assms
proof (induction ps arbitrary: cache)
  case (Cons p ps)
  obtain r cache1 where r: "run_op p cache = (r, cache1)" by fastforce
  obtain rs cache2 where rs: "run_ops ps cache1 = (rs, cache2)" by fastforce
  have k: "lookup key fp cache1 = Some c \<and> (fst p = key \<longrightarrow> r = Some c)"
    using run_op_keeps [OF Cons.prems(1), of p] Cons.prems(2) r by simp
  have "clients_for key fp ps cache1 \<subseteq> {c}" using Cons.IH k Cons.prems(2) by simp
  with k r rs show ?case unfolding clients_for_def by auto
qed (simp add: clients_for_def)

lemma clients_for_subsingleton:
  assumes "\<forall>p \<in> set ps. fst p = key \<longrightarrow> fst (snd p) = fp"
  shows "\<exists>c. clients_for key fp ps cache \<subseteq> {c}"
  using assms
proof (induction ps arbitrary: cache)
  case (Cons p ps)
  obtain r cache1 where r: "run_op p cache = (r, cache1)" by fastforce
  obtain rs cache2 where rs: "run_ops ps cache1 = (rs, cache2)" by fastforce
  obtain c where c: "clients_for key fp ps cache1 \<subseteq> {c}" using Cons by fastforce
  show ?case
  proof (cases "\<exists>x d. p = (key, fp, x) \<and> r = Some d")
    case False
    with r rs c have "clients_for key fp (p # ps) cache \<subseteq> {c}" unfolding clients_for_def by auto
    then show ?thesis by blast
  next
    case True
    then obtain x d where xd: "p = (key, fp, x)" "r = Some d" by blast
    have "lookup key fp cache1 = Some d"
      using r xd lookup_install [of key fp _ cache] by (cases x) auto
    from clients_for_cached [OF this] Cons.prems have "clients_for key fp ps cache1 \<subseteq> {d}" by simp
    with r rs xd have "clients_for key fp (p # ps) cache \<subseteq> {d}" unfolding clients_for_def by auto
    then show ?thesis by blast
  qed
qed (simp add: clients_for_def)

end

lemma cacheEntry_matches_iff: "cacheEntry_matches e fp \<longleftrightarrow> ce_fingerprint e = fp"
  by (auto simp: cacheEntry_matches_def intro: cacheFingerprint.equality)

interpretation mqrest_cache: client_cache_contract lookupClient installClient AList.delete
proof unfold_locales
qed (auto simp: installClient_def lookupClient_def cacheEntry_matches_iff update_conv' delete_conv'
       split: option.splits if_splits, (metis cacheEntry.select_convs(1))+)

section \<open>Clients are shared and replaced\<close>

lemma lookupClient_fst [simp]: "fst (installClient key fp c cache) =
    (case lookupClient key fp cache of Some c' \<Rightarrow> c' | None \<Rightarrow> c)"
  by (simp add: installClient_def split: option.splits)

text \<open>A successful call leaves its client in the cache under the fingerprint it computed.\<close>

lemma ForConnection_stores:
  assumes "ForConnection env create close conn (cache, w) = (Inr c, cache', w')"
  shows "\<exists>auth fp w1. resolveAuthentication conn = Inr auth \<and>
    cacheFingerprint_of env conn (ra_secretName auth) w = (Inr fp, w1) \<and>
    lookupClient (connectionCacheKey conn) fp cache' = Some c"
proof -
  obtain auth where a: "resolveAuthentication conn = Inr auth"
    using assms by (auto simp: ForConnection_def Let_def split: sum.splits)
  obtain fp w1 where f: "cacheFingerprint_of env conn (ra_secretName auth) w = (Inr fp, w1)"
    using assms a by (auto simp: ForConnection_def Let_def split: sum.splits prod.splits)
  have "lookupClient (connectionCacheKey conn) fp cache' = Some c"
  proof (cases "lookupClient (connectionCacheKey conn) fp cache")
    case (Some d)
    with assms a f show ?thesis by (auto simp: ForConnection_def Let_def)
  next
    case None
    obtain rb w2 where b: "buildConfig env conn auth w1 = (rb, w2)" by fastforce
    then obtain cfg where cfg: "rb = Inr cfg"
      using assms a f None by (cases rb) (auto simp: ForConnection_def Let_def)
    obtain rc w3 where cr: "create cfg w2 = (rc, w3)" by fastforce
    then obtain d where d: "rc = Inr d"
      using assms a f None b cfg by (cases rc) (auto simp: ForConnection_def Let_def)
    have "installClient (connectionCacheKey conn) fp d cache = (c, cache')"
      using assms a f None b cfg cr d by (auto simp: ForConnection_def Let_def split: prod.splits)
    then show ?thesis using mqrest_cache.lookup_install [of "connectionCacheKey conn" fp d cache] by simp
  qed
  with a f show ?thesis by blast
qed

lemma ForConnection_hit:
  assumes "resolveAuthentication conn = Inr auth" "cacheFingerprint_of env conn (ra_secretName auth) w = (Inr fp, w1)"
    and "lookupClient (connectionCacheKey conn) fp cache = Some c"
  shows "ForConnection env create close conn (cache, w) = (Inr c, cache, w1)"
  using assms by (simp add: ForConnection_def Let_def)

lemma ForConnection_miss:
  assumes "resolveAuthentication conn = Inr auth" "cacheFingerprint_of env conn (ra_secretName auth) w = (Inr fp, w1)"
    and "lookupClient (connectionCacheKey conn) fp cache = None"
    and "ForConnection env create close conn (cache, w) = (Inr c, cache', w')"
  shows "\<exists>cfg w2 w3. buildConfig env conn auth w1 = (Inr cfg, w2) \<and> create cfg w2 = (Inr c, w3) \<and>
    installClient (connectionCacheKey conn) fp c cache = (c, cache') \<and>
    w' = closeClientIdleConnections close (closedByInstall (connectionCacheKey conn) fp c cache) w3"
proof -
  obtain rb w2 where b: "buildConfig env conn auth w1 = (rb, w2)" by fastforce
  then obtain cfg where cfg: "rb = Inr cfg"
    using assms by (cases rb) (auto simp: ForConnection_def Let_def)
  obtain rc w3 where cr: "create cfg w2 = (rc, w3)" by fastforce
  then obtain d where d: "rc = Inr d" using assms b cfg by (cases rc) (auto simp: ForConnection_def Let_def)
  obtain c0 cache0 where i: "installClient (connectionCacheKey conn) fp d cache = (c0, cache0)" by fastforce
  have "c0 = d" using mqrest_cache.install_miss [OF assms(3), of d] i by simp
  with assms b cfg cr d i show ?thesis by (auto simp: ForConnection_def Let_def)
qed

text \<open>C13: The client cache is sound. After a successful call, a second call for any connection
  object with the same namespace, name and fingerprint (generation and resource versions of its
  secrets) returns the same client without building one, and a call whose fingerprint differs, or one
  after \<open>ReleaseConnection\<close>, returns a client built from the secrets as they are then. The calls of
  concurrent reconciles, whose two critical sections interleave in any order, all get the same client
  for one key as long as they agree on the fingerprint.\<close>

theorem client_cache_sound:
  assumes "ForConnection env create close conn (cache, w) = (Inr c, cache', w')"
    and "cacheFingerprint_of env conn (ra_secretName auth) w = (Inr fp, w1)" "resolveAuthentication conn = Inr auth"
    and "connectionCacheKey conn2 = connectionCacheKey conn" "resolveAuthentication conn2 = Inr auth2"
    and "cacheFingerprint_of env2 conn2 (ra_secretName auth2) v = (Inr fp2, v1)"
  shows "(fp2 = fp \<longrightarrow> ForConnection env2 create close conn2 (cache', v) = (Inr c, cache', v1)) \<and>
    (\<forall>c2 cache2 v2.
       (fp2 \<noteq> fp \<and>
          ForConnection env2 create close conn2 (cache', v) = (Inr c2, cache2, v2) \<or>
        ForConnection env2 create close conn2 (fst (snd (ReleaseConnection close conn (cache', u))), v) = (Inr c2, cache2, v2)) \<longrightarrow>
       (\<exists>cfg v3 v4. buildConfig env2 conn2 auth2 v1 = (Inr cfg, v3) \<and> create cfg v3 = (Inr c2, v4))) \<and>
    (\<forall>ps. (\<forall>p \<in> set ps. fst p = connectionCacheKey conn \<longrightarrow> fst (snd p) = fp) \<longrightarrow>
       mqrest_cache.clients_for (connectionCacheKey conn) fp ps cache' \<subseteq> {c})"
proof -
  let ?key = "connectionCacheKey conn"
  have l: "lookupClient ?key fp cache' = Some c" using ForConnection_stores [OF assms(1)] assms(2,3) by auto
  have hit: "fp2 = fp \<Longrightarrow> ForConnection env2 create close conn2 (cache', v) = (Inr c, cache', v1)"
    using ForConnection_hit [OF assms(5,6)] assms(4) l by simp
  have build: "\<exists>cfg v3 v4. buildConfig env2 conn2 auth2 v1 = (Inr cfg, v3) \<and> create cfg v3 = (Inr c2, v4)"
    if "lookupClient ?key fp2 k = None" "ForConnection env2 create close conn2 (k, v) = (Inr c2, cache2, v2)" for k c2 cache2 v2
    using ForConnection_miss [OF assms(5,6) _ that(2)] that(1) assms(4) by fastforce
  have r: "lookupClient ?key fp2 (fst (snd (ReleaseConnection close conn (cache', u)))) = None"
    using mqrest_cache.lookup_release [of ?key fp2 ?key cache'] by (simp add: ReleaseConnection_def Let_def)
  have d: "fp2 \<noteq> fp \<Longrightarrow> lookupClient ?key fp2 cache' = None"
    using l by (auto simp: lookupClient_def cacheEntry_matches_iff split: option.splits if_splits)
  from hit build [OF r] build [OF d] mqrest_cache.clients_for_cached [OF l] show ?thesis by blast
qed

text \<open>A state in which every secret has the resource version 1, and clients that are numbered.\<close>

definition demo_secret :: Secret where
  "demo_secret =
     \<lparr>s_meta = \<lparr>om_Namespace = ''ns'', om_Name = ''creds'', om_UID = ''s1'', om_Generation = 1,
                om_ResourceVersion = ''1'', om_Deleting = False, om_Finalizers = [], om_Annotations = []\<rparr>,
      s_Data = [(''username'', ''u''), (''password'', ''p'')], s_StringData = []\<rparr>"

definition demo_factory_env :: "nat factory_env" where
  "demo_factory_env =
     \<lparr>fe_getSecret = (\<lambda>ns n w. (Inr demo_secret, w)), fe_parseURL = Inr,
      fe_X509KeyPair = (\<lambda>c k. Inr (c @ k)), fe_certPool = Some\<rparr>"

definition demo_create :: "Config \<Rightarrow> nat \<Rightarrow> (nat \<times> string) result \<times> nat" where
  "demo_create cfg w = (Inr (w, cfg_QueueManager cfg), Suc w)"

definition demo_close :: "nat \<times> string \<Rightarrow> nat \<Rightarrow> nat" where
  "demo_close c w = w"

definition demo_connection :: "string \<Rightarrow> string \<Rightarrow> QueueManagerConnection" where
  "demo_connection uid qm =
     \<lparr>c_meta = \<lparr>om_Namespace = ''ns'', om_Name = ''conn'', om_UID = uid, om_Generation = 1,
                om_ResourceVersion = ''7'', om_Deleting = False, om_Finalizers = [], om_Annotations = []\<rparr>,
      qm_QueueManager = qm, qm_Endpoint = ''https://mq:9443'', qm_RESTPrefix = [], qm_TLS = None,
      qm_CredentialsSecretRef = Some ''creds'', qm_Authentication = None, qm_Conditions = [],
      qm_ObservedGeneration = 0\<rparr>"

definition demo_fingerprint :: cacheFingerprint where
  "demo_fingerprint = \<lparr>fp_generation = 1, fp_credRV = ''1'', fp_caRV = []\<rparr>"

lemma demo_connection_facts:
  "resolveAuthentication (demo_connection uid qm) = Inr \<lparr>ra_secretName = ''creds'', ra_mode = authModeBasic\<rparr>"
  "cacheFingerprint_of demo_factory_env (demo_connection uid qm) n w = (Inr demo_fingerprint, w)"
  "connectionCacheKey (demo_connection uid qm) = ''ns/conn''"
  by (simp_all add: resolveAuthentication_def demo_connection_def cacheFingerprint_of_def demo_factory_env_def
      demo_secret_def demo_fingerprint_def caSecretName_def connectionCacheKey_def)

lemma demo_first_call:
  assumes "uid \<in> {''old'', ''u1''}"
  shows "\<exists>cache. ForConnection demo_factory_env demo_create demo_close (demo_connection uid ''QM1'') ([], 0) =
     (Inr (0, ''QM1''), cache, Suc 0)"
proof -
  let ?r = "\<lambda>uid. ForConnection demo_factory_env demo_create demo_close (demo_connection uid ''QM1'') ([], 0)"
  have "fst (?r ''old'') = Inr (0, ''QM1'') \<and> snd (snd (?r ''old'')) = Suc 0" by code_simp
  moreover have "fst (?r ''u1'') = Inr (0, ''QM1'') \<and> snd (snd (?r ''u1'')) = Suc 0" by code_simp
  ultimately show ?thesis using assms by (metis insertE prod.collapse singletonD)
qed

theorem client_cache_sound_witness:
  "\<exists>cache. ForConnection demo_factory_env demo_create demo_close (demo_connection ''u1'' ''QM1'') ([], 0) =
       (Inr (0, ''QM1''), cache, Suc 0) \<and>
     ForConnection demo_factory_env demo_create demo_close (demo_connection ''u1'' ''QM1'') (cache, 5) =
       (Inr (0, ''QM1''), cache, 5)"
proof -
  obtain cache where c: "ForConnection demo_factory_env demo_create demo_close (demo_connection ''u1'' ''QM1'') ([], 0) =
      (Inr (0, ''QM1''), cache, Suc 0)" using demo_first_call by blast
  from client_cache_sound [OF c demo_connection_facts(2) demo_connection_facts(1) refl demo_connection_facts(1)
      demo_connection_facts(2)] c
  show ?thesis by blast
qed

lemma fingerprint_world:
  assumes "\<And>ns n u v. fst (fe_getSecret env ns n u) = fst (fe_getSecret env ns n v)"
  shows "fst (cacheFingerprint_of env conn n v) = fst (cacheFingerprint_of env conn n w)"
proof -
  let ?g = "\<lambda>n u. fe_getSecret env (om_Namespace (c_meta conn)) n u"
  obtain r v1 where r: "?g n v = (r, v1)" by fastforce
  obtain w1 where r': "?g n w = (r, w1)" using assms [of _ n v w] r by (metis fst_conv prod.collapse)
  show ?thesis
  proof (cases "caSecretName conn")
    case None
    with r r' show ?thesis by (auto simp: cacheFingerprint_of_def Let_def split: sum.splits)
  next
    case (Some ca)
    obtain q v2 where q: "?g ca v1 = (q, v2)" by fastforce
    obtain w2 where q': "?g ca w1 = (q, w2)" using assms [of _ ca v1 w1] q by (metis fst_conv prod.collapse)
    with Some r r' q show ?thesis by (auto simp: cacheFingerprint_of_def Let_def split: sum.splits)
  qed
qed

text \<open>The cache cannot tell a re-created connection from the old one. The fingerprint holds the
  generation, which restarts at 1 for a new object, and the secrets' versions, but neither the UID nor
  the spec: a connection object with the same namespace, name, generation, secret references and secret
  versions gets the client that was built for the old one, whatever its UID, endpoint and queue manager.\<close>

theorem recreated_connection_gets_old_client:
  assumes "ForConnection env create close conn (cache, w) = (Inr c, cache', w')"
    and "\<And>ns n u v. fst (fe_getSecret env ns n u) = fst (fe_getSecret env ns n v)"
    and "conn2 = conn\<lparr>qm_Endpoint := endpoint, qm_QueueManager := qm, qm_RESTPrefix := pre,
                     c_meta := (c_meta conn)\<lparr>om_UID := uid, om_ResourceVersion := rv\<rparr>\<rparr>"
  shows "\<exists>v'. ForConnection env create close conn2 (cache', v) = (Inr c, cache', v')"
proof -
  obtain auth fp w1 where a: "resolveAuthentication conn = Inr auth"
    "cacheFingerprint_of env conn (ra_secretName auth) w = (Inr fp, w1)"
    "lookupClient (connectionCacheKey conn) fp cache' = Some c" using ForConnection_stores [OF assms(1)] by blast
  have k1: "connectionCacheKey conn2 = connectionCacheKey conn" using assms(3) by (simp add: connectionCacheKey_def)
  have "resolveAuthentication conn2 = resolveAuthentication conn"
    unfolding resolveAuthentication_def k1 by (simp add: assms(3))
  with a(1) k1 have k: "connectionCacheKey conn2 = connectionCacheKey conn" "resolveAuthentication conn2 = Inr auth"
    by simp_all
  have f: "fst (cacheFingerprint_of env conn2 (ra_secretName auth) v) = fst (cacheFingerprint_of env conn (ra_secretName auth) w)"
  proof -
    have e: "caSecretName conn2 = caSecretName conn" "om_Namespace (c_meta conn2) = om_Namespace (c_meta conn)"
      "om_Generation (c_meta conn2) = om_Generation (c_meta conn)"
      using assms(3) by (simp_all add: caSecretName_def)
    have "cacheFingerprint_of env conn2 (ra_secretName auth) v = cacheFingerprint_of env conn (ra_secretName auth) v"
      unfolding cacheFingerprint_of_def e ..
    then show ?thesis using fingerprint_world [OF assms(2)] by simp
  qed
  with a(2) obtain v' where "cacheFingerprint_of env conn2 (ra_secretName auth) v = (Inr fp, v')"
    by (metis fst_conv prod.collapse)
  from ForConnection_hit [OF k(2) this, of cache' c create close] a(3) k(1) show ?thesis by auto
qed

theorem recreated_connection_gets_old_client_witness:
  "\<exists>cache v. ForConnection demo_factory_env demo_create demo_close (demo_connection ''old'' ''QM1'') ([], 0) =
       (Inr (0, ''QM1''), cache, Suc 0) \<and>
     ForConnection demo_factory_env demo_create demo_close (demo_connection ''new'' ''QM2'') (cache, 5) =
       (Inr (0, ''QM1''), cache, v)"
proof -
  obtain cache where c: "ForConnection demo_factory_env demo_create demo_close (demo_connection ''old'' ''QM1'') ([], 0) =
      (Inr (0, ''QM1''), cache, Suc 0)" using demo_first_call by blast
  have s: "fst (fe_getSecret demo_factory_env ns n u) = fst (fe_getSecret demo_factory_env ns n v)" for ns n u v
    by (simp add: demo_factory_env_def)
  have d: "demo_connection ''new'' ''QM2'' = (demo_connection ''old'' ''QM1'')
      \<lparr>qm_Endpoint := ''https://mq:9443'', qm_QueueManager := ''QM2'', qm_RESTPrefix := [],
       c_meta := (c_meta (demo_connection ''old'' ''QM1''))\<lparr>om_UID := ''new'', om_ResourceVersion := ''7''\<rparr>\<rparr>"
    by (simp add: demo_connection_def)
  from recreated_connection_gets_old_client [OF c s d] c show ?thesis by blast
qed

section \<open>Addresses and authentication of a new client\<close>

fun hex_value :: "char \<Rightarrow> nat" where
  "hex_value c = (let n = of_char c in if n < 58 then n - 48 else n - 55)"

text \<open>\<open>url.PathUnescape\<close> on well-formed input.\<close>

fun path_unescape :: "string \<Rightarrow> string" where
  "path_unescape (p # a # b # s) =
     (if p = CHR ''%'' then char_of (16 * hex_value a + hex_value b) # path_unescape s
      else p # path_unescape (a # b # s))"
| "path_unescape s = s"

lemma of_char_upper_hex: "n < 16 \<Longrightarrow> of_char (upper_hex n) = (if n < 10 then 48 + n else 55 + n)"
  by (simp add: upper_hex_def)

lemma hex_value_upper_hex [simp]: "n < 16 \<Longrightarrow> hex_value (upper_hex n) = n"
  by (simp add: of_char_upper_hex Let_def)

lemma path_keeps_percent [simp]: "\<not> path_keeps (CHR ''%'')"
  by code_simp

lemma PathEscape_Cons:
  "PathEscape (c # s) = (if path_keeps c then c # PathEscape s
     else CHR ''%'' # upper_hex (of_char c div 16) # upper_hex (of_char c mod 16) # PathEscape s)"
  by (simp add: PathEscape_def)

lemma path_unescape_keep: "p \<noteq> CHR ''%'' \<Longrightarrow> path_unescape (p # s) = p # path_unescape s"
  by (cases s rule: path_unescape.cases) auto

lemma of_char_less: "(of_char (c :: char) :: nat) < 256"
  by (metis of_char_mod_256 mod_less_divisor zero_less_numeral)

lemma of_char_div_16: "(of_char (c :: char) :: nat) div 16 < 16"
  using less_mult_imp_div_less [of "of_char c :: nat" 16 16] of_char_less [of c] by simp

lemma path_unescape_PathEscape: "path_unescape (PathEscape s) = s"
proof (induction s)
  case (Cons c s)
  show ?case
  proof (cases "path_keeps c")
    case True
    then have "c \<noteq> CHR ''%''" by auto
    with True Cons show ?thesis by (simp add: PathEscape_Cons path_unescape_keep)
  next
    case False
    have l: "(of_char c :: nat) div 16 < 16" by (rule of_char_div_16)
    have "16 * (of_char c div 16) + of_char c mod 16 = (of_char c :: nat)" by simp
    with False Cons l show ?thesis by (simp add: PathEscape_Cons del: hex_value.simps)
  qed
qed (simp add: PathEscape_def)

lemma path_keeps_upper_hex [simp]: "n < 16 \<Longrightarrow> path_keeps (upper_hex n)"
  by (auto simp: path_keeps_def of_char_upper_hex Let_def)

lemma PathEscape_safe: "c \<in> set (PathEscape s) \<Longrightarrow> path_keeps c \<or> c = CHR ''%''"
proof (induction s)
  case (Cons d s)
  have "(of_char d :: nat) div 16 < 16" by (rule of_char_div_16)
  with Cons show ?case by (auto simp: PathEscape_Cons split: if_splits)
qed (simp add: PathEscape_def)

lemma PathEscape_inj: "PathEscape a = PathEscape b \<Longrightarrow> a = b"
  by (metis path_unescape_PathEscape)

lemma NewClient_Inr:
  assumes "NewClient cfg = Inr (c, b, l)"
  obtains endpoint where "cfg_Endpoint cfg = Some endpoint"
    "c_mqscURL c = TrimSuffix1 (CHR ''/'') endpoint @
       (if cfg_RESTPrefix cfg = [] then DefaultRESTPrefix else cfg_RESTPrefix cfg) @
       ''/admin/action/qmgr/'' @ PathEscape (cfg_QueueManager cfg) @ ''/mqsc''"
    "b = newCircuitBreaker (circuitBreakerConfigFromResilience (cfg_Resilience cfg))"
    "c_clientCertMode c = cfg_clientCertMode cfg"
    "case cfg_LTPA cfg of
       Some (u, p) \<Rightarrow> c_authenticator c = LTPAAuth \<and> c_reauth c \<and> la_username l = u \<and> la_password l = p
     | None \<Rightarrow> \<not> c_reauth c \<and> c_authenticator c =
         (case cfg_authenticator cfg of Some a \<Rightarrow> a | None \<Rightarrow> BasicAuth (cfg_Username cfg) (cfg_Password cfg))"
proof (rule that)
  show "cfg_Endpoint cfg = Some (the (cfg_Endpoint cfg))" using assms by (auto simp: NewClient_def split: option.splits)
qed (use assms in \<open>auto simp: NewClient_def newLTPAAuthenticator_def Let_def split: option.splits prod.splits if_splits\<close>)

lemma buildConfig_credentials:
  assumes "fe_getSecret env (om_Namespace (c_meta conn)) (ra_secretName auth) w = (Inr secret, w1)"
    and "buildConfig env conn auth w = (Inr cfg, w2)" "ra_mode auth \<noteq> authModeClientCert"
  shows "\<exists>u p. credentialsFromSecret (s_Data secret) = Inr (u, p) \<and> \<not> cfg_clientCertMode cfg \<and>
     cfg_LTPA cfg = (if ra_mode auth = authModeLTPA then Some (u, p) else None) \<and>
     cfg_authenticator cfg = (if ra_mode auth = authModeLTPA then None else Some (BasicAuth u p))"
  using assms by (auto simp: buildConfig_def Let_def split: prod.splits sum.splits if_splits)

lemma buildServerTLSConfig_certificates:
  "buildServerTLSConfig env conn w = (Inr tls, w') \<Longrightarrow> tc_Certificates tls = []"
  by (auto simp: buildServerTLSConfig_def Let_def split: option.splits prod.splits sum.splits)

lemma buildConfig_clientCert:
  assumes "fe_getSecret env (om_Namespace (c_meta conn)) (ra_secretName auth) w = (Inr secret, w1)"
    and "buildConfig env conn auth w = (Inr cfg, w2)" "ra_mode auth = authModeClientCert"
  shows "cfg_clientCertMode cfg \<and> cfg_LTPA cfg = None \<and> cfg_authenticator cfg = Some NoopAuth \<and>
     (\<exists>tls pair. cfg_TLSConfig cfg = Some tls \<and> tc_Certificates tls = [pair])"
  using assms
  by (auto simp: buildConfig_def buildClientCertConfig_def Let_def
      dest!: buildServerTLSConfig_certificates split: prod.splits sum.splits mq_error.splits)



end
