(* ===== verification/Watches.thy ===== *)
theory Watches
  imports Client_Factory Workload_Properties
begin

text \<open>
  What enqueues a reconcile: the secret watch (\<open>internal/controller/secret_watch.go\<close> with the
  stripping transform of \<open>internal/cacheconfig/secret.go\<close>), the predicates on workload objects
  (\<open>suspend.go\<close>) and the fan-out from a connection to its dependents (\<open>reconcile_shared.go\<close>).
  A list call of the API server is given by its result. Go maps are compared as sets of pairs.
  A deletion timestamp is only compared for being set: it does not change once it is.
\<close>

section \<open>Secrets\<close>

definition connectionReferencesSecret :: "QueueManagerConnection \<Rightarrow> string \<Rightarrow> bool" where
  "connectionReferencesSecret conn secretName =
     (if qm_CredentialsSecretRef conn = Some secretName then True
      else if (case qm_TLS conn of Some t \<Rightarrow> tls_CASecretRef t = Some secretName | None \<Rightarrow> False) then True
      else (case qm_Authentication conn of
              Some a \<Rightarrow>
                (if ma_Basic a = Some secretName then True
                 else if ma_LTPA a = Some secretName then True
                 else if ma_ClientCert a = Some secretName then True
                 else False)
            | None \<Rightarrow> False))"

type_synonym request = "string \<times> string"

definition requestsForSecret :: "QueueManagerConnection list result \<Rightarrow> Secret \<Rightarrow> request list" where
  "requestsForSecret listed secret =
     (case listed of
        Inl err \<Rightarrow> []
      | Inr items \<Rightarrow>
          map (\<lambda>conn. (om_Namespace (s_meta secret), om_Name (c_meta conn)))
            (filter (\<lambda>conn. connectionReferencesSecret conn (om_Name (s_meta secret))) items))"

definition stripSecretCredentialTransform :: "Secret \<Rightarrow> Secret" where
  "stripSecretCredentialTransform secret = secret\<lparr>s_Data := [], s_StringData := []\<rparr>"

definition secretCredentialsStripped :: "Secret \<Rightarrow> bool" where
  "secretCredentialsStripped secret \<longleftrightarrow> length (s_Data secret) = 0 \<and> length (s_StringData secret) = 0"

definition secretContentChanged :: "Secret \<Rightarrow> Secret \<Rightarrow> bool" where
  "secretContentChanged oldSecret newSecret =
     (let dataChanged = (set (s_Data oldSecret) \<noteq> set (s_Data newSecret) \<or>
                         set (s_StringData oldSecret) \<noteq> set (s_StringData newSecret));
          oldRV = om_ResourceVersion (s_meta oldSecret); newRV = om_ResourceVersion (s_meta newSecret)
      in if dataChanged then True
         else if secretCredentialsStripped oldSecret \<and> secretCredentialsStripped newSecret \<and>
                 oldRV \<noteq> [] \<and> newRV \<noteq> [] \<and> oldRV \<noteq> newRV
         then True else False)"

text \<open>The update predicate; create and delete events of secrets always pass.\<close>

definition secretWatchUpdate :: "Secret \<Rightarrow> Secret \<Rightarrow> bool" where
  "secretWatchUpdate oldSecret newSecret = secretContentChanged oldSecret newSecret"

section \<open>Workload objects\<close>

definition annotationValue :: "attrs \<Rightarrow> string \<Rightarrow> string" where
  "annotationValue annotations key = getz annotations key"

definition workloadLifecycleChanged :: "ObjectMeta \<Rightarrow> ObjectMeta \<Rightarrow> bool" where
  "workloadLifecycleChanged oldMeta newMeta =
     (if om_Deleting oldMeta \<noteq> om_Deleting newMeta then True
      else om_Finalizers oldMeta \<noteq> om_Finalizers newMeta)"

definition reconcileRequestedAnnotationChanged :: "ObjectMeta \<Rightarrow> ObjectMeta \<Rightarrow> bool" where
  "reconcileRequestedAnnotationChanged oldMeta newMeta =
     (annotationValue (om_Annotations oldMeta) ReconcileRequestedAtAnnotation \<noteq>
      annotationValue (om_Annotations newMeta) ReconcileRequestedAtAnnotation)"

text \<open>\<open>predicate.Or\<close> of \<open>GenerationChangedPredicate\<close> and the two above, for an update event.\<close>

definition workloadReconcilePredicates :: "ObjectMeta \<Rightarrow> ObjectMeta \<Rightarrow> bool" where
  "workloadReconcilePredicates oldMeta newMeta \<longleftrightarrow>
     om_Generation oldMeta \<noteq> om_Generation newMeta \<or>
     reconcileRequestedAnnotationChanged oldMeta newMeta \<or>
     workloadLifecycleChanged oldMeta newMeta"

section \<open>Connections and their dependents\<close>

definition connectionReady :: "QueueManagerConnection \<Rightarrow> bool" where
  "connectionReady conn = conditionsReady (qm_Conditions conn)"

definition connectionReadyChanged :: "QueueManagerConnection \<Rightarrow> QueueManagerConnection \<Rightarrow> bool" where
  "connectionReadyChanged oldConn newConn \<longleftrightarrow> connectionReady oldConn \<noteq> connectionReady newConn"

definition connectionWatchUpdate :: "QueueManagerConnection \<Rightarrow> QueueManagerConnection \<Rightarrow> bool" where
  "connectionWatchUpdate oldConn newConn \<longleftrightarrow>
     connectionReadyChanged oldConn newConn \<or>
     om_Generation (c_meta oldConn) \<noteq> om_Generation (c_meta newConn)"

definition appendListDependents ::
  "string \<Rightarrow> string \<Rightarrow> string \<Rightarrow> 'spec workload list result \<Rightarrow> request list \<Rightarrow> request list result" where
  "appendListDependents ns connName kind listed reqs =
     (case listed of
        Inl err \<Rightarrow> Inl (WrapError (''list '' @ kind) err)
      | Inr items \<Rightarrow>
          Inr (reqs @ map (\<lambda>item. (ns, om_Name (w_meta item)))
                        (filter (\<lambda>item. w_ConnectionRef item = connName) items)))"

definition appendDependentsOrLog ::
  "string \<Rightarrow> string \<Rightarrow> string \<Rightarrow> 'spec workload list result \<Rightarrow> request list \<Rightarrow> request list" where
  "appendDependentsOrLog ns connName kind listed reqs =
     (case appendListDependents ns connName kind listed reqs of Inl err \<Rightarrow> reqs | Inr added \<Rightarrow> added)"

record listing =
  ls_Queues :: "Queue list result"
  ls_Topics :: "Topic list result"
  ls_Channels :: "Channel list result"
  ls_Rules :: "ChannelAuthRule list result"
  ls_Authorities :: "AuthorityRecord list result"

definition requestsForConnection :: "listing \<Rightarrow> QueueManagerConnection \<Rightarrow> request list" where
  "requestsForConnection ls conn =
     (let ns = om_Namespace (c_meta conn); connName = om_Name (c_meta conn); reqs = [];
          reqs = appendDependentsOrLog ns connName ''Queue'' (ls_Queues ls) reqs;
          reqs = appendDependentsOrLog ns connName ''Topic'' (ls_Topics ls) reqs;
          reqs = appendDependentsOrLog ns connName ''Channel'' (ls_Channels ls) reqs;
          reqs = appendDependentsOrLog ns connName ''ChannelAuthRule'' (ls_Rules ls) reqs
      in appendDependentsOrLog ns connName ''AuthorityRecord'' (ls_Authorities ls) reqs)"

section \<open>A rotated secret is picked up\<close>

lemma resolveAuthentication_referenced:
  "resolveAuthentication conn = Inr auth \<Longrightarrow> connectionReferencesSecret conn (ra_secretName auth)"
  by (auto simp: resolveAuthentication_def connectionReferencesSecret_def Let_def
      split: option.splits if_splits)

lemma caSecret_referenced: "caSecretName conn = Some n \<Longrightarrow> connectionReferencesSecret conn n"
  by (simp add: caSecretName_def connectionReferencesSecret_def split: option.splits)

text \<open>An environment whose secrets are a fixed store.\<close>

definition stored_env :: "'w factory_env \<Rightarrow> (string \<Rightarrow> string \<Rightarrow> Secret result) \<Rightarrow> 'w factory_env" where
  "stored_env env store = env\<lparr>fe_getSecret := (\<lambda>ns n w. (store ns n, w))\<rparr>"

lemma fingerprint_stored:
  "cacheFingerprint_of (stored_env env store) conn n w =
     (let ns = om_Namespace (c_meta conn); g = om_Generation (c_meta conn) in
      case store ns n of
        Inl e \<Rightarrow> (Inl (secretLookupError n ''credentials'' ''cache fingerprint'' e), w)
      | Inr cs \<Rightarrow>
          (case caSecretName conn of
             None \<Rightarrow> (Inr \<lparr>fp_generation = g, fp_credRV = om_ResourceVersion (s_meta cs), fp_caRV = []\<rparr>, w)
           | Some ca \<Rightarrow>
               (case store ns ca of
                  Inl e \<Rightarrow> (Inl (secretLookupError ca ''CA'' ''cache fingerprint'' e), w)
                | Inr cas \<Rightarrow> (Inr \<lparr>fp_generation = g, fp_credRV = om_ResourceVersion (s_meta cs),
                                  fp_caRV = om_ResourceVersion (s_meta cas)\<rparr>, w))))"
  by (simp add: cacheFingerprint_of_def stored_env_def Let_def split: sum.splits option.splits)

lemma fingerprint_rotated:
  assumes "cacheFingerprint_of (stored_env env store) conn cred w = (Inr fp, w1)"
    and "cacheFingerprint_of (stored_env env (store(ns := (store ns)(name := Inr new)))) conn cred v = (Inr fp2, v1)"
    and "store ns name = Inr old" "ns = om_Namespace (c_meta conn)"
    and "om_ResourceVersion (s_meta old) \<noteq> om_ResourceVersion (s_meta new)"
    and "name = cred \<or> caSecretName conn = Some name"
  shows "fp2 \<noteq> fp" "v1 = v"
  using assms by (auto simp: fingerprint_stored Let_def split: sum.splits option.splits if_splits)

text \<open>C19: A rotated secret reaches the queue manager client. Let a connection use a secret, for its
  credentials or as its CA, and let the secret change, so that its resource version does. Although the
  informer holds no secret data, the update event passes the secret watch, the connection is among the
  requests it produces, and the next \<open>ForConnection\<close> does not return the cached client but one built
  from the new secret.\<close>

theorem secret_rotation_picked_up:
  assumes "ForConnection (stored_env env store) create close conn (cache, w) = (Inr c, cache', w')"
    and "resolveAuthentication conn = Inr auth" "name = ra_secretName auth \<or> caSecretName conn = Some name"
    and "store ns name = Inr old" "ns = om_Namespace (c_meta conn)"
    and "om_Name (s_meta new) = name" "om_Namespace (s_meta new) = ns"
    and "om_ResourceVersion (s_meta old) \<noteq> om_ResourceVersion (s_meta new)"
    and "om_ResourceVersion (s_meta old) \<noteq> []" "om_ResourceVersion (s_meta new) \<noteq> []"
    and "conn \<in> set items"
  shows "secretWatchUpdate (stripSecretCredentialTransform old) (stripSecretCredentialTransform new) \<and>
    (ns, om_Name (c_meta conn)) \<in> set (requestsForSecret (Inr items) (stripSecretCredentialTransform new)) \<and>
    (let env' = stored_env env (store(ns := (store ns)(name := Inr new))) in
     \<forall>v c2 cache2 v2. ForConnection env' create close conn (cache', v) = (Inr c2, cache2, v2) \<longrightarrow>
       (\<exists>cfg v3 v4. buildConfig env' conn auth v = (Inr cfg, v3) \<and> create cfg v3 = (Inr c2, v4)))"
proof -
  let ?env = "stored_env env store"
  let ?env' = "stored_env env (store(ns := (store ns)(name := Inr new)))"
  have ref: "connectionReferencesSecret conn name"
    using assms(2,3) resolveAuthentication_referenced caSecret_referenced by blast
  have watch: "secretWatchUpdate (stripSecretCredentialTransform old) (stripSecretCredentialTransform new)"
    using assms(8-10)
    by (simp add: secretWatchUpdate_def secretContentChanged_def secretCredentialsStripped_def
        stripSecretCredentialTransform_def)
  have req: "(ns, om_Name (c_meta conn)) \<in> set (requestsForSecret (Inr items) (stripSecretCredentialTransform new))"
    using ref assms(6,7,11) by (auto simp: requestsForSecret_def stripSecretCredentialTransform_def)
  have build: "\<exists>cfg v3 v4. buildConfig ?env' conn auth v = (Inr cfg, v3) \<and> create cfg v3 = (Inr c2, v4)"
    if run: "ForConnection ?env' create close conn (cache', v) = (Inr c2, cache2, v2)" for v c2 cache2 v2
  proof -
    obtain fp w1 where fp: "cacheFingerprint_of ?env conn (ra_secretName auth) w = (Inr fp, w1)"
      using ForConnection_stores [OF assms(1)] assms(2) by auto
    obtain fp2 v1 where fp2: "cacheFingerprint_of ?env' conn (ra_secretName auth) v = (Inr fp2, v1)"
      using ForConnection_stores [OF run] assms(2) by auto
    note ne = fingerprint_rotated [OF fp fp2 assms(4,5,8,3)]
    from client_cache_sound [OF assms(1) fp assms(2) refl assms(2) fp2] run ne show ?thesis by blast
  qed
  from watch req build show ?thesis unfolding Let_def by blast
qed

definition rotated_secret :: Secret where
  "rotated_secret = demo_secret\<lparr>s_meta := (s_meta demo_secret)\<lparr>om_ResourceVersion := ''2''\<rparr>,
     s_Data := [(''password'', ''new'')]\<rparr>"

definition demo_store :: "bool \<Rightarrow> string \<Rightarrow> string \<Rightarrow> Secret result" where
  "demo_store rotated ns n =
     (if rotated \<and> ns = ''ns'' \<and> n = ''creds'' then Inr rotated_secret else Inr demo_secret)"

lemma demo_store_update: "demo_store True = (demo_store False)(''ns'' := (demo_store False ''ns'')(''creds'' := Inr rotated_secret))"
  by (intro ext) (simp add: demo_store_def)

theorem secret_rotation_picked_up_witness:
  "secretWatchUpdate (stripSecretCredentialTransform demo_secret) (stripSecretCredentialTransform rotated_secret) \<and>
   (''ns'', ''conn'') \<in> set (requestsForSecret (Inr [demo_connection ''u1'' ''QM1''])
      (stripSecretCredentialTransform rotated_secret)) \<and>
   (case ForConnection (stored_env demo_factory_env (demo_store False)) demo_create demo_close
           (demo_connection ''u1'' ''QM1'') ([], 0) of
      (r1, cache, w1) \<Rightarrow> r1 = Inr (0, ''QM1'') \<and>
        (case ForConnection (stored_env demo_factory_env (demo_store True)) demo_create demo_close
                (demo_connection ''u1'' ''QM1'') (cache, w1) of
           (r2, cache2, w2) \<Rightarrow> r2 = Inr (1, ''QM1'')))"
proof -
  let ?conn = "demo_connection ''u1'' ''QM1''"
  let ?env = "stored_env demo_factory_env (demo_store False)"
  have env: "?env = demo_factory_env"
    by (simp add: stored_env_def demo_factory_env_def demo_store_def [abs_def])
  obtain cache where c: "ForConnection ?env demo_create demo_close ?conn ([], 0) = (Inr (0, ''QM1''), cache, Suc 0)"
    using demo_first_call [of "''u1''"] unfolding env by blast
  have rv: "om_ResourceVersion (s_meta demo_secret) = ''1''" "om_ResourceVersion (s_meta rotated_secret) = ''2''"
    "om_Name (s_meta rotated_secret) = ''creds''" "om_Namespace (s_meta rotated_secret) = ''ns''"
    "om_Namespace (c_meta ?conn) = ''ns''" "om_Name (c_meta ?conn) = ''conn''"
    "demo_store False ''ns'' ''creds'' = Inr demo_secret"
    by (simp_all add: demo_secret_def rotated_secret_def demo_connection_def demo_store_def)
  have ne: "om_ResourceVersion (s_meta demo_secret) \<noteq> om_ResourceVersion (s_meta rotated_secret)"
    "om_ResourceVersion (s_meta demo_secret) \<noteq> []" "om_ResourceVersion (s_meta rotated_secret) \<noteq> []"
    by (simp_all add: rv(1,2))
  have use: "''creds'' = ra_secretName \<lparr>ra_secretName = ''creds'', ra_mode = authModeBasic\<rparr> \<or>
      caSecretName ?conn = Some ''creds''" by simp
  have items: "?conn \<in> set [?conn]" by simp
  from secret_rotation_picked_up [OF c demo_connection_facts(1) use rv(7) rv(5) [symmetric] rv(3,4) ne items]
  have w: "secretWatchUpdate (stripSecretCredentialTransform demo_secret) (stripSecretCredentialTransform rotated_secret)"
    "(''ns'', ''conn'') \<in> set (requestsForSecret (Inr [?conn]) (stripSecretCredentialTransform rotated_secret))"
    unfolding rv(6) by blast+
  have "case ForConnection ?env demo_create demo_close ?conn ([], 0) of
      (r1, cache, w1) \<Rightarrow> r1 = Inr (0, ''QM1'') \<and>
        (case ForConnection (stored_env demo_factory_env (demo_store True)) demo_create demo_close ?conn (cache, w1) of
           (r2, cache2, w2) \<Rightarrow> r2 = Inr (1, ''QM1''))" by code_simp
  with w show ?thesis by blast
qed

section \<open>What enqueues a workload\<close>

text \<open>The predicates on workload objects let progress through and keep the operator's own status
  writes out. An update that only changes the status does not enqueue the object, so a reconcile does
  not trigger itself; a change of the spec (which the API server reflects in the generation), of the
  deletion state or of the requested-reconcile annotation does, and so does the write that adds the
  finalizer, after which the reconcile returns without requeue.\<close>

theorem workload_events:
  fixes obj obj' :: "'spec workload"
  assumes "k8s_lib_laws lib"
  shows "\<not> workloadReconcilePredicates (w_meta obj) ((w_meta obj)\<lparr>om_ResourceVersion := rv\<rparr>) \<and>
    (om_Generation (w_meta obj') \<noteq> om_Generation (w_meta obj) \<or> om_Deleting (w_meta obj') \<noteq> om_Deleting (w_meta obj) \<or>
       annotation obj' ReconcileRequestedAtAnnotation \<noteq> annotation obj ReconcileRequestedAtAnnotation \<longrightarrow>
       workloadReconcilePredicates (w_meta obj) (w_meta obj')) \<and>
    (\<not> ContainsFinalizer lib f (om_Finalizers (w_meta obj)) \<longrightarrow>
       workloadReconcilePredicates (w_meta obj)
         (w_meta (setFinalizers (AddFinalizer lib f (om_Finalizers (w_meta obj))) obj)))"
proof -
  have "om_Finalizers (w_meta obj) \<noteq> AddFinalizer lib f (om_Finalizers (w_meta obj))"
    if "\<not> ContainsFinalizer lib f (om_Finalizers (w_meta obj))"
    using k8s_lib_laws_simps(4) [OF assms, of f "om_Finalizers (w_meta obj)"] that
      k8s_lib_laws_simps(3) [OF assms, of f "om_Finalizers (w_meta obj)"] by auto
  then show ?thesis
    by (auto simp: workloadReconcilePredicates_def workloadLifecycleChanged_def annotationValue_def annotation_def
        reconcileRequestedAnnotationChanged_def setFinalizers_def)
qed

theorem workload_events_witness:
  "let obj = (demo_queue [] [] False [])\<lparr>w_meta := (w_meta (demo_queue [] [] False []))\<lparr>om_Finalizers := []\<rparr>\<rparr> in
   \<not> workloadReconcilePredicates (w_meta obj) ((w_meta obj)\<lparr>om_ResourceVersion := ''2''\<rparr>) \<and>
   workloadReconcilePredicates (w_meta obj) (w_meta (setFinalizers [QueueFinalizer] obj))"
proof -
  let ?obj = "(demo_queue [] [] False [])\<lparr>w_meta := (w_meta (demo_queue [] [] False []))\<lparr>om_Finalizers := []\<rparr>\<rparr>"
  have f: "\<not> ContainsFinalizer example_lib QueueFinalizer (om_Finalizers (w_meta ?obj))"
    "AddFinalizer example_lib QueueFinalizer (om_Finalizers (w_meta ?obj)) = [QueueFinalizer]"
    by (simp_all add: example_lib_def)
  from workload_events [OF example_lib_laws, of ?obj "''2''" ?obj QueueFinalizer] f show ?thesis
    unfolding Let_def by simp
qed

text \<open>The names of the listed objects that refer to a connection.\<close>

definition referrers :: "QueueManagerConnection \<Rightarrow> 'spec workload list result \<Rightarrow> string set" where
  "referrers conn listed =
     (case listed of
        Inl e \<Rightarrow> {}
      | Inr items \<Rightarrow> {om_Name (w_meta o') | o'. o' \<in> set items \<and> w_ConnectionRef o' = om_Name (c_meta conn)})"

lemma appendDependentsOrLog_set:
  "set (appendDependentsOrLog ns (om_Name (c_meta conn)) kind listed reqs) =
     set reqs \<union> (\<lambda>n. (ns, n)) ` referrers conn listed"
  by (auto simp: appendDependentsOrLog_def appendListDependents_def referrers_def split: sum.splits)

text \<open>A connection that becomes ready wakes its dependents. The change of readiness passes the
  connection watch; the requests it produces hold, for every kind whose list call succeeds, every object
  of the namespace that refers to the connection, and every request is such an object. The same requests
  go to each of the five controllers, without the kind: a controller also receives the names of objects of
  the other kinds, and for a name it does not know the run does nothing.\<close>

theorem connection_fan_out:
  assumes "connectionReady conn = False" "connectionReady conn' = True" "c_meta conn' = c_meta conn"
  shows "connectionWatchUpdate conn conn' \<and>
    set (requestsForConnection ls conn') =
      (\<lambda>n. (om_Namespace (c_meta conn), n)) `
        (referrers conn (ls_Queues ls) \<union> referrers conn (ls_Topics ls) \<union> referrers conn (ls_Channels ls) \<union>
         referrers conn (ls_Rules ls) \<union> referrers conn (ls_Authorities ls)) \<and>
    (\<forall>k e w (s :: 'w rs). k_get k ns n (rs_world s) = (Inl e, w) \<and> k8s_IsNotFound e \<longrightarrow>
       reconcileWorkload k wk ns n s = ((0, None), s\<lparr>rs_world := w\<rparr>))"
  using assms
  by (auto simp: connectionWatchUpdate_def connectionReadyChanged_def requestsForConnection_def Let_def
      appendDependentsOrLog_set reconcileWorkload_def mqRead_def image_Un)

definition demo_listing :: listing where
  "demo_listing =
     \<lparr>ls_Queues = Inr [demo_queue [] [] False []], ls_Topics = Inl (K8sError K8sOther ''timeout''), ls_Channels = Inr [],
      ls_Rules = Inr [], ls_Authorities = Inr []\<rparr>"

theorem connection_fan_out_witness:
  "connectionWatchUpdate (ready_connection\<lparr>qm_Conditions := []\<rparr>) ready_connection \<and>
   set (requestsForConnection demo_listing ready_connection) = {(''ns'', ''q'')}"
proof -
  let ?old = "ready_connection\<lparr>qm_Conditions := []\<rparr>"
  have r: "connectionReady ?old = False" "connectionReady ready_connection = True" by code_simp+
  have m: "c_meta ready_connection = c_meta ?old" by simp
  have q: "referrers ?old (ls_Queues demo_listing) = {''q''}" "referrers ?old (ls_Topics demo_listing) = {}"
    "referrers ?old (ls_Channels demo_listing) = {}" "referrers ?old (ls_Rules demo_listing) = {}"
    "referrers ?old (ls_Authorities demo_listing) = {}"
    by (auto simp: referrers_def demo_listing_def demo_queue_def ready_connection_def)
  have n: "om_Namespace (c_meta ?old) = ''ns''" by (simp add: ready_connection_def)
  from connection_fan_out [OF r m, of demo_listing] show ?thesis
    unfolding q n by (simp only: Un_empty_right image_insert image_empty) blast
qed

end
