(* ===== verification/Logging.thy ===== *)
theory Logging
  imports MQ_Errors
begin

text \<open>
  \<open>internal/logging\<close>: the settings (\<open>config.go\<close>), the choice of a handler (\<open>setup.go\<close>) and the
  handler that masks credentials (\<open>redact.go\<close>). The environment, the file system and the YAML
  decoder are the record \<open>log_env\<close>. The handlers of \<open>log/slog\<close> are modelled by what they write:
  the attributes given by \<open>WithAttrs\<close> and by the record, below the groups opened before them.
\<close>

section \<open>Settings\<close>

definition LevelDebug :: string where "LevelDebug = ''debug''"
definition LevelInfo :: string where "LevelInfo = ''info''"
definition LevelWarn :: string where "LevelWarn = ''warn''"
definition LevelError :: string where "LevelError = ''error''"
definition FormatJSON :: string where "FormatJSON = ''json''"
definition FormatText :: string where "FormatText = ''text''"

record logConfig =
  lc_Level :: string
  lc_Format :: string

record logOptions =
  lo_ConfigPath :: string
  lo_Level :: string
  lo_Format :: string

record log_env =
  le_Getenv :: "string \<Rightarrow> string"
  le_ReadFile :: "string \<Rightarrow> string result"
  le_yamlUnmarshal :: "string \<Rightarrow> logConfig result"

definition EnvConfig :: string where "EnvConfig = ''KURATOR_LOG_CONFIG''"
definition EnvLevel :: string where "EnvLevel = ''KURATOR_LOG_LEVEL''"
definition EnvFormat :: string where "EnvFormat = ''KURATOR_LOG_FORMAT''"

definition parseLevel :: "string \<Rightarrow> string result" where
  "parseLevel raw =
     (if ToLower (TrimSpace raw) \<in> {LevelDebug, LevelInfo, LevelWarn, LevelError}
      then Inr (ToLower (TrimSpace raw))
      else Inl (PlainError (''invalid log level '' @ Quote raw @ '' (want debug, info, warn, or error)'')))"

definition parseFormat :: "string \<Rightarrow> string result" where
  "parseFormat raw =
     (if ToLower (TrimSpace raw) \<in> {FormatJSON, FormatText}
      then Inr (ToLower (TrimSpace raw))
      else Inl (PlainError (''invalid log format '' @ Quote raw @ '' (want json or text)'')))"

definition mergeConfig :: "logConfig \<Rightarrow> logConfig \<Rightarrow> logConfig" where
  "mergeConfig base overlay =
     (let base = (if lc_Level overlay \<noteq> [] then base\<lparr>lc_Level := lc_Level overlay\<rparr> else base) in
      if lc_Format overlay \<noteq> [] then base\<lparr>lc_Format := lc_Format overlay\<rparr> else base)"

definition defaultConfig :: "log_env \<Rightarrow> logConfig" where
  "defaultConfig env =
     \<lparr>lc_Level = LevelInfo,
      lc_Format = (if le_Getenv env ''KUBERNETES_SERVICE_HOST'' \<noteq> [] then FormatJSON else FormatText)\<rparr>"

text \<open>The pattern of \<open>Load\<close> and \<open>loadFile\<close>: a value that is set is parsed and assigned.\<close>

definition overrideLevel :: "string \<Rightarrow> logConfig \<Rightarrow> logConfig result" where
  "overrideLevel v cfg =
     (if v \<noteq> [] then (case parseLevel v of Inl e \<Rightarrow> Inl e | Inr level \<Rightarrow> Inr (cfg\<lparr>lc_Level := level\<rparr>)) else Inr cfg)"

definition overrideFormat :: "string \<Rightarrow> logConfig \<Rightarrow> logConfig result" where
  "overrideFormat v cfg =
     (if v \<noteq> [] then (case parseFormat v of Inl e \<Rightarrow> Inl e | Inr format \<Rightarrow> Inr (cfg\<lparr>lc_Format := format\<rparr>)) else Inr cfg)"

definition overrideBoth :: "string \<Rightarrow> string \<Rightarrow> logConfig \<Rightarrow> logConfig result" where
  "overrideBoth level format cfg =
     (case overrideLevel level cfg of Inl e \<Rightarrow> Inl e | Inr cfg \<Rightarrow> overrideFormat format cfg)"

definition loadFile :: "log_env \<Rightarrow> string \<Rightarrow> logConfig result" where
  "loadFile env path =
     (case le_ReadFile env path of
        Inl e \<Rightarrow> Inl e
      | Inr data \<Rightarrow>
          (case le_yamlUnmarshal env data of
             Inl e \<Rightarrow> Inl e
           | Inr cfg \<Rightarrow> overrideBoth (lc_Level cfg) (lc_Format cfg) cfg))"

definition Load :: "log_env \<Rightarrow> logOptions \<Rightarrow> logConfig result" where
  "Load env opts =
     (let cfg = defaultConfig env;
          configPath = (if lo_ConfigPath opts = [] then le_Getenv env EnvConfig else lo_ConfigPath opts);
          withFile =
            (if configPath \<noteq> [] then
               (case loadFile env configPath of
                  Inl e \<Rightarrow> Inl (WrapError (''load logging config '' @ Quote configPath) e)
                | Inr fileCfg \<Rightarrow> Inr (mergeConfig cfg fileCfg))
             else Inr cfg)
      in case withFile of
           Inl e \<Rightarrow> Inl e
         | Inr cfg \<Rightarrow>
             (case overrideBoth (le_Getenv env EnvLevel) (le_Getenv env EnvFormat) cfg of
                Inl e \<Rightarrow> Inl e
              | Inr cfg \<Rightarrow> overrideBoth (lo_Level opts) (lo_Format opts) cfg))"

section \<open>Masking\<close>

text \<open>A value of \<open>slog.Value\<close>: a string, a group of attributes, or anything else as it prints.\<close>

datatype slog_value = StringValue string | GroupValue "(string \<times> slog_value) list" | OtherValue string

type_synonym slog_attr = "string \<times> slog_value"

definition sensitiveKeys :: "string list" where
  "sensitiveKeys = [''password'', ''passwd'', ''token'', ''authorization'', ''secret'', ''credentials'',
     ''csrf'', ''apikey'', ''api_key'']"

fun redactAttr :: "slog_attr \<Rightarrow> slog_attr" where
  "redactAttr (key, v) =
     (if ToLower key \<in> set sensitiveKeys then (key, StringValue ''[REDACTED]'') else (key, v))"

text \<open>A handler of \<open>log/slog\<close> keeps the calls of \<open>WithAttrs\<close> and \<open>WithGroup\<close> it was derived by;
  \<open>written\<close> is what \<open>Handle\<close> writes for a record, each attribute with the groups around it.\<close>

datatype handler_op = WithAttrs "slog_attr list" | WithGroup string

fun written :: "string list \<Rightarrow> handler_op list \<Rightarrow> slog_attr list \<Rightarrow> (string list \<times> slog_attr) list" where
  "written path [] record_attrs = map (\<lambda>a. (path, a)) record_attrs"
| "written path (WithAttrs as # ops) record_attrs = map (\<lambda>a. (path, a)) as @ written path ops record_attrs"
| "written path (WithGroup g # ops) record_attrs = written (if g = [] then path else path @ [g]) ops record_attrs"

text \<open>\<open>redactHandler\<close>: its state is the derivation of its \<open>next\<close> handler.\<close>

record redactHandler =
  rh_next :: "handler_op list"

record baseHandler =
  bh_json :: bool
  bh_level :: int

definition newRedactHandler :: redactHandler where
  "newRedactHandler = \<lparr>rh_next = []\<rparr>"

definition redact_WithAttrs :: "slog_attr list \<Rightarrow> redactHandler \<Rightarrow> redactHandler" where
  "redact_WithAttrs attrs h = \<lparr>rh_next = rh_next h @ [WithAttrs (map redactAttr attrs)]\<rparr>"

definition redact_WithGroup :: "string \<Rightarrow> redactHandler \<Rightarrow> redactHandler" where
  "redact_WithGroup name h = \<lparr>rh_next = rh_next h @ [WithGroup name]\<rparr>"

definition redact_Handle :: "slog_attr list \<Rightarrow> redactHandler \<Rightarrow> (string list \<times> slog_attr) list" where
  "redact_Handle attrs h =
     (if length attrs = 0 then written [] (rh_next h) attrs
      else written [] (rh_next h) (map redactAttr attrs))"

section \<open>Choosing the handler\<close>

definition slogLevel :: "logConfig \<Rightarrow> int result" where
  "slogLevel c =
     (if lc_Level c = LevelDebug then Inr (-4) else if lc_Level c = LevelInfo then Inr 0
      else if lc_Level c = LevelWarn then Inr 4 else if lc_Level c = LevelError then Inr 8
      else Inl (PlainError (''unsupported log level '' @ Quote (lc_Level c))))"

definition NewHandler :: "logConfig \<Rightarrow> (baseHandler \<times> redactHandler) result" where
  "NewHandler cfg =
     (case slogLevel cfg of
        Inl e \<Rightarrow> Inl e
      | Inr level \<Rightarrow>
          if lc_Format cfg = FormatJSON then Inr (\<lparr>bh_json = True, bh_level = level\<rparr>, newRedactHandler)
          else if lc_Format cfg = FormatText then Inr (\<lparr>bh_json = False, bh_level = level\<rparr>, newRedactHandler)
          else Inl (PlainError (''unsupported log format '' @ Quote (lc_Format cfg))))"

text \<open>
  The installed logger of the process, if one is set, with the stream it writes to.
\<close>

datatype log_writer = Stdout | Stderr

type_synonym logger = "log_writer \<times> baseHandler \<times> redactHandler"

definition logWriter :: "string \<Rightarrow> log_writer" where
  "logWriter format = (if format = FormatText then Stderr else Stdout)"

definition SetupWithWriter ::
  "logConfig \<Rightarrow> log_writer \<Rightarrow> logger option \<Rightarrow> mq_error option \<times> logger option" where
  "SetupWithWriter cfg w installed =
     (case NewHandler cfg of
        Inl err \<Rightarrow> (Some err, installed)
      | Inr handler \<Rightarrow> (None, Some (w, handler)))"

definition Setup :: "logConfig \<Rightarrow> logger option \<Rightarrow> mq_error option \<times> logger option" where
  "Setup cfg installed = SetupWithWriter cfg (logWriter (lc_Format cfg)) installed"

definition NewLogger :: "logConfig \<Rightarrow> log_writer \<Rightarrow> logger result" where
  "NewLogger cfg w =
     (case NewHandler cfg of Inl err \<Rightarrow> Inl err | Inr handler \<Rightarrow> Inr (w, handler))"

section \<open>A loaded configuration can be set up\<close>

definition config_valid :: "logConfig \<Rightarrow> bool" where
  "config_valid cfg \<longleftrightarrow>
     lc_Level cfg \<in> {LevelDebug, LevelInfo, LevelWarn, LevelError} \<and> lc_Format cfg \<in> {FormatJSON, FormatText}"

text \<open>The first source that is set, in its normal form.\<close>

fun effective :: "string list \<Rightarrow> string \<Rightarrow> string" where
  "effective [] dflt = dflt"
| "effective (v # vs) dflt = (if v \<noteq> [] then ToLower (TrimSpace v) else effective vs dflt)"

definition fileValues :: "log_env \<Rightarrow> logOptions \<Rightarrow> logConfig result" where
  "fileValues env opts =
     (let configPath = (if lo_ConfigPath opts = [] then le_Getenv env EnvConfig else lo_ConfigPath opts) in
      if configPath = [] then Inr \<lparr>lc_Level = [], lc_Format = []\<rparr>
      else (case le_ReadFile env configPath of Inl e \<Rightarrow> Inl e | Inr data \<Rightarrow> le_yamlUnmarshal env data))"

lemma parse_ok:
  "parseLevel v = Inr l \<Longrightarrow> l = ToLower (TrimSpace v) \<and> l \<in> {LevelDebug, LevelInfo, LevelWarn, LevelError}"
  "parseFormat v = Inr f \<Longrightarrow> f = ToLower (TrimSpace v) \<and> f \<in> {FormatJSON, FormatText}"
  by (auto simp: parseLevel_def parseFormat_def split: if_splits)

lemma overrideBoth_ok:
  assumes "overrideBoth l f cfg = Inr cfg'"
  shows "lc_Level cfg' = effective [l] (lc_Level cfg)" "lc_Format cfg' = effective [f] (lc_Format cfg)"
    "config_valid cfg \<Longrightarrow> config_valid cfg'"
    "l \<noteq> [] \<Longrightarrow> lc_Level cfg' \<in> {LevelDebug, LevelInfo, LevelWarn, LevelError}"
    "f \<noteq> [] \<Longrightarrow> lc_Format cfg' \<in> {FormatJSON, FormatText}"
  using assms
  by (auto simp: overrideBoth_def overrideLevel_def overrideFormat_def config_valid_def
      split: if_splits sum.splits dest!: parse_ok)

lemma names_nonempty:
  "{LevelDebug, LevelInfo, LevelWarn, LevelError} \<subseteq> - {[]}" "{FormatJSON, FormatText} \<subseteq> - {[]}"
  by (simp_all add: LevelDebug_def LevelInfo_def LevelWarn_def LevelError_def FormatJSON_def FormatText_def)

lemma Load_precedence:
  assumes "Load env opts = Inr cfg"
  obtains fv where "fileValues env opts = Inr fv" "config_valid cfg"
    "lc_Level cfg = effective [lo_Level opts, le_Getenv env EnvLevel, lc_Level fv] LevelInfo"
    "lc_Format cfg = effective [lo_Format opts, le_Getenv env EnvFormat, lc_Format fv] (lc_Format (defaultConfig env))"
proof -
  have valid: "config_valid (defaultConfig env)" by (simp add: defaultConfig_def config_valid_def)
  obtain fv c1 where fv: "fileValues env opts = Inr fv" and c1: "config_valid c1"
      "lc_Level c1 = effective [lc_Level fv] LevelInfo"
      "lc_Format c1 = effective [lc_Format fv] (lc_Format (defaultConfig env))"
    and c2: "(case overrideBoth (le_Getenv env EnvLevel) (le_Getenv env EnvFormat) c1 of
        Inl e \<Rightarrow> Inl e | Inr cfg \<Rightarrow> overrideBoth (lo_Level opts) (lo_Format opts) cfg) = Inr cfg"
  proof (cases "(if lo_ConfigPath opts = [] then le_Getenv env EnvConfig else lo_ConfigPath opts) = []")
    case True
    then show thesis using assms valid that [of "\<lparr>lc_Level = [], lc_Format = []\<rparr>" "defaultConfig env"]
      by (simp add: Load_def fileValues_def Let_def defaultConfig_def)
  next
    case False
    then obtain raw fc where f: "fileValues env opts = Inr raw" "overrideBoth (lc_Level raw) (lc_Format raw) raw = Inr fc"
      and rest: "(case overrideBoth (le_Getenv env EnvLevel) (le_Getenv env EnvFormat) (mergeConfig (defaultConfig env) fc) of
        Inl e \<Rightarrow> Inl e | Inr cfg \<Rightarrow> overrideBoth (lo_Level opts) (lo_Format opts) cfg) = Inr cfg"
      using assms by (fastforce simp: Load_def loadFile_def fileValues_def Let_def split: sum.splits)
    note ok = overrideBoth_ok [OF f(2)]
    have m: "config_valid (mergeConfig (defaultConfig env) fc)"
      "lc_Level (mergeConfig (defaultConfig env) fc) = effective [lc_Level raw] LevelInfo"
      "lc_Format (mergeConfig (defaultConfig env) fc) = effective [lc_Format raw] (lc_Format (defaultConfig env))"
      using ok valid names_nonempty by (auto simp: mergeConfig_def Let_def config_valid_def defaultConfig_def)
    from that [OF f(1) m rest] show thesis .
  qed
  from c2 obtain c where c: "overrideBoth (le_Getenv env EnvLevel) (le_Getenv env EnvFormat) c1 = Inr c"
    "overrideBoth (lo_Level opts) (lo_Format opts) c = Inr cfg" by (auto split: sum.splits)
  note o1 = overrideBoth_ok [OF c(1)] and o2 = overrideBoth_ok [OF c(2)]
  show thesis by (rule that [OF fv]) (use o1 o2 c1 in auto)
qed

lemma config_valid_handler: "config_valid cfg \<Longrightarrow> \<exists>h. NewHandler cfg = Inr h"
  by (auto simp: config_valid_def NewHandler_def slogLevel_def)

text \<open>Every configuration that \<open>Load\<close> returns is accepted by \<open>Setup\<close>.\<close>

corollary loaded_config_sets_up:
  assumes "Load env opts = Inr cfg"
  shows "\<exists>h. NewHandler cfg = Inr h"
  using assms by (rule Load_precedence) (rule config_valid_handler)

section \<open>Sensitive keys are masked\<close>

text \<open>A logger is derived from the root handler by calls of \<open>WithAttrs\<close> and \<open>WithGroup\<close>.\<close>

fun derive :: "handler_op list \<Rightarrow> redactHandler \<Rightarrow> redactHandler" where
  "derive [] h = h"
| "derive (WithAttrs as # ops) h = derive ops (redact_WithAttrs as h)"
| "derive (WithGroup g # ops) h = derive ops (redact_WithGroup g h)"

fun redactOp :: "handler_op \<Rightarrow> handler_op" where
  "redactOp (WithAttrs as) = WithAttrs (map redactAttr as)"
| "redactOp (WithGroup g) = WithGroup g"

lemma derive_next: "rh_next (derive ops h) = rh_next h @ map redactOp ops"
  by (induction ops h rule: derive.induct) (simp_all add: redact_WithAttrs_def redact_WithGroup_def)

lemma written_redacted:
  "written path (map redactOp ops) (map redactAttr attrs) = map (apsnd redactAttr) (written path ops attrs)"
  by (induction path ops attrs rule: written.induct) simp_all

lemma redactAttr_masks:
  "redactAttr a = (k, v) \<Longrightarrow> ToLower k \<in> set sensitiveKeys \<Longrightarrow> v = StringValue ''[REDACTED]''"
  "redactAttr a = (k, v) \<Longrightarrow> ToLower k \<notin> set sensitiveKeys \<Longrightarrow> (k, v) = a"
  by (cases a; auto split: if_splits)+

text \<open>C39: Sensitive attributes are masked before they are written. For a logger derived in any way from
  the root handler, the output is what an unmasked logger would write, attribute by attribute and
  group by group, with the value of every attribute whose key is sensitive in any spelling replaced by
  [REDACTED] and no other attribute changed. The masking does not look into values: an attribute inside
  a group value is written unchanged, also when its key is password.\<close>

theorem log_redaction:
  "redact_Handle attrs (derive ops newRedactHandler) = map (apsnd redactAttr) (written [] ops attrs) \<and>
   (\<forall>(path, k, v) \<in> set (redact_Handle attrs (derive ops newRedactHandler)).
      (ToLower k \<in> set sensitiveKeys \<longrightarrow> v = StringValue ''[REDACTED]'') \<and>
      (ToLower k \<notin> set sensitiveKeys \<longrightarrow> (path, k, v) \<in> set (written [] ops attrs))) \<and>
   (\<forall>g secret. ToLower g \<notin> set sensitiveKeys \<longrightarrow>
      redact_Handle [(g, GroupValue [(''password'', StringValue secret)])] newRedactHandler
        = [([], g, GroupValue [(''password'', StringValue secret)])])"
proof (intro conjI)
  show out: "redact_Handle attrs (derive ops newRedactHandler) = map (apsnd redactAttr) (written [] ops attrs)"
    using written_redacted [of "[]" ops attrs]
    by (cases attrs) (simp_all add: redact_Handle_def derive_next newRedactHandler_def)
  show "\<forall>(path, k, v) \<in> set (redact_Handle attrs (derive ops newRedactHandler)).
      (ToLower k \<in> set sensitiveKeys \<longrightarrow> v = StringValue ''[REDACTED]'') \<and>
      (ToLower k \<notin> set sensitiveKeys \<longrightarrow> (path, k, v) \<in> set (written [] ops attrs))"
  proof (unfold out, intro ballI, unfold split_paired_all case_prod_conv)
    fix path k v assume "(path, k, v) \<in> set (map (apsnd redactAttr) (written [] ops attrs))"
    then obtain a where a: "(path, a) \<in> set (written [] ops attrs)" "redactAttr a = (k, v)" by auto
    show "(ToLower k \<in> set sensitiveKeys \<longrightarrow> v = StringValue ''[REDACTED]'') \<and>
      (ToLower k \<notin> set sensitiveKeys \<longrightarrow> (path, k, v) \<in> set (written [] ops attrs))"
      using redactAttr_masks [OF a(2)] a(1) by simp
  qed
  show "\<forall>g secret. ToLower g \<notin> set sensitiveKeys \<longrightarrow>
      redact_Handle [(g, GroupValue [(''password'', StringValue secret)])] newRedactHandler
        = [([], g, GroupValue [(''password'', StringValue secret)])]"
    by (simp add: redact_Handle_def newRedactHandler_def)
qed

text \<open>A logger with a masked attribute, a group and a record; and the group value that is not masked.\<close>

theorem log_redaction_witness:
  "(let out = redact_Handle [(''Token'', StringValue ''t0k''), (''name'', StringValue ''q'')]
      (derive [WithAttrs [(''PASSWORD'', StringValue ''pw'')], WithGroup ''http''] newRedactHandler) in
    out = [([], ''PASSWORD'', StringValue ''[REDACTED]''), ([''http''], ''Token'', StringValue ''[REDACTED]''),
           ([''http''], ''name'', StringValue ''q'')]) \<and>
   redact_Handle [(''auth'', GroupValue [(''password'', StringValue ''pw'')])] newRedactHandler
     = [([], ''auth'', GroupValue [(''password'', StringValue ''pw'')])]"
proof
  have "map (apsnd redactAttr) (written [] [WithAttrs [(''PASSWORD'', StringValue ''pw'')], WithGroup ''http'']
      [(''Token'', StringValue ''t0k''), (''name'', StringValue ''q'')])
    = [([], ''PASSWORD'', StringValue ''[REDACTED]''), ([''http''], ''Token'', StringValue ''[REDACTED]''),
       ([''http''], ''name'', StringValue ''q'')]" by code_simp
  then show "let out = redact_Handle [(''Token'', StringValue ''t0k''), (''name'', StringValue ''q'')]
      (derive [WithAttrs [(''PASSWORD'', StringValue ''pw'')], WithGroup ''http''] newRedactHandler) in
    out = [([], ''PASSWORD'', StringValue ''[REDACTED]''), ([''http''], ''Token'', StringValue ''[REDACTED]''),
           ([''http''], ''name'', StringValue ''q'')]"
    unfolding Let_def by (simp only: log_redaction [THEN conjunct1])
  have "ToLower ''auth'' \<notin> set sensitiveKeys" by code_simp
  then show "redact_Handle [(''auth'', GroupValue [(''password'', StringValue ''pw'')])] newRedactHandler
     = [([], ''auth'', GroupValue [(''password'', StringValue ''pw'')])]"
    using log_redaction by blast
qed

end
