(* ===== verification/Operator_Main.thy ===== *)
theory Operator_Main
  imports Logging Workload_Properties
begin

text \<open>
  \<open>cmd/main.go\<close> with the package settings of \<open>internal/controller\<close> (\<open>options.go\<close>,
  \<open>mq_request_context.go\<close>, \<open>reconcile_intervals.go\<close>, \<open>drift_resync.go\<close>): the flags and their
  defaults, the settings they lead to, the options of the two servers, and the order in which the
  process is put together. Flag parsing (package \<open>flag\<close>) is a function that overwrites the
  defaults; the calls of controller-runtime are steps of an arbitrary environment.
\<close>

section \<open>Package settings\<close>

record settings =
  maxConcurrentReconciles :: int
  mqRequestTimeout :: int
  set_intervals :: intervals

definition initialSettings :: settings where
  "initialSettings =
     \<lparr>maxConcurrentReconciles = 1, mqRequestTimeout = 30 * Second, set_intervals = defaultIntervals\<rparr>"

definition SetMaxConcurrentReconciles :: "int \<Rightarrow> settings \<Rightarrow> settings" where
  "SetMaxConcurrentReconciles n st = st\<lparr>maxConcurrentReconciles := (if n < 1 then 1 else n)\<rparr>"

definition SetMQRequestTimeout :: "int \<Rightarrow> settings \<Rightarrow> settings" where
  "SetMQRequestTimeout d st = (if d \<le> 0 then st else st\<lparr>mqRequestTimeout := d\<rparr>)"

text \<open>\<open>MQRequestContext\<close>: the deadline of a request is never later than its parent's.\<close>

definition MQRequestContext_deadline :: "settings \<Rightarrow> int \<Rightarrow> int option \<Rightarrow> int" where
  "MQRequestContext_deadline st now parent =
     (case parent of
        None \<Rightarrow> now + mqRequestTimeout st
      | Some d \<Rightarrow> min d (now + mqRequestTimeout st))"

record controller_options =
  co_MaxConcurrentReconciles :: int
  co_RecoverPanic :: bool

definition controllerOptions :: "settings \<Rightarrow> controller_options" where
  "controllerOptions st =
     \<lparr>co_MaxConcurrentReconciles = maxConcurrentReconciles st, co_RecoverPanic = True\<rparr>"

section \<open>Flags\<close>

record main_flags =
  mf_metricsAddr :: string
  mf_probeAddr :: string
  mf_leaderElect :: bool
  mf_secureMetrics :: bool
  mf_webhookCert :: "string \<times> string \<times> string"
  mf_metricsCert :: "string \<times> string \<times> string"
  mf_enableHTTP2 :: bool
  mf_log :: logOptions
  mf_maxConcurrent :: int
  mf_driftResyncLower :: int
  mf_driftResyncUpper :: int
  mf_connectionWait :: int
  mf_transientRequeue :: int
  mf_terminalRetry :: int
  mf_mqRequestTimeout :: int

definition maxConcurrentFromEnv :: "string \<Rightarrow> int" where
  "maxConcurrentFromEnv v =
     (if v \<noteq> [] then (case Atoi v of Some n \<Rightarrow> if n > 0 then n else 0 | None \<Rightarrow> 0) else 0)"

definition flagDefaults :: "log_env \<Rightarrow> main_flags" where
  "flagDefaults env =
     \<lparr>mf_metricsAddr = ''0'', mf_probeAddr = '':8081'', mf_leaderElect = False, mf_secureMetrics = True,
      mf_webhookCert = ([], ''tls.crt'', ''tls.key''), mf_metricsCert = ([], ''tls.crt'', ''tls.key''),
      mf_enableHTTP2 = False, mf_log = \<lparr>lo_ConfigPath = [], lo_Level = [], lo_Format = []\<rparr>,
      mf_maxConcurrent = maxConcurrentFromEnv (le_Getenv env ''KURATOR_MAX_CONCURRENT_RECONCILES''),
      mf_driftResyncLower = 5 * Minute, mf_driftResyncUpper = 10 * Minute, mf_connectionWait = 15 * Second,
      mf_transientRequeue = 30 * Second, mf_terminalRetry = 2 * Minute, mf_mqRequestTimeout = 30 * Second\<rparr>"

definition applyFlags :: "main_flags \<Rightarrow> settings \<Rightarrow> settings" where
  "applyFlags f st =
     (let st = SetMaxConcurrentReconciles (mf_maxConcurrent f) st;
          iv = SetDriftResyncInterval (mf_driftResyncLower f) (mf_driftResyncUpper f) (set_intervals st);
          iv = SetConnectionWaitInterval (mf_connectionWait f) iv;
          iv = SetTransientRequeueInterval (mf_transientRequeue f) iv;
          iv = SetTerminalRetryInterval (mf_terminalRetry f) iv
      in SetMQRequestTimeout (mf_mqRequestTimeout f) (st\<lparr>set_intervals := iv\<rparr>))"

definition settings_ok :: "settings \<Rightarrow> bool" where
  "settings_ok st \<longleftrightarrow>
     1 \<le> maxConcurrentReconciles st \<and> 0 < mqRequestTimeout st \<and> intervals_ok (set_intervals st)"

text \<open>Whatever the flags, the settings stay usable; without flags they are the built-in ones.\<close>

lemma applyFlags_ok: "settings_ok st \<Longrightarrow> settings_ok (applyFlags f st)"
  by (simp add: settings_ok_def applyFlags_def Let_def SetMaxConcurrentReconciles_def SetMQRequestTimeout_def
      intervals_ok_set)

lemma initialSettings_ok: "settings_ok initialSettings"
  by (simp add: settings_ok_def initialSettings_def intervals_ok_default Second_def)

lemma applyFlags_defaults:
  assumes "le_Getenv env ''KURATOR_MAX_CONCURRENT_RECONCILES'' = []"
  shows "applyFlags (flagDefaults env) initialSettings = initialSettings"
  using assms
  by (simp add: applyFlags_def flagDefaults_def initialSettings_def SetMaxConcurrentReconciles_def
      SetMQRequestTimeout_def SetDriftResyncInterval_def SetConnectionWaitInterval_def
      SetTransientRequeueInterval_def SetTerminalRetryInterval_def defaultIntervals_def
      maxConcurrentFromEnv_def Let_def Second_def Minute_def)

lemma request_deadline:
  "settings_ok st \<Longrightarrow> MQRequestContext_deadline st now parent \<le> now + mqRequestTimeout st \<and>
     (\<forall>d. parent = Some d \<longrightarrow> MQRequestContext_deadline st now parent \<le> d) \<and>
     (parent = None \<longrightarrow> now < MQRequestContext_deadline st now parent)"
  by (auto simp: MQRequestContext_deadline_def settings_ok_def split: option.splits)

section \<open>Servers\<close>

record server_options =
  so_NextProtos :: "string list option"
  so_Cert :: "(string \<times> string \<times> string) option"
  so_BindAddress :: string
  so_SecureServing :: bool
  so_Filtered :: bool

definition tlsProtos :: "main_flags \<Rightarrow> string list option" where
  "tlsProtos f = (if \<not> mf_enableHTTP2 f then Some [''http/1.1''] else None)"

definition certOption :: "string \<times> string \<times> string \<Rightarrow> (string \<times> string \<times> string) option" where
  "certOption cert = (if length (fst cert) > 0 then Some cert else None)"

definition webhookServerOptions :: "main_flags \<Rightarrow> server_options" where
  "webhookServerOptions f =
     \<lparr>so_NextProtos = tlsProtos f, so_Cert = certOption (mf_webhookCert f), so_BindAddress = [],
      so_SecureServing = True, so_Filtered = False\<rparr>"

definition metricsServerOptions :: "main_flags \<Rightarrow> server_options" where
  "metricsServerOptions f =
     \<lparr>so_NextProtos = tlsProtos f, so_Cert = certOption (mf_metricsCert f), so_BindAddress = mf_metricsAddr f,
      so_SecureServing = mf_secureMetrics f, so_Filtered = mf_secureMetrics f\<rparr>"

text \<open>Both servers speak HTTP/1.1 only unless HTTP/2 is asked for, and the metrics endpoint is
  protected by authentication whenever it is served over TLS.\<close>

lemma servers_hardened:
  "\<not> mf_enableHTTP2 f \<Longrightarrow> so_NextProtos (webhookServerOptions f) = Some [''http/1.1'']"
  "\<not> mf_enableHTTP2 f \<Longrightarrow> so_NextProtos (metricsServerOptions f) = Some [''http/1.1'']"
  "so_SecureServing (metricsServerOptions f) \<Longrightarrow> so_Filtered (metricsServerOptions f)"
  by (simp_all add: webhookServerOptions_def metricsServerOptions_def tlsProtos_def)

section \<open>The process\<close>

datatype setup_step =
    NewManager server_options server_options string bool
  | SetupController string controller_options
  | SetupWebhooks
  | AddHealthzCheck
  | AddReadyzCheck
  | StartManager

definition setupSteps :: "main_flags \<Rightarrow> settings \<Rightarrow> setup_step list" where
  "setupSteps f st =
     NewManager (webhookServerOptions f) (metricsServerOptions f) (mf_probeAddr f) (mf_leaderElect f) #
     map (\<lambda>n. SetupController n (controllerOptions st))
       [''QueueManagerConnection'', ''Queue'', ''Topic'', ''Channel'', ''ChannelAuthRule'', ''AuthorityRecord''] @
     [SetupWebhooks, AddHealthzCheck, AddReadyzCheck, StartManager]"

text \<open>Each failing step ends the process with exit code 1; the result is the exit code and the steps
  that were run.\<close>

fun runSteps ::
  "(setup_step \<Rightarrow> 'w \<Rightarrow> mq_error option \<times> 'w) \<Rightarrow> setup_step list \<Rightarrow> 'w \<Rightarrow> nat \<times> setup_step list \<times> 'w" where
  "runSteps run [] w = (0, [], w)"
| "runSteps run (st # sts) w =
     (case run st w of
        (Some e, w) \<Rightarrow> (1, [st], w)
      | (None, w) \<Rightarrow> (case runSteps run sts w of (code, done_steps, w) \<Rightarrow> (code, st # done_steps, w)))"

definition main ::
  "log_env \<Rightarrow> (main_flags \<Rightarrow> main_flags) \<Rightarrow> (setup_step \<Rightarrow> 'w \<Rightarrow> mq_error option \<times> 'w) \<Rightarrow> 'w \<Rightarrow>
     nat \<times> setup_step list \<times> 'w" where
  "main env parse run w =
     (let f = parse (flagDefaults env); st = applyFlags f initialSettings in
      case Load env (mf_log f) of
        Inl e \<Rightarrow> (1, [], w)
      | Inr logCfg \<Rightarrow>
          (case Setup logCfg None of
             (Some e, lg) \<Rightarrow> (1, [], w)
           | (None, lg) \<Rightarrow> runSteps run (setupSteps f st) w))"

lemma runSteps_prefix:
  "runSteps run sts w = (code, executed, w') \<Longrightarrow>
     \<exists>rest. sts = executed @ rest \<and> (code = 0 \<longrightarrow> rest = []) \<and> code \<le> 1"
proof (induction sts arbitrary: w code executed w')
  case (Cons st sts)
  show ?case
  proof (cases "run st w")
    case (Pair e v)
    obtain code' executed' v' where r: "runSteps run sts v = (code', executed', v')" by (metis surj_pair)
    with Cons.prems Pair Cons.IH [OF r] show ?thesis by (cases e) auto
  qed
qed simp

text \<open>Logging is set up before anything else can fail; the manager is started only after every
  controller, the webhooks and the probes were registered, with one worker at least and recovery from
  panics in every controller.\<close>

lemma main_order:
  assumes "main env parse run w = (code, executed, w')" "StartManager \<in> set executed"
  shows "executed = setupSteps (parse (flagDefaults env)) (applyFlags (parse (flagDefaults env)) initialSettings)"
    "\<exists>cfg. Load env (mf_log (parse (flagDefaults env))) = Inr cfg"
    "SetupController n opts \<in> set executed \<Longrightarrow> 1 \<le> co_MaxConcurrentReconciles opts \<and> co_RecoverPanic opts"
proof -
  let ?f = "parse (flagDefaults env)"
  let ?st = "applyFlags ?f initialSettings"
  obtain cfg where cfg: "Load env (mf_log ?f) = Inr cfg" and r: "runSteps run (setupSteps ?f ?st) w = (code, executed, w')"
    using assms by (auto simp: main_def Let_def split: sum.splits prod.splits option.splits)
  obtain rest where rest: "setupSteps ?f ?st = executed @ rest" using runSteps_prefix [OF r] by blast
  have last: "last (setupSteps ?f ?st) = StartManager" "StartManager \<notin> set (butlast (setupSteps ?f ?st))"
    by (simp_all add: setupSteps_def)
  have "rest = []"
  proof (rule ccontr)
    assume "rest \<noteq> []"
    then have "butlast (setupSteps ?f ?st) = executed @ butlast rest" by (simp add: rest butlast_append)
    with last(2) assms(2) show False by simp
  qed
  with rest show executed: "executed = setupSteps ?f ?st" by simp
  show "\<exists>cfg. Load env (mf_log ?f) = Inr cfg" using cfg by blast
  show "1 \<le> co_MaxConcurrentReconciles opts \<and> co_RecoverPanic opts" if "SetupController n opts \<in> set executed"
    using that applyFlags_ok [OF initialSettings_ok, of ?f] unfolding executed
    by (auto simp: setupSteps_def controllerOptions_def settings_ok_def)
qed

end
