(* ===== verification/Controllers.thy ===== *)
theory Controllers
  imports Watches Operator_Main
begin

text \<open>
  The wiring of the six controllers (\<open>setupMQObjectController\<close> and the \<open>SetupWithManager\<close> methods of
  \<open>internal/controller\<close>): which events reach which reconciler. A \<open>client.Object\<close> is a value of
  \<open>client_object\<close>, and the type switches of \<open>suspend.go\<close>, \<open>lifecycle_policy.go\<close> and
  \<open>reconcile_shared.go\<close> are functions on it. A controller is the description the code hands to the builder of
  controller-runtime: the kind it reconciles with its predicates, the kind it watches with its mapper and
  predicates, and its options. What the builder makes of it is not code of the operator: the
  function \<open>run\<close> gives the requests a controller enqueues for an event, and \<open>builder_contract\<close> states
  the documented behaviour of \<open>For\<close>, \<open>Watches\<close>, \<open>WithPredicates\<close> and \<open>EnqueueRequestsFromMapFunc\<close>.
\<close>

section \<open>Objects\<close>

datatype client_object =
    Obj_Queue Queue
  | Obj_Topic Topic
  | Obj_Channel Channel
  | Obj_ChannelAuthRule ChannelAuthRule
  | Obj_AuthorityRecord AuthorityRecord
  | Obj_QueueManagerConnection QueueManagerConnection
  | Obj_Secret Secret

datatype object_kind =
    K_Queue | K_Topic | K_Channel | K_ChannelAuthRule | K_AuthorityRecord
  | K_QueueManagerConnection | K_Secret

fun kind_of :: "client_object \<Rightarrow> object_kind" where
  "kind_of (Obj_Queue q) = K_Queue"
| "kind_of (Obj_Topic t) = K_Topic"
| "kind_of (Obj_Channel c) = K_Channel"
| "kind_of (Obj_ChannelAuthRule r) = K_ChannelAuthRule"
| "kind_of (Obj_AuthorityRecord a) = K_AuthorityRecord"
| "kind_of (Obj_QueueManagerConnection c) = K_QueueManagerConnection"
| "kind_of (Obj_Secret s) = K_Secret"

fun meta_of :: "client_object \<Rightarrow> ObjectMeta" where
  "meta_of (Obj_Queue q) = w_meta q"
| "meta_of (Obj_Topic t) = w_meta t"
| "meta_of (Obj_Channel c) = w_meta c"
| "meta_of (Obj_ChannelAuthRule r) = w_meta r"
| "meta_of (Obj_AuthorityRecord a) = w_meta a"
| "meta_of (Obj_QueueManagerConnection c) = c_meta c"
| "meta_of (Obj_Secret s) = s_meta s"

definition request_of :: "client_object \<Rightarrow> request" where
  "request_of obj = (om_Namespace (meta_of obj), om_Name (meta_of obj))"

text \<open>The interface \<open>MQObject\<close>: what its methods return for an object of one of the five kinds.\<close>

record MQObject =
  GetMQConditions :: "Condition list"
  GetMQStatusFields :: "string \<times> int option \<times> bool option"
  GetStatusObservedGeneration :: int
  ConnectionRefName :: string

definition workloadMQObject :: "'spec workload \<Rightarrow> MQObject" where
  "workloadMQObject obj =
     \<lparr>GetMQConditions = st_Conditions (w_Status obj),
      GetMQStatusFields =
        (st_Message (w_Status obj), st_LastSyncTime (w_Status obj), st_MQObjectExists (w_Status obj)),
      GetStatusObservedGeneration = st_ObservedGeneration (w_Status obj),
      ConnectionRefName = w_ConnectionRef obj\<rparr>"

definition SetStatusObservedGeneration :: "int \<Rightarrow> 'spec workload \<Rightarrow> 'spec workload" where
  "SetStatusObservedGeneration g obj =
     obj\<lparr>w_Status := (w_Status obj)\<lparr>st_ObservedGeneration := g\<rparr>\<rparr>"

lemma workloadMQObject_set [simp]:
  "workloadMQObject (SetStatusObservedGeneration g obj) =
     (workloadMQObject obj)\<lparr>GetStatusObservedGeneration := g\<rparr>"
  by (simp add: workloadMQObject_def SetStatusObservedGeneration_def)

definition mqObjectFrom :: "client_object \<Rightarrow> MQObject result" where
  "mqObjectFrom obj =
     (case obj of
        Obj_Queue q \<Rightarrow> Inr (workloadMQObject q)
      | Obj_Topic t \<Rightarrow> Inr (workloadMQObject t)
      | Obj_Channel c \<Rightarrow> Inr (workloadMQObject c)
      | Obj_ChannelAuthRule r \<Rightarrow> Inr (workloadMQObject r)
      | Obj_AuthorityRecord a \<Rightarrow> Inr (workloadMQObject a)
      | Obj_QueueManagerConnection c \<Rightarrow>
          Inl (PlainError ''unsupported workload type *v1beta1.QueueManagerConnection'')
      | Obj_Secret s \<Rightarrow> Inl (PlainError ''unsupported workload type *v1.Secret''))"

definition syncedConditions :: "client_object \<Rightarrow> Condition list" where
  "syncedConditions obj =
     (case mqObjectFrom obj of Inl err \<Rightarrow> [] | Inr mo \<Rightarrow> GetMQConditions mo)"

definition connectionRefName :: "client_object \<Rightarrow> string result" where
  "connectionRefName obj =
     (case mqObjectFrom obj of Inl err \<Rightarrow> Inl err | Inr mo \<Rightarrow> Inr (ConnectionRefName mo))"

definition workloadSuspended :: "client_object \<Rightarrow> bool" where
  "workloadSuspended obj =
     (case obj of
        Obj_Queue o' \<Rightarrow> w_Suspend o'
      | Obj_Topic o' \<Rightarrow> w_Suspend o'
      | Obj_Channel o' \<Rightarrow> w_Suspend o'
      | Obj_ChannelAuthRule o' \<Rightarrow> w_Suspend o'
      | Obj_AuthorityRecord o' \<Rightarrow> w_Suspend o'
      | _ \<Rightarrow> False)"

definition workloadLifecyclePolicies :: "client_object \<Rightarrow> WorkloadLifecyclePolicies" where
  "workloadLifecyclePolicies obj =
     (case obj of
        Obj_Queue o' \<Rightarrow> w_policies o'
      | Obj_Topic o' \<Rightarrow> w_policies o'
      | Obj_Channel o' \<Rightarrow> w_policies o'
      | Obj_ChannelAuthRule o' \<Rightarrow> w_policies o'
      | Obj_AuthorityRecord o' \<Rightarrow> w_policies o'
      | _ \<Rightarrow> \<lparr>lp_DeletionPolicy = [], lp_AdoptionPolicy = []\<rparr>)"

section \<open>Events and predicates\<close>

datatype watch_event =
    CreateEvent client_object
  | UpdateEvent client_object client_object
  | DeleteEvent client_object
  | GenericEvent client_object

record predicate_Funcs =
  CreateFunc :: "client_object \<Rightarrow> bool"
  UpdateFunc :: "client_object \<Rightarrow> client_object \<Rightarrow> bool"
  DeleteFunc :: "client_object \<Rightarrow> bool"
  GenericFunc :: "client_object \<Rightarrow> bool"

text \<open>\<open>predicate.Funcs{}\<close>: a function that is not set lets every event pass.\<close>

definition noFuncs :: predicate_Funcs where
  "noFuncs =
     \<lparr>CreateFunc = \<lambda>_. True, UpdateFunc = \<lambda>_ _. True, DeleteFunc = \<lambda>_. True, GenericFunc = \<lambda>_. True\<rparr>"

definition predicate_Or :: "predicate_Funcs list \<Rightarrow> predicate_Funcs" where
  "predicate_Or ps =
     \<lparr>CreateFunc = \<lambda>o'. list_ex (\<lambda>p. CreateFunc p o') ps,
      UpdateFunc = \<lambda>o' n. list_ex (\<lambda>p. UpdateFunc p o' n) ps,
      DeleteFunc = \<lambda>o'. list_ex (\<lambda>p. DeleteFunc p o') ps,
      GenericFunc = \<lambda>o'. list_ex (\<lambda>p. GenericFunc p o') ps\<rparr>"

definition workloadReconcileFuncs :: predicate_Funcs where
  "workloadReconcileFuncs =
     predicate_Or
       [noFuncs\<lparr>UpdateFunc := \<lambda>o' n. om_Generation (meta_of o') \<noteq> om_Generation (meta_of n)\<rparr>,
        noFuncs\<lparr>UpdateFunc := \<lambda>o' n. reconcileRequestedAnnotationChanged (meta_of o') (meta_of n)\<rparr>,
        noFuncs\<lparr>UpdateFunc := \<lambda>o' n. workloadLifecycleChanged (meta_of o') (meta_of n)\<rparr>]"

definition connectionWatchPredicates :: predicate_Funcs where
  "connectionWatchPredicates =
     noFuncs
       \<lparr>CreateFunc := \<lambda>obj.
          (case obj of Obj_QueueManagerConnection conn \<Rightarrow> connectionReady conn | _ \<Rightarrow> False),
        UpdateFunc := \<lambda>o' n.
          (case (o', n) of
             (Obj_QueueManagerConnection oldConn, Obj_QueueManagerConnection newConn) \<Rightarrow>
               connectionWatchUpdate oldConn newConn
           | _ \<Rightarrow> False)\<rparr>"

definition secretWatchPredicates :: predicate_Funcs where
  "secretWatchPredicates =
     noFuncs
       \<lparr>CreateFunc := \<lambda>obj. (case obj of Obj_Secret s \<Rightarrow> True | _ \<Rightarrow> False),
        UpdateFunc := \<lambda>o' n.
          (case (o', n) of
             (Obj_Secret oldSecret, Obj_Secret newSecret) \<Rightarrow> secretWatchUpdate oldSecret newSecret
           | _ \<Rightarrow> False),
        DeleteFunc := \<lambda>obj. (case obj of Obj_Secret s \<Rightarrow> True | _ \<Rightarrow> False)\<rparr>"

section \<open>Mappers and controllers\<close>

text \<open>What the list calls of the mappers return while an event is handled.\<close>

record cluster_lists =
  cl_Workloads :: listing
  cl_Connections :: "QueueManagerConnection list result"

definition connectionEnqueueMapper :: "cluster_lists \<Rightarrow> client_object \<Rightarrow> request list" where
  "connectionEnqueueMapper c obj =
     (case obj of
        Obj_QueueManagerConnection conn \<Rightarrow> requestsForConnection (cl_Workloads c) conn
      | _ \<Rightarrow> [])"

definition secretEnqueueMapper :: "cluster_lists \<Rightarrow> client_object \<Rightarrow> request list" where
  "secretEnqueueMapper c obj =
     (case obj of Obj_Secret secret \<Rightarrow> requestsForSecret (cl_Connections c) secret | _ \<Rightarrow> [])"

record controller =
  ct_For :: object_kind
  ct_ForPredicates :: predicate_Funcs
  ct_Options :: controller_options
  ct_Watches :: object_kind
  ct_Mapper :: "client_object \<Rightarrow> request list"
  ct_WatchPredicates :: predicate_Funcs

definition setupMQObjectController ::
  "settings \<Rightarrow> cluster_lists \<Rightarrow> object_kind \<Rightarrow> controller" where
  "setupMQObjectController st c forObj =
     \<lparr>ct_For = forObj,
      ct_ForPredicates = workloadReconcileFuncs,
      ct_Options = controllerOptions st,
      ct_Watches = K_QueueManagerConnection,
      ct_Mapper = connectionEnqueueMapper c,
      ct_WatchPredicates = connectionWatchPredicates\<rparr>"

definition QueueReconciler_SetupWithManager :: "settings \<Rightarrow> cluster_lists \<Rightarrow> controller" where
  "QueueReconciler_SetupWithManager st c = setupMQObjectController st c K_Queue"

definition TopicReconciler_SetupWithManager :: "settings \<Rightarrow> cluster_lists \<Rightarrow> controller" where
  "TopicReconciler_SetupWithManager st c = setupMQObjectController st c K_Topic"

definition ChannelReconciler_SetupWithManager :: "settings \<Rightarrow> cluster_lists \<Rightarrow> controller" where
  "ChannelReconciler_SetupWithManager st c = setupMQObjectController st c K_Channel"

definition ChannelAuthRuleReconciler_SetupWithManager :: "settings \<Rightarrow> cluster_lists \<Rightarrow> controller" where
  "ChannelAuthRuleReconciler_SetupWithManager st c = setupMQObjectController st c K_ChannelAuthRule"

definition AuthorityRecordReconciler_SetupWithManager :: "settings \<Rightarrow> cluster_lists \<Rightarrow> controller" where
  "AuthorityRecordReconciler_SetupWithManager st c = setupMQObjectController st c K_AuthorityRecord"

definition QueueManagerConnectionReconciler_SetupWithManager ::
  "settings \<Rightarrow> cluster_lists \<Rightarrow> controller" where
  "QueueManagerConnectionReconciler_SetupWithManager st c =
     \<lparr>ct_For = K_QueueManagerConnection,
      ct_ForPredicates = noFuncs,
      ct_Options = controllerOptions st,
      ct_Watches = K_Secret,
      ct_Mapper = secretEnqueueMapper c,
      ct_WatchPredicates = secretWatchPredicates\<rparr>"

definition controllers :: "settings \<Rightarrow> cluster_lists \<Rightarrow> controller list" where
  "controllers st c =
     [QueueManagerConnectionReconciler_SetupWithManager st c,
      QueueReconciler_SetupWithManager st c,
      TopicReconciler_SetupWithManager st c,
      ChannelReconciler_SetupWithManager st c,
      ChannelAuthRuleReconciler_SetupWithManager st c,
      AuthorityRecordReconciler_SetupWithManager st c]"

text \<open>
  \<open>cacheconfig.ManagerOptions\<close>: the transforms of the informer cache, by kind, and the kinds the
  client reads from the API server instead of the cache.
\<close>

definition stripTransform :: "client_object \<Rightarrow> client_object" where
  "stripTransform obj =
     (case obj of Obj_Secret secret \<Rightarrow> Obj_Secret (stripSecretCredentialTransform secret) | _ \<Rightarrow> obj)"

definition ManagerOptions ::
  "(object_kind \<times> (client_object \<Rightarrow> client_object)) list \<times> object_kind list" where
  "ManagerOptions = ([(K_Secret, stripTransform)], [K_Secret, K_QueueManagerConnection])"

text \<open>A secret in the informer cache holds no credentials, and everything that is read through the
  cache is cached unchanged.\<close>

lemma cached_secrets_stripped:
  assumes "map_of (fst ManagerOptions) (kind_of obj) = Some transform"
  shows "kind_of obj \<in> set (snd ManagerOptions)"
    "\<exists>s. transform obj = Obj_Secret s \<and> secretCredentialsStripped s"
  using assms
  by (cases obj; simp add: ManagerOptions_def stripTransform_def stripSecretCredentialTransform_def
      secretCredentialsStripped_def split: if_splits)+

section \<open>What the builder promises\<close>

fun passes :: "predicate_Funcs \<Rightarrow> watch_event \<Rightarrow> bool" where
  "passes p (CreateEvent obj) = CreateFunc p obj"
| "passes p (UpdateEvent old new) = UpdateFunc p old new"
| "passes p (DeleteEvent obj) = DeleteFunc p obj"
| "passes p (GenericEvent obj) = GenericFunc p obj"

fun event_objects :: "watch_event \<Rightarrow> client_object list" where
  "event_objects (CreateEvent obj) = [obj]"
| "event_objects (UpdateEvent old new) = [old, new]"
| "event_objects (DeleteEvent obj) = [obj]"
| "event_objects (GenericEvent obj) = [obj]"

definition event_subject :: "watch_event \<Rightarrow> client_object" where
  "event_subject ev = last (event_objects ev)"

definition builder_contract :: "(controller \<Rightarrow> watch_event \<Rightarrow> request set) \<Rightarrow> bool" where
  "builder_contract run \<longleftrightarrow>
     (\<forall>c ev. run c ev =
        (if kind_of (event_subject ev) = ct_For c \<and> passes (ct_ForPredicates c) ev
         then {request_of (event_subject ev)} else {}) \<union>
        (if kind_of (event_subject ev) = ct_Watches c \<and> passes (ct_WatchPredicates c) ev
         then set (concat (map (ct_Mapper c) (event_objects ev))) else {}))"


section \<open>What the predicates and mappers select\<close>

lemma controllers_cases:
  assumes "ctl \<in> set (controllers st c)"
  obtains "ctl = QueueManagerConnectionReconciler_SetupWithManager st c"
  | k where "ctl = setupMQObjectController st c k"
      "k \<in> {K_Queue, K_Topic, K_Channel, K_ChannelAuthRule, K_AuthorityRecord}"
  using assms
  by (auto simp: controllers_def QueueReconciler_SetupWithManager_def TopicReconciler_SetupWithManager_def
      ChannelReconciler_SetupWithManager_def ChannelAuthRuleReconciler_SetupWithManager_def
      AuthorityRecordReconciler_SetupWithManager_def)

lemma workloadReconcileFuncs_simps [simp]:
  "CreateFunc workloadReconcileFuncs obj"
  "DeleteFunc workloadReconcileFuncs obj"
  "UpdateFunc workloadReconcileFuncs old new \<longleftrightarrow>
     workloadReconcilePredicates (meta_of old) (meta_of new)"
  by (auto simp: workloadReconcileFuncs_def predicate_Or_def noFuncs_def workloadReconcilePredicates_def)

lemma noFuncs_pass [simp]: "passes noFuncs ev"
  by (cases ev) (simp_all add: noFuncs_def)

lemma status_write_unnoticed:
  "\<not> workloadReconcilePredicates m (m\<lparr>om_ResourceVersion := rv\<rparr>)"
  by (simp add: workloadReconcilePredicates_def workloadLifecycleChanged_def
      reconcileRequestedAnnotationChanged_def)

definition listed_in :: "'a list result \<Rightarrow> 'a \<Rightarrow> bool" where
  "listed_in listed x = (case listed of Inl e \<Rightarrow> False | Inr xs \<Rightarrow> x \<in> set xs)"

fun listed :: "cluster_lists \<Rightarrow> client_object \<Rightarrow> bool" where
  "listed c (Obj_Queue q) = listed_in (ls_Queues (cl_Workloads c)) q"
| "listed c (Obj_Topic t) = listed_in (ls_Topics (cl_Workloads c)) t"
| "listed c (Obj_Channel ch) = listed_in (ls_Channels (cl_Workloads c)) ch"
| "listed c (Obj_ChannelAuthRule r) = listed_in (ls_Rules (cl_Workloads c)) r"
| "listed c (Obj_AuthorityRecord a) = listed_in (ls_Authorities (cl_Workloads c)) a"
| "listed c (Obj_QueueManagerConnection conn) = listed_in (cl_Connections c) conn"
| "listed c (Obj_Secret s) = False"

definition dependents :: "cluster_lists \<Rightarrow> QueueManagerConnection \<Rightarrow> client_object set" where
  "dependents c conn =
     {obj. listed c obj \<and> connectionRefName obj = Inr (om_Name (c_meta conn))}"

lemma referrers_listed_in:
  "n \<in> referrers conn ls \<longleftrightarrow>
     (\<exists>o'. listed_in ls o' \<and> w_ConnectionRef o' = om_Name (c_meta conn) \<and> n = om_Name (w_meta o'))"
  by (auto simp: referrers_def listed_in_def split: sum.splits)

lemma connectionRefName_simps [simp]:
  "connectionRefName (Obj_Queue q) = Inr (w_ConnectionRef q)"
  "connectionRefName (Obj_Topic t) = Inr (w_ConnectionRef t)"
  "connectionRefName (Obj_Channel ch) = Inr (w_ConnectionRef ch)"
  "connectionRefName (Obj_ChannelAuthRule r) = Inr (w_ConnectionRef r)"
  "connectionRefName (Obj_AuthorityRecord a) = Inr (w_ConnectionRef a)"
  "connectionRefName (Obj_QueueManagerConnection conn) \<noteq> Inr n"
  "connectionRefName (Obj_Secret s) \<noteq> Inr n"
  by (simp_all add: connectionRefName_def mqObjectFrom_def workloadMQObject_def)

lemma dependents_names:
  "(\<lambda>obj. om_Name (meta_of obj)) ` dependents c conn =
     referrers conn (ls_Queues (cl_Workloads c)) \<union> referrers conn (ls_Topics (cl_Workloads c)) \<union>
     referrers conn (ls_Channels (cl_Workloads c)) \<union> referrers conn (ls_Rules (cl_Workloads c)) \<union>
     referrers conn (ls_Authorities (cl_Workloads c))"
proof (intro equalityI subsetI)
  fix n assume "n \<in> (\<lambda>obj. om_Name (meta_of obj)) ` dependents c conn"
  then obtain obj where "listed c obj" "connectionRefName obj = Inr (om_Name (c_meta conn))"
    "n = om_Name (meta_of obj)" by (auto simp: dependents_def)
  then show "n \<in> referrers conn (ls_Queues (cl_Workloads c)) \<union> referrers conn (ls_Topics (cl_Workloads c)) \<union>
     referrers conn (ls_Channels (cl_Workloads c)) \<union> referrers conn (ls_Rules (cl_Workloads c)) \<union>
     referrers conn (ls_Authorities (cl_Workloads c))"
    by (cases obj) (auto simp: referrers_listed_in)
next
  fix n assume "n \<in> referrers conn (ls_Queues (cl_Workloads c)) \<union> referrers conn (ls_Topics (cl_Workloads c)) \<union>
     referrers conn (ls_Channels (cl_Workloads c)) \<union> referrers conn (ls_Rules (cl_Workloads c)) \<union>
     referrers conn (ls_Authorities (cl_Workloads c))"
  moreover have "n \<in> (\<lambda>obj. om_Name (meta_of obj)) ` dependents c conn"
    if "n = om_Name (meta_of obj)" "listed c obj" "connectionRefName obj = Inr (om_Name (c_meta conn))"
    for obj using that by (auto simp: dependents_def)
  note d = this [of "Obj_Queue _"] this [of "Obj_Topic _"] this [of "Obj_Channel _"]
    this [of "Obj_ChannelAuthRule _"] this [of "Obj_AuthorityRecord _"]
  ultimately show "n \<in> (\<lambda>obj. om_Name (meta_of obj)) ` dependents c conn"
    unfolding referrers_listed_in Un_iff by (elim disjE exE conjE) (rule d; simp)+
qed

lemma requestsForConnection_dependents:
  "set (requestsForConnection (cl_Workloads c) conn) =
     (\<lambda>obj. (om_Namespace (c_meta conn), om_Name (meta_of obj))) ` dependents c conn"
proof -
  have "set (requestsForConnection (cl_Workloads c) conn) =
    (\<lambda>n. (om_Namespace (c_meta conn), n)) ` (\<lambda>obj. om_Name (meta_of obj)) ` dependents c conn"
    unfolding dependents_names
    by (simp add: requestsForConnection_def Let_def appendDependentsOrLog_set image_Un)
  then show ?thesis by (simp add: image_image)
qed

lemma requestsForSecret_listed:
  "set (requestsForSecret (cl_Connections c) secret) =
     {(om_Namespace (s_meta secret), om_Name (c_meta conn)) | conn.
        listed c (Obj_QueueManagerConnection conn) \<and>
        connectionReferencesSecret conn (om_Name (s_meta secret))}"
  by (cases "cl_Connections c") (auto simp: requestsForSecret_def listed_in_def)


lemma event_subject_simps [simp]:
  "event_subject (CreateEvent obj) = obj"
  "event_subject (UpdateEvent old new) = new"
  "event_subject (DeleteEvent obj) = obj"
  by (simp_all add: event_subject_def)

lemmas setup_defs =
  QueueReconciler_SetupWithManager_def TopicReconciler_SetupWithManager_def
  ChannelReconciler_SetupWithManager_def ChannelAuthRuleReconciler_SetupWithManager_def
  AuthorityRecordReconciler_SetupWithManager_def QueueManagerConnectionReconciler_SetupWithManager_def
  setupMQObjectController_def

lemmas watch_simps =
  connectionWatchPredicates_def secretWatchPredicates_def noFuncs_def connectionWatchUpdate_def
  connectionReadyChanged_def secretWatchUpdate_def

lemma noticed_change:
  "workloadReconcilePredicates old new \<longleftrightarrow>
     om_Generation old \<noteq> om_Generation new \<or> om_Deleting old \<noteq> om_Deleting new \<or>
     om_Finalizers old \<noteq> om_Finalizers new \<or>
     annotationValue (om_Annotations old) ReconcileRequestedAtAnnotation \<noteq>
       annotationValue (om_Annotations new) ReconcileRequestedAtAnnotation"
  by (auto simp: workloadReconcilePredicates_def workloadLifecycleChanged_def
      reconcileRequestedAnnotationChanged_def)

section \<open>What is enqueued\<close>

lemma run_workload_controller:
  assumes "builder_contract run" "k \<noteq> K_QueueManagerConnection"
  shows "run (setupMQObjectController st c k) ev =
    (if kind_of (event_subject ev) = k \<and> passes workloadReconcileFuncs ev
     then {request_of (event_subject ev)}
     else if kind_of (event_subject ev) = K_QueueManagerConnection \<and> passes connectionWatchPredicates ev
     then set (concat (map (connectionEnqueueMapper c) (event_objects ev))) else {})"
  using assms by (auto simp: builder_contract_def setupMQObjectController_def)

lemma run_connection_controller:
  assumes "builder_contract run"
  shows "run (QueueManagerConnectionReconciler_SetupWithManager st c) ev =
    (if kind_of (event_subject ev) = K_QueueManagerConnection then {request_of (event_subject ev)}
     else if kind_of (event_subject ev) = K_Secret \<and> passes secretWatchPredicates ev
     then set (concat (map (secretEnqueueMapper c) (event_objects ev))) else {})"
  using assms by (auto simp: builder_contract_def QueueManagerConnectionReconciler_SetupWithManager_def)

definition workload_kinds :: "object_kind set" where
  "workload_kinds = {K_Queue, K_Topic, K_Channel, K_ChannelAuthRule, K_AuthorityRecord}"

lemma own_status_write:
  assumes "builder_contract run" "ctl \<in> set (controllers st c)"
    and "kind_of old \<in> workload_kinds" "kind_of new = kind_of old"
    and "meta_of new = (meta_of old)\<lparr>om_ResourceVersion := rv\<rparr>"
  shows "run ctl (UpdateEvent old new) = {}"
  using assms(2)
proof (cases rule: controllers_cases)
  case 1
  then show ?thesis
    using assms run_connection_controller [OF assms(1)] by (auto simp: workload_kinds_def)
next
  case (2 k)
  then show ?thesis
    using assms run_workload_controller [OF assms(1), of k] by (auto simp: workload_kinds_def status_write_unnoticed)
qed

lemma own_event:
  assumes "builder_contract run" "ctl \<in> set (controllers st c)"
    and "ct_For ctl = kind_of (event_subject ev)" "passes workloadReconcileFuncs ev"
  shows "request_of (event_subject ev) \<in> run ctl ev"
  using assms(2)
proof (cases rule: controllers_cases)
  case 1
  then show ?thesis
    using assms run_connection_controller [OF assms(1)]
    by (simp add: QueueManagerConnectionReconciler_SetupWithManager_def)
next
  case (2 k)
  then have "ct_For ctl = k" "k \<noteq> K_QueueManagerConnection" by (auto simp: setupMQObjectController_def)
  then show ?thesis
    using 2 assms run_workload_controller [OF assms(1), of k] by simp
qed

lemma connection_event:
  assumes "builder_contract run" "ctl \<in> set (controllers st c)" "ct_For ctl \<noteq> K_QueueManagerConnection"
    and "passes connectionWatchPredicates ev"
    and "event_objects ev \<noteq> []" "\<And>obj. obj \<in> set (event_objects ev) \<Longrightarrow>
      \<exists>conn'. obj = Obj_QueueManagerConnection conn' \<and> om_Name (c_meta conn') = om_Name (c_meta conn) \<and>
        om_Namespace (c_meta conn') = ns"
  shows "run ctl ev = (\<lambda>obj. (ns, om_Name (meta_of obj))) ` dependents c conn"
  using assms(2)
proof (cases rule: controllers_cases)
  case 1
  then show ?thesis
    using assms(3) by (simp add: QueueManagerConnectionReconciler_SetupWithManager_def)
next
  case (2 k)
  have d: "dependents c conn' = dependents c conn" if "om_Name (c_meta conn') = om_Name (c_meta conn)" for conn'
    using that by (simp add: dependents_def)
  have e: "set (connectionEnqueueMapper c obj) =
      (\<lambda>obj. (ns, om_Name (meta_of obj))) ` dependents c conn"
    if i: "obj \<in> set (event_objects ev)" for obj
  proof -
    obtain conn' where "obj = Obj_QueueManagerConnection conn'" "om_Namespace (c_meta conn') = ns"
      "om_Name (c_meta conn') = om_Name (c_meta conn)" using assms(6) [OF i] by blast
    then show ?thesis
      using d [of conn'] by (simp add: connectionEnqueueMapper_def requestsForConnection_dependents)
  qed
  have "event_subject ev \<in> set (event_objects ev)" using assms(5) by (simp add: event_subject_def)
  then have "kind_of (event_subject ev) = K_QueueManagerConnection" using assms(6) by force
  moreover have "(\<Union>obj\<in>set (event_objects ev). set (connectionEnqueueMapper c obj)) =
      (\<lambda>obj. (ns, om_Name (meta_of obj))) ` dependents c conn"
    using assms(5) e by simp
  moreover have "k \<noteq> K_QueueManagerConnection" using 2(2) by auto
  ultimately show ?thesis
    using 2 assms(4) by (auto simp: run_workload_controller [OF assms(1)])
qed

lemma secret_event:
  assumes "builder_contract run" "passes secretWatchPredicates ev" "event_objects ev \<noteq> []"
    and "\<And>obj. obj \<in> set (event_objects ev) \<Longrightarrow>
      \<exists>s. obj = Obj_Secret s \<and> om_Name (s_meta s) = n \<and> om_Namespace (s_meta s) = ns"
  shows "run (QueueManagerConnectionReconciler_SetupWithManager st c) ev =
    {(ns, om_Name (c_meta conn)) | conn.
       listed c (Obj_QueueManagerConnection conn) \<and> connectionReferencesSecret conn n}"
proof -
  have e: "set (secretEnqueueMapper c obj) =
      {(ns, om_Name (c_meta conn)) | conn.
         listed c (Obj_QueueManagerConnection conn) \<and> connectionReferencesSecret conn n}"
    if "obj \<in> set (event_objects ev)" for obj
    using assms(4) [OF that] by (auto simp: secretEnqueueMapper_def requestsForSecret_listed simp del: listed.simps)
  have "event_subject ev \<in> set (event_objects ev)" using assms(3) by (simp add: event_subject_def)
  then have "kind_of (event_subject ev) = K_Secret" using assms(4) by force
  then show ?thesis
    using assms(2,3) e by (simp add: run_connection_controller [OF assms(1)])
qed


definition secret_users :: "cluster_lists \<Rightarrow> Secret \<Rightarrow> request set" where
  "secret_users c secret =
     {(om_Namespace (s_meta secret), om_Name (c_meta conn)) | conn.
        listed c (Obj_QueueManagerConnection conn) \<and>
        connectionReferencesSecret conn (om_Name (s_meta secret))}"

definition dependent_requests :: "cluster_lists \<Rightarrow> QueueManagerConnection \<Rightarrow> request set" where
  "dependent_requests c conn =
     (\<lambda>obj. (om_Namespace (c_meta conn), om_Name (meta_of obj))) ` dependents c conn"

lemma connection_events:
  assumes "builder_contract run" "ctl \<in> set (controllers st c)" "ct_For ctl \<noteq> K_QueueManagerConnection"
  shows "connectionReady conn \<Longrightarrow>
      run ctl (CreateEvent (Obj_QueueManagerConnection conn)) = dependent_requests c conn"
    and "run ctl (DeleteEvent (Obj_QueueManagerConnection conn)) = dependent_requests c conn"
    and "connectionReady conn' \<noteq> connectionReady conn \<Longrightarrow> om_Name (c_meta conn') = om_Name (c_meta conn) \<Longrightarrow>
      om_Namespace (c_meta conn') = om_Namespace (c_meta conn) \<Longrightarrow>
      run ctl (UpdateEvent (Obj_QueueManagerConnection conn) (Obj_QueueManagerConnection conn')) =
        dependent_requests c conn"
  unfolding dependent_requests_def
  by (rule connection_event [OF assms]; auto simp: watch_simps)+

lemma secret_events:
  assumes "builder_contract run" "ctl \<in> set (controllers st c)" "ct_For ctl = K_QueueManagerConnection"
  shows "run ctl (CreateEvent (Obj_Secret s)) = secret_users c s"
    and "run ctl (DeleteEvent (Obj_Secret s)) = secret_users c s"
    and "secretContentChanged s s' \<Longrightarrow> om_Name (s_meta s') = om_Name (s_meta s) \<Longrightarrow>
      om_Namespace (s_meta s') = om_Namespace (s_meta s) \<Longrightarrow>
      run ctl (UpdateEvent (Obj_Secret s) (Obj_Secret s')) = secret_users c s"
    and "request_of (Obj_QueueManagerConnection conn') \<in>
      run ctl (UpdateEvent (Obj_QueueManagerConnection conn) (Obj_QueueManagerConnection conn'))"
proof -
  have ctl: "ctl = QueueManagerConnectionReconciler_SetupWithManager st c"
    using assms(2,3) by (auto simp: controllers_def setup_defs)
  note e = secret_event [OF assms(1), of _ "om_Name (s_meta s)" "om_Namespace (s_meta s)" st c,
    folded ctl secret_users_def]
  show "run ctl (CreateEvent (Obj_Secret s)) = secret_users c s"
    "run ctl (DeleteEvent (Obj_Secret s)) = secret_users c s"
    by (rule e; simp add: watch_simps)+
  show "run ctl (UpdateEvent (Obj_Secret s) (Obj_Secret s')) = secret_users c s"
    if "secretContentChanged s s'" "om_Name (s_meta s') = om_Name (s_meta s)"
      "om_Namespace (s_meta s') = om_Namespace (s_meta s)"
    using that by (intro e) (auto simp: watch_simps)
  show "request_of (Obj_QueueManagerConnection conn') \<in>
    run ctl (UpdateEvent (Obj_QueueManagerConnection conn) (Obj_QueueManagerConnection conn'))"
    by (simp add: ctl run_connection_controller [OF assms(1)])
qed

text \<open>C20: No wake-up is lost and no run wakes itself. There is one controller for each of the six kinds.
  The creation and the deletion of an object reach its controller, and so does every update that changes the
  generation, the deletion mark, the finalizers or the requested-reconcile annotation; a write that
  only changes the status of a workload enqueues nothing in any controller. When a connection is
  created ready, becomes ready or unready, or is deleted, each of the five workload controllers is asked for
  exactly the listed objects of the five kinds that refer to it. Every write to a connection, that of its
  own status included, reaches the connection controller, and a secret that is created, deleted or changed makes it
  reconcile exactly the listed connections that refer to the secret.\<close>

theorem controllers_route_events:
  assumes "builder_contract run"
  shows "distinct (map ct_For (controllers st c)) \<and>
    set (map ct_For (controllers st c)) = insert K_QueueManagerConnection workload_kinds \<and>
    (\<forall>ctl \<in> set (controllers st c).
       (ct_For ctl = kind_of new \<longrightarrow>
          request_of new \<in> run ctl (CreateEvent new) \<and> request_of new \<in> run ctl (DeleteEvent new) \<and>
          (kind_of old = kind_of new \<and>
             (om_Generation (meta_of old) \<noteq> om_Generation (meta_of new) \<or>
              om_Deleting (meta_of old) \<noteq> om_Deleting (meta_of new) \<or>
              om_Finalizers (meta_of old) \<noteq> om_Finalizers (meta_of new) \<or>
              annotationValue (om_Annotations (meta_of old)) ReconcileRequestedAtAnnotation \<noteq>
                annotationValue (om_Annotations (meta_of new)) ReconcileRequestedAtAnnotation) \<longrightarrow>
           request_of new \<in> run ctl (UpdateEvent old new))) \<and>
       (kind_of old \<in> workload_kinds \<and> kind_of new = kind_of old \<and>
          meta_of new = (meta_of old)\<lparr>om_ResourceVersion := rv\<rparr> \<longrightarrow>
        run ctl (UpdateEvent old new) = {}) \<and>
       (ct_For ctl \<noteq> K_QueueManagerConnection \<longrightarrow>
          (connectionReady conn \<longrightarrow>
             run ctl (CreateEvent (Obj_QueueManagerConnection conn)) = dependent_requests c conn) \<and>
          run ctl (DeleteEvent (Obj_QueueManagerConnection conn)) = dependent_requests c conn \<and>
          (connectionReady conn' \<noteq> connectionReady conn \<and>
             om_Name (c_meta conn') = om_Name (c_meta conn) \<and>
             om_Namespace (c_meta conn') = om_Namespace (c_meta conn) \<longrightarrow>
           run ctl (UpdateEvent (Obj_QueueManagerConnection conn) (Obj_QueueManagerConnection conn')) =
             dependent_requests c conn)) \<and>
       (ct_For ctl = K_QueueManagerConnection \<longrightarrow>
          request_of (Obj_QueueManagerConnection conn') \<in>
            run ctl (UpdateEvent (Obj_QueueManagerConnection conn) (Obj_QueueManagerConnection conn')) \<and>
          run ctl (CreateEvent (Obj_Secret s)) = secret_users c s \<and>
          run ctl (DeleteEvent (Obj_Secret s)) = secret_users c s \<and>
          (secretContentChanged s s' \<and> om_Name (s_meta s') = om_Name (s_meta s) \<and>
             om_Namespace (s_meta s') = om_Namespace (s_meta s) \<longrightarrow>
           run ctl (UpdateEvent (Obj_Secret s) (Obj_Secret s')) = secret_users c s)))"
proof (intro conjI ballI impI)
  show "distinct (map ct_For (controllers st c))"
    "set (map ct_For (controllers st c)) = insert K_QueueManagerConnection workload_kinds"
    by (simp_all add: controllers_def setup_defs workload_kinds_def insert_commute)
  fix ctl assume m: "ctl \<in> set (controllers st c)"
  note own = own_event [OF assms m]
  show "request_of new \<in> run ctl (CreateEvent new)" "request_of new \<in> run ctl (DeleteEvent new)"
    if "ct_For ctl = kind_of new"
    using own [of "CreateEvent new"] own [of "DeleteEvent new"] that by simp_all
  show "request_of new \<in> run ctl (UpdateEvent old new)"
    if "ct_For ctl = kind_of new" "kind_of old = kind_of new \<and>
       (om_Generation (meta_of old) \<noteq> om_Generation (meta_of new) \<or>
        om_Deleting (meta_of old) \<noteq> om_Deleting (meta_of new) \<or>
        om_Finalizers (meta_of old) \<noteq> om_Finalizers (meta_of new) \<or>
        annotationValue (om_Annotations (meta_of old)) ReconcileRequestedAtAnnotation \<noteq>
          annotationValue (om_Annotations (meta_of new)) ReconcileRequestedAtAnnotation)"
    using own [of "UpdateEvent old new"] that by (simp add: noticed_change)
  show "run ctl (UpdateEvent old new) = {}"
    if "kind_of old \<in> workload_kinds \<and> kind_of new = kind_of old \<and>
      meta_of new = (meta_of old)\<lparr>om_ResourceVersion := rv\<rparr>"
    using own_status_write [OF assms m] that by blast
qed (rule connection_events [OF assms] secret_events [OF assms]; (assumption | simp))+


definition documented_run :: "controller \<Rightarrow> watch_event \<Rightarrow> request set" where
  "documented_run c ev =
     (if kind_of (event_subject ev) = ct_For c \<and> passes (ct_ForPredicates c) ev
      then {request_of (event_subject ev)} else {}) \<union>
     (if kind_of (event_subject ev) = ct_Watches c \<and> passes (ct_WatchPredicates c) ev
      then set (concat (map (ct_Mapper c) (event_objects ev))) else {})"

lemma documented_run_contract: "builder_contract documented_run"
  by (simp add: builder_contract_def documented_run_def)

definition example_lists :: cluster_lists where
  "example_lists = \<lparr>cl_Workloads = demo_listing, cl_Connections = Inr [ready_connection]\<rparr>"

theorem controllers_route_events_witness:
  "let ctl = QueueReconciler_SetupWithManager initialSettings example_lists;
       old = ready_connection\<lparr>qm_Conditions := []\<rparr>;
       q = demo_queue [] [] False [];
       q' = q\<lparr>w_meta := (w_meta q)\<lparr>om_ResourceVersion := ''2''\<rparr>\<rparr>
   in ctl \<in> set (controllers initialSettings example_lists) \<and>
      documented_run ctl (UpdateEvent (Obj_QueueManagerConnection old) (Obj_QueueManagerConnection ready_connection)) =
        dependent_requests example_lists old \<and>
      documented_run ctl (UpdateEvent (Obj_Queue q) (Obj_Queue q')) = {} \<and>
      request_of (Obj_Queue q) \<in> documented_run ctl (CreateEvent (Obj_Queue q))"
proof -
  let ?ctl = "QueueReconciler_SetupWithManager initialSettings example_lists"
  let ?old = "ready_connection\<lparr>qm_Conditions := []\<rparr>"
  let ?q = "demo_queue [] [] False []"
  let ?q' = "?q\<lparr>w_meta := (w_meta ?q)\<lparr>om_ResourceVersion := ''2''\<rparr>\<rparr>"
  have m: "?ctl \<in> set (controllers initialSettings example_lists)" by (simp add: controllers_def)
  have k: "ct_For ?ctl = K_Queue" by (simp add: setup_defs)
  have r: "connectionReady ready_connection" "\<not> connectionReady ?old" by code_simp+
  note t = controllers_route_events [OF documented_run_contract, where st = initialSettings
      and c = example_lists and conn = ?old and conn' = ready_connection]
  from t [where old = "Obj_Queue ?q" and new = "Obj_Queue ?q'" and rv = "''2''"]
    t [where new = "Obj_Queue ?q"] m k r
  show ?thesis unfolding Let_def by (simp add: workload_kinds_def)
qed

end
