(* ===== verification/Recovery.thy ===== *)
theory Recovery
  imports Rule_Lifecycle Controllers
begin

text \<open>
  A connection that recovers, through three components: the connection reconciler writes Ready=True
  (\<open>QMC_Reconciler\<close>), the event of that write reaches the controllers of the objects that refer to the
  connection (\<open>Controllers\<close>), and their runs bring the objects to rest (\<open>Lifecycle\<close>). Both
  reconcilers work on one world: \<open>cn\<close> is the connection as the API server holds it, \<open>view\<close> the object
  and \<open>cl\<close> the client with its queue manager.
\<close>

section \<open>The connection in the world\<close>

definition conn_version :: "string \<Rightarrow> QueueManagerConnection \<Rightarrow> QueueManagerConnection" where
  "conn_version rv conn = conn\<lparr>c_meta := (c_meta conn)\<lparr>om_ResourceVersion := rv\<rparr>\<rparr>"

definition with_status :: "Condition list \<Rightarrow> int \<Rightarrow> QueueManagerConnection \<Rightarrow> QueueManagerConnection" where
  "with_status cs g conn = conn\<lparr>qm_Conditions := cs, qm_ObservedGeneration := g\<rparr>"

text \<open>
  A read returns the connection; a status write based on the current connection is stored under a
  new version; the factory has a client for it. None of them changes \<open>keep\<close>.
\<close>

definition connection_served ::
  "'w qmc_kube \<Rightarrow> string \<Rightarrow> string \<Rightarrow> ('w \<Rightarrow> QueueManagerConnection) \<Rightarrow> ('w \<Rightarrow> 'k) \<Rightarrow> 'w Admin \<Rightarrow> bool" where
  "connection_served kq ns ref cn keep admin \<longleftrightarrow>
     (\<forall>w. (\<exists>w'. qk_get kq ns ref w = (Inr (cn w), w') \<and> cn w' = cn w \<and> keep w' = keep w) \<and>
        (\<forall>cs g. \<exists>rv w'. qk_statusUpdate kq (with_status cs g (cn w)) w =
             (Inr (conn_version rv (with_status cs g (cn w))), w') \<and>
           cn w' = conn_version rv (with_status cs g (cn w)) \<and> keep w' = keep w) \<and>
        (\<exists>w'. qk_forConnection kq (cn w) w = (Inr admin, w') \<and> cn w' = cn w \<and> keep w' = keep w))"

text \<open>The workload reconciler reads the same connection and gets the same client.\<close>

definition connection_seen ::
  "('spec, 'w) kube \<Rightarrow> string \<Rightarrow> string \<Rightarrow> ('w \<Rightarrow> QueueManagerConnection) \<Rightarrow> ('w \<Rightarrow> 'k) \<Rightarrow> 'w Admin \<Rightarrow> bool" where
  "connection_seen k ns ref cn keep admin \<longleftrightarrow>
     (\<forall>w. \<exists>w'. k_getConn k ns ref w = (Inr (cn w), w') \<and> cn w' = cn w \<and> keep w' = keep w \<and>
        (\<exists>w''. k_forConnection k (cn w) w' = (Inr admin, w'') \<and> cn w'' = cn w \<and> keep w'' = keep w))"

definition answers_ping :: "'x http_env \<Rightarrow> Client \<Rightarrow> bool" where
  "answers_ping env c \<longleftrightarrow>
     he_newRequest env (c_adminQMURL c) = None \<and>
     (\<forall>req w. rq_URL req = c_adminQMURL c \<and> rq_Body req = NoBody \<longrightarrow>
        (\<exists>raw w'. he_do env req w = (Inr \<lparr>rs_StatusCode = StatusOK, rs_Body = Inr raw, rs_Cookies = []\<rparr>, w')))"

text \<open>The breaker lets a request pass: it is closed, or it has been open long enough.\<close>

definition admits :: "'x http_env \<Rightarrow> 'x cstate \<Rightarrow> bool" where
  "admits env s \<longleftrightarrow> fst (beforeRequest (he_now env (cs_world s)) (cs_breaker s)) = Inr ()"

lemma Ping_answered:
  assumes "answers_ping env c" "ready_client c" "admits env s"
  obtains s' where "Ping env c s = (None, s')" "ok_state (cs_probe s) s'"
proof -
  obtain b where b: "beforeRequest (he_now env (cs_world s)) (cs_breaker s) = (Inr (), b)"
    using assms(3) by (cases "beforeRequest (he_now env (cs_world s)) (cs_breaker s)") (simp add: admits_def)
  let ?s = "s\<lparr>cs_breaker := b\<rparr>"
  obtain req where req: "buildRequest env c ''GET'' (c_adminQMURL c) [] NoBody ''ping'' ?s = Inr req"
    "rq_URL req = c_adminQMURL c" "rq_Body req = NoBody"
    using assms(1) buildRequest_ok [of env "c_adminQMURL c"] unfolding answers_ping_def by metis
  then obtain raw w' where
    "do": "he_do env req (cs_world ?s) = (Inr \<lparr>rs_StatusCode = StatusOK, rs_Body = Inr raw, rs_Cookies = []\<rparr>, w')"
    using assms(1) unfolding answers_ping_def by blast
  let ?s' = "recordSuccessAt (?s\<lparr>cs_world := w'\<rparr>)"
  have "Ping env c s = (None, ?s')"
    using assms(2) b req(1) "do"
    by (simp add: Ping_def roundTripWithReauth_def ready_client_def roundTrip_def roundTripLoop.simps attemptOnce_def)
  moreover have "ok_state (cs_probe s) ?s'"
    unfolding ok_state_def healthy_success by (simp add: recordSuccessAt_def)
  ultimately show thesis by (rule that)
qed

section \<open>The run of the connection reconciler\<close>

lemma connectionReady_setReady:
  assumes "k8s_lib_laws lib"
  shows "conditionsReady (qm_Conditions (setReady lib ConditionTrue r m g conn))"
proof -
  let ?c = "\<lparr>cn_Type = ConditionReady, cn_Status = ConditionTrue, cn_Reason = r, cn_Message = m, cn_ObservedGeneration = g\<rparr>"
  have "?c \<in> set (qm_Conditions (setReady lib ConditionTrue r m g conn))"
    using setReady_find [OF assms, of ConditionTrue r m g conn]
    by (metis findCondition_def find_Some_iff nth_mem)
  then show ?thesis unfolding conditionsReady_def list_ex_iff by (intro bexI [of _ ?c]) simp_all
qed

lemma conn_version_sel [simp]:
  "qm_Conditions (conn_version rv conn) = qm_Conditions conn"
  "qm_ObservedGeneration (conn_version rv conn) = qm_ObservedGeneration conn"
  "om_Name (c_meta (conn_version rv conn)) = om_Name (c_meta conn)"
  "om_Namespace (c_meta (conn_version rv conn)) = om_Namespace (c_meta conn)"
  "c_meta (with_status cs g conn) = c_meta conn"
  "qm_Conditions (with_status cs g conn) = cs"
  by (simp_all add: conn_version_def with_status_def)

lemma qmcStatusUpdate_served:
  assumes "connection_served kq ns ref cn keep admin" "conn' = with_status cs g (cn (qs_world s))"
  obtains rv s' where "qmcStatusUpdate kq old conn' s = (None, conn_version rv conn', s')"
    "cn (qs_world s') = conn_version rv conn'" "keep (qs_world s') = keep (qs_world s)"
proof -
  obtain rv w' where "qk_statusUpdate kq conn' (qs_world s) = (Inr (conn_version rv conn'), w')"
    "cn w' = conn_version rv conn'" "keep w' = keep (qs_world s)"
    using assms unfolding connection_served_def by blast
  then show thesis
    by (intro that [of rv "qlog (QStatusWrite old (qm_Conditions conn') True) (s\<lparr>qs_world := w'\<rparr>)"])
      (simp_all add: qmcStatusUpdate_def qlog_def)
qed

text \<open>
  \<open>recovering\<close>: one API server for both reconcilers, which holds the object \<open>obj\<close> and the connection it refers to; the
  object is to be managed, the connection has its finalizer and is not ready. One client serves both.
\<close>

definition recovering ::
  "('spec, 'w) kube \<Rightarrow> 'w qmc_kube \<Rightarrow> string \<Rightarrow> string \<Rightarrow> ('w \<Rightarrow> 'spec workload option) \<Rightarrow> ('w \<Rightarrow> 'x cstate) \<Rightarrow>
     ('w \<Rightarrow> QueueManagerConnection) \<Rightarrow> ('x cstate \<Rightarrow> 'w \<Rightarrow> 'w) \<Rightarrow> 'x http_env \<Rightarrow> Client \<Rightarrow> 'spec workload \<Rightarrow> 'w rs \<Rightarrow> bool" where
  "recovering k kq ns n view cl cn put env c obj s \<longleftrightarrow>
     (let admin = embed_admin cl put (client_admin env c); keep = (\<lambda>w. (view w, cl w));
          ref = w_ConnectionRef obj; conn = cn (rs_world s) in
      k8s_lib_laws (k_lib k) \<and> k8s_lib_laws (qk_lib kq) \<and> api_serves k ns n view (\<lambda>w. (cl w, cn w)) \<and>
      holds_client (\<lambda>w. (view w, cn w)) cl put \<and>
      connection_seen k ns ref cn keep admin \<and> connection_served kq ns ref cn keep admin \<and>
      om_Namespace (w_meta obj) = ns \<and> om_Name (w_meta obj) = n \<and> view (rs_world s) = Some obj \<and> \<not> w_Suspend obj \<and> \<not> isObserveOnly obj \<and>
      workloadAdoptionPolicy obj = AdoptionPolicyAdopt \<and>
      om_Name (c_meta conn) = ref \<and> om_Namespace (c_meta conn) = ns \<and>
      \<not> connectionReady conn \<and> \<not> om_Deleting (c_meta conn) \<and>
      QueueManagerConnectionFinalizer \<in> set (om_Finalizers (c_meta conn)))"

text \<open>A ping that succeeds, with the event that goes with it.\<close>

definition ping_reported :: "QueueManagerConnection \<Rightarrow> 'w \<Rightarrow> 'w qs \<Rightarrow> 'w qs" where
  "ping_reported conn w s = (ping_logged None w s)\<lparr>qs_log := readyEvent conn @ QPing None # qs_log s\<rparr>"

lemma qmcConnect_answered:
  assumes "qk_forConnection kq conn (qs_world s) = (Inr admin, w)" "ad_Ping admin w = (None, w')"
    and "qmcStatusUpdate kq (qm_Conditions conn) (connReady (qk_lib kq) g conn) (ping_reported conn w' s) = (None, conn', s')"
  shows "qmcConnect kq conn g False s = ((0, None), s')"
  using assms
  by (cases "conditionChanged (qm_Conditions conn) ConditionReady ConditionTrue ReasonAvailable")
    (simp_all add: qmcConnect_def Let_def ping_reported_def ping_logged_def readyEvent_def connReady_def qlog_def)

text \<open>The connection is tested and, as the queue manager answers, reported ready.\<close>

lemma connection_run:
  fixes view :: "'w \<Rightarrow> 'v" and cn :: "'w \<Rightarrow> QueueManagerConnection"
  assumes lib: "k8s_lib_laws (qk_lib kq)" and hc: "holds_client (\<lambda>w. (view w, cn w)) cl put"
    and srv: "connection_served kq ns ref cn (\<lambda>w. (view w, cl w)) (embed_admin cl put (client_admin env c))"
    and up: "answers_ping env c" "ready_client c" "admits env (cl (qs_world s))"
    and conn: "\<not> connectionReady (cn (qs_world s))" "\<not> om_Deleting (c_meta (cn (qs_world s)))"
      "QueueManagerConnectionFinalizer \<in> set (om_Finalizers (c_meta (cn (qs_world s))))"
  obtains s' where "QueueManagerConnectionReconciler_reconcile kq ns ref s = ((0, None), s')"
    "view (qs_world s') = view (qs_world s)" "ok_state (cs_probe (cl (qs_world s))) (cl (qs_world s'))" "connectionReady (cn (qs_world s'))"
    "om_Name (c_meta (cn (qs_world s'))) = om_Name (c_meta (cn (qs_world s)))"
    "om_Namespace (c_meta (cn (qs_world s'))) = om_Namespace (c_meta (cn (qs_world s)))"
proof -
  let ?conn = "cn (qs_world s)" and ?admin = "embed_admin cl put (client_admin env c)"
  let ?g = "om_Generation (c_meta ?conn)"
  obtain w1 where g: "qk_get kq ns ref (qs_world s) = (Inr ?conn, w1)" "cn w1 = ?conn"
    "view w1 = view (qs_world s)" "cl w1 = cl (qs_world s)"
    using srv unfolding connection_served_def by blast
  let ?s1 = "s\<lparr>qs_world := w1\<rparr>"
  let ?p = "setReady (qk_lib kq) ConditionFalse ReasonProgressing ''Testing mqweb connectivity'' ?g ?conn"
  have p: "?p = with_status (qm_Conditions ?p) (qm_ObservedGeneration ?conn) (cn (qs_world ?s1))"
    by (simp add: g(2) setReady_def with_status_def)
  obtain rv s2 where s2: "qmcStatusUpdate kq (qm_Conditions ?conn) ?p ?s1 = (None, conn_version rv ?p, s2)"
    "cn (qs_world s2) = conn_version rv ?p" "(view (qs_world s2), cl (qs_world s2)) = (view (qs_world ?s1), cl (qs_world ?s1))"
    by (rule qmcStatusUpdate_served [OF srv p])
  let ?c2 = "conn_version rv ?p"
  obtain w3 where f: "qk_forConnection kq ?c2 (qs_world s2) = (Inr ?admin, w3)" "cn w3 = ?c2"
    "(view w3, cl w3) = (view (qs_world s2), cl (qs_world s2))"
    using srv s2(2) unfolding connection_served_def by metis
  obtain c4 where ping: "Ping env c (cl w3) = (None, c4)" "ok_state (cs_probe (cl (qs_world s))) c4"
    using Ping_answered [OF up(1,2), of "cl w3"] up(3) f(3) s2(3) g(4) by auto
  let ?w4 = "put c4 w3"
  have w4: "cl ?w4 = c4" "view ?w4 = view w3" "cn ?w4 = cn w3" using hc unfolding holds_client_def by auto
  have adp: "ad_Ping ?admin w3 = (None, ?w4)" by (simp add: embed_admin_def client_admin_def via_def ping(1))
  let ?s5 = "ping_reported ?c2 ?w4 s2"
  let ?r = "connReady (qk_lib kq) ?g ?c2"
  have w5: "qs_world ?s5 = ?w4" by (simp add: ping_reported_def)
  have r: "?r = with_status (qm_Conditions ?r) ?g (cn (qs_world ?s5))"
    unfolding w5 w4(3) f(2) by (simp add: connReady_def setReady_def with_status_def)
  obtain rv' s6 where s6: "qmcStatusUpdate kq (qm_Conditions ?c2) ?r ?s5 = (None, conn_version rv' ?r, s6)"
    "cn (qs_world s6) = conn_version rv' ?r" "(view (qs_world s6), cl (qs_world s6)) = (view (qs_world ?s5), cl (qs_world ?s5))"
    by (rule qmcStatusUpdate_served [OF srv r])
  have "qmcConnect kq ?c2 ?g False s2 = ((0, None), s6)"
    by (rule qmcConnect_answered [OF f(1) adp s6(1)])
  then have "QueueManagerConnectionReconciler_reconcile kq ns ref s = ((0, None), s6)"
    using g(1) s2(1) conn
    by (simp add: QueueManagerConnectionReconciler_reconcile_def Let_def qmcAlreadyReady_def connectionReady_def
        k8s_lib_laws_simps(3) [OF lib])
  moreover have "connectionReady (cn (qs_world s6))"
    unfolding s6(2) connectionReady_def by (simp add: connReady_def connectionReady_setReady [OF lib])
  ultimately show thesis
    using that [of s6] s6(2,3) w5 w4 f(3) s2(3) g(3) ping(2)
    by (simp add: connReady_def setReady_def conn_version_def)
qed

section \<open>The run of the object before and after\<close>

text \<open>Without a ready connection a run only reports that it waits.\<close>

lemma wait_run:
  fixes view :: "'w \<Rightarrow> 'spec workload option" and cn :: "'w \<Rightarrow> QueueManagerConnection"
  assumes api: "api_serves k ns n view (\<lambda>w. (cl w, cn w))" and lib: "k8s_lib_laws (k_lib k)"
    and seen: "connection_seen k (om_Namespace (w_meta obj)) (w_ConnectionRef obj) cn (\<lambda>w. (view w, cl w)) admin"
    and obj: "view (rs_world s) = Some obj" "\<not> w_Suspend obj" and conn: "\<not> connectionReady (cn (rs_world s))"
    and live: "om_Deleting (w_meta obj) \<Longrightarrow>
      wk_Finalizer wk \<in> set (om_Finalizers (w_meta obj)) \<and> \<not> orphanDeletionRequested obj"
  obtains st rv s' where "reconcileWorkload k wk ns n s = ((connectionWaitInterval (k_intervals k), None), s')"
    "view (rs_world s') = Some (with_rv rv (obj\<lparr>w_Status := st\<rparr>))" "cl (rs_world s') = cl (rs_world s)"
    "cn (rs_world s') = cn (rs_world s)" "mq_effects s' = mq_effects s"
proof -
  let ?conn = "cn (rs_world s)"
  obtain w1 where g: "k_get k ns n (rs_world s) = (Inr obj, w1)" "view w1 = Some obj"
    "(cl w1, cn w1) = (cl (rs_world s), ?conn)"
    using api obj(1) unfolding api_serves_def by blast
  obtain w2 where c: "k_getConn k (om_Namespace (w_meta obj)) (w_ConnectionRef obj) w1 = (Inr ?conn, w2)"
    "cn w2 = ?conn" "(view w2, cl w2) = (view w1, cl w1)"
    using seen g(3) unfolding connection_seen_def by (metis prod.inject)
  let ?p = "notSynced ReasonProgressing (om_Generation (w_meta obj)) (connectionWaitMessage ?conn) None True"
  let ?st = "patchedStatus (k_lib k) ?p (w_Status obj)"
  let ?s = "emitSyncedTransitionEvent obj ConditionFalse ReasonProgressing (connectionWaitMessage ?conn) (s\<lparr>rs_world := w2\<rparr>)"
  obtain rv s3 where s3: "statusUpdate k (obj\<lparr>w_Status := ?st\<rparr>) ?s = (None, with_rv rv (obj\<lparr>w_Status := ?st\<rparr>), s3)"
    "view (rs_world s3) = Some (with_rv rv (obj\<lparr>w_Status := ?st\<rparr>))"
    "(cl (rs_world s3), cn (rs_world s3)) = (cl (rs_world ?s), cn (rs_world ?s))" "mq_effects s3 = mq_effects ?s"
    using statusUpdate_served [OF api, of ?s obj ?st] c(3) g(2) by auto
  have "patchSyncedProgressing k obj (om_Generation (w_meta obj)) (connectionWaitMessage ?conn) (s\<lparr>rs_world := w2\<rparr>) =
      (None, with_rv rv (obj\<lparr>w_Status := ?st\<rparr>), s3)"
    using s3(1) by (simp add: patchSyncedProgressing_def patchSyncedStatus_def notSynced_def)
  then have "reconcileWorkload k wk ns n s = ((connectionWaitInterval (k_intervals k), None), s3)"
    using g(1) c(1) obj(2) conn live
    by (cases "om_Deleting (w_meta obj)") (simp_all add: reconcileWorkload_def reconcileWorkloadDeletion_def mqRead_def resolveConnection_def
        waitForConnectionReady_def connectionReady_def Let_def k8s_lib_laws_simps(3) [OF lib])
  then show thesis using that [of s3 rv ?st] s3 c g by simp
qed

text \<open>
  \<open>recovers_by\<close>: the object waits, the connection is tested and becomes ready, that event asks for the
  object in its controller (\<open>enq\<close>, whatever version of the connection that was not ready it has seen before), and the
  runs that follow bring the object to rest.
\<close>

definition recovers_by ::
  "('spec, 'w) kube \<Rightarrow> ('spec, 'w) workload_kind \<Rightarrow> 'w qmc_kube \<Rightarrow> (watch_event \<Rightarrow> request set) \<Rightarrow> string \<Rightarrow> string \<Rightarrow>
     ('w \<Rightarrow> 'spec workload option) \<Rightarrow> ('w \<Rightarrow> 'x cstate) \<Rightarrow> ('w \<Rightarrow> QueueManagerConnection) \<Rightarrow>
     ('x cstate \<Rightarrow> bool) \<Rightarrow> ('x cstate \<Rightarrow> bool) \<Rightarrow> 'spec workload \<Rightarrow> 'w rs \<Rightarrow> bool" where
  "recovers_by k wk kq enq ns n view cl cn in_sync missing obj s \<longleftrightarrow>
     (let (out, s1) = reconcileWorkload k wk ns n s;
          (out', q) = QueueManagerConnectionReconciler_reconcile kq ns (w_ConnectionRef obj)
            \<lparr>qs_world = rs_world s1, qs_log = []\<rparr>;
          s2 = s1\<lparr>rs_world := qs_world q\<rparr>; conn = cn (rs_world s2) in
      out = (connectionWaitInterval (k_intervals k), None) \<and> mq_effects s1 = mq_effects s \<and>
      cl (rs_world s1) = cl (rs_world s) \<and> out' = (0, None) \<and> connectionReady conn \<and>
      healthy (cl (rs_world s2)) \<and>
      (\<forall>old. \<not> connectionReady old \<and> om_Name (c_meta old) = w_ConnectionRef obj \<and> om_Namespace (c_meta old) = ns \<longrightarrow>
         (ns, n) \<in> enq (UpdateEvent (Obj_QueueManagerConnection old) (Obj_QueueManagerConnection conn))) \<and>
      (\<exists>obj'. view (rs_world s2) = Some obj' \<and> same_intent obj obj' \<and>
         om_Deleting (w_meta obj') = om_Deleting (w_meta obj) \<and>
         lives_by k wk ns n view cl in_sync missing obj' s2))"

definition recovers ::
  "('spec, 'w) kube \<Rightarrow> ('spec, 'w) workload_kind \<Rightarrow> 'w qmc_kube \<Rightarrow> (watch_event \<Rightarrow> request set) \<Rightarrow> string \<Rightarrow> string \<Rightarrow>
     ('w \<Rightarrow> 'spec workload option) \<Rightarrow> ('w \<Rightarrow> 'x cstate) \<Rightarrow> ('w \<Rightarrow> QueueManagerConnection) \<Rightarrow>
     ('x cstate \<Rightarrow> ObjectState result \<times> 'x cstate) \<Rightarrow> attrs \<Rightarrow> string list \<Rightarrow> 'spec workload \<Rightarrow> 'w rs \<Rightarrow> bool" where
  "recovers k wk kq enq ns n view cl cn get desired keys =
     recovers_by k wk kq enq ns n view cl cn (reads_in_sync get desired keys) (reads_missing get)"

lemma recovering_operated:
  assumes rec: "recovering k kq ns n view cl cn put env c obj s" and "same_intent obj obj'" "view (rs_world s') = Some obj'"
  shows "operated_on k ns n view (\<lambda>w. (cl w, cn w)) fst (\<lambda>m. connectionReady (snd m)) put env c obj' s'"
proof -
  let ?admin = "embed_admin cl put (client_admin env c)"
  have "connection_seen k (om_Namespace (w_meta obj)) (w_ConnectionRef obj) cn (\<lambda>w. (view w, cl w)) ?admin"
    and "holds_client (\<lambda>w. (view w, cn w)) cl put"
    using rec by (simp_all add: recovering_def Let_def)
  then have "connected (\<lambda>m. connectionReady (snd m)) k (om_Namespace (w_meta obj)) (w_ConnectionRef obj) view
      (\<lambda>w. (cl w, cn w)) ?admin" "holds_client (\<lambda>w. (view w, connectionReady (cn w))) cl put"
    unfolding connected_def connection_seen_def holds_client_def connectionReady_def by fastforce+
  then show ?thesis
    using rec assms(2,3) same_intent_policies [OF assms(2)]
    by (simp add: operated_on_def recovering_def same_intent_def Let_def)
qed

text \<open>The event of a connection that becomes ready, in the controller of a workload.\<close>

lemma ready_event:
  assumes "builder_contract run" "ctl \<in> set (controllers st cls)" "ct_For ctl \<noteq> K_QueueManagerConnection"
    and "listed cls o'" "connectionRefName o' = Inr (om_Name (c_meta conn))"
    and "\<not> connectionReady old" "connectionReady conn" "om_Name (c_meta old) = om_Name (c_meta conn)"
    and "om_Namespace (c_meta old) = om_Namespace (c_meta conn)"
  shows "(om_Namespace (c_meta conn), om_Name (meta_of o')) \<in>
    run ctl (UpdateEvent (Obj_QueueManagerConnection old) (Obj_QueueManagerConnection conn))"
  using connection_events(3) [OF assms(1-3), where conn = old and conn' = conn] assms(4-9)
  by (auto simp: dependent_requests_def dependents_def)

lemma recovering_recovers:
  assumes rec: "recovering k kq ns n view cl cn put env c obj s"
    and up: "answers_ping env c" "ready_client c" "admits env (cl (rs_world s))"
    and live: "om_Deleting (w_meta obj) \<Longrightarrow>
      wk_Finalizer wk \<in> set (om_Finalizers (w_meta obj)) \<and> \<not> orphanDeletionRequested obj"
    and enq: "builder_contract run" "ctl \<in> set (controllers st cls)" "ct_For ctl \<noteq> K_QueueManagerConnection"
      "listed cls o'" "meta_of o' = w_meta obj" "connectionRefName o' = Inr (w_ConnectionRef obj)"
    and managed: "\<And>obj' s'. same_intent obj obj' \<Longrightarrow>
      operated_on k ns n view (\<lambda>w. (cl w, cn w)) fst (\<lambda>m. connectionReady (snd m)) put env c obj' s' \<Longrightarrow>
      managed_object k wk ns n view (\<lambda>w. (cl w, cn w)) (embed_admin cl put (client_admin env c)) (same_intent obj')
        (\<lambda>m. ok_state (cs_probe (cl (rs_world s))) (fst m) \<and> connectionReady (snd m))
        (\<lambda>m. in_sync (fst m)) (\<lambda>m. missing (fst m))"
  shows "recovers_by k wk kq (run ctl) ns n view cl cn in_sync missing obj s"
proof -
  obtain st rv s1 where w: "reconcileWorkload k wk ns n s = ((connectionWaitInterval (k_intervals k), None), s1)"
    "view (rs_world s1) = Some (with_rv rv (obj\<lparr>w_Status := st\<rparr>))" "cl (rs_world s1) = cl (rs_world s)"
    "cn (rs_world s1) = cn (rs_world s)" "mq_effects s1 = mq_effects s"
    by (rule wait_run [where k = k and ns = ns and n = n and view = view and cl = cl and cn = cn and obj = obj and s = s
          and wk = wk and admin = "embed_admin cl put (client_admin env c)"]) (use rec live in \<open>simp_all add: recovering_def Let_def\<close>)
  let ?obj = "with_rv rv (obj\<lparr>w_Status := st\<rparr>)"
  have same: "same_intent obj ?obj" "om_Deleting (w_meta ?obj) = om_Deleting (w_meta obj)"
    by (simp_all add: same_intent_kept)
  obtain q where q: "QueueManagerConnectionReconciler_reconcile kq ns (w_ConnectionRef obj)
      \<lparr>qs_world = rs_world s1, qs_log = []\<rparr> = ((0, None), q)"
    "view (qs_world q) = view (rs_world s1)" "ok_state (cs_probe (cl (rs_world s))) (cl (qs_world q))"
    "connectionReady (cn (qs_world q))" "om_Name (c_meta (cn (qs_world q))) = w_ConnectionRef obj"
    "om_Namespace (c_meta (cn (qs_world q))) = ns"
    by (rule connection_run [where kq = kq and ns = ns and ref = "w_ConnectionRef obj" and view = view and cl = cl and cn = cn
          and put = put and env = env and c = c and s = "\<lparr>qs_world = rs_world s1, qs_log = []\<rparr>"])
      (use rec up w in \<open>simp_all add: recovering_def Let_def\<close>)
  let ?s2 = "s1\<lparr>rs_world := qs_world q\<rparr>"
  have v2: "view (rs_world ?s2) = Some ?obj" using q(2) w(2) by simp
  have "lives_by k wk ns n view (\<lambda>w. fst ((\<lambda>w. (cl w, cn w)) w)) in_sync missing ?obj ?s2"
    by (rule managed_lives_by [where sel = fst, OF managed [OF same(1) recovering_operated [OF rec same(1) v2]] v2]) (use q(3,4) in simp)
  moreover have "(ns, n) \<in> run ctl (UpdateEvent (Obj_QueueManagerConnection old) (Obj_QueueManagerConnection (cn (qs_world q))))"
    if "\<not> connectionReady old" "om_Name (c_meta old) = w_ConnectionRef obj" "om_Namespace (c_meta old) = ns" for old
    using ready_event [OF enq(1-4), of "cn (qs_world q)" old] that q(4-6) enq(5,6) rec by (simp add: recovering_def Let_def)
  ultimately show ?thesis
    unfolding recovers_by_def using w(1,3,5) q(1,3,4) v2 same by (simp add: Let_def ok_state_def)
qed

text \<open>An object that is being deleted still has its finalizer and is not to be orphaned.\<close>

definition deletable :: "string \<Rightarrow> 'spec workload \<Rightarrow> bool" where
  "deletable f obj \<longleftrightarrow> \<not> om_Deleting (w_meta obj) \<or>
     f \<in> set (om_Finalizers (w_meta obj)) \<and> \<not> orphanDeletionRequested obj"

text \<open>What the three kinds share: the client works and the controllers are run as documented.\<close>

definition wakes :: "(controller \<Rightarrow> watch_event \<Rightarrow> request set) \<Rightarrow> 'x http_env \<Rightarrow> Client \<Rightarrow> 'x cstate \<Rightarrow> bool" where
  "wakes run env c s \<longleftrightarrow> builder_contract run \<and> answers_ping env c \<and> ready_client c \<and> admits env s"

lemma topic_recovers:
  assumes up: "wakes run env c (cl (rs_world s))"
    and rec: "recovering k kq ns n view cl cn put env c t s" "deletable TopicFinalizer t" "listed cls (Obj_Topic t)"
    and srv: "serves env c qm (topic_requests (toMQTopicSpec t))"
  shows "recovers k topic_kind kq (run (TopicReconciler_SetupWithManager st cls)) ns n view cl cn
    (GetTopic env c (ts_Name (toMQTopicSpec t))) (ts_Attributes (toMQTopicSpec t)) (TopicDriftCheckKeys) t s"
proof (unfold recovers_def, rule recovering_recovers [where put = put and st = st and cls = cls and o' = "Obj_Topic t" and env = env and c = c])
  fix o' s' assume d: "same_intent t o'"
    and op: "operated_on k ns n view (\<lambda>w. (cl w, cn w)) fst (\<lambda>m. connectionReady (snd m)) put env c o' s'"
  show "managed_object k topic_kind ns n view (\<lambda>w. (cl w, cn w)) (embed_admin cl put (client_admin env c)) (same_intent o')
      (\<lambda>m. ok_state (cs_probe (cl (rs_world s))) (fst m) \<and> connectionReady (snd m))
      (\<lambda>m. reads_in_sync (GetTopic env c (ts_Name (toMQTopicSpec t))) (ts_Attributes (toMQTopicSpec t)) (TopicDriftCheckKeys) (fst m))
      (\<lambda>m. reads_missing (GetTopic env c (ts_Name (toMQTopicSpec t))) (fst m))"
    using topic_managed [OF op, unfolded same_intent_spec [OF d], OF srv, where P = "cs_probe (cl (rs_world s))"] up by (simp add: wakes_def)
qed (use assms in \<open>simp_all add: deletable_def wakes_def controllers_def setup_defs
    topic_kind_def channel_kind_def queue_kind_def\<close>)

lemma channel_recovers:
  assumes up: "wakes run env c (cl (rs_world s))"
    and rec: "recovering k kq ns n view cl cn put env c ch s" "deletable ChannelFinalizer ch" "listed cls (Obj_Channel ch)"
    and srv: "serves env c qm (channel_requests (toMQChannelSpec ch))" "validateChannelType (chs_Type (toMQChannelSpec ch)) = None"
  shows "recovers k channel_kind kq (run (ChannelReconciler_SetupWithManager st cls)) ns n view cl cn
    (GetChannel env c (toMQChannelSpec ch)) (chs_Attributes (toMQChannelSpec ch)) (ChannelDriftCheckKeys (chs_Type (toMQChannelSpec ch))) ch s"
proof (unfold recovers_def, rule recovering_recovers [where put = put and st = st and cls = cls and o' = "Obj_Channel ch" and env = env and c = c])
  fix o' s' assume d: "same_intent ch o'"
    and op: "operated_on k ns n view (\<lambda>w. (cl w, cn w)) fst (\<lambda>m. connectionReady (snd m)) put env c o' s'"
  show "managed_object k channel_kind ns n view (\<lambda>w. (cl w, cn w)) (embed_admin cl put (client_admin env c)) (same_intent o')
      (\<lambda>m. ok_state (cs_probe (cl (rs_world s))) (fst m) \<and> connectionReady (snd m))
      (\<lambda>m. reads_in_sync (GetChannel env c (toMQChannelSpec ch)) (chs_Attributes (toMQChannelSpec ch)) (ChannelDriftCheckKeys (chs_Type (toMQChannelSpec ch))) (fst m))
      (\<lambda>m. reads_missing (GetChannel env c (toMQChannelSpec ch)) (fst m))"
    using channel_managed [OF op, unfolded same_intent_channel [OF d, THEN conjunct1], OF srv(1) _ srv(2), where P = "cs_probe (cl (rs_world s))"] up by (simp add: wakes_def)
qed (use assms in \<open>simp_all add: deletable_def wakes_def controllers_def setup_defs
    topic_kind_def channel_kind_def queue_kind_def\<close>)

lemma queue_recovers:
  assumes up: "wakes run env c (cl (rs_world s))"
    and rec: "recovering k kq ns n view cl cn put env c q s" "deletable QueueFinalizer q" "listed cls (Obj_Queue q)"
    and srv: "serves env c qm (queue_requests (toMQQueueSpec q)
       (queueKeysResolved (qs_Type (toMQQueueSpec q)) (cs_probe (cl (rs_world s)))))" "validateQueueType (qs_Type (toMQQueueSpec q)) = None"
    and probe: "probed (cs_probe (cl (rs_world s)))"
  shows "recovers k queue_kind kq (run (QueueReconciler_SetupWithManager st cls)) ns n view cl cn
    (GetQueue env c (toMQQueueSpec q)) (qs_Attributes (toMQQueueSpec q)) (queueKeysResolved (qs_Type (toMQQueueSpec q)) (cs_probe (cl (rs_world s)))) q s"
proof (unfold recovers_def, rule recovering_recovers [where put = put and st = st and cls = cls and o' = "Obj_Queue q" and env = env and c = c])
  fix o' s' assume d: "same_intent q o'"
    and op: "operated_on k ns n view (\<lambda>w. (cl w, cn w)) fst (\<lambda>m. connectionReady (snd m)) put env c o' s'"
  show "managed_object k queue_kind ns n view (\<lambda>w. (cl w, cn w)) (embed_admin cl put (client_admin env c)) (same_intent o')
      (\<lambda>m. ok_state (cs_probe (cl (rs_world s))) (fst m) \<and> connectionReady (snd m))
      (\<lambda>m. reads_in_sync (GetQueue env c (toMQQueueSpec q)) (qs_Attributes (toMQQueueSpec q)) (queueKeysResolved (qs_Type (toMQQueueSpec q)) (cs_probe (cl (rs_world s)))) (fst m))
      (\<lambda>m. reads_missing (GetQueue env c (toMQQueueSpec q)) (fst m))"
    using queue_managed [OF op, unfolded same_intent_queue [OF d], OF _ probe srv(2,1)] up by (simp add: wakes_def)
qed (use assms in \<open>simp_all add: deletable_def wakes_def controllers_def setup_defs
    topic_kind_def channel_kind_def queue_kind_def\<close>)

lemma rule_recovers:
  assumes up: "wakes run env c (cl (rs_world s))"
    and rec: "recovering k kq ns n view cl cn put env c r s" "deletable ChannelAuthRuleFinalizer r" "listed cls (Obj_ChannelAuthRule r)"
    and srv: "serves_rule env c held spec"
    and spec: "spec = toMQChannelAuthSpec r" "named_rule spec" "own_fields spec" "unquoted spec"
  shows "recovers_by k channelauthrule_kind kq (run (ChannelAuthRuleReconciler_SetupWithManager st cls)) ns n view cl cn
    (rule_reads_in_sync env c spec) (rule_reads_missing env c spec) r s"
proof (rule recovering_recovers [where put = put and st = st and cls = cls and o' = "Obj_ChannelAuthRule r" and env = env and c = c])
  fix o' s' assume d: "same_intent r o'"
    and op: "operated_on k ns n view (\<lambda>w. (cl w, cn w)) fst (\<lambda>m. connectionReady (snd m)) put env c o' s'"
  have "spec = toMQChannelAuthSpec o'" using same_intent_rule [OF d] spec(1) by simp
  then show "managed_object k channelauthrule_kind ns n view (\<lambda>w. (cl w, cn w)) (embed_admin cl put (client_admin env c)) (same_intent o')
      (\<lambda>m. ok_state (cs_probe (cl (rs_world s))) (fst m) \<and> connectionReady (snd m))
      (\<lambda>m. rule_reads_in_sync env c spec (fst m)) (\<lambda>m. rule_reads_missing env c spec (fst m))"
    using rule_managed [OF op srv _ _ spec(2-4), where P = "cs_probe (cl (rs_world s))"] up by (simp add: wakes_def)
qed (use assms in \<open>simp_all add: deletable_def wakes_def controllers_def setup_defs channelauthrule_kind_def\<close>)


section \<open>A concrete operator\<close>

text \<open>The node of \<open>Lifecycle\<close> beside a stored connection, and a queue manager that also answers the ping.\<close>

record 'spec site =
  si_node :: "('spec, bool) node"
  si_conn :: QueueManagerConnection
  si_version :: int

definition put_node :: "('spec, bool) node \<Rightarrow> 'spec site \<Rightarrow> 'spec site" where
  "put_node x w = w\<lparr>si_node := x\<rparr>"

definition site_client :: "'spec site \<Rightarrow> bool cstate" where
  "site_client w = nd_client (si_node w)"

definition put_site_client :: "bool cstate \<Rightarrow> 'spec site \<Rightarrow> 'spec site" where
  "put_site_client x w = put_node (put_client x (si_node w)) w"

definition site_object :: "'spec site \<Rightarrow> 'spec workload option" where
  "site_object w = nd_obj (si_node w)"

definition site_admin :: "bool http_env \<Rightarrow> Client \<Rightarrow> 'spec site Admin" where
  "site_admin env c = embed_admin site_client put_site_client (client_admin env c)"

definition site_kube :: "bool http_env \<Rightarrow> Client \<Rightarrow> ('spec, 'spec site) kube" where
  "site_kube env c =
     (let base = node_kube ready_conn env c in
      \<lparr>k_lib = example_lib, k_intervals = defaultIntervals,
       k_get = (\<lambda>ns n. via si_node put_node (k_get base ns n)),
       k_getConn = (\<lambda>_ _ w. (Inr (si_conn w), w)),
       k_statusUpdate = (\<lambda>obj. via si_node put_node (k_statusUpdate base obj)),
       k_update = (\<lambda>obj. via si_node put_node (k_update base obj)),
       k_forConnection = (\<lambda>_ w. (Inr (site_admin env c), w)),
       k_now = (\<lambda>_. 0), k_jitter = (\<lambda>_ w. (0, w))\<rparr>)"

definition site_qmc :: "bool http_env \<Rightarrow> Client \<Rightarrow> 'spec site qmc_kube" where
  "site_qmc env c =
     (let write = (\<lambda>merge conn w.
            if om_ResourceVersion (c_meta conn) \<noteq> om_ResourceVersion (c_meta (si_conn w))
            then (Inl (K8sError K8sConflict ''the object has been modified''), w)
            else (let new = conn_version (Itoa (si_version w)) (merge conn (si_conn w)) in
                  (Inr new, w\<lparr>si_conn := new, si_version := si_version w + 1\<rparr>))) in
      \<lparr>qk_lib = example_lib, qk_intervals = defaultIntervals,
       qk_get = (\<lambda>_ _ w. (Inr (si_conn w), w)),
       qk_statusUpdate = write (\<lambda>new cur. with_status (qm_Conditions new) (qm_ObservedGeneration new) cur),
       qk_update = write (\<lambda>new cur. with_status (qm_Conditions cur) (qm_ObservedGeneration cur) new),
       qk_forConnection = (\<lambda>_ w. (Inr (site_admin env c), w)),
       qk_releaseConnection = (\<lambda>_ w. (None, w))\<rparr>)"

definition ping_server :: "bool http_env" where
  "ping_server = news_server\<lparr>he_do := (\<lambda>req w.
     if rq_Body req = NoBody then (Inr \<lparr>rs_StatusCode = StatusOK, rs_Body = Inr [], rs_Cookies = []\<rparr>, w)
     else he_do news_server req w)\<rparr>"

text \<open>The breaker opened long ago.\<close>

definition outage :: "TopicSpecCR site rs" where
  "outage =
     (let cs = fresh_state False; b = cs_breaker cs in
      \<lparr>rs_world =
         \<lparr>si_node = \<lparr>nd_obj = Some newsTopic,
            nd_client = cs\<lparr>cs_probe := probedCache,
              cs_breaker := b\<lparr>cb_state := breakerStateOpen, openedAt := - openTimeout (cb_cfg b)\<rparr>\<rparr>, nd_version = 2\<rparr>,
          si_conn = demo_conn [], si_version = 2\<rparr>, rs_log = []\<rparr>)"

definition outage_lists :: cluster_lists where
  "outage_lists = \<lparr>cl_Workloads = demo_listing\<lparr>ls_Topics := Inr [newsTopic]\<rparr>, cl_Connections = Inr [demo_conn []]\<rparr>"

lemma site_holds: "holds_client (\<lambda>w. (site_object w, si_conn w)) site_client put_site_client"
  by (simp add: holds_client_def site_object_def site_client_def put_site_client_def put_node_def put_client_def)

lemma site_api: "api_serves (site_kube env c) ns n site_object (\<lambda>w. (site_client w, si_conn w))"
proof -
  have rv: "om_ResourceVersion (w_meta (setFinalizers fs obj)) = om_ResourceVersion (w_meta obj)"
    "setFinalizers fs obj\<lparr>w_Status := w_Status obj\<rparr> = setFinalizers fs obj" for fs and obj :: "'a workload"
    by (simp_all add: setFinalizers_def)
  show ?thesis
    by (auto simp: api_serves_def site_kube_def node_kube_def via_def put_node_def site_object_def site_client_def
        write_object_def Let_def rv)
qed

lemma site_lib: "k8s_lib_laws (k_lib (site_kube env c))" "k8s_lib_laws (qk_lib (site_qmc env c))"
  by (simp_all add: site_kube_def site_qmc_def example_lib_laws Let_def)

lemma site_connection:
  "connection_seen (site_kube env c) ns ref si_conn (\<lambda>w. (site_object w, site_client w)) (site_admin env c)"
  "connection_served (site_qmc env c) ns ref si_conn (\<lambda>w. (site_object w, site_client w)) (site_admin env c)"
  by (auto simp: connection_seen_def connection_served_def site_kube_def site_qmc_def site_object_def site_client_def
      with_status_def conn_version_def Let_def)

lemma ping_server_answers: "answers_ping ping_server basic_client"
  by (auto simp: answers_ping_def ping_server_def news_server_def one_object_server_def)

lemma ping_server_serves:
  "serves news_server c qm R \<Longrightarrow> serves ping_server c qm R"
  by (simp add: serves_def ping_server_def)

lemma outage_recovering:
  "recovering (site_kube ping_server basic_client) (site_qmc ping_server basic_client) ''ns'' ''q'' site_object site_client
     si_conn put_site_client ping_server basic_client newsTopic outage"
proof -
  have "om_Namespace (w_meta newsTopic) = ''ns''" "om_Name (w_meta newsTopic) = ''q''" "w_ConnectionRef newsTopic = ''qm1''"
    "site_object (rs_world outage) = Some newsTopic" "\<not> w_Suspend newsTopic" "\<not> isObserveOnly newsTopic"
    "workloadAdoptionPolicy newsTopic = AdoptionPolicyAdopt" "si_conn (rs_world outage) = demo_conn []"
    "om_Name (c_meta (demo_conn [])) = ''qm1''" "om_Namespace (c_meta (demo_conn [])) = ''ns''"
    "\<not> connectionReady (demo_conn [])" "\<not> om_Deleting (c_meta (demo_conn []))"
    "QueueManagerConnectionFinalizer \<in> set (om_Finalizers (c_meta (demo_conn [])))"
    by code_simp+
  then show ?thesis
    unfolding recovering_def Let_def by (simp add: site_lib site_api site_holds site_connection [unfolded site_admin_def])
qed


end
