(* ===== verification/Grant_Lifecycle.thy ===== *)
theory Grant_Lifecycle
  imports Rule_Lifecycle
begin

text \<open>
  The life of an AUTHREC grant over the mqweb client: SET AUTHREC adds authorities to those of an
  entity and never revokes one, DISPLAY AUTHREC lists them. So a grant comes to rest when the entity
  has no other authorities, and does not otherwise.
\<close>

section \<open>A queue manager that keeps the authorities of one entity\<close>

definition authority_name :: "string \<Rightarrow> string" where
  "authority_name a = ToUpper (TrimSpace a)"

text \<open>The names under which the queue manager lists authorities.\<close>

definition plain_authority :: "string \<Rightarrow> bool" where
  "plain_authority a \<longleftrightarrow> a \<noteq> [] \<and> a \<noteq> ''NONE'' \<and> ToUpper a = a \<and>
     list_all (\<lambda>ch. ch \<noteq> CHR '','' \<and> ch \<noteq> CHR '')'' \<and> ch \<noteq> squote \<and> \<not> go_is_space ch) a"

definition granted :: "string list \<Rightarrow> bool" where
  "granted as \<longleftrightarrow> distinct as \<and> list_all plain_authority as"

text \<open>\<open>grantable\<close>: the desired authorities are such names, up to case and surrounding space, with no
  repetition, and the spec names a profile, a type and one entity.\<close>

definition wanted :: "AuthoritySpec \<Rightarrow> string set" where
  "wanted spec = authority_name ` set (au_Authorities spec)"

definition grantable :: "AuthoritySpec \<Rightarrow> bool" where
  "grantable spec \<longleftrightarrow>
     authoritySpecError spec = None \<and> au_Authorities spec \<noteq> [] \<and> granted (map authority_name (au_Authorities spec))"

definition displays_grant :: "string list \<Rightarrow> string list \<Rightarrow> bool" where
  "displays_grant as lines \<longleftrightarrow>
     (\<exists>ps. go_join lines '' '' = grantHeader @ padded ps \<and> distinct (map fst (map snd ps)) \<and>
        (\<forall>(k, v) \<in> set (map snd ps). display_key k \<and> CHR '')'' \<notin> set v) \<and>
        (''AUTHLIST'', go_join as '','') \<in> set (map snd ps))"

text \<open>
  \<open>held w\<close>: the authorities of the entity on the profile. Without any, DISPLAY finds no record or one
  that lists NONE.
\<close>

definition answers_grant ::
  "AuthoritySpec \<Rightarrow> ('w \<Rightarrow> string list) \<Rightarrow> string \<Rightarrow> 'w \<Rightarrow> mqscResponse \<Rightarrow> 'w \<Rightarrow> bool" where
  "answers_grant spec held cmd w resp w' \<longleftrightarrow>
     (if buildSetAuthorityMQSC spec False = Inr cmd
      then \<not> overallFailed resp \<and> set (held w') = set (held w) \<union> wanted spec
      else if buildSetAuthorityMQSC spec True = Inr cmd
      then held w' = [] \<and> (overallFailed resp \<longrightarrow> isObjectMissing resp)
      else held w' = held w \<and>
           ((\<exists>lines. prints resp lines \<and> displays_grant (if held w = [] then [''NONE''] else held w) lines) \<or>
            held w = [] \<and> overallFailed resp \<and> isObjectMissing resp))"

definition serves_grant ::
  "'w http_env \<Rightarrow> Client \<Rightarrow> ('w \<Rightarrow> string list) \<Rightarrow> AuthoritySpec \<Rightarrow> bool" where
  "serves_grant env c held spec \<longleftrightarrow>
     he_newRequest env (c_mqscURL c) = None \<and> (\<forall>w. granted (held w)) \<and>
     (\<forall>cmd req w. rq_URL req = c_mqscURL c \<and> rq_Body req = RunCommand cmd \<and>
        Inr cmd \<in> {buildSetAuthorityMQSC spec False, buildSetAuthorityMQSC spec True, buildDisplayAuthorityMQSC spec} \<longrightarrow>
        (\<exists>raw resp w'. he_do env req w = (Inr \<lparr>rs_StatusCode = StatusOK, rs_Body = Inr raw, rs_Cookies = []\<rparr>, w') \<and>
           he_unmarshalMQSC env raw = Inr resp \<and> answers_grant spec held cmd w resp w'))"

section \<open>Read back and compared\<close>

lemma trimmed_plain: "\<forall>ch \<in> set v. \<not> go_is_space ch \<and> ch \<noteq> squote \<Longrightarrow> trimmed v = v"
proof -
  assume v: "\<forall>ch \<in> set v. \<not> go_is_space ch \<and> ch \<noteq> squote"
  have "dropWhile ((=) squote) u = u" if "set u \<subseteq> set v" for u
    unfolding dropWhile_eq_self_iff using v that by (cases u) auto
  then show ?thesis using v by (simp add: trimmed_def go_trim_char_def TrimSpace_no_space)
qed

lemma set_go_join: "set (go_join as '','') \<subseteq> insert (CHR '','') (\<Union> (set ` set as))"
  by (cases as) (auto simp: go_join_Cons)

lemma authorityState_displayed:
  assumes "displays_grant as lines" "as \<noteq> []" "list_all plain_authority as \<or> as = [''NONE'']"
  shows "au_Authorities (authorityStateFromAttributes spec (parseMQSCDisplayAttributes lines)) = as"
proof -
  have chars: "\<forall>a \<in> set as. a \<noteq> [] \<and> (\<forall>ch \<in> set a. ch \<noteq> CHR '','' \<and> ch \<noteq> CHR '')'' \<and> ch \<noteq> squote \<and> \<not> go_is_space ch)"
    using assms(3) by (auto simp: plain_authority_def list_all_iff go_is_space_def)
  have "\<not> go_is_space (CHR '','')" by (simp add: go_is_space_def)
  then have tr: "trimmed (go_join as '','') = go_join as '',''"
    using chars set_go_join [of as] by (intro trimmed_plain) fastforce
  obtain ps where ps: "go_join lines '' '' = grantHeader @ padded ps" "distinct (map fst (map snd ps))"
    "\<forall>(k, v) \<in> set (map snd ps). display_key k \<and> CHR '')'' \<notin> set v" "(''AUTHLIST'', go_join as '','') \<in> set (map snd ps)"
    using assms(1) unfolding displays_grant_def by blast
  have "display_key ''AUTHLIST''" "ToLower ''AUTHLIST'' = ''authlist''" by code_simp+
  with parsed_field [OF ps(3,2,1), of "''AUTHLIST''"]
  have "getz (parseMQSCDisplayAttributes lines) ''authlist'' = trimmed (getz (map snd ps) ''AUTHLIST'')" by simp
  also have "\<dots> = go_join as '',''" using ps(2,4) tr by (simp add: getz_def)
  finally have "authorityStateFromAttributes spec (parseMQSCDisplayAttributes lines) =
      authorityStateFromAttributes spec [(''authlist'', go_join as '','')]"
    by (simp add: authorityStateFromAttributes_def getz_def)
  moreover have "\<forall>a \<in> set as. authority_token a"
    using chars by (auto simp: authority_token_def intro: TrimSpace_no_space)
  ultimately show ?thesis using authorityState_roundtrip [OF assms(2)] by simp
qed

lemma plain_authority_name: "plain_authority a \<Longrightarrow> authority_name a = a"
  using TrimSpace_no_space [of a] by (simp add: plain_authority_def authority_name_def list_all_iff)

lemma granted_names: "granted as \<Longrightarrow> map authority_name as = as"
  unfolding granted_def list_all_iff by (blast intro: map_idI plain_authority_name)

lemma granted_nonblank: "granted (map authority_name as) \<Longrightarrow> nonblank as"
  by (auto simp: granted_def nonblank_def list_all_iff plain_authority_def authority_name_def ToUpper_def)

lemma grant_needs_update:
  assumes "grantable spec" "granted as" "au_Authorities st = as"
  shows "AuthorityNeedsUpdate spec (Some st) = Some (set as \<noteq> wanted spec)"
proof -
  let ?ws = "map authority_name (au_Authorities spec)"
  have w: "granted ?ws" using assms(1) by (simp add: grantable_def)
  have "nonblank as" using assms(2) granted_nonblank [of as] by (simp add: granted_names)
  moreover have "authority_mset as = mset as" "authority_mset (au_Authorities spec) = mset ?ws"
    using granted_names [OF assms(2)] by (simp_all add: authority_mset_def authority_name_def [abs_def])
  moreover have "mset ?ws = mset as \<longleftrightarrow> set ?ws = set as"
    using w assms(2) set_eq_iff_mset_eq_distinct [of ?ws as] unfolding granted_def by blast
  ultimately show ?thesis
    using granted_nonblank [OF w] assms(3)
    by (auto simp: AuthorityNeedsUpdate_def authoritySetsEqual_nonblank wanted_def)
qed

section \<open>The commands through the client\<close>

lemma grant_commands:
  assumes "grantable spec"
  obtains add rm dis where "buildSetAuthorityMQSC spec False = Inr add" "buildSetAuthorityMQSC spec True = Inr rm"
    "buildDisplayAuthorityMQSC spec = Inr dis" "add \<noteq> rm" "add \<noteq> dis" "rm \<noteq> dis"
  using assms by (auto simp: grantable_def buildSetAuthorityMQSC_def buildDisplayAuthorityMQSC_def go_join_Cons Let_def)

lemma grant_command_served:
  assumes "serves_grant env c held spec" "ready_client c" "ok_state P s"
    and "Inr cmd \<in> {buildSetAuthorityMQSC spec False, buildSetAuthorityMQSC spec True, buildDisplayAuthorityMQSC spec}"
  obtains resp s' where "postMQSC env c (RunCommand cmd) s = ((Some resp,
      if overallFailed resp
      then Some (if isObjectMissing resp then NotFoundError [] else terminalError resp ''mqsc command failed'')
      else None), s')" "answers_grant spec held cmd (cs_world s) resp (cs_world s')" "ok_state P s'"
proof -
  have s: "healthy s" "cs_probe s = P" using assms(3) by (simp_all add: ok_state_def)
  have "he_newRequest env (c_mqscURL c) = None" using assms(1) by (simp add: serves_grant_def)
  then show thesis
    by (rule postMQSC_answered [OF _ assms(2) s(1), where body = "RunCommand cmd" and Q = "answers_grant spec held cmd (cs_world s)"])
      (use assms(1,4) that s(2) in \<open>unfold serves_grant_def, auto simp: requestName_def\<close>)
qed

lemma get_grant_served:
  assumes srv: "serves_grant env c held spec" "ready_client c" and gr: "grantable spec" and ok: "ok_state P s"
  obtains r s' where "GetAuthority env c spec s = (r, s')" "ok_state P s'" "held (cs_world s') = held (cs_world s)"
    "if held (cs_world s) = [] then r = Inl (NotFoundError (au_Profile spec))
     else \<exists>st. r = Inr st \<and> au_Authorities st = held (cs_world s)"
proof -
  let ?h = "held (cs_world s)"
  obtain add rm dis where b: "buildSetAuthorityMQSC spec False = Inr add" "buildSetAuthorityMQSC spec True = Inr rm"
    "buildDisplayAuthorityMQSC spec = Inr dis" "add \<noteq> dis" "rm \<noteq> dis"
    using grant_commands [OF gr] by metis
  obtain resp s' where p: "postMQSC env c (RunCommand dis) s = ((Some resp,
      if overallFailed resp
      then Some (if isObjectMissing resp then NotFoundError [] else terminalError resp ''mqsc command failed'')
      else None), s')" "answers_grant spec held dis (cs_world s) resp (cs_world s')" "ok_state P s'"
    by (rule grant_command_served [OF srv ok, of dis]) (simp_all add: b)
  have h: "held (cs_world s') = ?h"
    "(\<exists>lines. prints resp lines \<and> displays_grant (if ?h = [] then [''NONE''] else ?h) lines) \<or>
     ?h = [] \<and> overallFailed resp \<and> isObjectMissing resp"
    using p(2) b by (simp_all add: answers_grant_def)
  have g: "list_all plain_authority ?h" using srv(1) by (simp add: serves_grant_def granted_def)
  have none: "authorityRecordRemoved ?h \<longleftrightarrow> ?h = []" "authorityRecordRemoved [''NONE'']"
  proof -
    show "authorityRecordRemoved ?h \<longleftrightarrow> ?h = []"
      using g by (cases ?h) (auto simp: authorityRecordRemoved_def plain_authority_def EqualFold_ToUpper ToUpper_def go_upper_char_def)
    show "authorityRecordRemoved [''NONE'']" by code_simp
  qed
  from h(2) show thesis
  proof
    assume "\<exists>lines. prints resp lines \<and> displays_grant (if ?h = [] then [''NONE''] else ?h) lines"
    then obtain lines where l: "prints resp lines" "displays_grant (if ?h = [] then [''NONE''] else ?h) lines" by blast
    let ?st = "authorityStateFromAttributes spec (parseMQSCDisplayAttributes lines)"
    have st: "au_Authorities ?st = (if ?h = [] then [''NONE''] else ?h)"
      by (rule authorityState_displayed [OF l(2)]) (use g in simp_all)
    let ?r = "if ?h = [] then Inl (NotFoundError (au_Profile spec)) else Inr ?st"
    have "GetAuthority env c spec s = (?r, s')"
      using display_text_served(1) [OF p(1) l(1)] b(3) none st by (simp add: GetAuthority_def Let_def)
    then show thesis by (rule that [OF _ p(3) h(1)]) (use st in simp)
  next
    assume "?h = [] \<and> overallFailed resp \<and> isObjectMissing resp"
    then show thesis
      using that [OF _ p(3) h(1)] display_text_served(2) [OF p(1)] b(3) by (simp add: GetAuthority_def)
  qed
qed

lemma add_grant_served:
  assumes srv: "serves_grant env c held spec" "ready_client c" and gr: "grantable spec" and ok: "ok_state P s"
  obtains s' where "SetAuthority env c spec s = (None, s')" "ok_state P s'"
    "set (held (cs_world s')) = set (held (cs_world s)) \<union> wanted spec"
proof -
  obtain add where b: "buildSetAuthorityMQSC spec False = Inr add" using grant_commands [OF gr] by metis
  obtain resp s' where p: "postMQSC env c (RunCommand add) s = ((Some resp,
      if overallFailed resp
      then Some (if isObjectMissing resp then NotFoundError [] else terminalError resp ''mqsc command failed'')
      else None), s')" "answers_grant spec held add (cs_world s) resp (cs_world s')" "ok_state P s'"
    by (rule grant_command_served [OF srv ok, of add]) (simp_all add: b)
  with b show thesis by (intro that [of s']) (simp_all add: answers_grant_def SetAuthority_def RunMQSC_def)
qed

lemma remove_grant_served:
  assumes srv: "serves_grant env c held spec" "ready_client c" and gr: "grantable spec" and ok: "ok_state P s"
  obtains s' where "DeleteAuthority env c spec s = (None, s')" "ok_state P s'" "held (cs_world s') = []"
proof -
  obtain add rm where b: "buildSetAuthorityMQSC spec False = Inr add" "buildSetAuthorityMQSC spec True = Inr rm" "add \<noteq> rm"
    using grant_commands [OF gr] by metis
  obtain resp s' where p: "postMQSC env c (RunCommand rm) s = ((Some resp,
      if overallFailed resp
      then Some (if isObjectMissing resp then NotFoundError [] else terminalError resp ''mqsc command failed'')
      else None), s')" "answers_grant spec held rm (cs_world s) resp (cs_world s')" "ok_state P s'"
    by (rule grant_command_served [OF srv ok, of rm]) (simp_all add: b)
  have h: "held (cs_world s') = []" "overallFailed resp \<longrightarrow> isObjectMissing resp"
    using p(2) b by (auto simp: answers_grant_def split: if_splits)
  have "errors_Is (NotFoundError []) ErrNotFound" by code_simp
  with p(1) b(2) h have "DeleteAuthority env c spec s = (None, s')"
    by (auto simp: DeleteAuthority_def runMQSCAllowNotFound_def RunMQSC_def)
  then show thesis using p(3) h(1) by (rule that)
qed

section \<open>The ensure step\<close>

definition grant_reads_in_sync :: "'x http_env \<Rightarrow> Client \<Rightarrow> AuthoritySpec \<Rightarrow> 'x cstate \<Rightarrow> bool" where
  "grant_reads_in_sync env c spec x \<longleftrightarrow>
     (\<exists>st x'. GetAuthority env c spec x = (Inr st, x') \<and> AuthorityNeedsUpdate spec (Some st) = Some False)"

definition grant_reads_missing :: "'x http_env \<Rightarrow> Client \<Rightarrow> AuthoritySpec \<Rightarrow> 'x cstate \<Rightarrow> bool" where
  "grant_reads_missing env c spec x \<longleftrightarrow> (\<exists>nm x'. GetAuthority env c spec x = (Inl (NotFoundError nm), x'))"

lemma grant_reads:
  assumes "serves_grant env c held spec" "ready_client c" "grantable spec" "ok_state P x"
  shows "grant_reads_in_sync env c spec x \<longleftrightarrow> set (held (cs_world x)) = wanted spec"
    and "grant_reads_missing env c spec x \<longleftrightarrow> held (cs_world x) = []"
proof -
  obtain r x' where g: "GetAuthority env c spec x = (r, x')"
    "if held (cs_world x) = [] then r = Inl (NotFoundError (au_Profile spec))
     else \<exists>st. r = Inr st \<and> au_Authorities st = held (cs_world x)"
    by (rule get_grant_served [OF assms])
  have h: "granted (held (cs_world x))" "wanted spec \<noteq> {}"
    using assms(1,3) by (simp_all add: serves_grant_def wanted_def grantable_def)
  show "grant_reads_in_sync env c spec x \<longleftrightarrow> set (held (cs_world x)) = wanted spec"
    "grant_reads_missing env c spec x \<longleftrightarrow> held (cs_world x) = []"
    using g grant_needs_update [OF assms(3) h(1)] h(2)
    by (cases "held (cs_world x) = []"; auto simp: grant_reads_in_sync_def grant_reads_missing_def)+
qed

text \<open>A managed grant is added exactly when the read does not find it in sync; nothing is revoked.\<close>

lemma ensureAuthority_served:
  assumes srv: "serves_grant env c held spec" "ready_client c" and gr: "grantable spec"
    and hc: "holds_client view cl put" and ok: "ok_state P (cl (rs_world s))"
    and pol: "workloadAdoptionPolicy auth = AdoptionPolicyAdopt" "\<not> isObserveOnly auth"
  obtains s' where "ensureAuthority (embed_admin cl put (client_admin env c)) spec auth s = (Some (True, False, None), s')"
    "view (rs_world s') = view (rs_world s)" "ok_state P (cl (rs_world s'))"
    "set (held (cs_world (cl (rs_world s')))) = set (held (cs_world (cl (rs_world s)))) \<union> wanted spec"
    "rs_log s' = (if grant_reads_in_sync env c spec (cl (rs_world s)) then [] else [MQApply None]) @ rs_log s"
proof -
  let ?w = "rs_world s" and ?a = "embed_admin cl put (client_admin env c)"
  let ?h = "held (cs_world (cl ?w))"
  have put: "cl (put x w) = x" "view (put x w) = view w" for x w using hc unfolding holds_client_def by auto
  have sel: "ad_GetAuthority ?a spec = via cl put (GetAuthority env c spec)"
    "ad_SetAuthority ?a spec = via cl put (SetAuthority env c spec)"
    by (simp_all add: embed_admin_def client_admin_def)
  obtain r x where g: "GetAuthority env c spec (cl ?w) = (r, x)" "ok_state P x" "held (cs_world x) = ?h"
    "if ?h = [] then r = Inl (NotFoundError (au_Profile spec)) else \<exists>st. r = Inr st \<and> au_Authorities st = ?h"
    by (rule get_grant_served [OF srv gr ok])
  have need: "AuthorityNeedsUpdate spec (Some st) = Some (set ?h \<noteq> wanted spec)" if "au_Authorities st = ?h" for st
    using grant_needs_update [OF gr _ that] srv(1) by (simp add: serves_grant_def)
  have ne: "wanted spec \<noteq> {}" using gr by (simp add: wanted_def grantable_def)
  let ?s1 = "s\<lparr>rs_world := put x ?w\<rparr>"
  have read: "mqRead (ad_GetAuthority ?a spec) s = (r, ?s1)" by (simp add: sel mqRead_def via_def g(1))
  note reads = grant_reads(1) [OF srv gr ok]
  show thesis
  proof (cases "set ?h = wanted spec")
    case True
    with ne g(4) obtain st where st: "r = Inr st" "au_Authorities st = ?h" by (cases "?h = []") auto
    have "ensureAuthority ?a spec auth s = (Some (True, False, None), ?s1)"
      using read st need [OF st(2)] True pol(1) by (simp add: ensureAuthority_def ensureAuth_def adopt_never_blocks)
    then show thesis using True reads g(2,3) by (intro that [of ?s1]) (simp_all add: put)
  next
    case False
    obtain x' where d: "SetAuthority env c spec x = (None, x')" "ok_state P x'"
      "set (held (cs_world x')) = set (held (cs_world x)) \<union> wanted spec" by (rule add_grant_served [OF srv gr g(2)])
    let ?s2 = "log_effect (MQApply None) (s\<lparr>rs_world := put x' (put x ?w)\<rparr>)"
    have nf: "errors_Is (NotFoundError (au_Profile spec)) ErrNotFound" by (simp add: errors_Is_def)
    have upd: "mqApply (ad_SetAuthority ?a spec) ?s1 = (None, ?s2)"
      by (simp add: mqApply_def sel via_def put d(1))
    have "ensureAuthority ?a spec auth s = (Some (True, False, None), ?s2)"
    proof (cases "?h = []")
      case True
      then show ?thesis using read g(4) pol nf upd by (simp add: ensureAuthority_def ensureAuth_def adopt_never_blocks)
    next
      case h: False
      then obtain st where st: "r = Inr st" "au_Authorities st = ?h" using g(4) by auto
      then show ?thesis
        using read need [OF st(2)] False pol upd by (simp add: ensureAuthority_def ensureAuth_def adopt_never_blocks)
    qed
    then show thesis using False reads d g(3) by (intro that [of ?s2]) (simp_all add: put log_effect_def)
  qed
qed

section \<open>Grants are managed objects\<close>

lemma same_intent_grant: "same_intent a b \<Longrightarrow> toMQAuthoritySpec b = toMQAuthoritySpec a" for a :: AuthorityRecord
  by (simp add: same_intent_def toMQAuthoritySpec_def)

lemma grant_kind_sel:
  "wk_precheck authorityrecord_kind r = None"
  "wk_format authorityrecord_kind r = FormatSetAuthorityMQSC (toMQAuthoritySpec r)"
  "wk_ensure authorityrecord_kind admin r s =
     apfst (map_option (authDrift (a_Profile (w_Spec r)) ''authority record'')) (ensureAuthority admin (toMQAuthoritySpec r) r s)"
  "wk_delete authorityrecord_kind admin r = ad_DeleteAuthority admin (toMQAuthoritySpec r)"
  by (simp_all add: authorityrecord_kind_def)

text \<open>The entity has no authority that is not wanted.\<close>

definition within_grant :: "('x \<Rightarrow> string list) \<Rightarrow> AuthoritySpec \<Rightarrow> (string, bool) gomap \<Rightarrow> 'x cstate \<Rightarrow> bool" where
  "within_grant held spec P x \<longleftrightarrow> ok_state P x \<and> set (held (cs_world x)) \<subseteq> wanted spec"

lemma grant_ensured:
  assumes srv: "serves_grant env c held spec" "ready_client c" and spec: "spec = toMQAuthoritySpec auth" "grantable spec"
    and hc: "holds_client view cl put" and ok: "within_grant held spec P (cl (rs_world s))"
    and pol: "workloadAdoptionPolicy auth = AdoptionPolicyAdopt" "\<not> isObserveOnly auth"
  shows "\<exists>s'. wk_ensure authorityrecord_kind (embed_admin cl put (client_admin env c)) auth s = (Some (True, [], None), s') \<and>
    view (rs_world s') = view (rs_world s) \<and> within_grant held spec P (cl (rs_world s')) \<and>
    grant_reads_in_sync env c spec (cl (rs_world s')) \<and>
    rs_log s' = (if grant_reads_in_sync env c spec (cl (rs_world s)) then [] else [MQApply None]) @ rs_log s"
proof -
  have ok': "ok_state P (cl (rs_world s))" using ok by (simp add: within_grant_def)
  obtain s' where e: "ensureAuthority (embed_admin cl put (client_admin env c)) spec auth s = (Some (True, False, None), s')"
    "view (rs_world s') = view (rs_world s)" "ok_state P (cl (rs_world s'))"
    "set (held (cs_world (cl (rs_world s')))) = set (held (cs_world (cl (rs_world s)))) \<union> wanted spec"
    "rs_log s' = (if grant_reads_in_sync env c spec (cl (rs_world s)) then [] else [MQApply None]) @ rs_log s"
    by (rule ensureAuthority_served [OF srv spec(2) hc ok' pol])
  have "set (held (cs_world (cl (rs_world s')))) = wanted spec" using e(4) ok by (auto simp: within_grant_def)
  with e show ?thesis
    by (intro exI [of _ s'])
      (simp add: grant_kind_sel spec(1) [symmetric] authDrift_def within_grant_def grant_reads(1) [OF srv spec(2) e(3)])
qed

lemma grant_deleted:
  assumes srv: "serves_grant env c held spec" "ready_client c" and spec: "spec = toMQAuthoritySpec auth" "grantable spec"
    and hc: "holds_client view cl put" and ok: "within_grant held spec P (cl w)"
  shows "\<exists>w'. wk_delete authorityrecord_kind (embed_admin cl put (client_admin env c)) auth w = (None, w') \<and> view w' = view w \<and>
    within_grant held spec P (cl w') \<and> grant_reads_missing env c spec (cl w')"
proof -
  have "ok_state P (cl w)" using ok by (simp add: within_grant_def)
  then obtain x where x: "DeleteAuthority env c spec (cl w) = (None, x)" "ok_state P x" "held (cs_world x) = []"
    by (rule remove_grant_served [OF srv spec(2)])
  have "cl (put x w) = x" "view (put x w) = view w" using hc unfolding holds_client_def by auto
  with x show ?thesis
    by (intro exI [of _ "put x w"])
      (simp add: grant_kind_sel spec(1) [symmetric] embed_admin_def client_admin_def via_def within_grant_def
        grant_reads(2) [OF srv spec(2)])
qed

lemma grant_managed:
  assumes op: "operated k ns n view cl put env c auth s" and srv: "serves_grant env c held spec" "ready_client c"
    and spec: "spec = toMQAuthoritySpec auth" "grantable spec"
  shows "managed_object k authorityrecord_kind ns n view cl (embed_admin cl put (client_admin env c)) (same_intent auth)
    (within_grant held spec P) (grant_reads_in_sync env c spec) (grant_reads_missing env c spec)"
proof
  let ?a = "embed_admin cl put (client_admin env c)"
  have hc: "holds_client view cl put" and con: "connected (\<lambda>_. True) k (om_Namespace (w_meta auth)) (w_ConnectionRef auth) view cl ?a"
    and lib: "k8s_lib_laws (k_lib k)" "api_serves k ns n view cl" "\<not> w_Suspend auth"
    and pol: "workloadAdoptionPolicy auth = AdoptionPolicyAdopt" "\<not> isObserveOnly auth"
    using op by (simp_all add: operated_def)
  show "k8s_lib_laws (k_lib k)" "api_serves k ns n view cl" by (fact lib)+
  fix o' assume d: "same_intent auth o'"
  note o' = same_intent_grant [OF d, folded spec(1)] same_intent_policies [OF d]
  show "connected (within_grant held spec P) k (om_Namespace (w_meta o')) (w_ConnectionRef o') view cl ?a"
    using d connected_mono [OF con, of "within_grant held spec P"] by (simp add: same_intent_def)
  show "\<not> w_Suspend o'" using d lib(3) by (simp add: same_intent_def)
  show "wk_precheck authorityrecord_kind o' = None \<and> (\<exists>m. wk_format authorityrecord_kind o' = Inr m)"
    using grant_commands [OF spec(2)] by (metis grant_kind_sel(1,2) FormatSetAuthorityMQSC_def o'(1))
  show "\<exists>s'. wk_ensure authorityrecord_kind ?a o' s = (Some (True, [], None), s') \<and> view (rs_world s') = view (rs_world s) \<and>
      within_grant held spec P (cl (rs_world s')) \<and> grant_reads_in_sync env c spec (cl (rs_world s')) \<and>
      rs_log s' = (if grant_reads_in_sync env c spec (cl (rs_world s)) then [] else [MQApply None]) @ rs_log s"
    if "within_grant held spec P (cl (rs_world s))" for s
    using grant_ensured [OF srv o'(1) [symmetric] spec(2) hc that] pol o' by simp
  show "\<exists>w'. wk_delete authorityrecord_kind ?a o' w = (None, w') \<and> view w' = view w \<and>
      within_grant held spec P (cl w') \<and> grant_reads_missing env c spec (cl w')"
    if "within_grant held spec P (cl w)" for w
    by (rule grant_deleted [OF srv o'(1) [symmetric] spec(2) hc that])
qed (simp_all add: same_intent_kept)

section \<open>The theorem\<close>

text \<open>With an authority that is not wanted, the grant is added again by every step.\<close>

lemma extra_authority_reapplied:
  fixes s :: "'w rs"
  assumes srv: "serves_grant env c held spec" "ready_client c" and gr: "grantable spec"
    and hc: "holds_client view cl put" and pol: "workloadAdoptionPolicy auth = AdoptionPolicyAdopt" "\<not> isObserveOnly auth"
    and start: "ok_state P (cl (rs_world s))" "extra \<in> set (held (cs_world (cl (rs_world s))))" "extra \<notin> wanted spec"
  defines "step \<equiv> \<lambda>s. snd (ensureAuthority (embed_admin cl put (client_admin env c)) spec auth s)"
  shows "rs_log ((step ^^ j) s) = replicate j (MQApply None) @ rs_log s \<and>
    extra \<in> set (held (cs_world (cl (rs_world ((step ^^ j) s)))))"
proof -
  define odd where "odd s \<longleftrightarrow> ok_state P (cl (rs_world s)) \<and> extra \<in> set (held (cs_world (cl (rs_world s))))" for s :: "'w rs"
  have step: "odd (step s) \<and> rs_log (step s) = MQApply None # rs_log s" if s: "odd s" for s
  proof -
    have ok: "ok_state P (cl (rs_world s))" "extra \<in> set (held (cs_world (cl (rs_world s))))" using s by (simp_all add: odd_def)
    have drift: "\<not> grant_reads_in_sync env c spec (cl (rs_world s))"
      using ok(2) start(3) by (auto simp: grant_reads(1) [OF srv gr ok(1)])
    obtain s' where "ensureAuthority (embed_admin cl put (client_admin env c)) spec auth s = (Some (True, False, None), s')"
      "ok_state P (cl (rs_world s'))" "set (held (cs_world (cl (rs_world s')))) = set (held (cs_world (cl (rs_world s)))) \<union> wanted spec"
      "rs_log s' = MQApply None # rs_log s"
      by (rule ensureAuthority_served [OF srv gr hc ok(1) pol]) (use drift in auto)
    with ok(2) show ?thesis by (simp add: odd_def step_def)
  qed
  have "odd ((step ^^ j) s) \<and> rs_log ((step ^^ j) s) = replicate j (MQApply None) @ rs_log s"
    by (induction j) (use start step in \<open>auto simp: odd_def\<close>)
  then show ?thesis by (simp add: odd_def)
qed


section \<open>A concrete operator\<close>

text \<open>A queue manager with one entity, whose authorities are listed in the order in which they came.\<close>

definition held_by :: "string list \<Rightarrow> string list" where
  "held_by w = remdups (filter plain_authority w)"

definition grant_lines :: "string \<Rightarrow> string list" where
  "grant_lines authlist = grantHeader # map (\<lambda>kv. ''  '' @ render_pair kv)
     [(''PROFILE'', ''APP.Q1''), (''ENTITY'', ''app''), (''ENTTYPE'', ''PRINCIPAL''), (''OBJTYPE'', ''QUEUE''), (''AUTHLIST'', authlist)]"

definition grant_server :: "AuthoritySpec \<Rightarrow> string list http_env" where
  "grant_server spec =
     \<lparr>he_do = (\<lambda>req w.
        let reply = (\<lambda>raw. Inr \<lparr>rs_StatusCode = StatusOK, rs_Body = Inr raw, rs_Cookies = []\<rparr>) in
        case rq_Body req of
          RunCommand cmd \<Rightarrow>
            if buildSetAuthorityMQSC spec False = Inr cmd then (reply ''ok'', w @ map authority_name (au_Authorities spec))
            else if buildSetAuthorityMQSC spec True = Inr cmd then (reply ''ok'', [])
            else (reply (if held_by w = [] then ''missing'' else ''list:'' @ go_join (held_by w) '',''), w)
        | _ \<Rightarrow> (Inl (PlainError ''unexpected request''), w)),
      he_ctxErr = (\<lambda>_. None), he_sleep = (\<lambda>_ w. (None, w)), he_now = (\<lambda>_. 0), he_newRequest = (\<lambda>_. None),
      he_unmarshalMQSC = (\<lambda>raw. Inr
        (if raw = ''ok'' then plain_reply 0 [] else if raw = ''missing'' then plain_reply 2 [''AMQ8884E'']
         else plain_reply 0 (grant_lines (drop 5 raw)))),
      he_unmarshalMsgIDs = (\<lambda>_. Inr [])\<rparr>"

lemma granted_held: "granted (held_by w)"
  by (simp add: granted_def held_by_def list_all_iff)

lemma grant_lines_display:
  assumes "granted as"
  shows "displays_grant as (grant_lines (go_join as '',''))"
proof -
  let ?kvs = "[(''PROFILE'', ''APP.Q1''), (''ENTITY'', ''app''), (''ENTTYPE'', ''PRINCIPAL''), (''OBJTYPE'', ''QUEUE''),
    (''AUTHLIST'', go_join as '','')]"
  have k: "display_key ''PROFILE''" "display_key ''ENTITY''" "display_key ''ENTTYPE''" "display_key ''OBJTYPE''"
    "display_key ''AUTHLIST''" by code_simp+
  have "CHR '')'' \<notin> set (go_join as '','')"
    using assms set_go_join [of as] by (fastforce simp: granted_def list_all_iff plain_authority_def)
  with k have "\<forall>(k, v) \<in> set ?kvs. display_key k \<and> CHR '')'' \<notin> set v" by simp
  then show ?thesis
    unfolding displays_grant_def grant_lines_def
    by (intro exI [of _ "map (Pair 2) ?kvs"]) (simp add: go_join_Cons padded_def numeral_2_eq_2)
qed

lemma grant_server_serves:
  assumes "grantable spec"
  shows "serves_grant (grant_server spec) c held_by spec"
proof -
  have reply: "\<not> overallFailed (plain_reply 0 [])" "overallFailed (plain_reply 2 [''AMQ8884E''])"
    "isObjectMissing (plain_reply 2 [''AMQ8884E''])" by code_simp+
  have shown: "\<exists>lines. prints (plain_reply 0 (grant_lines (go_join (held_by w) '',''))) lines \<and> displays_grant (held_by w) lines" for w
    using plain_reply_prints grant_lines_display [OF granted_held] by blast
  have "list_all plain_authority (map authority_name (au_Authorities spec))" using assms by (simp add: grantable_def granted_def)
  then have add: "set (held_by (w @ map authority_name (au_Authorities spec))) = set (held_by w) \<union> wanted spec" for w
    by (auto simp: held_by_def wanted_def list_all_iff)
  have "held_by [] = []" by (simp add: held_by_def)
  with reply shown add show ?thesis
    unfolding serves_grant_def by (auto simp: grant_server_def answers_grant_def granted_held Let_def)
qed

definition grant_object :: "AuthoritySpec \<Rightarrow> AuthorityRecord" where
  "grant_object spec =
     \<lparr>w_meta = w_meta newsTopic, w_ConnectionRef = ''qm1'', w_Suspend = False, w_policies = w_policies newsTopic,
      w_Spec = \<lparr>a_Profile = au_Profile spec, a_ObjectType = au_ObjectType spec, a_Principal = au_Principal spec,
        a_Group = au_Group spec, a_Authorities = au_Authorities spec\<rparr>,
      w_Status = w_Status newsTopic\<rparr>"

definition grant_start :: "AuthoritySpec \<Rightarrow> string list \<Rightarrow> (AuthorityRecordSpecCR, string list) node rs" where
  "grant_start spec as =
     \<lparr>rs_world = \<lparr>nd_obj = Some (grant_object spec), nd_client = fresh_state as, nd_version = 2\<rparr>, rs_log = []\<rparr>"

lemma grant_object_spec [simp]: "toMQAuthoritySpec (grant_object spec) = spec"
  by (simp add: toMQAuthoritySpec_def grant_object_def)

lemma grant_operated:
  "operated (node_kube ready_conn env c) ns n nd_obj nd_client put_client env c (grant_object spec) (grant_start spec as)"
  by (rule node_operated) (simp_all add: grant_object_def grant_start_def)


end
