(* ===== verification/Client_Sessions.thy ===== *)
theory Client_Sessions
  imports Client_Factory "HOL-Library.Multiset"
begin

text \<open>
  What becomes of the clients the factory creates (\<open>internal/adapter/mqrest/factory.go\<close>). Calls of
  \<open>ForConnection\<close> and \<open>ReleaseConnection\<close> run concurrently and lock the cache in two short sections; a
  client that was created outside of them is installed later, or loses against another one. The
  step relation \<open>factory_step\<close> interleaves these sections; its invariant accounts for every client.
\<close>

section \<open>Interleaved calls\<close>

record 'c sessions =
  se_cache :: "'c client_cache"
  se_pending :: "'c multiset"
  se_closed :: "'c multiset"
  se_created :: "'c multiset"

definition cached_clients :: "'c client_cache \<Rightarrow> 'c multiset" where
  "cached_clients cache = mset (map (\<lambda>(key, entry). ce_admin entry) cache)"

definition create_session :: "'c \<Rightarrow> 'c sessions \<Rightarrow> 'c sessions" where
  "create_session c s = s\<lparr>se_created := add_mset c (se_created s), se_pending := add_mset c (se_pending s)\<rparr>"

definition install_session :: "string \<Rightarrow> cacheFingerprint \<Rightarrow> 'c \<Rightarrow> 'c sessions \<Rightarrow> 'c sessions" where
  "install_session key fp c s =
     s\<lparr>se_cache := snd (installClient key fp c (se_cache s)), se_pending := se_pending s - {#c#},
       se_closed := closeClientIdleConnections add_mset (closedByInstall key fp c (se_cache s)) (se_closed s)\<rparr>"

definition release_session :: "QueueManagerConnection \<Rightarrow> 'c sessions \<Rightarrow> 'c sessions" where
  "release_session conn s =
     (case ReleaseConnection add_mset conn (se_cache s, se_closed s) of
        (_, cache, closed) \<Rightarrow> s\<lparr>se_cache := cache, se_closed := closed\<rparr>)"

text \<open>\<open>NewClient\<close> allocates: a new client is none of the earlier ones.\<close>

inductive factory_step :: "'c sessions \<Rightarrow> 'c sessions \<Rightarrow> bool" where
  create: "c \<notin># se_created s \<Longrightarrow> factory_step s (create_session c s)"
| install: "c \<in># se_pending s \<Longrightarrow> factory_step s (install_session key fp c s)"
| release: "factory_step s (release_session conn s)"

definition new_sessions :: "'c sessions" where
  "new_sessions = \<lparr>se_cache = NewClientFactory, se_pending = {#}, se_closed = {#}, se_created = {#}\<rparr>"

section \<open>Every client is accounted for\<close>

definition sessions_inv :: "'c sessions \<Rightarrow> bool" where
  "sessions_inv s \<longleftrightarrow>
     distinct (map fst (se_cache s)) \<and>
     se_created s = se_pending s + cached_clients (se_cache s) + se_closed s \<and>
     (\<forall>c. count (se_created s) c \<le> 1)"

lemma cached_clients_simps [simp]:
  "cached_clients [] = {#}"
  "cached_clients ((key, entry) # cache) = add_mset (ce_admin entry) (cached_clients cache)"
  by (simp_all add: cached_clients_def)

text \<open>Storing and deleting under one key exchange one client of the cache.\<close>

lemma cached_clients_update:
  "cached_clients (AList.update key entry cache) + closeClientIdleConnections add_mset (map_option ce_admin (map_of cache key)) M =
     add_mset (ce_admin entry) (cached_clients cache) + M"
  by (induction cache) (auto simp: closeClientIdleConnections_def split: option.splits)

lemma cached_clients_delete:
  assumes "distinct (map fst cache)"
  shows "cached_clients (AList.delete key cache) + closeClientIdleConnections add_mset (map_option ce_admin (map_of cache key)) M =
    cached_clients cache + M"
  using assms
proof (induction cache)
  case (Cons p cache)
  obtain k e where p: "p = (k, e)" by fastforce
  show ?case
  proof (cases "k = key")
    case True
    with Cons.prems p have "map_of cache key = None" by (simp add: map_of_eq_None_iff)
    with Cons p True show ?thesis by (auto simp: closeClientIdleConnections_def)
  qed (use Cons p in auto)
qed (simp add: closeClientIdleConnections_def)

lemma install_session_accounts:
  assumes "c \<in># se_pending s"
  shows "se_pending (install_session key fp c s) + cached_clients (se_cache (install_session key fp c s)) +
      se_closed (install_session key fp c s) =
    se_pending s + cached_clients (se_cache s) + se_closed s"
proof -
  obtain M where M: "se_pending s = add_mset c M" using assms by (metis multi_member_split)
  show ?thesis
  proof (cases "lookupClient key fp (se_cache s)")
    case None
    then have "closedByInstall key fp c (se_cache s) = map_option ce_admin (map_of (se_cache s) key)"
      by (auto simp: closedByInstall_def lookupClient_def split: option.splits if_splits)
    with None M cached_clients_update [of key "\<lparr>ce_admin = c, ce_fingerprint = fp\<rparr>" "se_cache s" "se_closed s"]
    show ?thesis by (simp add: install_session_def installClient_def ac_simps)
  next
    case (Some d)
    then have "closedByInstall key fp c (se_cache s) = Some c"
      by (auto simp: closedByInstall_def lookupClient_def split: option.splits if_splits)
    with Some M show ?thesis
      by (simp add: install_session_def installClient_def closeClientIdleConnections_def)
  qed
qed

lemma sessions_inv_moved:
  assumes "sessions_inv s" "distinct (map fst (se_cache s'))" "se_created s' = se_created s"
    and "se_pending s' + cached_clients (se_cache s') + se_closed s' = se_pending s + cached_clients (se_cache s) + se_closed s"
  shows "sessions_inv s'"
  using assms unfolding sessions_inv_def by metis

lemma factory_step_inv:
  assumes "factory_step s s'" "sessions_inv s"
  shows "sessions_inv s'"
  using assms(1)
proof cases
  case (create c)
  with assms(2) show ?thesis by (auto simp: sessions_inv_def create_session_def count_eq_zero_iff)
next
  case (install c key fp)
  have "distinct (map fst (snd (installClient key fp c (se_cache s))))"
    using assms(2) by (auto simp: sessions_inv_def installClient_def distinct_update split: option.splits)
  then show ?thesis
    using install_session_accounts [OF install(2), of key fp] unfolding install(1)
    by (intro sessions_inv_moved [OF assms(2)]) (simp_all add: install_session_def)
next
  case (release conn)
  have "distinct (map fst (se_cache s))" using assms(2) by (simp add: sessions_inv_def)
  then show ?thesis
    using cached_clients_delete [of "se_cache s" "connectionCacheKey conn" "se_closed s"] unfolding release
    by (intro sessions_inv_moved [OF assms(2)])
      (simp_all add: release_session_def ReleaseConnection_def distinct_delete Let_def add.assoc)
qed

lemma new_sessions_inv: "sessions_inv new_sessions"
  by (simp add: sessions_inv_def new_sessions_def NewClientFactory_def)

lemma reachable_inv: "factory_step\<^sup>*\<^sup>* new_sessions s \<Longrightarrow> sessions_inv s"
  by (induction rule: rtranclp_induct) (auto intro: factory_step_inv new_sessions_inv)

section \<open>A call is a sequence of these steps\<close>

text \<open>
  \<open>tracks\<close>: reading a secret closes nothing, creating a client neither, and the client is new; closing is recorded in
  \<open>closed\<close>.
\<close>

definition tracks ::
  "'w factory_env \<Rightarrow> (Config \<Rightarrow> 'w \<Rightarrow> 'c result \<times> 'w) \<Rightarrow> ('c \<Rightarrow> 'w \<Rightarrow> 'w) \<Rightarrow> ('w \<Rightarrow> 'c multiset) \<Rightarrow> 'c sessions \<Rightarrow> bool" where
  "tracks env create close closed s \<longleftrightarrow>
     (\<forall>ns n w r w'. fe_getSecret env ns n w = (r, w') \<longrightarrow> closed w' = closed w) \<and>
     (\<forall>cfg w r w'. create cfg w = (r, w') \<longrightarrow> closed w' = closed w) \<and>
     (\<forall>cfg w c w'. create cfg w = (Inr c, w') \<longrightarrow> c \<notin># se_created s) \<and>
     (\<forall>c w. closed (close c w) = add_mset c (closed w))"

lemma reads_close_nothing:
  assumes quiet: "\<forall>ns n w r w'. fe_getSecret env ns n w = (r, w') \<longrightarrow> closed w' = closed w"
  shows "cacheFingerprint_of env conn n w = (rf, w') \<Longrightarrow> closed w' = closed w"
    and "buildServerTLSConfig env conn w = (rt, w') \<Longrightarrow> closed w' = closed w"
    and "buildClientCertConfig env conn n sec w = (rc, w') \<Longrightarrow> closed w' = closed w"
    and "buildConfig env conn auth w = (rb, w') \<Longrightarrow> closed w' = closed w"
proof -
  note assms = quiet [rule_format]
  show "cacheFingerprint_of env conn n w = (rf, w') \<Longrightarrow> closed w' = closed w"
    by (auto simp: cacheFingerprint_of_def Let_def dest!: assms split: prod.splits sum.splits option.splits)
  show tls: "buildServerTLSConfig env conn w = (rt, w') \<Longrightarrow> closed w' = closed w" for w rt
    by (auto simp: buildServerTLSConfig_def Let_def dest!: assms split: prod.splits sum.splits option.splits)
  show cert: "buildClientCertConfig env conn n sec w = (rc, w') \<Longrightarrow> closed w' = closed w" for n sec w rc
    by (auto simp: buildClientCertConfig_def dest!: tls split: prod.splits sum.splits mq_error.splits)
  show "buildConfig env conn auth w = (rb, w') \<Longrightarrow> closed w' = closed w"
    by (auto simp: buildConfig_def Let_def dest!: assms tls cert split: prod.splits sum.splits if_splits)
qed

lemma lookup_cached: "lookupClient key fp cache = Some c \<Longrightarrow> c \<in># cached_clients cache"
  by (force simp: lookupClient_def cached_clients_def split: option.splits if_splits dest: map_of_SomeD)

text \<open>The sequence of a call that creates a client: it creates, then installs.\<close>

lemma create_install_steps:
  assumes "c \<notin># se_created s"
  shows "factory_step\<^sup>*\<^sup>* s (install_session key fp c (create_session c s))"
    and "se_pending (install_session key fp c (create_session c s)) = se_pending s"
proof -
  have "factory_step (create_session c s) (install_session key fp c (create_session c s))"
    by (rule factory_step.install) (simp add: create_session_def)
  with factory_step.create [OF assms] show "factory_step\<^sup>*\<^sup>* s (install_session key fp c (create_session c s))"
    by (meson rtranclp.rtrancl_into_rtrancl rtranclp.rtrancl_refl)
  show "se_pending (install_session key fp c (create_session c s)) = se_pending s"
    by (simp add: install_session_def create_session_def)
qed

text \<open>A call keeps the cache, or creates a client and installs it.\<close>

lemma ForConnection_cases:
  assumes run: "ForConnection env create close conn (cache, w) = (r, cache', w')"
    and get: "\<forall>ns n w r w'. fe_getSecret env ns n w = (r, w') \<longrightarrow> closed w' = closed w"
    and mk: "\<forall>cfg w r w'. create cfg w = (r, w') \<longrightarrow> closed w' = closed w"
  obtains (kept) "cache' = cache" "closed w' = closed w" "\<And>c. r = Inr c \<Longrightarrow> c \<in># cached_clients cache"
  | (new) c fp cfg w2 w3 where "create cfg w2 = (Inr c, w3)" "closed w3 = closed w" "r = Inr c"
      "lookupClient (connectionCacheKey conn) fp cache = None"
      "installClient (connectionCacheKey conn) fp c cache = (c, cache')"
      "w' = closeClientIdleConnections close (closedByInstall (connectionCacheKey conn) fp c cache) w3"
proof (cases r)
  case (Inr c)
  note frame = reads_close_nothing [where env = env and closed = closed, OF get]
  obtain auth fp w1 where f: "resolveAuthentication conn = Inr auth"
    "cacheFingerprint_of env conn (ra_secretName auth) w = (Inr fp, w1)"
    using ForConnection_stores run Inr by metis
  show thesis
  proof (cases "lookupClient (connectionCacheKey conn) fp cache")
    case None
    then obtain cfg w2 w3 where n: "buildConfig env conn auth w1 = (Inr cfg, w2)" "create cfg w2 = (Inr c, w3)"
      "installClient (connectionCacheKey conn) fp c cache = (c, cache')"
      "w' = closeClientIdleConnections close (closedByInstall (connectionCacheKey conn) fp c cache) w3"
      using ForConnection_miss [OF f None run [unfolded Inr]] by blast
    show thesis
      by (rule new [OF n(2) _ Inr None n(3,4)]) (simp add: mk [rule_format, OF n(2)] frame(1) [OF f(2)] frame(4) [OF n(1)])
  next
    case (Some d)
    with ForConnection_hit [OF f Some, of create close] run show thesis
      by (intro kept) (auto simp: frame(1) [OF f(2)] lookup_cached)
  qed
next
  case (Inl e)
  note frame = reads_close_nothing [where env = env and closed = closed, OF get]
  have "cache' = cache \<and> closed w' = closed w"
    using run Inl
    by (auto simp: ForConnection_def Let_def dest!: frame(1) frame(4) mk [rule_format] split: sum.splits prod.splits option.splits)
  with Inl show thesis by (intro kept) auto
qed

lemma ForConnection_steps:
  assumes tr: "tracks env create close closed s" and "closed w = se_closed s"
    and run: "ForConnection env create close conn (se_cache s, w) = (r, cache', w')"
  shows "\<exists>s'. factory_step\<^sup>*\<^sup>* s s' \<and> se_cache s' = cache' \<and> se_closed s' = closed w' \<and> se_pending s' = se_pending s \<and>
    (\<forall>c. r = Inr c \<longrightarrow> c \<in># cached_clients cache')"
proof -
  let ?key = "connectionCacheKey conn"
  have quiet: "\<forall>ns n w r w'. fe_getSecret env ns n w = (r, w') \<longrightarrow> closed w' = closed w"
    "\<forall>cfg w r w'. create cfg w = (r, w') \<longrightarrow> closed w' = closed w" using tr unfolding tracks_def by blast+
  from run quiet show ?thesis
  proof (cases rule: ForConnection_cases)
    case kept
    with assms(2) show ?thesis by (intro exI [of _ s]) auto
  next
    case (new c fp cfg w2 w3)
    let ?s = "install_session ?key fp c (create_session c s)"
    have "c \<notin># se_created s" using tr new(1) unfolding tracks_def by blast
    note steps = create_install_steps [OF this, of ?key fp]
    have "closed (close d v) = add_mset d (closed v)" for d v using tr unfolding tracks_def by blast
    then have "se_cache ?s = cache'" "se_closed ?s = closed w'"
      using new assms(2)
      by (simp_all add: install_session_def create_session_def closeClientIdleConnections_def split: option.splits)
    moreover have "c \<in># cached_clients cache'"
      using mqrest_cache.lookup_install [of ?key fp c "se_cache s"] new(5) by (intro lookup_cached [of ?key fp]) simp
    ultimately show ?thesis using steps new(3) by (intro exI [of _ ?s]) simp
  qed
qed

text \<open>C14: No client of the factory is lost and none that is in use is closed. Start from a new factory and
  let the critical sections of \<open>ForConnection\<close> and \<open>ReleaseConnection\<close> of any number of concurrent calls
  interleave in any order. Every client that was ever created is in exactly one place, once: still with the call that
  created it, in the cache under one key, or among those whose idle connections were closed. So a
  cached client has not been closed, a client that lost its place was closed, and once no call is under way the
  clients that are not closed are those of the cache, one per connection. A whole call of
  \<open>ForConnection\<close>, on any of its branches, is a sequence of these steps, and the client it returns is in the cache.\<close>

theorem clients_accounted_for:
  assumes "factory_step\<^sup>*\<^sup>* new_sessions s"
  shows "(\<forall>c. c \<in># se_created s \<longrightarrow>
      count (se_pending s) c + count (cached_clients (se_cache s)) c + count (se_closed s) c = 1) \<and>
    (se_pending s = {#} \<longrightarrow> se_created s - se_closed s = cached_clients (se_cache s)) \<and>
    distinct (map fst (se_cache s)) \<and>
    (\<forall>env create close closed conn w r cache' w'.
       tracks env create close closed s \<longrightarrow> closed w = se_closed s \<longrightarrow>
       ForConnection env create close conn (se_cache s, w) = (r, cache', w') \<longrightarrow>
       (\<exists>s'. factory_step\<^sup>*\<^sup>* s s' \<and> se_cache s' = cache' \<and> se_closed s' = closed w' \<and> se_pending s' = se_pending s \<and>
         (\<forall>c. r = Inr c \<longrightarrow> c \<in># cached_clients cache')))"
proof -
  have inv: "distinct (map fst (se_cache s))" "se_created s = se_pending s + cached_clients (se_cache s) + se_closed s"
    "\<And>c. count (se_created s) c \<le> 1" using reachable_inv [OF assms] unfolding sessions_inv_def by blast+
  have "count (se_pending s) c + count (cached_clients (se_cache s)) c + count (se_closed s) c = 1" if "c \<in># se_created s" for c
  proof -
    have "0 < count (se_created s) c" using that by simp
    then have "count (se_created s) c = 1" using inv(3) [of c] by linarith
    then show ?thesis unfolding inv(2) by simp
  qed
  moreover have "se_pending s = {#} \<Longrightarrow> se_created s - se_closed s = cached_clients (se_cache s)" by (simp add: inv(2))
  ultimately show ?thesis
    using inv(1) by (intro conjI allI impI) (assumption | rule ForConnection_steps; assumption | simp)+
qed

text \<open>Two calls for one connection and fingerprint race: the second client loses and is closed.\<close>

definition racing :: "nat sessions" where
  "racing =
     install_session ''ns/conn'' demo_fingerprint 1
       (install_session ''ns/conn'' demo_fingerprint 0 (create_session 1 (create_session 0 new_sessions)))"

theorem clients_accounted_for_witness:
  "factory_step\<^sup>*\<^sup>* new_sessions racing \<and> cached_clients (se_cache racing) = {#0#} \<and> se_closed racing = {#1#} \<and>
   count (se_pending racing) 1 + count (cached_clients (se_cache racing)) 1 + count (se_closed racing) 1 = 1"
proof -
  let ?s1 = "create_session (0 :: nat) new_sessions" and ?i = "install_session ''ns/conn'' demo_fingerprint"
  let ?s2 = "create_session 1 ?s1"
  have s: "factory_step new_sessions ?s1" "factory_step ?s1 ?s2" "factory_step ?s2 (?i 0 ?s2)" "factory_step (?i 0 ?s2) racing"
    unfolding racing_def
    by (rule factory_step.create factory_step.install; simp add: create_session_def new_sessions_def install_session_def; fail)+
  then have r: "factory_step\<^sup>*\<^sup>* new_sessions racing" by (meson converse_rtranclp_into_rtranclp rtranclp.rtrancl_refl)
  have "cached_clients (se_cache racing) = {#0#}" "se_closed racing = {#1#}"
    by (simp_all add: racing_def install_session_def create_session_def new_sessions_def NewClientFactory_def installClient_def
        lookupClient_def closedByInstall_def closeClientIdleConnections_def cacheEntry_matches_iff)
  moreover have "1 \<in># se_created racing"
    by (simp add: racing_def install_session_def create_session_def new_sessions_def)
  ultimately show ?thesis using clients_accounted_for [OF r, THEN conjunct1, rule_format, of 1] r by blast
qed

end
