(* ===== verification/Desired_Spec.thy ===== *)
theory Desired_Spec
  imports Attr_Fold
begin

text \<open>
  What \<open>toMQQueueSpec\<close>, \<open>toMQTopicSpec\<close> and \<open>toMQChannelSpec\<close> of the controllers produce, as a
  well-formedness statement about the specification that the client is given.
\<close>

section \<open>The desired specification\<close>

lemma map_of_normalizedAttributes:
  "map_of (normalizedAttributes a) = map_of (rev (map (apfst NormalizeAttrKey) a))"
proof -
  have "map_of (fold (\<lambda>(k, v) m. AList.update (NormalizeAttrKey k) v m) a m) =
      map_of m ++ map_of (rev (map (apfst NormalizeAttrKey) a))" for m
    by (induction a arbitrary: m) (auto simp: map_add_def fun_eq_iff split: option.splits)
  from this [of "[]"] show ?thesis by (simp add: normalizedAttributes_def)
qed

lemma columns_keys:
  "map fst (queueColumns q) = queueKeys" "map fst (topicColumns t) = topicKeys" "map fst (channelColumns c) = channelKeys"
  by (simp_all add: queueColumns_def topicColumns_def channelColumns_def queueKeys_def topicKeys_def channelKeys_def
      queueValues_def topicValues_def channelValues_def)

lemma keys_distinct: "distinct queueKeys" "distinct topicKeys" "distinct channelKeys"
  by code_simp+

lemma put_typed:
  assumes "distinct (map fst cs)" "\<forall>k \<in> set (map fst cs). NormalizeAttrKey k = k"
  shows "normal_attrs (fold putColumn cs (normalizedAttributes a)) \<and>
    map_of (fold putColumn cs (normalizedAttributes a)) = map_of (rev (map (apfst NormalizeAttrKey) a)) ++ columns cs"
  using putColumns [OF assms] by (simp add: normal_putColumns map_of_normalizedAttributes)

text \<open>C27: The specification handed to the client is well formed. For every queue, topic and channel
  the desired attributes are a map with distinct normalised keys; the attribute of a typed field that
  is set has the value of the field, whatever \<open>attributes\<close> says under any spelling of the key; every
  other attribute is the free one with that normalised key, the last one when several spellings
  collide. Channel types are normalised, with \<open>SVRCONN\<close> for none.\<close>

theorem desired_spec_typed:
  "(let a = qs_Attributes (toMQQueueSpec q) in normal_attrs a \<and>
      map_of a = map_of (rev (map (apfst NormalizeAttrKey) (q_Attributes (w_Spec q)))) ++ columns (queueColumns (w_Spec q))) \<and>
   (let a = ts_Attributes (toMQTopicSpec t) in normal_attrs a \<and>
      map_of a = map_of (rev (map (apfst NormalizeAttrKey) (t_Attributes (w_Spec t)))) ++ columns (topicColumns (w_Spec t))) \<and>
   (let a = chs_Attributes (toMQChannelSpec c) in normal_attrs a \<and>
      map_of a = map_of (rev (map (apfst NormalizeAttrKey) (ch_Attributes (w_Spec c)))) ++ columns (channelColumns (w_Spec c))) \<and>
   chs_Type (toMQChannelSpec c) =
     NormalizeChannelType (if ch_Type (w_Spec c) = [] then ChannelTypeSvrconn else ch_Type (w_Spec c)) \<and>
   NormalizeChannelType (chs_Type (toMQChannelSpec c)) = chs_Type (toMQChannelSpec c)"
  unfolding Let_def toMQ_as_columns
  by (intro conjI put_typed [THEN conjunct1] put_typed [THEN conjunct2])
    (simp_all add: columns_keys keys_distinct keys_normalised toMQChannelSpec_def Let_def NormalizeChannelType_def)

end
