(* ===== verification/Observability.thy ===== *)
theory Observability
  imports Metrics MQ_Client Workload_Properties QMC_Reconciler
begin

text \<open>
  Who counts what: the calls of \<open>internal/metrics\<close> in the client (\<open>adapter/mqrest/client.go\<close>,
  \<open>auth.go\<close>), in the reconcilers (\<open>internal/controller/*_controller.go\<close>, method \<open>Reconcile\<close>) and in
  the circuit breaker. Each metered operation is the operation of the earlier theories with the
  collectors as a second component of its state.

  A client method records with \<open>defer func() { metrics.RecordMQOperation(op, err) }()\<close>: what is
  recorded is the local variable \<open>err\<close> when the method returns, not the value that it returns. The
  two differ where a method returns a new error without assigning it: in \<open>Ping\<close> for a response
  with an error status, and in \<open>GetAuthority\<close> for a record without grants.
\<close>

section \<open>Client operations\<close>

type_synonym 'w metered = "'w cstate \<times> collectors"

definition errOf :: "'a result \<Rightarrow> mq_error option" where
  "errOf r = (case r of Inl e \<Rightarrow> Some e | Inr _ \<Rightarrow> None)"

text \<open>A method whose variable \<open>err\<close> is the error it returns.\<close>

definition metered ::
  "string \<Rightarrow> ('w cstate \<Rightarrow> mq_error option \<times> 'w cstate) \<Rightarrow> 'w metered \<Rightarrow> mq_error option \<times> 'w metered" where
  "metered op f sm = (case sm of (s, m) \<Rightarrow> (case f s of (err, s) \<Rightarrow> (err, s, RecordMQOperation op err m)))"

definition metered_Ping ::
  "'w http_env \<Rightarrow> Client \<Rightarrow> 'w metered \<Rightarrow> mq_error option \<times> 'w metered" where
  "metered_Ping env c sm =
     (case sm of (s, m) \<Rightarrow>
       (case roundTripWithReauth env c (buildRequest env c ''GET'' (c_adminQMURL c) [] NoBody ''ping'') s of
          (res, _) \<Rightarrow> (case Ping env c s of (r, s) \<Rightarrow> (r, s, RecordMQOperation MQOpPing (errOf res) m))))"

definition metered_RunMQSC ::
  "'w http_env \<Rightarrow> Client \<Rightarrow> string \<Rightarrow> 'w metered \<Rightarrow> mq_error option \<times> 'w metered" where
  "metered_RunMQSC env c command = metered MQOpRunMQSC (RunMQSC env c command)"

definition metered_runMQSCAllowNotFound ::
  "'w http_env \<Rightarrow> Client \<Rightarrow> string \<Rightarrow> 'w metered \<Rightarrow> mq_error option \<times> 'w metered" where
  "metered_runMQSCAllowNotFound env c command sm =
     (case metered_RunMQSC env c command sm of
        (None, sm) \<Rightarrow> (None, sm)
      | (Some err, sm) \<Rightarrow> (if errors_Is err ErrNotFound \<or> isMQSCNotFound err then None else Some err, sm))"

text \<open>The four methods that build an MQSC command and run it through \<open>RunMQSC\<close>.\<close>

definition metered_command ::
  "string \<Rightarrow> string result \<Rightarrow> (string \<Rightarrow> 'w metered \<Rightarrow> mq_error option \<times> 'w metered) \<Rightarrow> 'w metered \<Rightarrow>
     mq_error option \<times> 'w metered" where
  "metered_command op built send sm =
     (case built of
        Inl e \<Rightarrow> (case sm of (s, m) \<Rightarrow> (Some e, s, RecordMQOperation op (Some e) m))
      | Inr cmd \<Rightarrow> (case send cmd sm of (err, s, m) \<Rightarrow> (err, s, RecordMQOperation op err m)))"

definition metered_SetChannelAuth ::
  "'w http_env \<Rightarrow> Client \<Rightarrow> ChannelAuthSpec \<Rightarrow> 'w metered \<Rightarrow> mq_error option \<times> 'w metered" where
  "metered_SetChannelAuth env c spec =
     metered_command MQOpSetChannelAuth (buildSetChannelAuthMQSC spec mqscActionReplace) (metered_RunMQSC env c)"

definition metered_DeleteChannelAuth ::
  "'w http_env \<Rightarrow> Client \<Rightarrow> ChannelAuthSpec \<Rightarrow> 'w metered \<Rightarrow> mq_error option \<times> 'w metered" where
  "metered_DeleteChannelAuth env c spec =
     metered_command MQOpDeleteChannelAuth (buildSetChannelAuthMQSC spec mqscActionRemove)
       (metered_runMQSCAllowNotFound env c)"

definition metered_SetAuthority ::
  "'w http_env \<Rightarrow> Client \<Rightarrow> AuthoritySpec \<Rightarrow> 'w metered \<Rightarrow> mq_error option \<times> 'w metered" where
  "metered_SetAuthority env c spec =
     metered_command MQOpSetAuthority (buildSetAuthorityMQSC spec False) (metered_RunMQSC env c)"

definition metered_DeleteAuthority ::
  "'w http_env \<Rightarrow> Client \<Rightarrow> AuthoritySpec \<Rightarrow> 'w metered \<Rightarrow> mq_error option \<times> 'w metered" where
  "metered_DeleteAuthority env c spec =
     metered_command MQOpDeleteAuthority (buildSetAuthorityMQSC spec True) (metered_runMQSCAllowNotFound env c)"

definition metered_GetAuthority ::
  "'w http_env \<Rightarrow> Client \<Rightarrow> AuthoritySpec \<Rightarrow> 'w metered \<Rightarrow> AuthorityState result \<times> 'w metered" where
  "metered_GetAuthority env c spec sm =
     (case sm of (s, m) \<Rightarrow>
       (case buildDisplayAuthorityMQSC spec of
          Inl e \<Rightarrow> (Inl e, s, RecordMQOperation MQOpGetAuthority (Some e) m)
        | Inr cmd \<Rightarrow>
            (case runDisplayMQSC env c cmd (au_Profile spec) s of
               (Inl e, s) \<Rightarrow> (Inl e, s, RecordMQOperation MQOpGetAuthority (Some e) m)
             | (Inr resp, s) \<Rightarrow>
                 (let state = authorityStateFromAttributes spec resp in
                  if authorityRecordRemoved (au_Authorities state)
                  then (Inl (NotFoundError (au_Profile spec)), s, RecordMQOperation MQOpGetAuthority None m)
                  else (Inr state, s, RecordMQOperation MQOpGetAuthority None m)))))"

text \<open>A call of the client, and the error it returns. The results of the four reads are dropped here
  (\<open>apfst errOf\<close>); the operations themselves are those of \<open>MQ_Client\<close>.\<close>

datatype mq_call =
    CallPing
  | CallRunMQSC string
  | CallGetQueue QueueSpec
  | CallDefineQueue QueueSpec
  | CallDeleteQueue QueueSpec
  | CallGetTopic string
  | CallDefineTopic TopicSpec
  | CallDeleteTopic string
  | CallGetChannel ChannelSpec
  | CallDefineChannel ChannelSpec
  | CallDeleteChannel ChannelSpec
  | CallSetChannelAuth ChannelAuthSpec
  | CallGetChannelAuth ChannelAuthSpec
  | CallDeleteChannelAuth ChannelAuthSpec
  | CallSetAuthority AuthoritySpec
  | CallGetAuthority AuthoritySpec
  | CallDeleteAuthority AuthoritySpec

fun run_call :: "'w http_env \<Rightarrow> Client \<Rightarrow> mq_call \<Rightarrow> 'w cstate \<Rightarrow> mq_error option \<times> 'w cstate" where
  "run_call env c CallPing s = Ping env c s"
| "run_call env c (CallRunMQSC cmd) s = RunMQSC env c cmd s"
| "run_call env c (CallGetQueue q) s = apfst errOf (GetQueue env c q s)"
| "run_call env c (CallDefineQueue q) s = DefineQueue env c q s"
| "run_call env c (CallDeleteQueue q) s = DeleteQueue env c q s"
| "run_call env c (CallGetTopic n) s = apfst errOf (GetTopic env c n s)"
| "run_call env c (CallDefineTopic t) s = DefineTopic env c t s"
| "run_call env c (CallDeleteTopic n) s = DeleteTopic env c n s"
| "run_call env c (CallGetChannel ch) s = apfst errOf (GetChannel env c ch s)"
| "run_call env c (CallDefineChannel ch) s = DefineChannel env c ch s"
| "run_call env c (CallDeleteChannel ch) s = DeleteChannel env c ch s"
| "run_call env c (CallSetChannelAuth r) s = SetChannelAuth env c r s"
| "run_call env c (CallGetChannelAuth r) s = apfst errOf (GetChannelAuth env c r s)"
| "run_call env c (CallDeleteChannelAuth r) s = DeleteChannelAuth env c r s"
| "run_call env c (CallSetAuthority a) s = SetAuthority env c a s"
| "run_call env c (CallGetAuthority a) s = apfst errOf (GetAuthority env c a s)"
| "run_call env c (CallDeleteAuthority a) s = DeleteAuthority env c a s"

fun call_op :: "mq_call \<Rightarrow> string" where
  "call_op CallPing = MQOpPing"
| "call_op (CallRunMQSC cmd) = MQOpRunMQSC"
| "call_op (CallGetQueue q) = MQOpGetQueue"
| "call_op (CallDefineQueue q) = MQOpDefineQueue"
| "call_op (CallDeleteQueue q) = MQOpDeleteQueue"
| "call_op (CallGetTopic n) = MQOpGetTopic"
| "call_op (CallDefineTopic t) = MQOpDefineTopic"
| "call_op (CallDeleteTopic n) = MQOpDeleteTopic"
| "call_op (CallGetChannel ch) = MQOpGetChannel"
| "call_op (CallDefineChannel ch) = MQOpDefineChannel"
| "call_op (CallDeleteChannel ch) = MQOpDeleteChannel"
| "call_op (CallSetChannelAuth r) = MQOpSetChannelAuth"
| "call_op (CallGetChannelAuth r) = MQOpGetChannelAuth"
| "call_op (CallDeleteChannelAuth r) = MQOpDeleteChannelAuth"
| "call_op (CallSetAuthority a) = MQOpSetAuthority"
| "call_op (CallGetAuthority a) = MQOpGetAuthority"
| "call_op (CallDeleteAuthority a) = MQOpDeleteAuthority"

fun metered_call :: "'w http_env \<Rightarrow> Client \<Rightarrow> mq_call \<Rightarrow> 'w metered \<Rightarrow> mq_error option \<times> 'w metered" where
  "metered_call env c CallPing sm = metered_Ping env c sm"
| "metered_call env c (CallRunMQSC cmd) sm = metered_RunMQSC env c cmd sm"
| "metered_call env c (CallSetChannelAuth r) sm = metered_SetChannelAuth env c r sm"
| "metered_call env c (CallDeleteChannelAuth r) sm = metered_DeleteChannelAuth env c r sm"
| "metered_call env c (CallSetAuthority a) sm = metered_SetAuthority env c a sm"
| "metered_call env c (CallGetAuthority a) sm = apfst errOf (metered_GetAuthority env c a sm)"
| "metered_call env c (CallDeleteAuthority a) sm = metered_DeleteAuthority env c a sm"
| "metered_call env c call sm = metered (call_op call) (run_call env c call) sm"

lemmas metered_defs =
  metered_def metered_Ping_def metered_RunMQSC_def metered_runMQSCAllowNotFound_def metered_command_def
  metered_SetChannelAuth_def metered_DeleteChannelAuth_def metered_SetAuthority_def metered_DeleteAuthority_def
  metered_GetAuthority_def

lemmas auth_call_defs =
  SetChannelAuth_def DeleteChannelAuth_def SetAuthority_def DeleteAuthority_def GetAuthority_def
  runMQSCAllowNotFound_def

text \<open>Metering does not change what a call does.\<close>

lemma metered_transparent:
  "metered_call env c call (s, m) = (err, s', m') \<Longrightarrow> run_call env c call s = (err, s')"
  by (cases call)
    (auto simp: metered_defs auth_call_defs errOf_def Let_def split: prod.splits sum.splits option.splits if_splits)

text \<open>The command of an authorization write, if it can be built, is also counted as \<open>run_mqsc\<close>.\<close>

fun sends_command :: "mq_call \<Rightarrow> bool" where
  "sends_command (CallSetChannelAuth r) = (errOf (buildSetChannelAuthMQSC r mqscActionReplace) = None)"
| "sends_command (CallDeleteChannelAuth r) = (errOf (buildSetChannelAuthMQSC r mqscActionRemove) = None)"
| "sends_command (CallSetAuthority a) = (errOf (buildSetAuthorityMQSC a False) = None)"
| "sends_command (CallDeleteAuthority a) = (errOf (buildSetAuthorityMQSC a True) = None)"
| "sends_command call = False"

definition totalCalls :: "collectors \<Rightarrow> string \<Rightarrow> nat" where
  "totalCalls m op = MQOperationsTotal m (op, ResultSuccess) + MQOperationsTotal m (op, ResultError)"

lemma totalCalls_Record [simp]:
  "totalCalls (RecordMQOperation op err m) op' = totalCalls m op' + (if op' = op then 1 else 0)"
  by (simp add: totalCalls_def record_defs)

lemma metered_counts:
  "metered_call env c call (s, m) = (err, s', m') \<Longrightarrow>
     totalCalls m' op = totalCalls m op + (if op = call_op call then 1 else 0) +
       (if op = MQOpRunMQSC \<and> sends_command call then 1 else 0)"
  by (cases call)
    (auto simp: metered_defs errOf_def Let_def split: prod.splits sum.splits option.splits if_splits)

lemma metered_label:
  assumes "metered_call env c call (s, m) = (err, s', m')" "call \<noteq> CallPing" "\<And>a. call \<noteq> CallGetAuthority a"
  shows "MQOperationsTotal m' (call_op call, resultLabel err) = MQOperationsTotal m (call_op call, resultLabel err) + 1"
  using assms
  by (cases call)
    (auto simp: metered_defs errOf_def record_defs MQOpSetChannelAuth_def MQOpDeleteChannelAuth_def MQOpSetAuthority_def
      MQOpDeleteAuthority_def MQOpRunMQSC_def split: prod.splits sum.splits option.splits if_splits)

lemma metered_Ping_answered:
  assumes "metered_call env c CallPing (s, m) = (err, s', m')"
    and "roundTripWithReauth env c (buildRequest env c ''GET'' (c_adminQMURL c) [] NoBody ''ping'') s = (Inr res, s1)"
  shows "MQOperationsTotal m' (MQOpPing, ResultSuccess) = MQOperationsTotal m (MQOpPing, ResultSuccess) + 1"
    and "err \<noteq> None \<longleftrightarrow> 400 \<le> rs_StatusCode res"
  using assms
  by (auto simp: metered_Ping_def errOf_def record_defs Ping_def Let_def
      split: prod.splits if_splits)

lemma metered_GetAuthority_removed:
  assumes "metered_call env c (CallGetAuthority a) (s, m) = (err, s', m')" "buildDisplayAuthorityMQSC a = Inr cmd"
    and "runDisplayMQSC env c cmd (au_Profile a) s = (Inr resp, s1)"
  shows "MQOperationsTotal m' (MQOpGetAuthority, ResultSuccess) = MQOperationsTotal m (MQOpGetAuthority, ResultSuccess) + 1"
    and "err \<noteq> None \<longleftrightarrow> authorityRecordRemoved (au_Authorities (authorityStateFromAttributes a resp))"
  using assms
  by (auto simp: metered_GetAuthority_def errOf_def record_defs Let_def split: prod.splits if_splits)

text \<open>C18: The operation counters count every call once, but not always under the right result. Metering
  does not change what a call does. A call adds one to the counters of its operation, and an
  authorization write whose command can be built adds one to those of \<open>run_mqsc\<close> as well, so the sum
  over all operations counts it twice. The result label is that of the returned error except in two
  cases: a ping that was answered is a success also when the answer has an error status (wrong
  credentials, say) and the ping returns an error; and reading an authority record is a success also
  when it has no grants left and the read returns not-found.\<close>

theorem mq_operation_metrics:
  assumes "metered_call env c call (s, m) = (err, s', m')"
  shows "run_call env c call s = (err, s') \<and>
    (\<forall>op. totalCalls m' op = totalCalls m op + (if op = call_op call then 1 else 0) +
       (if op = MQOpRunMQSC \<and> sends_command call then 1 else 0)) \<and>
    (call \<noteq> CallPing \<and> (\<forall>a. call \<noteq> CallGetAuthority a) \<longrightarrow>
       MQOperationsTotal m' (call_op call, resultLabel err) = MQOperationsTotal m (call_op call, resultLabel err) + 1) \<and>
    (\<forall>res s1. call = CallPing \<and>
       roundTripWithReauth env c (buildRequest env c ''GET'' (c_adminQMURL c) [] NoBody ''ping'') s = (Inr res, s1) \<longrightarrow>
       MQOperationsTotal m' (MQOpPing, ResultSuccess) = MQOperationsTotal m (MQOpPing, ResultSuccess) + 1 \<and>
       (err \<noteq> None \<longleftrightarrow> 400 \<le> rs_StatusCode res)) \<and>
    (\<forall>a cmd resp s1. call = CallGetAuthority a \<and> buildDisplayAuthorityMQSC a = Inr cmd \<and>
       runDisplayMQSC env c cmd (au_Profile a) s = (Inr resp, s1) \<longrightarrow>
       MQOperationsTotal m' (MQOpGetAuthority, ResultSuccess) =
         MQOperationsTotal m (MQOpGetAuthority, ResultSuccess) + 1 \<and>
       (err \<noteq> None \<longleftrightarrow> authorityRecordRemoved (au_Authorities (authorityStateFromAttributes a resp))))"
  using metered_transparent [OF assms] metered_counts [OF assms] metered_label [OF assms] assms
    metered_Ping_answered [of env c s m err s' m'] metered_GetAuthority_removed [of env c _ s m err s' m']
  by (intro conjI allI impI) blast+

definition resp401 :: http_response where
  "resp401 = \<lparr>rs_StatusCode = StatusUnauthorized, rs_Body = Inr [], rs_Cookies = []\<rparr>"

text \<open>A ping with refused credentials returns an error and is counted as a success.\<close>

theorem mq_operation_metrics_witness:
  "case metered_call (const_env resp401) basic_client CallPing (fresh_state 0, init_collectors) of
     (err, s, m) \<Rightarrow> err \<noteq> None \<and> MQOperationsTotal m (MQOpPing, ResultSuccess) = 1 \<and>
       MQOperationsTotal m (MQOpPing, ResultError) = 0"
proof -
  let ?ping = "buildRequest (const_env resp401) basic_client ''GET'' (c_adminQMURL basic_client) [] NoBody ''ping''"
  obtain err s m where r: "metered_call (const_env resp401) basic_client CallPing (fresh_state 0, init_collectors) = (err, s, m)"
    by (rule prod_cases3)
  have "fst (roundTripWithReauth (const_env resp401) basic_client ?ping (fresh_state 0)) = Inr resp401" by code_simp
  then obtain s1 where "roundTripWithReauth (const_env resp401) basic_client ?ping (fresh_state 0) = (Inr resp401, s1)"
    by (metis eq_fst_iff)
  moreover have "totalCalls init_collectors MQOpPing = 0" "MQOperationsTotal init_collectors (MQOpPing, ResultSuccess) = 0"
    by code_simp+
  moreover have "totalCalls m MQOpPing = totalCalls init_collectors MQOpPing + 1"
    using mq_operation_metrics [OF r] by simp
  moreover have "400 \<le> rs_StatusCode resp401" by (simp add: resp401_def)
  ultimately have "err \<noteq> None" "MQOperationsTotal m (MQOpPing, ResultSuccess) = 1" "totalCalls m MQOpPing = 1"
    using mq_operation_metrics [OF r, THEN conjunct2, THEN conjunct2, THEN conjunct2, THEN conjunct1] by simp_all
  then show ?thesis unfolding r by (simp add: totalCalls_def)
qed

section \<open>Reconcile runs\<close>

text \<open>The method \<open>Reconcile\<close> of the five workload controllers: the run, whose \<open>RecordDriftDetected\<close> is in
  its log, and then \<open>RecordReconcile\<close>. A panic leaves \<open>Reconcile\<close> before that call; the manager turns
  it into \<open>recoveredPanic\<close>.\<close>

definition countEffect :: "effect \<Rightarrow> collectors \<Rightarrow> collectors" where
  "countEffect e m = (case e of DriftDetected c \<Rightarrow> RecordDriftDetected c m | _ \<Rightarrow> m)"

definition Reconcile ::
  "('spec, 'w) kube \<Rightarrow> ('spec, 'w) workload_kind \<Rightarrow> string \<Rightarrow> string \<Rightarrow> 'w rs \<times> collectors \<Rightarrow>
     outcome \<times> 'w rs \<times> collectors" where
  "Reconcile k wk ns n sm =
     (case sm of (s, m) \<Rightarrow>
       (case reconcileWorkload k wk ns n s of
          (out, s') \<Rightarrow>
            (let m = foldr countEffect (effects s s') m
             in (out, s', if snd out = Some recoveredPanic then m
                          else RecordReconcile (wk_controller wk) (snd out) m))))"

definition QueueReconciler_Reconcile ::
  "(QueueSpecCR, 'w) kube \<Rightarrow> string \<Rightarrow> string \<Rightarrow> 'w rs \<times> collectors \<Rightarrow> outcome \<times> 'w rs \<times> collectors" where
  "QueueReconciler_Reconcile k = Reconcile k queue_kind"

definition TopicReconciler_Reconcile ::
  "(TopicSpecCR, 'w) kube \<Rightarrow> string \<Rightarrow> string \<Rightarrow> 'w rs \<times> collectors \<Rightarrow> outcome \<times> 'w rs \<times> collectors" where
  "TopicReconciler_Reconcile k = Reconcile k topic_kind"

definition ChannelReconciler_Reconcile ::
  "(ChannelSpecCR, 'w) kube \<Rightarrow> string \<Rightarrow> string \<Rightarrow> 'w rs \<times> collectors \<Rightarrow> outcome \<times> 'w rs \<times> collectors" where
  "ChannelReconciler_Reconcile k = Reconcile k channel_kind"

definition ChannelAuthRuleReconciler_Reconcile ::
  "(ChannelAuthRuleSpecCR, 'w) kube \<Rightarrow> string \<Rightarrow> string \<Rightarrow> 'w rs \<times> collectors \<Rightarrow> outcome \<times> 'w rs \<times> collectors" where
  "ChannelAuthRuleReconciler_Reconcile k = Reconcile k channelauthrule_kind"

definition AuthorityRecordReconciler_Reconcile ::
  "(AuthorityRecordSpecCR, 'w) kube \<Rightarrow> string \<Rightarrow> string \<Rightarrow> 'w rs \<times> collectors \<Rightarrow> outcome \<times> 'w rs \<times> collectors" where
  "AuthorityRecordReconciler_Reconcile k = Reconcile k authorityrecord_kind"

definition QueueManagerConnectionReconciler_Reconcile ::
  "'w qmc_kube \<Rightarrow> string \<Rightarrow> string \<Rightarrow> 'w qs \<times> collectors \<Rightarrow> outcome \<times> 'w qs \<times> collectors" where
  "QueueManagerConnectionReconciler_Reconcile k ns n sm =
     (case sm of (s, m) \<Rightarrow>
       (case QueueManagerConnectionReconciler_reconcile k ns n s of
          (out, s') \<Rightarrow> (out, s', RecordReconcile ControllerQueueManagerConnection (snd out) m)))"

lemma countEffect_sel [simp]:
  "ReconcileTotal (countEffect e m) = ReconcileTotal m" "ReconcileErrors (countEffect e m) = ReconcileErrors m"
  "DriftDetectedTotal (countEffect e m) c = DriftDetectedTotal m c + (if e = DriftDetected c then 1 else 0)"
  by (auto simp: countEffect_def record_defs split: effect.split)

lemma countEffects_sel [simp]:
  "ReconcileTotal (foldr countEffect es m) = ReconcileTotal m" "ReconcileErrors (foldr countEffect es m) = ReconcileErrors m"
  "DriftDetectedTotal (foldr countEffect es m) c = DriftDetectedTotal m c + count_list es (DriftDetected c)"
  by (induction es) auto

lemma RecordReconcile_sel [simp]:
  "ReconcileTotal (RecordReconcile ctl err m) = Inc (ctl, resultLabel err) (ReconcileTotal m)"
  "ReconcileErrors (RecordReconcile ctl err m) = (if err = None then ReconcileErrors m else Inc ctl (ReconcileErrors m))"
  "DriftDetectedTotal (RecordReconcile ctl err m) = DriftDetectedTotal m"
  by (auto simp: record_defs Let_def)

text \<open>When is drift counted?\<close>

lemma adds_no_drift:
  assumes "adds P s s'" "\<not> P (DriftDetected c)"
  shows "count_list (effects s s') (DriftDetected c) = 0"
  using adds_not [OF assms] by (simp add: count_list_0_iff)

lemma effects_split:
  assumes "adds P s s1" "adds Q s1 s'"
  shows "effects s s' = effects s1 s' @ effects s s1"
proof -
  obtain a b where "rs_log s1 = a @ rs_log s" "rs_log s' = b @ rs_log s1" using assms by (auto simp: adds_def)
  then show ?thesis by (simp add: effects_def)
qed

lemma reportEnsured_drift:
  assumes "reportEnsured k wk obj res s = (out, s')"
  shows "count_list (effects s s') (DriftDetected c) =
    (if c = wk_controller wk \<and> (\<exists>ex d. res = (ex, d, None) \<and> d \<noteq> []) then 1 else 0)"
proof (cases "\<exists>ex d. res = (ex, d, None) \<and> d \<noteq> []")
  case True
  let ?s = "log_effect (DriftDetected (wk_controller wk)) s"
  from True obtain ex d where res: "res = (ex, d, None)" "d \<noteq> []" by blast
  obtain e obj' s1 where p: "patchSyncedDrift k obj (om_Generation (w_meta obj)) d (Some ex) ?s = (e, obj', s1)"
    by (metis surj_pair)
  have "adds quiet s1 s'"
    using assms p res by (auto simp: reportEnsured_def Let_def split: option.splits intro: workloadDriftResyncResult_adds)
  with patch_adds(5) [OF benign_quiet p] have q: "adds quiet ?s s'" by (rule adds_trans)
  have "adds (\<lambda>_. True) s ?s" by (simp add: adds_log)
  from effects_split [OF this q] adds_no_drift [OF q, of c] True show ?thesis
    by (auto simp: effects_def log_effect_def)
next
  case False
  have "adds quiet s s'"
  proof (cases "\<exists>ex. res = (ex, [], None)")
    case True
    then obtain ex where res: "res = (ex, [], None)" by blast
    obtain e obj' s1 where p: "patchSyncedAvailable k obj (om_Generation (w_meta obj)) (wk_matchesMessage wk) (Some True) s = (e, obj', s1)"
      by (metis surj_pair)
    have "adds quiet s1 s'"
      using assms p res by (auto simp: reportEnsured_def Let_def split: option.splits intro: workloadDriftResyncResult_adds)
    with patchSyncedAvailable_adds [OF p] show ?thesis by (rule adds_trans)
  next
    case no: False
    with False reportEnsured_calm [OF assms benign_quiet] show ?thesis by blast
  qed
  from adds_no_drift [OF this, of c] False show ?thesis by auto
qed

text \<open>\<open>ensured_with k wk obj adm s r s'\<close>: \<open>reconcileWithAdmin\<close> gets to the ensure step, whose result is \<open>r\<close>.\<close>

definition ensured_with ::
  "('spec, 'w) kube \<Rightarrow> ('spec, 'w) workload_kind \<Rightarrow> 'spec workload \<Rightarrow> 'w Admin \<Rightarrow> 'w rs \<Rightarrow>
     ensure_result option \<Rightarrow> 'w rs \<Rightarrow> bool" where
  "ensured_with k wk obj adm s r s' \<longleftrightarrow>
     ContainsFinalizer (k_lib k) (wk_Finalizer wk) (om_Finalizers (w_meta obj)) \<and> wk_precheck wk obj = None \<and>
     (\<exists>mqsc. wk_format wk obj = Inr mqsc \<and>
        wk_ensure wk adm (obj\<lparr>w_Status := (w_Status obj)\<lparr>st_DesiredMQSC := mqsc\<rparr>\<rparr>) s = (r, s'))"

definition ensures_ok ::
  "('spec, 'w) kube \<Rightarrow> ('spec, 'w) workload_kind \<Rightarrow> 'spec workload \<Rightarrow> 'w Admin \<Rightarrow> 'w rs \<Rightarrow> bool" where
  "ensures_ok k wk obj adm s \<longleftrightarrow> (\<exists>ex d s'. ensured_with k wk obj adm s (Some (ex, d, None)) s')"

lemma ensured_reports:
  assumes "ensured_with k wk obj adm s (Some res) s2" "reconcileWithAdmin k wk obj adm s = (out, s')"
  shows "\<exists>st. reportEnsured k wk (obj\<lparr>w_Status := st\<rparr>) res s2 = (out, s')"
  using assms by (auto simp: ensured_with_def reconcileWithAdmin_def Let_def)

lemma not_ensured_quiet:
  assumes "reconcileWithAdmin k wk obj adm s = (out, s')"
    and "\<not> (\<exists>r s2. ensured_with k wk obj adm s (Some r) s2)" "\<not> (\<exists>s2. ensured_with k wk obj adm s None s2)"
  shows "adds (\<lambda>e. quiet e \<or> (\<exists>fs b. e = ObjectWrite fs b)) s s'"
proof (cases "ContainsFinalizer (k_lib k) (wk_Finalizer wk) (om_Finalizers (w_meta obj))")
  case False
  let ?fs = "AddFinalizer (k_lib k) (wk_Finalizer wk) (om_Finalizers (w_meta obj))"
  obtain e obj' s1 where u: "objectUpdate k (setFinalizers ?fs obj) s = (e, obj', s1)" by (metis surj_pair)
  with assms False have "s' = s1" by (auto simp: reconcileWithAdmin_def Let_def split: option.splits)
  with objectUpdate_log [OF u] show ?thesis by (auto intro: adds_one)
next
  case True
  have "wk_precheck wk obj \<noteq> None \<or> is_err (wk_format wk obj)"
  proof (rule ccontr)
    assume "\<not> ?thesis"
    then obtain d where "wk_precheck wk obj = None" "wk_format wk obj = Inr d" by (cases "wk_format wk obj") auto
    with True assms(2,3) show False unfolding ensured_with_def by (metis not_None_eq surj_pair)
  qed
  with assms(1) True have "adds quiet s s'"
    by (auto simp: reconcileWithAdmin_def Let_def is_err_iff split: option.splits sum.splits
        dest: setSyncedError_adds [OF _ benign_quiet])
  then show ?thesis by (rule adds_mono) blast
qed

text \<open>A run counts drift exactly when it is a run on a live observe-only object whose read, in the same
  run, succeeded and did not show the object in sync; and then once, for its own controller.\<close>

definition drift_counted ::
  "('spec, 'w) workload_kind \<Rightarrow> ('w Admin \<Rightarrow> 'spec workload \<Rightarrow> 'w \<Rightarrow> bool) \<Rightarrow> ('spec, 'w) kube \<Rightarrow>
     'spec workload \<Rightarrow> 'w rs \<Rightarrow> outcome \<Rightarrow> 'w rs \<Rightarrow> bool" where
  "drift_counted wk in_sync k obj s out s' \<longleftrightarrow>
     isObserveOnly obj \<and> \<not> om_Deleting (w_meta obj) \<and>
     (\<exists>adm s1. adds quiet s s1 \<and> reconcileWithAdmin k wk obj adm s1 = (out, s') \<and>
        ensures_ok k wk obj adm s1 \<and> \<not> in_sync adm obj (rs_world s1))"

definition counts_runs ::
  "('spec, 'w) workload_kind \<Rightarrow> ('w Admin \<Rightarrow> 'spec workload \<Rightarrow> 'w \<Rightarrow> bool) \<Rightarrow> bool" where
  "counts_runs wk in_sync \<longleftrightarrow>
     (\<forall>k ns n s m out s' m'. Reconcile k wk ns n (s, m) = (out, s', m') \<longrightarrow>
        reconcileWorkload k wk ns n s = (out, s') \<and>
        (snd out \<noteq> Some recoveredPanic \<longrightarrow>
           ReconcileTotal m' = Inc (wk_controller wk, resultLabel (snd out)) (ReconcileTotal m) \<and>
           ReconcileErrors m' = (if snd out = None then ReconcileErrors m else Inc (wk_controller wk) (ReconcileErrors m))) \<and>
        (\<forall>obj w. k_get k ns n (rs_world s) = (Inr obj, w) \<longrightarrow>
           DriftDetectedTotal m' =
             (if drift_counted wk in_sync k obj s out s' then Inc (wk_controller wk) (DriftDetectedTotal m)
              else DriftDetectedTotal m)))"

text \<open>A kind whose ensure step reports drift only for an observe-only object that is not in sync.\<close>

locale drift_contract = workload_contract +
  assumes ensure_drift:
    "wk_ensure wk admin obj s = (Some (ex, d, None), s') \<Longrightarrow> d \<noteq> [] \<Longrightarrow>
       isObserveOnly obj \<and> \<not> in_sync admin obj (rs_world s)"
begin

lemma drifted_iff:
  assumes "ensured_with k wk obj adm s (Some (ex, d, None)) s'"
  shows "d \<noteq> [] \<longleftrightarrow> isObserveOnly obj \<and> \<not> in_sync adm obj (rs_world s)"
proof -
  obtain st where e: "wk_ensure wk adm (obj\<lparr>w_Status := st\<rparr>) s = (Some (ex, d, None), s')"
    using assms by (auto simp: ensured_with_def)
  show ?thesis
  proof
    assume "d \<noteq> []"
    from ensure_drift [OF e this] show "isObserveOnly obj \<and> \<not> in_sync adm obj (rs_world s)"
      by (simp add: in_sync_status)
  next
    assume o: "isObserveOnly obj \<and> \<not> in_sync adm obj (rs_world s)"
    then have "rs_log s' = rs_log s" using ensure_observe_only [OF e] by simp
    then show "d \<noteq> []" using ensure_synced [of adm "obj\<lparr>w_Status := st\<rparr>" s ex s'] e o by (auto simp: in_sync_status)
  qed
qed

lemma ensure_no_drift:
  assumes "ensured_with k wk obj adm s r s'"
  shows "count_list (effects s s') (DriftDetected c) = 0"
proof -
  obtain st where e: "wk_ensure wk adm (obj\<lparr>w_Status := st\<rparr>) s = (r, s')" using assms by (auto simp: ensured_with_def)
  from ensure_at_most_one_apply [OF e] show ?thesis by (auto simp: effects_def)
qed

lemma ensure_adds: "ensured_with k wk obj adm s r s' \<Longrightarrow> adds (\<lambda>_. True) s s'"
  unfolding ensured_with_def using ensure_at_most_one_apply by (blast intro: adds_same adds_one)

lemma withAdmin_drift:
  assumes "reconcileWithAdmin k wk obj adm s = (out, s')"
  shows "adds (\<lambda>_. True) s s'"
    and "count_list (effects s s') (DriftDetected c) =
      (if c = wk_controller wk \<and> isObserveOnly obj \<and> \<not> in_sync adm obj (rs_world s) \<and>
          ensures_ok k wk obj adm s then 1 else 0)"
proof -
  consider (panic) s2 where "ensured_with k wk obj adm s None s2"
    | (report) res s2 where "ensured_with k wk obj adm s (Some res) s2"
    | (none) "\<not> (\<exists>r s2. ensured_with k wk obj adm s (Some r) s2)" "\<not> (\<exists>s2. ensured_with k wk obj adm s None s2)"
    by blast
  then have "adds (\<lambda>_. True) s s' \<and> count_list (effects s s') (DriftDetected c) =
      (if c = wk_controller wk \<and> isObserveOnly obj \<and> \<not> in_sync adm obj (rs_world s) \<and>
          ensures_ok k wk obj adm s then 1 else 0)"
  proof cases
    case panic
    then have "s' = s2" using assms by (auto simp: ensured_with_def reconcileWithAdmin_def Let_def)
    moreover have "\<not> ensures_ok k wk obj adm s" using panic by (auto simp: ensured_with_def ensures_ok_def)
    ultimately show ?thesis using ensure_no_drift [OF panic, of c] ensure_adds [OF panic] by simp
  next
    case (report res s2)
    then obtain st where r: "reportEnsured k wk (obj\<lparr>w_Status := st\<rparr>) res s2 = (out, s')"
      using ensured_reports [OF _ assms] by blast
    have only: "ensured_with k wk obj adm s (Some r') s3 \<longleftrightarrow> r' = res \<and> s3 = s2" for r' s3
      using report by (auto simp: ensured_with_def)
    have "(\<exists>ex d. res = (ex, d, None) \<and> d \<noteq> []) \<longleftrightarrow> isObserveOnly obj \<and> \<not> in_sync adm obj (rs_world s) \<and>
          ensures_ok k wk obj adm s"
    proof -
      obtain ex d e where res: "res = (ex, d, e)" by (rule prod_cases3)
      show ?thesis
      proof (cases e)
        case None
        with drifted_iff [of k obj adm s ex d s2] report show ?thesis unfolding ensures_ok_def only res by simp
      qed (simp add: ensures_ok_def only res)
    qed
    moreover have "adds (\<lambda>_. True) s2 s'" using reportEnsured_adds [OF r] by (rule adds_mono) simp
    ultimately show ?thesis
      using reportEnsured_drift [OF r, of c] ensure_no_drift [OF report, of c] ensure_adds [OF report]
        effects_split [of "\<lambda>_. True" s s2 "\<lambda>_. True" s'] adds_trans [of "\<lambda>_. True" s s2 s'] by auto
  next
    case none
    from not_ensured_quiet [OF assms this] have q: "adds (\<lambda>e. quiet e \<or> (\<exists>fs b. e = ObjectWrite fs b)) s s'" .
    then have "adds (\<lambda>_. True) s s'" by (rule adds_mono) simp
    with adds_no_drift [OF q, of c] none(1) show ?thesis by (auto simp: ensures_ok_def)
  qed
  then show "adds (\<lambda>_. True) s s'" and "count_list (effects s s') (DriftDetected c) =
      (if c = wk_controller wk \<and> isObserveOnly obj \<and> \<not> in_sync adm obj (rs_world s) \<and>
          ensures_ok k wk obj adm s then 1 else 0)" by simp_all
qed

lemma deletion_no_drift:
  assumes "reconcileWorkload k wk ns n s = (out, s')" "k_get k ns n (rs_world s) = (Inr obj, w)" "om_Deleting (w_meta obj)"
  shows "count_list (effects s s') (DriftDetected c) = 0"
  using assms
proof (cases rule: deletion_run)
  case waiting
  from adds_no_drift [OF this, of c] show ?thesis by simp
next
  case orphaned
  from adds_no_drift [OF this(2), of c] show ?thesis by simp
next
  case (removed fs b rest)
  then have "DriftDetected c \<notin> set rest" by (auto simp: list_all_iff)
  with removed show ?thesis by (simp add: count_list_0_iff)
qed

lemma run_drift:
  assumes "reconcileWorkload k wk ns n s = (out, s')" "k_get k ns n (rs_world s) = (Inr obj, w)"
  shows "count_list (effects s s') (DriftDetected c) =
    (if c = wk_controller wk \<and> drift_counted wk in_sync k obj s out s' then 1 else 0)"
proof -
  have via: "count_list (effects s s') (DriftDetected c) =
      (if c = wk_controller wk \<and> isObserveOnly obj \<and> \<not> in_sync adm obj (rs_world s1) \<and>
          ensures_ok k wk obj adm s1 then 1 else 0)"
    if "adds quiet s s1" "reconcileWithAdmin k wk obj adm s1 = (out, s')" for adm s1
    using effects_split [OF that(1) withAdmin_drift(1) [OF that(2)]] withAdmin_drift(2) [OF that(2), of c]
      adds_no_drift [OF that(1), of c] by simp
  have never: "\<not> (c = wk_controller wk \<and> drift_counted wk in_sync k obj s out s')"
    if z: "count_list (effects s s') (DriftDetected c) = 0"
  proof
    assume d: "c = wk_controller wk \<and> drift_counted wk in_sync k obj s out s'"
    then obtain adm s1 where r: "adds quiet s s1" "reconcileWithAdmin k wk obj adm s1 = (out, s')"
      and "ensures_ok k wk obj adm s1" "\<not> in_sync adm obj (rs_world s1)"
      unfolding drift_counted_def by blast
    with via [OF r] z d show False by (simp add: drift_counted_def)
  qed
  from assms benign_quiet show ?thesis
  proof (cases rule: reconcileWorkload_live)
    case benign
    from adds_no_drift [OF this, of c] never show ?thesis by simp
  next
    case (admin conn adm s1 w0)
    show ?thesis
    proof (cases "count_list (effects s s') (DriftDetected c) = 0")
      case True
      with never show ?thesis by simp
    next
      case False
      with via [OF admin(1,3)] have v: "c = wk_controller wk" "isObserveOnly obj" "\<not> in_sync adm obj (rs_world s1)"
        "ensures_ok k wk obj adm s1"
        "count_list (effects s s') (DriftDetected c) = 1" by (simp_all split: if_splits)
      with admin(1,3,4) have "drift_counted wk in_sync k obj s out s'" unfolding drift_counted_def by blast
      with v show ?thesis by simp
    qed
  next
    case deleting
    with deletion_no_drift [OF assms deleting(1)] never show ?thesis by simp
  qed
qed

lemma kind_counts_runs: "counts_runs wk in_sync"
  unfolding counts_runs_def
  by (auto simp: Reconcile_def Let_def run_drift fun_eq_iff split: prod.splits if_splits)

end

lemma apfst_eq: "apfst f p = (r, s') \<Longrightarrow> \<exists>x. p = (x, s') \<and> r = f x"
  by (cases p) auto

interpretation queue: drift_contract queue_kind queue_absent queue_in_sync
proof
  fix admin :: "'a Admin" and obj :: Queue and s s' :: "'a rs" and ex d
  assume "wk_ensure queue_kind admin obj s = (Some (ex, d, None), s')" "d \<noteq> []"
  then show "isObserveOnly obj \<and> \<not> queue_in_sync admin obj (rs_world s)"
    by (auto simp: queue_kind_def ensureQueue_def mqRead_def observedAttributes_def reconcileMQObjectState_def
        queue_in_sync_def AttributesNeedUpdate_def Let_def dest!: apfst_eq
        split: prod.splits sum.splits if_splits option.splits)
qed

interpretation topic: drift_contract topic_kind topic_absent topic_in_sync
proof
  fix admin :: "'a Admin" and obj :: Topic and s s' :: "'a rs" and ex d
  assume "wk_ensure topic_kind admin obj s = (Some (ex, d, None), s')" "d \<noteq> []"
  then show "isObserveOnly obj \<and> \<not> topic_in_sync admin obj (rs_world s)"
    by (auto simp: topic_kind_def ensureTopic_def mqRead_def observedAttributes_def reconcileMQObjectState_def
        topic_in_sync_def AttributesNeedUpdate_def Let_def dest!: apfst_eq
        split: prod.splits sum.splits if_splits option.splits)
qed

interpretation channel: drift_contract channel_kind channel_absent channel_in_sync
proof
  fix admin :: "'a Admin" and obj :: Channel and s s' :: "'a rs" and ex d
  assume "wk_ensure channel_kind admin obj s = (Some (ex, d, None), s')" "d \<noteq> []"
  then show "isObserveOnly obj \<and> \<not> channel_in_sync admin obj (rs_world s)"
    by (auto simp: channel_kind_def ensureChannel_def mqRead_def observedAttributes_def reconcileMQObjectState_def
        channel_in_sync_def AttributesNeedUpdate_def Let_def dest!: apfst_eq
        split: prod.splits sum.splits if_splits option.splits)
qed

lemma ensureAuth_drift:
  "ensureAuth obj ex nu label mm f s = ((ex', True, e), s') \<Longrightarrow> isObserveOnly obj \<and> nu"
  by (auto simp: ensureAuth_def split: option.splits prod.splits if_splits)

lemma authDrift_drifted: "authDrift n l r = (ex, d, None) \<Longrightarrow> d \<noteq> [] \<Longrightarrow> \<exists>x. r = (x, True, None)"
  by (cases r) (auto simp: authDrift_def split: if_splits)

interpretation rule: drift_contract channelauthrule_kind rule_absent rule_in_sync
proof
  fix admin :: "'a Admin" and obj :: ChannelAuthRule and s s' :: "'a rs" and ex d
  assume "wk_ensure channelauthrule_kind admin obj s = (Some (ex, d, None), s')" "d \<noteq> []"
  then obtain x where "ensureChannelAuth admin (toMQChannelAuthSpec obj) obj s = ((x, True, None), s')"
    by (auto simp: channelauthrule_kind_def dest!: apfst_eq dest: authDrift_drifted [OF sym])
  then show "isObserveOnly obj \<and> \<not> rule_in_sync admin obj (rs_world s)"
    by (auto simp: ensureChannelAuth_def mqRead_def rule_in_sync_def dest!: ensureAuth_drift
        split: prod.splits sum.splits if_splits)
qed

interpretation authority: drift_contract authorityrecord_kind authority_absent authority_in_sync
proof
  fix admin :: "'a Admin" and obj :: AuthorityRecord and s s' :: "'a rs" and ex d
  assume "wk_ensure authorityrecord_kind admin obj s = (Some (ex, d, None), s')" "d \<noteq> []"
  then obtain r0 where "ensureAuthority admin (toMQAuthoritySpec obj) obj s = (Some r0, s')"
    "authDrift (a_Profile (w_Spec obj)) ''authority record'' r0 = (ex, d, None)"
    by (auto simp: authorityrecord_kind_def eq_commute [of "Some _" "map_option _ _"] simp del: split_paired_Ex dest!: apfst_eq)
  with \<open>d \<noteq> []\<close> obtain x where "ensureAuthority admin (toMQAuthoritySpec obj) obj s = (Some (x, True, None), s')"
    using authDrift_drifted by blast
  then show "isObserveOnly obj \<and> \<not> authority_in_sync admin obj (rs_world s)"
    by (auto simp: ensureAuthority_def mqRead_def authority_in_sync_def Let_def dest!: apfst_eq ensureAuth_drift
        split: prod.splits sum.splits if_splits option.splits)
qed

text \<open>Which failures are counted?\<close>

definition accepts_status :: "('spec, 'w) kube \<Rightarrow> bool" where
  "accepts_status k \<longleftrightarrow> (\<forall>obj w. \<exists>obj' w'. k_statusUpdate k obj w = (Inr obj', w'))"

lemma statusUpdate_accepts: "accepts_status k \<Longrightarrow> fst (statusUpdate k obj s) = None"
  unfolding accepts_status_def statusUpdate_def
  by (metis (mono_tags, lifting) case_prod_conv fst_conv old.sum.simps(6))

lemma setSyncedError_swallows:
  assumes "setSyncedError k obj g err x s = (out, s')" "accepts_status k"
    and "errors_Is err ErrTransient \<or> errors_Is err ErrTerminal"
  shows "snd out = None"
proof -
  obtain reason message where c: "classifyReconcileError err = (reason, message)" by fastforce
  obtain e obj' s1 where p: "patchSyncedStatus k obj (notSynced reason g message x False) (recordReconcileWarning err s) = (e, obj', s1)"
    by (metis surj_pair)
  then have "e = None" using statusUpdate_accepts [OF assms(2)] by (metis fst_conv patchSyncedStatus_def)
  with assms(1,3) c p show ?thesis by (auto simp: setSyncedError_def Let_def)
qed

lemma qmc_fail_swallows:
  assumes "qmc_fail k conn g err s = (out, s')" "status_accepted k"
  shows "snd out = None"
proof -
  have "\<exists>w'. qk_statusUpdate k c w = (Inr c, w')" for c w using assms(2) by (simp add: status_accepted_def)
  then have "fst (qmcStatusUpdate k cs c s) = None" for cs c s
    unfolding qmcStatusUpdate_def by (metis (mono_tags, lifting) case_prod_conv fst_conv old.sum.simps(6))
  with assms(1) show ?thesis
    unfolding qmc_fail_def Let_def by (auto split: if_splits prod.splits option.splits) (metis fst_conv option.distinct(1))+
qed

text \<open>The failures that a run ends with: \<open>setSyncedError\<close> for a workload, \<open>qmc_fail\<close> for a connection.\<close>

definition failure_uncounted :: "('spec, 'w) kube \<Rightarrow> ('spec, 'w) workload_kind \<Rightarrow> bool" where
  "failure_uncounted k wk \<longleftrightarrow>
     (\<forall>ns n s m out s' m' obj g err x s1.
        Reconcile k wk ns n (s, m) = (out, s', m') \<and> setSyncedError k obj g err x s1 = (out, s') \<and>
        (errors_Is err ErrTransient \<or> errors_Is err ErrTerminal) \<longrightarrow>
        ReconcileErrors m' = ReconcileErrors m \<and>
        ReconcileTotal m' = Inc (wk_controller wk, ResultSuccess) (ReconcileTotal m))"

definition qmc_failure_uncounted :: "'w qmc_kube \<Rightarrow> bool" where
  "qmc_failure_uncounted k \<longleftrightarrow>
     (\<forall>ns n s m out s' m' conn g err s1.
        QueueManagerConnectionReconciler_Reconcile k ns n (s, m) = (out, s', m') \<and> qmc_fail k conn g err s1 = (out, s') \<longrightarrow>
        ReconcileErrors m' = ReconcileErrors m \<and>
        ReconcileTotal m' = Inc (ControllerQueueManagerConnection, ResultSuccess) (ReconcileTotal m))"



end
