(* ===== verification/Breaker_Metrics.thy ===== *)
theory Breaker_Metrics
  imports Metrics Circuit_Breaker
begin

text \<open>
  The transition counter of the circuit breaker: \<open>defaultCircuitBreakerConfig\<close> sets
  \<open>metrics.RecordCircuitBreakerTransition\<close> as \<open>onTransition\<close>, so the calls collected in \<open>cb_transitions\<close>
  are what the counter \<open>mkurator_mq_circuit_breaker_transitions_total\<close> has counted for this breaker.
\<close>

definition recordTransitions :: "circuitBreaker \<Rightarrow> collectors \<Rightarrow> collectors" where
  "recordTransitions b m = foldr (\<lambda>(from, to). RecordCircuitBreakerTransition from to) (cb_transitions b) m"

lemma recordTransitions_sel:
  "CircuitBreakerTransitionsTotal (recordTransitions b m) p =
     CircuitBreakerTransitionsTotal m p + count_list (cb_transitions b) p"
proof -
  have "CircuitBreakerTransitionsTotal (foldr (\<lambda>(from, to). RecordCircuitBreakerTransition from to) ts m) p =
      CircuitBreakerTransitionsTotal m p + count_list ts p" for ts
    by (induction ts) (auto simp: record_defs)
  then show ?thesis by (simp add: recordTransitions_def)
qed

section \<open>Flow\<close>

text \<open>The five transitions there are, and how often each has been taken, as far as the state tells.\<close>

definition breakerTransitions :: "(string \<times> string) set" where
  "breakerTransitions =
     {(breakerStateClosed, breakerStateOpen), (breakerStateOpen, breakerStateHalfOpen),
      (breakerStateHalfOpen, breakerStateClosed), (breakerStateHalfOpen, breakerStateOpen),
      (breakerStateOpen, breakerStateClosed)}"

definition balanced :: "string \<Rightarrow> (string \<times> string \<Rightarrow> nat) \<Rightarrow> bool" where
  "balanced st n \<longleftrightarrow>
     n (breakerStateClosed, breakerStateOpen) =
       n (breakerStateHalfOpen, breakerStateClosed) + n (breakerStateOpen, breakerStateClosed) +
       (if st = breakerStateClosed then 0 else 1) \<and>
     n (breakerStateOpen, breakerStateHalfOpen) =
       n (breakerStateHalfOpen, breakerStateClosed) + n (breakerStateHalfOpen, breakerStateOpen) +
       (if st = breakerStateHalfOpen then 1 else 0) \<and>
     (\<forall>p. p \<notin> breakerTransitions \<longrightarrow> n p = 0)"

definition flow_inv :: "circuitBreaker \<Rightarrow> bool" where
  "flow_inv b \<longleftrightarrow> breaker_inv b \<and> balanced (cb_state b) (count_list (cb_transitions b))"

lemma flow_new: "flow_inv (newCircuitBreaker cfg)"
  using newCircuitBreaker_inv by (simp add: flow_inv_def balanced_def newCircuitBreaker_def Let_def)

lemma balanced_step:
  assumes "balanced a n" "(a, b) \<in> breakerTransitions"
  shows "balanced b (n((a, b) := Suc (n (a, b))))"
proof -
  have rest: "\<forall>p. p \<notin> breakerTransitions \<longrightarrow> (n((a, b) := Suc (n (a, b)))) p = 0"
    using assms unfolding balanced_def by auto
  from assms(2) [unfolded breakerTransitions_def] show ?thesis
  proof (elim insertE)
    assume "(a, b) = (breakerStateClosed, breakerStateOpen)"
    then have "a = breakerStateClosed" "b = breakerStateOpen" by simp_all
    with assms(1) rest show ?thesis unfolding balanced_def by simp
  next
    assume "(a, b) = (breakerStateOpen, breakerStateHalfOpen)"
    then have "a = breakerStateOpen" "b = breakerStateHalfOpen" by simp_all
    with assms(1) rest show ?thesis unfolding balanced_def by simp
  next
    assume "(a, b) = (breakerStateHalfOpen, breakerStateClosed)"
    then have "a = breakerStateHalfOpen" "b = breakerStateClosed" by simp_all
    with assms(1) rest show ?thesis unfolding balanced_def by simp
  next
    assume "(a, b) = (breakerStateHalfOpen, breakerStateOpen)"
    then have "a = breakerStateHalfOpen" "b = breakerStateOpen" by simp_all
    with assms(1) rest show ?thesis unfolding balanced_def by simp
  next
    assume "(a, b) = (breakerStateOpen, breakerStateClosed)"
    then have "a = breakerStateOpen" "b = breakerStateClosed" by simp_all
    with assms(1) rest show ?thesis unfolding balanced_def by simp
  qed simp
qed

lemma flow_transition:
  assumes "balanced (cb_state b) (count_list (cb_transitions b))" "(cb_state b, to) \<in> breakerTransitions \<or> cb_state b = to"
  shows "balanced (cb_state (transitionLocked to b)) (count_list (cb_transitions (transitionLocked to b)))"
proof -
  have "count_list (p # ts) = (count_list ts)(p := Suc (count_list ts p))" for p :: "string \<times> string" and ts by auto
  with assms balanced_step show ?thesis by (auto simp: transitionLocked_def simp del: count_list.simps)
qed

lemma transitions_from:
  assumes "breaker_inv b"
  shows "cb_state b = breakerStateOpen \<Longrightarrow> (cb_state b, breakerStateHalfOpen) \<in> breakerTransitions"
    and "cb_state b \<noteq> breakerStateClosed \<Longrightarrow> (cb_state b, breakerStateClosed) \<in> breakerTransitions"
    and "(cb_state b, breakerStateOpen) \<in> breakerTransitions \<or> cb_state b = breakerStateOpen"
  using assms by (auto simp: breaker_inv_def breakerTransitions_def)

lemma flow_ops:
  assumes "flow_inv b"
  shows "beforeRequest t b = (r, b') \<Longrightarrow> flow_inv b'" "flow_inv (recordSuccess b)" "flow_inv (recordFailure t b)"
proof -
  have inv: "breaker_inv b" "balanced (cb_state b) (count_list (cb_transitions b))" using assms by (simp_all add: flow_inv_def)
  note dests = transitions_from [OF inv(1)]
  have moved: "balanced (cb_state (transitionLocked to c)) (count_list (cb_transitions (transitionLocked to c)))"
    if "cb_state c = cb_state b" "cb_transitions c = cb_transitions b" "(cb_state b, to) \<in> breakerTransitions \<or> cb_state b = to" for to c
    using flow_transition [of c to] that inv(2) by simp
  show "flow_inv b'" if "beforeRequest t b = (r, b')"
    using that inv(2) beforeRequest_inv' [OF that inv(1)] moved [of b breakerStateHalfOpen] dests(1)
    by (auto simp: flow_inv_def beforeRequest_def split: if_splits)
  show "flow_inv (recordSuccess b)"
    using inv(2) recordSuccess_inv [OF inv(1)] dests(2) moved [of "b\<lparr>consecutiveFails := 0, probeInFlight := False\<rparr>" breakerStateClosed]
    by (auto simp: flow_inv_def recordSuccess_def Let_def)
  show "flow_inv (recordFailure t b)"
    using inv(2) recordFailure_inv [OF inv(1)] dests(3) moved [of "b\<lparr>probeInFlight := False\<rparr>" breakerStateOpen]
      moved [of "b\<lparr>probeInFlight := False, consecutiveFails := consecutiveFails b + 1\<rparr>" breakerStateOpen]
    by (auto simp: flow_inv_def recordFailure_def Let_def)
qed

lemma flow_step: "request_step e w w' \<Longrightarrow> flow_inv (w_breaker w) \<Longrightarrow> flow_inv (w_breaker w')"
  by (erule request_stepE) (auto intro: flow_ops)

lemma flow_run: "request_run A w w' \<Longrightarrow> flow_inv (w_breaker w) \<Longrightarrow> flow_inv (w_breaker w')"
  by (induction rule: request_run.induct) (auto intro: flow_step)

section \<open>One request at a time\<close>

definition sequential_step :: "world \<Rightarrow> world \<Rightarrow> bool" where
  "sequential_step w w' \<longleftrightarrow> (\<exists>e. request_step e w w' \<and> (e = Admit \<longrightarrow> w_running w = 0))"

text \<open>A running request was admitted, and nothing has closed the breaker behind it.\<close>

definition sequential_inv :: "world \<Rightarrow> bool" where
  "sequential_inv w \<longleftrightarrow> breaker_inv (w_breaker w) \<and> w_running w \<le> 1 \<and>
     (w_running w = 1 \<longrightarrow> cb_state (w_breaker w) \<noteq> breakerStateOpen) \<and>
     (breakerStateOpen, breakerStateClosed) \<notin> set (cb_transitions (w_breaker w))"

lemma admitted_not_open: "beforeRequest t b = (Inr u, b') \<Longrightarrow> cb_state b' \<noteq> breakerStateOpen"
  by (auto simp: beforeRequest_def transitionLocked_def split: if_splits)

lemma no_reopen:
  "beforeRequest t b = (r, b') \<Longrightarrow> x \<in> set (cb_transitions b') \<Longrightarrow>
     x \<in> set (cb_transitions b) \<or> x = (breakerStateOpen, breakerStateHalfOpen)"
  "x \<in> set (cb_transitions (recordSuccess b)) \<Longrightarrow>
     x \<in> set (cb_transitions b) \<or> cb_state b \<noteq> breakerStateClosed \<and> x = (cb_state b, breakerStateClosed)"
  "x \<in> set (cb_transitions (recordFailure t b)) \<Longrightarrow> x \<in> set (cb_transitions b) \<or> snd x = breakerStateOpen"
  by (auto simp: breaker_op_defs split: if_splits)

lemma sequential_step_inv:
  assumes "sequential_step w w'" "sequential_inv w"
  shows "sequential_inv w'"
proof -
  from assms(1) obtain e where e: "request_step e w w'" "e = Admit \<longrightarrow> w_running w = 0"
    unfolding sequential_step_def by blast
  have inv: "breaker_inv (w_breaker w')" using assms(2) request_step_inv [OF e(1)] by (simp add: sequential_inv_def)
  from e(1) show ?thesis
  proof cases
    case (admit b)
    then show ?thesis
      using e(2) assms(2) inv admitted_not_open [OF admit(3)] no_reopen(1) [OF admit(3), of "(breakerStateOpen, breakerStateClosed)"]
      by (auto simp: sequential_inv_def)
  next
    case (reject e b)
    then have "b = w_breaker w"
      using mqweb_breaker.reject_frame [of "w_breaker w" "w_now w" e] assms(2) by (simp add: sequential_inv_def)
    with reject assms(2) show ?thesis by simp
  next
    case (succeed n)
    then show ?thesis
      using assms(2) inv no_reopen(2) [of "(breakerStateOpen, breakerStateClosed)" "w_breaker w"] by (auto simp: sequential_inv_def)
  next
    case (fail n)
    then show ?thesis
      using assms(2) inv no_reopen(3) [of "(breakerStateOpen, breakerStateClosed)" "w_now w" "w_breaker w"]
      by (auto simp: sequential_inv_def)
  qed (use assms(2) in \<open>auto simp: sequential_inv_def\<close>)
qed

lemma sequential_run_inv: "sequential_step\<^sup>*\<^sup>* w w' \<Longrightarrow> sequential_inv w \<Longrightarrow> sequential_inv w'"
  by (induction rule: rtranclp_induct) (auto intro: sequential_step_inv)

text \<open>The transition counters give the state of the breaker back. In every interleaving of requests
  only five transitions are counted; the breaker has left \<open>closed\<close> as often as it has come back, once
  more if it is not closed now, and it has been half-open as often as it has left \<open>half_open\<close>, once more
  if it is half-open now. The transition \<open>open\<close> to \<open>closed\<close>, by which the success of a request that was
  admitted earlier ends the open window, does not occur when requests run one at a time.\<close>

theorem breaker_transitions_counted:
  assumes "w_breaker w = newCircuitBreaker cfg" "w_running w = 0"
  shows "(\<forall>w'. request_run UNIV w w' \<longrightarrow>
            balanced (cb_state (w_breaker w'))
              (CircuitBreakerTransitionsTotal (recordTransitions (w_breaker w') init_collectors))) \<and>
         (\<forall>w'. sequential_step\<^sup>*\<^sup>* w w' \<longrightarrow>
            CircuitBreakerTransitionsTotal (recordTransitions (w_breaker w') init_collectors)
              (breakerStateOpen, breakerStateClosed) = 0)"
proof -
  have counts: "CircuitBreakerTransitionsTotal (recordTransitions b init_collectors) = count_list (cb_transitions b)" for b
    by (simp add: fun_eq_iff recordTransitions_sel init_collectors_def)
  have "sequential_inv w"
    using assms newCircuitBreaker_inv by (simp add: sequential_inv_def newCircuitBreaker_def Let_def)
  with sequential_run_inv flow_run [of UNIV w] flow_new assms(1) show ?thesis
    unfolding counts by (auto simp: flow_inv_def sequential_inv_def count_list_0_iff)
qed

text \<open>Two requests are admitted; one fails and opens the breaker, the other succeeds and closes it.\<close>

definition idle_world :: world where
  "idle_world = \<lparr>w_breaker = newCircuitBreaker \<lparr>failureThreshold = 1, openTimeout = 100\<rparr>, w_running = 0, w_now = 0\<rparr>"

definition overtaken_world :: world where
  "overtaken_world = idle_world\<lparr>w_breaker := recordSuccess (recordFailure 0 (w_breaker idle_world))\<rparr>"

lemma idle_overtaken: "request_run UNIV idle_world overtaken_world"
proof -
  let ?b = "w_breaker idle_world"
  have b: "beforeRequest 0 ?b = (Inr (), ?b)" by code_simp
  have 1: "request_step Admit idle_world (idle_world\<lparr>w_running := 1\<rparr>)"
    using request_step.admit [of idle_world ?b] b by (simp add: idle_world_def)
  have 2: "request_step Admit (idle_world\<lparr>w_running := 1\<rparr>) (idle_world\<lparr>w_running := 2\<rparr>)"
    using request_step.admit [of "idle_world\<lparr>w_running := 1\<rparr>" ?b] b by (simp add: idle_world_def numeral_2_eq_2)
  have 3: "request_step Fail (idle_world\<lparr>w_running := 2\<rparr>) (idle_world\<lparr>w_breaker := recordFailure 0 ?b, w_running := 1\<rparr>)"
    using request_step.fail [of "idle_world\<lparr>w_running := 2\<rparr>" 1] by (simp add: idle_world_def)
  have 4: "request_step Succeed (idle_world\<lparr>w_breaker := recordFailure 0 ?b, w_running := 1\<rparr>) overtaken_world"
    using request_step.succeed [of "idle_world\<lparr>w_breaker := recordFailure 0 ?b, w_running := 1\<rparr>" 0]
    by (simp add: idle_world_def overtaken_world_def)
  show ?thesis by (rule run_step [OF run_step [OF run_step [OF run_step [OF run_refl _ 1] _ 2] _ 3] _ 4]) simp_all
qed

theorem breaker_transitions_counted_witness:
  "let m = recordTransitions (w_breaker overtaken_world) init_collectors in
   request_run UNIV idle_world overtaken_world \<and>
   balanced breakerStateClosed (CircuitBreakerTransitionsTotal m) \<and>
   CircuitBreakerTransitionsTotal m (breakerStateOpen, breakerStateClosed) = 1"
proof -
  let ?m = "recordTransitions (w_breaker overtaken_world) init_collectors"
  have st: "cb_state (w_breaker overtaken_world) = breakerStateClosed" by code_simp
  have n: "CircuitBreakerTransitionsTotal ?m (breakerStateOpen, breakerStateClosed) = 1" by code_simp
  have "w_breaker idle_world = newCircuitBreaker \<lparr>failureThreshold = 1, openTimeout = 100\<rparr>" "w_running idle_world = 0"
    by (simp_all add: idle_world_def)
  from breaker_transitions_counted [OF this, THEN conjunct1, rule_format, OF idle_overtaken]
  have "balanced breakerStateClosed (CircuitBreakerTransitionsTotal ?m)" unfolding st .
  with n idle_overtaken show ?thesis unfolding Let_def by blast
qed

end
