(* ===== verification/CRD_Ref.thy ===== *)
theory CRD_Ref
  imports Prelude
begin

text \<open>
  The generator of the CRD reference, \<open>hack/tools/crd-ref-gen/main.go\<close>: it renders field tables from the
  CRD schemas and puts them between the markers of the hand-written pages.

  The schema type, the YAML and JSON decoders and the file system are libraries. Of
  \<open>apiextv1.JSONSchemaProps\<close> the model has the fields that are used; a pointer pair like
  \<open>Items.Schema\<close> is \<open>None\<close> if either is nil. \<open>enumText\<close> stands for \<open>json.Unmarshal\<close> of an enum value
  followed by \<open>%v\<close>, \<open>None\<close> for a value that does not decode. Files are a map from paths to contents.
\<close>

section \<open>Schemas\<close>

datatype JSONSchemaProps =
  Schema (sp_Type: string) (sp_Description: string) (sp_Enum: "string list")
    (sp_Properties: "(string \<times> JSONSchemaProps) list") (sp_Required: "string list")
    (sp_Items: "JSONSchemaProps option") (sp_AdditionalProperties: "JSONSchemaProps option")

record crd_version =
  ver_Name :: string
  ver_Schema :: "JSONSchemaProps option option"

record CustomResourceDefinition =
  crd_Group :: string
  crd_Kind :: string
  crd_Versions :: "crd_version list"

definition hubVersion :: string where "hubVersion = ''v1beta1''"
definition typeObject :: string where "typeObject = ''object''"

definition genNotice :: string where
  "genNotice = ''<!-- Generated by hack/tools/crd-ref-gen; do not edit. Run `task docs:crd-ref`. -->''"

definition endMark :: string where "endMark = ''<!-- crd-ref:end -->''"

definition nl :: char where "nl = CHR 0x0A"

fun hubSchema :: "crd_version list \<Rightarrow> JSONSchemaProps option" where
  "hubSchema [] = None"
| "hubSchema (v # vs) =
     (case ver_Schema v of
        Some openAPIV3Schema \<Rightarrow> if ver_Name v = hubVersion then openAPIV3Schema else hubSchema vs
      | None \<Rightarrow> hubSchema vs)"

section \<open>Rendering\<close>

text \<open>\<open>\s\<close> of the \<open>regexp\<close> package: unlike \<open>TrimSpace\<close> it has no vertical tab.\<close>

definition re_space :: "char \<Rightarrow> bool" where
  "re_space c \<longleftrightarrow> c \<in> {CHR 0x09, CHR 0x0A, CHR 0x0C, CHR 0x0D, CHR '' ''}"

fun squeeze :: "string \<Rightarrow> string" where
  "squeeze [] = []"
| "squeeze (c # cs) =
     (if re_space c then (if cs \<noteq> [] \<and> re_space (hd cs) then squeeze cs else CHR '' '' # squeeze cs)
      else c # squeeze cs)"

definition escapePipes :: "string \<Rightarrow> string" where
  "escapePipes s = concat (map (\<lambda>c. if c = CHR ''|'' then [CHR 0x5C, CHR ''|''] else [c]) s)"

definition emDash :: string where "emDash = [CHR 0xE2, CHR 0x80, CHR 0x94]"

definition middleDot :: string where "middleDot = [CHR 0xC2, CHR 0xB7]"

definition oneLine :: "string \<Rightarrow> string" where
  "oneLine s = (let s = escapePipes (squeeze (TrimSpace s)) in if s = [] then emDash else s)"

fun typeOf :: "(string \<Rightarrow> string option) \<Rightarrow> JSONSchemaProps \<Rightarrow> string" where
  "typeOf enumText (Schema ty descr enum props req items additional) =
     (if enum \<noteq> [] then ''enum('' @ go_join (List.map_filter enumText enum) '', '' @ '')''
      else if ty = ''array'' then
        (case items of Some s \<Rightarrow> ''[]'' @ typeOf enumText s | None \<Rightarrow> ''array'')
      else if ty = ''object'' then
        (case additional of Some s \<Rightarrow> ''map[string]'' @ typeOf enumText s | None \<Rightarrow> typeObject)
      else if ty = [] then typeObject
      else ty)"

definition fieldRow :: "(string \<Rightarrow> string option) \<Rightarrow> string \<Rightarrow> bool \<Rightarrow> JSONSchemaProps \<Rightarrow> string" where
  "fieldRow enumText full required f =
     ''| `'' @ full @ ''` | '' @ typeOf enumText f @ '' | '' @ (if required then ''yes'' else ''no'') @ '' | '' @
     oneLine (sp_Description f) @ '' |'' @ [nl]"

lemma size_property: "(name, f) \<in> set props \<Longrightarrow> size f < Suc (size_list (size_prod (\<lambda>_. 0) size) props)"
  by (induction props) auto

text \<open>The entries of the property map in the order of their names.\<close>

function renderProps :: "(string \<Rightarrow> string option) \<Rightarrow> string \<Rightarrow> JSONSchemaProps \<Rightarrow> string" where
  "renderProps enumText pre (Schema ty descr enum props req items additional) =
     concat (map (\<lambda>(name, f).
         let full = (if pre \<noteq> [] then pre @ ''.'' @ name else name)
         in fieldRow enumText full (name \<in> set req) f @
            (if pre = [] \<and> sp_Type f = ''object'' \<and> sp_Properties f \<noteq> [] then renderProps enumText full f else []))
       (sort_key fst props))"
  by pat_completeness auto

termination
  by (relation "measure (\<lambda>(_, _, s). size s)") (auto dest: size_property)

definition renderSection :: "(string \<Rightarrow> string option) \<Rightarrow> JSONSchemaProps \<Rightarrow> string \<Rightarrow> string" where
  "renderSection enumText schema sec =
     (case map_of (sp_Properties schema) sec of
        None \<Rightarrow> []
      | Some sub \<Rightarrow>
          ''### `.'' @ sec @ ''`'' @ [nl, nl] @
          ''| Field | Type | Required | Description |'' @ [nl] @ ''| --- | --- | --- | --- |'' @ [nl] @
          renderProps enumText [] sub @ [nl])"

definition renderKind :: "(string \<Rightarrow> string option) \<Rightarrow> CustomResourceDefinition \<Rightarrow> JSONSchemaProps \<Rightarrow> string" where
  "renderKind enumText crd schema =
     genNotice @ [nl, nl] @
     ''API version: `'' @ crd_Group crd @ ''/'' @ hubVersion @ ''` '' @ middleDot @ '' Kind: `'' @ crd_Kind crd @ ''`'' @ [nl, nl] @
     concat (map (renderSection enumText schema) [''spec'', ''status''])"

section \<open>Pages\<close>

text \<open>\<open>(?m)^<!-- crd-ref:begin ([A-Za-z0-9]+) -->$\<close>: the expression matches whole lines, so the leftmost match
  is in the first line that has the form. \<open>findBegin\<close> gives the text before the match, the kind and the
  text after the match.\<close>

definition beginPrefix :: string where "beginPrefix = ''<!-- crd-ref:begin ''"
definition beginSuffix :: string where "beginSuffix = '' -->''"

definition is_alnum :: "char \<Rightarrow> bool" where
  "is_alnum c \<longleftrightarrow>
     (let n = (of_char c :: nat) in 48 \<le> n \<and> n \<le> 57 \<or> 65 \<le> n \<and> n \<le> 90 \<or> 97 \<le> n \<and> n \<le> 122)"

definition beginLine :: "string \<Rightarrow> string" where
  "beginLine kind = beginPrefix @ kind @ beginSuffix"

definition matchBegin :: "string \<Rightarrow> string option" where
  "matchBegin line =
     (let r = drop (length beginPrefix) line; kind = takeWhile is_alnum r in
      if HasPrefix line beginPrefix \<and> kind \<noteq> [] \<and> dropWhile is_alnum r = beginSuffix then Some kind else None)"

lemma dropWhile_shorter: "x \<in> set s \<Longrightarrow> length (dropWhile P s) - Suc 0 < length s"
  using length_dropWhile_le [of P s] by (cases s) auto

function findBegin :: "string \<Rightarrow> (string \<times> string \<times> string) option" where
  "findBegin s =
     (let line = takeWhile (\<lambda>c. c \<noteq> nl) s; after = dropWhile (\<lambda>c. c \<noteq> nl) s in
      case matchBegin line of
        Some kind \<Rightarrow> Some ([], kind, after)
      | None \<Rightarrow>
          if after = [] then None
          else (case findBegin (tl after) of
                  None \<Rightarrow> None
                | Some (pre, kind, rest) \<Rightarrow> Some (line @ nl # pre, kind, rest)))"
  by pat_completeness auto

termination
  by (relation "measure length") (auto intro: dropWhile_shorter)

declare findBegin.simps [simp del]

lemma matchBegin_Some:
  assumes "matchBegin line = Some kind"
  shows "line = beginLine kind" "kind \<noteq> []" "\<forall>c \<in> set kind. is_alnum c"
proof -
  let ?r = "drop (length beginPrefix) line"
  have m: "HasPrefix line beginPrefix" "kind = takeWhile is_alnum ?r" "kind \<noteq> []" "dropWhile is_alnum ?r = beginSuffix"
    using assms by (auto simp: matchBegin_def Let_def split: if_splits)
  from m(1) have "line = beginPrefix @ ?r" by (auto simp: HasPrefix_iff_prefix prefix_def)
  also have "?r = kind @ beginSuffix" using m(2,4) takeWhile_dropWhile_id [of is_alnum ?r] by simp
  finally show "line = beginLine kind" by (simp add: beginLine_def)
  show "kind \<noteq> []" "\<forall>c \<in> set kind. is_alnum c" using m(2,3) by (auto dest: set_takeWhileD)
qed

lemma matchBegin_beginLine:
  assumes "kind \<noteq> []" "\<forall>c \<in> set kind. is_alnum c"
  shows "matchBegin (beginLine kind) = Some kind"
proof -
  have "takeWhile is_alnum beginSuffix = []" "dropWhile is_alnum beginSuffix = beginSuffix" by code_simp+
  with assms show ?thesis
    by (simp add: matchBegin_def beginLine_def HasPrefix_iff_prefix takeWhile_append2 dropWhile_append2 Let_def)
qed

lemma alnum_not_nl: "is_alnum c \<Longrightarrow> c \<noteq> nl"
  by (auto simp: is_alnum_def nl_def Let_def)

lemma beginLine_no_nl: "\<forall>c \<in> set kind. is_alnum c \<Longrightarrow> \<forall>c \<in> set (beginLine kind). c \<noteq> nl"
  using alnum_not_nl by (auto simp: beginLine_def beginPrefix_def beginSuffix_def nl_def)

text \<open>A match depends on the text up to the end of its line only.\<close>

lemma findBegin_Some:
  assumes "findBegin s = Some (pre, kind, after)"
  shows "s = pre @ beginLine kind @ after \<and> (after = [] \<or> hd after = nl) \<and>
    (\<forall>y. (y = [] \<or> hd y = nl) \<longrightarrow> findBegin (pre @ beginLine kind @ y) = Some (pre, kind, y))"
  using assms
proof (induction s arbitrary: pre rule: findBegin.induct)
  case (1 s)
  let ?line = "takeWhile (\<lambda>c. c \<noteq> nl) s" and ?after = "dropWhile (\<lambda>c. c \<noteq> nl) s"
  have s: "s = ?line @ ?after" by simp
  show ?case
  proof (cases "matchBegin ?line")
    case (Some k)
    with "1.prems" have r: "pre = []" "k = kind" "after = ?after" by (simp_all add: findBegin.simps [of s] Let_def)
    note m = matchBegin_Some [OF Some [unfolded r(2)]]
    have "findBegin (beginLine kind @ y) = Some ([], kind, y)" if "y = [] \<or> hd y = nl" for y
    proof -
      have "takeWhile (\<lambda>c. c \<noteq> nl) (beginLine kind @ y) = beginLine kind"
        "dropWhile (\<lambda>c. c \<noteq> nl) (beginLine kind @ y) = y"
        using beginLine_no_nl [OF m(3)] that by (cases y; simp add: takeWhile_append dropWhile_append)+
      then show ?thesis using matchBegin_beginLine [OF m(2,3)] by (simp add: findBegin.simps [of "beginLine kind @ y"] Let_def)
    qed
    moreover have "?after = [] \<or> hd ?after = nl" using hd_dropWhile [of "\<lambda>c. c \<noteq> nl" s] by auto
    ultimately show ?thesis using s m(1) r by simp
  next
    case None
    with "1.prems" obtain pre' where r: "?after \<noteq> []" "findBegin (tl ?after) = Some (pre', kind, after)" "pre = ?line @ nl # pre'"
      by (auto simp: findBegin.simps [of s] Let_def split: if_splits option.splits)
    from "1.IH" [OF refl refl None r(1,2)]
    have ih: "tl ?after = pre' @ beginLine kind @ after" "after = [] \<or> hd after = nl"
      "\<And>y. y = [] \<or> hd y = nl \<Longrightarrow> findBegin (pre' @ beginLine kind @ y) = Some (pre', kind, y)" by blast+
    have "?after = nl # tl ?after" using r(1) hd_dropWhile [of "\<lambda>c. c \<noteq> nl" s] by (metis list.collapse)
    moreover have "findBegin (pre @ beginLine kind @ y) = Some (pre, kind, y)" if "y = [] \<or> hd y = nl" for y
    proof -
      let ?t = "pre @ beginLine kind @ y"
      have lines: "takeWhile (\<lambda>c. c \<noteq> nl) ?t = ?line" "dropWhile (\<lambda>c. c \<noteq> nl) ?t = nl # pre' @ beginLine kind @ y"
        unfolding r(3) by (auto simp: takeWhile_append dropWhile_append dest: set_takeWhileD)
      show ?thesis
        unfolding findBegin.simps [of ?t] Let_def lines None option.case list.sel ih(3) [OF that] using r(3) by simp
    qed
    ultimately show ?thesis using s r(3) ih(1,2) by (metis append.assoc append_Cons)
  qed
qed

lemma findBegin_shorter: "findBegin s = Some (pre, kind, after) \<Longrightarrow> length after < length s"
  using findBegin_Some [of s pre kind after] by (auto simp: beginLine_def beginPrefix_def)

function injectLoop ::
  "(string \<times> string) list \<Rightarrow> string \<Rightarrow> bool \<Rightarrow> string \<Rightarrow> string + string \<times> bool" where
  "injectLoop byKind b changed rest =
     (case findBegin rest of
        None \<Rightarrow> Inr (b @ rest, changed)
      | Some (pre, kind, after) \<Rightarrow>
          (let b = b @ pre @ beginLine kind @ [nl] in
           case go_index after endMark of
             None \<Rightarrow> Inl (''crd-ref:begin '' @ kind @ '' without matching crd-ref:end'')
           | Some endIdx \<Rightarrow>
               (case map_of byKind kind of
                  None \<Rightarrow> Inl (''no CRD schema found for kind '' @ Quote kind)
                | Some table \<Rightarrow>
                    injectLoop byKind (b @ table @ endMark) True (drop (endIdx + length endMark) after))))"
  by pat_completeness auto

termination
  by (relation "measure (\<lambda>(_, _, _, rest). length rest)") (auto dest!: findBegin_shorter)

declare injectLoop.simps [simp del]

definition inject :: "string \<Rightarrow> (string \<times> string) list \<Rightarrow> string + string \<times> bool" where
  "inject src byKind = injectLoop byKind [] False src"

section \<open>What a page consists of\<close>

text \<open>\<open>page src blocks tail\<close>: the page is a sequence of blocks, each with the text before its begin line, its
  kind and its body, and the text after the last block. \<open>layout\<close> puts a page together.\<close>

type_synonym block = "string \<times> string \<times> string"

inductive page :: "string \<Rightarrow> block list \<Rightarrow> string \<Rightarrow> bool" where
  page_end: "findBegin src = None \<Longrightarrow> page src [] src"
| page_block: "findBegin src = Some (pre, kind, after) \<Longrightarrow> go_index after endMark = Some i \<Longrightarrow>
    page (drop (i + length endMark) after) blocks tail \<Longrightarrow> page src ((pre, kind, take i after) # blocks) tail"

definition layout :: "block list \<Rightarrow> string \<Rightarrow> string" where
  "layout blocks tail = concat (map (\<lambda>(pre, kind, body). pre @ beginLine kind @ body @ endMark) blocks) @ tail"

definition refill :: "(string \<times> string) list \<Rightarrow> block \<Rightarrow> block" where
  "refill byKind blk = (case blk of (pre, kind, body) \<Rightarrow> (pre, kind, nl # the (map_of byKind kind)))"

definition known :: "(string \<times> string) list \<Rightarrow> block list \<Rightarrow> bool" where
  "known byKind blocks \<longleftrightarrow> (\<forall>(pre, kind, body) \<in> set blocks. map_of byKind kind \<noteq> None)"

lemma layout_Cons: "layout ((pre, kind, body) # blocks) tail = pre @ beginLine kind @ body @ endMark @ layout blocks tail"
  by (simp add: layout_def)

lemma refill_sel: "map_of byKind kind = Some table \<Longrightarrow> refill byKind (pre, kind, body) = (pre, kind, nl # table)"
  by (simp add: refill_def)

lemma index_split: "go_index s mark = Some i \<Longrightarrow> s = take i s @ mark @ drop (i + length mark) s"
  by (drule go_index_Some_append) auto

lemma page_layout: "page src blocks tail \<Longrightarrow> src = layout blocks tail"
proof (induction rule: page.induct)
  case (page_block src pre kind after i blocks tail)
  have "src = pre @ beginLine kind @ after" using findBegin_Some [OF page_block(1)] by blast
  with index_split [OF page_block(2)] page_block(4) show ?case by (simp add: layout_def)
qed (simp add: layout_def)

lemma page_inject:
  "page src blocks tail \<Longrightarrow> known byKind blocks \<Longrightarrow>
     injectLoop byKind b ch src = Inr (b @ layout (map (refill byKind) blocks) tail, ch \<or> blocks \<noteq> [])"
proof (induction arbitrary: b ch rule: page.induct)
  case (page_end src)
  then show ?case by (simp add: injectLoop.simps layout_def)
next
  case (page_block src pre kind after i blocks tail)
  then obtain table where "map_of byKind kind = Some table" "known byKind blocks" by (auto simp: known_def)
  with page_block show ?case by (simp add: injectLoop.simps [of byKind b] layout_def refill_def Let_def)
qed

lemma inject_page:
  "injectLoop byKind b ch src = Inr (out, ch') \<Longrightarrow> \<exists>blocks tail. page src blocks tail \<and> known byKind blocks"
proof (induction byKind b ch src rule: injectLoop.induct)
  case (1 byKind b changed rest)
  show ?case
  proof (cases "findBegin rest")
    case None
    then show ?thesis using page_end [of rest] by (force simp: known_def)
  next
    case (Some r)
    obtain pre kind after where r: "r = (pre, kind, after)" by (rule prod_cases3)
    from "1.prems" Some r obtain i table where i: "go_index after endMark = Some i" "map_of byKind kind = Some table"
      "injectLoop byKind ((b @ pre @ beginLine kind @ [nl]) @ table @ endMark) True (drop (i + length endMark) after) = Inr (out, ch')"
      by (auto simp: injectLoop.simps [of byKind b] Let_def split: option.splits)
    from "1.IH" [OF Some r [symmetric] refl refl i(1,2,3)] obtain blocks tail where
      "page (drop (i + length endMark) after) blocks tail" "known byKind blocks" by blast
    with page_block [OF _ i(1)] Some r i(2) show ?thesis by (fastforce simp: known_def)
  qed
qed

text \<open>The end mark starts with a character that it does not contain again, so it is found where it was put.\<close>

lemma go_index_first:
  assumes "mark = c # m" "c \<notin> set m" "\<not> Contains u mark"
  shows "go_index (u @ mark @ v) mark = Some (length u)"
  using assms(3)
proof (induction u)
  case Nil
  then show ?case using assms(1) by (simp add: HasPrefix_iff_prefix)
next
  case (Cons x u)
  have "\<not> Contains u mark" using Cons.prems Contains_append_left [of u mark "[x]"] by auto
  moreover have "\<not> prefix mark (x # u @ mark @ v)"
  proof
    assume "prefix mark (x # u @ mark @ v)"
    then have x: "x = c" "prefix m (u @ c # m @ v)" using assms(1) by auto
    then consider "prefix m u" | us where "m = u @ us" "prefix us (c # m @ v)" by (auto simp: prefix_append)
    then show False
    proof cases
      case 1
      then have "prefix mark (x # u)" using x(1) assms(1) by simp
      then show False using Cons.prems by (auto simp: Contains_iff prefix_def) (metis append_Nil)
    next
      case 2
      with assms(2) have "us = []" by (cases us) auto
      with 2 x(1) assms(1) have "x # u = mark" by simp
      then show False using Cons.prems by (auto simp: Contains_iff) (metis append_Nil append_Nil2)
    qed
  qed
  ultimately show ?case using Cons.IH by (simp add: HasPrefix_iff_prefix)
qed

definition clean :: "(string \<times> string) list \<Rightarrow> bool" where
  "clean byKind \<longleftrightarrow> (\<forall>kind table. map_of byKind kind = Some table \<longrightarrow> \<not> Contains table endMark)"

lemma endMark_first: "\<not> Contains u endMark \<Longrightarrow> go_index (u @ endMark @ v) endMark = Some (length u)"
  by (rule go_index_first [of _ "CHR ''<''" "''!-- crd-ref:end -->''"]) (simp_all add: endMark_def)

lemma Contains_nl: "\<not> Contains u endMark \<Longrightarrow> \<not> Contains (nl # u) endMark"
  by (auto simp: Contains_def endMark_def nl_def)

lemma page_refill:
  "page src blocks tail \<Longrightarrow> known byKind blocks \<Longrightarrow> clean byKind \<Longrightarrow>
     page (layout (map (refill byKind) blocks) tail) (map (refill byKind) blocks) tail"
proof (induction rule: page.induct)
  case (page_end src)
  then show ?case by (simp add: layout_def page.page_end)
next
  case (page_block src pre kind after i blocks tail)
  then obtain table where t: "map_of byKind kind = Some table" "known byKind blocks" by (auto simp: known_def)
  let ?rest = "layout (map (refill byKind) blocks) tail"
  let ?after = "(nl # table) @ endMark @ ?rest"
  have "\<not> Contains (nl # table) endMark" using t(1) page_block(6) Contains_nl by (simp add: clean_def)
  note i = endMark_first [OF this, of ?rest]
  have "findBegin (pre @ beginLine kind @ ?after) = Some (pre, kind, ?after)"
    using findBegin_Some [OF page_block(1)] by simp
  moreover have "page (drop (length (nl # table) + length endMark) ?after) (map (refill byKind) blocks) tail"
    using page_block(4) [OF t(2) page_block(6)] by simp
  ultimately have "page (pre @ beginLine kind @ ?after) ((pre, kind, take (length (nl # table)) ?after) # map (refill byKind) blocks) tail"
    using i by (blast intro: page.page_block)
  then show ?case using t(1) by (simp add: layout_Cons refill_sel)
qed

lemma refill_idem: "refill byKind (refill byKind blk) = refill byKind blk"
  by (simp add: refill_def split: prod.split)

lemma known_refill: "known byKind (map (refill byKind) blocks) = known byKind blocks"
  by (auto simp: known_def refill_def split: prod.splits)

lemma inject_regenerates:
  assumes "inject src byKind = Inr (out, did)" "clean byKind"
  shows "inject out byKind = Inr (out, did)" "\<not> did \<Longrightarrow> out = src"
    and "\<exists>blocks tail. page src blocks tail \<and> known byKind blocks \<and> out = layout (map (refill byKind) blocks) tail"
proof -
  obtain blocks tail where p: "page src blocks tail" "known byKind blocks"
    using inject_page assms(1) unfolding inject_def by blast
  from page_inject [OF this, of "[]" False] assms(1)
  have out: "out = layout (map (refill byKind) blocks) tail" "did = (blocks \<noteq> [])" by (simp_all add: inject_def)
  from page_inject [OF page_refill [OF p assms(2)], of byKind "[]" False] out p(2)
  show "inject out byKind = Inr (out, did)" by (simp add: inject_def known_refill refill_idem comp_def)
  show "\<exists>blocks tail. page src blocks tail \<and> known byKind blocks \<and> out = layout (map (refill byKind) blocks) tail"
    using p out by blast
  show "out = src" if "\<not> did" using that out page_layout [OF p(1)] by simp
qed

section \<open>The command\<close>

type_synonym files = "string \<Rightarrow> string option"

record gen_env =
  ge_glob :: "string \<Rightarrow> string \<Rightarrow> string + string list"
  ge_unmarshal :: "string \<Rightarrow> string + CustomResourceDefinition"
  ge_enumText :: "string \<Rightarrow> string option"
  ge_writeErr :: "string \<Rightarrow> string option"

definition ReadFile :: "files \<Rightarrow> string \<Rightarrow> string + string" where
  "ReadFile fs path =
     (case fs path of None \<Rightarrow> Inl (''open '' @ path @ '': no such file or directory'') | Some raw \<Rightarrow> Inr raw)"

fun indexCRDs ::
  "gen_env \<Rightarrow> files \<Rightarrow> string list \<Rightarrow> (string \<times> string) list \<Rightarrow> string + (string \<times> string) list" where
  "indexCRDs env fs [] byKind = Inr byKind"
| "indexCRDs env fs (path # paths) byKind =
     (case ReadFile fs path of
        Inl e \<Rightarrow> Inl e
      | Inr raw \<Rightarrow>
          (case ge_unmarshal env raw of
             Inl e \<Rightarrow> Inl (path @ '': '' @ e)
           | Inr crd \<Rightarrow>
               (case hubSchema (crd_Versions crd) of
                  None \<Rightarrow> indexCRDs env fs paths byKind
                | Some schema \<Rightarrow>
                    indexCRDs env fs paths (AList.update (crd_Kind crd) (renderKind (ge_enumText env) crd schema) byKind))))"

text \<open>The loop over the pages gives the returned error, the printed lines and the files.\<close>

fun updatePages ::
  "gen_env \<Rightarrow> (string \<times> string) list \<Rightarrow> string list \<Rightarrow> files \<Rightarrow> string option \<times> string list \<times> files" where
  "updatePages env byKind [] fs = (None, [], fs)"
| "updatePages env byKind (pg # pages) fs =
     (case ReadFile fs pg of
        Inl e \<Rightarrow> (Some e, [], fs)
      | Inr raw \<Rightarrow>
          (case inject raw byKind of
             Inl e \<Rightarrow> (Some (pg @ '': '' @ e), [], fs)
           | Inr (out, did) \<Rightarrow>
               if did then
                 (case ge_writeErr env pg of
                    Some e \<Rightarrow> (Some e, [], fs)
                  | None \<Rightarrow>
                      (case updatePages env byKind pages (fs(pg \<mapsto> out)) of
                         (e, printed, fs) \<Rightarrow> (e, (''crd-ref-gen: updated '' @ pg) # printed, fs)))
               else updatePages env byKind pages fs))"

definition run :: "gen_env \<Rightarrow> string \<Rightarrow> string \<Rightarrow> files \<Rightarrow> string option \<times> string list \<times> files" where
  "run env crdDir docsDir fs =
     (case ge_glob env crdDir ''*.yaml'' of
        Inl e \<Rightarrow> (Some e, [], fs)
      | Inr crds \<Rightarrow>
          (case indexCRDs env fs crds [] of
             Inl e \<Rightarrow> (Some e, [], fs)
           | Inr byKind \<Rightarrow>
               (case ge_glob env docsDir ''*.md'' of
                  Inl e \<Rightarrow> (Some e, [], fs)
                | Inr pages \<Rightarrow>
                    (case updatePages env byKind (sort pages) fs of
                       (Some e, printed, fs) \<Rightarrow> (Some e, printed, fs)
                     | (None, printed, fs) \<Rightarrow>
                         (None, if printed = [] then [''crd-ref-gen: no pages with crd-ref markers (nothing to do)'']
                                else printed, fs)))))"

lemma ReadFile_Inr: "ReadFile fs p = Inr raw \<longleftrightarrow> fs p = Some raw"
  by (auto simp: ReadFile_def split: option.splits)

lemma indexCRDs_cong: "\<forall>p \<in> set paths. fs p = fs' p \<Longrightarrow> indexCRDs env fs paths byKind = indexCRDs env fs' paths byKind"
proof (induction paths arbitrary: byKind)
  case (Cons p paths)
  then show ?case by (simp add: ReadFile_def split: option.splits sum.splits)
qed simp

lemma updatePages_again:
  assumes "updatePages env byKind pages fs = (None, printed, fs')" "distinct pages" "clean byKind"
  shows "(\<forall>p. p \<notin> set pages \<longrightarrow> fs' p = fs p) \<and> updatePages env byKind pages fs' = (None, printed, fs') \<and>
    (\<forall>p \<in> set pages. \<exists>src blocks tail. fs p = Some src \<and> page src blocks tail \<and> known byKind blocks \<and>
       fs' p = Some (layout (map (refill byKind) blocks) tail))"
  using assms(1,2)
proof (induction pages arbitrary: fs printed)
  case (Cons p pages)
  from Cons.prems obtain raw out did where r: "fs p = Some raw" "inject raw byKind = Inr (out, did)"
    by (auto simp: ReadFile_Inr split: sum.splits)
  note regen = inject_regenerates [OF r(2) assms(3)]
  define fs1 where "fs1 = (if did then fs(p \<mapsto> out) else fs)"
  obtain printed1 where u: "updatePages env byKind pages fs1 = (None, printed1, fs')"
    and pr: "printed = (if did then (''crd-ref-gen: updated '' @ p) # printed1 else printed1)"
    and w: "did \<longrightarrow> ge_writeErr env p = None"
    using Cons.prems(1) r by (auto simp: fs1_def ReadFile_def split: if_splits option.splits prod.splits)
  have f1: "fs1 p = Some out" using r(1) regen(2) by (auto simp: fs1_def)
  have d: "distinct pages" "p \<notin> set pages" using Cons.prems(2) by simp_all
  from Cons.IH [OF u d(1)] have ih: "\<And>q. q \<notin> set pages \<Longrightarrow> fs' q = fs1 q"
    "updatePages env byKind pages fs' = (None, printed1, fs')"
    "\<And>q. q \<in> set pages \<Longrightarrow> \<exists>src blocks tail. fs1 q = Some src \<and> page src blocks tail \<and> known byKind blocks \<and>
       fs' q = Some (layout (map (refill byKind) blocks) tail)" by blast+
  have out: "fs' p = Some out" using ih(1) [OF d(2)] f1 by simp
  then have "fs'(p \<mapsto> out) = fs'" by auto
  with out regen(1) ih(2) w pr have "updatePages env byKind (p # pages) fs' = (None, printed, fs')"
    by (auto simp: ReadFile_def)
  moreover have "\<exists>src blocks tail. fs p = Some src \<and> page src blocks tail \<and> known byKind blocks \<and>
       fs' p = Some (layout (map (refill byKind) blocks) tail)" using regen(3) r(1) out by blast
  moreover have "fs1 q = fs q" if "q \<noteq> p" for q using that by (simp add: fs1_def)
  ultimately show ?case using ih(1,3) d(2) by (metis set_ConsD list.set_intros(1,2))
qed simp

section \<open>Rendering does not depend on the order of a map\<close>

text \<open>Two representations of the same schema: the property maps list their entries in any order.\<close>

inductive same_schema :: "JSONSchemaProps \<Rightarrow> JSONSchemaProps \<Rightarrow> bool" where
  same: "rel_option same_schema items items' \<Longrightarrow> rel_option same_schema additional additional' \<Longrightarrow>
    distinct (map fst props) \<Longrightarrow> distinct (map fst props') \<Longrightarrow>
    (\<And>n. rel_option same_schema (map_of props n) (map_of props' n)) \<Longrightarrow>
    same_schema (Schema ty descr enum props req items additional) (Schema ty descr enum props' req items' additional')"

lemma sorted_entries:
  assumes "distinct (map fst ps)"
  shows "sort_key fst ps = map (\<lambda>n. (n, the (map_of ps n))) (sort (map fst ps))"
proof -
  have "the (map_of ps (fst p)) = snd p" if "p \<in> set ps" for p using map_of_is_SomeI [OF assms, of "fst p" "snd p"] that by simp
  then have "sort_key fst ps = map (\<lambda>p. (fst p, the (map_of ps (fst p)))) (sort_key fst ps)"
    by (auto simp: map_idI [symmetric] intro!: map_idI [symmetric])
  also have "\<dots> = map (\<lambda>n. (n, the (map_of ps n))) (map fst (sort_key fst ps))" by simp
  also have "map fst (sort_key fst ps) = sort (map fst ps)"
    by (rule properties_for_sort [symmetric]) simp_all
  finally show ?thesis .
qed

lemma same_sorted_entries:
  assumes "distinct (map fst ps)" "distinct (map fst qs)" "\<And>n. rel_option R (map_of ps n) (map_of qs n)"
  shows "list_all2 (\<lambda>(n, f) (n', f'). n' = n \<and> (n, f) \<in> set ps \<and> R f f') (sort_key fst ps) (sort_key fst qs)"
proof -
  have "map_of ps n = None \<longleftrightarrow> map_of qs n = None" for n using assms(3) [of n] by (cases "map_of ps n"; cases "map_of qs n") auto
  then have "set (map fst ps) = set (map fst qs)" by (auto simp: map_of_eq_None_iff set_eq_iff)
  then have "sort (map fst ps) = sort (map fst qs)" using assms(1,2) by (metis sorted_list_of_set_sort_remdups distinct_remdups_id)
  moreover have "(n, the (map_of ps n)) \<in> set ps \<and> R (the (map_of ps n)) (the (map_of qs n))" if "n \<in> set (map fst ps)" for n
  proof -
    from that obtain f where f: "map_of ps n = Some f" by (metis map_of_eq_None_iff not_None_eq set_map)
    with assms(3) [of n] obtain f' where "map_of qs n = Some f'" "R f f'" by (cases "map_of qs n") auto
    with f show ?thesis by (simp add: map_of_SomeD)
  qed
  then have "list_all2 (\<lambda>n m. m = n \<and> (n, the (map_of ps n)) \<in> set ps \<and> R (the (map_of ps n)) (the (map_of qs m)))
      (sort (map fst ps)) (sort (map fst ps))" by (intro list.rel_refl_strong) auto
  ultimately show ?thesis
    unfolding sorted_entries [OF assms(1)] sorted_entries [OF assms(2)] by (simp add: list_all2_map1 list_all2_map2)
qed

lemma same_typeOf: "same_schema a b \<Longrightarrow> typeOf enumText a = typeOf enumText b"
proof (induction rule: same_schema.induct)
  case (same items items' additional additional' props props' ty descr enum req)
  then show ?case by (cases items; cases items'; cases additional; cases additional') auto
qed

lemma same_none: "rel_option R x y \<Longrightarrow> x = None \<longleftrightarrow> y = None"
  by (cases x; cases y) auto

lemma map_of_Nil_iff: "ps = [] \<longleftrightarrow> (\<forall>n. map_of ps n = None)"
  by (cases ps) auto

lemma same_sel:
  assumes "same_schema a b"
  shows "sp_Type b = sp_Type a" "sp_Description b = sp_Description a" "sp_Properties b = [] \<longleftrightarrow> sp_Properties a = []"
  using assms by (auto elim!: same_schema.cases simp: map_of_Nil_iff dest: same_none)

lemma same_renderProps: "same_schema a b \<Longrightarrow> renderProps enumText pre a = renderProps enumText pre b"
proof (induction enumText pre a arbitrary: b rule: renderProps.induct)
  case (1 enumText pre ty descr enum props req items additional)
  from "1.prems" obtain props' items' additional' where
    b: "b = Schema ty descr enum props' req items' additional'"
    and ps: "distinct (map fst props)" "distinct (map fst props')" "\<And>n. rel_option same_schema (map_of props n) (map_of props' n)"
    by (cases rule: same_schema.cases) auto
  have row: "fieldRow enumText full r f' = fieldRow enumText full r f" if "same_schema f f'" for full r f f'
    using same_typeOf [OF that] same_sel [OF that] by (simp add: fieldRow_def)
  let ?full = "\<lambda>name. if pre \<noteq> [] then pre @ ''.'' @ name else name"
  let ?row = "\<lambda>(name, f). let full = ?full name in fieldRow enumText full (name \<in> set req) f @
      (if pre = [] \<and> sp_Type f = ''object'' \<and> sp_Properties f \<noteq> [] then renderProps enumText full f else [])"
  have "?row p = ?row q"
    if mem: "p \<in> set (sort_key fst props)" and rel: "case p of (n, f) \<Rightarrow> case q of (n', f') \<Rightarrow> n' = n \<and> (n, f) \<in> set props \<and> same_schema f f'" for p q
  proof -
    obtain n f f' where pq: "p = (n, f)" "q = (n, f')" "same_schema f f'" using rel by (cases p; cases q) auto
    have "renderProps enumText (?full n) f = renderProps enumText (?full n) f'"
      if "pre = [] \<and> sp_Type f = ''object'' \<and> sp_Properties f \<noteq> []"
      using "1.IH" [OF mem pq(1) [symmetric] refl that pq(3)] .
    then show ?thesis using row [OF pq(3)] same_sel [OF pq(3)] by (simp add: pq(1,2) Let_def)
  qed
  then have "map ?row (sort_key fst props) = map ?row (sort_key fst props')"
    using same_sorted_entries [OF ps]
    by (auto simp: list_all2_conv_all_nth intro!: nth_equalityI) 
  then show ?case unfolding b renderProps.simps by simp
qed

lemma same_renderSection:
  assumes "same_schema a b"
  shows "renderSection enumText a sec = renderSection enumText b sec"
proof -
  have "rel_option same_schema (map_of (sp_Properties a) sec) (map_of (sp_Properties b) sec)"
    using assms by (auto elim: same_schema.cases)
  then show ?thesis
    unfolding renderSection_def
    by (cases "map_of (sp_Properties a) sec"; cases "map_of (sp_Properties b) sec") (auto dest: same_renderProps)
qed

lemma same_renderKind: "same_schema a b \<Longrightarrow> renderKind enumText crd a = renderKind enumText crd b"
  by (simp add: renderKind_def same_renderSection [of a b])


definition demo_schema :: JSONSchemaProps where
  "demo_schema = Schema ''object'' [] []
     [(''spec'', Schema ''object'' [] []
         [(''queueName'', Schema ''string'' ''Name | of the queue'' [] [] [] None None),
          (''maxDepth'', Schema ''integer'' [] [] [] [] None None)] [''queueName''] None None)] [] None None"

definition demo_gen :: gen_env where
  "demo_gen =
     \<lparr>ge_glob = (\<lambda>dir pat. Inr (if pat = ''*.md'' then [''queue.md''] else [''queues.yaml''])),
      ge_unmarshal = (\<lambda>_. Inr \<lparr>crd_Group = ''mq'', crd_Kind = ''Queue'',
        crd_Versions = [\<lparr>ver_Name = hubVersion, ver_Schema = Some (Some demo_schema)\<rparr>]\<rparr>),
      ge_enumText = Some, ge_writeErr = (\<lambda>_. None)\<rparr>"

definition demo_files :: files where
  "demo_files = [''queues.yaml'' \<mapsto> ''crd'',
     ''queue.md'' \<mapsto> ''Queue'' @ [nl] @ beginLine ''Queue'' @ [nl] @ ''old'' @ [nl] @ endMark @ [nl] @ ''Examples'']"

definition demo_tables :: "(string \<times> string) list" where
  "demo_tables = [(''Queue'', renderKind Some \<lparr>crd_Group = ''mq'', crd_Kind = ''Queue'',
     crd_Versions = [\<lparr>ver_Name = hubVersion, ver_Schema = Some (Some demo_schema)\<rparr>]\<rparr> demo_schema)]"


end
