(* ===== verification/Health.thy ===== *)
theory Health
  imports QMC_Reconciler
begin

text \<open>
  \<open>internal/health/mq_connectivity.go\<close>: the readiness probe of the operator. It lists the
  connections and reads their conditions, so its verdict is a function of what the connection
  reconciler has written. The API reader is an argument over an arbitrary state.
\<close>

section \<open>The check\<close>

definition ErrNoHealthyQMC :: mq_error where
  "ErrNoHealthyQMC = PlainError ''no QueueManagerConnection reports Ready=True''"

definition qmcReady :: "QueueManagerConnection \<Rightarrow> bool" where
  "qmcReady conn = list_ex (\<lambda>c. cn_Type c = ConditionReady \<and> cn_Status c = ConditionTrue) (qm_Conditions conn)"

fun evaluateLoop :: "nat \<Rightarrow> QueueManagerConnection list \<Rightarrow> mq_error option" where
  "evaluateLoop active [] = (if active = 0 then None else Some ErrNoHealthyQMC)"
| "evaluateLoop active (conn # conns) =
     (if om_Deleting (c_meta conn) then evaluateLoop active conns
      else if qmcReady conn then None
      else evaluateLoop (active + 1) conns)"

definition EvaluateMQConnectivity :: "QueueManagerConnection list \<Rightarrow> mq_error option" where
  "EvaluateMQConnectivity conns = evaluateLoop 0 conns"

definition MQConnectivityChecker_Check ::
  "('w \<Rightarrow> QueueManagerConnection list result \<times> 'w) \<Rightarrow> 'w \<Rightarrow> mq_error option \<times> 'w" where
  "MQConnectivityChecker_Check list_conns w =
     (case list_conns w of
        (Inl err, w) \<Rightarrow> (Some (WrapError ''list QueueManagerConnections'' err), w)
      | (Inr items, w) \<Rightarrow> (EvaluateMQConnectivity items, w))"

abbreviation live :: "QueueManagerConnection \<Rightarrow> bool" where
  "live conn \<equiv> \<not> om_Deleting (c_meta conn)"

lemma evaluateLoop_spec:
  "evaluateLoop active conns =
     (if (\<exists>c \<in> set conns. live c \<and> qmcReady c) \<or> active = 0 \<and> (\<forall>c \<in> set conns. om_Deleting (c_meta c))
      then None else Some ErrNoHealthyQMC)"
  by (induction conns arbitrary: active) auto

lemma EvaluateMQConnectivity_spec:
  "EvaluateMQConnectivity conns = None \<longleftrightarrow>
     (\<exists>c \<in> set conns. live c \<and> qmcReady c) \<or> (\<forall>c \<in> set conns. om_Deleting (c_meta c))"
  "EvaluateMQConnectivity conns \<in> {None, Some ErrNoHealthyQMC}"
  by (auto simp: EvaluateMQConnectivity_def evaluateLoop_spec)

lemma qmcReady_conditions: "qmcReady conn = conditionsReady (qm_Conditions conn)"
  by (simp add: qmcReady_def conditionsReady_def)

section \<open>Readiness and the connection reconciler\<close>

text \<open>\<open>keeps_store k stored others\<close>: an accepted status write is what a later list returns, beside
  the other connections, and building a client or a ping does not change the stored objects.\<close>

definition keeps_store ::
  "'w qmc_kube \<Rightarrow> ('w \<Rightarrow> QueueManagerConnection list) \<Rightarrow> QueueManagerConnection list \<Rightarrow> bool" where
  "keeps_store k stored others \<longleftrightarrow>
     (\<forall>conn w. \<exists>w'. qk_statusUpdate k conn w = (Inr conn, w') \<and> stored w' = conn # others) \<and>
     (\<forall>conn w r w'. qk_forConnection k conn w = (r, w') \<longrightarrow> stored w' = stored w \<and>
        (\<forall>admin v e v'. r = Inr admin \<and> ad_Ping admin v = (e, v') \<longrightarrow> stored v' = stored v))"

definition writes_no_status :: "qmc_effect list \<Rightarrow> bool" where
  "writes_no_status new \<longleftrightarrow> (\<forall>old cs b. QStatusWrite old cs b \<notin> set new)"

text \<open>What the connectivity test leaves in the store: a connection with the same metadata that is
  ready exactly when the ping succeeded or when it was ready and nothing was written.\<close>

definition left_behind ::
  "QueueManagerConnection \<Rightarrow> QueueManagerConnection \<Rightarrow> qmc_effect list \<Rightarrow> bool" where
  "left_behind conn conn' new \<longleftrightarrow>
     c_meta conn' = c_meta conn \<and>
     (qmcReady conn' \<longleftrightarrow> QPing None \<in> set new \<or> qmcReady conn \<and> writes_no_status new)"

lemma qmcStatusUpdate_store:
  assumes "keeps_store k stored others" "qmcStatusUpdate k old conn s = (e, conn', s')"
  shows "e = None" "conn' = conn" "stored (qs_world s') = conn # others"
    "qs_log s' = QStatusWrite old (qm_Conditions conn) True # qs_log s"
proof -
  obtain w' where "qk_statusUpdate k conn (qs_world s) = (Inr conn, w')" "stored w' = conn # others"
    using assms(1) unfolding keeps_store_def by blast
  with assms(2) show "e = None" "conn' = conn" "stored (qs_world s') = conn # others"
    "qs_log s' = QStatusWrite old (qm_Conditions conn) True # qs_log s"
    by (auto simp: qmcStatusUpdate_def qlog_def)
qed

lemma setReady_meta [simp]:
  "c_meta (setReady lib st r m g conn) = c_meta conn"
  "qm_ObservedGeneration (setReady lib st r m g conn) = qm_ObservedGeneration conn"
  by (simp_all add: setReady_def)

abbreviation unique_conditions :: "QueueManagerConnection \<Rightarrow> bool" where
  "unique_conditions conn \<equiv> distinct (map cn_Type (qm_Conditions conn))"

lemma setReady_ready:
  assumes "k8s_lib_laws lib" "unique_conditions conn"
  shows "unique_conditions (setReady lib st r m g conn)"
    "qmcReady (setReady lib st r m g conn) \<longleftrightarrow> st = ConditionTrue"
proof -
  show u: "unique_conditions (setReady lib st r m g conn)"
    using k8s_lib_laws_simps(6) [OF assms] by (simp add: setReady_def setCondition_def)
  show "qmcReady (setReady lib st r m g conn) \<longleftrightarrow> st = ConditionTrue"
    using assms(1) by (simp add: qmcReady_conditions conditionsReady_reports [OF u])
qed

lemma qmc_fail_store:
  assumes lib: "k8s_lib_laws (qk_lib k)" and st: "keeps_store k stored others" and u: "unique_conditions conn"
    and "stored (qs_world s) = conn # others" "qmc_fail k conn gen err s = (out, s')"
  shows "\<exists>conn' new. stored (qs_world s') = conn' # others \<and> qs_log s' = new @ qs_log s \<and>
    left_behind conn conn' new"
  using assms(5)
proof (cases rule: qmc_fail_log)
  case keep
  then show ?thesis
    using assms(4) by (intro exI [of _ conn] exI [of _ "[]"])
      (simp add: left_behind_def writes_no_status_def)
next
  case (report b ws)
  let ?c = "setReady (qk_lib k) ConditionFalse ReasonError (Error err) gen conn"
  obtain e c1 s1 where up: "qmcStatusUpdate k (qm_Conditions conn) ?c (qmcWarning err s) = (e, c1, s1)"
    by (metis surj_pair)
  have "s' = s1" using assms(5) report(1) up
    by (auto simp: qmc_fail_def qmcAlreadyReady_def Let_def split: option.splits if_splits)
  then have "stored (qs_world s') = ?c # others" using qmcStatusUpdate_store [OF st up] by simp
  moreover have "left_behind conn ?c (QStatusWrite (qm_Conditions conn) (qm_Conditions ?c) b # ws)"
    using report(3) setReady_ready [OF lib u] by (auto simp: left_behind_def writes_no_status_def)
  ultimately show ?thesis using report(2) by (metis append_Cons)
qed

lemma left_behind_ping: "left_behind conn conn' new \<Longrightarrow> left_behind conn conn' (new @ [QPing (Some e)])"
  by (simp add: left_behind_def writes_no_status_def)

lemma keeps_store_client:
  assumes "keeps_store k stored others" "qk_forConnection k conn w = (r, w')"
  shows "stored w' = stored w" "r = Inr admin \<Longrightarrow> ad_Ping admin v = (e, v') \<Longrightarrow> stored v' = stored v"
  using assms unfolding keeps_store_def by metis+

lemma qmcConnect_store:
  assumes lib: "k8s_lib_laws (qk_lib k)" and st: "keeps_store k stored others" and u: "unique_conditions conn"
    and s: "stored (qs_world s) = conn # others" and run: "qmcConnect k conn gen ar s = (out, s')"
    and ar: "ar \<Longrightarrow> qmcReady conn"
  shows "\<exists>conn' new. stored (qs_world s') = conn' # others \<and> qs_log s' = new @ qs_log s \<and>
    left_behind conn conn' new"
  using run
proof (cases rule: qmcConnect_cases)
  case (no_client err w)
  from qmc_fail_store [OF lib st u _ this(2)] keeps_store_client [OF st this(1)] s show ?thesis by simp
next
  case (no_ping admin w err w2)
  have "stored w2 = conn # others" using keeps_store_client [OF st no_ping(1)] no_ping(2) s by simp
  with qmc_fail_store [OF lib st u _ no_ping(3)] obtain conn' new where
    "stored (qs_world s') = conn' # others" "qs_log s' = new @ QPing (Some err) # qs_log s"
    "left_behind conn conn' new" by auto
  then show ?thesis
    by (intro exI [of _ conn'] exI [of _ "new @ [QPing (Some err)]"]) (simp add: left_behind_ping)
next
  case (was_ready admin w w2)
  then show ?thesis using keeps_store_client [OF st was_ready(1)] s ar
    by (intro exI [of _ conn] exI [of _ "[QPing None]"]) (simp add: left_behind_def)
next
  case (report admin w w2 s2 e c1)
  let ?c = "connReady (qk_lib k) gen conn"
  have "qmcReady ?c" "c_meta ?c = c_meta conn"
    using setReady_ready(2) [OF lib u] by (simp_all add: qmcReady_def connReady_def)
  then show ?thesis using qmcStatusUpdate_store [OF st report(5)] report(4)
    by (intro exI [of _ ?c] exI [of _ "QStatusWrite (qm_Conditions conn) (qm_Conditions ?c) True # readyEvent conn @ [QPing None]"])
      (simp add: left_behind_def)
qed

lemma qmc_run_store:
  assumes lib: "k8s_lib_laws (qk_lib k)" and st: "keeps_store k stored others"
    and run: "QueueManagerConnectionReconciler_reconcile k ns n s = (out, s')"
    and get: "qk_get k ns n (qs_world s) = (Inr conn, w)" "stored w = conn # others"
    and conn: "live conn" "QueueManagerConnectionFinalizer \<in> set (om_Finalizers (c_meta conn))" "unique_conditions conn"
  shows "\<exists>conn' new. stored (qs_world s') = conn' # others \<and> qs_log s' = new @ qs_log s \<and>
    left_behind conn conn' new"
proof -
  let ?g = "om_Generation (c_meta conn)" and ?s = "s\<lparr>qs_world := w\<rparr>"
  have fin: "ContainsFinalizer (qk_lib k) QueueManagerConnectionFinalizer (om_Finalizers (c_meta conn))"
    using lib conn(2) by (simp add: k8s_lib_laws_simps)
  note step = run [unfolded QueueManagerConnectionReconciler_reconcile_def] get conn(1) fin
  show ?thesis
  proof (cases "qmcAlreadyReady conn ?g")
    case True
    with step have "qmcConnect k conn ?g True ?s = (out, s')" by (simp add: Let_def)
    from qmcConnect_store [OF lib st conn(3) _ this] True get(2) show ?thesis
      by (simp add: qmcAlreadyReady_def qmcReady_conditions)
  next
    case False
    let ?c = "setReady (qk_lib k) ConditionFalse ReasonProgressing ''Testing mqweb connectivity'' ?g conn"
    obtain e c1 s1 where up: "qmcStatusUpdate k (qm_Conditions conn) ?c ?s = (e, c1, s1)" by (metis surj_pair)
    note wr = qmcStatusUpdate_store [OF st up] and rd = setReady_ready [OF lib conn(3)]
    from step False up wr(1,2) have "qmcConnect k ?c ?g False s1 = (out, s')" by (simp add: Let_def)
    from qmcConnect_store [OF lib st rd(1) wr(3) this] wr(4) obtain conn' new where
      n: "stored (qs_world s') = conn' # others" "left_behind ?c conn' new"
      "qs_log s' = new @ QStatusWrite (qm_Conditions conn) (qm_Conditions ?c) True # qs_log s" by auto
    let ?new = "new @ [QStatusWrite (qm_Conditions conn) (qm_Conditions ?c) True]"
    have "\<not> writes_no_status ?new" unfolding writes_no_status_def by (meson in_set_conv_decomp)
    with n(2) rd(2) have "left_behind conn conn' ?new" by (simp add: left_behind_def)
    with n show ?thesis by (intro exI [of _ conn'] exI [of _ ?new]) simp
  qed
qed



end
