(* ===== verification/Validation.thy ===== *)
theory Validation
  imports Client_Factory Workload_Reconcilers
begin

text \<open>
  Admission validation, \<open>internal/validation\<close>: checks of specs that need the cluster (the
  referenced connection, channel and secrets exist), the requirements of sender channels, the
  warnings on attribute keys and the guard on deleting a connection.

  The API server behind the reader is the record \<open>reader\<close>; every call takes and returns the state
  of the world, so two calls may see different objects. A \<open>field.ErrorList\<close> is a list of
  \<open>field_error\<close>, a \<open>field.Path\<close> is its printed form. A list call that fails with a
  not-registered error leaves the list empty, as the code ignores that error.
\<close>

section \<open>The reader and field errors\<close>

record 'w reader =
  rd_getConn :: "string \<Rightarrow> string \<Rightarrow> 'w \<Rightarrow> QueueManagerConnection result \<times> 'w"
  rd_getSecret :: "string \<Rightarrow> string \<Rightarrow> 'w \<Rightarrow> Secret result \<times> 'w"
  rd_listQueues :: "string \<Rightarrow> 'w \<Rightarrow> Queue list result \<times> 'w"
  rd_listTopics :: "string \<Rightarrow> 'w \<Rightarrow> Topic list result \<times> 'w"
  rd_listChannels :: "string \<Rightarrow> 'w \<Rightarrow> Channel list result \<times> 'w"
  rd_listRules :: "string \<Rightarrow> 'w \<Rightarrow> ChannelAuthRule list result \<times> 'w"
  rd_listAuthorities :: "string \<Rightarrow> 'w \<Rightarrow> AuthorityRecord list result \<times> 'w"

datatype field_error =
    FieldRequired string string
  | FieldNotFound string string
  | FieldInvalid string string string
  | FieldInternal string mq_error

section \<open>References\<close>

definition ValidateConnectionRef ::
  "'w reader \<Rightarrow> string \<Rightarrow> string \<Rightarrow> string \<Rightarrow> 'w \<Rightarrow> field_error list \<times> 'w" where
  "ValidateConnectionRef rd namespace refName path w =
     (if refName = [] then ([FieldRequired path ''connectionRef.name is required''], w)
      else (case rd_getConn rd namespace refName w of
              (Inl err, w) \<Rightarrow>
                if k8s_IsNotFound err
                then ([FieldNotFound path (''QueueManagerConnection '' @ Quote refName @
                         '' not found in namespace '' @ Quote namespace)], w)
                else ([FieldInternal path (WrapError (''get QueueManagerConnection '' @ Quote refName) err)], w)
            | (Inr conn, w) \<Rightarrow>
                if om_Deleting (c_meta conn)
                then ([FieldInvalid path refName (''QueueManagerConnection '' @ Quote refName @
                         '' is deleting; remove or wait for deletion to finish before creating dependents'')], w)
                else ([], w)))"

definition channelMatchesRef :: "string \<Rightarrow> string \<Rightarrow> Channel \<Rightarrow> bool" where
  "channelMatchesRef connectionRefName channelName ch =
     (if ch_ChannelName (w_Spec ch) \<noteq> channelName then False
      else if connectionRefName \<noteq> [] \<and> w_ConnectionRef ch \<noteq> connectionRefName then False
      else True)"

definition channelDeletingError :: "string \<Rightarrow> string \<Rightarrow> Channel \<Rightarrow> field_error" where
  "channelDeletingError path channelName ch =
     FieldInvalid path channelName (''Channel '' @ Quote (om_Name (w_meta ch)) @
       '' is deleting; wait for deletion to finish or point channelName at another Channel'')"

text \<open>The first listing decides; only when it has no match is the list read a second time.\<close>

definition managedChannelSecondList ::
  "'w reader \<Rightarrow> string \<Rightarrow> string \<Rightarrow> string \<Rightarrow> string \<Rightarrow> 'w \<Rightarrow> field_error list \<times> 'w" where
  "managedChannelSecondList rd namespace connectionRefName channelName path w =
     (let notFound = [FieldNotFound path (''Channel with channelName '' @ Quote channelName @
            '' and connectionRef '' @ Quote connectionRefName @ '' not found in namespace '' @
            Quote namespace @ ''; create a Channel CR first'')] in
      case rd_listChannels rd namespace w of
        (Inl err, w) \<Rightarrow>
          if \<not> k8s_IsNotRegistered err then ([FieldInternal path (WrapError ''list Channels (v1beta1)'' err)], w)
          else (notFound, w)
      | (Inr items, w) \<Rightarrow>
          (case find (channelMatchesRef connectionRefName channelName) items of
             Some ch \<Rightarrow>
               if om_Deleting (w_meta ch) then ([channelDeletingError path channelName ch], w) else ([], w)
           | None \<Rightarrow> (notFound, w)))"

definition ValidateManagedChannelRef ::
  "'w reader \<Rightarrow> string \<Rightarrow> string \<Rightarrow> string \<Rightarrow> string \<Rightarrow> 'w \<Rightarrow> field_error list \<times> 'w" where
  "ValidateManagedChannelRef rd namespace connectionRefName channelName path w =
     (if channelName = [] then ([], w)
      else (case rd_listChannels rd namespace w of
              (Inl err, w) \<Rightarrow>
                if \<not> k8s_IsNotRegistered err then ([FieldInternal path (WrapError ''list Channels'' err)], w)
                else managedChannelSecondList rd namespace connectionRefName channelName path w
            | (Inr items, w) \<Rightarrow>
                (case find (channelMatchesRef connectionRefName channelName) items of
                   Some ch \<Rightarrow>
                     if om_Deleting (w_meta ch) then ([channelDeletingError path channelName ch], w) else ([], w)
                 | None \<Rightarrow> managedChannelSecondList rd namespace connectionRefName channelName path w)))"

section \<open>Attribute keys\<close>

definition queueLocalKnownAttrs :: "string list" where
  "queueLocalKnownAttrs =
     [''maxdepth'', ''descr'', ''defpsist'', ''get'', ''put'', ''maxmsglen'', ''share'', ''defopts'',
      ''bothresh'', ''boqname'', ''usage'', ''trigtype'', ''trigdata'', ''trigmpri'', ''trigint'',
      ''trigdpth'', ''cluster'', ''clusnl'']"

definition queueAliasKnownAttrs :: "string list" where
  "queueAliasKnownAttrs = [''targq'', ''targtype'', ''descr'', ''target'']"

definition queueRemoteKnownAttrs :: "string list" where
  "queueRemoteKnownAttrs =
     [''rname'', ''rqmname'', ''xmitq'', ''descr'', ''remotequeue'', ''remotemanager'', ''transmissionqueue'']"

definition topicKnownAttrs :: "string list" where
  "topicKnownAttrs =
     [''topstr'', ''topicstr'', ''descr'', ''pub'', ''sub'', ''defpsist'', ''pubscope'', ''subscope'',
      ''toptype'', ''cluster'']"

definition channelKnownAttrs :: "string list" where
  "channelKnownAttrs =
     [''descr'', ''trptype'', ''sharecnv'', ''maxmsgl'', ''mcauser'', ''maxinst'', ''maxinstc'',
      ''sslciph'', ''sslcauth'', ''conname'', ''xmitq'']"

definition unknownAttrWarning :: "string \<Rightarrow> string" where
  "unknownAttrWarning k =
     ''attribute key '' @ Quote k @ '' is not in the drift-check allow-list; '' @
     ''it may still be applied by MQ but is ignored for drift detection''"

definition unknownAttributeWarnings :: "attrs \<Rightarrow> string list \<Rightarrow> string list" where
  "unknownAttributeWarnings attrs known =
     map (\<lambda>(k, v). unknownAttrWarning k)
       (filter (\<lambda>(k, v). NormalizeAttrKey k \<notin> set known \<and> k \<notin> set known) attrs)"

definition unknownQueueAttributeWarnings :: "string \<Rightarrow> attrs \<Rightarrow> string list" where
  "unknownQueueAttributeWarnings qType attrs =
     (let t = NormalizeQueueType qType;
          known = (if t = QueueTypeAlias then queueAliasKnownAttrs
                   else if t = QueueTypeRemote then queueRemoteKnownAttrs
                   else queueLocalKnownAttrs)
      in unknownAttributeWarnings attrs known)"

definition unknownTopicAttributeWarnings :: "attrs \<Rightarrow> string list" where
  "unknownTopicAttributeWarnings attrs = unknownAttributeWarnings attrs topicKnownAttrs"

definition unknownChannelAttributeWarnings :: "attrs \<Rightarrow> string list" where
  "unknownChannelAttributeWarnings attrs = unknownAttributeWarnings attrs channelKnownAttrs"

definition deprecatedQueueAttributeFields :: attrs where
  "deprecatedQueueAttributeFields =
     [(''maxdepth'', ''spec.maxDepth''), (''descr'', ''spec.description''),
      (''defpsist'', ''spec.defPersistence''), (''get'', ''spec.get''), (''put'', ''spec.put''),
      (''targq'', ''spec.targetQueue''), (''target'', ''spec.targetQueue''),
      (''xmitq'', ''spec.xmitQueue''), (''transmissionqueue'', ''spec.xmitQueue''),
      (''rqmname'', ''spec.remoteQueueManager''), (''remotemanager'', ''spec.remoteQueueManager'')]"

definition deprecatedTopicAttributeFields :: attrs where
  "deprecatedTopicAttributeFields =
     [(''topstr'', ''spec.topicString''), (''topicstr'', ''spec.topicString''),
      (''descr'', ''spec.description''), (''pub'', ''spec.publish''), (''sub'', ''spec.subscribe''),
      (''defpsist'', ''spec.defPersistence''), (''pubscope'', ''spec.publishScope''),
      (''subscope'', ''spec.subscribeScope'')]"

definition deprecatedChannelAttributeFields :: attrs where
  "deprecatedChannelAttributeFields =
     [(''descr'', ''spec.description''), (''maxmsgl'', ''spec.maxMsgLength''),
      (''trptype'', ''spec.transportType''), (''sharecnv'', ''spec.shareConv''),
      (''mcauser'', ''spec.mcaUser''), (''maxinst'', ''spec.maxInstances''),
      (''maxinstc'', ''spec.maxInstancesClient''), (''sslciph'', ''spec.sslCipherSpec''),
      (''sslcauth'', ''spec.sslClientAuth''), (''conname'', ''spec.connName''),
      (''xmitq'', ''spec.xmitQueue'')]"

fun deprecatedAttributeWarnings :: "attrs \<Rightarrow> attrs \<Rightarrow> string list" where
  "deprecatedAttributeWarnings [] replacements = []"
| "deprecatedAttributeWarnings ((key, v) # attrs) replacements =
     (case map_of replacements (NormalizeAttrKey key) of
        None \<Rightarrow> deprecatedAttributeWarnings attrs replacements
      | Some replacement \<Rightarrow>
          (''spec.attributes['' @ Quote key @ ''] is deprecated; use '' @ replacement) #
          deprecatedAttributeWarnings attrs replacements)"

definition deprecatedQueueAttributeWarnings :: "attrs \<Rightarrow> string list" where
  "deprecatedQueueAttributeWarnings attrs = deprecatedAttributeWarnings attrs deprecatedQueueAttributeFields"

definition deprecatedTopicAttributeWarnings :: "attrs \<Rightarrow> string list" where
  "deprecatedTopicAttributeWarnings attrs = deprecatedAttributeWarnings attrs deprecatedTopicAttributeFields"

definition deprecatedChannelAttributeWarnings :: "attrs \<Rightarrow> string list" where
  "deprecatedChannelAttributeWarnings attrs = deprecatedAttributeWarnings attrs deprecatedChannelAttributeFields"

definition attrValue :: "attrs \<Rightarrow> string \<Rightarrow> string" where
  "attrValue attrs key =
     (case map_of attrs key of
        Some v \<Rightarrow> v
      | None \<Rightarrow> (case map_of attrs (NormalizeAttrKey key) of Some v \<Rightarrow> v | None \<Rightarrow> []))"

section \<open>Specs of the workload kinds\<close>

abbreviation "connectionRefPath \<equiv> ''spec.connectionRef.name''"

definition validateChannelTypeRequirementsV1Beta1 :: "ChannelSpecCR \<Rightarrow> field_error list" where
  "validateChannelTypeRequirementsV1Beta1 spec =
     (if NormalizeChannelType (ch_Type spec) = ChannelTypeSdr
      then (if ch_ConnName spec = [] \<and> attrValue (ch_Attributes spec) ''conname'' = []
            then [FieldRequired ''spec.connName'' ''SDR channels require connName or attributes.conname''] else []) @
           (if ch_XmitQueue spec = [] \<and> attrValue (ch_Attributes spec) ''xmitq'' = []
            then [FieldRequired ''spec.xmitQueue'' ''SDR channels require xmitQueue or attributes.xmitq''] else [])
      else [])"

definition validateChannelTypeRequirements :: "ChannelSpecCR \<Rightarrow> field_error list" where
  "validateChannelTypeRequirements spec =
     (if NormalizeChannelType (ch_Type spec) = ChannelTypeSdr
      then (if ch_ConnName spec = [] \<and> attrValue (ch_Attributes spec) ''conname'' = []
            then [FieldRequired ''spec.connName'' ''SDR channels require connName or attributes.conname''] else []) @
           (if ch_XmitQueue spec = [] \<and> attrValue (ch_Attributes spec) ''xmitq'' = []
            then [FieldRequired ''spec.xmitQueue'' ''SDR channels require xmitQueue or attributes.xmitq''] else [])
      else [])"

text \<open>The functions without the suffix are the older variants, without deprecation warnings.
  A spec function takes the connection reference, which the Go spec structs contain, apart.\<close>

definition ValidateQueueSpec ::
  "'w reader \<Rightarrow> string \<Rightarrow> string \<Rightarrow> QueueSpecCR \<Rightarrow> 'w \<Rightarrow> (string list \<times> field_error list) \<times> 'w" where
  "ValidateQueueSpec rd namespace connectionRef spec w =
     (case ValidateConnectionRef rd namespace connectionRef connectionRefPath w of
        (errs, w) \<Rightarrow> ((unknownQueueAttributeWarnings (q_Type spec) (q_Attributes spec), errs), w))"

definition ValidateQueueSpecV1Beta1 ::
  "'w reader \<Rightarrow> string \<Rightarrow> string \<Rightarrow> QueueSpecCR \<Rightarrow> 'w \<Rightarrow> (string list \<times> field_error list) \<times> 'w" where
  "ValidateQueueSpecV1Beta1 rd namespace connectionRef spec w =
     (case ValidateConnectionRef rd namespace connectionRef connectionRefPath w of
        (errs, w) \<Rightarrow>
          ((deprecatedQueueAttributeWarnings (q_Attributes spec) @
            unknownQueueAttributeWarnings (q_Type spec) (q_Attributes spec), errs), w))"

definition ValidateTopicSpec ::
  "'w reader \<Rightarrow> string \<Rightarrow> string \<Rightarrow> TopicSpecCR \<Rightarrow> 'w \<Rightarrow> (string list \<times> field_error list) \<times> 'w" where
  "ValidateTopicSpec rd namespace connectionRef spec w =
     (case ValidateConnectionRef rd namespace connectionRef connectionRefPath w of
        (errs, w) \<Rightarrow> ((unknownTopicAttributeWarnings (t_Attributes spec), errs), w))"

definition ValidateTopicSpecV1Beta1 ::
  "'w reader \<Rightarrow> string \<Rightarrow> string \<Rightarrow> TopicSpecCR \<Rightarrow> 'w \<Rightarrow> (string list \<times> field_error list) \<times> 'w" where
  "ValidateTopicSpecV1Beta1 rd namespace connectionRef spec w =
     (case ValidateConnectionRef rd namespace connectionRef connectionRefPath w of
        (errs, w) \<Rightarrow>
          ((deprecatedTopicAttributeWarnings (t_Attributes spec) @
            unknownTopicAttributeWarnings (t_Attributes spec), errs), w))"

definition ValidateChannelSpec ::
  "'w reader \<Rightarrow> string \<Rightarrow> string \<Rightarrow> ChannelSpecCR \<Rightarrow> 'w \<Rightarrow> (string list \<times> field_error list) \<times> 'w" where
  "ValidateChannelSpec rd namespace connectionRef spec w =
     (case ValidateConnectionRef rd namespace connectionRef connectionRefPath w of
        (errs, w) \<Rightarrow>
          ((unknownChannelAttributeWarnings (ch_Attributes spec),
            errs @ validateChannelTypeRequirements spec), w))"

definition ValidateChannelSpecV1Beta1 ::
  "'w reader \<Rightarrow> string \<Rightarrow> string \<Rightarrow> ChannelSpecCR \<Rightarrow> 'w \<Rightarrow> (string list \<times> field_error list) \<times> 'w" where
  "ValidateChannelSpecV1Beta1 rd namespace connectionRef spec w =
     (case ValidateConnectionRef rd namespace connectionRef connectionRefPath w of
        (errs, w) \<Rightarrow>
          ((deprecatedChannelAttributeWarnings (ch_Attributes spec) @
            unknownChannelAttributeWarnings (ch_Attributes spec),
            errs @ validateChannelTypeRequirementsV1Beta1 spec), w))"

abbreviation "ChannelAuthRuleTypeBlockAddr \<equiv> ''BLOCKADDR''"

definition ValidateChannelAuthRuleSpecV1Beta1 ::
  "'w reader \<Rightarrow> string \<Rightarrow> string \<Rightarrow> ChannelAuthRuleSpecCR \<Rightarrow> 'w \<Rightarrow> field_error list \<times> 'w" where
  "ValidateChannelAuthRuleSpecV1Beta1 rd namespace connectionRef spec w =
     (case ValidateConnectionRef rd namespace connectionRef connectionRefPath w of
        (errs, w) \<Rightarrow>
          if r_RuleType spec = ChannelAuthRuleTypeBlockAddr \<and> r_ChannelName spec = ''*'' then (errs, w)
          else (case ValidateManagedChannelRef rd namespace connectionRef (r_ChannelName spec) ''spec.channelName'' w of
                  (errs', w) \<Rightarrow> (errs @ errs', w)))"

definition ValidateChannelAuthRuleSpec ::
  "'w reader \<Rightarrow> string \<Rightarrow> string \<Rightarrow> ChannelAuthRuleSpecCR \<Rightarrow> 'w \<Rightarrow> field_error list \<times> 'w" where
  "ValidateChannelAuthRuleSpec rd namespace connectionRef spec w =
     (case ValidateConnectionRef rd namespace connectionRef connectionRefPath w of
        (errs, w) \<Rightarrow>
          if r_RuleType spec = ChannelAuthRuleTypeBlockAddr \<and> r_ChannelName spec = ''*'' then (errs, w)
          else (case ValidateManagedChannelRef rd namespace connectionRef (r_ChannelName spec) ''spec.channelName'' w of
                  (errs', w) \<Rightarrow> (errs @ errs', w)))"

definition ValidateAuthorityRecordSpec ::
  "'w reader \<Rightarrow> string \<Rightarrow> string \<Rightarrow> AuthorityRecordSpecCR \<Rightarrow> 'w \<Rightarrow> field_error list \<times> 'w" where
  "ValidateAuthorityRecordSpec rd namespace connectionRef spec w =
     ValidateConnectionRef rd namespace connectionRef connectionRefPath w"

definition ValidateAuthorityRecordSpecV1Beta1 ::
  "'w reader \<Rightarrow> string \<Rightarrow> string \<Rightarrow> AuthorityRecordSpecCR \<Rightarrow> 'w \<Rightarrow> field_error list \<times> 'w" where
  "ValidateAuthorityRecordSpecV1Beta1 rd namespace connectionRef spec w =
     ValidateConnectionRef rd namespace connectionRef connectionRefPath w"

section \<open>Connections\<close>

definition insecureTLSWithoutOptInMsg :: string where
  "insecureTLSWithoutOptInMsg =
     ''tls.insecureSkipVerify requires annotation '' @ AllowInsecureTLSAnnotation @
     ''=\"true\" (dev/local only; do not use in production)''"

definition credentialsSecretUsernameKeys :: "string list" where
  "credentialsSecretUsernameKeys = [''username'', ''user'', ''mqAdminUser'']"

definition credentialsSecretHasUsername :: "attrs \<Rightarrow> bool" where
  "credentialsSecretHasUsername data =
     list_ex (\<lambda>key. case map_of data key of Some v \<Rightarrow> length v > 0 | None \<Rightarrow> False) credentialsSecretUsernameKeys"

text \<open>The dash of the message is three bytes of UTF-8.\<close>

definition credentialsSecretUsernameWarnings :: "Secret \<Rightarrow> string list" where
  "credentialsSecretUsernameWarnings secret =
     (if credentialsSecretHasUsername (s_Data secret) then []
      else [''credentials Secret '' @ Quote (om_Name (s_meta secret)) @ '' has no username key '' @
            ''(expected one of username, user, or mqAdminUser); mqweb login will default to \"admin\" '' @
            [CHR 0xE2, CHR 0x80, CHR 0x94] @ '' set an explicit username for production''])"

definition allowInsecureTLS :: "attrs \<Rightarrow> bool" where
  "allowInsecureTLS annotations = (ParseBool (getz annotations AllowInsecureTLSAnnotation) = Some True)"

definition getSecretOrErrors ::
  "'w reader \<Rightarrow> string \<Rightarrow> string \<Rightarrow> string \<Rightarrow> 'w \<Rightarrow> (field_error list \<times> Secret option) \<times> 'w" where
  "getSecretOrErrors rd namespace name path w =
     (case rd_getSecret rd namespace name w of
        (Inl err, w) \<Rightarrow>
          if k8s_IsNotFound err
          then (([FieldNotFound path (''Secret '' @ Quote name @ '' not found in namespace '' @ Quote namespace)], None), w)
          else (([FieldInternal path (WrapError (''get Secret '' @ Quote name) err)], None), w)
      | (Inr secret, w) \<Rightarrow> (([], Some secret), w))"

definition validateSecretExists ::
  "'w reader \<Rightarrow> string \<Rightarrow> string \<Rightarrow> string \<Rightarrow> 'w \<Rightarrow> field_error list \<times> 'w" where
  "validateSecretExists rd namespace name path w =
     (case getSecretOrErrors rd namespace name path w of ((errs, secret), w) \<Rightarrow> (errs, w))"

text \<open>\<open>credName\<close> is \<open>spec.CredentialsSecretRef.Name\<close>, \<open>tls\<close> is \<open>spec.TLS\<close>: the function reads
  nothing else of the spec.\<close>

definition ValidateQueueManagerConnectionSpec ::
  "'w reader \<Rightarrow> string \<Rightarrow> attrs \<Rightarrow> string \<Rightarrow> TLSConfig option \<Rightarrow> 'w \<Rightarrow> (string list \<times> field_error list) \<times> 'w" where
  "ValidateQueueManagerConnectionSpec rd namespace annotations credName tls w =
     (case (if credName \<noteq> []
            then (case getSecretOrErrors rd namespace credName ''spec.credentialsSecretRef.name'' w of
                    ((secretErrs, credSecret), w) \<Rightarrow>
                      ((case credSecret of Some s \<Rightarrow> credentialsSecretUsernameWarnings s | None \<Rightarrow> [], secretErrs), w))
            else (([], []), w)) of
        ((warnings, errs), w) \<Rightarrow>
          (case tls of
             None \<Rightarrow> ((warnings, errs), w)
           | Some t \<Rightarrow>
               (let errs = errs @
                      (if tls_InsecureSkipVerify t \<and> \<not> allowInsecureTLS annotations
                       then [FieldInvalid ''spec.tls.insecureSkipVerify'' ''true'' insecureTLSWithoutOptInMsg] else [])
                in case tls_CASecretRef t of
                     Some ca \<Rightarrow>
                       if ca \<noteq> []
                       then (case validateSecretExists rd namespace ca ''spec.tls.caSecretRef.name'' w of
                               (caErrs, w) \<Rightarrow> ((warnings, errs @ caErrs), w))
                       else ((warnings, errs), w)
                   | None \<Rightarrow> ((warnings, errs), w))))"

definition validateClientCertSecret :: "'w reader \<Rightarrow> string \<Rightarrow> string \<Rightarrow> 'w \<Rightarrow> field_error list \<times> 'w" where
  "validateClientCertSecret rd namespace name w =
     (let path = ''spec.authentication.clientCert.secretRef.name'' in
      case getSecretOrErrors rd namespace name path w of
        ((errs, secret), w) \<Rightarrow>
          (case secret of
             None \<Rightarrow> (errs, w)
           | Some sec \<Rightarrow>
               if length errs > 0 then (errs, w)
               else (map (\<lambda>key. FieldInvalid path name (''client certificate Secret '' @ Quote name @
                            '' must contain a non-empty '' @ Quote key @ '' (a kubernetes.io/tls-shaped Secret)''))
                       (filter (\<lambda>key. case map_of (s_Data sec) key of None \<Rightarrow> True | Some v \<Rightarrow> length v = 0)
                          [''tls.crt'', ''tls.key'']), w)))"

definition ValidateQueueManagerConnectionSpecV1Beta1 ::
  "'w reader \<Rightarrow> string \<Rightarrow> attrs \<Rightarrow> QueueManagerConnection \<Rightarrow> 'w \<Rightarrow> (string list \<times> field_error list) \<times> 'w" where
  "ValidateQueueManagerConnectionSpecV1Beta1 rd namespace annotations spec w =
     (case (case qm_Authentication spec of
              Some a \<Rightarrow> if ma_Mode a = MQWebAuthenticationModeClientCert then ma_ClientCert a else None
            | None \<Rightarrow> None) of
        Some clientCert \<Rightarrow>
          (case validateClientCertSecret rd namespace clientCert w of (errs, w) \<Rightarrow> (([], errs), w))
      | None \<Rightarrow>
          (let credName = (case qm_CredentialsSecretRef spec of Some n \<Rightarrow> n | None \<Rightarrow> []);
               credName =
                 (case qm_Authentication spec of
                    None \<Rightarrow> credName
                  | Some a \<Rightarrow>
                      if ma_Mode a = MQWebAuthenticationModeBasic \<and> ma_Basic a \<noteq> None then the (ma_Basic a)
                      else if ma_Mode a = MQWebAuthenticationModeLTPA \<and> ma_LTPA a \<noteq> None then the (ma_LTPA a)
                      else credName)
           in ValidateQueueManagerConnectionSpec rd namespace annotations credName (qm_TLS spec) w))"

section \<open>Deleting a connection\<close>

definition connectionDependents :: "string \<Rightarrow> string \<Rightarrow> 'spec workload list \<Rightarrow> (string \<times> string) list" where
  "connectionDependents kind connName items =
     map (\<lambda>item. (kind, om_Name (w_meta item))) (filter (\<lambda>item. w_ConnectionRef item = connName) items)"

text \<open>One list block: an error other than not-registered ends the listing.\<close>

definition listBlock ::
  "(string \<Rightarrow> 'w \<Rightarrow> 'spec workload list result \<times> 'w) \<Rightarrow> string \<Rightarrow> string \<Rightarrow> string \<Rightarrow> string \<Rightarrow>
     (string \<times> string) list \<Rightarrow> 'w \<Rightarrow> (field_error list + (string \<times> string) list) \<times> 'w" where
  "listBlock listFn kind plural namespace connName dependents w =
     (case listFn namespace w of
        (Inl err, w) \<Rightarrow>
          if \<not> k8s_IsNotRegistered err
          then (Inl [FieldInternal ''metadata.name'' (WrapError (''list '' @ plural) err)], w)
          else (Inr dependents, w)
      | (Inr items, w) \<Rightarrow> (Inr (dependents @ connectionDependents kind connName items), w))"

definition listConnectionDependents ::
  "'w reader \<Rightarrow> string \<Rightarrow> string \<Rightarrow> 'w \<Rightarrow> (field_error list + (string \<times> string) list) \<times> 'w" where
  "listConnectionDependents rd namespace connName w =
     (case listBlock (rd_listQueues rd) ''Queue'' ''Queues'' namespace connName [] w of
        (Inl errs, w) \<Rightarrow> (Inl errs, w)
      | (Inr deps, w) \<Rightarrow>
     (case listBlock (rd_listTopics rd) ''Topic'' ''Topics'' namespace connName deps w of
        (Inl errs, w) \<Rightarrow> (Inl errs, w)
      | (Inr deps, w) \<Rightarrow>
     (case listBlock (rd_listChannels rd) ''Channel'' ''Channels'' namespace connName deps w of
        (Inl errs, w) \<Rightarrow> (Inl errs, w)
      | (Inr deps, w) \<Rightarrow>
     (case listBlock (rd_listRules rd) ''ChannelAuthRule'' ''ChannelAuthRules'' namespace connName deps w of
        (Inl errs, w) \<Rightarrow> (Inl errs, w)
      | (Inr deps, w) \<Rightarrow>
        listBlock (rd_listAuthorities rd) ''AuthorityRecord'' ''AuthorityRecords'' namespace connName deps w))))"

definition formatDependents :: "(string \<times> string) list \<Rightarrow> string" where
  "formatDependents dependents = go_join (map (\<lambda>(kind, name). kind @ '' '' @ Quote name) dependents) '', ''"

definition ValidateQueueManagerConnectionDeleteV1Beta1 ::
  "'w reader \<Rightarrow> QueueManagerConnection \<Rightarrow> 'w \<Rightarrow> field_error list \<times> 'w" where
  "ValidateQueueManagerConnectionDeleteV1Beta1 rd conn w =
     (let name = om_Name (c_meta conn) in
      case listConnectionDependents rd (om_Namespace (c_meta conn)) name w of
        (Inl errs, w) \<Rightarrow> (errs, w)
      | (Inr dependents, w) \<Rightarrow>
          if length dependents = 0 then ([], w)
          else ([FieldInvalid ''metadata.name'' name
                   (''cannot delete QueueManagerConnection '' @ Quote name @ '': '' @ formatDependents dependents @
                    ''; delete or re-point dependents first'')], w))"

end
