(* ===== verification/Webhook.thy ===== *)
theory Webhook
  imports Validation Attr_Fold Watches
begin

text \<open>
  The validating webhooks, \<open>internal/webhook/v1beta1\<close>, with the error constructors of
  \<open>internal/validation/errors.go\<close>. An admission answer is the list of warnings and the error, if
  any. \<open>gen\<close> is the object's generate name, the only part of the metadata that the model of
  objects leaves out. \<open>ValidateDelete\<close> of the five workload kinds always admits. The registration
  of the six webhooks stops at the first that the manager refuses.
\<close>

section \<open>Answers\<close>

datatype admission_error = Invalid string string "field_error list"

type_synonym admission = "string list \<times> admission_error option"

definition invalidObject :: "string \<Rightarrow> string \<Rightarrow> field_error list \<Rightarrow> admission_error" where
  "invalidObject kind name errs = Invalid kind name errs"

definition QueueInvalidV1Beta1 :: "string \<Rightarrow> field_error list \<Rightarrow> admission_error" where
  "QueueInvalidV1Beta1 name errs = invalidObject ''Queue'' name errs"

definition TopicInvalidV1Beta1 :: "string \<Rightarrow> field_error list \<Rightarrow> admission_error" where
  "TopicInvalidV1Beta1 name errs = invalidObject ''Topic'' name errs"

definition ChannelInvalidV1Beta1 :: "string \<Rightarrow> field_error list \<Rightarrow> admission_error" where
  "ChannelInvalidV1Beta1 name errs = invalidObject ''Channel'' name errs"

definition ChannelAuthRuleInvalidV1Beta1 :: "string \<Rightarrow> field_error list \<Rightarrow> admission_error" where
  "ChannelAuthRuleInvalidV1Beta1 name errs = invalidObject ''ChannelAuthRule'' name errs"

definition AuthorityRecordInvalidV1Beta1 :: "string \<Rightarrow> field_error list \<Rightarrow> admission_error" where
  "AuthorityRecordInvalidV1Beta1 name errs = invalidObject ''AuthorityRecord'' name errs"

definition QueueManagerConnectionInvalidV1Beta1 :: "string \<Rightarrow> field_error list \<Rightarrow> admission_error" where
  "QueueManagerConnectionInvalidV1Beta1 name errs = Invalid ''QueueManagerConnection'' name errs"

definition ObjectNameFromMeta :: "ObjectMeta \<Rightarrow> string \<Rightarrow> string" where
  "ObjectNameFromMeta meta gen = (if om_Name meta \<noteq> [] then om_Name meta else gen)"

definition admissionResult ::
  "string list \<Rightarrow> field_error list \<Rightarrow> (string \<Rightarrow> field_error list \<Rightarrow> admission_error) \<Rightarrow> string \<Rightarrow> admission" where
  "admissionResult warnings errs invalid name =
     (if length errs > 0 then (warnings, Some (invalid name errs)) else (warnings, None))"

definition validateCreateUpdate ::
  "'w reader \<Rightarrow> string \<Rightarrow> 'spec workload \<Rightarrow>
     ('w reader \<Rightarrow> 'spec workload \<Rightarrow> 'w \<Rightarrow> (string list \<times> field_error list) \<times> 'w) \<Rightarrow>
     (string \<Rightarrow> field_error list \<Rightarrow> admission_error) \<Rightarrow> 'w \<Rightarrow> admission \<times> 'w" where
  "validateCreateUpdate rd gen obj validate invalid w =
     (case validate rd obj w of
        ((warnings, errs), w) \<Rightarrow>
          (admissionResult warnings errs invalid (ObjectNameFromMeta (w_meta obj) gen), w))"

section \<open>Workload validators\<close>

definition validateQueue ::
  "'w reader \<Rightarrow> Queue \<Rightarrow> 'w \<Rightarrow> (string list \<times> field_error list) \<times> 'w" where
  "validateQueue rd obj w =
     ValidateQueueSpecV1Beta1 rd (om_Namespace (w_meta obj)) (w_ConnectionRef obj) (w_Spec obj) w"

definition queue_ValidateCreate :: "'w reader \<Rightarrow> string \<Rightarrow> Queue \<Rightarrow> 'w \<Rightarrow> admission \<times> 'w" where
  "queue_ValidateCreate rd gen obj w = validateCreateUpdate rd gen obj validateQueue QueueInvalidV1Beta1 w"

definition queue_ValidateUpdate :: "'w reader \<Rightarrow> string \<Rightarrow> Queue \<Rightarrow> Queue \<Rightarrow> 'w \<Rightarrow> admission \<times> 'w" where
  "queue_ValidateUpdate rd gen old new w = validateCreateUpdate rd gen new validateQueue QueueInvalidV1Beta1 w"

definition validateTopic ::
  "'w reader \<Rightarrow> Topic \<Rightarrow> 'w \<Rightarrow> (string list \<times> field_error list) \<times> 'w" where
  "validateTopic rd obj w =
     ValidateTopicSpecV1Beta1 rd (om_Namespace (w_meta obj)) (w_ConnectionRef obj) (w_Spec obj) w"

definition topic_ValidateCreate :: "'w reader \<Rightarrow> string \<Rightarrow> Topic \<Rightarrow> 'w \<Rightarrow> admission \<times> 'w" where
  "topic_ValidateCreate rd gen obj w = validateCreateUpdate rd gen obj validateTopic TopicInvalidV1Beta1 w"

definition topic_ValidateUpdate :: "'w reader \<Rightarrow> string \<Rightarrow> Topic \<Rightarrow> Topic \<Rightarrow> 'w \<Rightarrow> admission \<times> 'w" where
  "topic_ValidateUpdate rd gen old new w = validateCreateUpdate rd gen new validateTopic TopicInvalidV1Beta1 w"

definition validateChannel ::
  "'w reader \<Rightarrow> Channel \<Rightarrow> 'w \<Rightarrow> (string list \<times> field_error list) \<times> 'w" where
  "validateChannel rd obj w =
     ValidateChannelSpecV1Beta1 rd (om_Namespace (w_meta obj)) (w_ConnectionRef obj) (w_Spec obj) w"

definition channel_ValidateCreate :: "'w reader \<Rightarrow> string \<Rightarrow> Channel \<Rightarrow> 'w \<Rightarrow> admission \<times> 'w" where
  "channel_ValidateCreate rd gen obj w = validateCreateUpdate rd gen obj validateChannel ChannelInvalidV1Beta1 w"

definition channel_ValidateUpdate :: "'w reader \<Rightarrow> string \<Rightarrow> Channel \<Rightarrow> Channel \<Rightarrow> 'w \<Rightarrow> admission \<times> 'w" where
  "channel_ValidateUpdate rd gen old new w = validateCreateUpdate rd gen new validateChannel ChannelInvalidV1Beta1 w"

definition validateRule ::
  "'w reader \<Rightarrow> ChannelAuthRule \<Rightarrow> 'w \<Rightarrow> (string list \<times> field_error list) \<times> 'w" where
  "validateRule rd obj w =
     (case ValidateChannelAuthRuleSpecV1Beta1 rd (om_Namespace (w_meta obj)) (w_ConnectionRef obj) (w_Spec obj) w of (errs, w) \<Rightarrow> (([], errs), w))"

definition channelAuthRule_ValidateCreate :: "'w reader \<Rightarrow> string \<Rightarrow> ChannelAuthRule \<Rightarrow> 'w \<Rightarrow> admission \<times> 'w" where
  "channelAuthRule_ValidateCreate rd gen obj w = validateCreateUpdate rd gen obj validateRule ChannelAuthRuleInvalidV1Beta1 w"

definition channelAuthRule_ValidateUpdate :: "'w reader \<Rightarrow> string \<Rightarrow> ChannelAuthRule \<Rightarrow> ChannelAuthRule \<Rightarrow> 'w \<Rightarrow> admission \<times> 'w" where
  "channelAuthRule_ValidateUpdate rd gen old new w =
     (if om_Deleting (w_meta new) then (([], None), w)
      else validateCreateUpdate rd gen new validateRule ChannelAuthRuleInvalidV1Beta1 w)"

definition validateRecord ::
  "'w reader \<Rightarrow> AuthorityRecord \<Rightarrow> 'w \<Rightarrow> (string list \<times> field_error list) \<times> 'w" where
  "validateRecord rd obj w =
     (case ValidateAuthorityRecordSpecV1Beta1 rd (om_Namespace (w_meta obj)) (w_ConnectionRef obj) (w_Spec obj) w of (errs, w) \<Rightarrow> (([], errs), w))"

definition authorityRecord_ValidateCreate :: "'w reader \<Rightarrow> string \<Rightarrow> AuthorityRecord \<Rightarrow> 'w \<Rightarrow> admission \<times> 'w" where
  "authorityRecord_ValidateCreate rd gen obj w = validateCreateUpdate rd gen obj validateRecord AuthorityRecordInvalidV1Beta1 w"

definition authorityRecord_ValidateUpdate :: "'w reader \<Rightarrow> string \<Rightarrow> AuthorityRecord \<Rightarrow> AuthorityRecord \<Rightarrow> 'w \<Rightarrow> admission \<times> 'w" where
  "authorityRecord_ValidateUpdate rd gen old new w =
     (if om_Deleting (w_meta new) then (([], None), w)
      else validateCreateUpdate rd gen new validateRecord AuthorityRecordInvalidV1Beta1 w)"

section \<open>The connection validator\<close>

definition qmc_validate :: "'w reader \<Rightarrow> string \<Rightarrow> QueueManagerConnection \<Rightarrow> 'w \<Rightarrow> admission \<times> 'w" where
  "qmc_validate rd gen conn w =
     (case ValidateQueueManagerConnectionSpecV1Beta1 rd (om_Namespace (c_meta conn))
             (om_Annotations (c_meta conn)) conn w of
        ((warnings, errs), w) \<Rightarrow>
          if length errs > 0
          then (([], Some (QueueManagerConnectionInvalidV1Beta1 (ObjectNameFromMeta (c_meta conn) gen) errs)), w)
          else ((warnings, None), w))"

definition qmc_ValidateCreate :: "'w reader \<Rightarrow> string \<Rightarrow> QueueManagerConnection \<Rightarrow> 'w \<Rightarrow> admission \<times> 'w" where
  "qmc_ValidateCreate rd gen conn w = qmc_validate rd gen conn w"

definition qmc_ValidateUpdate ::
  "'w reader \<Rightarrow> string \<Rightarrow> QueueManagerConnection \<Rightarrow> QueueManagerConnection \<Rightarrow> 'w \<Rightarrow> admission \<times> 'w" where
  "qmc_ValidateUpdate rd gen old new w = qmc_validate rd gen new w"

definition qmc_ValidateDelete :: "'w reader \<Rightarrow> string \<Rightarrow> QueueManagerConnection \<Rightarrow> 'w \<Rightarrow> admission \<times> 'w" where
  "qmc_ValidateDelete rd gen conn w =
     (case ValidateQueueManagerConnectionDeleteV1Beta1 rd conn w of
        (errs, w) \<Rightarrow>
          if length errs > 0
          then (([], Some (QueueManagerConnectionInvalidV1Beta1 (ObjectNameFromMeta (c_meta conn) gen) errs)), w)
          else (([], None), w))"

text \<open>Deleting a workload object is always admitted.\<close>

definition queue_ValidateDelete :: "'w reader \<Rightarrow> string \<Rightarrow> Queue \<Rightarrow> 'w \<Rightarrow> admission \<times> 'w" where
  "queue_ValidateDelete rd gen obj w = (([], None), w)"

definition topic_ValidateDelete :: "'w reader \<Rightarrow> string \<Rightarrow> Topic \<Rightarrow> 'w \<Rightarrow> admission \<times> 'w" where
  "topic_ValidateDelete rd gen obj w = (([], None), w)"

definition channel_ValidateDelete :: "'w reader \<Rightarrow> string \<Rightarrow> Channel \<Rightarrow> 'w \<Rightarrow> admission \<times> 'w" where
  "channel_ValidateDelete rd gen obj w = (([], None), w)"

definition channelAuthRule_ValidateDelete :: "'w reader \<Rightarrow> string \<Rightarrow> ChannelAuthRule \<Rightarrow> 'w \<Rightarrow> admission \<times> 'w" where
  "channelAuthRule_ValidateDelete rd gen obj w = (([], None), w)"

definition authorityRecord_ValidateDelete :: "'w reader \<Rightarrow> string \<Rightarrow> AuthorityRecord \<Rightarrow> 'w \<Rightarrow> admission \<times> 'w" where
  "authorityRecord_ValidateDelete rd gen obj w = (([], None), w)"

text \<open>Registration: the builder of controller-runtime is the parameter \<open>complete\<close>, given the kind. The six
  webhooks are registered in this order and the first error ends the setup.\<close>

fun setupInOrder ::
  "(string \<Rightarrow> 'm \<Rightarrow> mq_error option \<times> 'm) \<Rightarrow> string list \<Rightarrow> 'm \<Rightarrow> mq_error option \<times> 'm" where
  "setupInOrder complete [] m = (None, m)"
| "setupInOrder complete (kind # kinds) m =
     (case complete kind m of
        (Some err, m) \<Rightarrow> (Some (WrapError (''setup '' @ kind @ '' webhook'') err), m)
      | (None, m) \<Rightarrow> setupInOrder complete kinds m)"

definition webhook_SetupWithManager ::
  "(string \<Rightarrow> 'm \<Rightarrow> mq_error option \<times> 'm) \<Rightarrow> 'm \<Rightarrow> mq_error option \<times> 'm" where
  "webhook_SetupWithManager complete =
     setupInOrder complete
       [''QueueManagerConnection'', ''Queue'', ''Topic'', ''Channel'', ''ChannelAuthRule'', ''AuthorityRecord'']"

section \<open>What an admitted object has\<close>

definition admitted :: "admission \<times> 'w \<Rightarrow> bool" where
  "admitted r \<longleftrightarrow> snd (fst r) = None"

definition connection_usable :: "'w reader \<Rightarrow> string \<Rightarrow> string \<Rightarrow> 'w \<Rightarrow> bool" where
  "connection_usable rd ns ref w \<longleftrightarrow>
     ref \<noteq> [] \<and> (case fst (rd_getConn rd ns ref w) of Inl e \<Rightarrow> False | Inr conn \<Rightarrow> \<not> om_Deleting (c_meta conn))"

lemma ValidateConnectionRef_ok:
  "fst (ValidateConnectionRef rd ns ref path w) = [] \<longleftrightarrow> connection_usable rd ns ref w"
  by (auto simp: ValidateConnectionRef_def connection_usable_def split: prod.splits sum.splits)

lemma validateCreateUpdate_admitted:
  "admitted (validateCreateUpdate rd gen obj validate invalid w) \<longleftrightarrow> snd (fst (validate rd obj w)) = []"
  by (auto simp: validateCreateUpdate_def admitted_def admissionResult_def split: prod.splits)

text \<open>A reference to a managed channel is admitted on some listing that holds a matching live channel.\<close>

lemma find_match:
  "find (channelMatchesRef ref n) items = Some ch \<Longrightarrow>
     ch \<in> set items \<and> ch_ChannelName (w_Spec ch) = n \<and> (ref = [] \<or> w_ConnectionRef ch = ref)"
  by (auto simp: find_Some_iff channelMatchesRef_def split: if_splits)

definition channel_listed :: "'w reader \<Rightarrow> string \<Rightarrow> string \<Rightarrow> string \<Rightarrow> bool" where
  "channel_listed rd ns ref n \<longleftrightarrow>
     (\<exists>w items w' ch. rd_listChannels rd ns w = (Inr items, w') \<and> ch \<in> set items \<and>
        ch_ChannelName (w_Spec ch) = n \<and> (ref = [] \<or> w_ConnectionRef ch = ref) \<and> \<not> om_Deleting (w_meta ch))"

lemma managedChannelSecondList_ok:
  "fst (managedChannelSecondList rd ns ref n path w) = [] \<Longrightarrow> channel_listed rd ns ref n"
  unfolding managedChannelSecondList_def channel_listed_def Let_def
  by (fastforce split: prod.splits sum.splits option.splits if_splits dest: find_match)

lemma ValidateManagedChannelRef_ok:
  "n \<noteq> [] \<Longrightarrow> fst (ValidateManagedChannelRef rd ns ref n path w) = [] \<Longrightarrow> channel_listed rd ns ref n"
  unfolding ValidateManagedChannelRef_def
  by (auto split: prod.splits sum.splits option.splits if_splits dest: managedChannelSecondList_ok)
     (fastforce simp: channel_listed_def dest: find_match)

text \<open>The two attributes a sender channel needs reach the queue manager.\<close>

lemma channel_attr_sent:
  assumes "distinct_attrs (ch_Attributes (w_Spec c))" "k \<in> set channelKeys"
    and "columns (channelColumns (w_Spec c)) k \<noteq> None \<and> columns (channelColumns (w_Spec c)) k \<noteq> Some []
       \<or> columns (channelColumns (w_Spec c)) k = None \<and> attrValue (ch_Attributes (w_Spec c)) k \<noteq> []"
  shows "getz (chs_Attributes (toMQChannelSpec c)) k \<noteq> []"
proof -
  have k: "NormalizeAttrKey k = k" using keys_normalised(3) assms(2) by blast
  have m: "map_of (chs_Attributes (toMQChannelSpec c))
      = norm_map (ch_Attributes (w_Spec c)) ++ columns (channelColumns (w_Spec c))"
    unfolding toMQ_as_columns channelColumns_def using channel_fold.desired_as_map [OF assms(1)] .
  from assms(3) consider v where "columns (channelColumns (w_Spec c)) k = Some v" "v \<noteq> []"
    | v where "columns (channelColumns (w_Spec c)) k = None" "map_of (ch_Attributes (w_Spec c)) k = Some v" "v \<noteq> []"
    by (auto simp: attrValue_def k split: option.splits)
  then show ?thesis
  proof cases
    case 1
    then show ?thesis by (simp add: getz_def m map_add_def)
  next
    case 2
    from norm_map_Some [OF assms(1) map_of_SomeD [OF 2(2)]] k 2 show ?thesis
      by (simp add: getz_def m map_add_def)
  qed
qed

lemma channel_columns_text:
  "columns (channelColumns c) ''conname'' = text_value (ch_ConnName c)"
  "columns (channelColumns c) ''xmitq'' = text_value (ch_XmitQueue c)"
  by (simp_all add: columns_def channelColumns_def channelKeys_def channelValues_def)

lemma sdr_attrs_sent:
  assumes "distinct_attrs (ch_Attributes (w_Spec c))" "validateChannelTypeRequirementsV1Beta1 (w_Spec c) = []"
    and "NormalizeChannelType (ch_Type (w_Spec c)) = ChannelTypeSdr"
  shows "getz (chs_Attributes (toMQChannelSpec c)) ''conname'' \<noteq> []"
    and "getz (chs_Attributes (toMQChannelSpec c)) ''xmitq'' \<noteq> []"
proof -
  have "''conname'' \<in> set channelKeys" "''xmitq'' \<in> set channelKeys" by (simp_all add: channelKeys_def)
  moreover have "ch_ConnName (w_Spec c) \<noteq> [] \<or> attrValue (ch_Attributes (w_Spec c)) ''conname'' \<noteq> []"
    "ch_XmitQueue (w_Spec c) \<noteq> [] \<or> attrValue (ch_Attributes (w_Spec c)) ''xmitq'' \<noteq> []"
    using assms(2,3) by (auto simp: validateChannelTypeRequirementsV1Beta1_def split: if_splits)
  ultimately show "getz (chs_Attributes (toMQChannelSpec c)) ''conname'' \<noteq> []"
    "getz (chs_Attributes (toMQChannelSpec c)) ''xmitq'' \<noteq> []"
    using channel_attr_sent [OF assms(1)] by (auto simp: channel_columns_text text_value_def)
qed

lemmas validator_defs =
  queue_ValidateCreate_def topic_ValidateCreate_def channel_ValidateCreate_def
  channelAuthRule_ValidateCreate_def authorityRecord_ValidateCreate_def
  queue_ValidateUpdate_def topic_ValidateUpdate_def channel_ValidateUpdate_def
  channelAuthRule_ValidateUpdate_def authorityRecord_ValidateUpdate_def
  validateQueue_def validateTopic_def validateChannel_def validateRule_def validateRecord_def

lemma simple_spec_ok:
  "snd (fst (ValidateQueueSpecV1Beta1 rd ns ref qs w)) = [] \<longleftrightarrow> connection_usable rd ns ref w"
  "snd (fst (ValidateTopicSpecV1Beta1 rd ns ref ts w)) = [] \<longleftrightarrow> connection_usable rd ns ref w"
  "snd (fst (ValidateChannelSpecV1Beta1 rd ns ref cs w)) = [] \<longleftrightarrow>
     connection_usable rd ns ref w \<and> validateChannelTypeRequirementsV1Beta1 cs = []"
  "fst (ValidateAuthorityRecordSpecV1Beta1 rd ns ref as w) = [] \<longleftrightarrow> connection_usable rd ns ref w"
  by (auto simp: ValidateQueueSpecV1Beta1_def ValidateTopicSpecV1Beta1_def ValidateChannelSpecV1Beta1_def
      ValidateAuthorityRecordSpecV1Beta1_def simp flip: ValidateConnectionRef_ok [where path = connectionRefPath]
      split: prod.splits)

lemma rule_spec_ok:
  assumes "fst (ValidateChannelAuthRuleSpecV1Beta1 rd ns ref r w) = []"
  shows "connection_usable rd ns ref w"
    and "r_ChannelName r \<noteq> [] \<Longrightarrow> r_ChannelName r \<noteq> ''*'' \<or> r_RuleType r \<noteq> ChannelAuthRuleTypeBlockAddr \<Longrightarrow>
       channel_listed rd ns ref (r_ChannelName r)"
proof -
  obtain errs w1 where v: "ValidateConnectionRef rd ns ref connectionRefPath w = (errs, w1)" by force
  with assms have "errs = []"
    by (auto simp: ValidateChannelAuthRuleSpecV1Beta1_def split: if_splits prod.splits)
  with v show "connection_usable rd ns ref w" using ValidateConnectionRef_ok by (metis fst_conv)
  assume n: "r_ChannelName r \<noteq> []" "r_ChannelName r \<noteq> ''*'' \<or> r_RuleType r \<noteq> ChannelAuthRuleTypeBlockAddr"
  with assms v have "fst (ValidateManagedChannelRef rd ns ref (r_ChannelName r) ''spec.channelName'' w1) = []"
    by (auto simp: ValidateChannelAuthRuleSpecV1Beta1_def split: if_splits prod.splits)
  with n(1) show "channel_listed rd ns ref (r_ChannelName r)" by (rule ValidateManagedChannelRef_ok)
qed


text \<open>A reader over a fixed cluster.\<close>

definition snapshot_reader ::
  "(string \<Rightarrow> string \<Rightarrow> QueueManagerConnection result) \<Rightarrow> (string \<Rightarrow> string \<Rightarrow> Secret result) \<Rightarrow>
     (string \<Rightarrow> listing) \<Rightarrow> 'w reader" where
  "snapshot_reader conns secrets ls =
     \<lparr>rd_getConn = (\<lambda>ns n w. (conns ns n, w)), rd_getSecret = (\<lambda>ns n w. (secrets ns n, w)),
      rd_listQueues = (\<lambda>ns w. (ls_Queues (ls ns), w)), rd_listTopics = (\<lambda>ns w. (ls_Topics (ls ns), w)),
      rd_listChannels = (\<lambda>ns w. (ls_Channels (ls ns), w)), rd_listRules = (\<lambda>ns w. (ls_Rules (ls ns), w)),
      rd_listAuthorities = (\<lambda>ns w. (ls_Authorities (ls ns), w))\<rparr>"

definition demo_meta :: "string \<Rightarrow> bool \<Rightarrow> ObjectMeta" where
  "demo_meta name deleting =
     \<lparr>om_Namespace = ''ns'', om_Name = name, om_UID = ''u'', om_Generation = 1, om_ResourceVersion = ''1'',
      om_Deleting = deleting, om_Finalizers = [], om_Annotations = []\<rparr>"

definition demo_workload :: "string \<Rightarrow> bool \<Rightarrow> 'spec \<Rightarrow> 'spec workload" where
  "demo_workload name deleting spec =
     \<lparr>w_meta = demo_meta name deleting, w_ConnectionRef = ''qm1'', w_Suspend = False,
      w_policies = \<lparr>lp_DeletionPolicy = [], lp_AdoptionPolicy = []\<rparr>, w_Spec = spec,
      w_Status = \<lparr>st_Conditions = [], st_ObservedGeneration = 0, st_DesiredMQSC = [], st_Message = [],
                  st_LastSyncTime = None, st_MQObjectExists = None\<rparr>\<rparr>"

definition demo_sender :: "attrs \<Rightarrow> Channel" where
  "demo_sender attrs =
     demo_workload ''c'' False
       \<lparr>ch_ChannelName = ''TO.QM2'', ch_Type = ''sdr'', ch_Attributes = attrs, ch_Description = [],
        ch_MaxMsgLength = None, ch_TransportType = [], ch_ShareConv = None, ch_McaUser = [],
        ch_MaxInstances = None, ch_MaxInstancesClient = None, ch_SslCipherSpec = [], ch_SslClientAuth = [],
        ch_ConnName = [], ch_XmitQueue = ''QM2''\<rparr>"

definition demo_rule :: "bool \<Rightarrow> ChannelAuthRule" where
  "demo_rule deleting =
     demo_workload ''r'' deleting
       \<lparr>r_ChannelName = ''TO.QM2'', r_RuleType = ''ADDRESSMAP'', r_Address = ''10.0.0.1'', r_UserList = [],
        r_ClientUser = [], r_SslPeerName = [], r_RemoteQueueManager = [], r_McaUser = [], r_UserSource = [],
        r_CheckClient = [], r_Description = []\<rparr>"

definition demo_conns :: "string \<Rightarrow> string \<Rightarrow> QueueManagerConnection result" where
  "demo_conns ns n = (if n = ''qm1'' then Inr ready_connection else Inl (K8sError K8sNotFound ''not found''))"

definition demo_secrets :: "string \<Rightarrow> string \<Rightarrow> Secret result" where
  "demo_secrets ns n =
     (if n = ''creds''
      then Inr \<lparr>s_meta = demo_meta ''creds'' False, s_Data = [(''password'', ''pw'')], s_StringData = []\<rparr>
      else if n = ''cert''
      then Inr \<lparr>s_meta = demo_meta ''cert'' False, s_Data = [(''tls.crt'', ''C''), (''tls.key'', ''K'')],
                s_StringData = []\<rparr>
      else Inl (K8sError K8sNotFound ''not found''))"

definition demo_cluster :: "string \<Rightarrow> listing" where
  "demo_cluster ns =
     \<lparr>ls_Queues = Inr [demo_queue [] [] False []], ls_Topics = Inr [],
      ls_Channels = Inr [demo_sender [(''conname'', ''h(1414)'')]], ls_Rules = Inr [demo_rule False],
      ls_Authorities = Inr []\<rparr>"

definition demo_reader :: "unit reader" where
  "demo_reader = snapshot_reader demo_conns demo_secrets demo_cluster"


section \<open>What an admitted connection has\<close>

lemma hasUsername_firstKey:
  "credentialsSecretHasUsername data \<longleftrightarrow> firstKey data [''username'', ''user'', ''mqAdminUser''] \<noteq> []"
  by (auto simp: credentialsSecretHasUsername_def credentialsSecretUsernameKeys_def split: option.splits)

text \<open>The secret that the webhook checks is the one that the client factory will read.\<close>

lemma V1Beta1_password_modes:
  assumes "resolveAuthentication conn = Inr auth" "ra_mode auth \<noteq> authModeClientCert"
  shows "ValidateQueueManagerConnectionSpecV1Beta1 rd ns annotations conn w =
    ValidateQueueManagerConnectionSpec rd ns annotations (ra_secretName auth) (qm_TLS conn) w"
  using assms
  by (auto simp: ValidateQueueManagerConnectionSpecV1Beta1_def resolveAuthentication_def Let_def
      split: option.splits if_splits)

lemma V1Beta1_client_cert:
  assumes "resolveAuthentication conn = Inr auth" "ra_mode auth = authModeClientCert"
  shows "ValidateQueueManagerConnectionSpecV1Beta1 rd ns annotations conn w =
    (case validateClientCertSecret rd ns (ra_secretName auth) w of (errs, w) \<Rightarrow> (([], errs), w))"
  using assms
  by (auto simp: ValidateQueueManagerConnectionSpecV1Beta1_def resolveAuthentication_def Let_def
      split: option.splits if_splits)

lemma getSecretOrErrors_ok:
  "getSecretOrErrors rd ns n path w = (([], sec), w') \<longleftrightarrow>
     (\<exists>s. sec = Some s \<and> rd_getSecret rd ns n w = (Inr s, w'))"
  by (auto simp: getSecretOrErrors_def split: prod.splits sum.splits)

lemma validateSecretExists_ok:
  "validateSecretExists rd ns n path w = ([], w') \<longleftrightarrow> (\<exists>s. rd_getSecret rd ns n w = (Inr s, w'))"
  by (auto simp: validateSecretExists_def getSecretOrErrors_def split: prod.splits sum.splits)

lemma validateClientCertSecret_ok:
  assumes "validateClientCertSecret rd ns n w = ([], w')"
  obtains s where "rd_getSecret rd ns n w = (Inr s, w')" "firstBytes (s_Data s) [''tls.crt''] \<noteq> []"
    "firstBytes (s_Data s) [''tls.key''] \<noteq> []"
  using assms
  by (auto simp: validateClientCertSecret_def getSecretOrErrors_def firstBytes_def Let_def
      split: prod.splits sum.splits option.splits if_splits)

definition tls_checked :: "'w reader \<Rightarrow> string \<Rightarrow> attrs \<Rightarrow> TLSConfig \<Rightarrow> bool" where
  "tls_checked rd ns annotations t \<longleftrightarrow>
     (tls_InsecureSkipVerify t \<longrightarrow> allowInsecureTLS annotations) \<and>
     (\<forall>ca. tls_CASecretRef t = Some ca \<and> ca \<noteq> [] \<longrightarrow> (\<exists>w1 sec w2. rd_getSecret rd ns ca w1 = (Inr sec, w2)))"

lemma spec_ok:
  assumes "ValidateQueueManagerConnectionSpec rd ns annotations cred tls w = ((warnings, []), w')" "cred \<noteq> []"
  obtains s w1 where "rd_getSecret rd ns cred w = (Inr s, w1)" "warnings = credentialsSecretUsernameWarnings s"
    "\<forall>t. tls = Some t \<longrightarrow> tls_checked rd ns annotations t"
proof -
  obtain errs sec w1 where g: "getSecretOrErrors rd ns cred ''spec.credentialsSecretRef.name'' w = ((errs, sec), w1)"
    by (metis surj_pair)
  let ?warn = "case sec of Some s \<Rightarrow> credentialsSecretUsernameWarnings s | None \<Rightarrow> []"
  have "errs = [] \<and> warnings = ?warn \<and> (\<forall>t. tls = Some t \<longrightarrow> tls_checked rd ns annotations t)"
  proof (cases tls)
    case None
    with assms g show ?thesis by (simp add: ValidateQueueManagerConnectionSpec_def)
  next
    case (Some t)
    let ?insecure = "if tls_InsecureSkipVerify t \<and> \<not> allowInsecureTLS annotations
      then [FieldInvalid ''spec.tls.insecureSkipVerify'' ''true'' insecureTLSWithoutOptInMsg] else []"
    show ?thesis
    proof (cases "\<exists>ca. tls_CASecretRef t = Some ca \<and> ca \<noteq> []")
      case False
      then have "(warnings, []) = (?warn, errs @ ?insecure)"
        using assms g Some
        by (cases "tls_CASecretRef t") (simp_all add: ValidateQueueManagerConnectionSpec_def)
      with False Some show ?thesis by (auto simp: tls_checked_def split: if_splits)
    next
      case True
      then obtain ca where ca: "tls_CASecretRef t = Some ca" "ca \<noteq> []" by blast
      obtain caErrs w2 where v: "validateSecretExists rd ns ca ''spec.tls.caSecretRef.name'' w1 = (caErrs, w2)"
        by fastforce
      have "(warnings, []) = (?warn, (errs @ ?insecure) @ caErrs)"
        using assms g Some ca v by (simp add: ValidateQueueManagerConnectionSpec_def)
      then have "errs = []" "?insecure = []" "caErrs = []" "warnings = ?warn" by simp_all
      with v ca Some show ?thesis
        by (auto simp: tls_checked_def validateSecretExists_ok split: if_splits)
    qed
  qed
  moreover from this g have "\<exists>s. sec = Some s \<and> rd_getSecret rd ns cred w = (Inr s, w1)"
    by (auto simp: getSecretOrErrors_ok)
  ultimately show thesis using that by auto
qed

definition password_secret_read :: "'w reader \<Rightarrow> string \<Rightarrow> string \<Rightarrow> string list \<Rightarrow> 'w \<Rightarrow> bool" where
  "password_secret_read rd ns name warnings w \<longleftrightarrow>
     (case rd_getSecret rd ns name w of
        (Inl e, _) \<Rightarrow> False
      | (Inr sec, _) \<Rightarrow>
          (case credentialsFromSecret (s_Data sec) of
             Inl e \<Rightarrow> True
           | Inr (u, p) \<Rightarrow>
               if warnings = []
               then u = firstKey (s_Data sec) [''username'', ''user'', ''mqAdminUser'']
               else u = ''admin'' \<and> firstKey (s_Data sec) [''username'', ''user'', ''mqAdminUser''] = []))"

definition key_pair_read :: "'w reader \<Rightarrow> string \<Rightarrow> string \<Rightarrow> 'w \<Rightarrow> bool" where
  "key_pair_read rd ns name w \<longleftrightarrow>
     (case rd_getSecret rd ns name w of
        (Inl e, _) \<Rightarrow> False
      | (Inr sec, _) \<Rightarrow> firstBytes (s_Data sec) [''tls.crt''] \<noteq> [] \<and> firstBytes (s_Data sec) [''tls.key''] \<noteq> [])"

lemma password_secret_read_warnings:
  assumes "rd_getSecret rd ns n w = (Inr s, w1)"
  shows "password_secret_read rd ns n (credentialsSecretUsernameWarnings s) w"
  using assms hasUsername_firstKey [of "s_Data s"]
  by (auto simp: password_secret_read_def credentialsSecretUsernameWarnings_def credentialsFromSecret_def Let_def
      simp del: firstKey.simps split: sum.splits if_splits)

lemma resolveAuthentication_TLS: "resolveAuthentication (conn\<lparr>qm_TLS := tls\<rparr>) = resolveAuthentication conn"
proof -
  have key: "connectionCacheKey (conn\<lparr>qm_TLS := tls\<rparr>) = connectionCacheKey conn"
    by (simp add: connectionCacheKey_def)
  show ?thesis unfolding resolveAuthentication_def key by simp
qed

lemma qmc_admitted:
  "qmc_ValidateCreate rd gen conn w = ((warnings, None), w') \<longleftrightarrow>
     ValidateQueueManagerConnectionSpecV1Beta1 rd (om_Namespace (c_meta conn)) (om_Annotations (c_meta conn)) conn w
       = ((warnings, []), w')"
  by (auto simp: qmc_ValidateCreate_def qmc_validate_def split: prod.splits if_splits)

text \<open>C24: What admission guarantees of a connection. Take an admitted connection whose authentication
  resolves, as the client factory resolves it. With Basic or LTPA and a named secret, that secret was read;
  there is a warning exactly when the login falls back to the user admin; skipping verification carries
  the opt-in annotation; and a named CA secret was read. With ClientCert the secret was read and holds both
  halves of the key pair; but then nothing else is looked at: the same connection is admitted with
  any TLS settings, with verification skipped and no annotation, or with a CA secret that does not exist.\<close>

theorem connection_admission:
  assumes adm: "qmc_ValidateCreate rd gen conn w = ((warnings, None), w')"
    and auth: "resolveAuthentication conn = Inr auth"
  shows "(ra_mode auth \<noteq> authModeClientCert \<and> ra_secretName auth \<noteq> [] \<longrightarrow>
      password_secret_read rd (om_Namespace (c_meta conn)) (ra_secretName auth) warnings w \<and>
      (\<forall>t. qm_TLS conn = Some t \<longrightarrow> tls_checked rd (om_Namespace (c_meta conn)) (om_Annotations (c_meta conn)) t)) \<and>
   (ra_mode auth = authModeClientCert \<longrightarrow>
      key_pair_read rd (om_Namespace (c_meta conn)) (ra_secretName auth) w \<and>
      (\<forall>tls. admitted (qmc_ValidateCreate rd gen (conn\<lparr>qm_TLS := tls\<rparr>) w)))"
proof (intro conjI impI)
  let ?ns = "om_Namespace (c_meta conn)"
  assume mode: "ra_mode auth \<noteq> authModeClientCert \<and> ra_secretName auth \<noteq> []"
  with adm have "ValidateQueueManagerConnectionSpec rd ?ns (om_Annotations (c_meta conn)) (ra_secretName auth)
      (qm_TLS conn) w = ((warnings, []), w')"
    by (simp add: qmc_admitted V1Beta1_password_modes [OF auth])
  then obtain s w1 where s: "rd_getSecret rd ?ns (ra_secretName auth) w = (Inr s, w1)"
    "warnings = credentialsSecretUsernameWarnings s"
    "\<forall>t. qm_TLS conn = Some t \<longrightarrow> tls_checked rd ?ns (om_Annotations (c_meta conn)) t"
    using mode spec_ok by metis
  show "password_secret_read rd ?ns (ra_secretName auth) warnings w"
    unfolding s(2) using s(1) by (rule password_secret_read_warnings)
  show "\<forall>t. qm_TLS conn = Some t \<longrightarrow> tls_checked rd ?ns (om_Annotations (c_meta conn)) t" by (rule s(3))
next
  let ?ns = "om_Namespace (c_meta conn)"
  assume mode: "ra_mode auth = authModeClientCert"
  with adm have v: "validateClientCertSecret rd ?ns (ra_secretName auth) w = ([], w')"
    by (auto simp: qmc_admitted V1Beta1_client_cert [OF auth] split: prod.splits)
  then show "key_pair_read rd ?ns (ra_secretName auth) w"
    by (elim validateClientCertSecret_ok) (simp add: key_pair_read_def)
  show "\<forall>tls. admitted (qmc_ValidateCreate rd gen (conn\<lparr>qm_TLS := tls\<rparr>) w)"
  proof
    fix tls
    have "resolveAuthentication (conn\<lparr>qm_TLS := tls\<rparr>) = Inr auth"
      using auth by (simp add: resolveAuthentication_TLS)
    from V1Beta1_client_cert [OF this mode, of rd] v
    have "qmc_ValidateCreate rd gen (conn\<lparr>qm_TLS := tls\<rparr>) w = (([], None), w')"
      by (simp add: qmc_admitted)
    then show "admitted (qmc_ValidateCreate rd gen (conn\<lparr>qm_TLS := tls\<rparr>) w)" by (simp add: admitted_def)
  qed
qed

definition demo_cert_connection :: QueueManagerConnection where
  "demo_cert_connection = ready_connection\<lparr>qm_CredentialsSecretRef := None,
     qm_Authentication := Some \<lparr>ma_Mode = ''ClientCert'', ma_Basic = None, ma_LTPA = None, ma_ClientCert = Some ''cert''\<rparr>\<rparr>"

theorem connection_admission_witness:
  "password_secret_read demo_reader ''ns'' ''creds''
     (fst (fst (qmc_ValidateCreate demo_reader [] ready_connection ()))) () \<and>
   fst (fst (qmc_ValidateCreate demo_reader [] ready_connection ())) \<noteq> [] \<and>
   admitted (qmc_ValidateCreate demo_reader [] (demo_cert_connection\<lparr>qm_TLS :=
     Some \<lparr>tls_InsecureSkipVerify = True, tls_CASecretRef = Some ''missing''\<rparr>\<rparr>) ()) \<and>
   \<not> admitted (qmc_ValidateCreate demo_reader [] (ready_connection\<lparr>qm_TLS :=
     Some \<lparr>tls_InsecureSkipVerify = True, tls_CASecretRef = None\<rparr>\<rparr>) ())"
proof (intro conjI)
  have a: "admitted (qmc_ValidateCreate demo_reader [] ready_connection ())" by code_simp
  then have "qmc_ValidateCreate demo_reader [] ready_connection ()
    = ((fst (fst (qmc_ValidateCreate demo_reader [] ready_connection ())), None), ())"
    by (simp add: admitted_def prod_eq_iff)
  moreover have "resolveAuthentication ready_connection = Inr \<lparr>ra_secretName = ''creds'', ra_mode = authModeBasic\<rparr>"
    by (simp add: resolveAuthentication_def ready_connection_def)
  ultimately show "password_secret_read demo_reader ''ns'' ''creds''
     (fst (fst (qmc_ValidateCreate demo_reader [] ready_connection ()))) ()"
    using connection_admission [of demo_reader "[]" ready_connection "()" _ "()"
        "\<lparr>ra_secretName = ''creds'', ra_mode = authModeBasic\<rparr>"]
    by (auto simp: ready_connection_def)
  show "fst (fst (qmc_ValidateCreate demo_reader [] ready_connection ())) \<noteq> []" by code_simp
  have "admitted (qmc_ValidateCreate demo_reader [] demo_cert_connection ())" by code_simp
  then have "qmc_ValidateCreate demo_reader [] demo_cert_connection ()
    = ((fst (fst (qmc_ValidateCreate demo_reader [] demo_cert_connection ())), None), ())"
    by (simp add: admitted_def prod_eq_iff)
  moreover have "resolveAuthentication demo_cert_connection
    = Inr \<lparr>ra_secretName = ''cert'', ra_mode = authModeClientCert\<rparr>"
    by (simp add: resolveAuthentication_def demo_cert_connection_def)
  ultimately show "admitted (qmc_ValidateCreate demo_reader [] (demo_cert_connection\<lparr>qm_TLS :=
     Some \<lparr>tls_InsecureSkipVerify = True, tls_CASecretRef = Some ''missing''\<rparr>\<rparr>) ())"
    using connection_admission [of demo_reader "[]" demo_cert_connection "()" _ "()"
        "\<lparr>ra_secretName = ''cert'', ra_mode = authModeClientCert\<rparr>"]
    by auto
  show "\<not> admitted (qmc_ValidateCreate demo_reader [] (ready_connection\<lparr>qm_TLS :=
     Some \<lparr>tls_InsecureSkipVerify = True, tls_CASecretRef = None\<rparr>\<rparr>) ())" by code_simp
qed

section \<open>Deletion\<close>

definition list_failed :: "'a result \<Rightarrow> bool" where
  "list_failed r = (case r of Inl e \<Rightarrow> \<not> k8s_IsNotRegistered e | Inr items \<Rightarrow> False)"

definition listed_dependents :: "string \<Rightarrow> string \<Rightarrow> 'spec workload list result \<Rightarrow> (string \<times> string) list" where
  "listed_dependents kind connName r =
     (case r of Inl e \<Rightarrow> [] | Inr items \<Rightarrow> connectionDependents kind connName items)"

lemma listBlock_snapshot:
  "listBlock (\<lambda>ns w. (f ns, w)) kind plural ns connName deps w =
     (if list_failed (f ns)
      then (Inl [FieldInternal ''metadata.name'' (WrapError (''list '' @ plural) (projl (f ns)))], w)
      else (Inr (deps @ listed_dependents kind connName (f ns)), w))"
  by (simp add: listBlock_def list_failed_def listed_dependents_def split: sum.splits)

lemma listed_dependents_Nil:
  "listed_dependents kind (om_Name (c_meta conn)) r = [] \<longleftrightarrow> referrers conn r = {}"
  by (auto simp: listed_dependents_def connectionDependents_def referrers_def filter_empty_conv split: sum.splits)

lemma requestsForConnection_Nil:
  "requestsForConnection ls conn = [] \<longleftrightarrow>
     referrers conn (ls_Queues ls) = {} \<and> referrers conn (ls_Topics ls) = {} \<and>
     referrers conn (ls_Channels ls) = {} \<and> referrers conn (ls_Rules ls) = {} \<and>
     referrers conn (ls_Authorities ls) = {}"
proof -
  have "requestsForConnection ls conn = [] \<longleftrightarrow> set (requestsForConnection ls conn) = {}" by simp
  then show ?thesis
    by (simp add: requestsForConnection_def Let_def appendDependentsOrLog_set)
qed

lemma qmc_delete_admitted:
  fixes ls :: "string \<Rightarrow> listing" and conn :: QueueManagerConnection
  defines "l \<equiv> ls (om_Namespace (c_meta conn))"
  shows "admitted (qmc_ValidateDelete (snapshot_reader conns secrets ls) gen conn w) \<longleftrightarrow>
     \<not> list_failed (ls_Queues l) \<and> \<not> list_failed (ls_Topics l) \<and> \<not> list_failed (ls_Channels l) \<and>
     \<not> list_failed (ls_Rules l) \<and> \<not> list_failed (ls_Authorities l) \<and> requestsForConnection l conn = []"
  by (auto simp: qmc_ValidateDelete_def admitted_def ValidateQueueManagerConnectionDeleteV1Beta1_def Let_def
      listConnectionDependents_def snapshot_reader_def listBlock_snapshot l_def requestsForConnection_Nil
      listed_dependents_Nil)

text \<open>An API server that refuses an update which the webhook refuses, and whose status update keeps
  namespace and connection reference.\<close>

definition enforces_queue_webhook :: "(QueueSpecCR, 'w) kube \<Rightarrow> 'w reader \<Rightarrow> bool" where
  "enforces_queue_webhook k rd \<longleftrightarrow>
     (\<forall>old obj w. \<not> admitted (queue_ValidateUpdate rd [] old obj w) \<longrightarrow> is_err (fst (k_update k obj w))) \<and>
     (\<forall>obj w obj' w'. k_statusUpdate k obj w = (Inr obj', w') \<longrightarrow>
        om_Namespace (w_meta obj') = om_Namespace (w_meta obj) \<and> w_ConnectionRef obj' = w_ConnectionRef obj)"

lemma objectUpdate_refused:
  assumes "enforces_queue_webhook k rd"
    and "\<And>w. \<not> connection_usable rd (om_Namespace (w_meta obj)) (w_ConnectionRef obj) w"
    and "objectUpdate k obj s = (err, obj', s')"
  shows "err \<noteq> None"
proof -
  have "\<not> admitted (queue_ValidateUpdate rd [] obj obj (rs_world s))"
    using assms(2) by (simp add: validator_defs validateCreateUpdate_admitted simple_spec_ok)
  with assms(1) have "is_err (fst (k_update k obj (rs_world s)))" unfolding enforces_queue_webhook_def by blast
  with assms(3) show ?thesis by (auto simp: objectUpdate_def is_err_iff split: prod.splits sum.splits)
qed

lemma statusUpdate_answer:
  assumes "statusUpdate k obj s = (None, obj', s')"
  obtains w where "k_statusUpdate k obj (rs_world s) = (Inr obj', w)"
  using assms by (auto simp: statusUpdate_def split: prod.splits sum.splits)

lemma orphan_refused:
  assumes "enforces_queue_webhook k rd"
    and "\<And>w. \<not> connection_usable rd (om_Namespace (w_meta obj)) (w_ConnectionRef obj) w"
    and "orphanFinalizeWorkload k obj g fin message s = (out, s')"
  shows "snd out \<noteq> None"
proof -
  obtain e obj1 s1 where p: "patchSyncedOrphaned k obj g message s = (e, obj1, s1)" by (metis surj_pair)
  show ?thesis
  proof (cases e)
    case (Some err)
    with assms(3) p show ?thesis by (auto simp: orphanFinalizeWorkload_def)
  next
    case None
    with p obtain st s0 where "statusUpdate k (obj\<lparr>w_Status := st\<rparr>) s0 = (None, obj1, s1)"
      unfolding patchSyncedOrphaned_def patchSyncedStatus_def Let_def by blast
    then obtain w1 where "k_statusUpdate k (obj\<lparr>w_Status := st\<rparr>) (rs_world s0) = (Inr obj1, w1)"
      by (rule statusUpdate_answer)
    moreover have "w_meta (obj\<lparr>w_Status := st\<rparr>) = w_meta obj"
      "w_ConnectionRef (obj\<lparr>w_Status := st\<rparr>) = w_ConnectionRef obj" by simp_all
    ultimately have same: "om_Namespace (w_meta obj1) = om_Namespace (w_meta obj)"
      "w_ConnectionRef obj1 = w_ConnectionRef obj" using assms(1) unfolding enforces_queue_webhook_def by metis+
    let ?obj = "setFinalizers (RemoveFinalizer (k_lib k) fin (om_Finalizers (w_meta obj1))) obj1"
    obtain err obj2 s2 where u: "objectUpdate k ?obj (recordNormalEvent ReasonOrphaned message s1) = (err, obj2, s2)"
      by (metis surj_pair)
    have "err \<noteq> None"
      by (rule objectUpdate_refused [OF assms(1) _ u])
         (use assms(2) same in \<open>simp add: setFinalizers_def\<close>)
    with assms(3) p None u show ?thesis by (auto simp: orphanFinalizeWorkload_def Let_def)
  qed
qed


text \<open>The demo cluster behind the webhook: an update of a queue is checked with a reader that
  finds no connection.\<close>

definition lonely_reader :: "demo reader" where
  "lonely_reader = snapshot_reader (\<lambda>ns n. Inl (K8sError K8sNotFound ''not found'')) demo_secrets demo_cluster"

definition guarded_kube :: "(QueueSpecCR, demo) kube" where
  "guarded_kube = demo_kube\<lparr>k_update := (\<lambda>obj w.
     if admitted (queue_ValidateUpdate lonely_reader [] obj obj w) then k_update demo_kube obj w
     else (Inl (K8sError K8sInvalid ''refused''), w))\<rparr>"

lemma lonely_unusable: "\<not> connection_usable lonely_reader ns ref w"
  by (simp add: connection_usable_def lonely_reader_def snapshot_reader_def)

lemma guarded_kube_enforces: "enforces_queue_webhook guarded_kube lonely_reader"
  by (auto simp: enforces_queue_webhook_def guarded_kube_def queue_ValidateUpdate_def demo_kube_def
      split: if_splits)


end
