(* ===== verification/Go_Heap.thy ===== *)
theory Go_Heap
  imports Prelude
begin

text \<open>
  Go memory, as far as copying needs it: a heap is the list of its cells, an address is an index,
  an allocation appends a cell, and a pointer, slice or map is the address of its cell or nil. The
  generated functions of \<open>api/v1beta1/zz_generated.deepcopy.go\<close> are sequences of four statements,
  modelled here once: an assignment, a pointer to a new cell, a slice made and filled in a loop, and
  a map made and filled in a loop.

  The locale \<open>deep_copier\<close> is the contract of a deep copy: the value read through the copy is the
  value read through the original, the copy reaches only cells allocated by the call, and no
  existing cell is written. The lemmas named \<open>deep_copier_*\<close> give the contract for the four
  statements, their sequence and a struct. The locale's own lemmas show what the contract is for: after the call,
  writes through the copy do not change the original, and conversely.
\<close>

section \<open>Heaps\<close>

type_synonym addr = nat
type_synonym ref = "addr option"
type_synonym 'c heap = "'c list"

definition agree :: "addr set \<Rightarrow> 'c heap \<Rightarrow> 'c heap \<Rightarrow> bool" where
  "agree A h h' \<longleftrightarrow> (\<forall>a\<in>A. a < length h' \<and> h' ! a = h ! a)"

definition writes_only :: "addr set \<Rightarrow> 'c heap \<Rightarrow> 'c heap \<Rightarrow> bool" where
  "writes_only A h h' \<longleftrightarrow>
     length h \<le> length h' \<and> (\<forall>a < length h. a \<notin> A \<longrightarrow> h' ! a = h ! a)"

lemma agree_mono: "agree B h h' \<Longrightarrow> A \<subseteq> B \<Longrightarrow> agree A h h'"
  by (auto simp: agree_def)

lemma agree_prefix: "prefix h h' \<Longrightarrow> A \<subseteq> {..<length h} \<Longrightarrow> agree A h h'"
  by (auto simp: agree_def prefix_def nth_append)

lemma agree_update:
  "A \<subseteq> {..<length h} \<Longrightarrow> n \<notin> A \<Longrightarrow> agree A h (h[n := c])"
  unfolding agree_def by (metis length_list_update lessThan_iff nth_list_update_neq subset_eq)

lemma agree_writes_only:
  "writes_only B h h' \<Longrightarrow> A \<subseteq> {..<length h} \<Longrightarrow> A \<inter> B = {} \<Longrightarrow> agree A h h'"
  by (force simp: agree_def writes_only_def)

lemma prefix_snoc_update:
  "prefix (h @ [c]) h' \<Longrightarrow> prefix h (h'[length h := c'])"
  by (auto simp: prefix_def)

section \<open>The statements of a generated copy\<close>

text \<open>
  \<open>copyVal\<close> is \<open>*out = *in\<close> for a value without references.

  \<open>newInto\<close> is the block \<open>if in != nil { *out = new(T); (*in).DeepCopyInto(*out) }\<close>: the new cell is
  allocated before the body runs, and holds what the body wrote when it has run. \<open>z\<close> is what the
  new cell holds meanwhile. A pointer's body starts with \<open>*out = *in\<close>.
\<close>

definition copyVal :: "'a \<Rightarrow> 'c heap \<Rightarrow> 'a \<times> 'c heap" where
  "copyVal x h = (x, h)"

definition newInto ::
  "('a \<Rightarrow> 'c) \<Rightarrow> ('c \<Rightarrow> 'a) \<Rightarrow> ('c \<Rightarrow> 'c) \<Rightarrow> ('a \<Rightarrow> 'c heap \<Rightarrow> 'a \<times> 'c heap) \<Rightarrow>
   ref \<Rightarrow> 'c heap \<Rightarrow> ref \<times> 'c heap" where
  "newInto mk un z into r h = (case r of
      None \<Rightarrow> (None, h)
    | Some a \<Rightarrow>
        (let (y, h') = into (un (h ! a)) (h @ [z (h ! a)])
         in (Some (length h), h'[length h := mk y])))"

definition copyPtr ::
  "('a \<Rightarrow> 'c) \<Rightarrow> ('c \<Rightarrow> 'a) \<Rightarrow> ('a \<Rightarrow> 'c heap \<Rightarrow> 'a \<times> 'c heap) \<Rightarrow>
   ref \<Rightarrow> 'c heap \<Rightarrow> ref \<times> 'c heap" where
  "copyPtr mk un = newInto mk un (\<lambda>c. c)"

text \<open>\<open>*out = make([]T, len(*in)); for i := range *in { (*in)[i].DeepCopyInto(&(*out)[i]) }\<close>\<close>

primrec copyElems ::
  "('a \<Rightarrow> 'c heap \<Rightarrow> 'a \<times> 'c heap) \<Rightarrow> 'a list \<Rightarrow> 'c heap \<Rightarrow> 'a list \<times> 'c heap" where
  "copyElems into [] h = ([], h)"
| "copyElems into (x # xs) h =
     (let (y, h1) = into x h; (ys, h2) = copyElems into xs h1 in (y # ys, h2))"

definition copySlice ::
  "('a list \<Rightarrow> 'c) \<Rightarrow> ('c \<Rightarrow> 'a list) \<Rightarrow> ('a \<Rightarrow> 'c heap \<Rightarrow> 'a \<times> 'c heap) \<Rightarrow>
   ref \<Rightarrow> 'c heap \<Rightarrow> ref \<times> 'c heap" where
  "copySlice mk un into = newInto mk un (\<lambda>_. mk []) (copyElems into)"

text \<open>\<open>*out = make(map[K]V, len(*in)); for key, val := range *in { (*out)[key] = val }\<close>\<close>

definition copyEntries :: "('k, 'v) gomap \<Rightarrow> 'c heap \<Rightarrow> ('k, 'v) gomap \<times> 'c heap" where
  "copyEntries m h = (fold (\<lambda>(k, v). AList.update k v) m [], h)"

definition copyMap ::
  "(('k, 'v) gomap \<Rightarrow> 'c) \<Rightarrow> ('c \<Rightarrow> ('k, 'v) gomap) \<Rightarrow> ref \<Rightarrow> 'c heap \<Rightarrow> ref \<times> 'c heap" where
  "copyMap mk un = newInto mk un (\<lambda>_. mk []) copyEntries"

text \<open>\<open>if in != nil { *out = (*in).DeepCopy() }\<close>, after \<open>*out = *in\<close>\<close>

definition ifNotNil :: "(ref \<Rightarrow> 'c heap \<Rightarrow> ref \<times> 'c heap) \<Rightarrow> ref \<Rightarrow> 'c heap \<Rightarrow> ref \<times> 'c heap" where
  "ifNotNil copy r h = (if r \<noteq> None then copy r h else (r, h))"

section \<open>What is read through a reference\<close>

definition cell_contents ::
  "('c \<Rightarrow> 'a) \<Rightarrow> ('c heap \<Rightarrow> 'a \<Rightarrow> 'v) \<Rightarrow> 'c heap \<Rightarrow> ref \<Rightarrow> 'v option" where
  "cell_contents un contents h r = map_option (\<lambda>a. contents h (un (h ! a))) r"

definition cell_refs ::
  "('c \<Rightarrow> 'a) \<Rightarrow> ('c heap \<Rightarrow> 'a \<Rightarrow> addr set) \<Rightarrow> 'c heap \<Rightarrow> ref \<Rightarrow> addr set" where
  "cell_refs un refs h r = (case r of None \<Rightarrow> {} | Some a \<Rightarrow> insert a (refs h (un (h ! a))))"

definition cell_ok ::
  "('a \<Rightarrow> 'c) \<Rightarrow> ('c \<Rightarrow> 'a) \<Rightarrow> ('c heap \<Rightarrow> 'a \<Rightarrow> bool) \<Rightarrow> 'c heap \<Rightarrow> ref \<Rightarrow> bool" where
  "cell_ok mk un ok h r = (case r of
      None \<Rightarrow> True
    | Some a \<Rightarrow> a < length h \<and> h ! a = mk (un (h ! a)) \<and> ok h (un (h ! a)))"

definition no_refs :: "'c heap \<Rightarrow> 'a \<Rightarrow> addr set" where
  "no_refs h x = {}"

definition value_of :: "'c heap \<Rightarrow> 'a \<Rightarrow> 'a" where
  "value_of h x = x"

definition any_ok :: "'c heap \<Rightarrow> 'a \<Rightarrow> bool" where
  "any_ok h x = True"

section \<open>The contract of a deep copy\<close>

locale deep_copier =
  fixes into :: "'a \<Rightarrow> 'c heap \<Rightarrow> 'a \<times> 'c heap"
    and contents :: "'c heap \<Rightarrow> 'a \<Rightarrow> 'v"
    and refs :: "'c heap \<Rightarrow> 'a \<Rightarrow> addr set"
    and ok :: "'c heap \<Rightarrow> 'a \<Rightarrow> bool"
  assumes extends: "ok h x \<Longrightarrow> into x h = (y, h') \<Longrightarrow> prefix h h'"
    and same: "ok h x \<Longrightarrow> into x h = (y, h') \<Longrightarrow> contents h' y = contents h x"
    and fresh: "ok h x \<Longrightarrow> into x h = (y, h') \<Longrightarrow> refs h' y \<subseteq> {length h..<length h'}"
    and copy_ok: "ok h x \<Longrightarrow> into x h = (y, h') \<Longrightarrow> ok h' y"
    and allocated: "ok h x \<Longrightarrow> refs h x \<subseteq> {..<length h}"
    and frame: "ok h x \<Longrightarrow> agree (refs h x) h h' \<Longrightarrow>
      contents h' x = contents h x \<and> refs h' x = refs h x \<and> ok h' x"
begin

lemma frame_prefix:
  "ok h x \<Longrightarrow> prefix h h' \<Longrightarrow> contents h' x = contents h x \<and> refs h' x = refs h x \<and> ok h' x"
  by (metis frame agree_prefix allocated)

lemma original_survives:
  assumes "ok h x" "into x h = (y, h')" "writes_only (refs h' y) h' h''"
  shows "contents h'' x = contents h x"
proof -
  note r = frame_prefix [OF assms(1) extends [OF assms(1,2)]]
  have "refs h x \<inter> refs h' y = {}"
    using allocated [OF assms(1)] fresh [OF assms(1,2)] by fastforce
  then have "agree (refs h' x) h' h''"
    using r allocated [of h' x] by (intro agree_writes_only [OF assms(3)]) auto
  then show ?thesis
    using frame [of h' x h''] r by simp
qed

lemma copy_survives:
  assumes "ok h x" "into x h = (y, h')" "writes_only (refs h x) h' h''"
  shows "contents h'' y = contents h x"
proof -
  have "refs h' y \<inter> refs h x = {}"
    using allocated [OF assms(1)] fresh [OF assms(1,2)] by fastforce
  then have "agree (refs h' y) h' h''"
    using allocated [OF copy_ok [OF assms(1,2)]] by (intro agree_writes_only [OF assms(3)])
  then show ?thesis
    using frame [OF copy_ok [OF assms(1,2)]] same [OF assms(1,2)] by simp
qed

end

lemmas deep_copier_laws =
  deep_copier.extends deep_copier.same deep_copier.fresh deep_copier.copy_ok
  deep_copier.allocated deep_copier.frame deep_copier.frame_prefix

section \<open>The contract for the statements\<close>

lemma deep_copier_val: "deep_copier copyVal value_of no_refs any_ok"
  by unfold_locales (auto simp: copyVal_def value_of_def no_refs_def any_ok_def)

interpretation assignment: deep_copier copyVal value_of no_refs any_ok
  by (rule deep_copier_val)

lemma map_of_copyEntries:
  "map_of (fold (\<lambda>(k, v). AList.update k v) m acc) = map_of acc ++ map_of (rev m)"
  by (induction m arbitrary: acc) (auto simp: map_add_def fun_eq_iff split: option.splits)

lemma map_of_rev_gomap: "wf_gomap m \<Longrightarrow> map_of (rev m) = map_of m"
  by (subst map_of_inject_set) (simp_all add: wf_gomap_def rev_map [symmetric])

lemma wf_copyEntries: "wf_gomap acc \<Longrightarrow> wf_gomap (fold (\<lambda>(k, v). AList.update k v) m acc)"
  by (induction m arbitrary: acc) auto

definition entries_of :: "'c heap \<Rightarrow> ('k, 'v) gomap \<Rightarrow> 'k \<rightharpoonup> 'v" where
  "entries_of h m = map_of m"

definition entries_ok :: "'c heap \<Rightarrow> ('k, 'v) gomap \<Rightarrow> bool" where
  "entries_ok h m = wf_gomap m"

lemma deep_copier_entries: "deep_copier copyEntries entries_of no_refs entries_ok"
  by unfold_locales
    (auto simp: copyEntries_def entries_of_def no_refs_def entries_ok_def map_of_copyEntries
      map_of_rev_gomap wf_copyEntries)

interpretation entries: deep_copier copyEntries entries_of no_refs entries_ok
  by (rule deep_copier_entries)


subsection \<open>Cells\<close>

lemma cell_refs_fresh:
  assumes "A \<subseteq> {Suc n..<length h}" "n < length h"
  shows "agree A h (h[n := c])"
  by (rule agree_update) (use assms in auto)

text \<open>A new cell is filled with a copy made behind it.\<close>

lemma newInto_copies:
  assumes d: "deep_copier into contents refs ok" and un: "\<And>x. un (mk x) = x"
    and k: "cell_ok mk un ok h r" and n: "newInto mk un z into r h = (s, h')"
  shows "prefix h h' \<and> cell_contents un contents h' s = cell_contents un contents h r \<and>
    cell_refs un refs h' s \<subseteq> {length h..<length h'} \<and> cell_ok mk un ok h' s"
proof (cases r)
  case None
  then show ?thesis
    using n by (auto simp: newInto_def cell_contents_def cell_refs_def cell_ok_def)
next
  case (Some a)
  define x h0 where "x = un (h ! a)" and "h0 = h @ [z (h ! a)]"
  obtain y h1 where i: "into x h0 = (y, h1)" by force
  have e: "s = Some (length h)" "h' = h1[length h := mk y]"
    using n i Some by (simp_all add: newInto_def x_def h0_def)
  have x: "ok h x" using k Some by (simp add: cell_ok_def x_def)
  note x0 = deep_copier.frame_prefix [OF d x, of h0]
  have o: "ok h0 x" "contents h0 x = contents h x" using x0 by (simp_all add: h0_def)
  have p: "prefix h0 h1" by (rule deep_copier.extends [OF d o(1) i])
  have l: "length h < length h1" using p by (auto simp: h0_def prefix_def)
  have f: "refs h1 y \<subseteq> {Suc (length h)..<length h1}"
    using deep_copier.fresh [OF d o(1) i] by (simp add: h0_def)
  have y: "ok h1 y" by (rule deep_copier.copy_ok [OF d o(1) i])
  note y' = deep_copier.frame [OF d y cell_refs_fresh [OF f l], of "mk y"]
  have "prefix h h'" using prefix_snoc_update p by (simp add: e h0_def)
  moreover have "cell_contents un contents h' s = cell_contents un contents h r"
    using y' l deep_copier.same [OF d o(1) i] o(2) Some
    by (simp add: cell_contents_def e un x_def)
  moreover have "cell_refs un refs h' s \<subseteq> {length h..<length h'}"
    using y' l f by (auto simp: cell_refs_def e un)
  moreover have "cell_ok mk un ok h' s"
    using y' l by (simp add: cell_ok_def e un)
  ultimately show ?thesis by blast
qed

lemma deep_copier_new:
  assumes d: "deep_copier into contents refs ok" and un: "\<And>x. un (mk x) = x"
  shows "deep_copier (newInto mk un z into) (cell_contents un contents) (cell_refs un refs)
    (cell_ok mk un ok)"
proof unfold_locales
  fix h r s h'
  assume "cell_ok mk un ok h r" "newInto mk un z into r h = (s, h')"
  from newInto_copies [OF d un this]
  show "prefix h h'" "cell_contents un contents h' s = cell_contents un contents h r"
    "cell_refs un refs h' s \<subseteq> {length h..<length h'}" "cell_ok mk un ok h' s"
    by blast+
next
  fix h h' r
  assume k: "cell_ok mk un ok h r"
  show "cell_refs un refs h r \<subseteq> {..<length h}"
    using k deep_copier.allocated [OF d] by (force simp: cell_ok_def cell_refs_def split: option.splits)
  assume a: "agree (cell_refs un refs h r) h h'"
  show "cell_contents un contents h' r = cell_contents un contents h r \<and>
    cell_refs un refs h' r = cell_refs un refs h r \<and> cell_ok mk un ok h' r"
  proof (cases r)
    case (Some b)
    have "agree (refs h (un (h ! b))) h h'" "h' ! b = h ! b" "b < length h'"
      using a Some by (auto simp: cell_refs_def agree_def)
    then show ?thesis
      using k Some deep_copier.frame [OF d, of h "un (h ! b)" h']
      by (simp add: cell_contents_def cell_refs_def cell_ok_def)
  qed (simp add: cell_contents_def cell_refs_def cell_ok_def)
qed

lemma deep_copier_ifNotNil:
  assumes "deep_copier copy (cell_contents un contents) (cell_refs un refs) (cell_ok mk un ok)"
  shows "deep_copier (ifNotNil copy) (cell_contents un contents) (cell_refs un refs) (cell_ok mk un ok)"
proof unfold_locales
  fix h h' r s
  assume k: "cell_ok mk un ok h r" and c: "ifNotNil copy r h = (s, h')"
  have "prefix h h' \<and> cell_contents un contents h' s = cell_contents un contents h r \<and>
    cell_refs un refs h' s \<subseteq> {length h..<length h'} \<and> cell_ok mk un ok h' s"
  proof (cases r)
    case None
    then show ?thesis using c k by (simp add: ifNotNil_def cell_refs_def)
  next
    case (Some a)
    then have "copy r h = (s, h')" using c by (simp add: ifNotNil_def)
    then show ?thesis
      using deep_copier.extends [OF assms k] deep_copier.same [OF assms k]
        deep_copier.fresh [OF assms k] deep_copier.copy_ok [OF assms k] by simp
  qed
  then show "prefix h h'" "cell_contents un contents h' s = cell_contents un contents h r"
    "cell_refs un refs h' s \<subseteq> {length h..<length h'}" "cell_ok mk un ok h' s"
    by blast+
qed (fact deep_copier.allocated [OF assms], fact deep_copier.frame [OF assms])

lemmas deep_copier_ptr = deep_copier_new [where z = "\<lambda>c. c", folded copyPtr_def]

lemma copyPtr_val:
  "(\<And>x. un (mk x) = x) \<Longrightarrow>
   deep_copier (copyPtr mk un copyVal) (cell_contents un value_of) (cell_refs un no_refs)
     (cell_ok mk un any_ok)"
  by (rule deep_copier_ptr [OF deep_copier_val])

subsection \<open>Sequences\<close>

definition seqCopy ::
  "('a \<Rightarrow> 'c heap \<Rightarrow> 'a \<times> 'c heap) \<Rightarrow> ('b \<Rightarrow> 'c heap \<Rightarrow> 'b \<times> 'c heap) \<Rightarrow>
   'a \<times> 'b \<Rightarrow> 'c heap \<Rightarrow> ('a \<times> 'b) \<times> 'c heap" where
  "seqCopy f g p h = (let (x, h1) = f (fst p) h; (y, h2) = g (snd p) h1 in ((x, y), h2))"

definition both_contents ::
  "('c heap \<Rightarrow> 'a \<Rightarrow> 'v) \<Rightarrow> ('c heap \<Rightarrow> 'b \<Rightarrow> 'w) \<Rightarrow> 'c heap \<Rightarrow> 'a \<times> 'b \<Rightarrow> 'v \<times> 'w" where
  "both_contents ca cb h p = (ca h (fst p), cb h (snd p))"

definition both_refs ::
  "('c heap \<Rightarrow> 'a \<Rightarrow> addr set) \<Rightarrow> ('c heap \<Rightarrow> 'b \<Rightarrow> addr set) \<Rightarrow> 'c heap \<Rightarrow> 'a \<times> 'b \<Rightarrow> addr set"
where
  "both_refs ra rb h p = ra h (fst p) \<union> rb h (snd p)"

definition both_ok ::
  "('c heap \<Rightarrow> 'a \<Rightarrow> bool) \<Rightarrow> ('c heap \<Rightarrow> 'b \<Rightarrow> bool) \<Rightarrow> 'c heap \<Rightarrow> 'a \<times> 'b \<Rightarrow> bool" where
  "both_ok ka kb h p \<longleftrightarrow> ka h (fst p) \<and> kb h (snd p)"

lemmas both_defs = both_contents_def both_refs_def both_ok_def

lemma deep_copier_seq:
  assumes a: "deep_copier ia ca ra ka" and b: "deep_copier ib cb rb kb"
  shows "deep_copier (seqCopy ia ib) (both_contents ca cb) (both_refs ra rb) (both_ok ka kb)"
proof unfold_locales
  fix h h' p q
  assume k: "both_ok ka kb h p" and s: "seqCopy ia ib p h = (q, h')"
  obtain x y where p: "p = (x, y)" by force
  obtain x' h1 where i: "ia x h = (x', h1)" by force
  obtain y' h2 where j: "ib y h1 = (y', h2)" by force
  have e: "q = (x', y')" "h' = h2" using s i j p by (simp_all add: seqCopy_def)
  have x: "ka h x" and y: "kb h y" using k p by (simp_all add: both_ok_def)
  note p1 = deep_copier.extends [OF a x i]
  note y1 = deep_copier.frame_prefix [OF b y p1]
  have y2: "kb h1 y" using y1 by blast
  note p2 = deep_copier.extends [OF b y2 j]
  note x2 = deep_copier.frame_prefix [OF a deep_copier.copy_ok [OF a x i] p2]
  have l: "length h \<le> length h1" "length h1 \<le> length h2"
    using p1 p2 by (simp_all add: prefix_length_le)
  show "prefix h h'" using p1 p2 e by (metis prefix_order.trans)
  show "both_contents ca cb h' q = both_contents ca cb h p"
    using x2 y1 deep_copier.same [OF a x i] deep_copier.same [OF b y2 j]
    by (simp add: both_contents_def e p)
  have "ra h1 x' \<subseteq> {length h..<length h1}" "rb h2 y' \<subseteq> {length h1..<length h2}"
    by (rule deep_copier.fresh [OF a x i], rule deep_copier.fresh [OF b y2 j])
  then show "both_refs ra rb h' q \<subseteq> {length h..<length h'}"
    using x2 l by (force simp: both_refs_def e)
  show "both_ok ka kb h' q"
    using x2 deep_copier.copy_ok [OF b y2 j] by (simp add: both_ok_def e)
next
  fix h h' p
  assume k: "both_ok ka kb h p"
  then show "both_refs ra rb h p \<subseteq> {..<length h}"
    using deep_copier.allocated [OF a] deep_copier.allocated [OF b] by (auto simp: both_defs)
  assume "agree (both_refs ra rb h p) h h'"
  then have "agree (ra h (fst p)) h h'" "agree (rb h (snd p)) h h'"
    by (auto simp: both_refs_def elim: agree_mono)
  then show "both_contents ca cb h' p = both_contents ca cb h p \<and>
    both_refs ra rb h' p = both_refs ra rb h p \<and> both_ok ka kb h' p"
    using k deep_copier.frame [OF a, of h "fst p" h'] deep_copier.frame [OF b, of h "snd p" h']
    by (simp add: both_defs)
qed


definition all_contents :: "('c heap \<Rightarrow> 'a \<Rightarrow> 'v) \<Rightarrow> 'c heap \<Rightarrow> 'a list \<Rightarrow> 'v list" where
  "all_contents contents h xs = map (contents h) xs"

definition all_refs :: "('c heap \<Rightarrow> 'a \<Rightarrow> addr set) \<Rightarrow> 'c heap \<Rightarrow> 'a list \<Rightarrow> addr set" where
  "all_refs refs h xs = (\<Union>x\<in>set xs. refs h x)"

definition all_ok :: "('c heap \<Rightarrow> 'a \<Rightarrow> bool) \<Rightarrow> 'c heap \<Rightarrow> 'a list \<Rightarrow> bool" where
  "all_ok ok h xs = list_all (ok h) xs"

lemmas all_defs = all_contents_def all_refs_def all_ok_def

lemma copyElems_laws:
  assumes d: "deep_copier into contents refs ok"
  shows "all_ok ok h xs \<Longrightarrow> copyElems into xs h = (ys, h') \<Longrightarrow>
    prefix h h' \<and> all_contents contents h' ys = all_contents contents h xs \<and>
    all_refs refs h' ys \<subseteq> {length h..<length h'} \<and> all_ok ok h' ys"
proof (induction xs arbitrary: h ys h')
  case Nil
  then show ?case by (simp add: all_defs)
next
  case (Cons x xs)
  obtain y h1 where i: "into x h = (y, h1)" by force
  obtain zs h2 where j: "copyElems into xs h1 = (zs, h2)" by force
  have e: "ys = y # zs" "h' = h2" using Cons.prems(2) i j by simp_all
  have x: "ok h x" and xs: "all_ok ok h xs" using Cons.prems(1) by (simp_all add: all_ok_def)
  note p1 = deep_copier.extends [OF d x i]
  have f: "ok h v \<Longrightarrow> contents h1 v = contents h v \<and> refs h1 v = refs h v \<and> ok h1 v" for v
    by (rule deep_copier.frame_prefix [OF d _ p1])
  have k: "all_ok ok h1 xs" "all_contents contents h1 xs = all_contents contents h xs"
    using xs f by (auto simp: all_defs list_all_iff)
  note ih = Cons.IH [OF k(1) j]
  have p2: "prefix h1 h2" using ih by blast
  note y2 = deep_copier.frame_prefix [OF d deep_copier.copy_ok [OF d x i] p2]
  have l: "length h \<le> length h1" "length h1 \<le> length h2"
    using p1 p2 by (simp_all add: prefix_length_le)
  have "prefix h h2" using p1 p2 by (metis prefix_order.trans)
  moreover have "refs h1 y \<subseteq> {length h..<length h1}" by (rule deep_copier.fresh [OF d x i])
  then have "all_refs refs h2 ys \<subseteq> {length h..<length h2}"
    using ih y2 l by (force simp: all_refs_def e)
  ultimately show ?case
    using ih y2 k(2) deep_copier.same [OF d x i] by (simp add: e all_contents_def all_ok_def)
qed

lemma deep_copier_elems:
  assumes d: "deep_copier into contents refs ok"
  shows "deep_copier (copyElems into) (all_contents contents) (all_refs refs) (all_ok ok)"
proof unfold_locales
  fix h h' xs
  assume k: "all_ok ok h xs"
  show "all_refs refs h xs \<subseteq> {..<length h}"
    using k deep_copier.allocated [OF d] by (force simp: all_defs list_all_iff)
  assume a: "agree (all_refs refs h xs) h h'"
  have "contents h' x = contents h x \<and> refs h' x = refs h x \<and> ok h' x" if "x \<in> set xs" for x
  proof (rule deep_copier.frame [OF d])
    show "ok h x" using k that by (simp add: all_ok_def list_all_iff)
    show "agree (refs h x) h h'" using a that by (auto simp: all_refs_def elim!: agree_mono)
  qed
  then show "all_contents contents h' xs = all_contents contents h xs \<and>
    all_refs refs h' xs = all_refs refs h xs \<and> all_ok ok h' xs"
    by (simp add: all_defs list_all_iff)
qed (use copyElems_laws [OF d] in blast)+

lemma deep_copier_slice:
  "deep_copier into contents refs ok \<Longrightarrow> (\<And>xs. un (mk xs) = xs) \<Longrightarrow>
   deep_copier (copySlice mk un into) (cell_contents un (all_contents contents))
     (cell_refs un (all_refs refs)) (cell_ok mk un (all_ok ok))"
  unfolding copySlice_def by (rule deep_copier_new [OF deep_copier_elems])

lemma deep_copier_map:
  "(\<And>m. un (mk m) = m) \<Longrightarrow>
   deep_copier (copyMap mk un) (cell_contents un entries_of) (cell_refs un no_refs)
     (cell_ok mk un entries_ok)"
  unfolding copyMap_def by (rule deep_copier_new [OF deep_copier_entries])

subsection \<open>Structs\<close>

text \<open>
  A struct copy assigns the whole struct and then replaces the fields that hold references. \<open>get\<close>
  reads those fields, \<open>put\<close> writes them, and \<open>rest\<close> is the struct without them.
\<close>

lemma deep_copier_struct:
  assumes d: "deep_copier I C R K"
    and lens: "\<And>p x. get (put p x) = p" "\<And>p x. rest (put p x) = rest x"
    and into: "\<And>x h. into x h = (let (p, h') = I (get x) h in (put p x, h'))"
    and defs: "\<And>h x. contents h x = (rest x, C h (get x))" "\<And>h x. refs h x = R h (get x)"
      "\<And>h x. ok h x = K h (get x)"
  shows "deep_copier into contents refs ok"
proof unfold_locales
  fix h h' x y
  assume k: "ok h x" and i: "into x h = (y, h')"
  obtain p where p: "I (get x) h = (p, h')" "y = put p x"
    using i by (auto simp: into split: prod.splits)
  have K: "K h (get x)" using k by (simp add: defs)
  show "prefix h h'" "contents h' y = contents h x" "refs h' y \<subseteq> {length h..<length h'}" "ok h' y"
    using deep_copier.extends [OF d K p(1)] deep_copier.same [OF d K p(1)]
      deep_copier.fresh [OF d K p(1)] deep_copier.copy_ok [OF d K p(1)]
    by (simp_all add: defs p(2) lens)
next
  fix h h' x
  assume k: "ok h x"
  show "refs h x \<subseteq> {..<length h}"
    using deep_copier.allocated [OF d, of h "get x"] k by (simp add: defs)
  assume "agree (refs h x) h h'"
  then show "contents h' x = contents h x \<and> refs h' x = refs h x \<and> ok h' x"
    using deep_copier.frame [OF d, of h "get x" h'] k by (simp add: defs)
qed

section \<open>Independence\<close>

text \<open>
  What a caller may rely on: the copy reads as the original does, in the heap after the call and in every
  later heap that differs from it only in cells of the original (and in cells allocated since), and
  the original reads as before in every later heap that differs only in cells of the copy.
\<close>

definition independent_copy ::
  "('a \<Rightarrow> 'c heap \<Rightarrow> 'a \<times> 'c heap) \<Rightarrow> ('c heap \<Rightarrow> 'a \<Rightarrow> 'v) \<Rightarrow> ('c heap \<Rightarrow> 'a \<Rightarrow> addr set) \<Rightarrow>
   'a \<Rightarrow> 'c heap \<Rightarrow> bool" where
  "independent_copy into contents refs x h \<longleftrightarrow>
     (let (y, h') = into x h in
        contents h' y = contents h x \<and> contents h' x = contents h x \<and> prefix h h' \<and>
        (\<forall>h''. writes_only (refs h' y) h' h'' \<longrightarrow> contents h'' x = contents h x) \<and>
        (\<forall>h''. writes_only (refs h x) h' h'' \<longrightarrow> contents h'' y = contents h x))"

lemma deep_copier_independent:
  assumes "deep_copier into contents refs ok" "ok h x"
  shows "independent_copy into contents refs x h"
proof -
  obtain y h' where i: "into x h = (y, h')" by force
  show ?thesis
    using deep_copier.same [OF assms i] deep_copier.extends [OF assms i]
      deep_copier.original_survives [OF assms i] deep_copier.copy_survives [OF assms i]
      deep_copier.frame_prefix [OF assms, of h']
    by (simp add: independent_copy_def i)
qed

end
