(* ===== verification/Go_Structs.thy ===== *)
theory Go_Structs
  imports Go_Heap API_Types
begin

text \<open>
  The structs of \<open>api/v1beta1\<close> as they lie in memory, with their pointers, slices and maps as
  addresses (suffix \<open>_m\<close>), and the cells of the heap. The theory \<open>API_Types\<close> has the values of the
  same structs. The string types of the API are strings; the fields of a channel authentication rule
  that are not shared with the other kinds are those of \<open>ChannelAuthRuleSpecCR\<close>, none a reference.
\<close>

section \<open>Structs in memory\<close>

record TypeMeta_m =
  tm_Kind :: string
  tm_APIVersion :: string

record ObjectMeta_m =
  mm_Namespace :: string
  mm_Name :: string
  mm_UID :: string
  mm_Generation :: int
  mm_ResourceVersion :: string
  mm_DeletionTimestamp :: ref
  mm_Finalizers :: ref
  mm_Annotations :: ref

record ListMeta_m =
  lm_ResourceVersion :: string
  lm_Continue :: string
  lm_RemainingItemCount :: ref

record LocalObjectReference = lor_Name :: string

record SecretReference = sr_Name :: string

record BasicAuth = ba_SecretRef :: SecretReference

record LTPAAuth = la_SecretRef :: SecretReference

record ClientCertAuth = cc_SecretRef :: SecretReference

record TLSConfig_m =
  tc_InsecureSkipVerify :: bool
  tc_CASecretRef :: ref

record MQWebAuthentication_m =
  wa_Mode :: string
  wa_Basic :: ref
  wa_LTPA :: ref
  wa_ClientCert :: ref

record QueueManagerConnectionSpec_m =
  qs_QueueManager :: string
  qs_Endpoint :: string
  qs_RESTPrefix :: string
  qs_TLS :: ref
  qs_CredentialsSecretRef :: ref
  qs_Authentication :: ref

record QueueManagerConnectionStatus_m =
  qt_Conditions :: ref
  qt_ObservedGeneration :: int

record MQObjectStatusFields_m =
  sf_Message :: string
  sf_LastSyncTime :: ref
  sf_MQObjectExists :: ref

text \<open>The status structs of the five workload kinds have the same fields.\<close>

record WorkloadStatus_m =
  ws_Conditions :: ref
  ws_ObservedGeneration :: int
  ws_DesiredMQSC :: string
  ws_Fields :: MQObjectStatusFields_m

record QueueSpec_m =
  qu_ConnectionRef :: LocalObjectReference
  qu_QueueName :: string
  qu_Type :: string
  qu_Attributes :: ref
  qu_MaxDepth :: ref
  qu_Description :: string
  qu_DefPersistence :: string
  qu_Get :: string
  qu_Put :: string
  qu_TargetQueue :: string
  qu_XmitQueue :: string
  qu_RemoteQueueManager :: string
  qu_Suspend :: bool
  qu_Policies :: WorkloadLifecyclePolicies

record TopicSpec_m =
  tp_ConnectionRef :: LocalObjectReference
  tp_TopicName :: string
  tp_Attributes :: ref
  tp_TopicString :: string
  tp_Description :: string
  tp_Publish :: string
  tp_Subscribe :: string
  tp_DefPersistence :: string
  tp_PublishScope :: string
  tp_SubscribeScope :: string
  tp_Suspend :: bool
  tp_Policies :: WorkloadLifecyclePolicies

record ChannelSpec_m =
  cm_ConnectionRef :: LocalObjectReference
  cm_ChannelName :: string
  cm_Type :: string
  cm_Attributes :: ref
  cm_Description :: string
  cm_MaxMsgLength :: ref
  cm_TransportType :: string
  cm_ShareConv :: ref
  cm_McaUser :: string
  cm_MaxInstances :: ref
  cm_MaxInstancesClient :: ref
  cm_SslCipherSpec :: string
  cm_SslClientAuth :: string
  cm_ConnName :: string
  cm_XmitQueue :: string
  cm_Suspend :: bool
  cm_Policies :: WorkloadLifecyclePolicies

record ChannelAuthRuleSpec_m =
  rm_ConnectionRef :: LocalObjectReference
  rm_Rule :: ChannelAuthRuleSpecCR
  rm_Suspend :: bool
  rm_Policies :: WorkloadLifecyclePolicies

record AuthorityRecordSpec_m =
  am_ConnectionRef :: LocalObjectReference
  am_Profile :: string
  am_ObjectType :: string
  am_Principal :: string
  am_Group :: string
  am_Authorities :: ref
  am_Suspend :: bool
  am_Policies :: WorkloadLifecyclePolicies

text \<open>The objects and the lists have the same shape for every kind.\<close>

record ('spec, 'status) object_m =
  ob_TypeMeta :: TypeMeta_m
  ob_ObjectMeta :: ObjectMeta_m
  ob_Spec :: 'spec
  ob_Status :: 'status

record list_m =
  li_TypeMeta :: TypeMeta_m
  li_ListMeta :: ListMeta_m
  li_Items :: ref

type_synonym Queue_m = "(QueueSpec_m, WorkloadStatus_m) object_m"
type_synonym Topic_m = "(TopicSpec_m, WorkloadStatus_m) object_m"
type_synonym Channel_m = "(ChannelSpec_m, WorkloadStatus_m) object_m"
type_synonym ChannelAuthRule_m = "(ChannelAuthRuleSpec_m, WorkloadStatus_m) object_m"
type_synonym AuthorityRecord_m = "(AuthorityRecordSpec_m, WorkloadStatus_m) object_m"
type_synonym QueueManagerConnection_m =
  "(QueueManagerConnectionSpec_m, QueueManagerConnectionStatus_m) object_m"


section \<open>Cells\<close>

datatype spec_cell =
    S_QueueSpec (the_S_QueueSpec: QueueSpec_m)
  | S_TopicSpec (the_S_TopicSpec: TopicSpec_m)
  | S_ChannelSpec (the_S_ChannelSpec: ChannelSpec_m)
  | S_ChannelAuthRuleSpec (the_S_ChannelAuthRuleSpec: ChannelAuthRuleSpec_m)
  | S_AuthorityRecordSpec (the_S_AuthorityRecordSpec: AuthorityRecordSpec_m)
  | S_QueueManagerConnectionSpec (the_S_QueueManagerConnectionSpec: QueueManagerConnectionSpec_m)

datatype status_cell =
    S_QueueStatus (the_S_QueueStatus: WorkloadStatus_m)
  | S_TopicStatus (the_S_TopicStatus: WorkloadStatus_m)
  | S_ChannelStatus (the_S_ChannelStatus: WorkloadStatus_m)
  | S_ChannelAuthRuleStatus (the_S_ChannelAuthRuleStatus: WorkloadStatus_m)
  | S_AuthorityRecordStatus (the_S_AuthorityRecordStatus: WorkloadStatus_m)
  | S_QueueManagerConnectionStatus (the_S_QueueManagerConnectionStatus:
      QueueManagerConnectionStatus_m)

datatype object_cell =
    O_Queue (the_O_Queue: Queue_m)
  | O_Topic (the_O_Topic: Topic_m)
  | O_Channel (the_O_Channel: Channel_m)
  | O_ChannelAuthRule (the_O_ChannelAuthRule: ChannelAuthRule_m)
  | O_AuthorityRecord (the_O_AuthorityRecord: AuthorityRecord_m)
  | O_QueueManagerConnection (the_O_QueueManagerConnection: QueueManagerConnection_m)

datatype items_cell =
    Ii_Queues (the_Ii_Queues: "Queue_m list")
  | Ii_Topics (the_Ii_Topics: "Topic_m list")
  | Ii_Channels (the_Ii_Channels: "Channel_m list")
  | Ii_ChannelAuthRules (the_Ii_ChannelAuthRules: "ChannelAuthRule_m list")
  | Ii_AuthorityRecords (the_Ii_AuthorityRecords: "AuthorityRecord_m list")
  | Ii_QueueManagerConnections (the_Ii_QueueManagerConnections: "QueueManagerConnection_m list")

datatype list_cell =
    L_QueueList (the_L_QueueList: list_m)
  | L_TopicList (the_L_TopicList: list_m)
  | L_ChannelList (the_L_ChannelList: list_m)
  | L_ChannelAuthRuleList (the_L_ChannelAuthRuleList: list_m)
  | L_AuthorityRecordList (the_L_AuthorityRecordList: list_m)
  | L_QueueManagerConnectionList (the_L_QueueManagerConnectionList: list_m)

datatype cell =
    CInt32 (the_Int32: int)
  | CInt64 (the_Int64: int)
  | CBool (the_Bool: bool)
  | CTime (the_Time: int)
  | CStrings (the_Strings: "string list")
  | CStringMap (the_StringMap: attrs)
  | CConditions (the_Conditions: "Condition list")
  | CLocalObjectReference (the_LocalObjectReference: LocalObjectReference)
  | CSecretReference (the_SecretReference: SecretReference)
  | CBasicAuth (the_BasicAuth: BasicAuth)
  | CLTPAAuth (the_LTPAAuth: LTPAAuth)
  | CClientCertAuth (the_ClientCertAuth: ClientCertAuth)
  | CWorkloadLifecyclePolicies (the_WorkloadLifecyclePolicies: WorkloadLifecyclePolicies)
  | CTLSConfig (the_TLSConfig: TLSConfig_m)
  | CMQWebAuthentication (the_MQWebAuthentication: MQWebAuthentication_m)
  | CMQObjectStatusFields (the_MQObjectStatusFields: MQObjectStatusFields_m)
  | CSpec (the_Spec: spec_cell)
  | CStatus (the_Status: status_cell)
  | CObject (the_Object: object_cell)
  | CItems (the_Items: items_cell)
  | CList (the_List: list_cell)

type_synonym memory = "cell heap"

text \<open>A cell that holds a struct, slice or object of one kind, and its reading.\<close>

abbreviation CQueueSpec :: "QueueSpec_m \<Rightarrow> cell" where
  "CQueueSpec x \<equiv> CSpec (S_QueueSpec x)"

abbreviation the_QueueSpec :: "cell \<Rightarrow> QueueSpec_m" where
  "the_QueueSpec c \<equiv> the_S_QueueSpec (the_Spec c)"

abbreviation CTopicSpec :: "TopicSpec_m \<Rightarrow> cell" where
  "CTopicSpec x \<equiv> CSpec (S_TopicSpec x)"

abbreviation the_TopicSpec :: "cell \<Rightarrow> TopicSpec_m" where
  "the_TopicSpec c \<equiv> the_S_TopicSpec (the_Spec c)"

abbreviation CChannelSpec :: "ChannelSpec_m \<Rightarrow> cell" where
  "CChannelSpec x \<equiv> CSpec (S_ChannelSpec x)"

abbreviation the_ChannelSpec :: "cell \<Rightarrow> ChannelSpec_m" where
  "the_ChannelSpec c \<equiv> the_S_ChannelSpec (the_Spec c)"

abbreviation CChannelAuthRuleSpec :: "ChannelAuthRuleSpec_m \<Rightarrow> cell" where
  "CChannelAuthRuleSpec x \<equiv> CSpec (S_ChannelAuthRuleSpec x)"

abbreviation the_ChannelAuthRuleSpec :: "cell \<Rightarrow> ChannelAuthRuleSpec_m" where
  "the_ChannelAuthRuleSpec c \<equiv> the_S_ChannelAuthRuleSpec (the_Spec c)"

abbreviation CAuthorityRecordSpec :: "AuthorityRecordSpec_m \<Rightarrow> cell" where
  "CAuthorityRecordSpec x \<equiv> CSpec (S_AuthorityRecordSpec x)"

abbreviation the_AuthorityRecordSpec :: "cell \<Rightarrow> AuthorityRecordSpec_m" where
  "the_AuthorityRecordSpec c \<equiv> the_S_AuthorityRecordSpec (the_Spec c)"

abbreviation CQueueManagerConnectionSpec :: "QueueManagerConnectionSpec_m \<Rightarrow> cell" where
  "CQueueManagerConnectionSpec x \<equiv> CSpec (S_QueueManagerConnectionSpec x)"

abbreviation the_QueueManagerConnectionSpec :: "cell \<Rightarrow> QueueManagerConnectionSpec_m" where
  "the_QueueManagerConnectionSpec c \<equiv> the_S_QueueManagerConnectionSpec (the_Spec c)"

abbreviation CQueueStatus :: "WorkloadStatus_m \<Rightarrow> cell" where
  "CQueueStatus x \<equiv> CStatus (S_QueueStatus x)"

abbreviation the_QueueStatus :: "cell \<Rightarrow> WorkloadStatus_m" where
  "the_QueueStatus c \<equiv> the_S_QueueStatus (the_Status c)"

abbreviation CTopicStatus :: "WorkloadStatus_m \<Rightarrow> cell" where
  "CTopicStatus x \<equiv> CStatus (S_TopicStatus x)"

abbreviation the_TopicStatus :: "cell \<Rightarrow> WorkloadStatus_m" where
  "the_TopicStatus c \<equiv> the_S_TopicStatus (the_Status c)"

abbreviation CChannelStatus :: "WorkloadStatus_m \<Rightarrow> cell" where
  "CChannelStatus x \<equiv> CStatus (S_ChannelStatus x)"

abbreviation the_ChannelStatus :: "cell \<Rightarrow> WorkloadStatus_m" where
  "the_ChannelStatus c \<equiv> the_S_ChannelStatus (the_Status c)"

abbreviation CChannelAuthRuleStatus :: "WorkloadStatus_m \<Rightarrow> cell" where
  "CChannelAuthRuleStatus x \<equiv> CStatus (S_ChannelAuthRuleStatus x)"

abbreviation the_ChannelAuthRuleStatus :: "cell \<Rightarrow> WorkloadStatus_m" where
  "the_ChannelAuthRuleStatus c \<equiv> the_S_ChannelAuthRuleStatus (the_Status c)"

abbreviation CAuthorityRecordStatus :: "WorkloadStatus_m \<Rightarrow> cell" where
  "CAuthorityRecordStatus x \<equiv> CStatus (S_AuthorityRecordStatus x)"

abbreviation the_AuthorityRecordStatus :: "cell \<Rightarrow> WorkloadStatus_m" where
  "the_AuthorityRecordStatus c \<equiv> the_S_AuthorityRecordStatus (the_Status c)"

abbreviation CQueueManagerConnectionStatus :: "QueueManagerConnectionStatus_m \<Rightarrow> cell" where
  "CQueueManagerConnectionStatus x \<equiv> CStatus (S_QueueManagerConnectionStatus x)"

abbreviation the_QueueManagerConnectionStatus :: "cell \<Rightarrow> QueueManagerConnectionStatus_m" where
  "the_QueueManagerConnectionStatus c \<equiv> the_S_QueueManagerConnectionStatus (the_Status c)"

abbreviation CQueue :: "Queue_m \<Rightarrow> cell" where
  "CQueue x \<equiv> CObject (O_Queue x)"

abbreviation the_Queue :: "cell \<Rightarrow> Queue_m" where
  "the_Queue c \<equiv> the_O_Queue (the_Object c)"

abbreviation CTopic :: "Topic_m \<Rightarrow> cell" where
  "CTopic x \<equiv> CObject (O_Topic x)"

abbreviation the_Topic :: "cell \<Rightarrow> Topic_m" where
  "the_Topic c \<equiv> the_O_Topic (the_Object c)"

abbreviation CChannel :: "Channel_m \<Rightarrow> cell" where
  "CChannel x \<equiv> CObject (O_Channel x)"

abbreviation the_Channel :: "cell \<Rightarrow> Channel_m" where
  "the_Channel c \<equiv> the_O_Channel (the_Object c)"

abbreviation CChannelAuthRule :: "ChannelAuthRule_m \<Rightarrow> cell" where
  "CChannelAuthRule x \<equiv> CObject (O_ChannelAuthRule x)"

abbreviation the_ChannelAuthRule :: "cell \<Rightarrow> ChannelAuthRule_m" where
  "the_ChannelAuthRule c \<equiv> the_O_ChannelAuthRule (the_Object c)"

abbreviation CAuthorityRecord :: "AuthorityRecord_m \<Rightarrow> cell" where
  "CAuthorityRecord x \<equiv> CObject (O_AuthorityRecord x)"

abbreviation the_AuthorityRecord :: "cell \<Rightarrow> AuthorityRecord_m" where
  "the_AuthorityRecord c \<equiv> the_O_AuthorityRecord (the_Object c)"

abbreviation CQueueManagerConnection :: "QueueManagerConnection_m \<Rightarrow> cell" where
  "CQueueManagerConnection x \<equiv> CObject (O_QueueManagerConnection x)"

abbreviation the_QueueManagerConnection :: "cell \<Rightarrow> QueueManagerConnection_m" where
  "the_QueueManagerConnection c \<equiv> the_O_QueueManagerConnection (the_Object c)"

abbreviation CQueues :: "Queue_m list \<Rightarrow> cell" where
  "CQueues x \<equiv> CItems (Ii_Queues x)"

abbreviation the_Queues :: "cell \<Rightarrow> Queue_m list" where
  "the_Queues c \<equiv> the_Ii_Queues (the_Items c)"

abbreviation CTopics :: "Topic_m list \<Rightarrow> cell" where
  "CTopics x \<equiv> CItems (Ii_Topics x)"

abbreviation the_Topics :: "cell \<Rightarrow> Topic_m list" where
  "the_Topics c \<equiv> the_Ii_Topics (the_Items c)"

abbreviation CChannels :: "Channel_m list \<Rightarrow> cell" where
  "CChannels x \<equiv> CItems (Ii_Channels x)"

abbreviation the_Channels :: "cell \<Rightarrow> Channel_m list" where
  "the_Channels c \<equiv> the_Ii_Channels (the_Items c)"

abbreviation CChannelAuthRules :: "ChannelAuthRule_m list \<Rightarrow> cell" where
  "CChannelAuthRules x \<equiv> CItems (Ii_ChannelAuthRules x)"

abbreviation the_ChannelAuthRules :: "cell \<Rightarrow> ChannelAuthRule_m list" where
  "the_ChannelAuthRules c \<equiv> the_Ii_ChannelAuthRules (the_Items c)"

abbreviation CAuthorityRecords :: "AuthorityRecord_m list \<Rightarrow> cell" where
  "CAuthorityRecords x \<equiv> CItems (Ii_AuthorityRecords x)"

abbreviation the_AuthorityRecords :: "cell \<Rightarrow> AuthorityRecord_m list" where
  "the_AuthorityRecords c \<equiv> the_Ii_AuthorityRecords (the_Items c)"

abbreviation CQueueManagerConnections :: "QueueManagerConnection_m list \<Rightarrow> cell" where
  "CQueueManagerConnections x \<equiv> CItems (Ii_QueueManagerConnections x)"

abbreviation the_QueueManagerConnections :: "cell \<Rightarrow> QueueManagerConnection_m list" where
  "the_QueueManagerConnections c \<equiv> the_Ii_QueueManagerConnections (the_Items c)"

abbreviation CQueueList :: "list_m \<Rightarrow> cell" where
  "CQueueList x \<equiv> CList (L_QueueList x)"

abbreviation the_QueueList :: "cell \<Rightarrow> list_m" where
  "the_QueueList c \<equiv> the_L_QueueList (the_List c)"

abbreviation CTopicList :: "list_m \<Rightarrow> cell" where
  "CTopicList x \<equiv> CList (L_TopicList x)"

abbreviation the_TopicList :: "cell \<Rightarrow> list_m" where
  "the_TopicList c \<equiv> the_L_TopicList (the_List c)"

abbreviation CChannelList :: "list_m \<Rightarrow> cell" where
  "CChannelList x \<equiv> CList (L_ChannelList x)"

abbreviation the_ChannelList :: "cell \<Rightarrow> list_m" where
  "the_ChannelList c \<equiv> the_L_ChannelList (the_List c)"

abbreviation CChannelAuthRuleList :: "list_m \<Rightarrow> cell" where
  "CChannelAuthRuleList x \<equiv> CList (L_ChannelAuthRuleList x)"

abbreviation the_ChannelAuthRuleList :: "cell \<Rightarrow> list_m" where
  "the_ChannelAuthRuleList c \<equiv> the_L_ChannelAuthRuleList (the_List c)"

abbreviation CAuthorityRecordList :: "list_m \<Rightarrow> cell" where
  "CAuthorityRecordList x \<equiv> CList (L_AuthorityRecordList x)"

abbreviation the_AuthorityRecordList :: "cell \<Rightarrow> list_m" where
  "the_AuthorityRecordList c \<equiv> the_L_AuthorityRecordList (the_List c)"

abbreviation CQueueManagerConnectionList :: "list_m \<Rightarrow> cell" where
  "CQueueManagerConnectionList x \<equiv> CList (L_QueueManagerConnectionList x)"

abbreviation the_QueueManagerConnectionList :: "cell \<Rightarrow> list_m" where
  "the_QueueManagerConnectionList c \<equiv> the_L_QueueManagerConnectionList (the_List c)"

end
