(* ===== verification/Deep_Copy.thy ===== *)
theory Deep_Copy
  imports Go_Structs
begin

text \<open>
  The generated deep copies, \<open>api/v1beta1/zz_generated.deepcopy.go\<close>, over the heap of \<open>Go_Heap\<close>
  and the structs of \<open>Go_Structs\<close>.

  \<open>T_DeepCopyInto x h\<close> is \<open>in.DeepCopyInto(out)\<close> with \<open>*in = x\<close> in the heap \<open>h\<close>: it returns what
  \<open>*out\<close> holds afterwards and the heap. \<open>T_DeepCopy\<close> and \<open>T_DeepCopyObject\<close> work on pointers, nil
  included. For each struct, \<open>T_contents\<close> is all that can be read through it, \<open>T_refs\<close> the cells it
  reaches and \<open>T_ok\<close> that its references point to cells of the right type, as they do in Go. The
  copies of \<open>metav1.ObjectMeta\<close>, \<open>ListMeta\<close>, \<open>Condition\<close> and \<open>Time\<close> are code of
  \<open>k8s.io/apimachinery\<close>: the record \<open>apimachinery\<close> holds them, and \<open>apimachinery_laws\<close> says that they are
  deep copies in the sense of \<open>deep_copier\<close>.

  The shared informer cache hands out objects through \<open>DeepCopyObject\<close>. The property at the end is
  what the reconcilers rely on when they change conditions, finalizers and annotations of an object
  they fetched: the cached object is not changed by that.
\<close>

section \<open>The apimachinery copies\<close>

record apimachinery =
  ObjectMeta_DeepCopyInto :: "ObjectMeta_m \<Rightarrow> memory \<Rightarrow> ObjectMeta_m \<times> memory"
  ListMeta_DeepCopyInto :: "ListMeta_m \<Rightarrow> memory \<Rightarrow> ListMeta_m \<times> memory"
  Condition_DeepCopyInto :: "Condition \<Rightarrow> memory \<Rightarrow> Condition \<times> memory"
  Time_DeepCopy :: "ref \<Rightarrow> memory \<Rightarrow> ref \<times> memory"

text \<open>
  What is read through the metadata of an object and of a list. \<open>ObjectMeta_m\<close> has the fields the
  operator uses.
\<close>

definition ObjectMeta_contents where
  "ObjectMeta_contents h x =
     (x\<lparr>mm_DeletionTimestamp := None, mm_Finalizers := None, mm_Annotations := None\<rparr>,
      cell_contents the_Time value_of h (mm_DeletionTimestamp x),
      cell_contents the_Strings (all_contents value_of) h (mm_Finalizers x),
      cell_contents the_StringMap entries_of h (mm_Annotations x))"

definition ObjectMeta_refs :: "memory \<Rightarrow> ObjectMeta_m \<Rightarrow> addr set" where
  "ObjectMeta_refs h x =
     cell_refs the_Time no_refs h (mm_DeletionTimestamp x) \<union>
     cell_refs the_Strings (all_refs no_refs) h (mm_Finalizers x) \<union>
     cell_refs the_StringMap no_refs h (mm_Annotations x)"

definition ObjectMeta_ok :: "memory \<Rightarrow> ObjectMeta_m \<Rightarrow> bool" where
  "ObjectMeta_ok h x \<longleftrightarrow>
     cell_ok CTime the_Time any_ok h (mm_DeletionTimestamp x) \<and>
     cell_ok CStrings the_Strings (all_ok any_ok) h (mm_Finalizers x) \<and>
     cell_ok CStringMap the_StringMap entries_ok h (mm_Annotations x)"

definition ListMeta_contents where
  "ListMeta_contents h x =
     (x\<lparr>lm_RemainingItemCount := None\<rparr>,
      cell_contents the_Int64 value_of h (lm_RemainingItemCount x))"

definition ListMeta_refs :: "memory \<Rightarrow> ListMeta_m \<Rightarrow> addr set" where
  "ListMeta_refs h x =
     cell_refs the_Int64 no_refs h (lm_RemainingItemCount x)"

definition ListMeta_ok :: "memory \<Rightarrow> ListMeta_m \<Rightarrow> bool" where
  "ListMeta_ok h x \<longleftrightarrow>
     cell_ok CInt64 the_Int64 any_ok h (lm_RemainingItemCount x)"

definition apimachinery_laws :: "apimachinery \<Rightarrow> bool" where
  "apimachinery_laws lib \<longleftrightarrow>
     deep_copier (ObjectMeta_DeepCopyInto lib) ObjectMeta_contents ObjectMeta_refs ObjectMeta_ok \<and>
     deep_copier (ListMeta_DeepCopyInto lib) ListMeta_contents ListMeta_refs ListMeta_ok \<and>
     deep_copier (Condition_DeepCopyInto lib) value_of no_refs any_ok \<and>
     deep_copier (Time_DeepCopy lib) (cell_contents the_Time value_of) (cell_refs the_Time no_refs)
       (cell_ok CTime the_Time any_ok)"

lemma ObjectMeta_copier:
  "apimachinery_laws lib \<Longrightarrow>
   deep_copier (ObjectMeta_DeepCopyInto lib) ObjectMeta_contents ObjectMeta_refs ObjectMeta_ok"
  by (simp add: apimachinery_laws_def)

lemma ListMeta_copier:
  "apimachinery_laws lib \<Longrightarrow>
   deep_copier (ListMeta_DeepCopyInto lib) ListMeta_contents ListMeta_refs ListMeta_ok"
  by (simp add: apimachinery_laws_def)

lemma Condition_copier:
  "apimachinery_laws lib \<Longrightarrow> deep_copier (Condition_DeepCopyInto lib) value_of no_refs any_ok"
  by (simp add: apimachinery_laws_def)

lemma Time_copier:
  "apimachinery_laws lib \<Longrightarrow>
   deep_copier (Time_DeepCopy lib) (cell_contents the_Time value_of) (cell_refs the_Time no_refs)
     (cell_ok CTime the_Time any_ok)"
  by (simp add: apimachinery_laws_def)

lemmas struct_copy_simps = seqCopy_def both_defs

section \<open>Structs without references\<close>

definition LocalObjectReference_DeepCopyInto :: "LocalObjectReference \<Rightarrow> memory \<Rightarrow>
    LocalObjectReference \<times> memory" where
  "LocalObjectReference_DeepCopyInto x h = (x, h)"

definition LocalObjectReference_DeepCopy :: "ref \<Rightarrow> memory \<Rightarrow> ref \<times> memory" where
  "LocalObjectReference_DeepCopy = copyPtr CLocalObjectReference the_LocalObjectReference
      LocalObjectReference_DeepCopyInto"

definition SecretReference_DeepCopyInto :: "SecretReference \<Rightarrow> memory \<Rightarrow> SecretReference \<times> memory"
    where
  "SecretReference_DeepCopyInto x h = (x, h)"

definition SecretReference_DeepCopy :: "ref \<Rightarrow> memory \<Rightarrow> ref \<times> memory" where
  "SecretReference_DeepCopy = copyPtr CSecretReference the_SecretReference
      SecretReference_DeepCopyInto"

definition BasicAuth_DeepCopyInto :: "BasicAuth \<Rightarrow> memory \<Rightarrow> BasicAuth \<times> memory" where
  "BasicAuth_DeepCopyInto x h = (x\<lparr>ba_SecretRef := ba_SecretRef x\<rparr>, h)"

definition BasicAuth_DeepCopy :: "ref \<Rightarrow> memory \<Rightarrow> ref \<times> memory" where
  "BasicAuth_DeepCopy = copyPtr CBasicAuth the_BasicAuth BasicAuth_DeepCopyInto"

definition LTPAAuth_DeepCopyInto :: "LTPAAuth \<Rightarrow> memory \<Rightarrow> LTPAAuth \<times> memory" where
  "LTPAAuth_DeepCopyInto x h = (x\<lparr>la_SecretRef := la_SecretRef x\<rparr>, h)"

definition LTPAAuth_DeepCopy :: "ref \<Rightarrow> memory \<Rightarrow> ref \<times> memory" where
  "LTPAAuth_DeepCopy = copyPtr CLTPAAuth the_LTPAAuth LTPAAuth_DeepCopyInto"

definition ClientCertAuth_DeepCopyInto :: "ClientCertAuth \<Rightarrow> memory \<Rightarrow> ClientCertAuth \<times> memory" where
  "ClientCertAuth_DeepCopyInto x h = (x\<lparr>cc_SecretRef := cc_SecretRef x\<rparr>, h)"

definition ClientCertAuth_DeepCopy :: "ref \<Rightarrow> memory \<Rightarrow> ref \<times> memory" where
  "ClientCertAuth_DeepCopy = copyPtr CClientCertAuth the_ClientCertAuth ClientCertAuth_DeepCopyInto"

definition WorkloadLifecyclePolicies_DeepCopyInto :: "WorkloadLifecyclePolicies \<Rightarrow> memory \<Rightarrow>
    WorkloadLifecyclePolicies \<times> memory" where
  "WorkloadLifecyclePolicies_DeepCopyInto x h = (x, h)"

definition WorkloadLifecyclePolicies_DeepCopy :: "ref \<Rightarrow> memory \<Rightarrow> ref \<times> memory" where
  "WorkloadLifecyclePolicies_DeepCopy = copyPtr CWorkloadLifecyclePolicies
      the_WorkloadLifecyclePolicies WorkloadLifecyclePolicies_DeepCopyInto"

definition ChannelAuthRuleSpec_DeepCopyInto :: "ChannelAuthRuleSpec_m \<Rightarrow> memory \<Rightarrow>
    ChannelAuthRuleSpec_m \<times> memory" where
  "ChannelAuthRuleSpec_DeepCopyInto x h = (x\<lparr>rm_ConnectionRef := rm_ConnectionRef x, rm_Policies
      := rm_Policies x\<rparr>, h)"

definition ChannelAuthRuleSpec_DeepCopy :: "ref \<Rightarrow> memory \<Rightarrow> ref \<times> memory" where
  "ChannelAuthRuleSpec_DeepCopy = copyPtr CChannelAuthRuleSpec the_ChannelAuthRuleSpec
      ChannelAuthRuleSpec_DeepCopyInto"

section \<open>Connection specs\<close>

definition TLSConfig_DeepCopyInto ::
  "TLSConfig_m \<Rightarrow> memory \<Rightarrow> TLSConfig_m \<times> memory" where
  "TLSConfig_DeepCopyInto x h =
     (let out = x;
          (caSecretRef, h) = copyPtr CSecretReference the_SecretReference copyVal
              (tc_CASecretRef x) h;
          out = out\<lparr>tc_CASecretRef := caSecretRef\<rparr>
      in (out, h))"

definition TLSConfig_contents where
  "TLSConfig_contents h x =
     (x\<lparr>tc_CASecretRef := None\<rparr>,
      cell_contents the_SecretReference value_of h (tc_CASecretRef x))"

definition TLSConfig_refs :: "memory \<Rightarrow> TLSConfig_m \<Rightarrow> addr set" where
  "TLSConfig_refs h x =
     cell_refs the_SecretReference no_refs h (tc_CASecretRef x)"

definition TLSConfig_ok :: "memory \<Rightarrow> TLSConfig_m \<Rightarrow> bool" where
  "TLSConfig_ok h x \<longleftrightarrow>
     cell_ok CSecretReference the_SecretReference any_ok h (tc_CASecretRef x)"

lemma deep_copier_TLSConfig:
  "deep_copier TLSConfig_DeepCopyInto TLSConfig_contents TLSConfig_refs TLSConfig_ok"
  by (rule deep_copier_struct [OF copyPtr_val [where un = the_SecretReference and mk =
      CSecretReference],
        where get = "\<lambda>x. tc_CASecretRef x"
          and put = "\<lambda>caSecretRef x. x\<lparr>tc_CASecretRef := caSecretRef\<rparr>"
          and rest = "\<lambda>x. x\<lparr>tc_CASecretRef := None\<rparr>"])
    (auto simp: TLSConfig_DeepCopyInto_def TLSConfig_contents_def TLSConfig_refs_def
        TLSConfig_ok_def struct_copy_simps
      split: prod.splits)

interpretation TLSConfig: deep_copier TLSConfig_DeepCopyInto TLSConfig_contents TLSConfig_refs
    TLSConfig_ok
  by (rule deep_copier_TLSConfig)

definition TLSConfig_DeepCopy :: "ref \<Rightarrow> memory \<Rightarrow> ref \<times> memory" where
  "TLSConfig_DeepCopy = copyPtr CTLSConfig the_TLSConfig TLSConfig_DeepCopyInto"

definition MQWebAuthentication_DeepCopyInto ::
  "MQWebAuthentication_m \<Rightarrow> memory \<Rightarrow> MQWebAuthentication_m \<times> memory" where
  "MQWebAuthentication_DeepCopyInto x h =
     (let out = x;
          (basic, h) = copyPtr CBasicAuth the_BasicAuth copyVal (wa_Basic x) h;
          out = out\<lparr>wa_Basic := basic\<rparr>;
          (ltpa, h) = copyPtr CLTPAAuth the_LTPAAuth copyVal (wa_LTPA x) h;
          out = out\<lparr>wa_LTPA := ltpa\<rparr>;
          (clientCert, h) = copyPtr CClientCertAuth the_ClientCertAuth copyVal (wa_ClientCert x) h;
          out = out\<lparr>wa_ClientCert := clientCert\<rparr>
      in (out, h))"

definition MQWebAuthentication_contents where
  "MQWebAuthentication_contents h x =
     (x\<lparr>wa_Basic := None, wa_LTPA := None, wa_ClientCert := None\<rparr>,
      cell_contents the_BasicAuth value_of h (wa_Basic x),
      cell_contents the_LTPAAuth value_of h (wa_LTPA x),
      cell_contents the_ClientCertAuth value_of h (wa_ClientCert x))"

definition MQWebAuthentication_refs :: "memory \<Rightarrow> MQWebAuthentication_m \<Rightarrow> addr set" where
  "MQWebAuthentication_refs h x =
     cell_refs the_BasicAuth no_refs h (wa_Basic x) \<union>
     cell_refs the_LTPAAuth no_refs h (wa_LTPA x) \<union>
     cell_refs the_ClientCertAuth no_refs h (wa_ClientCert x)"

definition MQWebAuthentication_ok :: "memory \<Rightarrow> MQWebAuthentication_m \<Rightarrow> bool" where
  "MQWebAuthentication_ok h x \<longleftrightarrow>
     cell_ok CBasicAuth the_BasicAuth any_ok h (wa_Basic x) \<and>
     cell_ok CLTPAAuth the_LTPAAuth any_ok h (wa_LTPA x) \<and>
     cell_ok CClientCertAuth the_ClientCertAuth any_ok h (wa_ClientCert x)"

lemma deep_copier_MQWebAuthentication:
  "deep_copier MQWebAuthentication_DeepCopyInto MQWebAuthentication_contents
      MQWebAuthentication_refs MQWebAuthentication_ok"
  by (rule deep_copier_struct [OF deep_copier_seq [OF copyPtr_val [where un = the_BasicAuth and
      mk = CBasicAuth] deep_copier_seq [OF copyPtr_val [where un = the_LTPAAuth and mk =
      CLTPAAuth] copyPtr_val [where un = the_ClientCertAuth and mk = CClientCertAuth]]],
        where get = "\<lambda>x. (wa_Basic x, wa_LTPA x, wa_ClientCert x)"
          and put = "\<lambda>(basic, ltpa, clientCert) x. x\<lparr>wa_Basic := basic, wa_LTPA := ltpa,
              wa_ClientCert := clientCert\<rparr>"
          and rest = "\<lambda>x. x\<lparr>wa_Basic := None, wa_LTPA := None, wa_ClientCert := None\<rparr>"])
    (auto simp: MQWebAuthentication_DeepCopyInto_def MQWebAuthentication_contents_def
        MQWebAuthentication_refs_def MQWebAuthentication_ok_def struct_copy_simps
      split: prod.splits)

interpretation MQWebAuthentication: deep_copier MQWebAuthentication_DeepCopyInto
    MQWebAuthentication_contents MQWebAuthentication_refs MQWebAuthentication_ok
  by (rule deep_copier_MQWebAuthentication)

definition MQWebAuthentication_DeepCopy :: "ref \<Rightarrow> memory \<Rightarrow> ref \<times> memory" where
  "MQWebAuthentication_DeepCopy = copyPtr CMQWebAuthentication the_MQWebAuthentication
      MQWebAuthentication_DeepCopyInto"

definition QueueManagerConnectionSpec_DeepCopyInto ::
  "QueueManagerConnectionSpec_m \<Rightarrow> memory \<Rightarrow> QueueManagerConnectionSpec_m \<times> memory" where
  "QueueManagerConnectionSpec_DeepCopyInto x h =
     (let out = x;
          (tls, h) = copyPtr CTLSConfig the_TLSConfig TLSConfig_DeepCopyInto (qs_TLS x) h;
          out = out\<lparr>qs_TLS := tls\<rparr>;
          (credentialsSecretRef, h) = copyPtr CSecretReference the_SecretReference copyVal
              (qs_CredentialsSecretRef x) h;
          out = out\<lparr>qs_CredentialsSecretRef := credentialsSecretRef\<rparr>;
          (authentication, h) = copyPtr CMQWebAuthentication the_MQWebAuthentication
              MQWebAuthentication_DeepCopyInto (qs_Authentication x) h;
          out = out\<lparr>qs_Authentication := authentication\<rparr>
      in (out, h))"

definition QueueManagerConnectionSpec_contents where
  "QueueManagerConnectionSpec_contents h x =
     (x\<lparr>qs_TLS := None, qs_CredentialsSecretRef := None, qs_Authentication := None\<rparr>,
      cell_contents the_TLSConfig TLSConfig_contents h (qs_TLS x),
      cell_contents the_SecretReference value_of h (qs_CredentialsSecretRef x),
      cell_contents the_MQWebAuthentication MQWebAuthentication_contents h (qs_Authentication x))"

definition QueueManagerConnectionSpec_refs :: "memory \<Rightarrow> QueueManagerConnectionSpec_m \<Rightarrow> addr set"
    where
  "QueueManagerConnectionSpec_refs h x =
     cell_refs the_TLSConfig TLSConfig_refs h (qs_TLS x) \<union>
     cell_refs the_SecretReference no_refs h (qs_CredentialsSecretRef x) \<union>
     cell_refs the_MQWebAuthentication MQWebAuthentication_refs h (qs_Authentication x)"

definition QueueManagerConnectionSpec_ok :: "memory \<Rightarrow> QueueManagerConnectionSpec_m \<Rightarrow> bool" where
  "QueueManagerConnectionSpec_ok h x \<longleftrightarrow>
     cell_ok CTLSConfig the_TLSConfig TLSConfig_ok h (qs_TLS x) \<and>
     cell_ok CSecretReference the_SecretReference any_ok h (qs_CredentialsSecretRef x) \<and>
     cell_ok CMQWebAuthentication the_MQWebAuthentication MQWebAuthentication_ok h
         (qs_Authentication x)"

lemma deep_copier_QueueManagerConnectionSpec:
  "deep_copier QueueManagerConnectionSpec_DeepCopyInto QueueManagerConnectionSpec_contents
      QueueManagerConnectionSpec_refs QueueManagerConnectionSpec_ok"
  by (rule deep_copier_struct [OF deep_copier_seq [OF deep_copier_ptr [OF deep_copier_TLSConfig,
      where un = the_TLSConfig and mk = CTLSConfig] deep_copier_seq [OF copyPtr_val [where un =
      the_SecretReference and mk = CSecretReference] deep_copier_ptr [OF
      deep_copier_MQWebAuthentication, where un = the_MQWebAuthentication and mk =
      CMQWebAuthentication]]],
        where get = "\<lambda>x. (qs_TLS x, qs_CredentialsSecretRef x, qs_Authentication x)"
          and put = "\<lambda>(tls, credentialsSecretRef, authentication) x. x\<lparr>qs_TLS := tls,
              qs_CredentialsSecretRef := credentialsSecretRef, qs_Authentication :=
              authentication\<rparr>"
          and rest = "\<lambda>x. x\<lparr>qs_TLS := None, qs_CredentialsSecretRef := None, qs_Authentication
              := None\<rparr>"])
    (auto simp: QueueManagerConnectionSpec_DeepCopyInto_def
        QueueManagerConnectionSpec_contents_def QueueManagerConnectionSpec_refs_def
        QueueManagerConnectionSpec_ok_def struct_copy_simps
      split: prod.splits)

interpretation QueueManagerConnectionSpec: deep_copier QueueManagerConnectionSpec_DeepCopyInto
    QueueManagerConnectionSpec_contents QueueManagerConnectionSpec_refs
    QueueManagerConnectionSpec_ok
  by (rule deep_copier_QueueManagerConnectionSpec)

definition QueueManagerConnectionSpec_DeepCopy :: "ref \<Rightarrow> memory \<Rightarrow> ref \<times> memory" where
  "QueueManagerConnectionSpec_DeepCopy = copyPtr CQueueManagerConnectionSpec
      the_QueueManagerConnectionSpec QueueManagerConnectionSpec_DeepCopyInto"

section \<open>Workload specs\<close>

definition QueueSpec_DeepCopyInto ::
  "QueueSpec_m \<Rightarrow> memory \<Rightarrow> QueueSpec_m \<times> memory" where
  "QueueSpec_DeepCopyInto x h =
     (let out = x\<lparr>qu_ConnectionRef := qu_ConnectionRef x\<rparr>;
          (attributes, h) = copyMap CStringMap the_StringMap (qu_Attributes x) h;
          out = out\<lparr>qu_Attributes := attributes\<rparr>;
          (maxDepth, h) = copyPtr CInt32 the_Int32 copyVal (qu_MaxDepth x) h;
          out = out\<lparr>qu_MaxDepth := maxDepth\<rparr>
      in (out\<lparr>qu_Policies := qu_Policies x\<rparr>, h))"

definition QueueSpec_contents where
  "QueueSpec_contents h x =
     (x\<lparr>qu_Attributes := None, qu_MaxDepth := None\<rparr>,
      cell_contents the_StringMap entries_of h (qu_Attributes x),
      cell_contents the_Int32 value_of h (qu_MaxDepth x))"

definition QueueSpec_refs :: "memory \<Rightarrow> QueueSpec_m \<Rightarrow> addr set" where
  "QueueSpec_refs h x =
     cell_refs the_StringMap no_refs h (qu_Attributes x) \<union>
     cell_refs the_Int32 no_refs h (qu_MaxDepth x)"

definition QueueSpec_ok :: "memory \<Rightarrow> QueueSpec_m \<Rightarrow> bool" where
  "QueueSpec_ok h x \<longleftrightarrow>
     cell_ok CStringMap the_StringMap entries_ok h (qu_Attributes x) \<and>
     cell_ok CInt32 the_Int32 any_ok h (qu_MaxDepth x)"

lemma deep_copier_QueueSpec:
  "deep_copier QueueSpec_DeepCopyInto QueueSpec_contents QueueSpec_refs QueueSpec_ok"
  by (rule deep_copier_struct [OF deep_copier_seq [OF deep_copier_map [where un = the_StringMap
      and mk = CStringMap] copyPtr_val [where un = the_Int32 and mk = CInt32]],
        where get = "\<lambda>x. (qu_Attributes x, qu_MaxDepth x)"
          and put = "\<lambda>(attributes, maxDepth) x. x\<lparr>qu_Attributes := attributes, qu_MaxDepth :=
              maxDepth\<rparr>"
          and rest = "\<lambda>x. x\<lparr>qu_Attributes := None, qu_MaxDepth := None\<rparr>"])
    (auto simp: QueueSpec_DeepCopyInto_def QueueSpec_contents_def QueueSpec_refs_def
        QueueSpec_ok_def struct_copy_simps
      split: prod.splits)

interpretation QueueSpec: deep_copier QueueSpec_DeepCopyInto QueueSpec_contents QueueSpec_refs
    QueueSpec_ok
  by (rule deep_copier_QueueSpec)

definition QueueSpec_DeepCopy :: "ref \<Rightarrow> memory \<Rightarrow> ref \<times> memory" where
  "QueueSpec_DeepCopy = copyPtr CQueueSpec the_QueueSpec QueueSpec_DeepCopyInto"

definition TopicSpec_DeepCopyInto ::
  "TopicSpec_m \<Rightarrow> memory \<Rightarrow> TopicSpec_m \<times> memory" where
  "TopicSpec_DeepCopyInto x h =
     (let out = x\<lparr>tp_ConnectionRef := tp_ConnectionRef x\<rparr>;
          (attributes, h) = copyMap CStringMap the_StringMap (tp_Attributes x) h;
          out = out\<lparr>tp_Attributes := attributes\<rparr>
      in (out\<lparr>tp_Policies := tp_Policies x\<rparr>, h))"

definition TopicSpec_contents where
  "TopicSpec_contents h x =
     (x\<lparr>tp_Attributes := None\<rparr>,
      cell_contents the_StringMap entries_of h (tp_Attributes x))"

definition TopicSpec_refs :: "memory \<Rightarrow> TopicSpec_m \<Rightarrow> addr set" where
  "TopicSpec_refs h x =
     cell_refs the_StringMap no_refs h (tp_Attributes x)"

definition TopicSpec_ok :: "memory \<Rightarrow> TopicSpec_m \<Rightarrow> bool" where
  "TopicSpec_ok h x \<longleftrightarrow>
     cell_ok CStringMap the_StringMap entries_ok h (tp_Attributes x)"

lemma deep_copier_TopicSpec:
  "deep_copier TopicSpec_DeepCopyInto TopicSpec_contents TopicSpec_refs TopicSpec_ok"
  by (rule deep_copier_struct [OF deep_copier_map [where un = the_StringMap and mk = CStringMap],
        where get = "\<lambda>x. tp_Attributes x"
          and put = "\<lambda>attributes x. x\<lparr>tp_Attributes := attributes\<rparr>"
          and rest = "\<lambda>x. x\<lparr>tp_Attributes := None\<rparr>"])
    (auto simp: TopicSpec_DeepCopyInto_def TopicSpec_contents_def TopicSpec_refs_def
        TopicSpec_ok_def struct_copy_simps
      split: prod.splits)

interpretation TopicSpec: deep_copier TopicSpec_DeepCopyInto TopicSpec_contents TopicSpec_refs
    TopicSpec_ok
  by (rule deep_copier_TopicSpec)

definition TopicSpec_DeepCopy :: "ref \<Rightarrow> memory \<Rightarrow> ref \<times> memory" where
  "TopicSpec_DeepCopy = copyPtr CTopicSpec the_TopicSpec TopicSpec_DeepCopyInto"

definition ChannelSpec_DeepCopyInto ::
  "ChannelSpec_m \<Rightarrow> memory \<Rightarrow> ChannelSpec_m \<times> memory" where
  "ChannelSpec_DeepCopyInto x h =
     (let out = x\<lparr>cm_ConnectionRef := cm_ConnectionRef x\<rparr>;
          (attributes, h) = copyMap CStringMap the_StringMap (cm_Attributes x) h;
          out = out\<lparr>cm_Attributes := attributes\<rparr>;
          (maxMsgLength, h) = copyPtr CInt32 the_Int32 copyVal (cm_MaxMsgLength x) h;
          out = out\<lparr>cm_MaxMsgLength := maxMsgLength\<rparr>;
          (shareConv, h) = copyPtr CInt32 the_Int32 copyVal (cm_ShareConv x) h;
          out = out\<lparr>cm_ShareConv := shareConv\<rparr>;
          (maxInstances, h) = copyPtr CInt32 the_Int32 copyVal (cm_MaxInstances x) h;
          out = out\<lparr>cm_MaxInstances := maxInstances\<rparr>;
          (maxInstancesClient, h) = copyPtr CInt32 the_Int32 copyVal (cm_MaxInstancesClient x) h;
          out = out\<lparr>cm_MaxInstancesClient := maxInstancesClient\<rparr>
      in (out\<lparr>cm_Policies := cm_Policies x\<rparr>, h))"

definition ChannelSpec_contents where
  "ChannelSpec_contents h x =
     (x\<lparr>cm_Attributes := None, cm_MaxMsgLength := None, cm_ShareConv := None, cm_MaxInstances :=
         None, cm_MaxInstancesClient := None\<rparr>,
      cell_contents the_StringMap entries_of h (cm_Attributes x),
      cell_contents the_Int32 value_of h (cm_MaxMsgLength x),
      cell_contents the_Int32 value_of h (cm_ShareConv x),
      cell_contents the_Int32 value_of h (cm_MaxInstances x),
      cell_contents the_Int32 value_of h (cm_MaxInstancesClient x))"

definition ChannelSpec_refs :: "memory \<Rightarrow> ChannelSpec_m \<Rightarrow> addr set" where
  "ChannelSpec_refs h x =
     cell_refs the_StringMap no_refs h (cm_Attributes x) \<union>
     cell_refs the_Int32 no_refs h (cm_MaxMsgLength x) \<union>
     cell_refs the_Int32 no_refs h (cm_ShareConv x) \<union>
     cell_refs the_Int32 no_refs h (cm_MaxInstances x) \<union>
     cell_refs the_Int32 no_refs h (cm_MaxInstancesClient x)"

definition ChannelSpec_ok :: "memory \<Rightarrow> ChannelSpec_m \<Rightarrow> bool" where
  "ChannelSpec_ok h x \<longleftrightarrow>
     cell_ok CStringMap the_StringMap entries_ok h (cm_Attributes x) \<and>
     cell_ok CInt32 the_Int32 any_ok h (cm_MaxMsgLength x) \<and>
     cell_ok CInt32 the_Int32 any_ok h (cm_ShareConv x) \<and>
     cell_ok CInt32 the_Int32 any_ok h (cm_MaxInstances x) \<and>
     cell_ok CInt32 the_Int32 any_ok h (cm_MaxInstancesClient x)"

lemma deep_copier_ChannelSpec:
  "deep_copier ChannelSpec_DeepCopyInto ChannelSpec_contents ChannelSpec_refs ChannelSpec_ok"
  by (rule deep_copier_struct [OF deep_copier_seq [OF deep_copier_map [where un = the_StringMap
      and mk = CStringMap] deep_copier_seq [OF copyPtr_val [where un = the_Int32 and mk =
      CInt32] deep_copier_seq [OF copyPtr_val [where un = the_Int32 and mk = CInt32]
      deep_copier_seq [OF copyPtr_val [where un = the_Int32 and mk = CInt32] copyPtr_val [where
      un = the_Int32 and mk = CInt32]]]]],
        where get = "\<lambda>x. (cm_Attributes x, cm_MaxMsgLength x, cm_ShareConv x, cm_MaxInstances x,
            cm_MaxInstancesClient x)"
          and put = "\<lambda>(attributes, maxMsgLength, shareConv, maxInstances, maxInstancesClient) x.
              x\<lparr>cm_Attributes := attributes, cm_MaxMsgLength := maxMsgLength, cm_ShareConv :=
              shareConv, cm_MaxInstances := maxInstances, cm_MaxInstancesClient :=
              maxInstancesClient\<rparr>"
          and rest = "\<lambda>x. x\<lparr>cm_Attributes := None, cm_MaxMsgLength := None, cm_ShareConv :=
              None, cm_MaxInstances := None, cm_MaxInstancesClient := None\<rparr>"])
    (auto simp: ChannelSpec_DeepCopyInto_def ChannelSpec_contents_def ChannelSpec_refs_def
        ChannelSpec_ok_def struct_copy_simps
      split: prod.splits)

interpretation ChannelSpec: deep_copier ChannelSpec_DeepCopyInto ChannelSpec_contents
    ChannelSpec_refs ChannelSpec_ok
  by (rule deep_copier_ChannelSpec)

definition ChannelSpec_DeepCopy :: "ref \<Rightarrow> memory \<Rightarrow> ref \<times> memory" where
  "ChannelSpec_DeepCopy = copyPtr CChannelSpec the_ChannelSpec ChannelSpec_DeepCopyInto"

definition AuthorityRecordSpec_DeepCopyInto ::
  "AuthorityRecordSpec_m \<Rightarrow> memory \<Rightarrow> AuthorityRecordSpec_m \<times> memory" where
  "AuthorityRecordSpec_DeepCopyInto x h =
     (let out = x\<lparr>am_ConnectionRef := am_ConnectionRef x\<rparr>;
          (authorities, h) = copySlice CStrings the_Strings copyVal (am_Authorities x) h;
          out = out\<lparr>am_Authorities := authorities\<rparr>
      in (out\<lparr>am_Policies := am_Policies x\<rparr>, h))"

definition AuthorityRecordSpec_contents where
  "AuthorityRecordSpec_contents h x =
     (x\<lparr>am_Authorities := None\<rparr>,
      cell_contents the_Strings (all_contents value_of) h (am_Authorities x))"

definition AuthorityRecordSpec_refs :: "memory \<Rightarrow> AuthorityRecordSpec_m \<Rightarrow> addr set" where
  "AuthorityRecordSpec_refs h x =
     cell_refs the_Strings (all_refs no_refs) h (am_Authorities x)"

definition AuthorityRecordSpec_ok :: "memory \<Rightarrow> AuthorityRecordSpec_m \<Rightarrow> bool" where
  "AuthorityRecordSpec_ok h x \<longleftrightarrow>
     cell_ok CStrings the_Strings (all_ok any_ok) h (am_Authorities x)"

lemma deep_copier_AuthorityRecordSpec:
  "deep_copier AuthorityRecordSpec_DeepCopyInto AuthorityRecordSpec_contents
      AuthorityRecordSpec_refs AuthorityRecordSpec_ok"
  by (rule deep_copier_struct [OF deep_copier_slice [OF deep_copier_val, where un = the_Strings
      and mk = CStrings],
        where get = "\<lambda>x. am_Authorities x"
          and put = "\<lambda>authorities x. x\<lparr>am_Authorities := authorities\<rparr>"
          and rest = "\<lambda>x. x\<lparr>am_Authorities := None\<rparr>"])
    (auto simp: AuthorityRecordSpec_DeepCopyInto_def AuthorityRecordSpec_contents_def
        AuthorityRecordSpec_refs_def AuthorityRecordSpec_ok_def struct_copy_simps
      split: prod.splits)

interpretation AuthorityRecordSpec: deep_copier AuthorityRecordSpec_DeepCopyInto
    AuthorityRecordSpec_contents AuthorityRecordSpec_refs AuthorityRecordSpec_ok
  by (rule deep_copier_AuthorityRecordSpec)

definition AuthorityRecordSpec_DeepCopy :: "ref \<Rightarrow> memory \<Rightarrow> ref \<times> memory" where
  "AuthorityRecordSpec_DeepCopy = copyPtr CAuthorityRecordSpec the_AuthorityRecordSpec
      AuthorityRecordSpec_DeepCopyInto"

section \<open>Statuses\<close>

definition MQObjectStatusFields_DeepCopyInto ::
  "apimachinery \<Rightarrow> MQObjectStatusFields_m \<Rightarrow> memory \<Rightarrow> MQObjectStatusFields_m \<times> memory" where
  "MQObjectStatusFields_DeepCopyInto lib x h =
     (let out = x;
          (lastSyncTime, h) = ifNotNil (Time_DeepCopy lib) (sf_LastSyncTime x) h;
          out = out\<lparr>sf_LastSyncTime := lastSyncTime\<rparr>;
          (mqObjectExists, h) = copyPtr CBool the_Bool copyVal (sf_MQObjectExists x) h;
          out = out\<lparr>sf_MQObjectExists := mqObjectExists\<rparr>
      in (out, h))"

definition MQObjectStatusFields_contents where
  "MQObjectStatusFields_contents h x =
     (x\<lparr>sf_LastSyncTime := None, sf_MQObjectExists := None\<rparr>,
      cell_contents the_Time value_of h (sf_LastSyncTime x),
      cell_contents the_Bool value_of h (sf_MQObjectExists x))"

definition MQObjectStatusFields_refs :: "memory \<Rightarrow> MQObjectStatusFields_m \<Rightarrow> addr set" where
  "MQObjectStatusFields_refs h x =
     cell_refs the_Time no_refs h (sf_LastSyncTime x) \<union>
     cell_refs the_Bool no_refs h (sf_MQObjectExists x)"

definition MQObjectStatusFields_ok :: "memory \<Rightarrow> MQObjectStatusFields_m \<Rightarrow> bool" where
  "MQObjectStatusFields_ok h x \<longleftrightarrow>
     cell_ok CTime the_Time any_ok h (sf_LastSyncTime x) \<and>
     cell_ok CBool the_Bool any_ok h (sf_MQObjectExists x)"

lemma deep_copier_MQObjectStatusFields:
  "apimachinery_laws lib \<Longrightarrow>
   deep_copier (MQObjectStatusFields_DeepCopyInto lib) MQObjectStatusFields_contents
       MQObjectStatusFields_refs MQObjectStatusFields_ok"
  by (rule deep_copier_struct [OF deep_copier_seq [OF deep_copier_ifNotNil [OF Time_copier]
      copyPtr_val [where un = the_Bool and mk = CBool]],
        where get = "\<lambda>x. (sf_LastSyncTime x, sf_MQObjectExists x)"
          and put = "\<lambda>(lastSyncTime, mqObjectExists) x. x\<lparr>sf_LastSyncTime := lastSyncTime,
              sf_MQObjectExists := mqObjectExists\<rparr>"
          and rest = "\<lambda>x. x\<lparr>sf_LastSyncTime := None, sf_MQObjectExists := None\<rparr>"])
    (auto simp: MQObjectStatusFields_DeepCopyInto_def MQObjectStatusFields_contents_def
        MQObjectStatusFields_refs_def MQObjectStatusFields_ok_def struct_copy_simps
      split: prod.splits)

definition MQObjectStatusFields_DeepCopy :: "apimachinery \<Rightarrow> ref \<Rightarrow> memory \<Rightarrow> ref \<times> memory" where
  "MQObjectStatusFields_DeepCopy lib = copyPtr CMQObjectStatusFields the_MQObjectStatusFields
      (MQObjectStatusFields_DeepCopyInto lib)"

text \<open>The status structs have their observers in common.\<close>

definition WorkloadStatus_contents where
  "WorkloadStatus_contents h x =
     ((ws_ObservedGeneration x, ws_DesiredMQSC x),
      cell_contents the_Conditions (all_contents value_of) h (ws_Conditions x),
      MQObjectStatusFields_contents h (ws_Fields x))"

definition WorkloadStatus_refs :: "memory \<Rightarrow> WorkloadStatus_m \<Rightarrow> addr set" where
  "WorkloadStatus_refs h x =
     cell_refs the_Conditions (all_refs no_refs) h (ws_Conditions x) \<union>
     MQObjectStatusFields_refs h (ws_Fields x)"

definition WorkloadStatus_ok :: "memory \<Rightarrow> WorkloadStatus_m \<Rightarrow> bool" where
  "WorkloadStatus_ok h x \<longleftrightarrow>
     cell_ok CConditions the_Conditions (all_ok any_ok) h (ws_Conditions x) \<and>
     MQObjectStatusFields_ok h (ws_Fields x)"

definition QueueStatus_DeepCopyInto ::
  "apimachinery \<Rightarrow> WorkloadStatus_m \<Rightarrow> memory \<Rightarrow> WorkloadStatus_m \<times> memory" where
  "QueueStatus_DeepCopyInto lib x h =
     (let out = x;
          (conditions, h) = copySlice CConditions the_Conditions (Condition_DeepCopyInto lib)
              (ws_Conditions x) h;
          out = out\<lparr>ws_Conditions := conditions\<rparr>;
          (fields, h) = MQObjectStatusFields_DeepCopyInto lib (ws_Fields x) h
      in (out\<lparr>ws_Fields := fields\<rparr>, h))"

definition QueueStatus_DeepCopy :: "apimachinery \<Rightarrow> ref \<Rightarrow> memory \<Rightarrow> ref \<times> memory" where
  "QueueStatus_DeepCopy lib = copyPtr CQueueStatus the_QueueStatus (QueueStatus_DeepCopyInto lib)"

definition TopicStatus_DeepCopyInto ::
  "apimachinery \<Rightarrow> WorkloadStatus_m \<Rightarrow> memory \<Rightarrow> WorkloadStatus_m \<times> memory" where
  "TopicStatus_DeepCopyInto lib x h =
     (let out = x;
          (conditions, h) = copySlice CConditions the_Conditions (Condition_DeepCopyInto lib)
              (ws_Conditions x) h;
          out = out\<lparr>ws_Conditions := conditions\<rparr>;
          (fields, h) = MQObjectStatusFields_DeepCopyInto lib (ws_Fields x) h
      in (out\<lparr>ws_Fields := fields\<rparr>, h))"

definition TopicStatus_DeepCopy :: "apimachinery \<Rightarrow> ref \<Rightarrow> memory \<Rightarrow> ref \<times> memory" where
  "TopicStatus_DeepCopy lib = copyPtr CTopicStatus the_TopicStatus (TopicStatus_DeepCopyInto lib)"

definition ChannelStatus_DeepCopyInto ::
  "apimachinery \<Rightarrow> WorkloadStatus_m \<Rightarrow> memory \<Rightarrow> WorkloadStatus_m \<times> memory" where
  "ChannelStatus_DeepCopyInto lib x h =
     (let out = x;
          (conditions, h) = copySlice CConditions the_Conditions (Condition_DeepCopyInto lib)
              (ws_Conditions x) h;
          out = out\<lparr>ws_Conditions := conditions\<rparr>;
          (fields, h) = MQObjectStatusFields_DeepCopyInto lib (ws_Fields x) h
      in (out\<lparr>ws_Fields := fields\<rparr>, h))"

definition ChannelStatus_DeepCopy :: "apimachinery \<Rightarrow> ref \<Rightarrow> memory \<Rightarrow> ref \<times> memory" where
  "ChannelStatus_DeepCopy lib = copyPtr CChannelStatus the_ChannelStatus
      (ChannelStatus_DeepCopyInto lib)"

definition ChannelAuthRuleStatus_DeepCopyInto ::
  "apimachinery \<Rightarrow> WorkloadStatus_m \<Rightarrow> memory \<Rightarrow> WorkloadStatus_m \<times> memory" where
  "ChannelAuthRuleStatus_DeepCopyInto lib x h =
     (let out = x;
          (conditions, h) = copySlice CConditions the_Conditions (Condition_DeepCopyInto lib)
              (ws_Conditions x) h;
          out = out\<lparr>ws_Conditions := conditions\<rparr>;
          (fields, h) = MQObjectStatusFields_DeepCopyInto lib (ws_Fields x) h
      in (out\<lparr>ws_Fields := fields\<rparr>, h))"

definition ChannelAuthRuleStatus_DeepCopy :: "apimachinery \<Rightarrow> ref \<Rightarrow> memory \<Rightarrow> ref \<times> memory" where
  "ChannelAuthRuleStatus_DeepCopy lib = copyPtr CChannelAuthRuleStatus the_ChannelAuthRuleStatus
      (ChannelAuthRuleStatus_DeepCopyInto lib)"

definition AuthorityRecordStatus_DeepCopyInto ::
  "apimachinery \<Rightarrow> WorkloadStatus_m \<Rightarrow> memory \<Rightarrow> WorkloadStatus_m \<times> memory" where
  "AuthorityRecordStatus_DeepCopyInto lib x h =
     (let out = x;
          (conditions, h) = copySlice CConditions the_Conditions (Condition_DeepCopyInto lib)
              (ws_Conditions x) h;
          out = out\<lparr>ws_Conditions := conditions\<rparr>;
          (fields, h) = MQObjectStatusFields_DeepCopyInto lib (ws_Fields x) h
      in (out\<lparr>ws_Fields := fields\<rparr>, h))"

definition AuthorityRecordStatus_DeepCopy :: "apimachinery \<Rightarrow> ref \<Rightarrow> memory \<Rightarrow> ref \<times> memory" where
  "AuthorityRecordStatus_DeepCopy lib = copyPtr CAuthorityRecordStatus the_AuthorityRecordStatus
      (AuthorityRecordStatus_DeepCopyInto lib)"

lemma workload_status_copier:
  assumes "apimachinery_laws lib"
    and "\<And>x h. copyInto x h =
      (let (conditions, h) = copySlice CConditions the_Conditions (Condition_DeepCopyInto lib)
          (ws_Conditions x) h;
           (fields, h) = MQObjectStatusFields_DeepCopyInto lib (ws_Fields x) h
       in (x\<lparr>ws_Conditions := conditions, ws_Fields := fields\<rparr>, h))"
  shows "deep_copier copyInto WorkloadStatus_contents WorkloadStatus_refs WorkloadStatus_ok"
  by (rule deep_copier_struct [OF deep_copier_seq [OF deep_copier_slice [OF Condition_copier,
      where un = the_Conditions and mk = CConditions] deep_copier_MQObjectStatusFields],
        where get = "\<lambda>x. (ws_Conditions x, ws_Fields x)"
          and put = "\<lambda>(conditions, fields) x. x\<lparr>ws_Conditions := conditions, ws_Fields := fields\<rparr>"
          and rest = "\<lambda>x. (ws_ObservedGeneration x, ws_DesiredMQSC x)"])
    (use assms in \<open>auto simp: WorkloadStatus_contents_def WorkloadStatus_refs_def
        WorkloadStatus_ok_def
      struct_copy_simps split: prod.splits\<close>)

lemma deep_copier_QueueStatus:
  "apimachinery_laws lib \<Longrightarrow>
   deep_copier (QueueStatus_DeepCopyInto lib) WorkloadStatus_contents WorkloadStatus_refs
       WorkloadStatus_ok"
  by (erule workload_status_copier) (simp add: QueueStatus_DeepCopyInto_def split: prod.split)

lemma deep_copier_TopicStatus:
  "apimachinery_laws lib \<Longrightarrow>
   deep_copier (TopicStatus_DeepCopyInto lib) WorkloadStatus_contents WorkloadStatus_refs
       WorkloadStatus_ok"
  by (erule workload_status_copier) (simp add: TopicStatus_DeepCopyInto_def split: prod.split)

lemma deep_copier_ChannelStatus:
  "apimachinery_laws lib \<Longrightarrow>
   deep_copier (ChannelStatus_DeepCopyInto lib) WorkloadStatus_contents WorkloadStatus_refs
       WorkloadStatus_ok"
  by (erule workload_status_copier) (simp add: ChannelStatus_DeepCopyInto_def split: prod.split)

lemma deep_copier_ChannelAuthRuleStatus:
  "apimachinery_laws lib \<Longrightarrow>
   deep_copier (ChannelAuthRuleStatus_DeepCopyInto lib) WorkloadStatus_contents
       WorkloadStatus_refs WorkloadStatus_ok"
  by (erule workload_status_copier) (simp add: ChannelAuthRuleStatus_DeepCopyInto_def split:
      prod.split)

lemma deep_copier_AuthorityRecordStatus:
  "apimachinery_laws lib \<Longrightarrow>
   deep_copier (AuthorityRecordStatus_DeepCopyInto lib) WorkloadStatus_contents
       WorkloadStatus_refs WorkloadStatus_ok"
  by (erule workload_status_copier) (simp add: AuthorityRecordStatus_DeepCopyInto_def split:
      prod.split)

definition QueueManagerConnectionStatus_DeepCopyInto ::
  "apimachinery \<Rightarrow> QueueManagerConnectionStatus_m \<Rightarrow> memory \<Rightarrow> QueueManagerConnectionStatus_m \<times>
      memory" where
  "QueueManagerConnectionStatus_DeepCopyInto lib x h =
     (let out = x;
          (conditions, h) = copySlice CConditions the_Conditions (Condition_DeepCopyInto lib)
              (qt_Conditions x) h;
          out = out\<lparr>qt_Conditions := conditions\<rparr>
      in (out, h))"

definition QueueManagerConnectionStatus_contents where
  "QueueManagerConnectionStatus_contents h x =
     (x\<lparr>qt_Conditions := None\<rparr>,
      cell_contents the_Conditions (all_contents value_of) h (qt_Conditions x))"

definition QueueManagerConnectionStatus_refs :: "memory \<Rightarrow> QueueManagerConnectionStatus_m \<Rightarrow> addr
    set" where
  "QueueManagerConnectionStatus_refs h x =
     cell_refs the_Conditions (all_refs no_refs) h (qt_Conditions x)"

definition QueueManagerConnectionStatus_ok :: "memory \<Rightarrow> QueueManagerConnectionStatus_m \<Rightarrow> bool" where
  "QueueManagerConnectionStatus_ok h x \<longleftrightarrow>
     cell_ok CConditions the_Conditions (all_ok any_ok) h (qt_Conditions x)"

lemma deep_copier_QueueManagerConnectionStatus:
  "apimachinery_laws lib \<Longrightarrow>
   deep_copier (QueueManagerConnectionStatus_DeepCopyInto lib)
       QueueManagerConnectionStatus_contents QueueManagerConnectionStatus_refs
       QueueManagerConnectionStatus_ok"
  by (rule deep_copier_struct [OF deep_copier_slice [OF Condition_copier, where un =
      the_Conditions and mk = CConditions],
        where get = "\<lambda>x. qt_Conditions x"
          and put = "\<lambda>conditions x. x\<lparr>qt_Conditions := conditions\<rparr>"
          and rest = "\<lambda>x. x\<lparr>qt_Conditions := None\<rparr>"])
    (auto simp: QueueManagerConnectionStatus_DeepCopyInto_def
        QueueManagerConnectionStatus_contents_def QueueManagerConnectionStatus_refs_def
        QueueManagerConnectionStatus_ok_def struct_copy_simps
      split: prod.splits)

definition QueueManagerConnectionStatus_DeepCopy :: "apimachinery \<Rightarrow> ref \<Rightarrow> memory \<Rightarrow> ref \<times> memory"
    where
  "QueueManagerConnectionStatus_DeepCopy lib = copyPtr CQueueManagerConnectionStatus
      the_QueueManagerConnectionStatus (QueueManagerConnectionStatus_DeepCopyInto lib)"

section \<open>Objects\<close>

definition Queue_DeepCopyInto ::
  "apimachinery \<Rightarrow> Queue_m \<Rightarrow> memory \<Rightarrow> Queue_m \<times> memory" where
  "Queue_DeepCopyInto lib x h =
     (let out = x\<lparr>ob_TypeMeta := ob_TypeMeta x\<rparr>;
          (objectMeta, h) = ObjectMeta_DeepCopyInto lib (ob_ObjectMeta x) h;
          out = out\<lparr>ob_ObjectMeta := objectMeta\<rparr>;
          (spec, h) = QueueSpec_DeepCopyInto (ob_Spec x) h;
          out = out\<lparr>ob_Spec := spec\<rparr>;
          (status, h) = QueueStatus_DeepCopyInto lib (ob_Status x) h;
          out = out\<lparr>ob_Status := status\<rparr>
      in (out, h))"

definition Queue_contents where
  "Queue_contents h x =
     (ob_TypeMeta x,
      ObjectMeta_contents h (ob_ObjectMeta x),
      QueueSpec_contents h (ob_Spec x),
      WorkloadStatus_contents h (ob_Status x))"

definition Queue_refs :: "memory \<Rightarrow> Queue_m \<Rightarrow> addr set" where
  "Queue_refs h x =
     ObjectMeta_refs h (ob_ObjectMeta x) \<union>
     QueueSpec_refs h (ob_Spec x) \<union>
     WorkloadStatus_refs h (ob_Status x)"

definition Queue_ok :: "memory \<Rightarrow> Queue_m \<Rightarrow> bool" where
  "Queue_ok h x \<longleftrightarrow>
     ObjectMeta_ok h (ob_ObjectMeta x) \<and>
     QueueSpec_ok h (ob_Spec x) \<and>
     WorkloadStatus_ok h (ob_Status x)"

lemma deep_copier_Queue:
  "apimachinery_laws lib \<Longrightarrow>
   deep_copier (Queue_DeepCopyInto lib) Queue_contents Queue_refs Queue_ok"
  by (rule deep_copier_struct [OF deep_copier_seq [OF ObjectMeta_copier deep_copier_seq [OF
      deep_copier_QueueSpec deep_copier_QueueStatus]],
        where get = "\<lambda>x. (ob_ObjectMeta x, ob_Spec x, ob_Status x)"
          and put = "\<lambda>(objectMeta, spec, status) x. x\<lparr>ob_ObjectMeta := objectMeta, ob_Spec :=
              spec, ob_Status := status\<rparr>"
          and rest = "\<lambda>x. ob_TypeMeta x"])
    (auto simp: Queue_DeepCopyInto_def Queue_contents_def Queue_refs_def Queue_ok_def
        struct_copy_simps
      split: prod.splits)

definition Queue_DeepCopy :: "apimachinery \<Rightarrow> ref \<Rightarrow> memory \<Rightarrow> ref \<times> memory" where
  "Queue_DeepCopy lib = copyPtr CQueue the_Queue (Queue_DeepCopyInto lib)"

definition Queue_DeepCopyObject :: "apimachinery \<Rightarrow> ref \<Rightarrow> memory \<Rightarrow> ref \<times> memory" where
  "Queue_DeepCopyObject lib r h =
     (let (c, h) = Queue_DeepCopy lib r h in if c \<noteq> None then (c, h) else (None, h))"

definition Topic_DeepCopyInto ::
  "apimachinery \<Rightarrow> Topic_m \<Rightarrow> memory \<Rightarrow> Topic_m \<times> memory" where
  "Topic_DeepCopyInto lib x h =
     (let out = x\<lparr>ob_TypeMeta := ob_TypeMeta x\<rparr>;
          (objectMeta, h) = ObjectMeta_DeepCopyInto lib (ob_ObjectMeta x) h;
          out = out\<lparr>ob_ObjectMeta := objectMeta\<rparr>;
          (spec, h) = TopicSpec_DeepCopyInto (ob_Spec x) h;
          out = out\<lparr>ob_Spec := spec\<rparr>;
          (status, h) = TopicStatus_DeepCopyInto lib (ob_Status x) h;
          out = out\<lparr>ob_Status := status\<rparr>
      in (out, h))"

definition Topic_contents where
  "Topic_contents h x =
     (ob_TypeMeta x,
      ObjectMeta_contents h (ob_ObjectMeta x),
      TopicSpec_contents h (ob_Spec x),
      WorkloadStatus_contents h (ob_Status x))"

definition Topic_refs :: "memory \<Rightarrow> Topic_m \<Rightarrow> addr set" where
  "Topic_refs h x =
     ObjectMeta_refs h (ob_ObjectMeta x) \<union>
     TopicSpec_refs h (ob_Spec x) \<union>
     WorkloadStatus_refs h (ob_Status x)"

definition Topic_ok :: "memory \<Rightarrow> Topic_m \<Rightarrow> bool" where
  "Topic_ok h x \<longleftrightarrow>
     ObjectMeta_ok h (ob_ObjectMeta x) \<and>
     TopicSpec_ok h (ob_Spec x) \<and>
     WorkloadStatus_ok h (ob_Status x)"

lemma deep_copier_Topic:
  "apimachinery_laws lib \<Longrightarrow>
   deep_copier (Topic_DeepCopyInto lib) Topic_contents Topic_refs Topic_ok"
  by (rule deep_copier_struct [OF deep_copier_seq [OF ObjectMeta_copier deep_copier_seq [OF
      deep_copier_TopicSpec deep_copier_TopicStatus]],
        where get = "\<lambda>x. (ob_ObjectMeta x, ob_Spec x, ob_Status x)"
          and put = "\<lambda>(objectMeta, spec, status) x. x\<lparr>ob_ObjectMeta := objectMeta, ob_Spec :=
              spec, ob_Status := status\<rparr>"
          and rest = "\<lambda>x. ob_TypeMeta x"])
    (auto simp: Topic_DeepCopyInto_def Topic_contents_def Topic_refs_def Topic_ok_def
        struct_copy_simps
      split: prod.splits)

definition Topic_DeepCopy :: "apimachinery \<Rightarrow> ref \<Rightarrow> memory \<Rightarrow> ref \<times> memory" where
  "Topic_DeepCopy lib = copyPtr CTopic the_Topic (Topic_DeepCopyInto lib)"

definition Topic_DeepCopyObject :: "apimachinery \<Rightarrow> ref \<Rightarrow> memory \<Rightarrow> ref \<times> memory" where
  "Topic_DeepCopyObject lib r h =
     (let (c, h) = Topic_DeepCopy lib r h in if c \<noteq> None then (c, h) else (None, h))"

definition Channel_DeepCopyInto ::
  "apimachinery \<Rightarrow> Channel_m \<Rightarrow> memory \<Rightarrow> Channel_m \<times> memory" where
  "Channel_DeepCopyInto lib x h =
     (let out = x\<lparr>ob_TypeMeta := ob_TypeMeta x\<rparr>;
          (objectMeta, h) = ObjectMeta_DeepCopyInto lib (ob_ObjectMeta x) h;
          out = out\<lparr>ob_ObjectMeta := objectMeta\<rparr>;
          (spec, h) = ChannelSpec_DeepCopyInto (ob_Spec x) h;
          out = out\<lparr>ob_Spec := spec\<rparr>;
          (status, h) = ChannelStatus_DeepCopyInto lib (ob_Status x) h;
          out = out\<lparr>ob_Status := status\<rparr>
      in (out, h))"

definition Channel_contents where
  "Channel_contents h x =
     (ob_TypeMeta x,
      ObjectMeta_contents h (ob_ObjectMeta x),
      ChannelSpec_contents h (ob_Spec x),
      WorkloadStatus_contents h (ob_Status x))"

definition Channel_refs :: "memory \<Rightarrow> Channel_m \<Rightarrow> addr set" where
  "Channel_refs h x =
     ObjectMeta_refs h (ob_ObjectMeta x) \<union>
     ChannelSpec_refs h (ob_Spec x) \<union>
     WorkloadStatus_refs h (ob_Status x)"

definition Channel_ok :: "memory \<Rightarrow> Channel_m \<Rightarrow> bool" where
  "Channel_ok h x \<longleftrightarrow>
     ObjectMeta_ok h (ob_ObjectMeta x) \<and>
     ChannelSpec_ok h (ob_Spec x) \<and>
     WorkloadStatus_ok h (ob_Status x)"

lemma deep_copier_Channel:
  "apimachinery_laws lib \<Longrightarrow>
   deep_copier (Channel_DeepCopyInto lib) Channel_contents Channel_refs Channel_ok"
  by (rule deep_copier_struct [OF deep_copier_seq [OF ObjectMeta_copier deep_copier_seq [OF
      deep_copier_ChannelSpec deep_copier_ChannelStatus]],
        where get = "\<lambda>x. (ob_ObjectMeta x, ob_Spec x, ob_Status x)"
          and put = "\<lambda>(objectMeta, spec, status) x. x\<lparr>ob_ObjectMeta := objectMeta, ob_Spec :=
              spec, ob_Status := status\<rparr>"
          and rest = "\<lambda>x. ob_TypeMeta x"])
    (auto simp: Channel_DeepCopyInto_def Channel_contents_def Channel_refs_def Channel_ok_def
        struct_copy_simps
      split: prod.splits)

definition Channel_DeepCopy :: "apimachinery \<Rightarrow> ref \<Rightarrow> memory \<Rightarrow> ref \<times> memory" where
  "Channel_DeepCopy lib = copyPtr CChannel the_Channel (Channel_DeepCopyInto lib)"

definition Channel_DeepCopyObject :: "apimachinery \<Rightarrow> ref \<Rightarrow> memory \<Rightarrow> ref \<times> memory" where
  "Channel_DeepCopyObject lib r h =
     (let (c, h) = Channel_DeepCopy lib r h in if c \<noteq> None then (c, h) else (None, h))"

definition ChannelAuthRule_DeepCopyInto ::
  "apimachinery \<Rightarrow> ChannelAuthRule_m \<Rightarrow> memory \<Rightarrow> ChannelAuthRule_m \<times> memory" where
  "ChannelAuthRule_DeepCopyInto lib x h =
     (let out = x\<lparr>ob_TypeMeta := ob_TypeMeta x\<rparr>;
          (objectMeta, h) = ObjectMeta_DeepCopyInto lib (ob_ObjectMeta x) h;
          out = out\<lparr>ob_ObjectMeta := objectMeta, ob_Spec := ob_Spec x\<rparr>;
          (status, h) = ChannelAuthRuleStatus_DeepCopyInto lib (ob_Status x) h;
          out = out\<lparr>ob_Status := status\<rparr>
      in (out, h))"

definition ChannelAuthRule_contents where
  "ChannelAuthRule_contents h x =
     ((ob_TypeMeta x, ob_Spec x),
      ObjectMeta_contents h (ob_ObjectMeta x),
      WorkloadStatus_contents h (ob_Status x))"

definition ChannelAuthRule_refs :: "memory \<Rightarrow> ChannelAuthRule_m \<Rightarrow> addr set" where
  "ChannelAuthRule_refs h x =
     ObjectMeta_refs h (ob_ObjectMeta x) \<union>
     WorkloadStatus_refs h (ob_Status x)"

definition ChannelAuthRule_ok :: "memory \<Rightarrow> ChannelAuthRule_m \<Rightarrow> bool" where
  "ChannelAuthRule_ok h x \<longleftrightarrow>
     ObjectMeta_ok h (ob_ObjectMeta x) \<and>
     WorkloadStatus_ok h (ob_Status x)"

lemma deep_copier_ChannelAuthRule:
  "apimachinery_laws lib \<Longrightarrow>
   deep_copier (ChannelAuthRule_DeepCopyInto lib) ChannelAuthRule_contents ChannelAuthRule_refs
       ChannelAuthRule_ok"
  by (rule deep_copier_struct [OF deep_copier_seq [OF ObjectMeta_copier
      deep_copier_ChannelAuthRuleStatus],
        where get = "\<lambda>x. (ob_ObjectMeta x, ob_Status x)"
          and put = "\<lambda>(objectMeta, status) x. x\<lparr>ob_ObjectMeta := objectMeta, ob_Status := status\<rparr>"
          and rest = "\<lambda>x. (ob_TypeMeta x, ob_Spec x)"])
    (auto simp: ChannelAuthRule_DeepCopyInto_def ChannelAuthRule_contents_def
        ChannelAuthRule_refs_def ChannelAuthRule_ok_def struct_copy_simps
      split: prod.splits)

definition ChannelAuthRule_DeepCopy :: "apimachinery \<Rightarrow> ref \<Rightarrow> memory \<Rightarrow> ref \<times> memory" where
  "ChannelAuthRule_DeepCopy lib = copyPtr CChannelAuthRule the_ChannelAuthRule
      (ChannelAuthRule_DeepCopyInto lib)"

definition ChannelAuthRule_DeepCopyObject :: "apimachinery \<Rightarrow> ref \<Rightarrow> memory \<Rightarrow> ref \<times> memory" where
  "ChannelAuthRule_DeepCopyObject lib r h =
     (let (c, h) = ChannelAuthRule_DeepCopy lib r h in if c \<noteq> None then (c, h) else (None, h))"

definition AuthorityRecord_DeepCopyInto ::
  "apimachinery \<Rightarrow> AuthorityRecord_m \<Rightarrow> memory \<Rightarrow> AuthorityRecord_m \<times> memory" where
  "AuthorityRecord_DeepCopyInto lib x h =
     (let out = x\<lparr>ob_TypeMeta := ob_TypeMeta x\<rparr>;
          (objectMeta, h) = ObjectMeta_DeepCopyInto lib (ob_ObjectMeta x) h;
          out = out\<lparr>ob_ObjectMeta := objectMeta\<rparr>;
          (spec, h) = AuthorityRecordSpec_DeepCopyInto (ob_Spec x) h;
          out = out\<lparr>ob_Spec := spec\<rparr>;
          (status, h) = AuthorityRecordStatus_DeepCopyInto lib (ob_Status x) h;
          out = out\<lparr>ob_Status := status\<rparr>
      in (out, h))"

definition AuthorityRecord_contents where
  "AuthorityRecord_contents h x =
     (ob_TypeMeta x,
      ObjectMeta_contents h (ob_ObjectMeta x),
      AuthorityRecordSpec_contents h (ob_Spec x),
      WorkloadStatus_contents h (ob_Status x))"

definition AuthorityRecord_refs :: "memory \<Rightarrow> AuthorityRecord_m \<Rightarrow> addr set" where
  "AuthorityRecord_refs h x =
     ObjectMeta_refs h (ob_ObjectMeta x) \<union>
     AuthorityRecordSpec_refs h (ob_Spec x) \<union>
     WorkloadStatus_refs h (ob_Status x)"

definition AuthorityRecord_ok :: "memory \<Rightarrow> AuthorityRecord_m \<Rightarrow> bool" where
  "AuthorityRecord_ok h x \<longleftrightarrow>
     ObjectMeta_ok h (ob_ObjectMeta x) \<and>
     AuthorityRecordSpec_ok h (ob_Spec x) \<and>
     WorkloadStatus_ok h (ob_Status x)"

lemma deep_copier_AuthorityRecord:
  "apimachinery_laws lib \<Longrightarrow>
   deep_copier (AuthorityRecord_DeepCopyInto lib) AuthorityRecord_contents AuthorityRecord_refs
       AuthorityRecord_ok"
  by (rule deep_copier_struct [OF deep_copier_seq [OF ObjectMeta_copier deep_copier_seq [OF
      deep_copier_AuthorityRecordSpec deep_copier_AuthorityRecordStatus]],
        where get = "\<lambda>x. (ob_ObjectMeta x, ob_Spec x, ob_Status x)"
          and put = "\<lambda>(objectMeta, spec, status) x. x\<lparr>ob_ObjectMeta := objectMeta, ob_Spec :=
              spec, ob_Status := status\<rparr>"
          and rest = "\<lambda>x. ob_TypeMeta x"])
    (auto simp: AuthorityRecord_DeepCopyInto_def AuthorityRecord_contents_def
        AuthorityRecord_refs_def AuthorityRecord_ok_def struct_copy_simps
      split: prod.splits)

definition AuthorityRecord_DeepCopy :: "apimachinery \<Rightarrow> ref \<Rightarrow> memory \<Rightarrow> ref \<times> memory" where
  "AuthorityRecord_DeepCopy lib = copyPtr CAuthorityRecord the_AuthorityRecord
      (AuthorityRecord_DeepCopyInto lib)"

definition AuthorityRecord_DeepCopyObject :: "apimachinery \<Rightarrow> ref \<Rightarrow> memory \<Rightarrow> ref \<times> memory" where
  "AuthorityRecord_DeepCopyObject lib r h =
     (let (c, h) = AuthorityRecord_DeepCopy lib r h in if c \<noteq> None then (c, h) else (None, h))"

definition QueueManagerConnection_DeepCopyInto ::
  "apimachinery \<Rightarrow> QueueManagerConnection_m \<Rightarrow> memory \<Rightarrow> QueueManagerConnection_m \<times> memory" where
  "QueueManagerConnection_DeepCopyInto lib x h =
     (let out = x\<lparr>ob_TypeMeta := ob_TypeMeta x\<rparr>;
          (objectMeta, h) = ObjectMeta_DeepCopyInto lib (ob_ObjectMeta x) h;
          out = out\<lparr>ob_ObjectMeta := objectMeta\<rparr>;
          (spec, h) = QueueManagerConnectionSpec_DeepCopyInto (ob_Spec x) h;
          out = out\<lparr>ob_Spec := spec\<rparr>;
          (status, h) = QueueManagerConnectionStatus_DeepCopyInto lib (ob_Status x) h;
          out = out\<lparr>ob_Status := status\<rparr>
      in (out, h))"

definition QueueManagerConnection_contents where
  "QueueManagerConnection_contents h x =
     (ob_TypeMeta x,
      ObjectMeta_contents h (ob_ObjectMeta x),
      QueueManagerConnectionSpec_contents h (ob_Spec x),
      QueueManagerConnectionStatus_contents h (ob_Status x))"

definition QueueManagerConnection_refs :: "memory \<Rightarrow> QueueManagerConnection_m \<Rightarrow> addr set" where
  "QueueManagerConnection_refs h x =
     ObjectMeta_refs h (ob_ObjectMeta x) \<union>
     QueueManagerConnectionSpec_refs h (ob_Spec x) \<union>
     QueueManagerConnectionStatus_refs h (ob_Status x)"

definition QueueManagerConnection_ok :: "memory \<Rightarrow> QueueManagerConnection_m \<Rightarrow> bool" where
  "QueueManagerConnection_ok h x \<longleftrightarrow>
     ObjectMeta_ok h (ob_ObjectMeta x) \<and>
     QueueManagerConnectionSpec_ok h (ob_Spec x) \<and>
     QueueManagerConnectionStatus_ok h (ob_Status x)"

lemma deep_copier_QueueManagerConnection:
  "apimachinery_laws lib \<Longrightarrow>
   deep_copier (QueueManagerConnection_DeepCopyInto lib) QueueManagerConnection_contents
       QueueManagerConnection_refs QueueManagerConnection_ok"
  by (rule deep_copier_struct [OF deep_copier_seq [OF ObjectMeta_copier deep_copier_seq [OF
      deep_copier_QueueManagerConnectionSpec deep_copier_QueueManagerConnectionStatus]],
        where get = "\<lambda>x. (ob_ObjectMeta x, ob_Spec x, ob_Status x)"
          and put = "\<lambda>(objectMeta, spec, status) x. x\<lparr>ob_ObjectMeta := objectMeta, ob_Spec :=
              spec, ob_Status := status\<rparr>"
          and rest = "\<lambda>x. ob_TypeMeta x"])
    (auto simp: QueueManagerConnection_DeepCopyInto_def QueueManagerConnection_contents_def
        QueueManagerConnection_refs_def QueueManagerConnection_ok_def struct_copy_simps
      split: prod.splits)

definition QueueManagerConnection_DeepCopy :: "apimachinery \<Rightarrow> ref \<Rightarrow> memory \<Rightarrow> ref \<times> memory" where
  "QueueManagerConnection_DeepCopy lib = copyPtr CQueueManagerConnection
      the_QueueManagerConnection (QueueManagerConnection_DeepCopyInto lib)"

definition QueueManagerConnection_DeepCopyObject :: "apimachinery \<Rightarrow> ref \<Rightarrow> memory \<Rightarrow> ref \<times> memory"
    where
  "QueueManagerConnection_DeepCopyObject lib r h =
     (let (c, h) = QueueManagerConnection_DeepCopy lib r h in if c \<noteq> None then (c, h) else
         (None, h))"

section \<open>Lists\<close>

definition QueueList_DeepCopyInto ::
  "apimachinery \<Rightarrow> list_m \<Rightarrow> memory \<Rightarrow> list_m \<times> memory" where
  "QueueList_DeepCopyInto lib x h =
     (let out = x\<lparr>li_TypeMeta := li_TypeMeta x\<rparr>;
          (listMeta, h) = ListMeta_DeepCopyInto lib (li_ListMeta x) h;
          out = out\<lparr>li_ListMeta := listMeta\<rparr>;
          (items, h) = copySlice CQueues the_Queues (Queue_DeepCopyInto lib) (li_Items x) h;
          out = out\<lparr>li_Items := items\<rparr>
      in (out, h))"

definition QueueList_contents where
  "QueueList_contents h x =
     (li_TypeMeta x,
      ListMeta_contents h (li_ListMeta x),
      cell_contents the_Queues (all_contents Queue_contents) h (li_Items x))"

definition QueueList_refs :: "memory \<Rightarrow> list_m \<Rightarrow> addr set" where
  "QueueList_refs h x =
     ListMeta_refs h (li_ListMeta x) \<union>
     cell_refs the_Queues (all_refs Queue_refs) h (li_Items x)"

definition QueueList_ok :: "memory \<Rightarrow> list_m \<Rightarrow> bool" where
  "QueueList_ok h x \<longleftrightarrow>
     ListMeta_ok h (li_ListMeta x) \<and>
     cell_ok CQueues the_Queues (all_ok Queue_ok) h (li_Items x)"

lemma deep_copier_QueueList:
  "apimachinery_laws lib \<Longrightarrow>
   deep_copier (QueueList_DeepCopyInto lib) QueueList_contents QueueList_refs QueueList_ok"
  by (rule deep_copier_struct [OF deep_copier_seq [OF ListMeta_copier deep_copier_slice [OF
      deep_copier_Queue, where un = the_Queues and mk = CQueues]],
        where get = "\<lambda>x. (li_ListMeta x, li_Items x)"
          and put = "\<lambda>(listMeta, items) x. x\<lparr>li_ListMeta := listMeta, li_Items := items\<rparr>"
          and rest = "\<lambda>x. li_TypeMeta x"])
    (auto simp: QueueList_DeepCopyInto_def QueueList_contents_def QueueList_refs_def
        QueueList_ok_def struct_copy_simps
      split: prod.splits)

definition QueueList_DeepCopy :: "apimachinery \<Rightarrow> ref \<Rightarrow> memory \<Rightarrow> ref \<times> memory" where
  "QueueList_DeepCopy lib = copyPtr CQueueList the_QueueList (QueueList_DeepCopyInto lib)"

definition QueueList_DeepCopyObject :: "apimachinery \<Rightarrow> ref \<Rightarrow> memory \<Rightarrow> ref \<times> memory" where
  "QueueList_DeepCopyObject lib r h =
     (let (c, h) = QueueList_DeepCopy lib r h in if c \<noteq> None then (c, h) else (None, h))"

definition TopicList_DeepCopyInto ::
  "apimachinery \<Rightarrow> list_m \<Rightarrow> memory \<Rightarrow> list_m \<times> memory" where
  "TopicList_DeepCopyInto lib x h =
     (let out = x\<lparr>li_TypeMeta := li_TypeMeta x\<rparr>;
          (listMeta, h) = ListMeta_DeepCopyInto lib (li_ListMeta x) h;
          out = out\<lparr>li_ListMeta := listMeta\<rparr>;
          (items, h) = copySlice CTopics the_Topics (Topic_DeepCopyInto lib) (li_Items x) h;
          out = out\<lparr>li_Items := items\<rparr>
      in (out, h))"

definition TopicList_contents where
  "TopicList_contents h x =
     (li_TypeMeta x,
      ListMeta_contents h (li_ListMeta x),
      cell_contents the_Topics (all_contents Topic_contents) h (li_Items x))"

definition TopicList_refs :: "memory \<Rightarrow> list_m \<Rightarrow> addr set" where
  "TopicList_refs h x =
     ListMeta_refs h (li_ListMeta x) \<union>
     cell_refs the_Topics (all_refs Topic_refs) h (li_Items x)"

definition TopicList_ok :: "memory \<Rightarrow> list_m \<Rightarrow> bool" where
  "TopicList_ok h x \<longleftrightarrow>
     ListMeta_ok h (li_ListMeta x) \<and>
     cell_ok CTopics the_Topics (all_ok Topic_ok) h (li_Items x)"

lemma deep_copier_TopicList:
  "apimachinery_laws lib \<Longrightarrow>
   deep_copier (TopicList_DeepCopyInto lib) TopicList_contents TopicList_refs TopicList_ok"
  by (rule deep_copier_struct [OF deep_copier_seq [OF ListMeta_copier deep_copier_slice [OF
      deep_copier_Topic, where un = the_Topics and mk = CTopics]],
        where get = "\<lambda>x. (li_ListMeta x, li_Items x)"
          and put = "\<lambda>(listMeta, items) x. x\<lparr>li_ListMeta := listMeta, li_Items := items\<rparr>"
          and rest = "\<lambda>x. li_TypeMeta x"])
    (auto simp: TopicList_DeepCopyInto_def TopicList_contents_def TopicList_refs_def
        TopicList_ok_def struct_copy_simps
      split: prod.splits)

definition TopicList_DeepCopy :: "apimachinery \<Rightarrow> ref \<Rightarrow> memory \<Rightarrow> ref \<times> memory" where
  "TopicList_DeepCopy lib = copyPtr CTopicList the_TopicList (TopicList_DeepCopyInto lib)"

definition TopicList_DeepCopyObject :: "apimachinery \<Rightarrow> ref \<Rightarrow> memory \<Rightarrow> ref \<times> memory" where
  "TopicList_DeepCopyObject lib r h =
     (let (c, h) = TopicList_DeepCopy lib r h in if c \<noteq> None then (c, h) else (None, h))"

definition ChannelList_DeepCopyInto ::
  "apimachinery \<Rightarrow> list_m \<Rightarrow> memory \<Rightarrow> list_m \<times> memory" where
  "ChannelList_DeepCopyInto lib x h =
     (let out = x\<lparr>li_TypeMeta := li_TypeMeta x\<rparr>;
          (listMeta, h) = ListMeta_DeepCopyInto lib (li_ListMeta x) h;
          out = out\<lparr>li_ListMeta := listMeta\<rparr>;
          (items, h) = copySlice CChannels the_Channels (Channel_DeepCopyInto lib) (li_Items x) h;
          out = out\<lparr>li_Items := items\<rparr>
      in (out, h))"

definition ChannelList_contents where
  "ChannelList_contents h x =
     (li_TypeMeta x,
      ListMeta_contents h (li_ListMeta x),
      cell_contents the_Channels (all_contents Channel_contents) h (li_Items x))"

definition ChannelList_refs :: "memory \<Rightarrow> list_m \<Rightarrow> addr set" where
  "ChannelList_refs h x =
     ListMeta_refs h (li_ListMeta x) \<union>
     cell_refs the_Channels (all_refs Channel_refs) h (li_Items x)"

definition ChannelList_ok :: "memory \<Rightarrow> list_m \<Rightarrow> bool" where
  "ChannelList_ok h x \<longleftrightarrow>
     ListMeta_ok h (li_ListMeta x) \<and>
     cell_ok CChannels the_Channels (all_ok Channel_ok) h (li_Items x)"

lemma deep_copier_ChannelList:
  "apimachinery_laws lib \<Longrightarrow>
   deep_copier (ChannelList_DeepCopyInto lib) ChannelList_contents ChannelList_refs ChannelList_ok"
  by (rule deep_copier_struct [OF deep_copier_seq [OF ListMeta_copier deep_copier_slice [OF
      deep_copier_Channel, where un = the_Channels and mk = CChannels]],
        where get = "\<lambda>x. (li_ListMeta x, li_Items x)"
          and put = "\<lambda>(listMeta, items) x. x\<lparr>li_ListMeta := listMeta, li_Items := items\<rparr>"
          and rest = "\<lambda>x. li_TypeMeta x"])
    (auto simp: ChannelList_DeepCopyInto_def ChannelList_contents_def ChannelList_refs_def
        ChannelList_ok_def struct_copy_simps
      split: prod.splits)

definition ChannelList_DeepCopy :: "apimachinery \<Rightarrow> ref \<Rightarrow> memory \<Rightarrow> ref \<times> memory" where
  "ChannelList_DeepCopy lib = copyPtr CChannelList the_ChannelList (ChannelList_DeepCopyInto lib)"

definition ChannelList_DeepCopyObject :: "apimachinery \<Rightarrow> ref \<Rightarrow> memory \<Rightarrow> ref \<times> memory" where
  "ChannelList_DeepCopyObject lib r h =
     (let (c, h) = ChannelList_DeepCopy lib r h in if c \<noteq> None then (c, h) else (None, h))"

definition ChannelAuthRuleList_DeepCopyInto ::
  "apimachinery \<Rightarrow> list_m \<Rightarrow> memory \<Rightarrow> list_m \<times> memory" where
  "ChannelAuthRuleList_DeepCopyInto lib x h =
     (let out = x\<lparr>li_TypeMeta := li_TypeMeta x\<rparr>;
          (listMeta, h) = ListMeta_DeepCopyInto lib (li_ListMeta x) h;
          out = out\<lparr>li_ListMeta := listMeta\<rparr>;
          (items, h) = copySlice CChannelAuthRules the_ChannelAuthRules
              (ChannelAuthRule_DeepCopyInto lib) (li_Items x) h;
          out = out\<lparr>li_Items := items\<rparr>
      in (out, h))"

definition ChannelAuthRuleList_contents where
  "ChannelAuthRuleList_contents h x =
     (li_TypeMeta x,
      ListMeta_contents h (li_ListMeta x),
      cell_contents the_ChannelAuthRules (all_contents ChannelAuthRule_contents) h (li_Items x))"

definition ChannelAuthRuleList_refs :: "memory \<Rightarrow> list_m \<Rightarrow> addr set" where
  "ChannelAuthRuleList_refs h x =
     ListMeta_refs h (li_ListMeta x) \<union>
     cell_refs the_ChannelAuthRules (all_refs ChannelAuthRule_refs) h (li_Items x)"

definition ChannelAuthRuleList_ok :: "memory \<Rightarrow> list_m \<Rightarrow> bool" where
  "ChannelAuthRuleList_ok h x \<longleftrightarrow>
     ListMeta_ok h (li_ListMeta x) \<and>
     cell_ok CChannelAuthRules the_ChannelAuthRules (all_ok ChannelAuthRule_ok) h (li_Items x)"

lemma deep_copier_ChannelAuthRuleList:
  "apimachinery_laws lib \<Longrightarrow>
   deep_copier (ChannelAuthRuleList_DeepCopyInto lib) ChannelAuthRuleList_contents
       ChannelAuthRuleList_refs ChannelAuthRuleList_ok"
  by (rule deep_copier_struct [OF deep_copier_seq [OF ListMeta_copier deep_copier_slice [OF
      deep_copier_ChannelAuthRule, where un = the_ChannelAuthRules and mk = CChannelAuthRules]],
        where get = "\<lambda>x. (li_ListMeta x, li_Items x)"
          and put = "\<lambda>(listMeta, items) x. x\<lparr>li_ListMeta := listMeta, li_Items := items\<rparr>"
          and rest = "\<lambda>x. li_TypeMeta x"])
    (auto simp: ChannelAuthRuleList_DeepCopyInto_def ChannelAuthRuleList_contents_def
        ChannelAuthRuleList_refs_def ChannelAuthRuleList_ok_def struct_copy_simps
      split: prod.splits)

definition ChannelAuthRuleList_DeepCopy :: "apimachinery \<Rightarrow> ref \<Rightarrow> memory \<Rightarrow> ref \<times> memory" where
  "ChannelAuthRuleList_DeepCopy lib = copyPtr CChannelAuthRuleList the_ChannelAuthRuleList
      (ChannelAuthRuleList_DeepCopyInto lib)"

definition ChannelAuthRuleList_DeepCopyObject :: "apimachinery \<Rightarrow> ref \<Rightarrow> memory \<Rightarrow> ref \<times> memory" where
  "ChannelAuthRuleList_DeepCopyObject lib r h =
     (let (c, h) = ChannelAuthRuleList_DeepCopy lib r h in if c \<noteq> None then (c, h) else (None, h))"

definition AuthorityRecordList_DeepCopyInto ::
  "apimachinery \<Rightarrow> list_m \<Rightarrow> memory \<Rightarrow> list_m \<times> memory" where
  "AuthorityRecordList_DeepCopyInto lib x h =
     (let out = x\<lparr>li_TypeMeta := li_TypeMeta x\<rparr>;
          (listMeta, h) = ListMeta_DeepCopyInto lib (li_ListMeta x) h;
          out = out\<lparr>li_ListMeta := listMeta\<rparr>;
          (items, h) = copySlice CAuthorityRecords the_AuthorityRecords
              (AuthorityRecord_DeepCopyInto lib) (li_Items x) h;
          out = out\<lparr>li_Items := items\<rparr>
      in (out, h))"

definition AuthorityRecordList_contents where
  "AuthorityRecordList_contents h x =
     (li_TypeMeta x,
      ListMeta_contents h (li_ListMeta x),
      cell_contents the_AuthorityRecords (all_contents AuthorityRecord_contents) h (li_Items x))"

definition AuthorityRecordList_refs :: "memory \<Rightarrow> list_m \<Rightarrow> addr set" where
  "AuthorityRecordList_refs h x =
     ListMeta_refs h (li_ListMeta x) \<union>
     cell_refs the_AuthorityRecords (all_refs AuthorityRecord_refs) h (li_Items x)"

definition AuthorityRecordList_ok :: "memory \<Rightarrow> list_m \<Rightarrow> bool" where
  "AuthorityRecordList_ok h x \<longleftrightarrow>
     ListMeta_ok h (li_ListMeta x) \<and>
     cell_ok CAuthorityRecords the_AuthorityRecords (all_ok AuthorityRecord_ok) h (li_Items x)"

lemma deep_copier_AuthorityRecordList:
  "apimachinery_laws lib \<Longrightarrow>
   deep_copier (AuthorityRecordList_DeepCopyInto lib) AuthorityRecordList_contents
       AuthorityRecordList_refs AuthorityRecordList_ok"
  by (rule deep_copier_struct [OF deep_copier_seq [OF ListMeta_copier deep_copier_slice [OF
      deep_copier_AuthorityRecord, where un = the_AuthorityRecords and mk = CAuthorityRecords]],
        where get = "\<lambda>x. (li_ListMeta x, li_Items x)"
          and put = "\<lambda>(listMeta, items) x. x\<lparr>li_ListMeta := listMeta, li_Items := items\<rparr>"
          and rest = "\<lambda>x. li_TypeMeta x"])
    (auto simp: AuthorityRecordList_DeepCopyInto_def AuthorityRecordList_contents_def
        AuthorityRecordList_refs_def AuthorityRecordList_ok_def struct_copy_simps
      split: prod.splits)

definition AuthorityRecordList_DeepCopy :: "apimachinery \<Rightarrow> ref \<Rightarrow> memory \<Rightarrow> ref \<times> memory" where
  "AuthorityRecordList_DeepCopy lib = copyPtr CAuthorityRecordList the_AuthorityRecordList
      (AuthorityRecordList_DeepCopyInto lib)"

definition AuthorityRecordList_DeepCopyObject :: "apimachinery \<Rightarrow> ref \<Rightarrow> memory \<Rightarrow> ref \<times> memory" where
  "AuthorityRecordList_DeepCopyObject lib r h =
     (let (c, h) = AuthorityRecordList_DeepCopy lib r h in if c \<noteq> None then (c, h) else (None, h))"

definition QueueManagerConnectionList_DeepCopyInto ::
  "apimachinery \<Rightarrow> list_m \<Rightarrow> memory \<Rightarrow> list_m \<times> memory" where
  "QueueManagerConnectionList_DeepCopyInto lib x h =
     (let out = x\<lparr>li_TypeMeta := li_TypeMeta x\<rparr>;
          (listMeta, h) = ListMeta_DeepCopyInto lib (li_ListMeta x) h;
          out = out\<lparr>li_ListMeta := listMeta\<rparr>;
          (items, h) = copySlice CQueueManagerConnections the_QueueManagerConnections
              (QueueManagerConnection_DeepCopyInto lib) (li_Items x) h;
          out = out\<lparr>li_Items := items\<rparr>
      in (out, h))"

definition QueueManagerConnectionList_contents where
  "QueueManagerConnectionList_contents h x =
     (li_TypeMeta x,
      ListMeta_contents h (li_ListMeta x),
      cell_contents the_QueueManagerConnections (all_contents QueueManagerConnection_contents) h
          (li_Items x))"

definition QueueManagerConnectionList_refs :: "memory \<Rightarrow> list_m \<Rightarrow> addr set" where
  "QueueManagerConnectionList_refs h x =
     ListMeta_refs h (li_ListMeta x) \<union>
     cell_refs the_QueueManagerConnections (all_refs QueueManagerConnection_refs) h (li_Items x)"

definition QueueManagerConnectionList_ok :: "memory \<Rightarrow> list_m \<Rightarrow> bool" where
  "QueueManagerConnectionList_ok h x \<longleftrightarrow>
     ListMeta_ok h (li_ListMeta x) \<and>
     cell_ok CQueueManagerConnections the_QueueManagerConnections (all_ok
         QueueManagerConnection_ok) h (li_Items x)"

lemma deep_copier_QueueManagerConnectionList:
  "apimachinery_laws lib \<Longrightarrow>
   deep_copier (QueueManagerConnectionList_DeepCopyInto lib) QueueManagerConnectionList_contents
       QueueManagerConnectionList_refs QueueManagerConnectionList_ok"
  by (rule deep_copier_struct [OF deep_copier_seq [OF ListMeta_copier deep_copier_slice [OF
      deep_copier_QueueManagerConnection, where un = the_QueueManagerConnections and mk =
      CQueueManagerConnections]],
        where get = "\<lambda>x. (li_ListMeta x, li_Items x)"
          and put = "\<lambda>(listMeta, items) x. x\<lparr>li_ListMeta := listMeta, li_Items := items\<rparr>"
          and rest = "\<lambda>x. li_TypeMeta x"])
    (auto simp: QueueManagerConnectionList_DeepCopyInto_def
        QueueManagerConnectionList_contents_def QueueManagerConnectionList_refs_def
        QueueManagerConnectionList_ok_def struct_copy_simps
      split: prod.splits)

definition QueueManagerConnectionList_DeepCopy :: "apimachinery \<Rightarrow> ref \<Rightarrow> memory \<Rightarrow> ref \<times> memory" where
  "QueueManagerConnectionList_DeepCopy lib = copyPtr CQueueManagerConnectionList
      the_QueueManagerConnectionList (QueueManagerConnectionList_DeepCopyInto lib)"

definition QueueManagerConnectionList_DeepCopyObject :: "apimachinery \<Rightarrow> ref \<Rightarrow> memory \<Rightarrow> ref \<times>
    memory" where
  "QueueManagerConnectionList_DeepCopyObject lib r h =
     (let (c, h) = QueueManagerConnectionList_DeepCopy lib r h in if c \<noteq> None then (c, h) else
         (None, h))"

section \<open>The copies of a cached object are independent of it\<close>

lemma DeepCopyObject_eq:
  "Queue_DeepCopyObject = Queue_DeepCopy"
  "Topic_DeepCopyObject = Topic_DeepCopy"
  "Channel_DeepCopyObject = Channel_DeepCopy"
  "ChannelAuthRule_DeepCopyObject = ChannelAuthRule_DeepCopy"
  "AuthorityRecord_DeepCopyObject = AuthorityRecord_DeepCopy"
  "QueueManagerConnection_DeepCopyObject = QueueManagerConnection_DeepCopy"
  "QueueList_DeepCopyObject = QueueList_DeepCopy"
  "TopicList_DeepCopyObject = TopicList_DeepCopy"
  "ChannelList_DeepCopyObject = ChannelList_DeepCopy"
  "ChannelAuthRuleList_DeepCopyObject = ChannelAuthRuleList_DeepCopy"
  "AuthorityRecordList_DeepCopyObject = AuthorityRecordList_DeepCopy"
  "QueueManagerConnectionList_DeepCopyObject = QueueManagerConnectionList_DeepCopy"
  by (auto simp: fun_eq_iff Queue_DeepCopyObject_def Topic_DeepCopyObject_def
      Channel_DeepCopyObject_def ChannelAuthRule_DeepCopyObject_def
      AuthorityRecord_DeepCopyObject_def QueueManagerConnection_DeepCopyObject_def
      QueueList_DeepCopyObject_def TopicList_DeepCopyObject_def ChannelList_DeepCopyObject_def
      ChannelAuthRuleList_DeepCopyObject_def AuthorityRecordList_DeepCopyObject_def
      QueueManagerConnectionList_DeepCopyObject_def split: prod.split)

lemma object_copiers:
  assumes "apimachinery_laws lib"
  shows
    "deep_copier (Queue_DeepCopyObject lib) (cell_contents the_Queue Queue_contents) (cell_refs
        the_Queue Queue_refs) (cell_ok CQueue the_Queue Queue_ok)"
    "deep_copier (Topic_DeepCopyObject lib) (cell_contents the_Topic Topic_contents) (cell_refs
        the_Topic Topic_refs) (cell_ok CTopic the_Topic Topic_ok)"
    "deep_copier (Channel_DeepCopyObject lib) (cell_contents the_Channel Channel_contents)
        (cell_refs the_Channel Channel_refs) (cell_ok CChannel the_Channel Channel_ok)"
    "deep_copier (ChannelAuthRule_DeepCopyObject lib) (cell_contents the_ChannelAuthRule
        ChannelAuthRule_contents) (cell_refs the_ChannelAuthRule ChannelAuthRule_refs) (cell_ok
        CChannelAuthRule the_ChannelAuthRule ChannelAuthRule_ok)"
    "deep_copier (AuthorityRecord_DeepCopyObject lib) (cell_contents the_AuthorityRecord
        AuthorityRecord_contents) (cell_refs the_AuthorityRecord AuthorityRecord_refs) (cell_ok
        CAuthorityRecord the_AuthorityRecord AuthorityRecord_ok)"
    "deep_copier (QueueManagerConnection_DeepCopyObject lib) (cell_contents
        the_QueueManagerConnection QueueManagerConnection_contents) (cell_refs
        the_QueueManagerConnection QueueManagerConnection_refs) (cell_ok CQueueManagerConnection
        the_QueueManagerConnection QueueManagerConnection_ok)"
    "deep_copier (QueueList_DeepCopyObject lib) (cell_contents the_QueueList QueueList_contents)
        (cell_refs the_QueueList QueueList_refs) (cell_ok CQueueList the_QueueList
        QueueList_ok)"
    "deep_copier (TopicList_DeepCopyObject lib) (cell_contents the_TopicList TopicList_contents)
        (cell_refs the_TopicList TopicList_refs) (cell_ok CTopicList the_TopicList
        TopicList_ok)"
    "deep_copier (ChannelList_DeepCopyObject lib) (cell_contents the_ChannelList
        ChannelList_contents) (cell_refs the_ChannelList ChannelList_refs) (cell_ok CChannelList
        the_ChannelList ChannelList_ok)"
    "deep_copier (ChannelAuthRuleList_DeepCopyObject lib) (cell_contents the_ChannelAuthRuleList
        ChannelAuthRuleList_contents) (cell_refs the_ChannelAuthRuleList
        ChannelAuthRuleList_refs) (cell_ok CChannelAuthRuleList the_ChannelAuthRuleList
        ChannelAuthRuleList_ok)"
    "deep_copier (AuthorityRecordList_DeepCopyObject lib) (cell_contents the_AuthorityRecordList
        AuthorityRecordList_contents) (cell_refs the_AuthorityRecordList
        AuthorityRecordList_refs) (cell_ok CAuthorityRecordList the_AuthorityRecordList
        AuthorityRecordList_ok)"
    "deep_copier (QueueManagerConnectionList_DeepCopyObject lib) (cell_contents
        the_QueueManagerConnectionList QueueManagerConnectionList_contents) (cell_refs
        the_QueueManagerConnectionList QueueManagerConnectionList_refs) (cell_ok
        CQueueManagerConnectionList the_QueueManagerConnectionList
        QueueManagerConnectionList_ok)"
  unfolding DeepCopyObject_eq Queue_DeepCopy_def Topic_DeepCopy_def Channel_DeepCopy_def
      ChannelAuthRule_DeepCopy_def AuthorityRecord_DeepCopy_def
      QueueManagerConnection_DeepCopy_def QueueList_DeepCopy_def TopicList_DeepCopy_def
      ChannelList_DeepCopy_def ChannelAuthRuleList_DeepCopy_def AuthorityRecordList_DeepCopy_def
      QueueManagerConnectionList_DeepCopy_def
  by (rule deep_copier_ptr; simp add: assms deep_copier_Queue deep_copier_Topic
      deep_copier_Channel deep_copier_ChannelAuthRule deep_copier_AuthorityRecord
      deep_copier_QueueManagerConnection deep_copier_QueueList deep_copier_TopicList
      deep_copier_ChannelList deep_copier_ChannelAuthRuleList deep_copier_AuthorityRecordList
      deep_copier_QueueManagerConnectionList)+

text \<open>The copies of the other structs, through a pointer.\<close>

lemma flat_copy_is_assignment:
  "LocalObjectReference_DeepCopyInto = copyVal"
  "SecretReference_DeepCopyInto = copyVal"
  "BasicAuth_DeepCopyInto = copyVal"
  "LTPAAuth_DeepCopyInto = copyVal"
  "ClientCertAuth_DeepCopyInto = copyVal"
  "WorkloadLifecyclePolicies_DeepCopyInto = copyVal"
  "ChannelAuthRuleSpec_DeepCopyInto = copyVal"
  by (simp_all add: fun_eq_iff copyVal_def LocalObjectReference_DeepCopyInto_def
      SecretReference_DeepCopyInto_def BasicAuth_DeepCopyInto_def LTPAAuth_DeepCopyInto_def
      ClientCertAuth_DeepCopyInto_def WorkloadLifecyclePolicies_DeepCopyInto_def
      ChannelAuthRuleSpec_DeepCopyInto_def)

lemma flat_copiers:
    "deep_copier LocalObjectReference_DeepCopy (cell_contents the_LocalObjectReference value_of)
        (cell_refs the_LocalObjectReference no_refs) (cell_ok CLocalObjectReference
        the_LocalObjectReference any_ok)"
    "deep_copier SecretReference_DeepCopy (cell_contents the_SecretReference value_of)
        (cell_refs the_SecretReference no_refs) (cell_ok CSecretReference the_SecretReference
        any_ok)"
    "deep_copier BasicAuth_DeepCopy (cell_contents the_BasicAuth value_of) (cell_refs
        the_BasicAuth no_refs) (cell_ok CBasicAuth the_BasicAuth any_ok)"
    "deep_copier LTPAAuth_DeepCopy (cell_contents the_LTPAAuth value_of) (cell_refs the_LTPAAuth
        no_refs) (cell_ok CLTPAAuth the_LTPAAuth any_ok)"
    "deep_copier ClientCertAuth_DeepCopy (cell_contents the_ClientCertAuth value_of) (cell_refs
        the_ClientCertAuth no_refs) (cell_ok CClientCertAuth the_ClientCertAuth any_ok)"
    "deep_copier WorkloadLifecyclePolicies_DeepCopy (cell_contents the_WorkloadLifecyclePolicies
        value_of) (cell_refs the_WorkloadLifecyclePolicies no_refs) (cell_ok
        CWorkloadLifecyclePolicies the_WorkloadLifecyclePolicies any_ok)"
    "deep_copier ChannelAuthRuleSpec_DeepCopy (cell_contents the_ChannelAuthRuleSpec value_of)
        (cell_refs the_ChannelAuthRuleSpec no_refs) (cell_ok CChannelAuthRuleSpec
        the_ChannelAuthRuleSpec any_ok)"
  unfolding flat_copy_is_assignment LocalObjectReference_DeepCopy_def
      SecretReference_DeepCopy_def BasicAuth_DeepCopy_def LTPAAuth_DeepCopy_def
      ClientCertAuth_DeepCopy_def WorkloadLifecyclePolicies_DeepCopy_def
      ChannelAuthRuleSpec_DeepCopy_def
  by (rule copyPtr_val; simp)+

lemma spec_copiers:
    "deep_copier TLSConfig_DeepCopy (cell_contents the_TLSConfig TLSConfig_contents) (cell_refs
        the_TLSConfig TLSConfig_refs) (cell_ok CTLSConfig the_TLSConfig TLSConfig_ok)"
    "deep_copier MQWebAuthentication_DeepCopy (cell_contents the_MQWebAuthentication
        MQWebAuthentication_contents) (cell_refs the_MQWebAuthentication
        MQWebAuthentication_refs) (cell_ok CMQWebAuthentication the_MQWebAuthentication
        MQWebAuthentication_ok)"
    "deep_copier QueueManagerConnectionSpec_DeepCopy (cell_contents
        the_QueueManagerConnectionSpec QueueManagerConnectionSpec_contents) (cell_refs
        the_QueueManagerConnectionSpec QueueManagerConnectionSpec_refs) (cell_ok
        CQueueManagerConnectionSpec the_QueueManagerConnectionSpec
        QueueManagerConnectionSpec_ok)"
    "deep_copier QueueSpec_DeepCopy (cell_contents the_QueueSpec QueueSpec_contents) (cell_refs
        the_QueueSpec QueueSpec_refs) (cell_ok CQueueSpec the_QueueSpec QueueSpec_ok)"
    "deep_copier TopicSpec_DeepCopy (cell_contents the_TopicSpec TopicSpec_contents) (cell_refs
        the_TopicSpec TopicSpec_refs) (cell_ok CTopicSpec the_TopicSpec TopicSpec_ok)"
    "deep_copier ChannelSpec_DeepCopy (cell_contents the_ChannelSpec ChannelSpec_contents)
        (cell_refs the_ChannelSpec ChannelSpec_refs) (cell_ok CChannelSpec the_ChannelSpec
        ChannelSpec_ok)"
    "deep_copier AuthorityRecordSpec_DeepCopy (cell_contents the_AuthorityRecordSpec
        AuthorityRecordSpec_contents) (cell_refs the_AuthorityRecordSpec
        AuthorityRecordSpec_refs) (cell_ok CAuthorityRecordSpec the_AuthorityRecordSpec
        AuthorityRecordSpec_ok)"
  unfolding TLSConfig_DeepCopy_def MQWebAuthentication_DeepCopy_def
      QueueManagerConnectionSpec_DeepCopy_def QueueSpec_DeepCopy_def TopicSpec_DeepCopy_def
      ChannelSpec_DeepCopy_def AuthorityRecordSpec_DeepCopy_def
  by (rule deep_copier_ptr; simp add: deep_copier_TLSConfig deep_copier_MQWebAuthentication
      deep_copier_QueueManagerConnectionSpec deep_copier_QueueSpec deep_copier_TopicSpec
      deep_copier_ChannelSpec deep_copier_AuthorityRecordSpec)+

lemma status_copiers:
  assumes "apimachinery_laws lib"
  shows
    "deep_copier (MQObjectStatusFields_DeepCopy lib) (cell_contents the_MQObjectStatusFields
        MQObjectStatusFields_contents) (cell_refs the_MQObjectStatusFields
        MQObjectStatusFields_refs) (cell_ok CMQObjectStatusFields the_MQObjectStatusFields
        MQObjectStatusFields_ok)"
    "deep_copier (QueueStatus_DeepCopy lib) (cell_contents the_QueueStatus
        WorkloadStatus_contents) (cell_refs the_QueueStatus WorkloadStatus_refs) (cell_ok
        CQueueStatus the_QueueStatus WorkloadStatus_ok)"
    "deep_copier (TopicStatus_DeepCopy lib) (cell_contents the_TopicStatus
        WorkloadStatus_contents) (cell_refs the_TopicStatus WorkloadStatus_refs) (cell_ok
        CTopicStatus the_TopicStatus WorkloadStatus_ok)"
    "deep_copier (ChannelStatus_DeepCopy lib) (cell_contents the_ChannelStatus
        WorkloadStatus_contents) (cell_refs the_ChannelStatus WorkloadStatus_refs) (cell_ok
        CChannelStatus the_ChannelStatus WorkloadStatus_ok)"
    "deep_copier (ChannelAuthRuleStatus_DeepCopy lib) (cell_contents the_ChannelAuthRuleStatus
        WorkloadStatus_contents) (cell_refs the_ChannelAuthRuleStatus WorkloadStatus_refs)
        (cell_ok CChannelAuthRuleStatus the_ChannelAuthRuleStatus WorkloadStatus_ok)"
    "deep_copier (AuthorityRecordStatus_DeepCopy lib) (cell_contents the_AuthorityRecordStatus
        WorkloadStatus_contents) (cell_refs the_AuthorityRecordStatus WorkloadStatus_refs)
        (cell_ok CAuthorityRecordStatus the_AuthorityRecordStatus WorkloadStatus_ok)"
    "deep_copier (QueueManagerConnectionStatus_DeepCopy lib) (cell_contents
        the_QueueManagerConnectionStatus QueueManagerConnectionStatus_contents) (cell_refs
        the_QueueManagerConnectionStatus QueueManagerConnectionStatus_refs) (cell_ok
        CQueueManagerConnectionStatus the_QueueManagerConnectionStatus
        QueueManagerConnectionStatus_ok)"
  unfolding MQObjectStatusFields_DeepCopy_def QueueStatus_DeepCopy_def TopicStatus_DeepCopy_def
      ChannelStatus_DeepCopy_def ChannelAuthRuleStatus_DeepCopy_def
      AuthorityRecordStatus_DeepCopy_def QueueManagerConnectionStatus_DeepCopy_def
  by (rule deep_copier_ptr; simp add: assms deep_copier_MQObjectStatusFields
      deep_copier_QueueStatus deep_copier_TopicStatus deep_copier_ChannelStatus
      deep_copier_ChannelAuthRuleStatus deep_copier_AuthorityRecordStatus
      deep_copier_QueueManagerConnectionStatus)+

text \<open>
  An apimachinery in which the copies are made field by field, and a heap with a queue that has a
  finalizer, an attribute, a maximum depth and a condition.
\<close>

definition plain_apimachinery :: apimachinery where
  "plain_apimachinery =
     \<lparr>ObjectMeta_DeepCopyInto = \<lambda>x h.
        (let (t, h) = copyPtr CTime the_Time copyVal (mm_DeletionTimestamp x) h;
             (f, h) = copySlice CStrings the_Strings copyVal (mm_Finalizers x) h;
             (a, h) = copyMap CStringMap the_StringMap (mm_Annotations x) h
         in (x\<lparr>mm_DeletionTimestamp := t, mm_Finalizers := f, mm_Annotations := a\<rparr>, h)),
      ListMeta_DeepCopyInto = \<lambda>x h.
        (let (n, h) = copyPtr CInt64 the_Int64 copyVal (lm_RemainingItemCount x) h
         in (x\<lparr>lm_RemainingItemCount := n\<rparr>, h)),
      Condition_DeepCopyInto = copyVal,
      Time_DeepCopy = copyPtr CTime the_Time copyVal\<rparr>"

lemma plain_apimachinery_laws: "apimachinery_laws plain_apimachinery"
  unfolding apimachinery_laws_def
proof (intro conjI)
  show "deep_copier (ObjectMeta_DeepCopyInto plain_apimachinery) ObjectMeta_contents ObjectMeta_refs
    ObjectMeta_ok"
    by (rule deep_copier_struct [OF deep_copier_seq [OF copyPtr_val [where un = the_Time and mk
        = CTime] deep_copier_seq [OF deep_copier_slice [OF deep_copier_val, where un =
        the_Strings and mk = CStrings] deep_copier_map [where un = the_StringMap and mk =
        CStringMap]]],
          where get = "\<lambda>x. (mm_DeletionTimestamp x, mm_Finalizers x, mm_Annotations x)"
            and put = "\<lambda>(t, f, a) x. x\<lparr>mm_DeletionTimestamp := t, mm_Finalizers := f,
                mm_Annotations := a\<rparr>"
            and rest = "\<lambda>x. x\<lparr>mm_DeletionTimestamp := None, mm_Finalizers := None,
                mm_Annotations := None\<rparr>"])
      (auto simp: plain_apimachinery_def ObjectMeta_contents_def ObjectMeta_refs_def
          ObjectMeta_ok_def
        struct_copy_simps split: prod.splits)
  show "deep_copier (ListMeta_DeepCopyInto plain_apimachinery) ListMeta_contents ListMeta_refs
      ListMeta_ok"
    by (rule deep_copier_struct [OF copyPtr_val [where un = the_Int64 and mk = CInt64],
          where get = lm_RemainingItemCount
            and put = "\<lambda>n x. x\<lparr>lm_RemainingItemCount := n\<rparr>"
            and rest = "\<lambda>x. x\<lparr>lm_RemainingItemCount := None\<rparr>"])
      (auto simp: plain_apimachinery_def ListMeta_contents_def ListMeta_refs_def ListMeta_ok_def
        split: prod.splits)
qed (simp_all add: plain_apimachinery_def deep_copier_val copyPtr_val)

definition cached_queue :: Queue_m where
  "cached_queue =
     \<lparr>ob_TypeMeta = \<lparr>tm_Kind = ''Queue'', tm_APIVersion = ''messaging.mkurator.dev/v1beta1''\<rparr>,
      ob_ObjectMeta = \<lparr>mm_Namespace = ''ns'', mm_Name = ''q'', mm_UID = ''u'', mm_Generation = 1,
        mm_ResourceVersion = ''7'', mm_DeletionTimestamp = None, mm_Finalizers = Some 0,
        mm_Annotations = None\<rparr>,
      ob_Spec = \<lparr>qu_ConnectionRef = \<lparr>lor_Name = ''conn''\<rparr>, qu_QueueName = ''Q'', qu_Type = ''local'',
        qu_Attributes = Some 1, qu_MaxDepth = Some 2, qu_Description = [], qu_DefPersistence = [],
        qu_Get = [], qu_Put = [], qu_TargetQueue = [], qu_XmitQueue = [], qu_RemoteQueueManager
            = [],
        qu_Suspend = False,
        qu_Policies = \<lparr>lp_DeletionPolicy = ''Delete'', lp_AdoptionPolicy = ''Adopt''\<rparr>\<rparr>,
      ob_Status = \<lparr>ws_Conditions = Some 3, ws_ObservedGeneration = 1, ws_DesiredMQSC = [],
        ws_Fields = \<lparr>sf_Message = [], sf_LastSyncTime = None, sf_MQObjectExists = None\<rparr>\<rparr>\<rparr>"

definition cache_memory :: memory where
  "cache_memory =
     [CStrings [''messaging.mkurator.dev/queue''], CStringMap [(''maxdepth'', ''10'')], CInt32 10,
      CConditions [\<lparr>cn_Type = ''Synced'', cn_Status = ''True'', cn_Reason = ''Available'',
        cn_Message = [], cn_ObservedGeneration = 1\<rparr>],
      CQueue cached_queue]"

lemma cache_memory_ok: "cell_ok CQueue the_Queue Queue_ok cache_memory (Some 4)"
  by (simp add: cell_ok_def cache_memory_def cached_queue_def Queue_ok_def ObjectMeta_ok_def
      QueueSpec_ok_def WorkloadStatus_ok_def MQObjectStatusFields_ok_def all_ok_def any_ok_def
      entries_ok_def wf_gomap_def)

text \<open>C21: For every kind of object and list of the API, \<open>DeepCopyObject\<close> gives a pointer through
  which the same values are read as through the original, in every nested struct, slice and map, nil
  included, and it writes no cell that existed. From then on the two are independent: whatever is
  later written through the copy, the original (the object in the informer cache) reads as before,
  and whatever is written through the original, the copy reads as it did.\<close>

theorem deep_copies_independent:
  assumes "apimachinery_laws lib"
  shows
    "(cell_ok CQueue the_Queue Queue_ok h r \<longrightarrow>
        independent_copy (Queue_DeepCopyObject lib) (cell_contents the_Queue Queue_contents)
          (cell_refs the_Queue Queue_refs) r h) \<and>
     (cell_ok CTopic the_Topic Topic_ok h r \<longrightarrow>
        independent_copy (Topic_DeepCopyObject lib) (cell_contents the_Topic Topic_contents)
          (cell_refs the_Topic Topic_refs) r h) \<and>
     (cell_ok CChannel the_Channel Channel_ok h r \<longrightarrow>
        independent_copy (Channel_DeepCopyObject lib) (cell_contents the_Channel Channel_contents)
          (cell_refs the_Channel Channel_refs) r h) \<and>
     (cell_ok CChannelAuthRule the_ChannelAuthRule ChannelAuthRule_ok h r \<longrightarrow>
        independent_copy (ChannelAuthRule_DeepCopyObject lib) (cell_contents the_ChannelAuthRule
            ChannelAuthRule_contents)
          (cell_refs the_ChannelAuthRule ChannelAuthRule_refs) r h) \<and>
     (cell_ok CAuthorityRecord the_AuthorityRecord AuthorityRecord_ok h r \<longrightarrow>
        independent_copy (AuthorityRecord_DeepCopyObject lib) (cell_contents the_AuthorityRecord
            AuthorityRecord_contents)
          (cell_refs the_AuthorityRecord AuthorityRecord_refs) r h) \<and>
     (cell_ok CQueueManagerConnection the_QueueManagerConnection QueueManagerConnection_ok h r \<longrightarrow>
        independent_copy (QueueManagerConnection_DeepCopyObject lib) (cell_contents
            the_QueueManagerConnection QueueManagerConnection_contents)
          (cell_refs the_QueueManagerConnection QueueManagerConnection_refs) r h) \<and>
     (cell_ok CQueueList the_QueueList QueueList_ok h r \<longrightarrow>
        independent_copy (QueueList_DeepCopyObject lib) (cell_contents the_QueueList
            QueueList_contents)
          (cell_refs the_QueueList QueueList_refs) r h) \<and>
     (cell_ok CTopicList the_TopicList TopicList_ok h r \<longrightarrow>
        independent_copy (TopicList_DeepCopyObject lib) (cell_contents the_TopicList
            TopicList_contents)
          (cell_refs the_TopicList TopicList_refs) r h) \<and>
     (cell_ok CChannelList the_ChannelList ChannelList_ok h r \<longrightarrow>
        independent_copy (ChannelList_DeepCopyObject lib) (cell_contents the_ChannelList
            ChannelList_contents)
          (cell_refs the_ChannelList ChannelList_refs) r h) \<and>
     (cell_ok CChannelAuthRuleList the_ChannelAuthRuleList ChannelAuthRuleList_ok h r \<longrightarrow>
        independent_copy (ChannelAuthRuleList_DeepCopyObject lib) (cell_contents
            the_ChannelAuthRuleList ChannelAuthRuleList_contents)
          (cell_refs the_ChannelAuthRuleList ChannelAuthRuleList_refs) r h) \<and>
     (cell_ok CAuthorityRecordList the_AuthorityRecordList AuthorityRecordList_ok h r \<longrightarrow>
        independent_copy (AuthorityRecordList_DeepCopyObject lib) (cell_contents
            the_AuthorityRecordList AuthorityRecordList_contents)
          (cell_refs the_AuthorityRecordList AuthorityRecordList_refs) r h) \<and>
     (cell_ok CQueueManagerConnectionList the_QueueManagerConnectionList
         QueueManagerConnectionList_ok h r \<longrightarrow>
        independent_copy (QueueManagerConnectionList_DeepCopyObject lib) (cell_contents
            the_QueueManagerConnectionList QueueManagerConnectionList_contents)
          (cell_refs the_QueueManagerConnectionList QueueManagerConnectionList_refs) r h)"
  by (intro conjI impI) (rule deep_copier_independent, rule object_copiers [OF assms], assumption)+

theorem deep_copies_independent_witness:
  "cell_ok CQueue the_Queue Queue_ok cache_memory (Some 4) \<and>
   independent_copy (Queue_DeepCopyObject plain_apimachinery) (cell_contents the_Queue
       Queue_contents)
     (cell_refs the_Queue Queue_refs) (Some 4) cache_memory"
  using deep_copies_independent [OF plain_apimachinery_laws, of cache_memory "Some 4"]
      cache_memory_ok
  by simp

end
