(* ===== verification/PCF_Client.thy ===== *)
theory PCF_Client
  imports Workload_Properties
begin

text \<open>
  \<open>internal/adapter/mqpcf\<close>: the second implementation of the admin port, whose operations are not
  implemented yet. The drift keys of a queue are not an operation of the port:
  \<open>mqrest.ResolveQueueDriftCheckKeys\<close> falls back to the static keys for a client that is not its own.
\<close>

definition errNotImplemented :: "string \<Rightarrow> mq_error" where
  "errNotImplemented meth = PlainError (''mqpcf: '' @ meth @ '' not implemented'')"

definition pcf_NewClient :: "string \<Rightarrow> string result" where
  "pcf_NewClient queueManager =
     (if queueManager = [] then Inl (PlainError ''queue manager name is required'') else Inr queueManager)"

definition pcf_admin :: "'w Admin" where
  "pcf_admin =
     \<lparr>ad_Ping = (\<lambda>w. (Some (errNotImplemented ''Ping''), w)),
      ad_GetQueue = (\<lambda>spec w. (Inl (errNotImplemented ''GetQueue''), w)),
      ad_DefineQueue = (\<lambda>spec w. (Some (errNotImplemented ''DefineQueue''), w)),
      ad_DeleteQueue = (\<lambda>spec w. (Some (errNotImplemented ''DeleteQueue''), w)),
      ad_QueueDriftKeys = (\<lambda>qType w. (Inr (queueDisplayParameters qType), w)),
      ad_GetTopic = (\<lambda>n w. (Inl (errNotImplemented ''GetTopic''), w)),
      ad_DefineTopic = (\<lambda>spec w. (Some (errNotImplemented ''DefineTopic''), w)),
      ad_DeleteTopic = (\<lambda>n w. (Some (errNotImplemented ''DeleteTopic''), w)),
      ad_GetChannel = (\<lambda>spec w. (Inl (errNotImplemented ''GetChannel''), w)),
      ad_DefineChannel = (\<lambda>spec w. (Some (errNotImplemented ''DefineChannel''), w)),
      ad_DeleteChannel = (\<lambda>spec w. (Some (errNotImplemented ''DeleteChannel''), w)),
      ad_GetChannelAuth = (\<lambda>spec w. (Inl (errNotImplemented ''GetChannelAuth''), w)),
      ad_SetChannelAuth = (\<lambda>spec w. (Some (errNotImplemented ''SetChannelAuth''), w)),
      ad_DeleteChannelAuth = (\<lambda>spec w. (Some (errNotImplemented ''DeleteChannelAuth''), w)),
      ad_GetAuthority = (\<lambda>spec w. (Inl (errNotImplemented ''GetAuthority''), w)),
      ad_SetAuthority = (\<lambda>spec w. (Some (errNotImplemented ''SetAuthority''), w)),
      ad_DeleteAuthority = (\<lambda>spec w. (Some (errNotImplemented ''DeleteAuthority''), w))\<rparr>"

text \<open>Its error is none of the classes the reconcilers treat specially, so over this client every
  ensure step fails on the read and writes nothing.\<close>

lemma errNotImplemented_unclassified: "\<not> errors_Is (errNotImplemented meth) sen"
  by (simp add: errNotImplemented_def errors_Is_def)

lemma pcf_ensure_fails:
  "ensureQueue pcf_admin q qspec obs s = ((False, [], Some (errNotImplemented ''GetQueue'')), s)"
  "ensureTopic pcf_admin t tspec obs s = ((False, [], Some (errNotImplemented ''GetTopic'')), s)"
  "ensureChannel pcf_admin ch cspec obs s = ((False, [], Some (errNotImplemented ''GetChannel'')), s)"
  "ensureChannelAuth pcf_admin rspec r s = ((False, False, Some (errNotImplemented ''GetChannelAuth'')), s)"
  "ensureAuthority pcf_admin aspec a s = (Some (False, False, Some (errNotImplemented ''GetAuthority'')), s)"
  by (simp_all add: ensureQueue_def ensureTopic_def ensureChannel_def ensureChannelAuth_def ensureAuthority_def
      pcf_admin_def mqRead_def observedAttributes_def errNotImplemented_unclassified)

end
