(* ===== verification/Spec2Isabelle.thy ===== *)
theory Spec2Isabelle
  imports Recovery Grant_Lifecycle Client_Sessions Desired_Spec Observability Breaker_Metrics CRD_Ref Health Webhook
    Deep_Copy PCF_Client
begin

text \<open>
  A verification library for MKurator, a Kubernetes operator that keeps IBM MQ queues, topics,
  channels, CHLAUTH rules and AUTHREC grants in line with custom resources.

  \<^bold>\<open>The program.\<close> A user writes one of five workload resources (\<open>Queue\<close>, \<open>Topic\<close>, \<open>Channel\<close>,
  \<open>ChannelAuthRule\<close>, \<open>AuthorityRecord\<close>), each naming a \<open>QueueManagerConnection\<close> of its
  namespace. Admission webhooks (\<open>internal/webhook\<close>, \<open>internal/validation\<close>) check it. A reconciler
  per kind (\<open>internal/controller\<close>) reads it, obtains a client from a factory with a cache
  (\<open>internal/adapter/mqrest/factory.go\<close>), compares the object on the queue manager with the spec
  (\<open>internal/mqadmin\<close>), applies a difference through the admin port and writes a status. The client
  (\<open>internal/adapter/mqrest\<close>) turns the port's operations into MQSC requests to mqweb, with retries,
  a circuit breaker and LTPA sessions. Watches enqueue the dependents of changed secrets and
  connections. \<open>cmd/main.go\<close> puts the process together, \<open>internal/health\<close> answers the readiness
  probe, \<open>internal/logging\<close> masks credentials, \<open>internal/metrics\<close> counts. A tool under \<open>hack\<close> renders the
  CRD reference.

  \<^bold>\<open>Conventions.\<close> Go strings are char lists, Go ints and durations are \<open>int\<close> with the 64-bit
  wrap-around written out where the code can reach it (\<open>wrap64\<close>; the LTPA generation is a \<open>64 word\<close>),
  maps are association lists whose order is the iteration order, pointers are \<open>option\<close> (addresses
  of a heap in \<open>Deep_Copy\<close>, where sharing matters), and an error
  is a value of \<open>mq_error\<close> (\<open>Inl\<close> in a \<open>result\<close>); a panic is a value too. Effects are explicit:
  an operation takes and returns the state. What is outside the repository is a parameter over an
  arbitrary state \<open>'w\<close>: the transport, clock and context (\<open>http_env\<close>), the API server (\<open>kube\<close>,
  \<open>qmc_kube\<close>, \<open>reader\<close>, \<open>factory_env\<close>), the helpers of apimachinery and controller-runtime
  (\<open>k8s_lib\<close>, whose documented behaviour is \<open>k8s_lib_laws\<close>), the environment and the YAML decoder
  (\<open>log_env\<close>). So a theorem holds for every server and every API server; where it needs more of
  them, that is a named hypothesis with a witness that satisfies it.

  \<^bold>\<open>The theories,\<close> in dependency order.

  \<^item> \<open>Prelude\<close>: the parts of Go's \<open>strings\<close>, \<open>strconv\<close> and \<open>fmt\<close> the code uses, Go maps, generic
    lemmas and the collections of simplification rules.
  \<^item> \<open>MQ_Errors\<close> (\<open>mqadmin/admin.go\<close>), \<open>Attr_Match\<close> (\<open>attrmatch.go\<close>, \<open>queue.go\<close>, \<open>channel.go\<close>),
    \<open>Auth_Match\<close> (\<open>auth.go\<close>, \<open>authmatch.go\<close>): errors and their classes, drift detection, comparison
    of rules and grants. Matching is an equivalence, drift is reported exactly when a checked
    attribute differs, and authority lists are compared as multisets except on blank entries.
  \<^item> \<open>Circuit_Breaker\<close>, \<open>Mqweb_Wire\<close>, \<open>LTPA\<close>, \<open>Resilience\<close> (\<open>circuit_breaker.go\<close>, \<open>ltpa.go\<close>,
    \<open>resilience.go\<close>, \<open>clientcert.go\<close>): the breaker refines a three-phase specification and keeps its
    invariant under every interleaving; backoff is bounded; the retry loop terminates, with a bound
    on the requests it sends; concurrent requests share one login.
  \<^item> \<open>MQSC_Params\<close>, \<open>MQSC_Response\<close>, \<open>MQSC_Auth\<close> (\<open>mqsc_params.go\<close>, \<open>mqsc_format.go\<close>,
    \<open>mqsc_types.go\<close>, \<open>mqsc_display_parse.go\<close>, the commands of \<open>auth.go\<close>): rendering, parsing and
    their round trips.
  \<^item> \<open>MQ_Client\<close> (\<open>client.go\<close>, \<open>auth.go\<close>, \<open>display_probe.go\<close>, \<open>display_probe_cache.go\<close>): all
    operations of the port; results are classified, deletes are idempotent, drift keys are cached.
  \<^item> \<open>Convergence\<close>: what is defined reads back without drift.
  \<^item> \<open>API_Types\<close> (\<open>api/v1beta1\<close>), \<open>Reconcile_Shared\<close> (\<open>reconcile_shared.go\<close> and the other helpers of
    \<open>internal/controller\<close>), \<open>Workload_Reconcilers\<close> (the five controllers): the resources, the shared
    steps, and one reconcile function over a record of what a kind supplies, with one instance per
    kind. Every run keeps a log of its effects (writes to MQ, status and object writes, events, counted drift).
  \<^item> \<open>Workload_Safety\<close>, \<open>Workload_Properties\<close>: the contract of a kind as the locale
    \<open>workload_contract\<close>, interpreted for the five kinds; observe-only never writes, writes only happen
    on drift and within the adoption policy, Synced=True is truthful, finalizers go only after
    cleanup, every run is followed up.
  \<^item> \<open>QMC_Reconciler\<close>, \<open>Client_Factory\<close>, \<open>Watches\<close> (\<open>queuemanagerconnection_controller.go\<close>,
    \<open>factory.go\<close>, \<open>secret_watch.go\<close>, \<open>suspend.go\<close>, \<open>cacheconfig\<close>): readiness is truthful, the client
    cache is sound, rotated secrets are picked up, and what the watches enqueue.
  \<^item> \<open>Client_Sessions\<close> (\<open>factory.go\<close>): the critical sections of concurrent calls as a step relation. Every client
    that is created is with its caller, in the cache, or closed, and a cached one is never closed.
  \<^item> \<open>Controllers\<close> (\<open>setupMQObjectController\<close>, the \<open>SetupWithManager\<close> methods, \<open>mqobject.go\<close>): the six
    controllers as they are described to the builder of controller-runtime, whose documented behaviour
    is \<open>builder_contract\<close>. No wake-up is lost, and a status write of a workload wakes nobody.
  \<^item> \<open>Go_Heap\<close>, \<open>Go_Structs\<close>, \<open>Deep_Copy\<close> (\<open>zz_generated.deepcopy.go\<close>): the API structs in a heap with
    pointers, slices and maps, and their copies. The contract of a copy is the locale \<open>deep_copier\<close>; it
    is kept by the statements a copy is made of and so by every struct. An object that is handed out
    by the cache can be changed without changing the cache.
  \<^item> \<open>Attr_Fold\<close> (\<open>conversion_attributes.go\<close>): folding attributes into typed fields keeps the desired
    state; the three tables are instances of the locales \<open>typed_fields\<close> and \<open>fold_table\<close>.
  \<^item> \<open>Validation\<close>, \<open>Webhook\<close> (\<open>internal/validation\<close>, \<open>internal/webhook/v1beta1\<close>): what is admitted,
    with which warnings, and what deletion needs.
  \<^item> \<open>Desired_Spec\<close>: the specification that the client is given is well formed, and typed fields win.
  \<^item> \<open>End_To_End\<close>: reconciler, port, client and a queue manager together; one apply is enough.
  \<^item> \<open>Lifecycle\<close>: whole reconcile runs over the client, an API server that stores what is written and a
    queue manager that serves its requests. The contract is the locale \<open>managed_object\<close>; a managed object
    reaches rest within two runs, is written once at most, and is removed in one run when deleted.
  \<^item> \<open>Rule_Display\<close>, \<open>Rule_Lifecycle\<close>, \<open>Grant_Lifecycle\<close>: CHLAUTH rules and AUTHREC grants as MQSC text to the
    queue manager and back, and the same life for them. A rule comes back as it was sent and reaches rest
    if only the fields of its type are set; with a field of another type it is applied again by every step.
    A grant reaches rest if its entity has no other authorities, and is added again by every step otherwise.
  \<^item> \<open>Recovery\<close>: the connection reconciler, the watches, the controllers, the breaker and the runs of an object
    over one world. When a queue manager answers again, its connection becomes ready, the objects that
    waited for it are enqueued, and they reach rest.
  \<^item> \<open>Metrics\<close> (\<open>internal/metrics\<close>), \<open>Observability\<close>, \<open>Breaker_Metrics\<close>: the counters and what their callers
    record. The drift counter rests on the locale \<open>drift_contract\<close>, an extension of \<open>workload_contract\<close>
    for the five kinds. Counting changes no result, but the labels are not those of the outcome in a few
    cases, which are stated.
  \<^item> \<open>Health\<close>, \<open>Logging\<close>, \<open>Operator_Main\<close>, \<open>PCF_Client\<close>: the readiness probe against the connection
    reconciler, masking and settings, the flags and the start of the process, the unfinished second
    client.
  \<^item> \<open>CRD_Ref\<close> (\<open>hack/tools/crd-ref-gen\<close>): rendering and injecting the reference tables is deterministic and
    idempotent, and keeps the text outside the markers.

  \<^bold>\<open>Bounds and fuel.\<close> No definition needs fuel: the retry loop is total by a measure on the attempts
  that are left, the scan for pairs in DISPLAY text and the search for markers in a page by the length of the
  rest, the rendering of schemas by their size, and all other loops are structural. The LTPA path re-authenticates at
  most once by construction. Time is an \<open>int\<close> of nanoseconds.

  \<^bold>\<open>Not modelled.\<close> Scheme registration; what controller-runtime does inside (queues, informers, the
  manager), of which only the descriptions the repository supplies are modelled; the copies of the structs
  of apimachinery; the accessors of package variables and the error constructors that nothing calls; TLS key parsing and the connection pool of
  \<open>net/http\<close>; the bytes of
  JSON and YAML (a request body is the value that is marshalled, decoding is a parameter); CEL rules
  and CRD schemas, which the API server evaluates; the registry of the Prometheus library; the test
  helpers. Concurrency is modelled where the code locks (breaker, LTPA session, client cache);
  reconcile runs of one object are sequential, as controller-runtime guarantees.

  \<^bold>\<open>Open.\<close> The conditions of a status as a map by type, through every run; reconcile runs of
  several objects and both controllers interleaved in any order over one store.
\<close>

end
